(* ===== verification/Prelude.thy ===== *)
theory Prelude
  imports Main "HOL-Library.Word" "HOL-Library.Sublist"
begin

text \<open>
  What every component of the development shares.

  A Go \<open>string\<close> (and a \<open>[]byte\<close>) is a \<open>string\<close> of HOL, that is a list of bytes:
  \<open>length\<close> is Go's \<open>len\<close>, a rune outside ASCII is its UTF-8 byte sequence. The functions
  of the package \<open>strings\<close> that the sources use are defined here on bytes, with the
  Unicode white space of \<open>unicode.IsSpace\<close> spelled out. A Go \<open>error\<close> is a constructor
  of an error datatype, a result \<open>(T, error)\<close> is a value of \<open>error + T\<close>.

  The collections: \<open>go_enum\<close> holds the distinctness of the sources' string constants,
  \<open>go_consts\<close> their definitions (for evaluation), \<open>go_text\<close> facts on string operations.
\<close>

named_theorems go_enum \<open>distinctness of the string constants of the sources\<close>
named_theorems go_consts \<open>definitions of the string constants of the sources\<close>
named_theorems go_text \<open>facts on Go string operations\<close>

type_synonym go_time = int

section \<open>Lists and sums\<close>

lemma find_Some_in: "find P xs = Some x \<Longrightarrow> x \<in> set xs \<and> P x"
  by (induction xs) (auto split: if_splits)

lemma find_None_all: "find P xs = None \<longleftrightarrow> (\<forall>x \<in> set xs. \<not> P x)"
  by (induction xs) auto

definition is_ok :: "'e + 'a \<Rightarrow> bool" where
  "is_ok r = (case r of Inl _ \<Rightarrow> False | Inr _ \<Rightarrow> True)"

lemma is_ok_simps [simp]: "is_ok (Inr x)" "\<not> is_ok (Inl e)"
  by (simp_all add: is_ok_def)

lemma is_ok_Inr: "is_ok r \<longleftrightarrow> (\<exists>x. r = Inr x)"
  by (cases r) auto

section \<open>Prefixes, substrings, joining and splitting\<close>

definition has_prefix :: "string \<Rightarrow> string \<Rightarrow> bool" where
  "has_prefix s p = (take (length p) s = p)"

definition has_suffix :: "string \<Rightarrow> string \<Rightarrow> bool" where
  "has_suffix s p = has_prefix (rev s) (rev p)"

fun contains :: "string \<Rightarrow> string \<Rightarrow> bool" where
  "contains [] sub = (sub = [])"
| "contains (c # s) sub = (has_prefix (c # s) sub \<or> contains s sub)"

lemma has_prefix_iff [go_text]: "has_prefix s p \<longleftrightarrow> (\<exists>r. s = p @ r)"
  unfolding has_prefix_def by (metis append_take_drop_id append_eq_conv_conj)

lemma has_prefix_Nil [simp]: "has_prefix s []"
  by (simp add: has_prefix_def)

lemma has_prefix_Cons [simp]:
  "has_prefix (c # s) (d # p) \<longleftrightarrow> c = d \<and> has_prefix s p"
  "has_prefix [] (d # p) \<longleftrightarrow> False"
  by (auto simp: has_prefix_def)

lemma has_suffix_iff [go_text]: "has_suffix s p \<longleftrightarrow> (\<exists>l. s = l @ p)"
  unfolding has_suffix_def has_prefix_iff by (metis rev_append rev_rev_ident)

lemma contains_iff: "contains s sub \<longleftrightarrow> (\<exists>l r. s = l @ sub @ r)"
proof (induction s)
  case Nil
  then show ?case by auto
next
  case (Cons c s)
  show ?case
  proof
    assume "contains (c # s) sub"
    then consider "has_prefix (c # s) sub" | "contains s sub" by auto
    then show "\<exists>l r. c # s = l @ sub @ r"
    proof cases
      case 1
      then show ?thesis by (metis append_Nil has_prefix_iff)
    next
      case 2
      then show ?thesis using Cons.IH by (metis append_Cons)
    qed
  next
    assume "\<exists>l r. c # s = l @ sub @ r"
    then obtain l r where e: "c # s = l @ sub @ r" by blast
    show "contains (c # s) sub"
    proof (cases l)
      case Nil
      with e have "has_prefix (c # s) sub" unfolding has_prefix_iff by (metis append_Nil)
      then show ?thesis by simp
    next
      case (Cons d l')
      with e Cons.IH show ?thesis by auto
    qed
  qed
qed

fun join :: "string \<Rightarrow> string list \<Rightarrow> string" where
  "join sep [] = []"
| "join sep [x] = x"
| "join sep (x # y # xs) = x @ sep @ join sep (y # xs)"

fun split_on :: "char \<Rightarrow> string \<Rightarrow> string list" where
  "split_on c [] = [ [] ]"
| "split_on c (d # s) =
     (if d = c then [] # split_on c s
      else (case split_on c s of [] \<Rightarrow> [ [d] ] | p # ps \<Rightarrow> (d # p) # ps))"

lemma split_on_nonempty [simp]: "split_on c s \<noteq> []"
  by (induction s) (auto split: list.splits)

lemma split_on_no_sep: "p \<in> set (split_on c s) \<Longrightarrow> c \<notin> set p"
  by (induction s arbitrary: p) (auto split: if_splits list.splits)

lemma join_Cons: "xs \<noteq> [] \<Longrightarrow> join sep (x # xs) = x @ sep @ join sep xs"
  by (cases xs) auto

lemma join_split_on: "join [c] (split_on c s) = s"
proof (induction s)
  case Nil
  then show ?case by simp
next
  case (Cons d s)
  obtain p ps where sp: "split_on c s = p # ps" by (cases "split_on c s") auto
  with Cons show ?case by (cases ps) (auto simp: join_Cons)
qed

lemma split_on_single: "c \<notin> set s \<Longrightarrow> split_on c s = [s]"
  by (induction s) auto

lemma split_on_append_sep:
  "c \<notin> set a \<Longrightarrow> split_on c (a @ c # s) = a # split_on c s"
  by (induction a) auto

lemma split_on_join:
  "xs \<noteq> [] \<Longrightarrow> \<forall>x \<in> set xs. c \<notin> set x \<Longrightarrow> split_on c (join [c] xs) = xs"
proof (induction xs)
  case Nil
  then show ?case by simp
next
  case (Cons x xs)
  then show ?case
    by (cases "xs = []") (auto simp: split_on_single join_Cons split_on_append_sep)
qed

section \<open>White space\<close>

definition ascii_space :: "char \<Rightarrow> bool" where
  "ascii_space c \<longleftrightarrow> c \<in> {CHR 0x09, CHR 0x0A, CHR 0x0B, CHR 0x0C, CHR 0x0D, CHR 0x20}"

text \<open>The white space runes of two and of three UTF-8 bytes: U+0085, U+00A0 and U+1680,
  U+2000 to U+200A, U+2028, U+2029, U+202F, U+205F, U+3000.\<close>

definition space2 :: "char \<Rightarrow> char \<Rightarrow> bool" where
  "space2 a b \<longleftrightarrow> a = CHR 0xC2 \<and> (b = CHR 0x85 \<or> b = CHR 0xA0)"

definition space3 :: "char \<Rightarrow> char \<Rightarrow> char \<Rightarrow> bool" where
  "space3 a b c \<longleftrightarrow>
     (a = CHR 0xE1 \<and> b = CHR 0x9A \<and> c = CHR 0x80) \<or>
     (a = CHR 0xE2 \<and> b = CHR 0x80 \<and>
       (0x80 \<le> (of_char c :: nat) \<and> (of_char c :: nat) \<le> 0x8A
        \<or> c \<in> {CHR 0xA8, CHR 0xA9, CHR 0xAF})) \<or>
     (a = CHR 0xE2 \<and> b = CHR 0x81 \<and> c = CHR 0x9F) \<or>
     (a = CHR 0xE3 \<and> b = CHR 0x80 \<and> c = CHR 0x80)"

fun trim_left :: "string \<Rightarrow> string" where
  "trim_left [] = []"
| "trim_left [a] = (if ascii_space a then [] else [a])"
| "trim_left [a, b] =
     (if ascii_space a then trim_left [b] else if space2 a b then [] else [a, b])"
| "trim_left (a # b # c # s) =
     (if ascii_space a then trim_left (b # c # s)
      else if space2 a b then trim_left (c # s)
      else if space3 a b c then trim_left s
      else a # b # c # s)"

fun trim_rev :: "string \<Rightarrow> string" where
  "trim_rev [] = []"
| "trim_rev [a] = (if ascii_space a then [] else [a])"
| "trim_rev [a, b] =
     (if ascii_space a then trim_rev [b] else if space2 b a then [] else [a, b])"
| "trim_rev (a # b # c # s) =
     (if ascii_space a then trim_rev (b # c # s)
      else if space2 b a then trim_rev (c # s)
      else if space3 c b a then trim_rev s
      else a # b # c # s)"

definition trim_right :: "string \<Rightarrow> string" where
  "trim_right s = rev (trim_rev (rev s))"

definition trim_space :: "string \<Rightarrow> string" where
  "trim_space s = trim_right (trim_left s)"

definition graphic :: "char \<Rightarrow> bool" where
  "graphic c \<longleftrightarrow> (33::nat) \<le> of_char c \<and> of_char c \<le> (126::nat)"

lemma graphic_not_space: "graphic c \<Longrightarrow> \<not> ascii_space c"
  by (auto simp: graphic_def ascii_space_def)

lemma graphic_not_lead: "graphic c \<Longrightarrow> \<not> space2 c d \<and> \<not> space2 d c
    \<and> \<not> space3 c d e \<and> \<not> space3 e d c"
  by (auto simp: graphic_def space2_def space3_def)

lemma trim_left_graphic: "graphic c \<Longrightarrow> trim_left (c # s) = c # s"
  by (cases "c # s" rule: trim_left.cases) (auto simp: graphic_not_space graphic_not_lead)

lemma trim_rev_graphic: "graphic c \<Longrightarrow> trim_rev (c # s) = c # s"
  by (cases "c # s" rule: trim_rev.cases) (auto simp: graphic_not_space graphic_not_lead)

lemma trim_left_suffix: "suffix (trim_left s) s"
  by (induction s rule: trim_left.induct) (auto intro: suffix_ConsI)

lemma trim_rev_suffix: "suffix (trim_rev s) s"
  by (induction s rule: trim_rev.induct) (auto intro: suffix_ConsI)

lemma trim_space_sub: "\<exists>l r. s = l @ trim_space s @ r"
proof -
  obtain l where "s = l @ trim_left s" using trim_left_suffix by (metis suffixE)
  moreover obtain r where "rev (trim_left s) = r @ trim_rev (rev (trim_left s))"
    using trim_rev_suffix by (metis suffixE)
  then have "trim_left s = trim_space s @ rev r"
    unfolding trim_space_def trim_right_def by (metis rev_append rev_rev_ident)
  ultimately show ?thesis by metis
qed

lemma length_trim_space: "length (trim_space s) \<le> length s"
  using trim_space_sub [of s] by (metis length_append le_add1 le_add2 order_trans)

lemma set_trim_space: "set (trim_space s) \<subseteq> set s"
  using trim_space_sub [of s] by (metis Un_upper1 Un_upper2 order_trans set_append)

lemma trim_space_Nil [simp]: "trim_space [] = []"
  by (simp add: trim_space_def trim_right_def)

text \<open>A text whose trimming from the left starts with a graphic character is not blank.\<close>

lemma trim_rev_graphic_last: "graphic c \<Longrightarrow> trim_rev (xs @ [c]) \<noteq> []"
proof (induction xs rule: trim_rev.induct)
  case 1
  then show ?case by (simp add: graphic_not_space)
next
  case (2 a)
  then show ?case by (auto simp: graphic_not_space graphic_not_lead)
next
  case (3 a b)
  then show ?case by (auto simp: graphic_not_space graphic_not_lead)
next
  case (4 a b c s)
  then show ?case by auto
qed

lemma trim_space_nonblank: "trim_left s = c # r \<Longrightarrow> graphic c \<Longrightarrow> trim_space s \<noteq> []"
  by (simp add: trim_space_def trim_right_def trim_rev_graphic_last)

lemma trim_space_graphic:
  assumes "s \<noteq> []" "graphic (hd s)" "graphic (last s)"
  shows "trim_space s = s"
proof -
  obtain c t where s: "s = c # t" using assms(1) by (cases s) auto
  have l: "trim_left s = s" using s assms(2) by (simp add: trim_left_graphic)
  obtain d u where r: "rev s = d # u" using assms(1) by (cases "rev s") auto
  then have "graphic d" using assms(1,3) by (metis hd_rev list.sel(1))
  then have "trim_rev (rev s) = rev s" using r by (simp add: trim_rev_graphic)
  then show ?thesis by (simp add: trim_space_def trim_right_def l)
qed

lemma trim_space_all_graphic [go_text]: "list_all graphic s \<Longrightarrow> trim_space s = s"
proof (cases "s = []")
  case False
  moreover assume "list_all graphic s"
  ultimately show ?thesis
    by (metis hd_in_set last_in_set list_all_iff trim_space_graphic)
qed simp

text \<open>Trimming is idempotent: what is left starts and ends with no white space rune.\<close>

definition lead_space :: "string \<Rightarrow> bool" where
  "lead_space s \<longleftrightarrow> (\<exists>a t. s = a # t \<and> ascii_space a) \<or> (\<exists>a b t. s = a # b # t \<and> space2 a b)
     \<or> (\<exists>a b c t. s = a # b # c # t \<and> space3 a b c)"

lemma trim_left_fix: "\<not> lead_space s \<Longrightarrow> trim_left s = s"
  by (cases s rule: trim_left.cases) (auto simp: lead_space_def)

lemma trim_left_lead: "\<not> lead_space (trim_left s)"
  by (induction s rule: trim_left.induct) (auto simp: lead_space_def)

lemma lead_space_prefix: "\<not> lead_space s \<Longrightarrow> prefix p s \<Longrightarrow> \<not> lead_space p"
  unfolding lead_space_def prefix_def by (metis append_Cons)

definition tail_space :: "string \<Rightarrow> bool" where
  "tail_space s \<longleftrightarrow> (\<exists>a t. s = a # t \<and> ascii_space a) \<or> (\<exists>a b t. s = a # b # t \<and> space2 b a)
     \<or> (\<exists>a b c t. s = a # b # c # t \<and> space3 c b a)"

lemma trim_rev_fix: "\<not> tail_space s \<Longrightarrow> trim_rev s = s"
  by (cases s rule: trim_rev.cases) (auto simp: tail_space_def)

lemma trim_rev_tail: "\<not> tail_space (trim_rev s)"
  by (induction s rule: trim_rev.induct) (auto simp: tail_space_def)

lemma trim_space_idem [simp]: "trim_space (trim_space s) = trim_space s"
proof -
  have "prefix (trim_space s) (trim_left s)"
    using trim_rev_suffix [of "rev (trim_left s)"]
    by (simp add: trim_space_def trim_right_def suffix_to_prefix)
  then have "trim_left (trim_space s) = trim_space s"
    using lead_space_prefix trim_left_lead trim_left_fix by blast
  then show ?thesis
    by (simp add: trim_space_def trim_right_def trim_rev_fix trim_rev_tail)
qed

section \<open>Case mapping\<close>

text \<open>
  \<open>strings.ToLower\<close> and \<open>strings.ToUpper\<close>, exact wherever the result is compared with ASCII
  text, which is how the sources use them: ASCII letters are mapped, so are the runes outside
  ASCII whose image is ASCII (U+212A to k, U+0130 to i; U+017F to S, U+0131 to I); every other
  rune maps to a rune outside ASCII and is left as it is.
\<close>

definition lower_char :: "char \<Rightarrow> char" where
  "lower_char c = (let n = (of_char c :: nat) in if 65 \<le> n \<and> n \<le> 90 then char_of (n + 32) else c)"

definition upper_char :: "char \<Rightarrow> char" where
  "upper_char c = (let n = (of_char c :: nat) in if 97 \<le> n \<and> n \<le> 122 then char_of (n - 32) else c)"

fun to_lower :: "string \<Rightarrow> string" where
  "to_lower (a # b # c # s) =
     (if a = CHR 0xE2 \<and> b = CHR 0x84 \<and> c = CHR 0xAA then CHR 0x6B # to_lower s
      else if a = CHR 0xC4 \<and> b = CHR 0xB0 then CHR 0x69 # to_lower (c # s)
      else lower_char a # to_lower (b # c # s))"
| "to_lower [a, b] =
     (if a = CHR 0xC4 \<and> b = CHR 0xB0 then [CHR 0x69] else [lower_char a, lower_char b])"
| "to_lower [a] = [lower_char a]"
| "to_lower [] = []"

fun to_upper :: "string \<Rightarrow> string" where
  "to_upper (a # b # s) =
     (if a = CHR 0xC5 \<and> b = CHR 0xBF then CHR 0x53 # to_upper s
      else if a = CHR 0xC4 \<and> b = CHR 0xB1 then CHR 0x49 # to_upper s
      else upper_char a # to_upper (b # s))"
| "to_upper [a] = [upper_char a]"
| "to_upper [] = []"

section \<open>Numbers as text\<close>

definition digit_char :: "nat \<Rightarrow> char" where
  "digit_char d = char_of (48 + d)"

fun dec :: "nat \<Rightarrow> string" where
  "dec n = (if n < 10 then [digit_char n] else dec (n div 10) @ [digit_char (n mod 10)])"

declare dec.simps [simp del]

definition dec_int :: "int \<Rightarrow> string" where
  "dec_int i = (if i < 0 then CHR ''-'' # dec (nat (- i)) else dec (nat i))"

text \<open>\<open>fmt.Sprintf("%06d", n)\<close> for a number that is not negative.\<close>

definition pad6 :: "nat \<Rightarrow> string" where
  "pad6 n = replicate (6 - length (dec n)) (CHR ''0'') @ dec n"

fun undec :: "string \<Rightarrow> nat \<Rightarrow> nat" where
  "undec [] acc = acc"
| "undec (c # s) acc = undec s (10 * acc + (of_char c - 48))"

lemma of_digit_char: "d < 10 \<Longrightarrow> (of_char (digit_char d) :: nat) = 48 + d"
  by (simp add: digit_char_def)

lemma undec_append: "undec (a @ b) acc = undec b (undec a acc)"
  by (induction a arbitrary: acc) auto

lemma undec_dec: "undec (dec n) 0 = n"
proof (induction n rule: dec.induct)
  case (1 n)
  show ?case
  proof (cases "n < 10")
    case True
    then show ?thesis by (simp add: dec.simps [of n] of_digit_char)
  next
    case False
    with "1.IH" show ?thesis by (simp add: dec.simps [of n] undec_append of_digit_char)
  qed
qed

lemma undec_zeros: "undec (replicate k (CHR ''0'') @ s) 0 = undec s 0"
  by (induction k) auto

lemma pad6_inj: "pad6 m = pad6 n \<Longrightarrow> m = n"
  unfolding pad6_def by (metis undec_dec undec_zeros)

lemma pad6_eq_iff [simp]: "pad6 m = pad6 n \<longleftrightarrow> m = n"
  using pad6_inj by blast

lemma dec_digits: "list_all graphic (dec n)"
proof (induction n rule: dec.induct)
  case (1 n)
  have "graphic (digit_char (n mod 10))" by (simp add: graphic_def of_digit_char)
  then show ?case using 1
    by (cases "n < 10") (auto simp: dec.simps [of n])
qed

end
