(* ===== verification/Regexp.thy ===== *)
theory Regexp
  imports Prelude
begin

text \<open>
  The fragment of Go's package \<open>regexp\<close> that the sources use: leftmost-first (Perl)
  matching over the syntax their patterns are written in. \<open>rmatch r s\<close> lists the rests of
  \<open>s\<close> after every way \<open>r\<close> matches a prefix of it, in the order of preference; Go's match at
  a position is the first. \<open>replace_all\<close> is \<open>ReplaceAllStringFunc\<close> and \<open>rx_search\<close> is
  \<open>MatchString\<close>. The patterns delimit their runs by ASCII characters, so bytes stand for
  runes; a rune outside ASCII that case folding adds is a sequence of bytes in the pattern.
\<close>

section \<open>Syntax and matching\<close>

datatype rx =
    Eps
  | Cls "char \<Rightarrow> bool"
  | Seq rx rx
  | Alt rx rx
  | Star rx
  | LazyStar rx
  | EndText

fun rmatch :: "rx \<Rightarrow> string \<Rightarrow> string list" where
  "rmatch Eps s = [s]"
| "rmatch (Cls p) s = (case s of [] \<Rightarrow> [] | c # t \<Rightarrow> if p c then [t] else [])"
| "rmatch (Seq a b) s = concat (map (rmatch b) (rmatch a s))"
| "rmatch (Alt a b) s = rmatch a s @ rmatch b s"
| "rmatch (Star a) s =
     concat (map (\<lambda>t. if length t < length s then rmatch (Star a) t else []) (rmatch a s)) @ [s]"
| "rmatch (LazyStar a) s =
     s # concat (map (\<lambda>t. if length t < length s then rmatch (LazyStar a) t else []) (rmatch a s))"
| "rmatch EndText s = (if s = [] then [ [] ] else [])"

declare rmatch.simps(5,6) [simp del]

fun lit :: "string \<Rightarrow> rx" where
  "lit [] = Eps"
| "lit (c # s) = Seq (Cls (\<lambda>d. d = c)) (lit s)"

fun rep :: "nat \<Rightarrow> rx \<Rightarrow> rx" where
  "rep 0 r = Eps"
| "rep (Suc n) r = Seq r (rep n r)"

definition opt :: "rx \<Rightarrow> rx" where "opt r = Alt r Eps"

definition plus :: "rx \<Rightarrow> rx" where "plus r = Seq r (Star r)"

fun alts :: "rx list \<Rightarrow> rx" where
  "alts [] = Cls (\<lambda>_. False)"
| "alts [r] = r"
| "alts (r # q # rs) = Alt r (alts (q # rs))"

text \<open>Case folding of \<open>(?i)\<close>: k also matches U+212A, s also matches U+017F.\<close>

definition ci :: "char \<Rightarrow> rx" where
  "ci c = (let l = lower_char c; u = upper_char c; r = Cls (\<lambda>d. d = l \<or> d = u) in
     if l = CHR ''k'' then Alt r (lit [CHR 0xE2, CHR 0x84, CHR 0xAA])
     else if l = CHR ''s'' then Alt r (lit [CHR 0xC5, CHR 0xBF])
     else r)"

fun ci_lit :: "string \<Rightarrow> rx" where
  "ci_lit [] = Eps"
| "ci_lit (c # s) = Seq (ci c) (ci_lit s)"

text \<open>The class \<open>\s\<close>: it has no vertical tab.\<close>

definition rx_space :: "char \<Rightarrow> bool" where
  "rx_space c \<longleftrightarrow> c \<in> {CHR 0x09, CHR 0x0A, CHR 0x0C, CHR 0x0D, CHR 0x20}"

section \<open>Searching and replacing\<close>

fun rx_search :: "rx \<Rightarrow> string \<Rightarrow> bool" where
  "rx_search r [] = (rmatch r [] \<noteq> [])"
| "rx_search r (c # s) = (rmatch r (c # s) \<noteq> [] \<or> rx_search r s)"

function replace_all :: "rx \<Rightarrow> (string \<Rightarrow> string) \<Rightarrow> string \<Rightarrow> string" where
  "replace_all r f s =
     (case rmatch r s of
        t # _ \<Rightarrow>
          if length t < length s
          then f (take (length s - length t) s) @ replace_all r f t
          else (case s of [] \<Rightarrow> [] | c # u \<Rightarrow> c # replace_all r f u)
      | [] \<Rightarrow> (case s of [] \<Rightarrow> [] | c # u \<Rightarrow> c # replace_all r f u))"
  by pat_completeness auto
termination
  by (relation "measure (\<lambda>(r, f, s). length s)") auto

declare replace_all.simps [simp del]

section \<open>Facts\<close>

lemma rmatch_Star_cases:
  assumes "t \<in> set (rmatch (Star a) s)"
  obtains "t = s" | u where "u \<in> set (rmatch a s)" "length u < length s"
    "t \<in> set (rmatch (Star a) u)"
  using assms by (subst (asm) rmatch.simps(5)) (auto split: if_splits)

lemma rmatch_LazyStar_cases:
  assumes "t \<in> set (rmatch (LazyStar a) s)"
  obtains "t = s" | u where "u \<in> set (rmatch a s)" "length u < length s"
    "t \<in> set (rmatch (LazyStar a) u)"
  using assms by (subst (asm) rmatch.simps(6)) (auto split: if_splits)

lemma rmatch_suffix: "t \<in> set (rmatch r s) \<Longrightarrow> suffix t s"
proof (induction r arbitrary: s t)
  case (Seq a b)
  from Seq.prems obtain u where "u \<in> set (rmatch a s)" "t \<in> set (rmatch b u)" by auto
  then show ?case using Seq.IH suffix_order.trans by blast
next
  case (Star a)
  from Star.prems show ?case
  proof (induction s rule: length_induct)
    case (1 s)
    from "1.prems" show ?case
      by (rule rmatch_Star_cases) (use "1.IH" Star.IH suffix_order.trans in \<open>blast+\<close>)
  qed
next
  case (LazyStar a)
  from LazyStar.prems show ?case
  proof (induction s rule: length_induct)
    case (1 s)
    from "1.prems" show ?case
      by (rule rmatch_LazyStar_cases) (use "1.IH" LazyStar.IH suffix_order.trans in \<open>blast+\<close>)
  qed
qed (auto split: list.splits if_splits intro: suffix_ConsI)

lemma rmatch_split: "t \<in> set (rmatch r s) \<Longrightarrow> s = take (length s - length t) s @ t"
  by (drule rmatch_suffix) (auto simp: suffix_def)

fun min_len :: "rx \<Rightarrow> nat" where
  "min_len Eps = 0"
| "min_len (Cls p) = 1"
| "min_len (Seq a b) = min_len a + min_len b"
| "min_len (Alt a b) = min (min_len a) (min_len b)"
| "min_len (Star a) = 0"
| "min_len (LazyStar a) = 0"
| "min_len EndText = 0"

lemma rmatch_min_len: "t \<in> set (rmatch r s) \<Longrightarrow> length t + min_len r \<le> length s"
proof (induction r arbitrary: s t)
  case (Seq a b)
  from Seq.prems obtain u where u: "u \<in> set (rmatch a s)" "t \<in> set (rmatch b u)" by auto
  from Seq.IH(1)[OF u(1)] Seq.IH(2)[OF u(2)] show ?case by simp
next
  case (Alt a b)
  from Alt.prems consider "t \<in> set (rmatch a s)" | "t \<in> set (rmatch b s)" by auto
  then show ?case
    by cases (use Alt.IH in \<open>fastforce simp: min_def\<close>)+
next
  case (Star a)
  then show ?case by (auto dest: rmatch_suffix simp: suffix_length_le)
next
  case (LazyStar a)
  then show ?case by (auto dest: rmatch_suffix simp: suffix_length_le)
qed (auto split: list.splits if_splits)

lemma min_len_lit [simp]: "min_len (lit s) = length s"
  by (induction s) auto

lemma min_len_rep [simp]: "min_len (rep n r) = n * min_len r"
  by (induction n) auto

lemma rmatch_lit: "rmatch (lit p) s = (if has_prefix s p then [drop (length p) s] else [])"
proof (induction p arbitrary: s)
  case Nil
  then show ?case by simp
next
  case (Cons c p)
  then show ?case by (cases s) auto
qed

lemma rmatch_rep_Cls:
  "rmatch (rep n (Cls p)) s =
     (if n \<le> length s \<and> list_all p (take n s) then [drop n s] else [])"
proof (induction n arbitrary: s)
  case 0
  then show ?case by simp
next
  case (Suc n)
  then show ?case by (cases s) auto
qed

text \<open>One step of a replacement, for a pattern that matches no empty text.\<close>

lemma replace_all_Nil: "0 < min_len r \<Longrightarrow> replace_all r f [] = []"
  by (subst replace_all.simps) (auto split: list.splits)

lemma replace_all_no_match: "rmatch r (c # s) = [] \<Longrightarrow> replace_all r f (c # s) = c # replace_all r f s"
  by (subst replace_all.simps) simp

lemma replace_all_match:
  assumes "0 < min_len r" "rmatch r s = t # ts"
  shows "replace_all r f s = f (take (length s - length t) s) @ replace_all r f t"
proof -
  have "length t < length s"
    using rmatch_min_len [of t r s] assms by simp
  then show ?thesis using assms(2) by (subst replace_all.simps) simp
qed

lemma replace_all_induct [consumes 1, case_names Nil Skip Match]:
  assumes "0 < min_len r"
    and nil: "P []"
    and skip: "\<And>c s. rmatch r (c # s) = [] \<Longrightarrow> P s \<Longrightarrow> P (c # s)"
    and mat: "\<And>m t ts. m \<noteq> [] \<Longrightarrow> rmatch r (m @ t) = t # ts \<Longrightarrow> P t \<Longrightarrow> P (m @ t)"
  shows "P s"
proof (induction s rule: length_induct)
  case (1 s)
  show ?case
  proof (cases "rmatch r s")
    case Nil
    then show ?thesis using 1 nil skip by (cases s) auto
  next
    case (Cons t ts)
    let ?m = "take (length s - length t) s"
    have len: "length t < length s"
      using rmatch_min_len [of t r s] assms(1) Cons by simp
    have s: "s = ?m @ t" using rmatch_split [of t r s] Cons by simp
    have "?m \<noteq> []" using len by auto
    then have "P (?m @ t)" using mat [of ?m t ts] Cons s len 1 by simp
    then show ?thesis using s by simp
  qed
qed

lemma replace_all_matched:
  assumes "0 < min_len r" "rmatch r (m @ t) = t # ts"
  shows "replace_all r f (m @ t) = f m @ replace_all r f t"
  using replace_all_match [OF assms] by simp

lemma replace_all_id: "0 < min_len r \<Longrightarrow> \<not> rx_search r s \<Longrightarrow> replace_all r f s = s"
  by (induction s) (auto simp: replace_all_Nil replace_all_no_match)

lemma rx_search_append: "rx_search r t \<Longrightarrow> rx_search r (s @ t)"
  by (induction s) auto

lemma rx_search_iff: "rx_search r s \<longleftrightarrow> (\<exists>l t. s = l @ t \<and> rmatch r t \<noteq> [])"
proof (induction s)
  case Nil
  then show ?case by auto
next
  case (Cons c s)
  show ?case
  proof
    assume "rx_search r (c # s)"
    then consider "rmatch r (c # s) \<noteq> []" | "rx_search r s" by auto
    then show "\<exists>l t. c # s = l @ t \<and> rmatch r t \<noteq> []"
      using Cons.IH by cases (blast, metis append_Cons)
  next
    assume "\<exists>l t. c # s = l @ t \<and> rmatch r t \<noteq> []"
    then obtain l t where "c # s = l @ t" "rmatch r t \<noteq> []" by blast
    then show "rx_search r (c # s)"
      using Cons.IH by (cases l) auto
  qed
qed

lemma rx_search_short: "length s < min_len r \<Longrightarrow> \<not> rx_search r s"
proof
  assume "length s < min_len r" "rx_search r s"
  moreover from this(2) obtain l t u where "s = l @ t" "u \<in> set (rmatch r t)"
    unfolding rx_search_iff by (metis list.set_intros(1) neq_Nil_conv)
  ultimately show False using rmatch_min_len [of u r t] by simp
qed

end
