(* ===== verification/Utf8.thy ===== *)
theory Utf8
  imports Prelude
begin

text \<open>
  UTF-8 as Go decodes it (package \<open>unicode/utf8\<close> and \<open>range\<close> over a string): the width of
  the rune at the head of a byte string, 1 for a byte that starts no valid encoding, and
  \<open>utf8.ValidString\<close>.
\<close>

definition byte_in :: "char \<Rightarrow> nat \<Rightarrow> nat \<Rightarrow> bool" where
  "byte_in c lo hi \<longleftrightarrow> lo \<le> (of_char c :: nat) \<and> (of_char c :: nat) \<le> hi"

definition rune2 :: "char \<Rightarrow> char \<Rightarrow> bool" where
  "rune2 a b \<longleftrightarrow> byte_in a 0xC2 0xDF \<and> byte_in b 0x80 0xBF"

definition rune3 :: "char \<Rightarrow> char \<Rightarrow> char \<Rightarrow> bool" where
  "rune3 a b c \<longleftrightarrow> byte_in a 0xE0 0xEF \<and>
     byte_in b (if a = CHR 0xE0 then 0xA0 else 0x80) (if a = CHR 0xED then 0x9F else 0xBF) \<and>
     byte_in c 0x80 0xBF"

definition rune4 :: "char \<Rightarrow> char \<Rightarrow> char \<Rightarrow> char \<Rightarrow> bool" where
  "rune4 a b c d \<longleftrightarrow> byte_in a 0xF0 0xF4 \<and>
     byte_in b (if a = CHR 0xF0 then 0x90 else 0x80) (if a = CHR 0xF4 then 0x8F else 0xBF) \<and>
     byte_in c 0x80 0xBF \<and> byte_in d 0x80 0xBF"

fun rune_width :: "string \<Rightarrow> nat" where
  "rune_width [] = 0"
| "rune_width [a] = 1"
| "rune_width [a, b] = (if rune2 a b then 2 else 1)"
| "rune_width [a, b, c] = (if rune2 a b then 2 else if rune3 a b c then 3 else 1)"
| "rune_width (a # b # c # d # s) =
     (if rune2 a b then 2 else if rune3 a b c then 3 else if rune4 a b c d then 4 else 1)"

lemma rune_width_pos: "s \<noteq> [] \<Longrightarrow> 0 < rune_width s"
  by (cases s rule: rune_width.cases) auto

lemma rune_width_le: "rune_width s \<le> length s"
  by (cases s rule: rune_width.cases) auto

definition is_ascii :: "char \<Rightarrow> bool" where
  "is_ascii c \<longleftrightarrow> (of_char c :: nat) < 0x80"

lemma rune_lead_not_ascii:
  "is_ascii a \<Longrightarrow> \<not> rune2 a b \<and> \<not> rune3 a b c \<and> \<not> rune4 a b c d"
  by (auto simp: is_ascii_def rune2_def rune3_def rune4_def byte_in_def)

lemma rune_width_ascii: "is_ascii a \<Longrightarrow> rune_width (a # s) = 1"
  by (cases "a # s" rule: rune_width.cases) (auto simp: rune_lead_not_ascii)

lemma rune_exclusive:
  "rune2 a b \<Longrightarrow> \<not> rune3 a b' c \<and> \<not> rune4 a b'' c' d"
  "rune3 a b c \<Longrightarrow> \<not> rune4 a b' c' d"
  by (auto simp: rune2_def rune3_def rune4_def byte_in_def)

definition valid_head :: "string \<Rightarrow> bool" where
  "valid_head s \<longleftrightarrow> s \<noteq> [] \<and> (1 < rune_width s \<or> is_ascii (hd s))"

lemma rune_width_append: "1 < rune_width s \<Longrightarrow> rune_width (s @ t) = rune_width s"
  by (cases s rule: rune_width.cases)
    (cases t; (cases "tl t")?; auto split: if_splits dest: rune_exclusive)+

lemma valid_head_append:
  assumes "valid_head s"
  shows "rune_width (s @ t) = rune_width s \<and> valid_head (s @ t)"
proof (cases "is_ascii (hd s)")
  case True
  then show ?thesis using assms by (cases s) (auto simp: valid_head_def rune_width_ascii)
next
  case False
  then have "1 < rune_width s" "s \<noteq> []" using assms by (auto simp: valid_head_def)
  then show ?thesis by (simp add: valid_head_def rune_width_append)
qed

function utf8_valid :: "string \<Rightarrow> bool" where
  "utf8_valid s = (if s = [] then True else valid_head s \<and> utf8_valid (drop (rune_width s) s))"
  by pat_completeness auto
termination
  by (relation "measure length") (auto simp: rune_width_pos)

declare utf8_valid.simps [simp del]

lemma utf8_valid_Nil [simp]: "utf8_valid []"
  by (simp add: utf8_valid.simps)

lemma utf8_valid_append: "utf8_valid a \<Longrightarrow> utf8_valid (a @ b) = utf8_valid b"
proof (induction a rule: utf8_valid.induct)
  case (1 a)
  show ?case
  proof (cases "a = []")
    case False
    with "1.prems" have v: "valid_head a" "utf8_valid (drop (rune_width a) a)"
      by (auto simp: utf8_valid.simps [of a])
    have "utf8_valid (a @ b) = utf8_valid (drop (rune_width a) (a @ b))"
      using False valid_head_append [OF v(1), of b] by (simp add: utf8_valid.simps [of "a @ b"])
    also have "drop (rune_width a) (a @ b) = drop (rune_width a) a @ b"
      using rune_width_le [of a] by simp
    finally show ?thesis using 1 False v by simp
  qed simp
qed

lemma utf8_valid_ascii: "list_all is_ascii s \<Longrightarrow> utf8_valid s"
  by (induction s) (auto simp: utf8_valid.simps [of "c # s" for c s] valid_head_def rune_width_ascii)

lemma take_width_head:
  "1 < rune_width s \<Longrightarrow> rune_width (take (rune_width s) s) = rune_width s"
  by (cases s rule: rune_width.cases) (auto split: if_splits dest: rune_exclusive)

lemma utf8_valid_take_width:
  assumes "valid_head s"
  shows "utf8_valid (take (rune_width s) s)"
proof -
  let ?t = "take (rune_width s) s"
  have "valid_head ?t \<and> rune_width ?t = length ?t"
  proof (cases "is_ascii (hd s)")
    case True
    then show ?thesis using assms by (cases s) (auto simp: valid_head_def rune_width_ascii)
  next
    case False
    then have "1 < rune_width s" "s \<noteq> []" using assms by (auto simp: valid_head_def)
    then show ?thesis
      using take_width_head [of s] rune_width_le [of s] by (auto simp: valid_head_def)
  qed
  then show ?thesis by (auto simp: utf8_valid.simps [of ?t])
qed

text \<open>A string as it comes out of \<open>encoding/json\<close>, which puts the replacement character in the place of
  every byte that starts no rune, when it prints a string and when it reads one.\<close>

function json_text :: "string \<Rightarrow> string" where
  "json_text s =
     (if s = [] then []
      else if valid_head s then take (rune_width s) s @ json_text (drop (rune_width s) s)
      else [CHR 0xEF, CHR 0xBF, CHR 0xBD] @ json_text (tl s))"
  by pat_completeness auto
termination
  by (relation "measure length") (auto simp: rune_width_pos)

declare json_text.simps [simp del]

lemma json_text_Nil [simp]: "json_text [] = []"
  by (simp add: json_text.simps)

lemma utf8_valid_replacement: "utf8_valid [CHR 0xEF, CHR 0xBF, CHR 0xBD]"
  by code_simp

lemma json_text_valid: "utf8_valid (json_text s)"
proof (induction s rule: json_text.induct)
  case (1 s)
  show ?case
  proof (cases "s = []")
    case False
    with 1 show ?thesis
      by (cases "valid_head s")
        (simp_all only: json_text.simps [of s] if_False if_True not_False_eq_True simp_thms
          utf8_valid_append utf8_valid_take_width utf8_valid_replacement)
  qed simp
qed

lemma json_text_id: "utf8_valid s \<Longrightarrow> json_text s = s"
proof (induction s rule: json_text.induct)
  case (1 s)
  show ?case
  proof (cases "s = []")
    case False
    then have "valid_head s" "utf8_valid (drop (rune_width s) s)" using 1(3) by (simp_all add: utf8_valid.simps [of s])
    with 1(1) False show ?thesis by (simp add: json_text.simps [of s])
  qed simp
qed

end
