(* ===== verification/Redact.thy ===== *)
theory Redact
  imports Regexp Utf8
begin

text \<open>
  The text hygiene of \<open>internal/agentruns/store.go\<close>: \<open>redactText\<close> with its two patterns,
  \<open>truncate\<close> with \<open>safeUTF8PrefixLen\<close>, and \<open>sanitizeMetadata\<close>. Shown: a redacted text
  holds no AWS key id, a truncated text is within its bound and is still valid UTF-8.
\<close>

section \<open>Redaction\<close>

definition key_char :: "char \<Rightarrow> bool" where
  "key_char c \<longleftrightarrow> byte_in c 48 57 \<or> byte_in c 65 90"

definition redacted :: string where
  "redacted = ''[REDACTED]''"

definition aws_key_rx :: rx where
  "aws_key_rx = Seq (Alt (lit ''AKIA'') (lit ''ASIA'')) (rep 16 (Cls key_char))"

definition sep_rx :: rx where
  "sep_rx = opt (Cls (\<lambda>c. c = CHR ''_'' \<or> c = CHR ''-''))"

definition secret_names_rx :: rx where
  "secret_names_rx = alts [
     ci_lit ''secret'', ci_lit ''token'', ci_lit ''password'',
     Seq (ci_lit ''api'') (Seq sep_rx (ci_lit ''key'')),
     Seq (ci_lit ''access'') (Seq sep_rx (Seq (ci_lit ''key'')
       (opt (Seq sep_rx (ci_lit ''id''))))),
     Seq (ci_lit ''secret'') (Seq sep_rx (Seq (ci_lit ''access'') (Seq sep_rx (ci_lit ''key'')))),
     Seq (ci_lit ''session'') (Seq sep_rx (ci_lit ''token''))]"

definition key_value_rx :: rx where
  "key_value_rx =
     Seq secret_names_rx (Seq (Star (Cls rx_space))
       (Seq (Alt (lit '':='') (Cls (\<lambda>c. c = CHR '':'' \<or> c = CHR ''='')))
         (Seq (Star (Cls rx_space))
           (alts [
              Seq (lit [CHR 0x22]) (Seq (Star (Cls (\<lambda>c. c \<noteq> CHR 0x22))) (lit [CHR 0x22])),
              Seq (lit [CHR 0x27]) (Seq (Star (Cls (\<lambda>c. c \<noteq> CHR 0x27))) (lit [CHR 0x27])),
              plus (Cls (\<lambda>c. \<not> rx_space c))]))))"

text \<open>\<open>redactionPrefixEnd\<close>; its -1 is \<open>None\<close>.\<close>

fun redaction_prefix_end :: "string \<Rightarrow> nat option" where
  "redaction_prefix_end [] = None"
| "redaction_prefix_end (c # s) =
     (if c = CHR '':'' then
        (case s of d # _ \<Rightarrow> if d = CHR ''='' then Some 2 else Some 1 | [] \<Rightarrow> Some 1)
      else if c = CHR ''='' then Some 1
      else map_option Suc (redaction_prefix_end s))"

definition redact_key_value :: "string \<Rightarrow> string" where
  "redact_key_value m =
     (case redaction_prefix_end m of
        None \<Rightarrow> []
      | Some e \<Rightarrow>
          rev (dropWhile (\<lambda>c. c = CHR '' '' \<or> c = CHR 0x09) (rev (take e m)))
            @ CHR '' '' # redacted)"

definition redact_match :: "string \<Rightarrow> string" where
  "redact_match m =
     (if has_prefix (to_upper m) ''AKIA'' \<or> has_prefix (to_upper m) ''ASIA'' then redacted
      else if redact_key_value m \<noteq> [] then redact_key_value m
      else redacted)"

definition redact_text :: "string \<Rightarrow> string" where
  "redact_text t = replace_all key_value_rx redact_match (replace_all aws_key_rx redact_match t)"

section \<open>Truncation\<close>

function safe_prefix_loop :: "string \<Rightarrow> nat \<Rightarrow> nat \<Rightarrow> nat \<Rightarrow> nat" where
  "safe_prefix_loop s i limit lst =
     (if s = [] then lst
      else if limit < i then lst
      else safe_prefix_loop (drop (rune_width s) s) (i + rune_width s) limit i)"
  by pat_completeness auto
termination
  by (relation "measure (\<lambda>(s, i, limit, lst). length s)") (auto simp: rune_width_pos)

declare safe_prefix_loop.simps [simp del]

definition safe_utf8_prefix_len :: "string \<Rightarrow> nat \<Rightarrow> nat" where
  "safe_utf8_prefix_len t limit =
     (if limit = 0 then 0
      else if length t \<le> limit then length t
      else safe_prefix_loop t 0 limit 0)"

definition truncate_text :: "string \<Rightarrow> nat \<Rightarrow> string" where
  "truncate_text t limit =
     (if limit = 0 \<or> length t \<le> limit then t
      else if limit \<le> 3 then take (safe_utf8_prefix_len t limit) t
      else take (safe_utf8_prefix_len t (limit - 3)) t @ ''...'')"

definition max_log_message_len :: nat where "max_log_message_len = 2000"
definition max_prompt_preview_len :: nat where "max_prompt_preview_len = 240"
definition max_patch_diff_len :: nat where "max_patch_diff_len = 20000"

definition sanitize_metadata :: "string \<Rightarrow> string" where
  "sanitize_metadata t = truncate_text (redact_text (trim_space t)) max_log_message_len"

section \<open>Truncated texts\<close>

lemma safe_prefix_loop_le: "lst \<le> limit \<Longrightarrow> safe_prefix_loop s i limit lst \<le> limit"
proof (induction s i limit lst rule: safe_prefix_loop.induct)
  case (1 s i limit lst)
  then show ?case by (subst safe_prefix_loop.simps) auto
qed

lemma safe_utf8_prefix_len_le: "safe_utf8_prefix_len t limit \<le> limit"
  by (simp add: safe_utf8_prefix_len_def safe_prefix_loop_le)

lemma length_truncate: "0 < limit \<Longrightarrow> length (truncate_text t limit) \<le> limit"
  using safe_utf8_prefix_len_le [of t limit] safe_utf8_prefix_len_le [of t "limit - 3"]
  by (auto simp: truncate_text_def)

lemma truncate_short [simp]: "length t \<le> limit \<Longrightarrow> truncate_text t limit = t"
  by (simp add: truncate_text_def)

lemma safe_prefix_loop_valid:
  assumes "utf8_valid s" "utf8_valid p" "utf8_valid (take lst (p @ s))"
  shows "utf8_valid (take (safe_prefix_loop s (length p) limit lst) (p @ s))"
  using assms
proof (induction s "length p" limit lst arbitrary: p rule: safe_prefix_loop.induct)
  case (1 s limit lst)
  show ?case
  proof (cases "s = [] \<or> limit < length p")
    case True
    with 1 show ?thesis by (auto simp: safe_prefix_loop.simps [of s])
  next
    case False
    let ?w = "rune_width s"
    have v: "valid_head s" "utf8_valid (drop ?w s)"
      using "1.prems"(1) False by (auto simp: utf8_valid.simps [of s])
    have len: "length (p @ take ?w s) = length p + ?w" using rune_width_le [of s] by simp
    have "utf8_valid (p @ take ?w s)"
      using "1.prems"(2) utf8_valid_take_width [OF v(1)] by (simp add: utf8_valid_append)
    moreover have "take (length p) ((p @ take ?w s) @ drop ?w s) = p" by simp
    ultimately have "utf8_valid (take (safe_prefix_loop (drop ?w s) (length p + ?w) limit (length p))
        ((p @ take ?w s) @ drop ?w s))"
      using "1.hyps" [of "p @ take ?w s"] False v "1.prems"(2) len by simp
    then show ?thesis using False by (simp add: safe_prefix_loop.simps [of s])
  qed
qed

lemma truncate_utf8_valid: "utf8_valid t \<Longrightarrow> utf8_valid (truncate_text t limit)"
proof -
  assume v: "utf8_valid t"
  have t: "utf8_valid (take (safe_utf8_prefix_len t k) t)" for k
    using safe_prefix_loop_valid [of t "[]" 0 k] v by (simp add: safe_utf8_prefix_len_def)
  have d: "utf8_valid ''...''" by (rule utf8_valid_ascii) (simp add: is_ascii_def)
  show ?thesis using v t d by (simp add: truncate_text_def utf8_valid_append)
qed

section \<open>Redacted texts hold no AWS key id\<close>

text \<open>A key id lies inside one run of key characters, so what matters of a text is the run
  at its head; a replacement text interrupts every run with a bracket or a blank.\<close>

definition key_head :: "string \<Rightarrow> bool" where
  "key_head s \<longleftrightarrow> 20 \<le> length s \<and> take 4 s \<in> {''AKIA'', ''ASIA''} \<and> list_all key_char (take 20 s)"

abbreviation key_run :: "string \<Rightarrow> string" where
  "key_run \<equiv> takeWhile key_char"

definition has_key :: "string \<Rightarrow> bool" where
  "has_key s \<longleftrightarrow> rx_search aws_key_rx s"

lemma min_len_aws [simp]: "min_len aws_key_rx = 20"
  by (simp add: aws_key_rx_def)

lemma key_chars_AKIA: "list_all key_char ''AKIA''" "list_all key_char ''ASIA''"
  by (simp_all add: key_char_def byte_in_def)

lemma aws_split:
  assumes p: "p \<in> {''AKIA'', ''ASIA''}"
  shows "(has_prefix s p \<and> 16 \<le> length (drop 4 s) \<and> list_all key_char (take 16 (drop 4 s))) \<longleftrightarrow>
   (20 \<le> length s \<and> take 4 s = p \<and> list_all key_char (take 20 s))"
proof -
  have split: "take 20 s = take 4 s @ take 16 (drop 4 s)"
    using take_add [of 4 16 s] by simp
  have "length p = 4" "list_all key_char p" using p key_chars_AKIA by auto
  then have "has_prefix s p \<longleftrightarrow> take 4 s = p" by (simp only: has_prefix_def)
  moreover have "16 \<le> length (drop 4 s) \<longleftrightarrow> 20 \<le> length s" by auto
  moreover have "take 4 s = p \<Longrightarrow> list_all key_char (take 20 s) \<longleftrightarrow> list_all key_char (take 16 (drop 4 s))"
    using \<open>list_all key_char p\<close> by (simp add: split)
  ultimately show ?thesis by blast
qed

lemma rmatch_aws: "rmatch aws_key_rx s \<noteq> [] \<longleftrightarrow> key_head s"
proof -
  have l: "rmatch (Seq (lit p) r) s \<noteq> [] \<longleftrightarrow> has_prefix s p \<and> rmatch r (drop (length p) s) \<noteq> []" for p r
    by (simp add: rmatch_lit)
  have "rmatch aws_key_rx s \<noteq> [] \<longleftrightarrow>
      rmatch (Seq (lit ''AKIA'') (rep 16 (Cls key_char))) s \<noteq> [] \<or>
      rmatch (Seq (lit ''ASIA'') (rep 16 (Cls key_char))) s \<noteq> []"
    by (simp del: lit.simps rep.simps add: aws_key_rx_def)
  also have "\<dots> \<longleftrightarrow> (\<exists>p \<in> {''AKIA'', ''ASIA''}.
      has_prefix s p \<and> 16 \<le> length (drop 4 s) \<and> list_all key_char (take 16 (drop 4 s)))"
    unfolding l by (simp only: rmatch_rep_Cls) (auto simp: numeral_eq_Suc)
  also have "\<dots> \<longleftrightarrow> key_head s"
    using aws_split [of _ s] unfolding key_head_def by blast
  finally show ?thesis .
qed

lemma key_head_run: "key_head s \<longleftrightarrow> key_head (key_run s)"
proof -
  have run: "take n (key_run s) = take n s" if "list_all key_char (take n s)" for n
    using that
  proof (induction s arbitrary: n)
    case (Cons c s)
    then show ?case by (cases n) auto
  qed simp
  have len: "n \<le> length (key_run s) \<longleftrightarrow> n \<le> length s \<and> list_all key_char (take n s)" for n
  proof (induction s arbitrary: n)
    case (Cons c s)
    then show ?case by (cases n) auto
  qed simp
  have "take 4 (take 20 t) = take 4 t" for t :: string by (simp add: min_def)
  moreover have "list_all key_char (take 20 (key_run s))"
    by (metis list_all_iff set_take_subset set_takeWhileD subsetD)
  ultimately show ?thesis unfolding key_head_def using run [of 20] len [of 20] by metis
qed

lemma key_head_prefix: "prefix a b \<Longrightarrow> key_head a \<Longrightarrow> key_head b"
  by (auto simp: key_head_def prefix_def)

lemma has_key_Nil [simp]: "\<not> has_key []"
  by (simp add: has_key_def rmatch_aws key_head_def)

lemma has_key_Cons: "has_key (c # s) \<longleftrightarrow> key_head (c # s) \<or> has_key s"
  by (simp add: has_key_def rmatch_aws)

lemma has_key_append_suffix: "has_key s \<Longrightarrow> has_key (p @ s)"
  by (induction p) (auto simp: has_key_Cons)

lemma has_key_append_prefix: "has_key p \<Longrightarrow> has_key (p @ s)"
proof (induction p)
  case (Cons c p)
  then show ?case using key_head_prefix [of "c # p" "c # p @ s"] by (auto simp: has_key_Cons)
qed simp

lemma has_key_break:
  assumes "\<not> key_char c"
  shows "has_key (a @ c # b) \<longleftrightarrow> has_key a \<or> has_key b"
proof
  assume "has_key (a @ c # b)"
  then show "has_key a \<or> has_key b"
  proof (induction a)
    case Nil
    moreover have "\<not> key_head (c # b)"
      using key_head_run [of "c # b"] assms by (simp add: key_head_def)
    ultimately show ?case by (simp add: has_key_Cons)
  next
    case (Cons d a)
    have "key_run ((d # a) @ c # b) = key_run (d # a)"
      using assms takeWhile_tail [of key_char c "d # a" b] by simp
    then have "key_head (d # a @ c # b) \<longleftrightarrow> key_head (d # a)"
      using key_head_run by (metis append_Cons)
    with Cons show ?case by (auto simp: has_key_Cons)
  qed
next
  assume "has_key a \<or> has_key b"
  then show "has_key (a @ c # b)"
    by (metis append_Cons append_Nil append_assoc has_key_append_prefix has_key_append_suffix)
qed

text \<open>What a replacement text must look like to keep a text free of key ids: the head of the
  match it replaces, broken off by a character outside every run, then no key id.\<close>

definition breaks_runs :: "(string \<Rightarrow> string) \<Rightarrow> bool" where
  "breaks_runs f \<longleftrightarrow> (\<forall>m. \<exists>p c q d. f m = p @ c # q @ [d] \<and> prefix p m
     \<and> \<not> key_char c \<and> \<not> key_char d \<and> \<not> has_key q)"

lemma breaks_runsE:
  assumes "breaks_runs f"
  obtains p c q d where "f m = p @ c # q @ [d]" "prefix p m" "\<not> key_char c" "\<not> key_char d" "\<not> has_key q"
  using assms unfolding breaks_runs_def by blast

lemma prefix_key_run: "\<exists>z. key_run (p @ s) = key_run p @ z"
  by (induction p) auto

lemma replace_all_run:
  assumes "0 < min_len r" "breaks_runs f"
  shows "prefix (key_run (replace_all r f s)) (key_run s)"
  using assms(1)
proof (induction s rule: replace_all_induct)
  case Nil
  then show ?case using assms(1) by (simp add: replace_all_Nil)
next
  case (Skip c s)
  then show ?case by (simp add: replace_all_no_match)
next
  case (Match m t ts)
  from assms(2) obtain p c q d where f: "f m = p @ c # q @ [d]" "prefix p m" "\<not> key_char c"
    by (rule breaks_runsE)
  have "key_run (replace_all r f (m @ t)) = key_run p"
    using Match f takeWhile_tail [of key_char c p] assms(1)
    by (simp add: replace_all_matched)
  moreover have "prefix (key_run p) (key_run (m @ t))"
    using f(2) prefix_key_run by (auto simp: prefix_def)
  ultimately show ?case by simp
qed

lemma replace_all_keyless:
  assumes "0 < min_len r" "breaks_runs f" "\<not> has_key s"
  shows "\<not> has_key (replace_all r f s)"
  using assms(1,3)
proof (induction s rule: replace_all_induct)
  case Nil
  then show ?case using assms(1) by (simp add: replace_all_Nil)
next
  case (Skip c s)
  have "prefix (key_run (c # replace_all r f s)) (key_run (c # s))"
    using replace_all_run [OF assms(1,2)] by simp
  then have "key_head (c # replace_all r f s) \<Longrightarrow> key_head (c # s)"
    using key_head_run key_head_prefix by metis
  with Skip show ?case by (auto simp: replace_all_no_match has_key_Cons)
next
  case (Match m t ts)
  from assms(2) obtain p c q d where f: "f m = p @ c # q @ [d]" "prefix p m"
    "\<not> key_char c" "\<not> key_char d" "\<not> has_key q"
    by (rule breaks_runsE)
  have "\<not> has_key p" "\<not> has_key t"
    using Match.prems f(2) has_key_append_prefix has_key_append_suffix
    by (auto simp: prefix_def)
  then have "\<not> has_key (p @ c # q @ d # replace_all r f t)"
    using f Match by (simp add: has_key_break)
  then show ?case using Match f assms(1) by (simp add: replace_all_matched)
qed

lemma has_key_short: "length s < 20 \<Longrightarrow> \<not> has_key s"
  by (induction s) (auto simp: has_key_Cons key_head_def)

lemma has_key_redacted: "has_key (redacted @ s) \<longleftrightarrow> has_key s"
proof -
  have "\<not> key_char (CHR ''['')" "\<not> key_char (CHR '']'')" by (simp_all add: key_char_def byte_in_def)
  note brk = this [THEN has_key_break]
  have "redacted @ s = [] @ CHR ''['' # ''REDACTED'' @ CHR '']'' # s"
    by (simp add: redacted_def)
  moreover have "\<not> has_key ''REDACTED''" by (simp add: has_key_short)
  ultimately show ?thesis by (metis brk has_key_Nil)
qed

lemma breaks_runs_redact_match: "breaks_runs redact_match"
  unfolding breaks_runs_def
proof
  fix m
  let ?shape = "\<lambda>s. \<exists>p c q d. s = p @ c # q @ [d] \<and> prefix p m \<and> \<not> key_char c \<and> \<not> key_char d \<and> \<not> has_key q"
  have red: "?shape redacted"
    by (rule exI [of _ "[]"], rule exI [of _ "CHR ''[''"], rule exI [of _ "''REDACTED''"],
        rule exI [of _ "CHR '']''"])
      (simp add: redacted_def key_char_def byte_in_def has_key_short)
  have kv: "?shape (redact_key_value m)" if "redact_key_value m \<noteq> []"
  proof -
    obtain e where e: "redaction_prefix_end m = Some e"
      using \<open>redact_key_value m \<noteq> []\<close> unfolding redact_key_value_def
      by (cases "redaction_prefix_end m") simp_all
    let ?p = "rev (dropWhile (\<lambda>c. c = CHR '' '' \<or> c = CHR 0x09) (rev (take e m)))"
    have "prefix ?p (take e m)"
      by (metis rev_rev_ident suffix_dropWhile suffix_to_prefix)
    then have "prefix ?p m" using take_is_prefix prefix_order.trans by blast
    moreover have "redact_key_value m = ?p @ CHR '' '' # ''[REDACTED'' @ [CHR '']'']"
      using e by (simp add: redact_key_value_def redacted_def)
    moreover have "\<not> has_key ''[REDACTED''" by (simp add: has_key_short)
    ultimately show ?thesis
      by (intro exI [of _ ?p] exI [of _ "CHR '' ''"] exI [of _ "''[REDACTED''"] exI [of _ "CHR '']''"])
        (simp add: key_char_def byte_in_def)
  qed
  show "?shape (redact_match m)"
    using red kv unfolding redact_match_def by presburger
qed

lemma redact_match_aws:
  "take 4 m \<in> {''AKIA'', ''ASIA''} \<Longrightarrow> redact_match m = redacted"
proof -
  assume h: "take 4 m \<in> {''AKIA'', ''ASIA''}"
  then obtain b s where m: "m = CHR ''A'' # b # CHR ''I'' # CHR ''A'' # s" "b = CHR ''K'' \<or> b = CHR ''S''"
    by (cases m rule: rune_width.cases) auto
  then show ?thesis by (cases s) (auto simp: redact_match_def upper_char_def)
qed

lemma replace_aws_keyless: "\<not> has_key (replace_all aws_key_rx redact_match s)"
proof -
  have "0 < min_len aws_key_rx" by simp
  then show ?thesis
  proof (induction s rule: replace_all_induct)
    case Nil
    then show ?case by (simp add: replace_all_Nil)
  next
    case (Skip c s)
    have "prefix (key_run (c # replace_all aws_key_rx redact_match s)) (key_run (c # s))"
      using replace_all_run [of aws_key_rx redact_match s] breaks_runs_redact_match by simp
    then have "key_head (c # replace_all aws_key_rx redact_match s) \<Longrightarrow> key_head (c # s)"
      using key_head_run key_head_prefix by metis
    with Skip rmatch_aws [of "c # s"] show ?case by (auto simp: replace_all_no_match has_key_Cons)
  next
    case (Match m t ts)
    have "20 \<le> length m" using rmatch_min_len [of t aws_key_rx "m @ t"] Match by simp
    moreover have "key_head (m @ t)" using Match rmatch_aws [of "m @ t"] by simp
    ultimately have "redact_match m = redacted"
      by (intro redact_match_aws) (simp add: key_head_def)
    then show ?case using Match by (simp add: replace_all_matched has_key_redacted)
  qed
qed

lemma min_len_ci [simp]: "0 < min_len (ci c)"
  by (simp add: ci_def Let_def)

lemma min_len_ci_lit: "s \<noteq> [] \<Longrightarrow> 0 < min_len (ci_lit s)"
  by (cases s) auto

lemma min_len_key_value: "0 < min_len key_value_rx"
  by (simp add: key_value_rx_def)

lemma redact_text_keyless: "\<not> has_key (redact_text t)"
  unfolding redact_text_def
  by (rule replace_all_keyless [OF min_len_key_value breaks_runs_redact_match replace_aws_keyless])


section \<open>Clean texts\<close>

text \<open>What the store keeps of a text that came from outside: bounded, and free of key ids.\<close>

definition clean_text :: "nat \<Rightarrow> string \<Rightarrow> bool" where
  "clean_text n t \<longleftrightarrow> length t \<le> n \<and> \<not> has_key t"

lemma has_key_take: "\<not> has_key t \<Longrightarrow> \<not> has_key (take k t)"
  by (metis append_take_drop_id has_key_append_prefix)

lemma clean_truncated [simp]:
  assumes "0 < n"
  shows "clean_text n (truncate_text (redact_text t) n)"
proof -
  have "\<not> has_key (take k (redact_text t) @ ''...'')" for k
  proof -
    have "\<not> key_char (CHR ''.'')" by (simp add: key_char_def byte_in_def)
    from has_key_break [OF this, of "take k (redact_text t)" "''..''"] show ?thesis
      by (simp add: has_key_take redact_text_keyless has_key_short)
  qed
  then have "\<not> has_key (truncate_text (redact_text t) n)"
    by (auto simp: truncate_text_def redact_text_keyless has_key_take)
  then show ?thesis using assms by (simp add: clean_text_def length_truncate)
qed

lemma clean_sanitized [simp]: "clean_text max_log_message_len (sanitize_metadata t)"
  by (simp add: sanitize_metadata_def max_log_message_len_def)

lemma clean_Nil [simp]: "clean_text n []"
  by (simp add: clean_text_def)

end
