(* ===== verification/Crypto.thy ===== *)
theory Crypto
  imports Prelude
begin

text \<open>
  The packages \<open>crypto/sha256\<close>, \<open>crypto/hmac\<close>, \<open>encoding/hex\<close> and \<open>encoding/binary\<close> as
  far as the sources use them: SHA-256 and HMAC-SHA-256 on byte strings (FIPS 180-4, RFC
  2104), lower-case hexadecimal, big-endian 64-bit lengths. Shown: lengths and alphabets of
  the outputs, and that a sequence of length-framed fields is recovered from its encoding.
\<close>

unbundle bit_operations_syntax

section \<open>SHA-256\<close>

type_synonym sha_word = "32 word"

datatype sha_state = Sha sha_word sha_word sha_word sha_word sha_word sha_word sha_word sha_word

definition sha_k :: "sha_word list" where
  "sha_k = [1116352408, 1899447441, 3049323471, 3921009573, 961987163, 1508970993, 2453635748, 2870763221,
     3624381080, 310598401, 607225278, 1426881987, 1925078388, 2162078206, 2614888103, 3248222580,
     3835390401, 4022224774, 264347078, 604807628, 770255983, 1249150122, 1555081692, 1996064986,
     2554220882, 2821834349, 2952996808, 3210313671, 3336571891, 3584528711, 113926993, 338241895,
     666307205, 773529912, 1294757372, 1396182291, 1695183700, 1986661051, 2177026350, 2456956037,
     2730485921, 2820302411, 3259730800, 3345764771, 3516065817, 3600352804, 4094571909, 275423344,
     430227734, 506948616, 659060556, 883997877, 958139571, 1322822218, 1537002063, 1747873779,
     1955562222, 2024104815, 2227730452, 2361852424, 2428436474, 2756734187, 3204031479, 3329325298]"

definition sha_init :: sha_state where
  "sha_init = Sha 1779033703 3144134277 1013904242 2773480762 1359893119 2600822924 528734635 1541459225"

definition big_sigma0 :: "sha_word \<Rightarrow> sha_word" where
  "big_sigma0 x = (word_rotr 2 x XOR word_rotr 13 x) XOR word_rotr 22 x"

definition big_sigma1 :: "sha_word \<Rightarrow> sha_word" where
  "big_sigma1 x = (word_rotr 6 x XOR word_rotr 11 x) XOR word_rotr 25 x"

definition small_sigma0 :: "sha_word \<Rightarrow> sha_word" where
  "small_sigma0 x = (word_rotr 7 x XOR word_rotr 18 x) XOR drop_bit 3 x"

definition small_sigma1 :: "sha_word \<Rightarrow> sha_word" where
  "small_sigma1 x = (word_rotr 17 x XOR word_rotr 19 x) XOR drop_bit 10 x"

fun sha_round :: "sha_state \<Rightarrow> sha_word \<times> sha_word \<Rightarrow> sha_state" where
  "sha_round (Sha a b c d e f g h) (k, w) =
     (let t1 = h + big_sigma1 e + ((e AND f) XOR (NOT e AND g)) + k + w;
          t2 = big_sigma0 a + (((a AND b) XOR (a AND c)) XOR (b AND c))
      in Sha (t1 + t2) a b c (d + t1) e f g)"

fun sha_extend :: "nat \<Rightarrow> sha_word list \<Rightarrow> sha_word list" where
  "sha_extend 0 ws = ws"
| "sha_extend (Suc n) ws =
     (let t = length ws in
      sha_extend n (ws @ [small_sigma1 (ws ! (t - 2)) + ws ! (t - 7)
                          + small_sigma0 (ws ! (t - 15)) + ws ! (t - 16)]))"

fun sha_words :: "string \<Rightarrow> sha_word list" where
  "sha_words (a # b # c # d # s) =
     word_of_int (((of_char a * 256 + of_char b) * 256 + of_char c) * 256 + of_char d) # sha_words s"
| "sha_words _ = []"

fun sha_add :: "sha_state \<Rightarrow> sha_state \<Rightarrow> sha_state" where
  "sha_add (Sha a b c d e f g h) (Sha a' b' c' d' e' f' g' h') =
     Sha (a + a') (b + b') (c + c') (d + d') (e + e') (f + f') (g + g') (h + h')"

definition sha_block :: "sha_state \<Rightarrow> string \<Rightarrow> sha_state" where
  "sha_block st blk = sha_add st (foldl sha_round st (zip sha_k (sha_extend 48 (sha_words blk))))"

function sha_blocks :: "sha_state \<Rightarrow> string \<Rightarrow> sha_state" where
  "sha_blocks st s = (if length s < 64 then st else sha_blocks (sha_block st (take 64 s)) (drop 64 s))"
  by pat_completeness auto
termination
  by (relation "measure (\<lambda>(st, s). length s)") auto

declare sha_blocks.simps [simp del]

fun be_bytes :: "nat \<Rightarrow> int \<Rightarrow> string" where
  "be_bytes 0 n = []"
| "be_bytes (Suc k) n = be_bytes k (n div 256) @ [char_of (n mod 256)]"

definition be64 :: "nat \<Rightarrow> string" where
  "be64 n = be_bytes 8 (int n)"

definition be32 :: "sha_word \<Rightarrow> string" where
  "be32 w = be_bytes 4 (uint w)"

definition sha_pad :: "string \<Rightarrow> string" where
  "sha_pad m = m @ [CHR 0x80] @ replicate ((119 - length m mod 64) mod 64) (CHR 0x00)
     @ be64 (8 * length m)"

fun sha_digest :: "sha_state \<Rightarrow> string" where
  "sha_digest (Sha a b c d e f g h) =
     be32 a @ be32 b @ be32 c @ be32 d @ be32 e @ be32 f @ be32 g @ be32 h"

definition sha256 :: "string \<Rightarrow> string" where
  "sha256 m = sha_digest (sha_blocks sha_init (sha_pad m))"

section \<open>HMAC and hexadecimal\<close>

definition xor_bytes :: "int \<Rightarrow> string \<Rightarrow> string" where
  "xor_bytes b s = map (\<lambda>c. char_of (of_char c XOR b)) s"

definition hmac_key :: "string \<Rightarrow> string" where
  "hmac_key k = (let k' = (if 64 < length k then sha256 k else k)
     in k' @ replicate (64 - length k') (CHR 0x00))"

definition hmac_sha256 :: "string \<Rightarrow> string \<Rightarrow> string" where
  "hmac_sha256 k m =
     sha256 (xor_bytes 0x5c (hmac_key k) @ sha256 (xor_bytes 0x36 (hmac_key k) @ m))"

definition hex_digit :: "nat \<Rightarrow> char" where
  "hex_digit d = char_of (if d < 10 then 48 + d else 87 + d)"

definition is_hex :: "char \<Rightarrow> bool" where
  "is_hex c \<longleftrightarrow> (let n = (of_char c :: nat)
     in 48 \<le> n \<and> n \<le> 57 \<or> 97 \<le> n \<and> n \<le> 102 \<or> 65 \<le> n \<and> n \<le> 70)"

fun hex_encode :: "string \<Rightarrow> string" where
  "hex_encode [] = []"
| "hex_encode (c # s) =
     (let n = (of_char c :: nat) in hex_digit (n div 16) # hex_digit (n mod 16) # hex_encode s)"

text \<open>\<open>hex.DecodeString\<close> succeeds: an even number of hexadecimal digits.\<close>

definition hex_decodes :: "string \<Rightarrow> bool" where
  "hex_decodes s \<longleftrightarrow> even (length s) \<and> list_all is_hex s"

lemma length_be_bytes [simp]: "length (be_bytes k n) = k"
  by (induction k arbitrary: n) auto

lemma length_be32 [simp]: "length (be32 w) = 4"
  by (simp add: be32_def)

lemma length_be64 [simp]: "length (be64 n) = 8"
  by (simp add: be64_def)

lemma length_sha256 [simp]: "length (sha256 m) = 32"
  unfolding sha256_def by (cases "sha_blocks sha_init (sha_pad m)") simp

lemma length_hmac [simp]: "length (hmac_sha256 k m) = 32"
  by (simp add: hmac_sha256_def)

lemma length_hmac_key: "length (hmac_key k) = 64"
  by (simp add: hmac_key_def Let_def)

lemma length_hex_encode [simp]: "length (hex_encode s) = 2 * length s"
  by (induction s) (auto simp: Let_def)

definition lower_hex :: "char \<Rightarrow> bool" where
  "lower_hex c \<longleftrightarrow> (let n = (of_char c :: nat) in 48 \<le> n \<and> n \<le> 57 \<or> 97 \<le> n \<and> n \<le> 102)"

lemma hex_digit_value:
  assumes "d < 16"
  shows "(of_char (hex_digit d) :: nat) = (if d < 10 then 48 + d else 87 + d)"
  using assms by (simp add: hex_digit_def)

lemma lower_hex_digit: "d < 16 \<Longrightarrow> lower_hex (hex_digit d)"
  by (auto simp: lower_hex_def hex_digit_value Let_def)

lemma of_char_less [simp]: "(of_char c :: nat) < 256"
  using nat_of_char_less_256 by blast

lemma hex_encode_lower: "list_all lower_hex (hex_encode s)"
proof (induction s)
  case (Cons c s)
  have "(of_char c :: nat) div 16 < 16" using of_char_less [of c] by linarith
  with Cons show ?case by (simp add: Let_def lower_hex_digit)
qed simp

lemma lower_hex_is: "lower_hex c \<Longrightarrow> is_hex c \<and> graphic c \<and> lower_char c = c"
  by (auto simp: lower_hex_def is_hex_def graphic_def lower_char_def Let_def)

lemma lower_hex_id: "list_all lower_hex s \<Longrightarrow> to_lower s = s"
proof (induction s rule: to_lower.induct)
  case (1 a b c s)
  have "a \<noteq> CHR 0xE2" "a \<noteq> CHR 0xC4" using 1(4) by (auto simp: lower_hex_def)
  then show ?case using 1 by (auto dest: lower_hex_is)
next
  case (2 a b)
  then have "a \<noteq> CHR 0xC4" by (auto simp: lower_hex_def)
  then show ?case using 2 by (auto dest: lower_hex_is)
qed (auto dest: lower_hex_is)

lemma hex_digit_inj:
  assumes "d < 16" "e < 16" "hex_digit d = hex_digit e"
  shows "d = e"
proof -
  have "(if d < 10 then 48 + d else 87 + d) = (if e < 10 then 48 + e else 87 + e)"
    using hex_digit_value [OF assms(1)] hex_digit_value [OF assms(2)] assms(3) by metis
  then show ?thesis by (simp split: if_splits)
qed

lemma hex_encode_inj: "hex_encode s = hex_encode t \<Longrightarrow> s = t"
proof (induction s arbitrary: t)
  case Nil
  then show ?case by (cases t) (auto simp: Let_def)
next
  case (Cons c s)
  then obtain d u where t: "t = d # u" by (cases t) (auto simp: Let_def)
  let ?m = "of_char c :: nat" and ?n = "of_char d :: nat"
  have "?m div 16 < 16" "?n div 16 < 16"
    using of_char_less [of c] of_char_less [of d] by linarith+
  moreover from Cons.prems t have "hex_digit (?m div 16) = hex_digit (?n div 16)"
    "hex_digit (?m mod 16) = hex_digit (?n mod 16)" "hex_encode s = hex_encode u"
    by (auto simp: Let_def)
  ultimately have "?m div 16 = ?n div 16" "?m mod 16 = ?n mod 16" "s = u"
    using hex_digit_inj Cons.IH by auto
  then have "?m = ?n" by (metis div_mult_mod_eq)
  then show ?case using t \<open>s = u\<close> by simp
qed

section \<open>Length-framed fields\<close>

definition framed :: "string \<Rightarrow> string" where
  "framed f = be64 (length f) @ f"

lemma char_of_mod_inj: "char_of (m mod 256) = (char_of (n mod 256) :: char) \<Longrightarrow> m mod 256 = n mod (256 :: int)"
  by (drule arg_cong [where f = "of_char :: char \<Rightarrow> int"]) simp

lemma be_bytes_inj: "be_bytes k m = be_bytes k n \<Longrightarrow> m mod 256 ^ k = n mod 256 ^ k"
proof (induction k arbitrary: m n)
  case (Suc k)
  from Suc.prems have "be_bytes k (m div 256) = be_bytes k (n div 256)"
    and c: "char_of (m mod 256) = (char_of (n mod 256) :: char)"
    by (simp_all only: be_bytes.simps append1_eq_conv)
  then have "m div 256 mod 256 ^ k = n div 256 mod 256 ^ k" by (intro Suc.IH)
  moreover have "m mod 256 = n mod 256" using c by (rule char_of_mod_inj)
  moreover have "x mod 256 ^ Suc k = 256 * (x div 256 mod 256 ^ k) + x mod 256" for x :: int
    using zmod_zmult2_eq [of "256 ^ k" x 256] by simp
  ultimately show ?case by metis
qed simp

lemma be64_inj:
  assumes "m < 2 ^ 64" "n < 2 ^ 64" "be64 m = be64 n"
  shows "m = n"
proof -
  have "int m mod 256 ^ 8 = int n mod 256 ^ 8"
    using be_bytes_inj assms(3) unfolding be64_def by blast
  moreover have "int m < 256 ^ 8" "int n < 256 ^ 8" using assms(1,2) by simp_all
  ultimately show ?thesis by simp
qed

lemma framed_append_inj:
  assumes "length a < 2 ^ 64" "length b < 2 ^ 64" "framed a @ s = framed b @ t"
  shows "a = b \<and> s = t"
proof -
  from assms(3) have "be64 (length a) = be64 (length b)" "a @ s = b @ t"
    by (auto simp: framed_def)
  with be64_inj assms(1,2) have "length a = length b" by blast
  with \<open>a @ s = b @ t\<close> show ?thesis by simp
qed

lemma concat_framed_inj:
  assumes "length xs = length ys" "\<forall>x \<in> set xs \<union> set ys. length x < 2 ^ 64"
    and "concat (map framed xs) = concat (map framed ys)"
  shows "xs = ys"
  using assms
proof (induction xs ys rule: list_induct2)
  case (Cons x xs y ys)
  then show ?case using framed_append_inj [of x y] by auto
qed simp

end
