(* ===== verification/PatchPath.thy ===== *)
theory PatchPath
  imports Prelude
begin

text \<open>
  \<open>normalizePatchPath\<close> and \<open>hasWindowsDrivePrefix\<close> of \<open>internal/agentruns/store.go\<close>, over
  the lexical \<open>path.Clean\<close> of Go's package \<open>path\<close> (its four rewriting rules, as one pass over
  the elements with a stack). Shown: an accepted path is relative and each of its elements
  is a plain name, so that it stays inside the project it is joined to.
\<close>

datatype path_error = ErrPatchPathRequired | ErrUnsafePatchPath

fun clean_elements :: "bool \<Rightarrow> string list \<Rightarrow> string list \<Rightarrow> string list" where
  "clean_elements rooted out [] = rev out"
| "clean_elements rooted out (e # es) =
     (if e = [] \<or> e = ''.'' then clean_elements rooted out es
      else if e = ''..'' then
        (case out of
           d # ds \<Rightarrow> if d \<noteq> ''..'' then clean_elements rooted ds es
                     else if rooted then clean_elements rooted out es
                     else clean_elements rooted (e # out) es
         | [] \<Rightarrow> if rooted then clean_elements rooted out es
                else clean_elements rooted (e # out) es)
      else clean_elements rooted (e # out) es)"

definition path_is_abs :: "string \<Rightarrow> bool" where
  "path_is_abs p = has_prefix p ''/''"

definition path_clean :: "string \<Rightarrow> string" where
  "path_clean p =
     (if p = [] then ''.''
      else let rooted = path_is_abs p;
               r = (if rooted then ''/'' else [])
                   @ join ''/'' (clean_elements rooted [] (split_on (CHR ''/'') p))
           in if r = [] then ''.'' else r)"

definition ascii_letter :: "char \<Rightarrow> bool" where
  "ascii_letter c \<longleftrightarrow> (let n = (of_char c :: nat) in 65 \<le> n \<and> n \<le> 90 \<or> 97 \<le> n \<and> n \<le> 122)"

fun has_windows_drive_prefix :: "string \<Rightarrow> bool" where
  "has_windows_drive_prefix (a # b # s) = (b = CHR '':'' \<and> ascii_letter a)"
| "has_windows_drive_prefix _ = False"

definition normalize_patch_path :: "string \<Rightarrow> path_error + string" where
  "normalize_patch_path raw =
     (let p = trim_space raw in
      if p = [] then Inl ErrPatchPathRequired
      else if contains p [CHR 0x5C] \<or> has_windows_drive_prefix p \<or> path_is_abs p
        then Inl ErrUnsafePatchPath
      else if ''..'' \<in> set (split_on (CHR ''/'') p) then Inl ErrUnsafePatchPath
      else let c = path_clean p in
        if c = ''.'' \<or> c = ''..'' \<or> has_prefix c ''../'' then Inl ErrUnsafePatchPath
        else Inr c)"

section \<open>What an accepted path looks like\<close>

definition plain_element :: "string \<Rightarrow> bool" where
  "plain_element e \<longleftrightarrow> e \<noteq> [] \<and> e \<noteq> ''.'' \<and> e \<noteq> ''..'' \<and> CHR ''/'' \<notin> set e"

definition safe_patch_path :: "string \<Rightarrow> bool" where
  "safe_patch_path p \<longleftrightarrow>
     (\<exists>es. es \<noteq> [] \<and> list_all plain_element es \<and> p = join ''/'' es) \<and> CHR 0x5C \<notin> set p"

lemma clean_elements_plain:
  assumes "''..'' \<notin> set es" "list_all plain_element out" "\<forall>e \<in> set es. CHR ''/'' \<notin> set e"
  shows "list_all plain_element (clean_elements rooted out es)
    \<and> set (clean_elements rooted out es) \<subseteq> set out \<union> set es"
  using assms
proof (induction es arbitrary: out)
  case Nil
  then show ?case by (simp add: list_all_iff)
next
  case (Cons e es)
  show ?case
  proof (cases "e = [] \<or> e = ''.''")
    case True
    then show ?thesis using Cons.IH [of out] Cons.prems by auto
  next
    case False
    then have "plain_element e" using Cons.prems by (auto simp: plain_element_def)
    then show ?thesis using Cons.IH [of "e # out"] Cons.prems False by auto
  qed
qed

lemma set_split_on: "p \<in> set (split_on c s) \<Longrightarrow> set p \<subseteq> set s"
  by (induction s arbitrary: p) (fastforce split: if_splits list.splits)+

lemma set_join: "set (join sep xs) \<subseteq> set sep \<union> \<Union> (set (map set xs))"
  by (induction sep xs rule: join.induct) auto

lemma contains_single: "contains p [c] \<longleftrightarrow> c \<in> set p"
  by (induction p) auto

lemma normalize_patch_path_safe:
  assumes "normalize_patch_path raw = Inr p"
  shows "safe_patch_path p"
proof -
  let ?q = "trim_space raw"
  let ?es = "split_on (CHR ''/'') ?q"
  let ?cs = "clean_elements False [] ?es"
  from assms have q: "?q \<noteq> []" "CHR 0x5C \<notin> set ?q" "\<not> path_is_abs ?q" "''..'' \<notin> set ?es"
    and p: "p = path_clean ?q" "p \<noteq> ''.''"
    by (auto simp: normalize_patch_path_def Let_def contains_single split: if_splits)
  have es: "\<forall>e \<in> set ?es. CHR ''/'' \<notin> set e" using split_on_no_sep by blast
  have plain: "list_all plain_element ?cs" "set ?cs \<subseteq> set ?es"
    using clean_elements_plain [OF q(4) _ es, of "[]"] by simp_all
  have pj: "p = join ''/'' ?cs" "?cs \<noteq> []"
    using p q by (auto simp: path_clean_def Let_def split: if_splits)
  have "\<Union> (set (map set ?cs)) \<subseteq> set ?q"
    using plain(2) set_split_on by fastforce
  then have "set p \<subseteq> insert (CHR ''/'') (set ?q)"
    unfolding pj(1) using set_join [of "''/''" ?cs] by fastforce
  moreover have "CHR 0x5C \<noteq> CHR ''/''" by simp
  ultimately have "CHR 0x5C \<notin> set p" using q(2) by blast
  with plain pj show ?thesis unfolding safe_patch_path_def by blast
qed

lemma safe_patch_path_relative:
  assumes "safe_patch_path p"
  shows "p \<noteq> [] \<and> \<not> path_is_abs p \<and> (\<forall>e \<in> set (split_on (CHR ''/'') p). plain_element e)"
proof -
  from assms obtain es where es: "es \<noteq> []" "list_all plain_element es" "p = join ''/'' es"
    unfolding safe_patch_path_def by blast
  have "\<forall>e \<in> set es. CHR ''/'' \<notin> set e" using es(2) by (auto simp: list_all_iff plain_element_def)
  then have sp: "split_on (CHR ''/'') p = es" using es split_on_join by blast
  obtain e fs where ef: "es = e # fs" using es(1) by (cases es) auto
  then obtain c t where "e = c # t" "c \<noteq> CHR ''/''"
    using es(2) by (cases e) (auto simp: plain_element_def)
  then have "p \<noteq> [] \<and> \<not> path_is_abs p"
    using es(3) ef by (cases fs) (auto simp: path_is_abs_def)
  then show ?thesis using sp es(2) by (simp add: list_all_iff)
qed

text \<open>The drive letter test runs before the path is cleaned, so a path that is accepted
  can be one the function rejects.\<close>

lemma normalize_patch_path_drive:
  "normalize_patch_path ''./C:/x'' = Inr ''C:/x''"
  "normalize_patch_path ''C:/x'' = Inl ErrUnsafePatchPath"
proof -
  have t: "trim_space ''./C:/x'' = ''./C:/x''" "trim_space ''C:/x'' = ''C:/x''"
    by (rule trim_space_all_graphic, simp add: graphic_def)+
  show "normalize_patch_path ''./C:/x'' = Inr ''C:/x''"
    unfolding normalize_patch_path_def t Let_def by (simp add: path_clean_def path_is_abs_def)
  show "normalize_patch_path ''C:/x'' = Inl ErrUnsafePatchPath"
    unfolding normalize_patch_path_def t Let_def by (simp add: ascii_letter_def)
qed

end
