(* ===== verification/AgentRuns.thy ===== *)
theory AgentRuns
  imports Redact Crypto PatchPath
begin

text \<open>
  The run store of \<open>internal/agentruns/store.go\<close>: its data, and one definition per
  operation of \<open>Store\<close>. The string types of the source (\<open>Status\<close>, \<open>Mode\<close>, \<open>LogLevel\<close>,
  \<open>ApprovalKind\<close>, \<open>ApprovalStatus\<close>) stay strings, since callers can pass any string and the
  source checks it. An operation is one critical section under \<open>Store.mu\<close>: it takes the
  store and the reading of the store's clock, and returns the store after it and the
  result. Pointers to times are options. The \<open>clone\<close> functions of the source detach what is
  returned from what is stored; values of HOL share nothing, so they have no counterpart.
  A closure of \<open>update\<close> works on the stored run in place, so \<open>mutation\<close> returns the run it
  leaves behind also when it fails.
\<close>

section \<open>Data\<close>

definition StatusQueued :: string where [go_consts]: "StatusQueued = ''queued''"
definition StatusRunning :: string where [go_consts]: "StatusRunning = ''running''"
definition StatusWaitingApproval :: string where [go_consts]: "StatusWaitingApproval = ''waiting_approval''"
definition StatusCompleted :: string where [go_consts]: "StatusCompleted = ''completed''"
definition StatusFailed :: string where [go_consts]: "StatusFailed = ''failed''"
definition StatusCanceled :: string where [go_consts]: "StatusCanceled = ''canceled''"

lemma status_ne [simp, go_enum]:
  "StatusQueued \<noteq> StatusRunning" "StatusQueued \<noteq> StatusWaitingApproval" "StatusQueued \<noteq> StatusCompleted" "StatusQueued \<noteq> StatusFailed" "StatusQueued \<noteq> StatusCanceled"
  "StatusRunning \<noteq> StatusQueued" "StatusRunning \<noteq> StatusWaitingApproval" "StatusRunning \<noteq> StatusCompleted" "StatusRunning \<noteq> StatusFailed" "StatusRunning \<noteq> StatusCanceled"
  "StatusWaitingApproval \<noteq> StatusQueued" "StatusWaitingApproval \<noteq> StatusRunning" "StatusWaitingApproval \<noteq> StatusCompleted" "StatusWaitingApproval \<noteq> StatusFailed" "StatusWaitingApproval \<noteq> StatusCanceled"
  "StatusCompleted \<noteq> StatusQueued" "StatusCompleted \<noteq> StatusRunning" "StatusCompleted \<noteq> StatusWaitingApproval" "StatusCompleted \<noteq> StatusFailed" "StatusCompleted \<noteq> StatusCanceled"
  "StatusFailed \<noteq> StatusQueued" "StatusFailed \<noteq> StatusRunning" "StatusFailed \<noteq> StatusWaitingApproval" "StatusFailed \<noteq> StatusCompleted" "StatusFailed \<noteq> StatusCanceled"
  "StatusCanceled \<noteq> StatusQueued" "StatusCanceled \<noteq> StatusRunning" "StatusCanceled \<noteq> StatusWaitingApproval" "StatusCanceled \<noteq> StatusCompleted" "StatusCanceled \<noteq> StatusFailed"
  by (simp_all add: go_consts)

definition ModeReadOnly :: string where [go_consts]: "ModeReadOnly = ''read_only''"
definition ModeProposeOnly :: string where [go_consts]: "ModeProposeOnly = ''propose_only''"
definition ModeApprovedExecute :: string where [go_consts]: "ModeApprovedExecute = ''approved_execute''"

lemma mode_ne [simp, go_enum]:
  "ModeReadOnly \<noteq> ModeProposeOnly" "ModeReadOnly \<noteq> ModeApprovedExecute"
  "ModeProposeOnly \<noteq> ModeReadOnly" "ModeProposeOnly \<noteq> ModeApprovedExecute"
  "ModeApprovedExecute \<noteq> ModeReadOnly" "ModeApprovedExecute \<noteq> ModeProposeOnly"
  by (simp_all add: go_consts)

definition LogInfo :: string where [go_consts]: "LogInfo = ''info''"
definition LogWarn :: string where [go_consts]: "LogWarn = ''warn''"
definition LogError :: string where [go_consts]: "LogError = ''error''"
definition LogAudit :: string where [go_consts]: "LogAudit = ''audit''"

lemma log_level_ne [simp, go_enum]:
  "LogInfo \<noteq> LogWarn" "LogInfo \<noteq> LogError" "LogInfo \<noteq> LogAudit"
  "LogWarn \<noteq> LogInfo" "LogWarn \<noteq> LogError" "LogWarn \<noteq> LogAudit"
  "LogError \<noteq> LogInfo" "LogError \<noteq> LogWarn" "LogError \<noteq> LogAudit"
  "LogAudit \<noteq> LogInfo" "LogAudit \<noteq> LogWarn" "LogAudit \<noteq> LogError"
  by (simp_all add: go_consts)

definition ApprovalFileWrite :: string where [go_consts]: "ApprovalFileWrite = ''file_write''"
definition ApprovalCommand :: string where [go_consts]: "ApprovalCommand = ''command''"
definition ApprovalIaCAction :: string where [go_consts]: "ApprovalIaCAction = ''iac_action''"
definition ApprovalCloudWrite :: string where [go_consts]: "ApprovalCloudWrite = ''cloud_write''"
definition ApprovalSecretRead :: string where [go_consts]: "ApprovalSecretRead = ''secret_read''"
definition ApprovalMCPNetwork :: string where [go_consts]: "ApprovalMCPNetwork = ''mcp_network''"

lemma approval_kind_ne [simp, go_enum]:
  "ApprovalFileWrite \<noteq> ApprovalCommand" "ApprovalFileWrite \<noteq> ApprovalIaCAction" "ApprovalFileWrite \<noteq> ApprovalCloudWrite" "ApprovalFileWrite \<noteq> ApprovalSecretRead" "ApprovalFileWrite \<noteq> ApprovalMCPNetwork"
  "ApprovalCommand \<noteq> ApprovalFileWrite" "ApprovalCommand \<noteq> ApprovalIaCAction" "ApprovalCommand \<noteq> ApprovalCloudWrite" "ApprovalCommand \<noteq> ApprovalSecretRead" "ApprovalCommand \<noteq> ApprovalMCPNetwork"
  "ApprovalIaCAction \<noteq> ApprovalFileWrite" "ApprovalIaCAction \<noteq> ApprovalCommand" "ApprovalIaCAction \<noteq> ApprovalCloudWrite" "ApprovalIaCAction \<noteq> ApprovalSecretRead" "ApprovalIaCAction \<noteq> ApprovalMCPNetwork"
  "ApprovalCloudWrite \<noteq> ApprovalFileWrite" "ApprovalCloudWrite \<noteq> ApprovalCommand" "ApprovalCloudWrite \<noteq> ApprovalIaCAction" "ApprovalCloudWrite \<noteq> ApprovalSecretRead" "ApprovalCloudWrite \<noteq> ApprovalMCPNetwork"
  "ApprovalSecretRead \<noteq> ApprovalFileWrite" "ApprovalSecretRead \<noteq> ApprovalCommand" "ApprovalSecretRead \<noteq> ApprovalIaCAction" "ApprovalSecretRead \<noteq> ApprovalCloudWrite" "ApprovalSecretRead \<noteq> ApprovalMCPNetwork"
  "ApprovalMCPNetwork \<noteq> ApprovalFileWrite" "ApprovalMCPNetwork \<noteq> ApprovalCommand" "ApprovalMCPNetwork \<noteq> ApprovalIaCAction" "ApprovalMCPNetwork \<noteq> ApprovalCloudWrite" "ApprovalMCPNetwork \<noteq> ApprovalSecretRead"
  by (simp_all add: go_consts)

definition ApprovalPending :: string where [go_consts]: "ApprovalPending = ''pending''"
definition ApprovalApproved :: string where [go_consts]: "ApprovalApproved = ''approved''"
definition ApprovalRejected :: string where [go_consts]: "ApprovalRejected = ''rejected''"

lemma approval_status_ne [simp, go_enum]:
  "ApprovalPending \<noteq> ApprovalApproved" "ApprovalPending \<noteq> ApprovalRejected"
  "ApprovalApproved \<noteq> ApprovalPending" "ApprovalApproved \<noteq> ApprovalRejected"
  "ApprovalRejected \<noteq> ApprovalPending" "ApprovalRejected \<noteq> ApprovalApproved"
  by (simp_all add: go_consts)

lemma run_enum_nonempty [simp, go_enum]:
  "StatusQueued \<noteq> []" "[] \<noteq> StatusQueued"
  "StatusRunning \<noteq> []" "[] \<noteq> StatusRunning"
  "StatusWaitingApproval \<noteq> []" "[] \<noteq> StatusWaitingApproval"
  "StatusCompleted \<noteq> []" "[] \<noteq> StatusCompleted"
  "StatusFailed \<noteq> []" "[] \<noteq> StatusFailed"
  "StatusCanceled \<noteq> []" "[] \<noteq> StatusCanceled"
  "ModeReadOnly \<noteq> []" "[] \<noteq> ModeReadOnly"
  "ModeProposeOnly \<noteq> []" "[] \<noteq> ModeProposeOnly"
  "ModeApprovedExecute \<noteq> []" "[] \<noteq> ModeApprovedExecute"
  "ApprovalPending \<noteq> []" "[] \<noteq> ApprovalPending"
  "ApprovalApproved \<noteq> []" "[] \<noteq> ApprovalApproved"
  "ApprovalRejected \<noteq> []" "[] \<noteq> ApprovalRejected"
  by (simp_all add: go_consts)

definition mode_valid :: "string \<Rightarrow> bool" where
  "mode_valid m \<longleftrightarrow> m \<in> {ModeReadOnly, ModeProposeOnly, ModeApprovedExecute}"

definition valid_status :: "string \<Rightarrow> bool" where
  "valid_status s \<longleftrightarrow> s \<in> {StatusQueued, StatusRunning, StatusWaitingApproval,
     StatusCompleted, StatusFailed, StatusCanceled}"

definition terminal_status :: "string \<Rightarrow> bool" where
  "terminal_status s \<longleftrightarrow> s \<in> {StatusCompleted, StatusFailed, StatusCanceled}"

definition valid_log_level :: "string \<Rightarrow> bool" where
  "valid_log_level l \<longleftrightarrow> l \<in> {LogInfo, LogWarn, LogError, LogAudit}"

definition valid_approval_kind :: "string \<Rightarrow> bool" where
  "valid_approval_kind k \<longleftrightarrow> k \<in> {ApprovalFileWrite, ApprovalCommand, ApprovalIaCAction,
     ApprovalCloudWrite, ApprovalSecretRead, ApprovalMCPNetwork}"

lemma terminal_status_simps [simp]:
  "terminal_status StatusCompleted" "terminal_status StatusFailed" "terminal_status StatusCanceled"
  "\<not> terminal_status StatusQueued" "\<not> terminal_status StatusRunning"
  "\<not> terminal_status StatusWaitingApproval"
  by (simp_all add: terminal_status_def)

text \<open>The errors of the store: one constructor per error value or message of the source.\<close>

datatype run_error =
    ErrProjectRequired
  | ErrPromptRequired
  | ErrInvalidMode string
  | ErrInvalidStatus string
  | ErrInvalidLogLevel string
  | ErrInvalidApprovalKind string
  | ErrInvalidApprovalDecision string
  | ErrPatchPath path_error
  | ErrNotFound
  | ErrTerminated
  | ErrApprovalPending
  | ErrApprovalNotFound
  | ErrApprovalDecided
  | ErrApprovalBindingUnavailable
  | ErrInvalidApprovalBinding

record log_entry =
  le_ID :: string
  le_At :: go_time
  le_Level :: string
  le_Message :: string

record proposed_patch =
  pp_ID :: string
  pp_Path :: string
  pp_Summary :: string
  pp_Diff :: string
  pp_CreatedAt :: go_time

text \<open>The operation binding of a gate is the string inside \<open>ApprovalBinding\<close>, empty when unbound.\<close>

record approval_gate =
  ag_ID :: string
  ag_Kind :: string
  ag_Status :: string
  ag_Summary :: string
  ag_CreatedAt :: go_time
  ag_DecidedAt :: "go_time option"
  ag_DecidedBy :: string
  ag_OperationBinding :: string

record run =
  run_ID :: string
  run_Project :: string
  run_ProviderID :: string
  run_Mode :: string
  run_Status :: string
  run_PromptPreview :: string
  run_PromptHash :: string
  run_CreatedBy :: string
  run_CreatedAt :: go_time
  run_UpdatedAt :: go_time
  run_StartedAt :: "go_time option"
  run_CompletedAt :: "go_time option"
  run_Canceled :: bool
  run_Error :: string
  run_Logs :: "log_entry list"
  run_Patches :: "proposed_patch list"
  run_Approvals :: "approval_gate list"

record create_request =
  cr_Project :: string
  cr_Prompt :: string
  cr_ProviderID :: string
  cr_Mode :: string
  cr_CreatedBy :: string

record pending_gate =
  pg_ID :: string
  pg_Kind :: string
  pg_Summary :: string
  pg_CreatedAt :: go_time

record run_summary =
  rs_ID :: string
  rs_Project :: string
  rs_ProviderID :: string
  rs_Mode :: string
  rs_Status :: string
  rs_PromptPreview :: string
  rs_PromptHash :: string
  rs_CreatedAt :: go_time
  rs_UpdatedAt :: go_time
  rs_StartedAt :: "go_time option"
  rs_CompletedAt :: "go_time option"
  rs_Canceled :: bool
  rs_Error :: string
  rs_LogCount :: nat
  rs_PatchCount :: nat
  rs_ApprovalCount :: nat
  rs_PendingApprovalCount :: nat
  rs_PendingGates :: "pending_gate list"

record store =
  st_maxRuns :: nat
  st_next :: "64 word"
  st_runs :: "string \<Rightarrow> run option"
  st_order :: "string list"
  st_hashKey :: string

section \<open>Construction\<close>

datatype store_option = WithMaxRuns int | WithPromptHashKey string

fun apply_option :: "store \<Rightarrow> store_option \<Rightarrow> store" where
  "apply_option s (WithMaxRuns n) = (if 0 < n then s\<lparr>st_maxRuns := nat n\<rparr> else s)"
| "apply_option s (WithPromptHashKey k) = (if k \<noteq> [] then s\<lparr>st_hashKey := k\<rparr> else s)"

definition default_max_runs :: nat where "default_max_runs = 100"

text \<open>\<open>NewStore\<close>; \<open>fresh\<close> is the key \<open>newPromptHashKey\<close> draws from the system's random source.\<close>

definition new_store :: "string \<Rightarrow> store_option list \<Rightarrow> store" where
  "new_store fresh opts =
     (let s = foldl apply_option
        \<lparr>st_maxRuns = default_max_runs, st_next = 0, st_runs = Map.empty, st_order = [],
         st_hashKey = []\<rparr> opts
      in if st_hashKey s = [] then s\<lparr>st_hashKey := fresh\<rparr> else s)"

section \<open>Helpers\<close>

definition max_approval_binding_len :: nat where "max_approval_binding_len = 256"

definition valid_approval_binding :: "string \<Rightarrow> bool" where
  "valid_approval_binding v \<longleftrightarrow>
     v \<noteq> [] \<and> length v \<le> max_approval_binding_len \<and> list_all graphic v"

definition new_approval_binding :: "string \<Rightarrow> run_error + string" where
  "new_approval_binding v =
     (if valid_approval_binding v then Inr v else Inl ErrInvalidApprovalBinding)"

definition hash_text :: "string \<Rightarrow> string \<Rightarrow> string" where
  "hash_text t key = hex_encode (hmac_sha256 key t)"

definition append_log :: "run \<Rightarrow> go_time \<Rightarrow> string \<Rightarrow> string \<Rightarrow> run" where
  "append_log r now level msg =
     r\<lparr>run_Logs := run_Logs r @
        [\<lparr>le_ID = ''log_'' @ pad6 (length (run_Logs r) + 1), le_At = now, le_Level = level,
          le_Message = truncate_text (redact_text msg) max_log_message_len\<rparr>]\<rparr>"

fun has_pending_approvals :: "approval_gate list \<Rightarrow> bool" where
  "has_pending_approvals [] = False"
| "has_pending_approvals (a # as) = (ag_Status a = ApprovalPending \<or> has_pending_approvals as)"

definition set_completed :: "run \<Rightarrow> go_time \<Rightarrow> run" where
  "set_completed r now =
     (if run_CompletedAt r = None then r\<lparr>run_CompletedAt := Some now\<rparr> else r)"

definition set_started :: "run \<Rightarrow> go_time \<Rightarrow> run" where
  "set_started r now = (if run_StartedAt r = None then r\<lparr>run_StartedAt := Some now\<rparr> else r)"

text \<open>A closure given to \<open>update\<close>: the run it leaves and its error, if any.\<close>

type_synonym mutation = "run \<Rightarrow> go_time \<Rightarrow> run \<times> run_error option"

definition update :: "store \<Rightarrow> string \<Rightarrow> go_time \<Rightarrow> mutation \<Rightarrow> store \<times> (run_error + run)" where
  "update s i now f =
     (case st_runs s i of
        None \<Rightarrow> (s, Inl ErrNotFound)
      | Some r \<Rightarrow>
          (case f r now of
             (r', Some e) \<Rightarrow> (s\<lparr>st_runs := (st_runs s)(i \<mapsto> r')\<rparr>, Inl e)
           | (r', None) \<Rightarrow>
               let r'' = r'\<lparr>run_UpdatedAt := now\<rparr>
               in (s\<lparr>st_runs := (st_runs s)(i \<mapsto> r'')\<rparr>, Inr r'')))"

fun evict :: "nat \<Rightarrow> string list \<Rightarrow> (string \<Rightarrow> run option) \<Rightarrow> string list \<times> (string \<Rightarrow> run option)" where
  "evict n [] runs = ([], runs)"
| "evict n (i # is) runs =
     (if n < length (i # is) then evict n is (runs(i := None)) else (i # is, runs))"

definition evict_locked :: "store \<Rightarrow> store" where
  "evict_locked s =
     (case evict (st_maxRuns s) (st_order s) (st_runs s) of
        (order, runs) \<Rightarrow> s\<lparr>st_order := order, st_runs := runs\<rparr>)"

section \<open>Operations\<close>

definition run_id :: "64 word \<Rightarrow> string" where
  "run_id n = ''run_'' @ pad6 (unat n)"

definition created_run :: "string \<Rightarrow> create_request \<Rightarrow> string \<Rightarrow> string \<Rightarrow> string \<Rightarrow> go_time \<Rightarrow> run" where
  "created_run key req project mode i now =
     \<lparr>run_ID = i, run_Project = project,
      run_ProviderID = sanitize_metadata (cr_ProviderID req),
      run_Mode = mode, run_Status = StatusQueued,
      run_PromptPreview = truncate_text (redact_text (cr_Prompt req)) max_prompt_preview_len,
      run_PromptHash = hash_text (cr_Prompt req) key,
      run_CreatedBy = sanitize_metadata (cr_CreatedBy req),
      run_CreatedAt = now, run_UpdatedAt = now, run_StartedAt = None,
      run_CompletedAt = None, run_Canceled = False, run_Error = [],
      run_Logs = [], run_Patches = [], run_Approvals = []\<rparr>"

definition create :: "store \<Rightarrow> create_request \<Rightarrow> go_time \<Rightarrow> store \<times> (run_error + run)" where
  "create s req now =
     (let project = trim_space (cr_Project req);
          mode = (if cr_Mode req = [] then ModeReadOnly else cr_Mode req) in
      if project = [] then (s, Inl ErrProjectRequired)
      else if trim_space (cr_Prompt req) = [] then (s, Inl ErrPromptRequired)
      else if \<not> mode_valid mode then (s, Inl (ErrInvalidMode mode))
      else
        let next = st_next s + 1;
            i = run_id next;
            r = created_run (st_hashKey s) req project mode i now
        in (evict_locked (s\<lparr>st_next := next, st_runs := (st_runs s)(i \<mapsto> r),
                            st_order := st_order s @ [i]\<rparr>), Inr r))"

definition get_run :: "store \<Rightarrow> string \<Rightarrow> run option" where
  "get_run s i = st_runs s i"

definition list_runs :: "store \<Rightarrow> run list" where
  "list_runs s = List.map_filter (st_runs s) (st_order s)"

definition pending_gate_of :: "approval_gate \<Rightarrow> pending_gate" where
  "pending_gate_of a = \<lparr>pg_ID = ag_ID a, pg_Kind = ag_Kind a, pg_Summary = ag_Summary a,
     pg_CreatedAt = ag_CreatedAt a\<rparr>"

definition summarize_run :: "run \<Rightarrow> run_summary" where
  "summarize_run r =
     (let pending = filter (\<lambda>a. ag_Status a = ApprovalPending) (run_Approvals r) in
      \<lparr>rs_ID = run_ID r, rs_Project = run_Project r, rs_ProviderID = run_ProviderID r,
       rs_Mode = run_Mode r, rs_Status = run_Status r, rs_PromptPreview = run_PromptPreview r,
       rs_PromptHash = run_PromptHash r, rs_CreatedAt = run_CreatedAt r,
       rs_UpdatedAt = run_UpdatedAt r, rs_StartedAt = run_StartedAt r,
       rs_CompletedAt = run_CompletedAt r, rs_Canceled = run_Canceled r, rs_Error = run_Error r,
       rs_LogCount = length (run_Logs r), rs_PatchCount = length (run_Patches r),
       rs_ApprovalCount = length (run_Approvals r),
       rs_PendingApprovalCount = length pending, rs_PendingGates = map pending_gate_of pending\<rparr>)"

definition list_project_summaries :: "store \<Rightarrow> string \<Rightarrow> run_summary list" where
  "list_project_summaries s project =
     map summarize_run (filter (\<lambda>r. run_Project r = trim_space project) (list_runs s))"

definition set_status_mut :: "string \<Rightarrow> mutation" where
  "set_status_mut status r now =
     (if terminal_status (run_Status r) then (r, Some ErrTerminated)
      else
        let r1 = r\<lparr>run_Status := status\<rparr>;
            r2 = (if status = StatusRunning then set_started r1 now else r1);
            r3 = (if status = StatusCanceled then r2\<lparr>run_Canceled := True\<rparr> else r2);
            r4 = (if terminal_status status then set_completed r3 now else r3)
        in (r4, None))"

definition set_status :: "store \<Rightarrow> string \<Rightarrow> string \<Rightarrow> go_time \<Rightarrow> store \<times> (run_error + run)" where
  "set_status s i status now =
     (if \<not> valid_status status then (s, Inl (ErrInvalidStatus status))
      else update s i now (set_status_mut status))"

definition cancel_mut :: mutation where
  "cancel_mut r now =
     (if terminal_status (run_Status r) then (r, Some ErrTerminated)
      else (append_log (set_completed (r\<lparr>run_Canceled := True, run_Status := StatusCanceled\<rparr>) now)
              now LogAudit ''Agent run canceled.'', None))"

definition cancel :: "store \<Rightarrow> string \<Rightarrow> go_time \<Rightarrow> store \<times> (run_error + run)" where
  "cancel s i now = update s i now cancel_mut"

definition fail_mut :: "string \<Rightarrow> mutation" where
  "fail_mut message r now =
     (if terminal_status (run_Status r) then (r, Some ErrTerminated)
      else
        let failure = truncate_text (redact_text message) max_log_message_len;
            r1 = set_completed (r\<lparr>run_Status := StatusFailed, run_Error := failure\<rparr>) now
        in (append_log r1 now LogAudit
              (if failure = [] then ''Agent run failed.'' else ''Agent run failed: '' @ failure),
            None))"

definition fail :: "store \<Rightarrow> string \<Rightarrow> string \<Rightarrow> go_time \<Rightarrow> store \<times> (run_error + run)" where
  "fail s i message now = update s i now (fail_mut message)"

definition add_log_mut :: "string \<Rightarrow> string \<Rightarrow> bool \<Rightarrow> mutation" where
  "add_log_mut level message reject_pending r now =
     (if terminal_status (run_Status r) then (r, Some ErrTerminated)
      else if reject_pending \<and>
        (run_Status r = StatusWaitingApproval \<or> has_pending_approvals (run_Approvals r))
        then (r, Some ErrApprovalPending)
      else (append_log r now level message, None))"

definition add_log_general ::
  "store \<Rightarrow> string \<Rightarrow> string \<Rightarrow> string \<Rightarrow> bool \<Rightarrow> go_time \<Rightarrow> store \<times> (run_error + run)" where
  "add_log_general s i level message reject_pending now =
     (if \<not> valid_log_level level then (s, Inl (ErrInvalidLogLevel level))
      else update s i now (add_log_mut level message reject_pending))"

definition add_log :: "store \<Rightarrow> string \<Rightarrow> string \<Rightarrow> string \<Rightarrow> go_time \<Rightarrow> store \<times> (run_error + run)" where
  "add_log s i level message now = add_log_general s i level message False now"

definition add_log_if_no_pending ::
  "store \<Rightarrow> string \<Rightarrow> string \<Rightarrow> string \<Rightarrow> go_time \<Rightarrow> store \<times> (run_error + run)" where
  "add_log_if_no_pending s i level message now = add_log_general s i level message True now"

fun gate_index :: "approval_gate list \<Rightarrow> string \<Rightarrow> nat option" where
  "gate_index [] i = None"
| "gate_index (a # as) i = (if ag_ID a = i then Some 0 else map_option Suc (gate_index as i))"

definition consume_mut :: "string \<Rightarrow> string \<Rightarrow> mutation" where
  "consume_mut approval_id message r now =
     (if terminal_status (run_Status r) then (r, Some ErrTerminated)
      else if run_Status r = StatusWaitingApproval \<or> has_pending_approvals (run_Approvals r)
        then (r, Some ErrApprovalPending)
      else
        case gate_index (run_Approvals r) approval_id of
          None \<Rightarrow> (r, Some ErrApprovalNotFound)
        | Some k \<Rightarrow>
            let a = run_Approvals r ! k in
            if ag_Status a \<noteq> ApprovalApproved \<or> ag_OperationBinding a = []
              then (r, Some ErrApprovalBindingUnavailable)
            else (append_log (r\<lparr>run_Approvals := (run_Approvals r)[k := a\<lparr>ag_OperationBinding := []\<rparr>]\<rparr>)
                    now LogAudit message, None))"

definition consume_approval_binding ::
  "store \<Rightarrow> string \<Rightarrow> string \<Rightarrow> string \<Rightarrow> go_time \<Rightarrow> store \<times> (run_error + run)" where
  "consume_approval_binding s i approval_id message now =
     update s i now (consume_mut approval_id message)"

definition add_patch_mut :: "proposed_patch \<Rightarrow> string \<Rightarrow> mutation" where
  "add_patch_mut patch path r now =
     (if terminal_status (run_Status r) then (r, Some ErrTerminated)
      else (r\<lparr>run_Patches := run_Patches r @
               [\<lparr>pp_ID = ''patch_'' @ pad6 (length (run_Patches r) + 1), pp_Path = path,
                 pp_Summary = truncate_text (redact_text (pp_Summary patch)) max_log_message_len,
                 pp_Diff = truncate_text (redact_text (pp_Diff patch)) max_patch_diff_len,
                 pp_CreatedAt = now\<rparr>]\<rparr>, None))"

definition add_patch :: "store \<Rightarrow> string \<Rightarrow> proposed_patch \<Rightarrow> go_time \<Rightarrow> store \<times> (run_error + run)" where
  "add_patch s i patch now =
     (case normalize_patch_path (pp_Path patch) of
        Inl e \<Rightarrow> (s, Inl (ErrPatchPath e))
      | Inr path \<Rightarrow> update s i now (add_patch_mut patch path))"

definition add_approval_mut :: "approval_gate \<Rightarrow> mutation" where
  "add_approval_mut gate r now =
     (if terminal_status (run_Status r) then (r, Some ErrTerminated)
      else (r\<lparr>run_Approvals := run_Approvals r @
               [gate\<lparr>ag_ID := ''approval_'' @ pad6 (length (run_Approvals r) + 1),
                     ag_Status := ApprovalPending,
                     ag_Summary := truncate_text (redact_text (ag_Summary gate)) max_log_message_len,
                     ag_CreatedAt := now, ag_DecidedAt := None, ag_DecidedBy := []\<rparr>],
              run_Status := StatusWaitingApproval\<rparr>, None))"

definition add_approval :: "store \<Rightarrow> string \<Rightarrow> approval_gate \<Rightarrow> go_time \<Rightarrow> store \<times> (run_error + run)" where
  "add_approval s i gate now =
     (if \<not> valid_approval_kind (ag_Kind gate) then (s, Inl (ErrInvalidApprovalKind (ag_Kind gate)))
      else if ag_OperationBinding gate \<noteq> [] \<and> \<not> valid_approval_binding (ag_OperationBinding gate)
        then (s, Inl ErrInvalidApprovalBinding)
      else update s i now (add_approval_mut gate))"

definition decide_mut :: "string \<Rightarrow> string \<Rightarrow> string \<Rightarrow> mutation" where
  "decide_mut approval_id decision decided_by r now =
     (if terminal_status (run_Status r) then (r, Some ErrTerminated)
      else
        case gate_index (run_Approvals r) approval_id of
          None \<Rightarrow> (r, Some ErrApprovalNotFound)
        | Some k \<Rightarrow>
            let a = run_Approvals r ! k in
            if ag_Status a \<noteq> ApprovalPending then (r, Some ErrApprovalDecided)
            else
              let a' = a\<lparr>ag_Status := decision, ag_DecidedAt := Some now,
                         ag_DecidedBy := truncate_text (redact_text decided_by) max_log_message_len\<rparr>;
                  r1 = append_log (r\<lparr>run_Approvals := (run_Approvals r)[k := a']\<rparr>) now LogAudit
                         (''Approval gate '' @ ag_ID a' @ '' ('' @ ag_Kind a' @ '') '' @ decision @ ''.'')
              in if decision = ApprovalRejected
                 then (set_completed (r1\<lparr>run_Status := StatusFailed,
                                         run_Error := ''approval gate rejected''\<rparr>) now, None)
                 else if run_Status r1 = StatusWaitingApproval
                         \<and> \<not> has_pending_approvals (run_Approvals r1)
                 then (set_started (r1\<lparr>run_Status := StatusRunning\<rparr>) now, None)
                 else (r1, None))"

definition decide_approval ::
  "store \<Rightarrow> string \<Rightarrow> string \<Rightarrow> string \<Rightarrow> string \<Rightarrow> go_time \<Rightarrow> store \<times> (run_error + run)" where
  "decide_approval s i approval_id decision decided_by now =
     (if decision \<noteq> ApprovalApproved \<and> decision \<noteq> ApprovalRejected
        then (s, Inl (ErrInvalidApprovalDecision decision))
      else update s i now (decide_mut approval_id decision decided_by))"

end
