(* ===== verification/AgentRuns_Inv.thy ===== *)
theory AgentRuns_Inv
  imports AgentRuns
begin

text \<open>
  What the run store of \<open>internal/agentruns/store.go\<close> keeps: the step relation of the store
  (any client, any operation, in any order), a locale that lifts a property of single runs
  kept by every mutation to every run of every reachable store, and its interpretations: the
  well-formedness of a run, and what the store promises about approval gates.
\<close>

section \<open>Steps of the store\<close>

datatype store_op =
    OpCreate create_request
  | OpSetStatus string string
  | OpCancel string
  | OpFail string string
  | OpAddLog string string string
  | OpAddLogIfNoPending string string string
  | OpConsume string string string
  | OpAddPatch string proposed_patch
  | OpAddApproval string approval_gate
  | OpDecide string string string string

fun apply_op :: "store \<Rightarrow> store_op \<Rightarrow> go_time \<Rightarrow> store \<times> (run_error + run)" where
  "apply_op s (OpCreate req) now = create s req now"
| "apply_op s (OpSetStatus i st) now = set_status s i st now"
| "apply_op s (OpCancel i) now = cancel s i now"
| "apply_op s (OpFail i m) now = fail s i m now"
| "apply_op s (OpAddLog i l m) now = add_log s i l m now"
| "apply_op s (OpAddLogIfNoPending i l m) now = add_log_if_no_pending s i l m now"
| "apply_op s (OpConsume i a m) now = consume_approval_binding s i a m now"
| "apply_op s (OpAddPatch i p) now = add_patch s i p now"
| "apply_op s (OpAddApproval i g) now = add_approval s i g now"
| "apply_op s (OpDecide i a d b) now = decide_approval s i a d b now"

text \<open>The counter of runs is a \<open>uint64\<close>; a creation that would wrap it is not a step.\<close>

fun counter_ok :: "store \<Rightarrow> store_op \<Rightarrow> bool" where
  "counter_ok s (OpCreate req) = (st_next s + 1 \<noteq> 0)"
| "counter_ok s _ = True"

inductive store_step :: "store \<Rightarrow> store \<Rightarrow> bool" where
  op: "counter_ok s p \<Longrightarrow> apply_op s p now = (t, res) \<Longrightarrow> store_step s t"

inductive store_reach :: "store \<Rightarrow> bool" where
  start: "store_reach (new_store fresh opts)"
| step: "store_reach s \<Longrightarrow> store_step s t \<Longrightarrow> store_reach t"

text \<open>The mutations the operations run under the lock, with what their guards have checked.\<close>

inductive legal_mut :: "mutation \<Rightarrow> bool" where
  "valid_status st \<Longrightarrow> legal_mut (set_status_mut st)"
| "legal_mut cancel_mut"
| "legal_mut (fail_mut m)"
| "valid_log_level l \<Longrightarrow> legal_mut (add_log_mut l m b)"
| "legal_mut (consume_mut a m)"
| "safe_patch_path path \<Longrightarrow> legal_mut (add_patch_mut p path)"
| "valid_approval_kind (ag_Kind g) \<Longrightarrow>
   ag_OperationBinding g = [] \<or> valid_approval_binding (ag_OperationBinding g) \<Longrightarrow>
   legal_mut (add_approval_mut g)"
| "d = ApprovalApproved \<or> d = ApprovalRejected \<Longrightarrow> legal_mut (decide_mut a d b)"

lemma apply_op_cases:
  assumes "apply_op s p now = (t, res)"
  obtains (refused) e where "t = s" "res = Inl e"
  | (created) req where "p = OpCreate req" "create s req now = (t, res)"
  | (mutated) i f where "legal_mut f" "update s i now f = (t, res)"
proof (cases p)
  case (OpAddPatch i pp)
  show ?thesis
  proof (cases "normalize_patch_path (pp_Path pp)")
    case (Inl e)
    then show ?thesis using assms OpAddPatch refused by (auto simp: add_patch_def)
  next
    case (Inr path)
    then have "legal_mut (add_patch_mut pp path)"
      using legal_mut.intros(6) normalize_patch_path_safe by blast
    then show ?thesis using assms OpAddPatch Inr mutated by (simp add: add_patch_def)
  qed
next
  case (OpAddApproval i g)
  then show ?thesis
    using assms refused mutated legal_mut.intros(7) [of g]
    by (auto simp: add_approval_def split: if_splits)
next
  case (OpDecide i a d b)
  then show ?thesis
    using assms refused mutated legal_mut.intros(8) [of d a b]
    by (auto simp: decide_approval_def split: if_splits)
next
  case (OpCreate req)
  then show ?thesis using assms created by simp
next
  case (OpSetStatus i st)
  then show ?thesis
    using assms refused mutated [of "set_status_mut st"] legal_mut.intros(1)
    by (auto simp: set_status_def split: if_splits)
next
  case (OpCancel i)
  then show ?thesis using assms mutated [OF legal_mut.intros(2)] by (simp add: cancel_def)
next
  case (OpFail i m)
  then show ?thesis using assms mutated [OF legal_mut.intros(3)] by (simp add: fail_def)
next
  case (OpAddLog i l m)
  then show ?thesis
    using assms refused mutated [of "add_log_mut l m False"] legal_mut.intros(4)
    by (auto simp: add_log_def add_log_general_def split: if_splits)
next
  case (OpAddLogIfNoPending i l m)
  then show ?thesis
    using assms refused mutated [of "add_log_mut l m True"] legal_mut.intros(4)
    by (auto simp: add_log_if_no_pending_def add_log_general_def split: if_splits)
next
  case (OpConsume i a m)
  then show ?thesis
    using assms mutated [OF legal_mut.intros(5)] by (simp add: consume_approval_binding_def)
qed

section \<open>Errors change nothing\<close>

lemma update_cases:
  assumes "update s i now f = (t, res)"
  obtains (missing) "st_runs s i = None" "t = s" "res = Inl ErrNotFound"
  | (failed) r r' e where "st_runs s i = Some r" "f r now = (r', Some e)"
      "t = s\<lparr>st_runs := (st_runs s)(i \<mapsto> r')\<rparr>" "res = Inl e"
  | (changed) r r' where "st_runs s i = Some r" "f r now = (r', None)"
      "t = s\<lparr>st_runs := (st_runs s)(i \<mapsto> r'\<lparr>run_UpdatedAt := now\<rparr>)\<rparr>"
      "res = Inr (r'\<lparr>run_UpdatedAt := now\<rparr>)"
  using assms by (auto simp: update_def Let_def split: option.splits prod.splits)

lemmas mutation_defs = set_status_mut_def cancel_mut_def fail_mut_def add_log_mut_def
  consume_mut_def add_patch_mut_def add_approval_mut_def decide_mut_def

lemma legal_mut_error:
  assumes "legal_mut f" "f r now = (r', Some e)"
  shows "r' = r"
  using assms by (cases f rule: legal_mut.cases)
    (auto simp: mutation_defs Let_def split: if_splits option.splits)

lemma legal_mut_terminal:
  assumes "legal_mut f" "terminal_status (run_Status r)"
  shows "f r now = (r, Some ErrTerminated)"
  using assms by (cases f rule: legal_mut.cases) (simp_all add: mutation_defs)

lemma apply_op_error_unchanged:
  assumes "apply_op s p now = (t, Inl e)"
  shows "t = s"
  using assms
proof (cases rule: apply_op_cases)
  case (created req)
  then show ?thesis by (auto simp: create_def Let_def split: if_splits)
next
  case (mutated i f)
  from mutated(2) show ?thesis
  proof (cases rule: update_cases)
    case (failed r r' e')
    then have "r' = r" using legal_mut_error mutated(1) by blast
    with failed(1,3) show ?thesis by (simp add: map_upd_triv)
  qed auto
qed

section \<open>The store\<close>

definition store_inv :: "store \<Rightarrow> bool" where
  "store_inv s \<longleftrightarrow>
     0 < st_maxRuns s \<and> length (st_order s) \<le> st_maxRuns s \<and> distinct (st_order s) \<and>
     dom (st_runs s) = set (st_order s) \<and>
     (\<forall>i r. st_runs s i = Some r \<longrightarrow> run_ID r = i) \<and>
     (\<forall>i \<in> set (st_order s). \<exists>k. i = ''run_'' @ pad6 k \<and> 0 < k \<and> k \<le> unat (st_next s))"

lemma evict_spec:
  assumes "dom runs = set order" "distinct order" "evict n order runs = (order', runs')"
  shows "order' = drop (length order - n) order \<and> runs' = runs |` set order'"
  using assms
proof (induction n order runs rule: evict.induct)
  case (1 n runs)
  then show ?case by auto
next
  case (2 n i "is" runs)
  show ?case
  proof (cases "n < length (i # is)")
    case True
    have d: "dom (runs(i := None)) = set is" using 2(2,3) by auto
    from 2(4) True have e: "evict n is (runs(i := None)) = (order', runs')" by simp
    have "distinct is" using 2(3) by simp
    with 2(1) [OF True d _ e] have ih: "order' = drop (length is - n) is"
      "runs' = runs(i := None) |` set order'" by blast+
    have "i \<notin> set order'" using 2(3) ih(1) by (auto dest: in_set_dropD)
    then have "runs(i := None) |` set order' = runs |` set order'"
      by (auto simp: restrict_map_def)
    then show ?thesis using ih True by (simp add: Suc_diff_le)
  next
    case False
    have "runs = runs |` set (i # is)"
    proof
      fix x
      show "runs x = (runs |` set (i # is)) x"
        using 2(2) by (cases "runs x") (auto simp: restrict_map_def)
    qed
    then show ?thesis using 2 False by auto
  qed
qed

lemma fold_options_maxRuns: "0 < st_maxRuns s \<Longrightarrow> 0 < st_maxRuns (foldl apply_option s opts)"
proof (induction opts arbitrary: s)
  case (Cons x opts)
  have "0 < st_maxRuns (apply_option s x)" using Cons.prems by (cases x) auto
  then show ?case using Cons.IH by simp
qed simp

lemma fold_options_frame:
  "st_next (foldl apply_option s opts) = st_next s \<and>
   st_runs (foldl apply_option s opts) = st_runs s \<and>
   st_order (foldl apply_option s opts) = st_order s"
proof (induction opts arbitrary: s)
  case (Cons x opts)
  then show ?case by (cases x) auto
qed simp

lemma new_store_inv: "store_inv (new_store fresh opts)"
  unfolding new_store_def Let_def store_inv_def
  using fold_options_frame fold_options_maxRuns by (simp add: default_max_runs_def)

lemma create_store:
  assumes "create s req now = (t, Inr r)" "store_inv s" "st_next s + 1 \<noteq> 0"
  shows "store_inv t \<and> st_next t = st_next s + 1 \<and> st_runs t (run_ID r) = Some r \<and>
    run_ID r = run_id (st_next s + 1) \<and> st_runs s (run_ID r) = None \<and>
    (\<forall>i. i \<noteq> run_ID r \<longrightarrow> st_runs t i = st_runs s i \<or> st_runs t i = None) \<and>
    st_order t = drop (length (st_order s) + 1 - st_maxRuns s) (st_order s @ [run_ID r])"
proof -
  let ?i = "run_id (st_next s + 1)"
  let ?ord = "st_order s @ [?i]" and ?runs = "(st_runs s)(?i \<mapsto> r)"
  let ?s1 = "s\<lparr>st_next := st_next s + 1, st_runs := ?runs, st_order := ?ord\<rparr>"
  from assms(1) have r: "run_ID r = ?i" and t: "t = evict_locked ?s1"
    by (auto simp: create_def created_run_def Let_def split: if_splits)
  from assms(2) have inv: "0 < st_maxRuns s" "length (st_order s) \<le> st_maxRuns s"
    "distinct (st_order s)" "dom (st_runs s) = set (st_order s)"
    "\<And>i r. st_runs s i = Some r \<Longrightarrow> run_ID r = i"
    "\<And>i. i \<in> set (st_order s) \<Longrightarrow> \<exists>k. i = ''run_'' @ pad6 k \<and> 0 < k \<and> k \<le> unat (st_next s)"
    unfolding store_inv_def by blast+
  have u: "unat (st_next s + 1) = Suc (unat (st_next s))"
    using assms(3) unatSuc by (metis add.commute)
  have fresh: "?i \<notin> set (st_order s)"
  proof
    assume "?i \<in> set (st_order s)"
    then obtain k where "?i = ''run_'' @ pad6 k" "k \<le> unat (st_next s)" using inv(6) by blast
    then have "Suc (unat (st_next s)) = k" using pad6_inj u by (simp add: run_id_def)
    with \<open>k \<le> unat (st_next s)\<close> show False by simp
  qed
  obtain ord' runs' where ev: "evict (st_maxRuns s) ?ord ?runs = (ord', runs')"
    by (cases "evict (st_maxRuns s) ?ord ?runs")
  have spec: "ord' = drop (length ?ord - st_maxRuns s) ?ord" "runs' = ?runs |` set ord'"
    using evict_spec [OF _ _ ev] inv fresh by auto
  have tt: "t = s\<lparr>st_next := st_next s + 1, st_runs := runs', st_order := ord'\<rparr>"
    using t ev by (simp add: evict_locked_def)
  have "length ?ord - st_maxRuns s \<le> length (st_order s)" using inv(1) by simp
  then have mem: "?i \<in> set ord'" using spec(1) by simp
  have sub: "set ord' \<subseteq> set ?ord" using spec(1) by (auto dest: in_set_dropD)
  have "length ord' \<le> st_maxRuns s" using spec(1) by simp
  moreover have "distinct ord'" unfolding spec(1) by (rule distinct_drop) (simp add: inv(3) fresh)
  moreover have "dom runs' = set ord'" using spec(2) sub inv(4) by auto
  moreover have "\<forall>i r. runs' i = Some r \<longrightarrow> run_ID r = i"
    using spec(2) inv(5) r by (auto simp: restrict_map_def split: if_splits)
  moreover have "\<forall>i \<in> set ord'. \<exists>k. i = ''run_'' @ pad6 k \<and> 0 < k \<and> k \<le> unat (st_next s + 1)"
  proof
    fix i assume "i \<in> set ord'"
    then consider "i \<in> set (st_order s)" | "i = ?i" using sub by auto
    then show "\<exists>k. i = ''run_'' @ pad6 k \<and> 0 < k \<and> k \<le> unat (st_next s + 1)"
    proof cases
      case 1
      then show ?thesis using inv(6) u by (metis le_SucI)
    next
      case 2
      then show ?thesis using u by (auto simp: run_id_def)
    qed
  qed
  ultimately have "store_inv t" using inv(1) unfolding store_inv_def tt by simp
  moreover have "st_runs s ?i = None" using fresh inv(4) by auto
  moreover have "runs' ?i = Some r" using mem spec(2) by simp
  moreover have "\<forall>i. i \<noteq> ?i \<longrightarrow> runs' i = st_runs s i \<or> runs' i = None"
    using spec(2) by (auto simp: restrict_map_def)
  ultimately show ?thesis using tt r spec(1) by simp
qed


lemma evict_sub: "evict n order runs = (order', runs') \<Longrightarrow> runs' i = None \<or> runs' i = runs i"
proof (induction n order runs arbitrary: order' runs' rule: evict.induct)
  case (2 n j "is" runs)
  then show ?case by (cases "n < length (j # is)") (fastforce split: if_splits)+
qed simp

lemma create_runs:
  assumes "create s req now = (t, Inr r)" "st_runs t i = Some q"
  shows "(i = run_ID r \<and> q = r) \<or> st_runs s i = Some q"
proof -
  let ?i = "run_id (st_next s + 1)"
  from assms(1) have r: "run_ID r = ?i" and t: "t = evict_locked
      (s\<lparr>st_next := st_next s + 1, st_runs := (st_runs s)(?i \<mapsto> r), st_order := st_order s @ [?i]\<rparr>)"
    by (auto simp: create_def created_run_def Let_def split: if_splits)
  obtain ord' runs' where ev: "evict (st_maxRuns s) (st_order s @ [?i]) ((st_runs s)(?i \<mapsto> r)) = (ord', runs')"
    by (cases "evict (st_maxRuns s) (st_order s @ [?i]) ((st_runs s)(?i \<mapsto> r))")
  with t have "st_runs t = runs'" by (simp add: evict_locked_def)
  with evict_sub [OF ev, of i] assms(2) have "((st_runs s)(?i \<mapsto> r)) i = Some q" by auto
  then show ?thesis using r by (auto split: if_splits)
qed

lemma create_created:
  assumes "create s req now = (t, Inr r)"
  obtains mode where "mode_valid mode"
    "r = created_run (st_hashKey s) req (trim_space (cr_Project req)) mode (run_id (st_next s + 1)) now"
  using assms by (auto simp: create_def Let_def split: if_splits)

lemma create_error: "create s req now = (t, Inl e) \<Longrightarrow> t = s"
  by (auto simp: create_def Let_def split: if_splits)

text \<open>A step leaves the store as it is, creates a run, or replaces one run.\<close>

lemma store_step_cases:
  assumes "store_step s t"
  obtains (same) "t = s"
  | (created) req now r where "create s req now = (t, Inr r)" "st_next s + 1 \<noteq> 0"
  | (mutated) i r f now r' where "st_runs s i = Some r" "legal_mut f" "f r now = (r', None)"
      "t = s\<lparr>st_runs := (st_runs s)(i \<mapsto> r'\<lparr>run_UpdatedAt := now\<rparr>)\<rparr>"
proof -
  from assms obtain p now res where w: "counter_ok s p" and a: "apply_op s p now = (t, res)"
    by (cases rule: store_step.cases) blast
  show thesis
  proof (cases res)
    case (Inl e)
    with a apply_op_error_unchanged same show thesis by blast
  next
    case (Inr r)
    from a show thesis
    proof (cases rule: apply_op_cases)
      case (refused e)
      then show thesis using same by blast
    next
      case (created req)
      then show thesis using that(2) Inr w by simp
    next
      case (mutated i f)
      from mutated(2) show thesis
        by (cases rule: update_cases) (use Inr mutated(1) that(3) in auto)
    qed
  qed
qed

lemma legal_mut_frame:
  assumes "legal_mut f" "f r now = (r', e)"
  shows "run_ID r' = run_ID r \<and> run_Project r' = run_Project r \<and> run_ProviderID r' = run_ProviderID r
    \<and> run_Mode r' = run_Mode r \<and> run_PromptHash r' = run_PromptHash r
    \<and> run_PromptPreview r' = run_PromptPreview r \<and> run_CreatedBy r' = run_CreatedBy r
    \<and> run_CreatedAt r' = run_CreatedAt r"
  using assms by (cases f rule: legal_mut.cases)
    (auto simp: mutation_defs Let_def set_started_def set_completed_def append_log_def
      split: if_splits option.splits)

lemma update_inv:
  assumes "legal_mut f" "store_inv s" "update s i now f = (t, res)"
  shows "store_inv t"
  using assms(3)
proof (cases rule: update_cases)
  case missing
  then show ?thesis using assms(2) by simp
next
  case (failed r r' e)
  then show ?thesis using assms(2) legal_mut_error [OF assms(1) failed(2)] by (simp add: map_upd_triv)
next
  case (changed r r')
  then show ?thesis
    using legal_mut_frame [OF assms(1) changed(2)] assms(2) unfolding store_inv_def by (auto simp: dom_def)
qed

lemma store_step_inv:
  assumes "store_step s t" "store_inv s"
  shows "store_inv t"
  using assms(1)
proof (cases rule: store_step_cases)
  case same
  then show ?thesis using assms(2) by simp
next
  case (created req now r)
  then show ?thesis using create_store assms(2) by blast
next
  case (mutated i r f now r')
  then show ?thesis
    using legal_mut_frame [OF mutated(2,3)] assms(2) unfolding store_inv_def by (auto simp: dom_def)
qed

lemma store_reach_inv: "store_reach s \<Longrightarrow> store_inv s"
  by (induction rule: store_reach.induct) (auto intro: new_store_inv store_step_inv)

section \<open>Properties of runs, lifted to stores\<close>

text \<open>What the store owes a property of a run: new runs have it, every mutation keeps it.\<close>

locale run_property =
  fixes P :: "run \<Rightarrow> bool"
  assumes created: "mode_valid mode \<Longrightarrow> P (created_run key req project mode i now)"
    and mutated: "P r \<Longrightarrow> \<not> terminal_status (run_Status r) \<Longrightarrow> legal_mut f \<Longrightarrow>
      f r now = (r', None) \<Longrightarrow> P (r'\<lparr>run_UpdatedAt := now\<rparr>)"
begin

definition all_runs :: "store \<Rightarrow> bool" where
  "all_runs s \<longleftrightarrow> (\<forall>i r. st_runs s i = Some r \<longrightarrow> P r)"

lemma all_runs_step:
  assumes "store_step s t" and a: "all_runs s"
  shows "all_runs t"
  using assms(1)
proof (cases rule: store_step_cases)
  case same
  then show ?thesis using a by simp
next
  case (created req now r)
  have "P r"
    by (rule create_created [OF created(1)])
      (simp add: run_property.created [OF run_property_axioms])
  then show ?thesis using a create_runs [OF created(1)] unfolding all_runs_def by blast
next
  case (mutated i r f now r')
  have "\<not> terminal_status (run_Status r)"
    using legal_mut_terminal [OF mutated(2)] mutated(3) by fastforce
  then have "P (r'\<lparr>run_UpdatedAt := now\<rparr>)"
    using run_property.mutated [OF run_property_axioms] mutated a unfolding all_runs_def by blast
  then show ?thesis using a mutated(4) unfolding all_runs_def by auto
qed

lemma all_runs_reach: "store_reach s \<Longrightarrow> all_runs s"
proof (induction rule: store_reach.induct)
  case (start fresh opts)
  show ?case using fold_options_frame by (simp add: all_runs_def new_store_def Let_def)
next
  case (step s t)
  then show ?case using all_runs_step by blast
qed

lemma reach: "store_reach s \<Longrightarrow> st_runs s i = Some r \<Longrightarrow> P r"
  using all_runs_reach unfolding all_runs_def by blast

end

text \<open>What the store owes a relation between a run and what becomes of it.\<close>

definition issued :: "store \<Rightarrow> string \<Rightarrow> bool" where
  "issued s i \<longleftrightarrow> (\<exists>k. i = ''run_'' @ pad6 k \<and> 0 < k \<and> k \<le> unat (st_next s))"

lemma store_inv_issued: "store_inv s \<Longrightarrow> st_runs s i = Some r \<Longrightarrow> issued s i"
  unfolding store_inv_def issued_def by (metis domI)

lemma issued_step:
  assumes "store_step s t" "store_inv s" "issued s i"
  shows "issued t i \<and> (st_runs s i = None \<longrightarrow> st_runs t i = None)"
  using assms(1)
proof (cases rule: store_step_cases)
  case (created req now r)
  note c = create_store [OF created(1) assms(2) created(2)]
  have u: "unat (st_next t) = Suc (unat (st_next s))"
    using c created(2) unatSuc by (metis add.commute)
  obtain k where k: "i = ''run_'' @ pad6 k" "0 < k" "k \<le> unat (st_next s)"
    using assms(3) unfolding issued_def by blast
  have "i \<noteq> run_ID r"
    using c k u by (auto simp: run_id_def)
  then have "st_runs s i = None \<Longrightarrow> st_runs t i = None" using c by metis
  moreover have "issued t i" using k u unfolding issued_def by (metis le_SucI)
  ultimately show ?thesis by blast
qed (use assms(3) in \<open>auto simp: issued_def\<close>)

locale run_relation =
  fixes R :: "run \<Rightarrow> run \<Rightarrow> bool"
  assumes refl: "R r r"
    and trans: "R r q \<Longrightarrow> R q p \<Longrightarrow> R r p"
    and mutated: "legal_mut f \<Longrightarrow> f r now = (r', None) \<Longrightarrow> R r (r'\<lparr>run_UpdatedAt := now\<rparr>)"
begin

lemma one_step:
  assumes "store_step s t" "store_inv s" "st_runs s i = Some r" "st_runs t i = Some q"
  shows "R r q"
  using assms(1)
proof (cases rule: store_step_cases)
  case same
  then show ?thesis using assms refl by simp
next
  case (created req now n)
  note c = create_store [OF created(1) assms(2) created(2)]
  have "i \<noteq> run_ID n" using c assms(3) by auto
  with c assms have "q = r" by (metis option.distinct(1) option.inject)
  then show ?thesis using refl by simp
next
  case (mutated j r0 f now r')
  then show ?thesis
    using assms refl run_relation.mutated [OF run_relation_axioms mutated(2,3)]
    by (cases "i = j") auto
qed

lemma many_steps:
  assumes "store_step\<^sup>*\<^sup>* s t" "store_inv s" "st_runs s i = Some r"
  shows "store_inv t \<and> issued t i \<and> (case st_runs t i of None \<Rightarrow> True | Some q \<Rightarrow> R r q)"
  using assms(1)
proof (induction rule: rtranclp_induct)
  case base
  then show ?case using assms refl store_inv_issued by simp
next
  case (step u t)
  then have inv: "store_inv u" "store_inv t" and iss: "issued u i" using store_step_inv by blast+
  note stp = issued_step [OF step(2) inv(1) iss]
  show ?case
  proof (cases "st_runs u i")
    case None
    then show ?thesis using stp inv by simp
  next
    case (Some m)
    then have "R r m" using step.IH by simp
    then show ?thesis
      using one_step [OF step(2) inv(1) Some] trans stp inv by (auto split: option.splits)
  qed
qed

lemma evolves:
  assumes "store_step\<^sup>*\<^sup>* s t" "store_inv s" "st_runs s i = Some r" "st_runs t i = Some q"
  shows "R r q"
  using many_steps [OF assms(1-3)] assms(4) by simp

end

end
