(* ===== verification/AgentRuns_Facts.thy ===== *)
theory AgentRuns_Facts
  imports AgentRuns_Inv
begin

text \<open>
  The interpretations of the interfaces of \<open>AgentRuns_Inv\<close> and what they give: every
  stored run is well formed and clean, a terminated run never changes, a run evolves only
  forward (its identity is fixed, its log and patches grow at the end, a gate is decided
  once), and the binding of an approved gate is spent at most once.
\<close>

section \<open>Well-formed runs\<close>

definition numbered :: "string \<Rightarrow> string list \<Rightarrow> bool" where
  "numbered p ids \<longleftrightarrow> (\<forall>k < length ids. ids ! k = p @ pad6 (k + 1))"

lemma numbered_append: "numbered p ids \<Longrightarrow> numbered p (ids @ [p @ pad6 (length ids + 1)])"
  by (auto simp: numbered_def nth_append less_Suc_eq)

lemma numbered_Nil [simp]: "numbered p []"
  by (simp add: numbered_def)

lemma numbered_distinct: "numbered p ids \<Longrightarrow> distinct ids"
  unfolding numbered_def distinct_conv_nth by simp

definition log_ok :: "log_entry \<Rightarrow> bool" where
  "log_ok l \<longleftrightarrow> valid_log_level (le_Level l) \<and> clean_text max_log_message_len (le_Message l)"

definition patch_ok :: "proposed_patch \<Rightarrow> bool" where
  "patch_ok p \<longleftrightarrow> safe_patch_path (pp_Path p) \<and> clean_text max_log_message_len (pp_Summary p)
     \<and> clean_text max_patch_diff_len (pp_Diff p)"

definition gate_ok :: "approval_gate \<Rightarrow> bool" where
  "gate_ok a \<longleftrightarrow> valid_approval_kind (ag_Kind a)
     \<and> ag_Status a \<in> {ApprovalPending, ApprovalApproved, ApprovalRejected}
     \<and> (ag_Status a = ApprovalPending \<longleftrightarrow> ag_DecidedAt a = None)
     \<and> clean_text max_log_message_len (ag_Summary a)
     \<and> clean_text max_log_message_len (ag_DecidedBy a)
     \<and> (ag_OperationBinding a = [] \<or> valid_approval_binding (ag_OperationBinding a))"

definition texts_ok :: "run \<Rightarrow> bool" where
  "texts_ok r \<longleftrightarrow> clean_text max_prompt_preview_len (run_PromptPreview r)
     \<and> clean_text max_log_message_len (run_ProviderID r)
     \<and> clean_text max_log_message_len (run_CreatedBy r)
     \<and> clean_text max_log_message_len (run_Error r)
     \<and> list_all log_ok (run_Logs r) \<and> list_all patch_ok (run_Patches r)"

definition ids_ok :: "run \<Rightarrow> bool" where
  "ids_ok r \<longleftrightarrow> numbered ''log_'' (map le_ID (run_Logs r))
     \<and> numbered ''patch_'' (map pp_ID (run_Patches r))
     \<and> numbered ''approval_'' (map ag_ID (run_Approvals r))"

definition status_ok :: "run \<Rightarrow> bool" where
  "status_ok r \<longleftrightarrow> valid_status (run_Status r) \<and> mode_valid (run_Mode r)
     \<and> (run_Canceled r \<longleftrightarrow> run_Status r = StatusCanceled)
     \<and> (run_CompletedAt r \<noteq> None \<longleftrightarrow> terminal_status (run_Status r))
     \<and> (run_Status r = StatusRunning \<longrightarrow> run_StartedAt r \<noteq> None)
     \<and> (run_Error r \<noteq> [] \<longrightarrow> run_Status r = StatusFailed)"

definition gates_ok :: "run \<Rightarrow> bool" where
  "gates_ok r \<longleftrightarrow> list_all gate_ok (run_Approvals r)
     \<and> ((\<exists>a \<in> set (run_Approvals r). ag_Status a = ApprovalRejected)
          \<longrightarrow> run_Status r = StatusFailed)"

lemma gate_index_Some:
  "gate_index as i = Some k \<Longrightarrow> k < length as \<and> ag_ID (as ! k) = i"
  by (induction as arbitrary: k) (auto split: if_splits)

lemma limits_pos [simp]: "0 < max_log_message_len" "0 < max_patch_diff_len"
  by (simp_all add: max_log_message_len_def max_patch_diff_len_def)

lemma clean_const [simp]:
  "clean_text max_log_message_len ''approval gate rejected''"
proof -
  have "\<not> key_char (CHR '' '')" by (simp add: key_char_def byte_in_def)
  from has_key_break [OF this, of "''approval''" "''gate rejected''"]
  show ?thesis by (simp add: clean_text_def max_log_message_len_def has_key_short)
qed

lemma list_all_update: "list_all P xs \<Longrightarrow> P x \<Longrightarrow> list_all P (xs[k := x])"
  using set_update_subset_insert [of xs k x] by (auto simp: list_all_iff)

lemma map_update_same: "k < length xs \<Longrightarrow> f x = f (xs ! k) \<Longrightarrow> map f (xs[k := x]) = map f xs"
  by (simp add: map_update list_update_same_conv)

lemmas run_updates = set_started_def set_completed_def append_log_def

lemma texts_ok_append_log:
  "texts_ok r \<Longrightarrow> valid_log_level l \<Longrightarrow> texts_ok (append_log r now l m)"
  by (simp add: texts_ok_def append_log_def log_ok_def)

lemma valid_log_audit [simp]: "valid_log_level LogAudit"
  by (simp add: valid_log_level_def)

lemma texts_ok_frame [simp]:
  "texts_ok (r\<lparr>run_UpdatedAt := t\<rparr>) = texts_ok r" "texts_ok (r\<lparr>run_Status := st\<rparr>) = texts_ok r"
  "texts_ok (r\<lparr>run_Canceled := b\<rparr>) = texts_ok r" "texts_ok (r\<lparr>run_Approvals := as\<rparr>) = texts_ok r"
  "texts_ok (set_started r now) = texts_ok r" "texts_ok (set_completed r now) = texts_ok r"
  by (simp_all add: texts_ok_def set_started_def set_completed_def)

lemma texts_ok_error: "texts_ok r \<Longrightarrow> clean_text max_log_message_len e \<Longrightarrow>
  texts_ok (r\<lparr>run_Error := e\<rparr>)"
  by (simp add: texts_ok_def)

lemma texts_ok_mut:
  assumes "texts_ok r" "legal_mut f" "f r now = (r', None)"
  shows "texts_ok (r'\<lparr>run_UpdatedAt := t\<rparr>)"
  using assms(2)
proof (cases f rule: legal_mut.cases)
  case (6 path p)
  then show ?thesis using assms(1,3)
    by (auto simp: add_patch_mut_def texts_ok_def patch_ok_def split: if_splits)
qed (use assms(1,3) in \<open>auto simp: set_status_mut_def cancel_mut_def fail_mut_def add_log_mut_def
  consume_mut_def add_approval_mut_def decide_mut_def Let_def texts_ok_append_log texts_ok_error
  split: if_splits option.splits\<close>)

lemma ids_ok_append_log: "ids_ok r \<Longrightarrow> ids_ok (append_log r now l m)"
  using numbered_append [of "''log_''" "map le_ID (run_Logs r)"]
  by (simp add: ids_ok_def append_log_def)

lemma ids_ok_frame [simp]:
  "ids_ok (r\<lparr>run_UpdatedAt := t\<rparr>) = ids_ok r" "ids_ok (r\<lparr>run_Status := st\<rparr>) = ids_ok r"
  "ids_ok (r\<lparr>run_Canceled := b\<rparr>) = ids_ok r" "ids_ok (r\<lparr>run_Error := e\<rparr>) = ids_ok r"
  "ids_ok (set_started r now) = ids_ok r" "ids_ok (set_completed r now) = ids_ok r"
  by (simp_all add: ids_ok_def set_started_def set_completed_def)

lemma ids_ok_approvals: "ids_ok r \<Longrightarrow> map ag_ID as = map ag_ID (run_Approvals r) \<Longrightarrow>
  ids_ok (r\<lparr>run_Approvals := as\<rparr>)"
  by (simp add: ids_ok_def)

lemma ids_ok_mut:
  assumes "ids_ok r" "legal_mut f" "f r now = (r', None)"
  shows "ids_ok (r'\<lparr>run_UpdatedAt := t\<rparr>)"
  using assms(2)
proof (cases f rule: legal_mut.cases)
  case (6 path p)
  then show ?thesis using assms(1,3) numbered_append [of "''patch_''" "map pp_ID (run_Patches r)"]
    by (auto simp: add_patch_mut_def ids_ok_def split: if_splits)
next
  case (7 g)
  then show ?thesis using assms(1,3) numbered_append [of "''approval_''" "map ag_ID (run_Approvals r)"]
    by (auto simp: add_approval_mut_def ids_ok_def split: if_splits)
qed (use assms(1,3) in \<open>auto simp: set_status_mut_def cancel_mut_def fail_mut_def add_log_mut_def
  consume_mut_def decide_mut_def Let_def ids_ok_append_log ids_ok_approvals map_update_same
  dest!: gate_index_Some split: if_splits option.splits\<close>)

lemma status_ok_append_log [simp]: "status_ok (append_log r now l m) = status_ok r"
  "run_Status (append_log r now l m) = run_Status r"
  "run_Approvals (append_log r now l m) = run_Approvals r"
  by (simp_all add: status_ok_def append_log_def)

lemma status_ok_frame [simp]:
  "status_ok (r\<lparr>run_UpdatedAt := t\<rparr>) = status_ok r" "status_ok (r\<lparr>run_Approvals := as\<rparr>) = status_ok r"
  "status_ok (r\<lparr>run_Patches := ps\<rparr>) = status_ok r"
  by (simp_all add: status_ok_def)

lemma status_ok_moves:
  assumes "status_ok r" "\<not> terminal_status (run_Status r)"
  shows "status_ok (set_completed (r\<lparr>run_Status := StatusFailed, run_Error := e\<rparr>) now)"
    "status_ok (set_started (r\<lparr>run_Status := StatusRunning\<rparr>) now)"
    "status_ok (set_completed (r\<lparr>run_Canceled := True, run_Status := StatusCanceled\<rparr>) now)"
    "status_ok (r\<lparr>run_Status := StatusWaitingApproval\<rparr>)"
  using assms by (auto simp: status_ok_def run_updates valid_status_def)

lemma decide_mut_cases:
  assumes "decide_mut a d b r now = (r', None)"
  obtains k g where "\<not> terminal_status (run_Status r)" "gate_index (run_Approvals r) a = Some k"
    "ag_Status (run_Approvals r ! k) = ApprovalPending"
    "g = (run_Approvals r ! k)\<lparr>ag_Status := d, ag_DecidedAt := Some now,
            ag_DecidedBy := truncate_text (redact_text b) max_log_message_len\<rparr>"
    "\<exists>m r1. r1 = append_log (r\<lparr>run_Approvals := (run_Approvals r)[k := g]\<rparr>) now LogAudit m \<and>
       (d = ApprovalRejected \<and> r' = set_completed (r1\<lparr>run_Status := StatusFailed,
                                         run_Error := ''approval gate rejected''\<rparr>) now \<or>
        d \<noteq> ApprovalRejected \<and> run_Status r = StatusWaitingApproval \<and>
          \<not> has_pending_approvals (run_Approvals r1) \<and>
          r' = set_started (r1\<lparr>run_Status := StatusRunning\<rparr>) now \<or>
        d \<noteq> ApprovalRejected \<and>
          (run_Status r = StatusWaitingApproval \<longrightarrow> has_pending_approvals (run_Approvals r1)) \<and>
          r' = r1)"
  using assms unfolding decide_mut_def Let_def
  by (split if_splits, simp, simp split: option.splits if_splits) (auto simp: append_log_def)

lemma status_ok_live:
  "status_ok r \<Longrightarrow> \<not> terminal_status (run_Status r) \<Longrightarrow> run_Error r = [] \<and> \<not> run_Canceled r \<and>
     run_CompletedAt r = None \<and> run_Status r \<noteq> StatusCanceled \<and> run_Status r \<noteq> StatusFailed"
  using terminal_status_simps by (metis status_ok_def)

lemma status_ok_mut:
  assumes "status_ok r" "\<not> terminal_status (run_Status r)" "legal_mut f" "f r now = (r', None)"
  shows "status_ok (r'\<lparr>run_UpdatedAt := t\<rparr>)"
  using assms(3)
proof (cases f rule: legal_mut.cases)
  case (1 st)
  from 1(2) have "st \<in> {StatusQueued, StatusRunning, StatusWaitingApproval,
     StatusCompleted, StatusFailed, StatusCanceled}" by (simp only: valid_status_def)
  moreover have "r' = fst (set_status_mut st r now)" using assms(4) 1(1) by simp
  ultimately show ?thesis using assms(1) status_ok_live [OF assms(1,2)]
    by (elim insertE emptyE)
      (simp_all add: set_status_mut_def status_ok_def Let_def valid_status_def run_updates split: if_splits)
next
  case (8 d a b)
  show ?thesis using assms(4) unfolding 8(1)
    by (cases rule: decide_mut_cases) (use assms(1,2) in \<open>auto intro!: status_ok_moves\<close>)
next
  case 2
  then show ?thesis using assms(1,2,4) by (auto simp: cancel_mut_def intro!: status_ok_moves)
next
  case (3 m)
  then obtain e m' where "r' = append_log (set_completed
      (r\<lparr>run_Status := StatusFailed, run_Error := e\<rparr>) now) now LogAudit m'"
    using assms(2) assms(4) [symmetric] by (simp add: fail_mut_def Let_def)
  then have "status_ok r'" by (simp only: status_ok_append_log status_ok_moves(1) [OF assms(1,2)])
  then show ?thesis by (simp only: status_ok_frame)
next
  case (7 g)
  then obtain as where "r' = r\<lparr>run_Approvals := as, run_Status := StatusWaitingApproval\<rparr>"
    using assms(2) assms(4) [symmetric] by (simp add: add_approval_mut_def)
  then have "status_ok r'" using status_ok_moves(4) [of "r\<lparr>run_Approvals := as\<rparr>"] assms(1,2) by simp
  then show ?thesis by (simp only: status_ok_frame)
qed (use assms(1,4) in \<open>auto simp: add_log_mut_def consume_mut_def add_patch_mut_def Let_def
  split: if_splits option.splits\<close>)

lemma consume_mut_cases:
  assumes "consume_mut a m r now = (r', None)"
  obtains k where "\<not> terminal_status (run_Status r)" "run_Status r \<noteq> StatusWaitingApproval"
    "\<not> has_pending_approvals (run_Approvals r)" "gate_index (run_Approvals r) a = Some k"
    "ag_Status (run_Approvals r ! k) = ApprovalApproved"
    "ag_OperationBinding (run_Approvals r ! k) \<noteq> []"
    "r' = append_log (r\<lparr>run_Approvals := (run_Approvals r)
            [k := (run_Approvals r ! k)\<lparr>ag_OperationBinding := []\<rparr>]\<rparr>) now LogAudit m"
  using assms unfolding consume_mut_def Let_def by (auto split: if_splits option.splits)

lemma gate_index_ok: "list_all P as \<Longrightarrow> gate_index as i = Some k \<Longrightarrow> P (as ! k)"
  using gate_index_Some by (fastforce simp: list_all_length)

lemma no_rejected_gates: "gates_ok r \<Longrightarrow> \<not> terminal_status (run_Status r) \<Longrightarrow>
  a \<in> set (run_Approvals r) \<Longrightarrow> ag_Status a \<noteq> ApprovalRejected"
  unfolding gates_ok_def using terminal_status_simps(2) by metis

lemma gates_ok_other:
  assumes "gates_ok r" "run_Approvals r' = run_Approvals r" "\<not> terminal_status (run_Status r)"
  shows "gates_ok r'"
  using assms no_rejected_gates by (auto simp: gates_ok_def)

lemma gates_ok_set:
  assumes "gates_ok r" "\<not> terminal_status (run_Status r)" "gate_ok g"
    "run_Approvals r' = (run_Approvals r)[k := g] \<or> run_Approvals r' = run_Approvals r @ [g]"
    "ag_Status g = ApprovalRejected \<longrightarrow> run_Status r' = StatusFailed"
  shows "gates_ok r'"
proof -
  have "set (run_Approvals r') \<subseteq> insert g (set (run_Approvals r))"
    using assms(4) set_update_subset_insert by fastforce
  moreover have "list_all gate_ok (run_Approvals r')"
    using assms(1,3,4) by (auto simp: gates_ok_def intro: list_all_update)
  ultimately show ?thesis
    using assms(5) no_rejected_gates [OF assms(1,2)] by (auto simp: gates_ok_def)
qed

lemma run_Approvals_frame [simp]:
  "run_Approvals (set_started r now) = run_Approvals r" "run_Approvals (set_completed r now) = run_Approvals r"
  "run_Status (set_started r now) = run_Status r" "run_Status (set_completed r now) = run_Status r"
  by (simp_all add: run_updates)

lemma gates_ok_mut:
  assumes "gates_ok r" "\<not> terminal_status (run_Status r)" "legal_mut f" "f r now = (r', None)"
  shows "gates_ok (r'\<lparr>run_UpdatedAt := t\<rparr>)"
  using assms(3)
proof (cases f rule: legal_mut.cases)
  case (5 a m)
  show ?thesis using assms(4) unfolding 5(1)
  proof (cases rule: consume_mut_cases)
    case (1 k)
    have "gate_ok (run_Approvals r ! k)"
      using gate_index_ok assms(1) 1(4) unfolding gates_ok_def by blast
    then have g: "gate_ok ((run_Approvals r ! k)\<lparr>ag_OperationBinding := []\<rparr>)"
      by (auto simp: gate_ok_def)
    show ?thesis using 1(5,7) by (intro gates_ok_set [OF assms(1,2) g, of _ k]) simp_all
  qed
next
  case (7 g)
  let ?g = "g\<lparr>ag_ID := ''approval_'' @ pad6 (length (run_Approvals r) + 1), ag_Status := ApprovalPending,
      ag_Summary := truncate_text (redact_text (ag_Summary g)) max_log_message_len,
      ag_CreatedAt := now, ag_DecidedAt := None, ag_DecidedBy := []\<rparr>"
  have "gate_ok ?g" using 7(2,3) by (simp add: gate_ok_def)
  moreover have "run_Approvals r' = run_Approvals r @ [?g]"
    using assms(2,4) 7(1) by (auto simp: add_approval_mut_def)
  ultimately show ?thesis by (intro gates_ok_set [OF assms(1,2)]) auto
next
  case (8 d a b)
  show ?thesis using assms(4) unfolding 8(1)
  proof (cases rule: decide_mut_cases)
    case (1 k g)
    have "gate_ok (run_Approvals r ! k)"
      using gate_index_ok assms(1) 1(2) unfolding gates_ok_def by blast
    then have g: "gate_ok g" using 1(4) 8(2) by (auto simp: gate_ok_def)
    show ?thesis using 1(4,5) by (intro gates_ok_set [OF assms(1,2) g, of _ k]) auto
  qed
qed (use assms(4) in \<open>auto simp: set_status_mut_def cancel_mut_def fail_mut_def add_log_mut_def
  add_patch_mut_def Let_def intro!: gates_ok_other [OF assms(1) _ assms(2)] split: if_splits\<close>)

definition run_ok :: "run \<Rightarrow> bool" where
  "run_ok r \<longleftrightarrow> texts_ok r \<and> ids_ok r \<and> status_ok r \<and> gates_ok r"

lemma created_run_ok: "mode_valid mode \<Longrightarrow> run_ok (created_run key req project mode i now)"
  by (simp add: run_ok_def created_run_def texts_ok_def ids_ok_def status_ok_def gates_ok_def
      valid_status_def max_prompt_preview_len_def)

interpretation well_formed: run_property run_ok
proof
  fix r f now r'
  assume "run_ok r" "\<not> terminal_status (run_Status r)" "legal_mut f" "f r now = (r', None)"
  then show "run_ok (r'\<lparr>run_UpdatedAt := now\<rparr>)"
    using texts_ok_mut ids_ok_mut status_ok_mut gates_ok_mut unfolding run_ok_def by blast
qed (rule created_run_ok)

section \<open>Terminated runs\<close>

definition frozen :: "run \<Rightarrow> run \<Rightarrow> bool" where
  "frozen r q \<longleftrightarrow> (terminal_status (run_Status r) \<longrightarrow> q = r)"

interpretation terminated: run_relation frozen
proof
  fix f r now r'
  assume "legal_mut f" "f r now = (r', None)"
  then have "\<not> terminal_status (run_Status r)" using legal_mut_terminal by fastforce
  then show "frozen r (r'\<lparr>run_UpdatedAt := now\<rparr>)" by (simp add: frozen_def)
qed (auto simp: frozen_def)

section \<open>Forward evolution\<close>

definition gate_evolves :: "approval_gate \<Rightarrow> approval_gate \<Rightarrow> bool" where
  "gate_evolves a b \<longleftrightarrow> ag_ID b = ag_ID a \<and> ag_Kind b = ag_Kind a \<and> ag_Summary b = ag_Summary a
     \<and> ag_CreatedAt b = ag_CreatedAt a
     \<and> (ag_Status a \<noteq> ApprovalPending \<longrightarrow> ag_Status b = ag_Status a
          \<and> ag_DecidedAt b = ag_DecidedAt a \<and> ag_DecidedBy b = ag_DecidedBy a)
     \<and> (ag_OperationBinding b \<noteq> ag_OperationBinding a \<longrightarrow>
          ag_Status b = ApprovalApproved \<and> ag_OperationBinding b = [])"

definition gates_evolve :: "approval_gate list \<Rightarrow> approval_gate list \<Rightarrow> bool" where
  "gates_evolve as bs \<longleftrightarrow> length as \<le> length bs \<and> (\<forall>k < length as. gate_evolves (as ! k) (bs ! k))"

definition run_evolves :: "run \<Rightarrow> run \<Rightarrow> bool" where
  "run_evolves r q \<longleftrightarrow> run_ID q = run_ID r \<and> run_Project q = run_Project r
     \<and> run_ProviderID q = run_ProviderID r \<and> run_Mode q = run_Mode r
     \<and> run_PromptHash q = run_PromptHash r \<and> run_PromptPreview q = run_PromptPreview r
     \<and> run_CreatedBy q = run_CreatedBy r \<and> run_CreatedAt q = run_CreatedAt r
     \<and> prefix (run_Logs r) (run_Logs q) \<and> prefix (run_Patches r) (run_Patches q)
     \<and> gates_evolve (run_Approvals r) (run_Approvals q)"

lemma gate_evolves_refl [simp]: "gate_evolves a a"
  by (simp add: gate_evolves_def)

lemma gate_evolves_trans: "gate_evolves a b \<Longrightarrow> gate_evolves b c \<Longrightarrow> gate_evolves a c"
  unfolding gate_evolves_def by (metis approval_status_ne(3))

lemma gates_evolve_refl [simp]: "gates_evolve as as"
  by (simp add: gates_evolve_def)

lemma gates_evolve_trans:
  assumes "gates_evolve as bs" "gates_evolve bs cs"
  shows "gates_evolve as cs"
  unfolding gates_evolve_def
proof (intro conjI allI impI)
  show "length as \<le> length cs" using assms by (simp add: gates_evolve_def)
  fix k assume "k < length as"
  then have "gate_evolves (as ! k) (bs ! k)" "gate_evolves (bs ! k) (cs ! k)"
    using assms by (simp_all add: gates_evolve_def)
  then show "gate_evolves (as ! k) (cs ! k)" by (rule gate_evolves_trans)
qed

lemma gates_evolve_update:
  assumes "gate_evolves (as ! k) g"
  shows "gates_evolve as (as[k := g])"
  unfolding gates_evolve_def
proof (intro conjI allI impI)
  fix j assume "j < length as"
  then show "gate_evolves (as ! j) (as[k := g] ! j)" using assms by (cases "j = k") simp_all
qed simp

lemma gates_evolve_append [simp]: "gates_evolve as (as @ bs)"
  by (simp add: gates_evolve_def nth_append)

lemma gates_evolve_mut:
  assumes "legal_mut f" "f r now = (r', None)"
  shows "gates_evolve (run_Approvals r) (run_Approvals r')"
  using assms(1)
proof (cases f rule: legal_mut.cases)
  case (5 a m)
  show ?thesis using assms(2) unfolding 5(1)
    by (cases rule: consume_mut_cases) (auto intro!: gates_evolve_update simp: gate_evolves_def)
next
  case (8 d a b)
  show ?thesis using assms(2) unfolding 8(1)
    by (cases rule: decide_mut_cases) (auto intro!: gates_evolve_update simp: gate_evolves_def)
qed (use assms(2) in \<open>auto simp: set_status_mut_def cancel_mut_def fail_mut_def add_log_mut_def
  add_patch_mut_def add_approval_mut_def Let_def split: if_splits\<close>)

lemma logs_frame [simp]:
  "run_Logs (set_started r now) = run_Logs r" "run_Logs (set_completed r now) = run_Logs r"
  "run_Patches (set_started r now) = run_Patches r" "run_Patches (set_completed r now) = run_Patches r"
  "run_Patches (append_log r now l m) = run_Patches r"
  "prefix (run_Logs r) (run_Logs (append_log r now l m))"
  by (simp_all add: run_updates)

lemma logs_prefix_mut:
  assumes "legal_mut f" "f r now = (r', None)"
  shows "prefix (run_Logs r) (run_Logs r') \<and> prefix (run_Patches r) (run_Patches r')"
  using assms(1)
proof (cases f rule: legal_mut.cases)
  case (8 d a b)
  show ?thesis using assms(2) unfolding 8(1)
    by (cases rule: decide_mut_cases) (auto simp: append_log_def)
next
  case (3 m)
  then show ?thesis using assms(2) [symmetric]
    by (auto simp: fail_mut_def Let_def append_log_def split: if_splits)
qed (use assms(2) in \<open>auto simp: set_status_mut_def cancel_mut_def add_log_mut_def consume_mut_def
  add_patch_mut_def add_approval_mut_def Let_def append_log_def split: if_splits option.splits\<close>)

interpretation forward: run_relation run_evolves
proof
  fix r q p
  assume "run_evolves r q" "run_evolves q p"
  then show "run_evolves r p"
    using gates_evolve_trans prefix_order.order_trans unfolding run_evolves_def by metis
next
  fix f r now r'
  assume "legal_mut f" "f r now = (r', None)"
  then show "run_evolves r (r'\<lparr>run_UpdatedAt := now\<rparr>)"
    using legal_mut_frame logs_prefix_mut gates_evolve_mut unfolding run_evolves_def by simp
qed (simp add: run_evolves_def)

section \<open>Approvals are spent once\<close>

lemma gate_index_evolves:
  "gate_index as i = Some k \<Longrightarrow> gates_evolve as bs \<Longrightarrow> gate_index bs i = Some k"
proof (induction as arbitrary: bs k)
  case (Cons a as)
  from Cons.prems(2) obtain b bs' where bs: "bs = b # bs'" by (cases bs) (auto simp: gates_evolve_def)
  have e: "k < length (a # as) \<Longrightarrow> gate_evolves ((a # as) ! k) ((b # bs') ! k)" for k
    using Cons.prems(2) unfolding gates_evolve_def bs by blast
  have "gate_evolves a b" using e [of 0] by simp
  have "gate_evolves (as ! k) (bs' ! k)" if "k < length as" for k
    using e [of "Suc k"] that by simp
  then have "gates_evolve as bs'" using Cons.prems(2) by (simp add: gates_evolve_def bs)
  show ?case
  proof (cases "ag_ID a = i")
    case True
    then show ?thesis using Cons.prems(1) \<open>gate_evolves a b\<close> by (simp add: bs gate_evolves_def)
  next
    case False
    with Cons.prems(1) obtain j where "gate_index as i = Some j" "k = Suc j" by auto
    with Cons.IH \<open>gates_evolve as bs'\<close> have "gate_index bs' i = Some j" "k = Suc j" by blast+
    then show ?thesis using False \<open>gate_evolves a b\<close> by (simp add: bs gate_evolves_def)
  qed
qed simp

lemma gate_index_update:
  "gate_index as i = Some k \<Longrightarrow> ag_ID g = ag_ID (as ! k) \<Longrightarrow> gate_index (as[k := g]) i = Some k"
  by (induction as arbitrary: k) (auto split: if_splits)

lemma consumed:
  assumes "consume_approval_binding s i a m now = (t, Inr r)"
  obtains k where "st_runs t i = Some r" "gate_index (run_Approvals r) a = Some k"
    "ag_OperationBinding (run_Approvals r ! k) = []" "ag_Status (run_Approvals r ! k) = ApprovalApproved"
    "k < length (run_Approvals r)"
  using assms unfolding consume_approval_binding_def
proof (cases rule: update_cases)
  case (changed r0 r')
  from changed(2) show ?thesis
  proof (cases rule: consume_mut_cases)
    case (1 k)
    let ?g = "(run_Approvals r0 ! k)\<lparr>ag_OperationBinding := []\<rparr>"
    have "r = r'\<lparr>run_UpdatedAt := now\<rparr>" using changed(4) by simp
    then have as: "run_Approvals r = (run_Approvals r0)[k := ?g]" using 1(7) by simp
    have k: "k < length (run_Approvals r0)" using gate_index_Some [OF 1(4)] by simp
    have "st_runs t i = Some r" using changed(3,4) by simp
    moreover have "gate_index (run_Approvals r) a = Some k"
      unfolding as by (rule gate_index_update [OF 1(4)]) simp
    moreover have "run_Approvals r ! k = ?g" "k < length (run_Approvals r)" using as k by simp_all
    ultimately show ?thesis using that 1(5) by simp
  qed
qed auto

lemma consume_spent:
  assumes "store_inv t" "st_runs t i = Some r" "gate_index (run_Approvals r) a = Some k"
    "k < length (run_Approvals r)" "ag_OperationBinding (run_Approvals r ! k) = []"
    "ag_Status (run_Approvals r ! k) = ApprovalApproved" "store_step\<^sup>*\<^sup>* t u"
    "consume_approval_binding u i a m now = (v, res)"
  shows "\<not> is_ok res"
proof (cases "st_runs u i")
  case None
  then show ?thesis using assms(8) by (auto simp: consume_approval_binding_def update_def)
next
  case (Some q)
  have ev: "gates_evolve (run_Approvals r) (run_Approvals q)"
    using forward.evolves [OF assms(7,1,2) Some] by (simp add: run_evolves_def)
  then have "gate_evolves (run_Approvals r ! k) (run_Approvals q ! k)"
    using assms(4) by (simp add: gates_evolve_def)
  then have b: "ag_OperationBinding (run_Approvals q ! k) = []"
    using assms(5) by (auto simp: gate_evolves_def)
  note gi = gate_index_evolves [OF assms(3) ev]
  have "consume_mut a m q now \<noteq> (q', None)" for q'
    using b gi by (auto simp: consume_mut_def)
  then show ?thesis
    using assms(8) Some by (auto simp: consume_approval_binding_def update_def Let_def
      split: prod.splits option.splits)
qed

lemma add_log_no_pending_ok:
  assumes "add_log_if_no_pending s i l m now = (t, Inr r)"
  shows "\<exists>q. st_runs s i = Some q \<and> \<not> terminal_status (run_Status q) \<and>
    run_Status q \<noteq> StatusWaitingApproval \<and> \<not> has_pending_approvals (run_Approvals q) \<and>
    valid_log_level l \<and> r = (append_log q now l m)\<lparr>run_UpdatedAt := now\<rparr>"
  using assms unfolding add_log_if_no_pending_def add_log_general_def update_def
  by (auto simp: Let_def add_log_mut_def split: if_splits option.splits)

end
