(* ===== verification/Go_Json.thy ===== *)
theory Go_Json
  imports Utf8 "HOL-Library.List_Lexorder" "HOL-Library.Product_Lexorder" "HOL-Library.Char_ord"
begin

text \<open>
  JSON values as \<open>encoding/json\<close> decodes them into \<open>any\<close>, and the text \<open>json.Marshal\<close>
  prints for them: object keys sorted by bytes, HTML characters and the line separators
  escaped, invalid UTF-8 replaced. A number is carried as the text the encoder prints for it.
  Imports the orders on characters, lists and pairs: Go compares strings byte by byte.
\<close>

datatype json =
    JNull
  | JBool bool
  | JNum string
  | JStr string
  | JArr "json list"
  | JObj "(string \<times> json) list"

definition lower_hex_digit :: "nat \<Rightarrow> char" where
  "lower_hex_digit d = (if d < 10 then char_of (48 + d) else char_of (87 + d))"

definition escape_u00 :: "char \<Rightarrow> string" where
  "escape_u00 c = (let n = (of_char c :: nat) in
     [CHR 0x5C, CHR ''u'', CHR ''0'', CHR ''0'', lower_hex_digit (n div 16), lower_hex_digit (n mod 16)])"

text \<open>One ASCII byte inside a JSON string, with HTML escaping on.\<close>

definition escape_ascii :: "char \<Rightarrow> string" where
  "escape_ascii c =
     (if c = CHR 0x22 \<or> c = CHR 0x5C then [CHR 0x5C, c]
      else if c = CHR 0x08 then [CHR 0x5C, CHR ''b'']
      else if c = CHR 0x0C then [CHR 0x5C, CHR ''f'']
      else if c = CHR 0x0A then [CHR 0x5C, CHR ''n'']
      else if c = CHR 0x0D then [CHR 0x5C, CHR ''r'']
      else if c = CHR 0x09 then [CHR 0x5C, CHR ''t'']
      else if (of_char c :: nat) < 32 \<or> c = CHR ''<'' \<or> c = CHR ''>'' \<or> c = CHR ''&'' then escape_u00 c
      else [c])"

text \<open>\<open>rune_width\<close> is 1 for an ASCII byte and for a byte that starts no valid rune.\<close>

function escape_string :: "string \<Rightarrow> string" where
  "escape_string s =
     (case s of
        [] \<Rightarrow> []
      | c # t \<Rightarrow>
          if is_ascii c then escape_ascii c @ escape_string t
          else if rune_width s \<le> 1 then [CHR 0x5C] @ ''ufffd'' @ escape_string t
          else let w = rune_width s; r = take w s in
            (if r = [CHR 0xE2, CHR 0x80, CHR 0xA8] then [CHR 0x5C] @ ''u2028''
             else if r = [CHR 0xE2, CHR 0x80, CHR 0xA9] then [CHR 0x5C] @ ''u2029''
             else r) @ escape_string (drop w s))"
  by auto
termination by (relation "measure length") (auto simp: rune_width_pos)

declare escape_string.simps [simp del]

definition json_string :: "string \<Rightarrow> string" where
  "json_string s = [CHR 0x22] @ escape_string s @ [CHR 0x22]"

fun encode_json :: "json \<Rightarrow> string"
and encode_items :: "json list \<Rightarrow> string list"
and encode_fields :: "(string \<times> json) list \<Rightarrow> (string \<times> string) list" where
  "encode_json JNull = ''null''"
| "encode_json (JBool b) = (if b then ''true'' else ''false'')"
| "encode_json (JNum n) = n"
| "encode_json (JStr s) = json_string s"
| "encode_json (JArr xs) = ''['' @ join '','' (encode_items xs) @ '']''"
| "encode_json (JObj fs) =
     ''{'' @ join '','' (map (\<lambda>(k, v). json_string k @ '':'' @ v) (sort_key fst (encode_fields fs))) @ ''}''"
| "encode_items [] = []"
| "encode_items (x # xs) = encode_json x # encode_items xs"
| "encode_fields [] = []"
| "encode_fields ((k, v) # fs) = (k, encode_json v) # encode_fields fs"

text \<open>A map of type \<open>map[string]any\<close>: \<open>None\<close> is the nil map.\<close>

fun encode_object :: "(string \<times> json) list option \<Rightarrow> string" where
  "encode_object None = ''null''"
| "encode_object (Some fs) = encode_json (JObj fs)"

end
