(* ===== verification/Airlock_Tools.thy ===== *)
theory Airlock_Tools
  imports Go_Json Crypto "HOL-Library.AList"
begin

text \<open>
  The tool firewall of \<open>internal/mcpairlock/tools.go\<close>: risk classes, the allowlist, the
  decision on one tool, classification, and the operations of the tool inventory.

  A Go map is an association list with distinct keys: its order is the order in which a
  \<open>range\<close> visits it, so what a definition computes for every order of the list is what the
  code can do. Reading a missing key gives the zero value. The inventory file is the state it
  decodes to; that reading, decoding or writing it can fail is an argument of the operations.
\<close>

section \<open>Data\<close>

definition RiskReadOnly :: string where [go_consts]: "RiskReadOnly = ''read_only''"
definition RiskGenerateCode :: string where [go_consts]: "RiskGenerateCode = ''generate_code''"
definition RiskModifyWorkspace :: string where [go_consts]: "RiskModifyWorkspace = ''modify_workspace''"
definition RiskCloudMutation :: string where [go_consts]: "RiskCloudMutation = ''cloud_mutation''"
definition RiskSecretSensitive :: string where [go_consts]: "RiskSecretSensitive = ''secret_sensitive''"
definition RiskDestructive :: string where [go_consts]: "RiskDestructive = ''destructive''"
definition RiskUnknown :: string where [go_consts]: "RiskUnknown = ''unknown''"

lemma risk_ne [simp, go_enum]:
  "RiskReadOnly \<noteq> RiskGenerateCode" "RiskReadOnly \<noteq> RiskModifyWorkspace" "RiskReadOnly \<noteq> RiskCloudMutation" "RiskReadOnly \<noteq> RiskSecretSensitive" "RiskReadOnly \<noteq> RiskDestructive" "RiskReadOnly \<noteq> RiskUnknown"
  "RiskGenerateCode \<noteq> RiskReadOnly" "RiskGenerateCode \<noteq> RiskModifyWorkspace" "RiskGenerateCode \<noteq> RiskCloudMutation" "RiskGenerateCode \<noteq> RiskSecretSensitive" "RiskGenerateCode \<noteq> RiskDestructive" "RiskGenerateCode \<noteq> RiskUnknown"
  "RiskModifyWorkspace \<noteq> RiskReadOnly" "RiskModifyWorkspace \<noteq> RiskGenerateCode" "RiskModifyWorkspace \<noteq> RiskCloudMutation" "RiskModifyWorkspace \<noteq> RiskSecretSensitive" "RiskModifyWorkspace \<noteq> RiskDestructive" "RiskModifyWorkspace \<noteq> RiskUnknown"
  "RiskCloudMutation \<noteq> RiskReadOnly" "RiskCloudMutation \<noteq> RiskGenerateCode" "RiskCloudMutation \<noteq> RiskModifyWorkspace" "RiskCloudMutation \<noteq> RiskSecretSensitive" "RiskCloudMutation \<noteq> RiskDestructive" "RiskCloudMutation \<noteq> RiskUnknown"
  "RiskSecretSensitive \<noteq> RiskReadOnly" "RiskSecretSensitive \<noteq> RiskGenerateCode" "RiskSecretSensitive \<noteq> RiskModifyWorkspace" "RiskSecretSensitive \<noteq> RiskCloudMutation" "RiskSecretSensitive \<noteq> RiskDestructive" "RiskSecretSensitive \<noteq> RiskUnknown"
  "RiskDestructive \<noteq> RiskReadOnly" "RiskDestructive \<noteq> RiskGenerateCode" "RiskDestructive \<noteq> RiskModifyWorkspace" "RiskDestructive \<noteq> RiskCloudMutation" "RiskDestructive \<noteq> RiskSecretSensitive" "RiskDestructive \<noteq> RiskUnknown"
  "RiskUnknown \<noteq> RiskReadOnly" "RiskUnknown \<noteq> RiskGenerateCode" "RiskUnknown \<noteq> RiskModifyWorkspace" "RiskUnknown \<noteq> RiskCloudMutation" "RiskUnknown \<noteq> RiskSecretSensitive" "RiskUnknown \<noteq> RiskDestructive"
  by (simp_all add: go_consts)

lemma risk_nonempty [simp, go_enum]:
  "RiskReadOnly \<noteq> []" "[] \<noteq> RiskReadOnly"
  "RiskGenerateCode \<noteq> []" "[] \<noteq> RiskGenerateCode"
  "RiskModifyWorkspace \<noteq> []" "[] \<noteq> RiskModifyWorkspace"
  "RiskCloudMutation \<noteq> []" "[] \<noteq> RiskCloudMutation"
  "RiskSecretSensitive \<noteq> []" "[] \<noteq> RiskSecretSensitive"
  "RiskDestructive \<noteq> []" "[] \<noteq> RiskDestructive"
  "RiskUnknown \<noteq> []" "[] \<noteq> RiskUnknown"
  by (simp_all add: go_consts)

record tool_allowlist =
  al_ServerTools :: "(string \<times> string list) list"
  al_ProjectTools :: "(string \<times> (string \<times> string list) list) list"

record discovered_tool =
  dt_Name :: string
  dt_Description :: string
  dt_InputSchema :: "(string \<times> json) list option"
  dt_Annotations :: "(string \<times> json) list"

record check =
  ck_Name :: string
  ck_Status :: string
  ck_Message :: string

record tool_decision =
  td_Status :: string
  td_Allowed :: bool
  td_ApprovalRequired :: bool
  td_Risk :: string
  td_Reason :: string
  td_Allowlisted :: bool
  td_UntrustedOutput :: bool

record tool_entry =
  te_ServerID :: string
  te_Name :: string
  te_Description :: string
  te_InputSchemaHash :: string
  te_LastSeenAt :: string
  te_SchemaState :: string
  te_Risk :: string
  te_Decision :: tool_decision

record tool_inventory =
  ti_ServerID :: string
  ti_DiscoveredAt :: string
  ti_Tools :: "tool_entry list"
  ti_Checks :: "check list"

record tool_record =
  tr_Description :: string
  tr_InputSchemaHash :: string
  tr_LastSeenAt :: string
  tr_SchemaState :: string
  tr_Risk :: string

record server_tools =
  ps_DiscoveredAt :: string
  ps_Tools :: "(string \<times> tool_record) list"

record persisted_inventory =
  pi_Allowlist :: tool_allowlist
  pi_Servers :: "(string \<times> server_tools) list"

definition empty_allowlist :: tool_allowlist where
  "empty_allowlist = \<lparr>al_ServerTools = [], al_ProjectTools = []\<rparr>"

definition empty_inventory :: persisted_inventory where
  "empty_inventory = \<lparr>pi_Allowlist = empty_allowlist, pi_Servers = []\<rparr>"

section \<open>The allowlist\<close>

definition list_at :: "(string \<times> 'a list) list \<Rightarrow> string \<Rightarrow> 'a list" where
  "list_at m k = (case map_of m k of None \<Rightarrow> [] | Some v \<Rightarrow> v)"

definition contains_string :: "string list \<Rightarrow> string \<Rightarrow> bool" where
  "contains_string vs t \<longleftrightarrow> list_ex (\<lambda>v. trim_space v = t) vs"

definition remove_string :: "string list \<Rightarrow> string \<Rightarrow> string list" where
  "remove_string vs t = filter (\<lambda>v. trim_space v \<noteq> t) vs"

definition is_tool_allowlisted :: "tool_allowlist \<Rightarrow> string \<Rightarrow> string \<Rightarrow> string \<Rightarrow> bool" where
  "is_tool_allowlisted al server project tool =
     (let server = trim_space server; project = trim_space project; tool = trim_space tool in
      if contains_string (list_at (al_ServerTools al) server) tool then True
      else if project \<noteq> [] then
        contains_string (list_at (list_at (al_ProjectTools al) project) server) tool
      else False)"

definition add_allowlist_tool ::
  "tool_allowlist \<Rightarrow> string \<Rightarrow> string \<Rightarrow> string \<Rightarrow> tool_allowlist" where
  "add_allowlist_tool al server project tool =
     (let server = trim_space server; project = trim_space project; tool = trim_space tool in
      if tool = [] then al
      else if project = [] then
        (let ts = list_at (al_ServerTools al) server in
         if contains_string ts tool then al
         else al\<lparr>al_ServerTools := AList.update server (ts @ [tool]) (al_ServerTools al)\<rparr>)
      else
        (let ps = (if map_of (al_ProjectTools al) project = None
                   then AList.update project [] (al_ProjectTools al) else al_ProjectTools al);
             m = list_at ps project; ts = list_at m server in
         if contains_string ts tool then al\<lparr>al_ProjectTools := ps\<rparr>
         else al\<lparr>al_ProjectTools := AList.update project (AList.update server (ts @ [tool]) m) ps\<rparr>))"

definition remove_allowlist_tool ::
  "tool_allowlist \<Rightarrow> string \<Rightarrow> string \<Rightarrow> string \<Rightarrow> tool_allowlist" where
  "remove_allowlist_tool al server project tool =
     (let server = trim_space server; project = trim_space project; tool = trim_space tool in
      if project = [] then
        al\<lparr>al_ServerTools := AList.update server
             (remove_string (list_at (al_ServerTools al) server) tool) (al_ServerTools al)\<rparr>
      else case map_of (al_ProjectTools al) project of
        None \<Rightarrow> al
      | Some m \<Rightarrow> al\<lparr>al_ProjectTools := AList.update project
             (AList.update server (remove_string (list_at m server) tool) m) (al_ProjectTools al)\<rparr>)"

text \<open>The entries of an allowlist in the order \<open>mergeAllowlist\<close> adds them: server, project, tool.\<close>

definition allowlist_entries :: "tool_allowlist \<Rightarrow> (string \<times> string \<times> string) list" where
  "allowlist_entries al =
     [(server, [], tool). (server, tools) \<leftarrow> al_ServerTools al, tool \<leftarrow> tools] @
     [(server, project, tool). (project, servers) \<leftarrow> al_ProjectTools al,
        (server, tools) \<leftarrow> servers, tool \<leftarrow> tools]"

definition merge_allowlist :: "tool_allowlist \<Rightarrow> tool_allowlist \<Rightarrow> tool_allowlist" where
  "merge_allowlist dst src =
     foldl (\<lambda>al (server, project, tool). add_allowlist_tool al server project tool)
       dst (allowlist_entries src)"

section \<open>The decision on one tool\<close>

definition normalized_schema_state :: "string \<Rightarrow> string" where
  "normalized_schema_state st =
     (let t = trim_space st in
      if t \<in> {''known'', ''new'', ''changed'', ''unknown''} then t else ''unknown'')"

definition schema_review_required :: "string \<Rightarrow> bool" where
  "schema_review_required st \<longleftrightarrow> normalized_schema_state st \<noteq> ''known''"

definition blocked_decision :: "string \<Rightarrow> bool \<Rightarrow> string \<Rightarrow> tool_decision" where
  "blocked_decision risk allowlisted reason =
     \<lparr>td_Status = ''blocked'', td_Allowed = False, td_ApprovalRequired = False, td_Risk = risk,
      td_Reason = reason, td_Allowlisted = allowlisted, td_UntrustedOutput = True\<rparr>"

definition approval_decision :: "string \<Rightarrow> bool \<Rightarrow> string \<Rightarrow> tool_decision" where
  "approval_decision risk allowlisted reason =
     \<lparr>td_Status = ''approval_required'', td_Allowed = False, td_ApprovalRequired = True,
      td_Risk = risk, td_Reason = reason, td_Allowlisted = allowlisted, td_UntrustedOutput = True\<rparr>"

definition decide_tool_with_allowlist ::
  "string \<Rightarrow> string \<Rightarrow> string \<Rightarrow> string \<Rightarrow> string \<Rightarrow> tool_allowlist \<Rightarrow> tool_decision" where
  "decide_tool_with_allowlist server project tool risk0 state0 al =
     (let risk = (if risk0 = [] then RiskUnknown else risk0);
          st = normalized_schema_state state0;
          listed = is_tool_allowlisted al server project tool in
      if schema_review_required st then
        if \<not> listed then blocked_decision risk listed (st @ '' external MCP tool schemas are blocked until a later discovery confirms the same schema, or until explicitly allowlisted'')
        else approval_decision risk listed (''allowlisted '' @ st @ '' external MCP tool schemas require explicit user approval before execution'')
      else if risk = RiskReadOnly then
        \<lparr>td_Status = ''allowed'', td_Allowed = True, td_ApprovalRequired = False, td_Risk = risk,
         td_Reason = ''read-only tools are allowed by default; output remains untrusted'',
         td_Allowlisted = listed, td_UntrustedOutput = True\<rparr>
      else if risk = RiskGenerateCode then
        if \<not> listed then blocked_decision risk listed ''generate-code tools require an explicit server or project allowlist''
        else approval_decision risk listed ''generate-code tools require explicit user approval before execution''
      else if risk \<in> {RiskModifyWorkspace, RiskCloudMutation, RiskSecretSensitive, RiskDestructive} then
        if \<not> listed then blocked_decision risk listed (risk @ '' tools require an explicit server or project allowlist'')
        else approval_decision risk listed (risk @ '' tools require explicit user approval before execution'')
      else
        if \<not> listed then blocked_decision risk listed ''unknown external MCP tools are blocked until classified or explicitly allowlisted''
        else approval_decision risk listed ''allowlisted unknown tools still require explicit approval'')"

section \<open>Classification\<close>

definition schema_text :: "(string \<times> json) list option \<Rightarrow> string" where
  "schema_text schema = encode_object schema"

definition schema_hash :: "(string \<times> json) list option \<Rightarrow> string" where
  "schema_hash schema = ''sha256:'' @ hex_encode (sha256 (encode_object schema))"

definition contains_any :: "string \<Rightarrow> string list \<Rightarrow> bool" where
  "contains_any v needles \<longleftrightarrow> list_ex (contains v) needles"

definition read_only_annotation :: "(string \<times> json) list \<Rightarrow> bool" where
  "read_only_annotation annotations \<longleftrightarrow> map_of annotations ''readOnlyHint'' = Some (JBool True)"

definition destructive_words :: "string list" where
  "destructive_words = [''destroy'', ''delete'', ''remove'', ''terminate'', ''drop '', ''revoke'',
     ''detach'', ''decommission'', ''purge'']"

definition secret_words :: "string list" where
  "secret_words = [''secret'', ''token'', ''credential'', ''private_key'', ''private key'', ''session'',
     ''assume_role'', ''assume role'', ''client_secret'', ''access key'']"

definition cloud_words :: "string list" where
  "cloud_words = [''apply'', ''deploy'', ''create'', ''update'', ''put '', ''patch'', ''authorize'',
     ''ingress'', ''egress'', ''security group'', ''iam policy'', ''route table'']"

definition workspace_words :: "string list" where
  "workspace_words = [''write file'', ''workspace'', ''edit'', ''modify file'', ''commit'',
     ''pull request'', ''pr branch'', ''rename'', ''move file'']"

definition code_words :: "string list" where
  "code_words = [''generate'', ''template'', ''hcl'', ''terraform code'', ''rego'', ''policy code'',
     ''yaml'', ''json patch'']"

definition read_words :: "string list" where
  "read_words = [''read'', ''lookup'', ''search'', ''show'', ''inspect'', ''query'', ''documentation'',
     ''docs'', ''registry'', ''provider'', ''module'']"

definition tool_text :: "discovered_tool \<Rightarrow> string" where
  "tool_text tool =
     to_lower (join '' '' [dt_Name tool, dt_Description tool, schema_text (dt_InputSchema tool)])"

definition classify_tool :: "discovered_tool \<Rightarrow> string" where
  "classify_tool tool =
     (let text = tool_text tool; name = to_lower (dt_Name tool) in
      if contains_any text destructive_words then RiskDestructive
      else if contains_any text secret_words then RiskSecretSensitive
      else if contains_any text cloud_words then RiskCloudMutation
      else if contains_any text workspace_words then RiskModifyWorkspace
      else if contains_any text code_words then RiskGenerateCode
      else if read_only_annotation (dt_Annotations tool) \<or> has_prefix name ''get''
        \<or> has_prefix name ''list'' \<or> has_prefix name ''describe'' then RiskReadOnly
      else if contains_any text read_words then RiskReadOnly
      else RiskUnknown)"

end
