(* ===== verification/Airlock_Redact.thy ===== *)
theory Airlock_Redact
  imports Regexp Utf8 PatchPath
begin

text \<open>
  The credential patterns of \<open>internal/mcpairlock/registry.go\<close>, its \<open>redactOutput\<close>, and how
  \<open>tools.go\<close> words an inventory failure without the location of the inventory file. Under the
  flag \<open>(?i)\<close> a class of letters also matches the two runes outside ASCII that fold into it.
\<close>

definition ci_class :: "(char \<Rightarrow> bool) \<Rightarrow> rx" where
  "ci_class p = alts [Cls (\<lambda>c. p (upper_char c) \<or> p (lower_char c)),
     lit [CHR 0xE2, CHR 0x84, CHR 0xAA], lit [CHR 0xC5, CHR 0xBF]]"

definition upper_digit :: "char \<Rightarrow> bool" where
  "upper_digit c \<longleftrightarrow> byte_in c 65 90 \<or> byte_in c 48 57"

definition key_label_rx :: rx where
  "key_label_rx = Seq (Star (ci_class (\<lambda>c. upper_digit c \<or> c = CHR '' '')))
     (Seq (ci_lit ''PRIVATE KEY'') (Seq (opt (ci_lit '' BLOCK'')) (lit ''-----'')))"

definition any_byte :: rx where "any_byte = Cls (\<lambda>c. True)"

definition private_key_rx :: rx where
  "private_key_rx = Seq (lit ''-----'') (Seq (ci_lit ''BEGIN '') (Seq key_label_rx
     (Seq (LazyStar any_byte)
       (Alt (Seq (lit ''-----'') (Seq (ci_lit ''END '') key_label_rx)) EndText))))"

definition credential_names :: "string list" where
  "credential_names = [''aws_secret_access_key'', ''secret_access_key'', ''session_token'',
     ''client_secret'', ''access_token'', ''refresh_token'', ''private_key'', ''token'']"

definition value_char :: "char \<Rightarrow> bool" where
  "value_char c \<longleftrightarrow> c \<noteq> CHR 0x22 \<and> c \<noteq> CHR 0x27 \<and> \<not> rx_space c"

definition quote_char :: "char \<Rightarrow> bool" where
  "quote_char c \<longleftrightarrow> c = CHR 0x22 \<or> c = CHR 0x27"

definition credential_rx :: rx where
  "credential_rx = Seq (alts (map ci_lit credential_names)) (Seq (Star (Cls rx_space))
     (Seq (Cls (\<lambda>c. c = CHR '':'' \<or> c = CHR ''='')) (Seq (Star (Cls rx_space))
       (Seq (opt (Cls quote_char)) (plus (Cls value_char))))))"

definition long_key_rx :: "string \<Rightarrow> rx" where
  "long_key_rx pre = Seq (lit pre) (Seq (rep 12 (Cls upper_digit)) (Star (Cls upper_digit)))"

definition airlock_secret_patterns :: "rx list" where
  "airlock_secret_patterns = [private_key_rx, credential_rx, long_key_rx ''AKIA'', long_key_rx ''ASIA'']"

definition airlock_redacted :: string where "airlock_redacted = ''[REDACTED]''"

definition redact_pattern :: "rx \<Rightarrow> string \<Rightarrow> string" where
  "redact_pattern r s = replace_all r (\<lambda>_. airlock_redacted) s"

definition redact_all :: "string \<Rightarrow> string" where
  "redact_all s = foldl (\<lambda>t r. redact_pattern r t) s airlock_secret_patterns"

definition redact_output :: "string \<Rightarrow> string" where
  "redact_output output =
     (let o1 = trim_space output in
      if o1 = [] then []
      else redact_all (if 600 < length o1 then take 600 o1 @ ''...'' else o1))"

section \<open>Failures of the inventory file\<close>

datatype io_error = PathError string | LinkError string | OtherError string

fun replace_str :: "nat \<Rightarrow> string \<Rightarrow> string \<Rightarrow> string \<Rightarrow> string" where
  "replace_str skip old new [] = []"
| "replace_str (Suc k) old new (c # s) = replace_str k old new s"
| "replace_str 0 old new (c # s) =
     (if has_prefix (c # s) old then new @ replace_str (length old - 1) old new s
      else c # replace_str 0 old new s)"

definition file_dir :: "string \<Rightarrow> string" where
  "file_dir p = path_clean (rev (dropWhile (\<lambda>c. c \<noteq> CHR ''/'') (rev p)))"

definition redact_inventory_location :: "string \<Rightarrow> string \<Rightarrow> string" where
  "redact_inventory_location message path0 =
     (let path = trim_space path0 in
      if message = [] \<or> path = [] then message
      else
        let dir = file_dir path;
            candidates = [path, path_clean path] @ (if dir \<noteq> ''.'' then [dir, path_clean dir] else [])
        in foldl (\<lambda>m c. if c = [] \<or> c = ''.'' then m else replace_str 0 c ''[airlock-inventory]'' m)
             message candidates)"

definition error_detail :: "string \<Rightarrow> string" where
  "error_detail err = (let m = redact_output err in if m = [] then ''filesystem operation failed'' else m)"

fun public_inventory_warning :: "string \<Rightarrow> io_error \<Rightarrow> string" where
  "public_inventory_warning path (PathError d) =
     ''Airlock tool inventory filesystem access failed: '' @ error_detail d"
| "public_inventory_warning path (LinkError d) =
     ''Airlock tool inventory replacement failed: '' @ error_detail d"
| "public_inventory_warning path (OtherError d) =
     (let m = redact_inventory_location (redact_output d) path in
      if m = [] then ''Airlock tool inventory warning'' else m)"

end
