(* ===== verification/Airlock_Inventory.thy ===== *)
theory Airlock_Inventory
  imports Airlock_Tools Airlock_Redact
begin

text \<open>
  The inventory operations of the Airlock manager (\<open>internal/mcpairlock/tools.go\<close>): discovery
  results are persisted, listed, evaluated and put on the allowlist. The manager's state is its
  definitions, its own allowlist, and what the inventory file decodes to (the empty
  inventory while there is no file). A read, decode or write failure is an \<open>io_error option\<close>
  argument; the file is replaced atomically, so a failed write leaves it as it was.
\<close>

record server_definition =
  sd_ID :: string
  sd_Name :: string
  sd_Vendor :: string
  sd_Description :: string
  sd_SourceURL :: string
  sd_PackageSource :: string
  sd_DocsURL :: string
  sd_InstallHint :: string
  sd_Transport :: string
  sd_Command :: string
  sd_LaunchSource :: string
  sd_Args :: "string list"
  sd_HealthCheckArgs :: "string list"
  sd_VersionConstraint :: string
  sd_Trusted :: bool
  sd_ReadOnlyDefault :: bool
  sd_CredentialMode :: string
  sd_Capabilities :: "string list"

record manager =
  mg_definitions :: "server_definition list"
  mg_inventoryPath :: string
  mg_allowlist :: tool_allowlist
  mg_file :: persisted_inventory

datatype airlock_error = ErrUnknownServer | ErrToolNameRequired | ErrInventory string

definition lookup_server :: "manager \<Rightarrow> string \<Rightarrow> server_definition option" where
  "lookup_server m i = find (\<lambda>d. sd_ID d = trim_space i) (mg_definitions m)"

definition load_inventory :: "manager \<Rightarrow> io_error option \<Rightarrow> io_error + persisted_inventory" where
  "load_inventory m fault =
     (if trim_space (mg_inventoryPath m) = [] then Inr empty_inventory
      else case fault of Some e \<Rightarrow> Inl e | None \<Rightarrow> Inr (mg_file m))"

definition save_inventory :: "manager \<Rightarrow> io_error option \<Rightarrow> persisted_inventory \<Rightarrow> io_error + manager" where
  "save_inventory m fault snapshot =
     (if trim_space (mg_inventoryPath m) = [] then Inr m
      else case fault of Some e \<Rightarrow> Inl e | None \<Rightarrow> Inr (m\<lparr>mg_file := snapshot\<rparr>))"

text \<open>\<open>updateInventoryAtomically\<close>: one critical section of load, update and save. The update also
  hands out what its closure writes into captured variables.\<close>

definition update_inventory_atomically ::
  "manager \<Rightarrow> io_error option \<Rightarrow> io_error option \<Rightarrow>
   (io_error + persisted_inventory \<Rightarrow> (io_error + persisted_inventory) \<times> 'x) \<Rightarrow>
   manager \<times> io_error option \<times> 'x" where
  "update_inventory_atomically m read_fault write_fault f =
     (case f (load_inventory m read_fault) of
        (Inl e, x) \<Rightarrow> (m, Some e, x)
      | (Inr snapshot, x) \<Rightarrow>
          (case save_inventory m write_fault snapshot of
             Inl e \<Rightarrow> (m, Some e, x)
           | Inr m' \<Rightarrow> (m', None, x)))"

definition merged_allowlist :: "manager \<Rightarrow> tool_allowlist \<Rightarrow> tool_allowlist" where
  "merged_allowlist m persisted = merge_allowlist (mg_allowlist m) persisted"

definition tools_of :: "persisted_inventory \<Rightarrow> string \<Rightarrow> (string \<times> tool_record) list" where
  "tools_of snapshot server =
     (case map_of (pi_Servers snapshot) server of None \<Rightarrow> [] | Some s \<Rightarrow> ps_Tools s)"

definition record_risk :: "tool_record \<Rightarrow> string" where
  "record_risk r = (if tr_Risk r = [] then RiskUnknown else tr_Risk r)"

section \<open>Discovery\<close>

definition discovered_state :: "(string \<times> tool_record) list \<Rightarrow> string \<Rightarrow> string \<Rightarrow> string" where
  "discovered_state prior name hash =
     (case map_of prior name of
        None \<Rightarrow> ''new''
      | Some r \<Rightarrow> if tr_InputSchemaHash r \<noteq> hash then ''changed'' else ''known'')"

definition discovered_entry ::
  "string \<Rightarrow> string \<Rightarrow> tool_allowlist \<Rightarrow> (string \<times> tool_record) list \<Rightarrow> discovered_tool \<Rightarrow> tool_entry option" where
  "discovered_entry i at al prior tool =
     (let name = trim_space (dt_Name tool) in
      if name = [] then None
      else
        let hash = schema_hash (dt_InputSchema tool);
            risk = classify_tool tool;
            st = discovered_state prior name hash
        in Some \<lparr>te_ServerID = i, te_Name = name, te_Description = trim_space (dt_Description tool),
                 te_InputSchemaHash = hash, te_LastSeenAt = at, te_SchemaState = st, te_Risk = risk,
                 te_Decision = decide_tool_with_allowlist i [] name risk st al\<rparr>)"

definition record_of_entry :: "tool_entry \<Rightarrow> tool_record" where
  "record_of_entry e = \<lparr>tr_Description = te_Description e, tr_InputSchemaHash = te_InputSchemaHash e,
     tr_LastSeenAt = te_LastSeenAt e, tr_SchemaState = te_SchemaState e, tr_Risk = te_Risk e\<rparr>"

definition seen_records :: "tool_entry list \<Rightarrow> (string \<times> tool_record) list" where
  "seen_records es = foldl (\<lambda>seen e. AList.update (te_Name e) (record_of_entry e) seen) [] es"

definition sort_tool_entries :: "tool_entry list \<Rightarrow> tool_entry list" where
  "sort_tool_entries es = sort_key (\<lambda>e. (te_Risk e, te_Name e)) es"

definition discovery_check :: "nat \<Rightarrow> check" where
  "discovery_check n =
     (if n = 0 then \<lparr>ck_Name = ''tool_discovery'', ck_Status = ''warn'', ck_Message = ''tools/list returned no tools''\<rparr>
      else \<lparr>ck_Name = ''tool_discovery'', ck_Status = ''pass'',
            ck_Message = ''discovered '' @ dec n @ '' external MCP tools''\<rparr>)"

definition inventory_warning :: "manager \<Rightarrow> io_error \<Rightarrow> check" where
  "inventory_warning m e = \<lparr>ck_Name = ''inventory'', ck_Status = ''warn'',
     ck_Message = public_inventory_warning (mg_inventoryPath m) e\<rparr>"

definition persist_discovered_tools ::
  "manager \<Rightarrow> string \<Rightarrow> discovered_tool list \<Rightarrow> tool_inventory \<Rightarrow> io_error option \<Rightarrow> io_error option \<Rightarrow>
   manager \<times> io_error option \<times> tool_inventory" where
  "persist_discovered_tools m i tools inventory0 read_fault write_fault =
     update_inventory_atomically m read_fault write_fault (\<lambda>loaded.
       let warnings = (case loaded of Inl e \<Rightarrow> [inventory_warning m e] | Inr _ \<Rightarrow> []);
           previous = (case loaded of Inl _ \<Rightarrow> empty_inventory | Inr p \<Rightarrow> p);
           al = merged_allowlist m (pi_Allowlist previous);
           at = ti_DiscoveredAt inventory0;
           entries = List.map_filter (discovered_entry i at al (tools_of previous i)) tools;
           inventory1 = inventory0\<lparr>ti_Tools := sort_tool_entries entries,
                      ti_Checks := ti_Checks inventory0 @ warnings @ [discovery_check (length entries)]\<rparr>
       in (Inr (previous\<lparr>pi_Servers := AList.update i
                  \<lparr>ps_DiscoveredAt = at, ps_Tools = seen_records entries\<rparr> (pi_Servers previous)\<rparr>), inventory1))"

section \<open>Listing and evaluation\<close>

definition stored_entry ::
  "string \<Rightarrow> string \<Rightarrow> tool_allowlist \<Rightarrow> string \<times> tool_record \<Rightarrow> tool_entry" where
  "stored_entry i project al kr =
     (let name = fst kr; r = snd kr; st = normalized_schema_state (tr_SchemaState r) in
      \<lparr>te_ServerID = i, te_Name = name, te_Description = tr_Description r,
       te_InputSchemaHash = tr_InputSchemaHash r, te_LastSeenAt = tr_LastSeenAt r,
       te_SchemaState = st, te_Risk = record_risk r,
       te_Decision = decide_tool_with_allowlist i project name (record_risk r) st al\<rparr>)"

definition inventory :: "manager \<Rightarrow> string \<Rightarrow> io_error option \<Rightarrow> airlock_error + tool_inventory" where
  "inventory m i read_fault =
     (if lookup_server m i = None then Inl ErrUnknownServer
      else case load_inventory m read_fault of
        Inl e \<Rightarrow> Inr \<lparr>ti_ServerID = i, ti_DiscoveredAt = [], ti_Tools = [],
                     ti_Checks = [inventory_warning m e]\<rparr>
      | Inr snapshot \<Rightarrow>
          let al = merged_allowlist m (pi_Allowlist snapshot);
              entries = sort_tool_entries (map (stored_entry i [] al) (tools_of snapshot i))
          in Inr \<lparr>ti_ServerID = i,
                  ti_DiscoveredAt = (case map_of (pi_Servers snapshot) i of None \<Rightarrow> [] | Some s \<Rightarrow> ps_DiscoveredAt s),
                  ti_Tools = entries,
                  ti_Checks = (if entries = [] then [\<lparr>ck_Name = ''inventory'', ck_Status = ''warn'',
                     ck_Message = ''no tools have been discovered for this server''\<rparr>] else [])\<rparr>)"

definition evaluate_tool_from_snapshot ::
  "manager \<Rightarrow> persisted_inventory \<Rightarrow> string \<Rightarrow> string \<Rightarrow> string \<Rightarrow> tool_entry" where
  "evaluate_tool_from_snapshot m snapshot server project tool =
     (let al = merged_allowlist m (pi_Allowlist snapshot) in
      case map_of (tools_of snapshot server) tool of
        Some r \<Rightarrow> stored_entry server project al (tool, r)
      | None \<Rightarrow> \<lparr>te_ServerID = server, te_Name = tool, te_Description = [], te_InputSchemaHash = [],
                 te_LastSeenAt = [], te_SchemaState = ''unknown'', te_Risk = RiskUnknown,
                 te_Decision = decide_tool_with_allowlist server project tool RiskUnknown ''unknown'' al\<rparr>)"

definition evaluate_tool ::
  "manager \<Rightarrow> io_error option \<Rightarrow> string \<Rightarrow> string \<Rightarrow> string \<Rightarrow> airlock_error + tool_entry" where
  "evaluate_tool m read_fault server project tool0 =
     (if lookup_server m server = None then Inl ErrUnknownServer
      else
        let tool = trim_space tool0 in
        if tool = [] then Inl ErrToolNameRequired
        else case load_inventory m read_fault of
          Inl e \<Rightarrow> Inl (ErrInventory (public_inventory_warning (mg_inventoryPath m) e))
        | Inr snapshot \<Rightarrow> Inr (evaluate_tool_from_snapshot m snapshot server project tool))"

definition set_tool_allowlist ::
  "manager \<Rightarrow> io_error option \<Rightarrow> io_error option \<Rightarrow> string \<Rightarrow> string \<Rightarrow> string \<Rightarrow> bool \<Rightarrow>
   manager \<times> (airlock_error + tool_entry)" where
  "set_tool_allowlist m read_fault write_fault server project tool0 is_allowed =
     (if lookup_server m server = None then (m, Inl ErrUnknownServer)
      else
        let tool = trim_space tool0 in
        if tool = [] then (m, Inl ErrToolNameRequired)
        else
          case update_inventory_atomically m read_fault write_fault (\<lambda>loaded.
            case loaded of
              Inl e \<Rightarrow> (Inl e, empty_inventory)
            | Inr next \<Rightarrow>
                let next' = next\<lparr>pi_Allowlist :=
                      (if is_allowed then add_allowlist_tool (pi_Allowlist next) server project tool
                       else remove_allowlist_tool (pi_Allowlist next) server project tool)\<rparr>
                in (Inr next', next')) of
            (m', Some e, _) \<Rightarrow> (m', Inl (ErrInventory (public_inventory_warning (mg_inventoryPath m) e)))
          | (m', None, snapshot) \<Rightarrow> (m', Inr (evaluate_tool_from_snapshot m' snapshot server project tool)))"

definition decide_tool ::
  "manager \<Rightarrow> io_error option \<Rightarrow> string \<Rightarrow> string \<Rightarrow> string \<Rightarrow> string \<Rightarrow> string \<Rightarrow> tool_decision" where
  "decide_tool m read_fault server project tool risk schema_state =
     (let al = (case load_inventory m read_fault of
                  Inl _ \<Rightarrow> mg_allowlist m
                | Inr snapshot \<Rightarrow> merge_allowlist (mg_allowlist m) (pi_Allowlist snapshot))
      in decide_tool_with_allowlist server project tool risk schema_state al)"

end
