(* ===== verification/Airlock_Facts.thy ===== *)
theory Airlock_Facts
  imports Airlock_Inventory "HOL-Library.Multiset"
begin

text \<open>
  Facts on the Airlock firewall: the allowlist as a set of (server, project, tool) entries, an
  interface with its interpretation on the code's maps, and what the inventory operations
  keep. An entry whose project is empty counts for the server in every project.
\<close>

section \<open>The allowlist as a set\<close>

type_synonym allow_entry = "string \<times> string \<times> string"

definition trim_entry :: "string \<Rightarrow> string \<Rightarrow> string \<Rightarrow> allow_entry" where
  "trim_entry s p t = (trim_space s, trim_space p, trim_space t)"

definition allow_set :: "tool_allowlist \<Rightarrow> allow_entry set" where
  "allow_set al = {(s, p, t). t \<noteq> [] \<and> trim_space t = t \<and>
     (if p = [] then contains_string (list_at (al_ServerTools al) s) t
      else contains_string (list_at (list_at (al_ProjectTools al) p) s) t)}"

lemma list_at_update: "list_at (AList.update k v m) j = (if j = k then v else list_at m j)"
  by (simp add: list_at_def update_conv')

lemma list_at_small [simp]: "list_at [] j = []" "list_at [(k, v)] j = (if j = k then v else [])"
  by (simp_all add: list_at_def)

lemma contains_string_append [simp]:
  "contains_string (vs @ ws) t \<longleftrightarrow> contains_string vs t \<or> contains_string ws t"
  "contains_string [v] t \<longleftrightarrow> trim_space v = t" "\<not> contains_string [] t"
  by (auto simp: contains_string_def list_ex_iff)

lemma contains_string_remove [simp]:
  "contains_string (remove_string vs u) t \<longleftrightarrow> contains_string vs t \<and> t \<noteq> u"
  by (auto simp: contains_string_def remove_string_def list_ex_iff)

lemma list_at_absent: "map_of m k = None \<Longrightarrow> list_at m k = []"
  by (simp add: list_at_def)

lemma allow_set_add:
  "allow_set (add_allowlist_tool al s p t) =
     (if trim_space t = [] then allow_set al else insert (trim_entry s p t) (allow_set al))"
proof (cases "trim_space t = [] \<or> trim_space p = []")
  case True
  then show ?thesis
    by (auto simp: add_allowlist_tool_def allow_set_def trim_entry_def Let_def list_at_update
        split: if_splits)
next
  case False
  show ?thesis
  proof (cases "map_of (al_ProjectTools al) (trim_space p)")
    case None
    then have "list_at (al_ProjectTools al) (trim_space p) = []" by (rule list_at_absent)
    then show ?thesis using False None
      by (auto simp: add_allowlist_tool_def allow_set_def trim_entry_def Let_def list_at_update
          split: if_splits)
  next
    case (Some m)
    then show ?thesis using False
      by (auto simp: add_allowlist_tool_def allow_set_def trim_entry_def Let_def list_at_update
          split: if_splits)
  qed
qed

lemma allow_set_remove:
  "allow_set (remove_allowlist_tool al s p t) = allow_set al - {trim_entry s p t}"
proof (cases "trim_space p = []")
  case True
  then show ?thesis
    by (auto simp: remove_allowlist_tool_def allow_set_def trim_entry_def Let_def list_at_update
        split: if_splits)
next
  case False
  show ?thesis
  proof (cases "map_of (al_ProjectTools al) (trim_space p)")
    case None
    then show ?thesis using False
      by (auto simp: remove_allowlist_tool_def allow_set_def trim_entry_def list_at_absent)
  next
    case (Some m)
    then have "list_at (al_ProjectTools al) (trim_space p) = m" by (simp add: list_at_def)
    then show ?thesis using False Some
      by (auto simp: remove_allowlist_tool_def allow_set_def trim_entry_def Let_def list_at_update
          split: if_splits)
  qed
qed

lemma listed_iff:
  "trim_space t \<noteq> [] \<Longrightarrow> is_tool_allowlisted al s p t \<longleftrightarrow>
     trim_entry s [] t \<in> allow_set al \<or> trim_entry s p t \<in> allow_set al"
  by (auto simp: is_tool_allowlisted_def allow_set_def trim_entry_def Let_def)

lemma allow_set_merge_foldl:
  "allow_set (foldl (\<lambda>al (s, p, t). add_allowlist_tool al s p t) al es) =
     allow_set al \<union> {trim_entry s p t | s p t. (s, p, t) \<in> set es \<and> trim_space t \<noteq> []}"
proof (induction es arbitrary: al)
  case (Cons e es)
  obtain s p t where "e = (s, p, t)" by (cases e)
  then show ?case using Cons by (auto simp: allow_set_add)
qed simp

lemma allow_set_merge:
  "allow_set (merge_allowlist a b) =
     allow_set a \<union> {trim_entry s p t | s p t. (s, p, t) \<in> set (allowlist_entries b) \<and> trim_space t \<noteq> []}"
  by (simp add: merge_allowlist_def allow_set_merge_foldl)

text \<open>What a client of an allowlist relies on.\<close>

locale allow_store =
  fixes entries :: "'l \<Rightarrow> allow_entry set"
    and add :: "'l \<Rightarrow> string \<Rightarrow> string \<Rightarrow> string \<Rightarrow> 'l"
    and remove :: "'l \<Rightarrow> string \<Rightarrow> string \<Rightarrow> string \<Rightarrow> 'l"
    and listed :: "'l \<Rightarrow> string \<Rightarrow> string \<Rightarrow> string \<Rightarrow> bool"
  assumes add: "trim_space t \<noteq> [] \<Longrightarrow> entries (add l s p t) = insert (trim_entry s p t) (entries l)"
    and remove: "entries (remove l s p t) = entries l - {trim_entry s p t}"
    and listed: "trim_space t \<noteq> [] \<Longrightarrow> listed l s p t \<longleftrightarrow>
      trim_entry s [] t \<in> entries l \<or> trim_entry s p t \<in> entries l"
begin

lemma listed_added: "trim_space t \<noteq> [] \<Longrightarrow> listed (add l s p t) s p t"
  by (simp add: add listed)

lemma listed_server_wide: "trim_space t \<noteq> [] \<Longrightarrow> listed (add l s [] t) s q t"
  by (simp add: add listed)

lemma add_frame:
  assumes "trim_space t \<noteq> []" "trim_space u \<noteq> []"
    "trim_space s' \<noteq> trim_space s \<or> trim_space u \<noteq> trim_space t \<or>
      trim_space p \<noteq> [] \<and> trim_space p \<noteq> trim_space p'"
  shows "listed (add l s p t) s' p' u \<longleftrightarrow> listed l s' p' u"
  using assms by (auto simp: add listed trim_entry_def)

lemma removed:
  assumes "trim_space t \<noteq> []" "trim_space p = [] \<or> \<not> listed l s [] t"
  shows "listed (remove l s p t) s p t \<longleftrightarrow> False"
  using assms by (auto simp: remove listed trim_entry_def)

lemma remove_frame:
  assumes "trim_space u \<noteq> []"
    "trim_space s' \<noteq> trim_space s \<or> trim_space u \<noteq> trim_space t \<or>
      trim_space p \<noteq> [] \<and> trim_space p \<noteq> trim_space p'"
  shows "listed (remove l s p t) s' p' u \<longleftrightarrow> listed l s' p' u"
  using assms by (auto simp: remove listed trim_entry_def)

end

interpretation airlock_allow: allow_store allow_set add_allowlist_tool remove_allowlist_tool
  is_tool_allowlisted
  by unfold_locales (simp_all add: allow_set_add allow_set_remove listed_iff)

section \<open>Decisions\<close>

text \<open>The three shapes a firewall decision can have.\<close>

definition decision_shape :: "tool_decision \<Rightarrow> bool" where
  "decision_shape d \<longleftrightarrow> td_UntrustedOutput d \<and>
     (td_Status d = ''blocked'' \<and> \<not> td_Allowed d \<and> \<not> td_ApprovalRequired d \<or>
      td_Status d = ''approval_required'' \<and> \<not> td_Allowed d \<and> td_ApprovalRequired d \<and> td_Allowlisted d \<or>
      td_Status d = ''allowed'' \<and> td_Allowed d \<and> \<not> td_ApprovalRequired d \<and> td_Risk d = RiskReadOnly)"

lemma decide_shape: "decision_shape (decide_tool_with_allowlist s p t risk st al)"
  by (simp add: decide_tool_with_allowlist_def Let_def blocked_decision_def approval_decision_def
      decision_shape_def)

lemma decide_risk [simp]:
  "td_Risk (decide_tool_with_allowlist s p t risk st al) = (if risk = [] then RiskUnknown else risk)"
  by (simp add: decide_tool_with_allowlist_def Let_def blocked_decision_def approval_decision_def)

lemma normalized_idem [simp]:
  "normalized_schema_state (normalized_schema_state st) = normalized_schema_state st"
proof -
  have "trim_space u = u" if "u \<in> {''known'', ''new'', ''changed'', ''unknown''}" for u :: string
    using that by (auto intro!: trim_space_all_graphic simp: graphic_def)
  then show ?thesis by (auto simp: normalized_schema_state_def Let_def)
qed

lemma decide_allowed:
  "td_Allowed (decide_tool_with_allowlist s p t risk st al) \<longleftrightarrow>
     normalized_schema_state st = ''known'' \<and> risk = RiskReadOnly"
  by (auto simp: decide_tool_with_allowlist_def Let_def blocked_decision_def approval_decision_def
      schema_review_required_def split: if_splits)

lemma decide_approval_required:
  "td_ApprovalRequired (decide_tool_with_allowlist s p t risk st al) \<longleftrightarrow>
     is_tool_allowlisted al s p t \<and> \<not> (normalized_schema_state st = ''known'' \<and> risk = RiskReadOnly)"
  by (auto simp: decide_tool_with_allowlist_def Let_def blocked_decision_def approval_decision_def
      schema_review_required_def split: if_splits)

section \<open>Evaluation\<close>

lemma record_risk_nonempty [simp]: "record_risk r \<noteq> []"
  by (simp add: record_risk_def)

lemma evaluate_tool_entry:
  assumes "evaluate_tool m fault server project tool = Inr e"
  shows "te_ServerID e = server \<and> te_Name e = trim_space tool \<and> te_Risk e = td_Risk (te_Decision e)
    \<and> decision_shape (te_Decision e)"
  using assms
  by (auto simp: evaluate_tool_def Let_def evaluate_tool_from_snapshot_def stored_entry_def decide_shape
      split: if_splits sum.splits option.splits)

text \<open>A risk other than unknown comes from a record of the inventory.\<close>

lemma evaluate_tool_recorded:
  assumes "evaluate_tool m fault server project tool = Inr e" "td_Risk (te_Decision e) \<noteq> RiskUnknown"
  obtains snapshot r where "load_inventory m fault = Inr snapshot"
    "map_of (tools_of snapshot server) (trim_space tool) = Some r"
    "record_risk r = td_Risk (te_Decision e)"
  using assms
  by (auto simp: evaluate_tool_def Let_def evaluate_tool_from_snapshot_def stored_entry_def
      split: if_splits sum.splits option.splits)

lemma evaluate_tool_allowed:
  assumes "evaluate_tool m fault server project tool = Inr e" "td_Allowed (te_Decision e)"
  obtains snapshot r where "load_inventory m fault = Inr snapshot"
    "map_of (tools_of snapshot server) (trim_space tool) = Some r"
    "tr_Risk r = RiskReadOnly" "normalized_schema_state (tr_SchemaState r) = ''known''"
  using assms
  by (auto simp: evaluate_tool_def Let_def evaluate_tool_from_snapshot_def stored_entry_def
      decide_allowed record_risk_def split: if_splits sum.splits option.splits)

section \<open>Discovery\<close>

lemma map_of_seen_foldl:
  assumes "map_of (foldl (\<lambda>seen e. AList.update (te_Name e) (record_of_entry e) seen) acc es) n = Some r"
  shows "(\<exists>e \<in> set es. te_Name e = n \<and> r = record_of_entry e) \<or> map_of acc n = Some r"
  using assms
  by (induction es arbitrary: acc) (fastforce simp: update_conv' split: if_splits)+

lemma map_of_seen:
  "map_of (seen_records es) n = Some r \<Longrightarrow> \<exists>e \<in> set es. te_Name e = n \<and> r = record_of_entry e"
  unfolding seen_records_def using map_of_seen_foldl by fastforce

lemma dom_seen_foldl:
  "dom (map_of (foldl (\<lambda>seen e. AList.update (te_Name e) (record_of_entry e) seen) acc es)) =
     dom (map_of acc) \<union> te_Name ` set es"
  by (induction es arbitrary: acc) (auto simp: update_conv' split: if_splits)

lemma discovered_entry_Some:
  assumes "discovered_entry i at al prior tool = Some e"
  shows "te_Name e = trim_space (dt_Name tool) \<and> te_Name e \<noteq> [] \<and> te_ServerID e = i \<and>
    te_InputSchemaHash e = schema_hash (dt_InputSchema tool) \<and> te_Risk e = classify_tool tool \<and>
    te_SchemaState e = discovered_state prior (te_Name e) (te_InputSchemaHash e) \<and>
    te_Decision e = decide_tool_with_allowlist i [] (te_Name e) (te_Risk e) (te_SchemaState e) al"
  using assms by (auto simp: discovered_entry_def Let_def split: if_splits)

lemma persist_result:
  assumes "persist_discovered_tools m i tools inv0 rf wfault = (m', None, out)"
    "trim_space (mg_inventoryPath m) \<noteq> []"
  obtains previous es where
    "previous = (case rf of None \<Rightarrow> mg_file m | Some _ \<Rightarrow> empty_inventory)"
    "es = List.map_filter (discovered_entry i (ti_DiscoveredAt inv0)
            (merged_allowlist m (pi_Allowlist previous)) (tools_of previous i)) tools"
    "m' = m\<lparr>mg_file := previous\<lparr>pi_Servers := AList.update i
       \<lparr>ps_DiscoveredAt = ti_DiscoveredAt inv0, ps_Tools = seen_records es\<rparr> (pi_Servers previous)\<rparr>\<rparr>"
    "ti_Tools out = sort_tool_entries es"
  using assms
  by (auto simp: persist_discovered_tools_def update_inventory_atomically_def load_inventory_def
      save_inventory_def Let_def split: option.splits)

lemma set_map_filter: "x \<in> set (List.map_filter f xs) \<longleftrightarrow> (\<exists>y \<in> set xs. f y = Some x)"
  by (force simp: List.map_filter_def)

lemma allowlist_entriesI:
  "(s, vs) \<in> set (al_ServerTools b) \<Longrightarrow> v \<in> set vs \<Longrightarrow> (s, [], v) \<in> set (allowlist_entries b)"
  "(p, ms) \<in> set (al_ProjectTools b) \<Longrightarrow> (s, vs) \<in> set ms \<Longrightarrow> v \<in> set vs \<Longrightarrow>
     (s, p, v) \<in> set (allowlist_entries b)"
  unfolding allowlist_entries_def by fastforce+

lemma list_at_map_of: "x \<in> set (list_at m k) \<Longrightarrow> \<exists>vs. map_of m k = Some vs \<and> x \<in> set vs"
  by (cases "map_of m k") (auto simp: list_at_def)

lemma merge_entryI:
  "(s, p, t) \<in> set (allowlist_entries b) \<Longrightarrow> trim_space t \<noteq> [] \<Longrightarrow>
     trim_entry s p t \<in> allow_set (merge_allowlist a b)"
  unfolding allow_set_merge by (rule UnI2) blast

lemma merged_entry:
  "t \<noteq> [] \<Longrightarrow> trim_space t = t \<Longrightarrow> contains_string (list_at (al_ServerTools b) (trim_space s)) t \<Longrightarrow>
     (trim_space s, [], t) \<in> allow_set (merge_allowlist a b)"
  "t \<noteq> [] \<Longrightarrow> trim_space t = t \<Longrightarrow> trim_space p \<noteq> [] \<Longrightarrow>
     contains_string (list_at (list_at (al_ProjectTools b) (trim_space p)) (trim_space s)) t \<Longrightarrow>
     (trim_space s, trim_space p, t) \<in> allow_set (merge_allowlist a b)"
proof -
  assume t: "t \<noteq> []" "trim_space t = t"
  {
    assume "contains_string (list_at (al_ServerTools b) (trim_space s)) t"
    then obtain v where v: "trim_space v = t" "v \<in> set (list_at (al_ServerTools b) (trim_space s))"
      unfolding contains_string_def list_ex_iff by blast
    from list_at_map_of [OF v(2)] obtain vs
      where vs: "map_of (al_ServerTools b) (trim_space s) = Some vs" "v \<in> set vs" by blast
    have "trim_entry (trim_space s) [] v \<in> allow_set (merge_allowlist a b)"
      by (rule merge_entryI [OF allowlist_entriesI(1) [OF map_of_SomeD [OF vs(1)] vs(2)]])
        (simp add: v(1) t(1))
    then show "(trim_space s, [], t) \<in> allow_set (merge_allowlist a b)" by (simp add: trim_entry_def v(1))
  next
    assume "trim_space p \<noteq> []"
      and "contains_string (list_at (list_at (al_ProjectTools b) (trim_space p)) (trim_space s)) t"
    then obtain v where v: "trim_space v = t"
      "v \<in> set (list_at (list_at (al_ProjectTools b) (trim_space p)) (trim_space s))"
      unfolding contains_string_def list_ex_iff by blast
    from list_at_map_of [OF v(2)] obtain vs where vs: "v \<in> set vs"
      "map_of (list_at (al_ProjectTools b) (trim_space p)) (trim_space s) = Some vs" by blast
    from vs(2) obtain ms where ms: "map_of (al_ProjectTools b) (trim_space p) = Some ms"
      "map_of ms (trim_space s) = Some vs"
      by (cases "map_of (al_ProjectTools b) (trim_space p)") (simp_all add: list_at_def)
    have "trim_entry (trim_space s) (trim_space p) v \<in> allow_set (merge_allowlist a b)"
      by (rule merge_entryI [OF allowlist_entriesI(2)
            [OF map_of_SomeD [OF ms(1)] map_of_SomeD [OF ms(2)] vs(1)]]) (simp add: v(1) t(1))
    then show "(trim_space s, trim_space p, t) \<in> allow_set (merge_allowlist a b)"
      by (simp add: trim_entry_def v(1))
  }
qed

lemma sort_key_unique:
  assumes "mset xs = mset ys" "inj_on k (set xs)" "distinct xs"
  shows "sort_key k xs = sort_key k ys"
proof -
  have s: "set ys = set xs" using mset_eq_setD [OF assms(1)] by simp
  have d: "distinct ys" using assms(1,3) by (metis mset_eq_imp_distinct_iff)
  show ?thesis
  proof (rule map_sorted_distinct_set_unique [where f = k])
    show "inj_on k (set (sort_key k xs) \<union> set (sort_key k ys))" using assms(2) s by simp
    show "distinct (map k (sort_key k xs))" using assms(2,3) by (simp add: distinct_map)
    show "distinct (map k (sort_key k ys))" using assms(2) d s by (simp add: distinct_map)
  qed (simp_all add: s)
qed

end
