(* ===== verification/Airlock_Props.thy ===== *)
theory Airlock_Props
  imports Airlock_Facts
begin

text \<open>
  The properties of the tool firewall of \<open>internal/mcpairlock/tools.go\<close>, with instances on
  one small manager.
\<close>

definition demo_server :: server_definition where
  "demo_server = \<lparr>sd_ID = ''aws'', sd_Name = ''AWS'', sd_Vendor = [], sd_Description = [], sd_SourceURL = [],
     sd_PackageSource = [], sd_DocsURL = [], sd_InstallHint = [], sd_Transport = ''stdio'', sd_Command = ''x'',
     sd_LaunchSource = ''registry'', sd_Args = [], sd_HealthCheckArgs = [], sd_VersionConstraint = [],
     sd_Trusted = True, sd_ReadOnlyDefault = True, sd_CredentialMode = ''none'', sd_Capabilities = []\<rparr>"

definition demo_manager :: manager where
  "demo_manager = \<lparr>mg_definitions = [demo_server], mg_inventoryPath = ''/p/tools.json'',
     mg_allowlist = empty_allowlist, mg_file = empty_inventory\<rparr>"

definition demo_tool :: discovered_tool where
  "demo_tool = \<lparr>dt_Name = ''getx'', dt_Description = [], dt_InputSchema = None, dt_Annotations = []\<rparr>"

definition demo_blank :: tool_inventory where
  "demo_blank = \<lparr>ti_ServerID = ''aws'', ti_DiscoveredAt = ''t'', ti_Tools = [], ti_Checks = []\<rparr>"

definition demo_known :: manager where
  "demo_known = demo_manager\<lparr>mg_file := \<lparr>pi_Allowlist = empty_allowlist, pi_Servers =
     [(''aws'', \<lparr>ps_DiscoveredAt = ''t'', ps_Tools = [(''getx'', \<lparr>tr_Description = [],
         tr_InputSchemaHash = schema_hash None, tr_LastSeenAt = ''t'', tr_SchemaState = ''known'',
         tr_Risk = RiskReadOnly\<rparr>)]\<rparr>)]\<rparr>\<rparr>"

lemma demo_words: "trim_space ''getx'' = ''getx''" "trim_space ''aws'' = ''aws''"
    "trim_space ''/p/tools.json'' = ''/p/tools.json''" "trim_space ''known'' = ''known''"
  by (rule trim_space_all_graphic, simp add: graphic_def)+

text \<open>C28: The decision on one tool fails closed. It always marks the output untrusted; it
  allows exactly read-only tools whose schema is known, asks for approval exactly for the other
  tools that are allowlisted, and blocks the rest; its status agrees with its flags.\<close>

theorem decision_fails_closed:
  "let d = decide_tool_with_allowlist s p t risk st al;
       free = (normalized_schema_state st = ''known'' \<and> risk = RiskReadOnly) in
   td_UntrustedOutput d \<and> td_Allowed d = free
   \<and> td_ApprovalRequired d = (\<not> free \<and> is_tool_allowlisted al s p t)
   \<and> td_Status d = (if free then ''allowed'' else if is_tool_allowlisted al s p t
       then ''approval_required'' else ''blocked'')"
  using decide_shape [of s p t risk st al] decide_allowed [of s p t risk st al]
    decide_approval_required [of s p t risk st al]
  by (auto simp: Let_def decision_shape_def)

text \<open>C39: A tool is free to run after a discovery only if that discovery confirmed it: the
  tool was listed, is classified read-only, and the inventory before the discovery already
  held it with the same schema hash. A first sighting and a changed schema are never free.\<close>

theorem free_tools_were_confirmed:
  assumes "persist_discovered_tools m i tools inv0 rf wfault = (m', None, out)"
    "trim_space (mg_inventoryPath m) \<noteq> []"
    "evaluate_tool m' None i project name = Inr e" "td_Allowed (te_Decision e)"
  shows "rf = None \<and> (\<exists>tool r. tool \<in> set tools \<and> trim_space (dt_Name tool) = trim_space name
    \<and> classify_tool tool = RiskReadOnly
    \<and> map_of (tools_of (mg_file m) i) (trim_space name) = Some r
    \<and> tr_InputSchemaHash r = schema_hash (dt_InputSchema tool))"
proof -
  from assms(1,2) obtain previous es where p:
    "previous = (case rf of None \<Rightarrow> mg_file m | Some _ \<Rightarrow> empty_inventory)"
    "es = List.map_filter (discovered_entry i (ti_DiscoveredAt inv0)
            (merged_allowlist m (pi_Allowlist previous)) (tools_of previous i)) tools"
    "m' = m\<lparr>mg_file := previous\<lparr>pi_Servers := AList.update i
       \<lparr>ps_DiscoveredAt = ti_DiscoveredAt inv0, ps_Tools = seen_records es\<rparr> (pi_Servers previous)\<rparr>\<rparr>"
    by (rule persist_result)
  obtain snapshot r where s: "load_inventory m' None = Inr snapshot"
    "map_of (tools_of snapshot i) (trim_space name) = Some r"
    "tr_Risk r = RiskReadOnly" "normalized_schema_state (tr_SchemaState r) = ''known''"
    by (rule evaluate_tool_allowed [OF assms(3,4)])
  have "tools_of snapshot i = seen_records es"
    using s(1) [symmetric] assms(2) p(3) by (auto simp: load_inventory_def tools_of_def update_conv')
  then obtain en where en: "en \<in> set es" "te_Name en = trim_space name" "r = record_of_entry en"
    using map_of_seen s(2) by metis
  then obtain tool where t: "tool \<in> set tools"
    "discovered_entry i (ti_DiscoveredAt inv0)
            (merged_allowlist m (pi_Allowlist previous)) (tools_of previous i) tool = Some en"
    using p(2) set_map_filter by metis
  note d = discovered_entry_Some [OF t(2)]
  have "normalized_schema_state (te_SchemaState en) = ''known''" using s(4) en(3) by (simp add: record_of_entry_def)
  moreover have "normalized_schema_state ''new'' = ''new''" "normalized_schema_state ''changed'' = ''changed''"
    using trim_space_all_graphic [of "''new''"] trim_space_all_graphic [of "''changed''"]
    by (simp_all add: normalized_schema_state_def graphic_def)
  ultimately obtain q where q: "map_of (tools_of previous i) (te_Name en) = Some q"
    "tr_InputSchemaHash q = te_InputSchemaHash en"
    using d by (auto simp: discovered_state_def split: option.splits if_splits)
  then have "rf = None" using p(1) by (auto simp: tools_of_def empty_inventory_def split: option.splits)
  then show ?thesis using p(1) q d t(1) en s(3) by (auto simp: record_of_entry_def)
qed

theorem free_tools_were_confirmed_witness:
  "\<exists>m' out e. persist_discovered_tools demo_known ''aws'' [demo_tool] demo_blank None None = (m', None, out)
     \<and> evaluate_tool m' None ''aws'' [] ''getx'' = Inr e \<and> td_Allowed (te_Decision e)
     \<and> (\<exists>r. map_of (tools_of (mg_file demo_known) ''aws'') ''getx'' = Some r)"
proof -
  have c: "classify_tool demo_tool = RiskReadOnly" by code_simp
  obtain m' out where m: "persist_discovered_tools demo_known ''aws'' [demo_tool] demo_blank None None
      = (m', None, out)"
    by (simp add: persist_discovered_tools_def update_inventory_atomically_def load_inventory_def
        save_inventory_def demo_known_def demo_manager_def demo_words Let_def)
  have path: "trim_space (mg_inventoryPath demo_known) \<noteq> []"
    by (simp add: demo_known_def demo_manager_def demo_words)
  obtain e where e: "evaluate_tool m' None ''aws'' [] ''getx'' = Inr e" "td_Allowed (te_Decision e)"
    by (rule persist_result [OF m path])
      (simp add: evaluate_tool_def lookup_server_def load_inventory_def demo_known_def demo_manager_def
        demo_server_def demo_words Let_def evaluate_tool_from_snapshot_def tools_of_def update_conv'
        List.map_filter_def discovered_entry_def demo_tool_def seen_records_def stored_entry_def
        record_of_entry_def decide_allowed discovered_state_def normalized_schema_state_def
        record_risk_def c [unfolded demo_tool_def])
  from free_tools_were_confirmed [OF m path e] m e show ?thesis by (auto simp: demo_words)
qed

text \<open>A successful \<open>SetToolAllowlist\<close> changes the allowlist by one entry, the trimmed
  server, project and tool, keeps every tool record, and reports the tool as the new allowlist
  decides it: allowlisted after an addition.\<close>

theorem set_allowlist_one_entry:
  assumes "set_tool_allowlist m rf wfault server project tool b = (m', Inr e)"
    "trim_space (mg_inventoryPath m) \<noteq> []"
  shows "allow_set (pi_Allowlist (mg_file m')) =
      (if b then insert (trim_entry server project tool) (allow_set (pi_Allowlist (mg_file m)))
       else allow_set (pi_Allowlist (mg_file m)) - {trim_entry server project tool})
    \<and> pi_Servers (mg_file m') = pi_Servers (mg_file m) \<and> mg_allowlist m' = mg_allowlist m
    \<and> te_Name e = trim_space tool \<and> (b \<longrightarrow> td_Allowlisted (te_Decision e))"
proof -
  let ?t = "trim_space tool"
  let ?al = "if b then add_allowlist_tool (pi_Allowlist (mg_file m)) server project ?t
     else remove_allowlist_tool (pi_Allowlist (mg_file m)) server project ?t"
  let ?next = "(mg_file m)\<lparr>pi_Allowlist := ?al\<rparr>"
  from assms have t: "?t \<noteq> []" and m': "m' = m\<lparr>mg_file := ?next\<rparr>"
    and e: "e = evaluate_tool_from_snapshot m' ?next server project ?t"
    by (auto simp: set_tool_allowlist_def Let_def update_inventory_atomically_def load_inventory_def
        save_inventory_def split: if_splits option.splits)
  have te: "trim_entry server project ?t = trim_entry server project tool" by (simp add: trim_entry_def)
  have listed: "is_tool_allowlisted (merged_allowlist m' ?al) server project ?t" if b
  proof -
    have "is_tool_allowlisted ?al server project ?t"
      using that t airlock_allow.listed_added [of ?t] by simp
    then have l: "contains_string (list_at (al_ServerTools ?al) (trim_space server)) ?t \<or>
        trim_space project \<noteq> [] \<and> contains_string (list_at (list_at (al_ProjectTools ?al)
          (trim_space project)) (trim_space server)) ?t"
      unfolding is_tool_allowlisted_def Let_def by (auto split: if_splits)
    have "trim_entry server [] ?t \<in> allow_set (merged_allowlist m' ?al)
       \<or> trim_entry server project ?t \<in> allow_set (merged_allowlist m' ?al)"
      using l merged_entry t unfolding merged_allowlist_def trim_entry_def by (metis trim_space_Nil trim_space_idem)
    then show ?thesis using t by (simp add: listed_iff)
  qed
  have "td_Allowlisted (decide_tool_with_allowlist server project ?t r st (merged_allowlist m' ?al))" if b for r st
    using listed [OF that]
    by (simp add: decide_tool_with_allowlist_def Let_def blocked_decision_def approval_decision_def)
  then show ?thesis using t te m' e
    by (auto simp: allow_set_add allow_set_remove evaluate_tool_from_snapshot_def stored_entry_def
        Let_def split: option.splits)
qed

theorem set_allowlist_one_entry_witness:
  "\<exists>m' e. set_tool_allowlist demo_known None None ''aws'' [] ''getx'' True = (m', Inr e)
     \<and> td_Allowlisted (te_Decision e)"
proof -
  have p: "trim_space (mg_inventoryPath demo_known) \<noteq> []"
    by (simp add: demo_known_def demo_manager_def demo_words)
  obtain m' e where "set_tool_allowlist demo_known None None ''aws'' [] ''getx'' True = (m', Inr e)"
    by (simp add: set_tool_allowlist_def lookup_server_def demo_known_def demo_manager_def demo_server_def
        demo_words Let_def update_inventory_atomically_def load_inventory_def save_inventory_def)
  with set_allowlist_one_entry [OF this p] show ?thesis by auto
qed

text \<open>Listing a server's inventory does not depend on the order in which Go ranges over
  the map of tools: two files that hold the same records list the same entries in the
  same order, sorted by risk and name.\<close>

theorem inventory_ignores_map_order:
  assumes "inventory m i None = Inr a" "inventory (m\<lparr>mg_file := f\<rparr>) i None = Inr b"
    "pi_Allowlist f = pi_Allowlist (mg_file m)"
    "mset (tools_of f i) = mset (tools_of (mg_file m) i)" "distinct (map fst (tools_of f i))"
  shows "ti_Tools a = ti_Tools b \<and> sorted (map (\<lambda>e. (te_Risk e, te_Name e)) (ti_Tools a))"
proof (cases "trim_space (mg_inventoryPath m) = []")
  case True
  then show ?thesis using assms(1,2)
    by (auto simp: inventory_def load_inventory_def lookup_server_def empty_inventory_def tools_of_def
        sort_tool_entries_def Let_def split: if_splits)
next
  case False
  let ?k = "\<lambda>e. (te_Risk e, te_Name e)"
  let ?al = "merged_allowlist m (pi_Allowlist (mg_file m))"
  let ?en = "map (stored_entry i [] ?al)"
  have ml: "merged_allowlist (m\<lparr>mg_file := f\<rparr>) al = merged_allowlist m al" for al
    by (simp add: merged_allowlist_def)
  have a: "ti_Tools a = sort_tool_entries (?en (tools_of (mg_file m) i))"
    and b: "ti_Tools b = sort_tool_entries (?en (tools_of f i))"
    using assms(1-3) False
    by (auto simp: inventory_def load_inventory_def lookup_server_def Let_def ml split: if_splits)
  have "map te_Name (?en xs) = map fst xs" for xs by (simp add: stored_entry_def Let_def)
  then have "distinct (map te_Name (?en (tools_of f i)))" using assms(5) by metis
  then have inj: "inj_on te_Name (set (?en (tools_of f i)))" "distinct (?en (tools_of f i))"
    using distinct_map [of te_Name "?en (tools_of f i)"] by blast+
  then have k: "inj_on ?k (set (?en (tools_of f i)))" by (auto simp: inj_on_def)
  have "mset (?en (tools_of f i)) = mset (?en (tools_of (mg_file m) i))"
    using assms(4) by simp
  then have same: "sort_key ?k (?en (tools_of f i)) = sort_key ?k (?en (tools_of (mg_file m) i))"
    using sort_key_unique [OF _ k inj(2)] by blast
  then show ?thesis using a b by (simp add: sort_tool_entries_def)
qed

theorem inventory_ignores_map_order_witness:
  "\<exists>a. inventory demo_known ''aws'' None = Inr a
     \<and> sorted (map (\<lambda>e. (te_Risk e, te_Name e)) (ti_Tools a))"
proof -
  obtain a where a: "inventory demo_known ''aws'' None = Inr a"
    by (simp add: inventory_def load_inventory_def lookup_server_def demo_known_def demo_manager_def
        demo_server_def demo_words Let_def)
  have u: "demo_known\<lparr>mg_file := mg_file demo_known\<rparr> = demo_known" by simp
  have d: "distinct (map fst (tools_of (mg_file demo_known) ''aws''))"
    by (simp add: demo_known_def demo_manager_def tools_of_def)
  from inventory_ignores_map_order [OF a _ _ _ d] a u show ?thesis by metis
qed

text \<open>A tool whose name, description or input schema mentions a destructive, secret,
  cloud, workspace or code-generation word, in any case of letters, is never classified
  read-only, whatever its annotations say.\<close>

theorem risky_words_never_read_only:
  assumes "w \<in> set (destructive_words @ secret_words @ cloud_words @ workspace_words @ code_words)"
    "contains (tool_text tool) w"
  shows "classify_tool tool \<noteq> RiskReadOnly \<and> classify_tool tool \<noteq> RiskUnknown"
proof -
  have "contains_any (tool_text tool) destructive_words \<or> contains_any (tool_text tool) secret_words \<or>
    contains_any (tool_text tool) cloud_words \<or> contains_any (tool_text tool) workspace_words \<or>
    contains_any (tool_text tool) code_words"
    using assms by (auto simp: contains_any_def list_ex_iff)
  then show ?thesis by (auto simp: classify_tool_def Let_def)
qed

theorem risky_words_never_read_only_witness:
  "classify_tool (demo_tool\<lparr>dt_Name := ''listDELETEx''\<rparr>) \<noteq> RiskReadOnly"
proof -
  have "contains (tool_text (demo_tool\<lparr>dt_Name := ''listDELETEx''\<rparr>)) ''delete''" by code_simp
  from risky_words_never_read_only [OF _ this] show ?thesis by (simp add: destructive_words_def)
qed

definition shell_tool :: discovered_tool where
  "shell_tool = \<lparr>dt_Name = ''run_shell'', dt_Description = ''Runs any command and shows the result'',
     dt_InputSchema = None, dt_Annotations = []\<rparr>"

text \<open>The classification is not conservative about execution: a tool that says it
  executes arbitrary shell commands is read-only as soon as its text has one of the reading
  words, and is then free to run once a second discovery has seen the same schema.\<close>

theorem shell_tool_is_read_only:
  "classify_tool shell_tool = RiskReadOnly"
  by code_simp

end
