(* ===== verification/Routing_Policy.thy ===== *)
theory Routing_Policy
  imports AgentRuns Airlock_Tools
begin

text \<open>
  The scoped routing policy of \<open>internal/agentrouting/policy.go\<close>: requests, rules, their
  validation and first-match lookup. An error is its sentinel applied to what it reports.
\<close>

section \<open>Data\<close>

definition EffectAllow :: string where [go_consts]: "EffectAllow = ''allow''"
definition EffectDeny :: string where [go_consts]: "EffectDeny = ''deny''"

lemma effect_ne [simp, go_enum]:
  "EffectAllow \<noteq> EffectDeny"
  "EffectDeny \<noteq> EffectAllow"
  by (simp_all add: go_consts)

record request =
  rq_Project :: string
  rq_ProviderID :: string
  rq_ConnectionID :: string
  rq_ServerID :: string
  rq_ToolName :: string
  rq_Mode :: string
  rq_Risk :: string

record rule =
  ru_Project :: string
  ru_ProviderID :: string
  ru_ConnectionID :: string
  ru_ServerID :: string
  ru_ToolName :: string
  ru_Modes :: "string list"
  ru_Risk :: string
  ru_Effect :: string
  ru_ApprovalRequired :: bool

record policy =
  po_Rules :: "rule list"

datatype problem =
    FieldRequired string
  | FieldUntrimmed string
  | UnsupportedMode string
  | UnsupportedRisk string
  | NoModes
  | UnsupportedEffect string
  | DenyWithApproval
  | UnknownRiskAllowed
  | ApprovalMissing

datatype policy_error =
    ErrInvalidRequest problem
  | ErrInvalidRule problem
  | ErrRuleAt nat policy_error
  | ErrInvalidPolicyScope problem
  | ErrPolicyNotFound
  | ErrPolicyScopeMismatch nat
  | ErrInvalidPolicyStore
  | ErrPolicyStorage string

section \<open>Validation\<close>

fun validate_required_fields :: "(string \<times> string) list \<Rightarrow> problem option" where
  "validate_required_fields [] = None"
| "validate_required_fields ((name, v) # fs) =
     (let trimmed = trim_space v in
      if trimmed = [] then Some (FieldRequired name)
      else if trimmed \<noteq> v then Some (FieldUntrimmed name)
      else validate_required_fields fs)"

definition valid_risk :: "string \<Rightarrow> bool" where
  "valid_risk r \<longleftrightarrow> r \<in> {RiskReadOnly, RiskGenerateCode, RiskModifyWorkspace, RiskCloudMutation,
     RiskSecretSensitive, RiskDestructive, RiskUnknown}"

definition validate_request :: "request \<Rightarrow> policy_error option" where
  "validate_request r =
     (case validate_required_fields [(''project'', rq_Project r), (''provider_id'', rq_ProviderID r),
         (''connection_id'', rq_ConnectionID r), (''server_id'', rq_ServerID r),
         (''tool_name'', rq_ToolName r)] of
        Some p \<Rightarrow> Some (ErrInvalidRequest p)
      | None \<Rightarrow>
          if \<not> mode_valid (rq_Mode r) then Some (ErrInvalidRequest (UnsupportedMode (rq_Mode r)))
          else if \<not> valid_risk (rq_Risk r) then Some (ErrInvalidRequest (UnsupportedRisk (rq_Risk r)))
          else None)"

definition validate_rule :: "rule \<Rightarrow> policy_error option" where
  "validate_rule r =
     (case validate_required_fields [(''project'', ru_Project r), (''provider_id'', ru_ProviderID r),
         (''connection_id'', ru_ConnectionID r), (''server_id'', ru_ServerID r),
         (''tool_name'', ru_ToolName r)] of
        Some p \<Rightarrow> Some (ErrInvalidRule p)
      | None \<Rightarrow>
          if ru_Modes r = [] then Some (ErrInvalidRule NoModes)
          else case find (\<lambda>m. \<not> mode_valid m) (ru_Modes r) of
            Some m \<Rightarrow> Some (ErrInvalidRule (UnsupportedMode m))
          | None \<Rightarrow>
              if \<not> valid_risk (ru_Risk r) then Some (ErrInvalidRule (UnsupportedRisk (ru_Risk r)))
              else if ru_Effect r \<noteq> EffectAllow \<and> ru_Effect r \<noteq> EffectDeny
                then Some (ErrInvalidRule (UnsupportedEffect (ru_Effect r)))
              else if ru_Effect r = EffectDeny \<and> ru_ApprovalRequired r
                then Some (ErrInvalidRule DenyWithApproval)
              else if ru_Effect r = EffectAllow \<and> ru_Risk r = RiskUnknown
                then Some (ErrInvalidRule UnknownRiskAllowed)
              else if ru_Effect r = EffectAllow \<and> ru_Risk r \<noteq> RiskReadOnly \<and> \<not> ru_ApprovalRequired r
                then Some (ErrInvalidRule ApprovalMissing)
              else None)"

fun validate_rules :: "nat \<Rightarrow> rule list \<Rightarrow> policy_error option" where
  "validate_rules i [] = None"
| "validate_rules i (r # rs) =
     (case validate_rule r of Some e \<Rightarrow> Some (ErrRuleAt i e) | None \<Rightarrow> validate_rules (Suc i) rs)"

definition validate_policy :: "policy \<Rightarrow> policy_error option" where
  "validate_policy p = validate_rules 0 (po_Rules p)"

section \<open>Matching\<close>

definition matches_validated :: "rule \<Rightarrow> request \<Rightarrow> bool" where
  "matches_validated r q =
     (if ru_Project r \<noteq> rq_Project q \<or> ru_ProviderID r \<noteq> rq_ProviderID q
        \<or> ru_ConnectionID r \<noteq> rq_ConnectionID q \<or> ru_ServerID r \<noteq> rq_ServerID q
        \<or> ru_ToolName r \<noteq> rq_ToolName q \<or> ru_Risk r \<noteq> rq_Risk q
      then False
      else list_ex (\<lambda>m. m = rq_Mode q) (ru_Modes r))"

definition rule_matches :: "rule \<Rightarrow> request \<Rightarrow> bool" where
  "rule_matches r q =
     (if validate_rule r \<noteq> None \<or> validate_request q \<noteq> None then False else matches_validated r q)"

definition match_validated :: "policy \<Rightarrow> request \<Rightarrow> rule option" where
  "match_validated p q = find (\<lambda>r. matches_validated r q) (po_Rules p)"

definition policy_match :: "policy \<Rightarrow> request \<Rightarrow> rule option" where
  "policy_match p q =
     (if validate_request q \<noteq> None \<or> validate_policy p \<noteq> None then None else match_validated p q)"

section \<open>What validation gives\<close>

definition clean_field :: "string \<Rightarrow> bool" where
  "clean_field v \<longleftrightarrow> v \<noteq> [] \<and> trim_space v = v"

lemma required_fields_ok:
  "validate_required_fields fs = None \<longleftrightarrow> (\<forall>(n, v) \<in> set fs. clean_field v)"
  by (induction fs) (auto simp: Let_def clean_field_def split: if_splits)

lemma valid_request_iff:
  "validate_request r = None \<longleftrightarrow> clean_field (rq_Project r) \<and> clean_field (rq_ProviderID r)
     \<and> clean_field (rq_ConnectionID r) \<and> clean_field (rq_ServerID r) \<and> clean_field (rq_ToolName r)
     \<and> mode_valid (rq_Mode r) \<and> valid_risk (rq_Risk r)"
proof -
  let ?fs = "[(''project'', rq_Project r), (''provider_id'', rq_ProviderID r),
         (''connection_id'', rq_ConnectionID r), (''server_id'', rq_ServerID r),
         (''tool_name'', rq_ToolName r)]"
  have "validate_required_fields ?fs = None \<longleftrightarrow> clean_field (rq_Project r) \<and> clean_field (rq_ProviderID r)
     \<and> clean_field (rq_ConnectionID r) \<and> clean_field (rq_ServerID r) \<and> clean_field (rq_ToolName r)"
    unfolding required_fields_ok by auto
  then show ?thesis unfolding validate_request_def by (auto split: option.splits)
qed

text \<open>What every accepted rule obeys: allowing anything but reading requires an approval.\<close>

definition safe_rule :: "rule \<Rightarrow> bool" where
  "safe_rule r \<longleftrightarrow> (ru_Effect r = EffectAllow \<or> ru_Effect r = EffectDeny)
     \<and> (ru_Effect r = EffectAllow \<longrightarrow> ru_Risk r \<noteq> RiskUnknown
          \<and> (ru_Risk r = RiskReadOnly \<or> ru_ApprovalRequired r))"

lemma valid_rule_safe: "validate_rule r = None \<Longrightarrow> safe_rule r"
  unfolding validate_rule_def safe_rule_def by (auto split: option.splits if_splits)

lemma validate_rules_all: "validate_rules i rs = None \<longleftrightarrow> (\<forall>r \<in> set rs. validate_rule r = None)"
  by (induction rs arbitrary: i) (auto split: option.splits)

lemma validate_policy_all: "validate_policy p = None \<longleftrightarrow> (\<forall>r \<in> set (po_Rules p). validate_rule r = None)"
  by (simp add: validate_policy_def validate_rules_all)

lemma match_validated_Some:
  assumes "match_validated p q = Some r"
  shows "r \<in> set (po_Rules p) \<and> matches_validated r q"
  using find_Some_in [OF assms [unfolded match_validated_def]] .

lemma matches_validated_iff:
  "matches_validated r q \<longleftrightarrow> ru_Project r = rq_Project q \<and> ru_ProviderID r = rq_ProviderID q
     \<and> ru_ConnectionID r = rq_ConnectionID q \<and> ru_ServerID r = rq_ServerID q
     \<and> ru_ToolName r = rq_ToolName q \<and> ru_Risk r = rq_Risk q \<and> rq_Mode q \<in> set (ru_Modes r)"
  by (auto simp: matches_validated_def list_ex_iff)

end
