(* ===== verification/Routing_Decision.thy ===== *)
theory Routing_Decision
  imports Routing_Policy
begin

text \<open>
  The authorization outcome of one tool route (\<open>internal/agentrouting/decision.go\<close>): the
  route policy, the agent mode and the Airlock decision intersected, failing closed.
\<close>

section \<open>Data\<close>

definition DecisionDenied :: string where [go_consts]: "DecisionDenied = ''denied''"
definition DecisionApprovalRequired :: string where [go_consts]: "DecisionApprovalRequired = ''approval_required''"
definition DecisionAllowed :: string where [go_consts]: "DecisionAllowed = ''allowed''"

lemma decision_status_ne [simp, go_enum]:
  "DecisionDenied \<noteq> DecisionApprovalRequired" "DecisionDenied \<noteq> DecisionAllowed"
  "DecisionApprovalRequired \<noteq> DecisionDenied" "DecisionApprovalRequired \<noteq> DecisionAllowed"
  "DecisionAllowed \<noteq> DecisionDenied" "DecisionAllowed \<noteq> DecisionApprovalRequired"
  by (simp_all add: go_consts)

definition ReasonInvalidRequest :: string where [go_consts]: "ReasonInvalidRequest = ''invalid_request''"
definition ReasonInvalidPolicy :: string where [go_consts]: "ReasonInvalidPolicy = ''invalid_policy''"
definition ReasonPolicyUnavailable :: string where [go_consts]: "ReasonPolicyUnavailable = ''policy_unavailable''"
definition ReasonModeRiskMismatch :: string where [go_consts]: "ReasonModeRiskMismatch = ''mode_risk_mismatch''"
definition ReasonNoMatchingRule :: string where [go_consts]: "ReasonNoMatchingRule = ''no_matching_rule''"
definition ReasonPolicyDenied :: string where [go_consts]: "ReasonPolicyDenied = ''policy_denied''"
definition ReasonAirlockUnavailable :: string where [go_consts]: "ReasonAirlockUnavailable = ''airlock_unavailable''"
definition ReasonAirlockServerMismatch :: string where [go_consts]: "ReasonAirlockServerMismatch = ''airlock_server_mismatch''"
definition ReasonAirlockToolMismatch :: string where [go_consts]: "ReasonAirlockToolMismatch = ''airlock_tool_mismatch''"
definition ReasonAirlockRiskMismatch :: string where [go_consts]: "ReasonAirlockRiskMismatch = ''airlock_risk_mismatch''"
definition ReasonInvalidAirlockDecision :: string where [go_consts]: "ReasonInvalidAirlockDecision = ''invalid_airlock_decision''"
definition ReasonAirlockBlocked :: string where [go_consts]: "ReasonAirlockBlocked = ''airlock_blocked''"
definition ReasonApprovalRequired :: string where [go_consts]: "ReasonApprovalRequired = ''approval_required''"
definition ReasonAllowed :: string where [go_consts]: "ReasonAllowed = ''allowed''"

lemma reason_ne [simp, go_enum]:
  "ReasonInvalidRequest \<noteq> ReasonInvalidPolicy" "ReasonInvalidRequest \<noteq> ReasonPolicyUnavailable" "ReasonInvalidRequest \<noteq> ReasonModeRiskMismatch" "ReasonInvalidRequest \<noteq> ReasonNoMatchingRule" "ReasonInvalidRequest \<noteq> ReasonPolicyDenied" "ReasonInvalidRequest \<noteq> ReasonAirlockUnavailable" "ReasonInvalidRequest \<noteq> ReasonAirlockServerMismatch" "ReasonInvalidRequest \<noteq> ReasonAirlockToolMismatch" "ReasonInvalidRequest \<noteq> ReasonAirlockRiskMismatch" "ReasonInvalidRequest \<noteq> ReasonInvalidAirlockDecision" "ReasonInvalidRequest \<noteq> ReasonAirlockBlocked" "ReasonInvalidRequest \<noteq> ReasonApprovalRequired" "ReasonInvalidRequest \<noteq> ReasonAllowed"
  "ReasonInvalidPolicy \<noteq> ReasonInvalidRequest" "ReasonInvalidPolicy \<noteq> ReasonPolicyUnavailable" "ReasonInvalidPolicy \<noteq> ReasonModeRiskMismatch" "ReasonInvalidPolicy \<noteq> ReasonNoMatchingRule" "ReasonInvalidPolicy \<noteq> ReasonPolicyDenied" "ReasonInvalidPolicy \<noteq> ReasonAirlockUnavailable" "ReasonInvalidPolicy \<noteq> ReasonAirlockServerMismatch" "ReasonInvalidPolicy \<noteq> ReasonAirlockToolMismatch" "ReasonInvalidPolicy \<noteq> ReasonAirlockRiskMismatch" "ReasonInvalidPolicy \<noteq> ReasonInvalidAirlockDecision" "ReasonInvalidPolicy \<noteq> ReasonAirlockBlocked" "ReasonInvalidPolicy \<noteq> ReasonApprovalRequired" "ReasonInvalidPolicy \<noteq> ReasonAllowed"
  "ReasonPolicyUnavailable \<noteq> ReasonInvalidRequest" "ReasonPolicyUnavailable \<noteq> ReasonInvalidPolicy" "ReasonPolicyUnavailable \<noteq> ReasonModeRiskMismatch" "ReasonPolicyUnavailable \<noteq> ReasonNoMatchingRule" "ReasonPolicyUnavailable \<noteq> ReasonPolicyDenied" "ReasonPolicyUnavailable \<noteq> ReasonAirlockUnavailable" "ReasonPolicyUnavailable \<noteq> ReasonAirlockServerMismatch" "ReasonPolicyUnavailable \<noteq> ReasonAirlockToolMismatch" "ReasonPolicyUnavailable \<noteq> ReasonAirlockRiskMismatch" "ReasonPolicyUnavailable \<noteq> ReasonInvalidAirlockDecision" "ReasonPolicyUnavailable \<noteq> ReasonAirlockBlocked" "ReasonPolicyUnavailable \<noteq> ReasonApprovalRequired" "ReasonPolicyUnavailable \<noteq> ReasonAllowed"
  "ReasonModeRiskMismatch \<noteq> ReasonInvalidRequest" "ReasonModeRiskMismatch \<noteq> ReasonInvalidPolicy" "ReasonModeRiskMismatch \<noteq> ReasonPolicyUnavailable" "ReasonModeRiskMismatch \<noteq> ReasonNoMatchingRule" "ReasonModeRiskMismatch \<noteq> ReasonPolicyDenied" "ReasonModeRiskMismatch \<noteq> ReasonAirlockUnavailable" "ReasonModeRiskMismatch \<noteq> ReasonAirlockServerMismatch" "ReasonModeRiskMismatch \<noteq> ReasonAirlockToolMismatch" "ReasonModeRiskMismatch \<noteq> ReasonAirlockRiskMismatch" "ReasonModeRiskMismatch \<noteq> ReasonInvalidAirlockDecision" "ReasonModeRiskMismatch \<noteq> ReasonAirlockBlocked" "ReasonModeRiskMismatch \<noteq> ReasonApprovalRequired" "ReasonModeRiskMismatch \<noteq> ReasonAllowed"
  "ReasonNoMatchingRule \<noteq> ReasonInvalidRequest" "ReasonNoMatchingRule \<noteq> ReasonInvalidPolicy" "ReasonNoMatchingRule \<noteq> ReasonPolicyUnavailable" "ReasonNoMatchingRule \<noteq> ReasonModeRiskMismatch" "ReasonNoMatchingRule \<noteq> ReasonPolicyDenied" "ReasonNoMatchingRule \<noteq> ReasonAirlockUnavailable" "ReasonNoMatchingRule \<noteq> ReasonAirlockServerMismatch" "ReasonNoMatchingRule \<noteq> ReasonAirlockToolMismatch" "ReasonNoMatchingRule \<noteq> ReasonAirlockRiskMismatch" "ReasonNoMatchingRule \<noteq> ReasonInvalidAirlockDecision" "ReasonNoMatchingRule \<noteq> ReasonAirlockBlocked" "ReasonNoMatchingRule \<noteq> ReasonApprovalRequired" "ReasonNoMatchingRule \<noteq> ReasonAllowed"
  "ReasonPolicyDenied \<noteq> ReasonInvalidRequest" "ReasonPolicyDenied \<noteq> ReasonInvalidPolicy" "ReasonPolicyDenied \<noteq> ReasonPolicyUnavailable" "ReasonPolicyDenied \<noteq> ReasonModeRiskMismatch" "ReasonPolicyDenied \<noteq> ReasonNoMatchingRule" "ReasonPolicyDenied \<noteq> ReasonAirlockUnavailable" "ReasonPolicyDenied \<noteq> ReasonAirlockServerMismatch" "ReasonPolicyDenied \<noteq> ReasonAirlockToolMismatch" "ReasonPolicyDenied \<noteq> ReasonAirlockRiskMismatch" "ReasonPolicyDenied \<noteq> ReasonInvalidAirlockDecision" "ReasonPolicyDenied \<noteq> ReasonAirlockBlocked" "ReasonPolicyDenied \<noteq> ReasonApprovalRequired" "ReasonPolicyDenied \<noteq> ReasonAllowed"
  "ReasonAirlockUnavailable \<noteq> ReasonInvalidRequest" "ReasonAirlockUnavailable \<noteq> ReasonInvalidPolicy" "ReasonAirlockUnavailable \<noteq> ReasonPolicyUnavailable" "ReasonAirlockUnavailable \<noteq> ReasonModeRiskMismatch" "ReasonAirlockUnavailable \<noteq> ReasonNoMatchingRule" "ReasonAirlockUnavailable \<noteq> ReasonPolicyDenied" "ReasonAirlockUnavailable \<noteq> ReasonAirlockServerMismatch" "ReasonAirlockUnavailable \<noteq> ReasonAirlockToolMismatch" "ReasonAirlockUnavailable \<noteq> ReasonAirlockRiskMismatch" "ReasonAirlockUnavailable \<noteq> ReasonInvalidAirlockDecision" "ReasonAirlockUnavailable \<noteq> ReasonAirlockBlocked" "ReasonAirlockUnavailable \<noteq> ReasonApprovalRequired" "ReasonAirlockUnavailable \<noteq> ReasonAllowed"
  "ReasonAirlockServerMismatch \<noteq> ReasonInvalidRequest" "ReasonAirlockServerMismatch \<noteq> ReasonInvalidPolicy" "ReasonAirlockServerMismatch \<noteq> ReasonPolicyUnavailable" "ReasonAirlockServerMismatch \<noteq> ReasonModeRiskMismatch" "ReasonAirlockServerMismatch \<noteq> ReasonNoMatchingRule" "ReasonAirlockServerMismatch \<noteq> ReasonPolicyDenied" "ReasonAirlockServerMismatch \<noteq> ReasonAirlockUnavailable" "ReasonAirlockServerMismatch \<noteq> ReasonAirlockToolMismatch" "ReasonAirlockServerMismatch \<noteq> ReasonAirlockRiskMismatch" "ReasonAirlockServerMismatch \<noteq> ReasonInvalidAirlockDecision" "ReasonAirlockServerMismatch \<noteq> ReasonAirlockBlocked" "ReasonAirlockServerMismatch \<noteq> ReasonApprovalRequired" "ReasonAirlockServerMismatch \<noteq> ReasonAllowed"
  "ReasonAirlockToolMismatch \<noteq> ReasonInvalidRequest" "ReasonAirlockToolMismatch \<noteq> ReasonInvalidPolicy" "ReasonAirlockToolMismatch \<noteq> ReasonPolicyUnavailable" "ReasonAirlockToolMismatch \<noteq> ReasonModeRiskMismatch" "ReasonAirlockToolMismatch \<noteq> ReasonNoMatchingRule" "ReasonAirlockToolMismatch \<noteq> ReasonPolicyDenied" "ReasonAirlockToolMismatch \<noteq> ReasonAirlockUnavailable" "ReasonAirlockToolMismatch \<noteq> ReasonAirlockServerMismatch" "ReasonAirlockToolMismatch \<noteq> ReasonAirlockRiskMismatch" "ReasonAirlockToolMismatch \<noteq> ReasonInvalidAirlockDecision" "ReasonAirlockToolMismatch \<noteq> ReasonAirlockBlocked" "ReasonAirlockToolMismatch \<noteq> ReasonApprovalRequired" "ReasonAirlockToolMismatch \<noteq> ReasonAllowed"
  "ReasonAirlockRiskMismatch \<noteq> ReasonInvalidRequest" "ReasonAirlockRiskMismatch \<noteq> ReasonInvalidPolicy" "ReasonAirlockRiskMismatch \<noteq> ReasonPolicyUnavailable" "ReasonAirlockRiskMismatch \<noteq> ReasonModeRiskMismatch" "ReasonAirlockRiskMismatch \<noteq> ReasonNoMatchingRule" "ReasonAirlockRiskMismatch \<noteq> ReasonPolicyDenied" "ReasonAirlockRiskMismatch \<noteq> ReasonAirlockUnavailable" "ReasonAirlockRiskMismatch \<noteq> ReasonAirlockServerMismatch" "ReasonAirlockRiskMismatch \<noteq> ReasonAirlockToolMismatch" "ReasonAirlockRiskMismatch \<noteq> ReasonInvalidAirlockDecision" "ReasonAirlockRiskMismatch \<noteq> ReasonAirlockBlocked" "ReasonAirlockRiskMismatch \<noteq> ReasonApprovalRequired" "ReasonAirlockRiskMismatch \<noteq> ReasonAllowed"
  "ReasonInvalidAirlockDecision \<noteq> ReasonInvalidRequest" "ReasonInvalidAirlockDecision \<noteq> ReasonInvalidPolicy" "ReasonInvalidAirlockDecision \<noteq> ReasonPolicyUnavailable" "ReasonInvalidAirlockDecision \<noteq> ReasonModeRiskMismatch" "ReasonInvalidAirlockDecision \<noteq> ReasonNoMatchingRule" "ReasonInvalidAirlockDecision \<noteq> ReasonPolicyDenied" "ReasonInvalidAirlockDecision \<noteq> ReasonAirlockUnavailable" "ReasonInvalidAirlockDecision \<noteq> ReasonAirlockServerMismatch" "ReasonInvalidAirlockDecision \<noteq> ReasonAirlockToolMismatch" "ReasonInvalidAirlockDecision \<noteq> ReasonAirlockRiskMismatch" "ReasonInvalidAirlockDecision \<noteq> ReasonAirlockBlocked" "ReasonInvalidAirlockDecision \<noteq> ReasonApprovalRequired" "ReasonInvalidAirlockDecision \<noteq> ReasonAllowed"
  "ReasonAirlockBlocked \<noteq> ReasonInvalidRequest" "ReasonAirlockBlocked \<noteq> ReasonInvalidPolicy" "ReasonAirlockBlocked \<noteq> ReasonPolicyUnavailable" "ReasonAirlockBlocked \<noteq> ReasonModeRiskMismatch" "ReasonAirlockBlocked \<noteq> ReasonNoMatchingRule" "ReasonAirlockBlocked \<noteq> ReasonPolicyDenied" "ReasonAirlockBlocked \<noteq> ReasonAirlockUnavailable" "ReasonAirlockBlocked \<noteq> ReasonAirlockServerMismatch" "ReasonAirlockBlocked \<noteq> ReasonAirlockToolMismatch" "ReasonAirlockBlocked \<noteq> ReasonAirlockRiskMismatch" "ReasonAirlockBlocked \<noteq> ReasonInvalidAirlockDecision" "ReasonAirlockBlocked \<noteq> ReasonApprovalRequired" "ReasonAirlockBlocked \<noteq> ReasonAllowed"
  "ReasonApprovalRequired \<noteq> ReasonInvalidRequest" "ReasonApprovalRequired \<noteq> ReasonInvalidPolicy" "ReasonApprovalRequired \<noteq> ReasonPolicyUnavailable" "ReasonApprovalRequired \<noteq> ReasonModeRiskMismatch" "ReasonApprovalRequired \<noteq> ReasonNoMatchingRule" "ReasonApprovalRequired \<noteq> ReasonPolicyDenied" "ReasonApprovalRequired \<noteq> ReasonAirlockUnavailable" "ReasonApprovalRequired \<noteq> ReasonAirlockServerMismatch" "ReasonApprovalRequired \<noteq> ReasonAirlockToolMismatch" "ReasonApprovalRequired \<noteq> ReasonAirlockRiskMismatch" "ReasonApprovalRequired \<noteq> ReasonInvalidAirlockDecision" "ReasonApprovalRequired \<noteq> ReasonAirlockBlocked" "ReasonApprovalRequired \<noteq> ReasonAllowed"
  "ReasonAllowed \<noteq> ReasonInvalidRequest" "ReasonAllowed \<noteq> ReasonInvalidPolicy" "ReasonAllowed \<noteq> ReasonPolicyUnavailable" "ReasonAllowed \<noteq> ReasonModeRiskMismatch" "ReasonAllowed \<noteq> ReasonNoMatchingRule" "ReasonAllowed \<noteq> ReasonPolicyDenied" "ReasonAllowed \<noteq> ReasonAirlockUnavailable" "ReasonAllowed \<noteq> ReasonAirlockServerMismatch" "ReasonAllowed \<noteq> ReasonAirlockToolMismatch" "ReasonAllowed \<noteq> ReasonAirlockRiskMismatch" "ReasonAllowed \<noteq> ReasonInvalidAirlockDecision" "ReasonAllowed \<noteq> ReasonAirlockBlocked" "ReasonAllowed \<noteq> ReasonApprovalRequired"
  by (simp_all add: go_consts)

record decision =
  de_Status :: string
  de_Reason :: string
  de_Allowed :: bool
  de_ApprovalRequired :: bool
  de_UntrustedOutput :: bool

datatype decision_problem =
    OutputTrusted
  | InconsistentDenied
  | InconsistentApproval
  | InconsistentAllowed
  | UnsupportedStatus string

definition valid_denied_reason :: "string \<Rightarrow> bool" where
  "valid_denied_reason r \<longleftrightarrow> r \<in> {ReasonInvalidRequest, ReasonInvalidPolicy, ReasonPolicyUnavailable,
     ReasonModeRiskMismatch, ReasonNoMatchingRule, ReasonPolicyDenied, ReasonAirlockUnavailable,
     ReasonAirlockServerMismatch, ReasonAirlockToolMismatch, ReasonAirlockRiskMismatch,
     ReasonInvalidAirlockDecision, ReasonAirlockBlocked}"

definition validate_decision :: "decision \<Rightarrow> decision_problem option" where
  "validate_decision d =
     (if \<not> de_UntrustedOutput d then Some OutputTrusted
      else if de_Status d = DecisionDenied then
        if de_Allowed d \<or> de_ApprovalRequired d \<or> \<not> valid_denied_reason (de_Reason d)
        then Some InconsistentDenied else None
      else if de_Status d = DecisionApprovalRequired then
        if de_Allowed d \<or> \<not> de_ApprovalRequired d \<or> de_Reason d \<noteq> ReasonApprovalRequired
        then Some InconsistentApproval else None
      else if de_Status d = DecisionAllowed then
        if \<not> de_Allowed d \<or> de_ApprovalRequired d \<or> de_Reason d \<noteq> ReasonAllowed
        then Some InconsistentAllowed else None
      else Some (UnsupportedStatus (de_Status d)))"

section \<open>Evaluation\<close>

definition denied :: "string \<Rightarrow> decision" where
  "denied reason = \<lparr>de_Status = DecisionDenied, de_Reason = reason, de_Allowed = False,
     de_ApprovalRequired = False, de_UntrustedOutput = True\<rparr>"

definition approval_required :: decision where
  "approval_required = \<lparr>de_Status = DecisionApprovalRequired, de_Reason = ReasonApprovalRequired,
     de_Allowed = False, de_ApprovalRequired = True, de_UntrustedOutput = True\<rparr>"

definition allowed :: decision where
  "allowed = \<lparr>de_Status = DecisionAllowed, de_Reason = ReasonAllowed, de_Allowed = True,
     de_ApprovalRequired = False, de_UntrustedOutput = True\<rparr>"

definition mode_allows_risk :: "string \<Rightarrow> string \<Rightarrow> bool" where
  "mode_allows_risk mode risk =
     (if mode = ModeReadOnly then risk = RiskReadOnly
      else if mode = ModeProposeOnly then risk = RiskReadOnly \<or> risk = RiskGenerateCode
      else if mode = ModeApprovedExecute then risk \<noteq> RiskUnknown
      else False)"

definition preflight :: "request \<Rightarrow> decision option" where
  "preflight q =
     (if validate_request q \<noteq> None then Some (denied ReasonInvalidRequest)
      else if \<not> mode_allows_risk (rq_Mode q) (rq_Risk q) then Some (denied ReasonModeRiskMismatch)
      else None)"

definition evaluate_matched :: "rule \<Rightarrow> request \<Rightarrow> tool_decision \<Rightarrow> decision" where
  "evaluate_matched r q airlock =
     (if ru_Effect r = EffectDeny then denied ReasonPolicyDenied
      else if td_Risk airlock \<noteq> rq_Risk q then denied ReasonAirlockRiskMismatch
      else if td_Status airlock = ''blocked'' \<and> \<not> td_Allowed airlock
        \<and> \<not> td_ApprovalRequired airlock \<and> td_UntrustedOutput airlock
        then denied ReasonAirlockBlocked
      else if td_Status airlock = ''approval_required'' \<and> \<not> td_Allowed airlock
        \<and> td_ApprovalRequired airlock \<and> td_UntrustedOutput airlock
        then approval_required
      else if td_Status airlock = ''allowed'' \<and> td_Allowed airlock
        \<and> \<not> td_ApprovalRequired airlock \<and> td_UntrustedOutput airlock
        then (if ru_ApprovalRequired r then approval_required else allowed)
      else denied ReasonInvalidAirlockDecision)"

definition evaluate_validated :: "policy \<Rightarrow> request \<Rightarrow> tool_decision \<Rightarrow> decision" where
  "evaluate_validated p q airlock =
     (case match_validated p q of
        None \<Rightarrow> denied ReasonNoMatchingRule
      | Some r \<Rightarrow> evaluate_matched r q airlock)"

definition evaluate :: "policy \<Rightarrow> request \<Rightarrow> tool_decision \<Rightarrow> decision" where
  "evaluate p q airlock =
     (case preflight q of
        Some d \<Rightarrow> d
      | None \<Rightarrow>
          if validate_policy p \<noteq> None then denied ReasonInvalidPolicy
          else evaluate_validated p q airlock)"

section \<open>Facts\<close>

lemma valid_outcomes [simp]:
  "validate_decision approval_required = None" "validate_decision allowed = None"
  "valid_denied_reason reason \<Longrightarrow> validate_decision (denied reason) = None"
  by (simp_all add: validate_decision_def approval_required_def allowed_def denied_def)

lemma valid_reasons [simp]:
  "valid_denied_reason ReasonInvalidRequest" "valid_denied_reason ReasonInvalidPolicy"
  "valid_denied_reason ReasonPolicyUnavailable" "valid_denied_reason ReasonModeRiskMismatch"
  "valid_denied_reason ReasonNoMatchingRule" "valid_denied_reason ReasonPolicyDenied"
  "valid_denied_reason ReasonAirlockUnavailable" "valid_denied_reason ReasonAirlockServerMismatch"
  "valid_denied_reason ReasonAirlockToolMismatch" "valid_denied_reason ReasonAirlockRiskMismatch"
  "valid_denied_reason ReasonInvalidAirlockDecision" "valid_denied_reason ReasonAirlockBlocked"
  by (simp_all add: valid_denied_reason_def)

lemma decision_status [simp]:
  "de_Status (denied reason) = DecisionDenied" "de_Reason (denied reason) = reason"
  "de_Status approval_required = DecisionApprovalRequired" "de_Status allowed = DecisionAllowed"
  "\<not> de_Allowed (denied reason)" "\<not> de_Allowed approval_required" "de_Allowed allowed"
  by (simp_all add: denied_def approval_required_def allowed_def)

lemma preflight_cases:
  obtains (invalid) "validate_request q \<noteq> None" "preflight q = Some (denied ReasonInvalidRequest)"
  | (mismatch) "validate_request q = None" "\<not> mode_allows_risk (rq_Mode q) (rq_Risk q)"
      "preflight q = Some (denied ReasonModeRiskMismatch)"
  | (pass) "validate_request q = None" "mode_allows_risk (rq_Mode q) (rq_Risk q)" "preflight q = None"
  by (auto simp: preflight_def)

lemma evaluate_matched_valid: "validate_decision (evaluate_matched r q airlock) = None"
  by (simp add: evaluate_matched_def)

lemma evaluate_matched_allowed:
  assumes "de_Status (evaluate_matched r q airlock) = DecisionAllowed"
  shows "ru_Effect r \<noteq> EffectDeny \<and> td_Risk airlock = rq_Risk q \<and> td_Status airlock = ''allowed''
    \<and> td_Allowed airlock \<and> \<not> ru_ApprovalRequired r"
  using assms by (auto simp: evaluate_matched_def split: if_splits)

lemma granted_decision:
  assumes "de_Status (evaluate_matched r q airlock) \<noteq> DecisionDenied"
  shows "td_Risk airlock = rq_Risk q \<and> td_Status airlock \<noteq> ''blocked''"
  using assms by (auto simp: evaluate_matched_def split: if_splits)

end
