(* ===== verification/Go_Map.thy ===== *)
theory Go_Map
  imports Main "HOL-Library.AList" "HOL-Library.Multiset"
begin

text \<open>
  Go maps as association lists: the list is in the order a \<open>range\<close> visits, \<open>AList.update\<close> is an
  assignment, and \<open>maps.Equal\<close> compares the lengths and then each entry.
\<close>

lemma update_absent: "map_of m k = None \<Longrightarrow> AList.update k v m = m @ [(k, v)]"
  by (induction m) (auto split: if_splits)

lemma mset_map_of: "distinct (map fst xs) \<Longrightarrow> mset xs = mset ys \<Longrightarrow> map_of xs = map_of ys"
proof -
  assume d: "distinct (map fst xs)" "mset xs = mset ys"
  then have "mset (map fst xs) = mset (map fst ys)" by simp
  then have "distinct (map fst ys)" using d(1) mset_eq_imp_distinct_iff by blast
  then show ?thesis using d mset_eq_setD map_of_inject_set by blast
qed

definition maps_equal :: "('k \<times> 'v) list \<Rightarrow> ('k \<times> 'v) list \<Rightarrow> bool" where
  "maps_equal xs ys \<longleftrightarrow> length xs = length ys \<and> list_all (\<lambda>(k, v). map_of ys k = Some v) xs"

lemma maps_equal_map_of:
  assumes "distinct (map fst xs)" "distinct (map fst ys)"
  shows "maps_equal xs ys \<longleftrightarrow> map_of xs = map_of ys"
proof
  assume e: "maps_equal xs ys"
  then have "set xs \<subseteq> set ys" by (auto simp: maps_equal_def list_all_iff dest: map_of_SomeD)
  moreover have "card (set xs) = card (set ys)"
    using e assms distinct_card [of xs] distinct_card [of ys] by (simp add: maps_equal_def distinct_map)
  ultimately have "set xs = set ys" by (simp add: card_subset_eq)
  then show "map_of xs = map_of ys" using assms map_of_inject_set by blast
next
  assume "map_of xs = map_of ys"
  moreover from this have "set xs = set ys" using assms map_of_inject_set by blast
  moreover have "length xs = length ys"
    using \<open>set xs = set ys\<close> assms distinct_card [of xs] distinct_card [of ys] by (simp add: distinct_map)
  ultimately show "maps_equal xs ys"
    using assms by (auto simp: maps_equal_def list_all_iff)
qed

lemma update_distinct [simp]: "distinct (map fst m) \<Longrightarrow> distinct (map fst (AList.update k v m))"
  by (simp add: distinct_update)

lemma update_all: "list_all P m \<Longrightarrow> P (k, v) \<Longrightarrow> list_all P (AList.update k v m)"
  by (induction m) (auto split: if_splits)

lemma update_length:
  "length (AList.update k v m) = (if map_of m k = None then Suc (length m) else length m)"
  by (induction m) auto

lemma distinct_sorted_map_of:
  assumes "distinct (map fst m)"
  shows "distinct (map fst (sort_key f m))" "map_of (sort_key f m) = map_of m"
proof -
  have "mset (map fst (sort_key f m)) = mset (map fst m)" by simp
  then show "distinct (map fst (sort_key f m))" using assms mset_eq_imp_distinct_iff by blast
  show "map_of (sort_key f m) = map_of m" using mset_map_of [OF assms, of "sort_key f m"] by simp
qed

end
