(* ===== verification/Routing_Store.thy ===== *)
theory Routing_Store
  imports Routing_Policy Go_Map
begin

text \<open>
  The policy store of \<open>internal/agentrouting/policy_store.go\<close> and
  \<open>policy_store_persistence.go\<close>: validated policies by exact scope, in memory or persisted.
  The store's map is an association list whose order is the order a \<open>range\<close> visits. The file
  is the snapshot it holds, whose texts pass through JSON on writing and on reading; \<open>DiskUndecodable\<close> also stands for a file that is too large, not
  regular or not JSON. What can fail outside (directory and lock, opening, writing) is the
  argument \<open>policy_io\<close>; whether the encoded snapshot exceeds the size limit is \<open>too_large\<close>.
\<close>

section \<open>Data\<close>

record policy_scope =
  sc_Project :: string
  sc_ProviderID :: string

type_synonym scoped_policies = "(policy_scope \<times> policy) list"

record policy_file =
  pf_Version :: int
  pf_Policies :: scoped_policies

datatype policy_disk = DiskMissing | DiskUndecodable | DiskSnapshot policy_file

record policy_io =
  io_prepare :: "string option"
  io_open :: "string option"
  io_write :: "string option"

record policy_store =
  pst_policies :: scoped_policies
  pst_path :: string

definition policy_store_version :: int where "policy_store_version = 1"

section \<open>Texts in JSON\<close>

text \<open>JSON has no invalid UTF-8: printing and reading a policy replace such bytes.\<close>

definition json_scope :: "policy_scope \<Rightarrow> policy_scope" where
  "json_scope sc = \<lparr>sc_Project = json_text (sc_Project sc), sc_ProviderID = json_text (sc_ProviderID sc)\<rparr>"

definition json_rule :: "rule \<Rightarrow> rule" where
  "json_rule r = \<lparr>ru_Project = json_text (ru_Project r), ru_ProviderID = json_text (ru_ProviderID r),
     ru_ConnectionID = json_text (ru_ConnectionID r), ru_ServerID = json_text (ru_ServerID r),
     ru_ToolName = json_text (ru_ToolName r), ru_Modes = map json_text (ru_Modes r), ru_Risk = json_text (ru_Risk r),
     ru_Effect = json_text (ru_Effect r), ru_ApprovalRequired = ru_ApprovalRequired r\<rparr>"

definition json_entry :: "policy_scope \<times> policy \<Rightarrow> policy_scope \<times> policy" where
  "json_entry sp = (json_scope (fst sp), \<lparr>po_Rules = map json_rule (po_Rules (snd sp))\<rparr>)"

definition scope_utf8 :: "policy_scope \<Rightarrow> bool" where
  "scope_utf8 sc \<longleftrightarrow> utf8_valid (sc_Project sc) \<and> utf8_valid (sc_ProviderID sc)"

definition rule_utf8 :: "rule \<Rightarrow> bool" where
  "rule_utf8 r \<longleftrightarrow> list_all utf8_valid ([ru_Project r, ru_ProviderID r, ru_ConnectionID r, ru_ServerID r,
     ru_ToolName r, ru_Risk r, ru_Effect r] @ ru_Modes r)"

definition entry_utf8 :: "policy_scope \<times> policy \<Rightarrow> bool" where
  "entry_utf8 sp \<longleftrightarrow> scope_utf8 (fst sp) \<and> list_all rule_utf8 (po_Rules (snd sp))"

lemma json_rule_utf8: "rule_utf8 (json_rule r)"
  by (auto simp: rule_utf8_def json_rule_def json_text_valid list_all_iff)

lemma json_rule_id: "rule_utf8 r \<Longrightarrow> json_rule r = r"
  by (cases r) (auto simp: rule_utf8_def json_rule_def json_text_id list_all_iff intro!: map_idI)

lemma json_entry_utf8: "entry_utf8 (json_entry sp)"
  by (simp add: entry_utf8_def json_entry_def scope_utf8_def json_scope_def json_text_valid list_all_iff json_rule_utf8)

lemma json_entry_id: "entry_utf8 sp \<Longrightarrow> json_entry sp = sp"
  by (cases "fst sp"; cases "snd sp"; cases sp)
    (auto simp: entry_utf8_def json_entry_def scope_utf8_def json_scope_def json_text_id list_all_iff json_rule_id
      intro!: map_idI)

section \<open>Persistence\<close>

definition validate_scope :: "policy_scope \<Rightarrow> policy_error option" where
  "validate_scope sc = map_option ErrInvalidPolicyScope
     (validate_required_fields [(''project'', sc_Project sc), (''provider_id'', sc_ProviderID sc)])"

fun scope_mismatch :: "policy_scope \<Rightarrow> nat \<Rightarrow> rule list \<Rightarrow> nat option" where
  "scope_mismatch sc i [] = None"
| "scope_mismatch sc i (r # rs) =
     (if ru_Project r \<noteq> sc_Project sc \<or> ru_ProviderID r \<noteq> sc_ProviderID sc then Some i
      else scope_mismatch sc (Suc i) rs)"

definition validate_stored_policy :: "policy_scope \<times> policy \<Rightarrow> policy_error option" where
  "validate_stored_policy sp =
     (case validate_scope (fst sp) of Some e \<Rightarrow> Some e
      | None \<Rightarrow>
          (case validate_policy (snd sp) of Some e \<Rightarrow> Some e
           | None \<Rightarrow> map_option ErrPolicyScopeMismatch
                      (scope_mismatch (fst sp) 0 (po_Rules (snd sp)))))"

fun load_entries :: "scoped_policies \<Rightarrow> scoped_policies \<Rightarrow> policy_error + scoped_policies" where
  "load_entries acc [] = Inr acc"
| "load_entries acc (sp # sps) =
     (if validate_stored_policy sp \<noteq> None then Inl ErrInvalidPolicyStore
      else if map_of acc (fst sp) \<noteq> None then Inl ErrInvalidPolicyStore
      else load_entries (AList.update (fst sp) (snd sp) acc) sps)"

definition load_policy_store :: "policy_io \<Rightarrow> policy_disk \<Rightarrow> policy_error + scoped_policies" where
  "load_policy_store io disk =
     (case io_open io of
        Some e \<Rightarrow> Inl (ErrPolicyStorage e)
      | None \<Rightarrow>
          (case disk of
             DiskMissing \<Rightarrow> Inr []
           | DiskUndecodable \<Rightarrow> Inl ErrInvalidPolicyStore
           | DiskSnapshot f \<Rightarrow>
               if pf_Version f \<noteq> policy_store_version then Inl ErrInvalidPolicyStore
               else load_entries [] (map json_entry (pf_Policies f))))"

definition new_persistent_policy_store ::
  "policy_io \<Rightarrow> policy_disk \<Rightarrow> string \<Rightarrow> policy_error + policy_store" where
  "new_persistent_policy_store io disk path =
     (case io_prepare io of
        Some e \<Rightarrow> Inl (ErrPolicyStorage e)
      | None \<Rightarrow>
          (case load_policy_store io disk of
             Inl e \<Rightarrow> Inl e
           | Inr ps \<Rightarrow> Inr \<lparr>pst_policies = ps, pst_path = path\<rparr>))"

definition policy_snapshot :: "scoped_policies \<Rightarrow> policy_file" where
  "policy_snapshot ps = \<lparr>pf_Version = policy_store_version,
     pf_Policies = sort_key (\<lambda>sp. (sc_Project (fst sp), sc_ProviderID (fst sp))) ps\<rparr>"

definition json_snapshot :: "scoped_policies \<Rightarrow> policy_file" where
  "json_snapshot ps = (policy_snapshot ps)\<lparr>pf_Policies := map json_entry (pf_Policies (policy_snapshot ps))\<rparr>"

definition persist_policy_store ::
  "(policy_file \<Rightarrow> bool) \<Rightarrow> policy_io \<Rightarrow> scoped_policies \<Rightarrow> policy_error + policy_disk" where
  "persist_policy_store too_large io ps =
     (let f = json_snapshot ps in
      if too_large f then Inl ErrInvalidPolicyStore
      else case io_write io of Some e \<Rightarrow> Inl (ErrPolicyStorage e) | None \<Rightarrow> Inr (DiskSnapshot f))"

definition persist_policy_store_locked ::
  "(policy_file \<Rightarrow> bool) \<Rightarrow> policy_io \<Rightarrow> policy_disk \<Rightarrow> policy_scope \<Rightarrow> policy \<Rightarrow>
   policy_disk \<times> (policy_error + scoped_policies)" where
  "persist_policy_store_locked too_large io disk sc p =
     (case io_prepare io of
        Some e \<Rightarrow> (disk, Inl (ErrPolicyStorage e))
      | None \<Rightarrow>
          (case load_policy_store io disk of
             Inl e \<Rightarrow> (disk, Inl e)
           | Inr ps \<Rightarrow>
               let ps' = AList.update sc p ps in
               (case persist_policy_store too_large io ps' of
                  Inl e \<Rightarrow> (disk, Inl e)
                | Inr disk' \<Rightarrow> (disk', Inr ps'))))"

section \<open>The store\<close>

definition new_policy_store :: policy_store where
  "new_policy_store = \<lparr>pst_policies = [], pst_path = []\<rparr>"

definition policy_save ::
  "(policy_file \<Rightarrow> bool) \<Rightarrow> policy_io \<Rightarrow> policy_store \<Rightarrow> policy_disk \<Rightarrow> policy_scope \<Rightarrow> policy \<Rightarrow>
   policy_store \<times> policy_disk \<times> policy_error option" where
  "policy_save too_large io s disk sc p =
     (case validate_scope sc of Some e \<Rightarrow> (s, disk, Some e)
      | None \<Rightarrow>
          (case validate_policy p of Some e \<Rightarrow> (s, disk, Some e)
           | None \<Rightarrow>
               (case scope_mismatch sc 0 (po_Rules p) of
                  Some i \<Rightarrow> (s, disk, Some (ErrPolicyScopeMismatch i))
                | None \<Rightarrow>
                    if pst_path s = [] then
                      (s\<lparr>pst_policies := AList.update sc p (pst_policies s)\<rparr>, disk, None)
                    else
                      (case persist_policy_store_locked too_large io disk sc p of
                         (disk', Inl e) \<Rightarrow> (s, disk', Some e)
                       | (disk', Inr ps) \<Rightarrow> (s\<lparr>pst_policies := ps\<rparr>, disk', None)))))"

definition policy_get :: "policy_store \<Rightarrow> policy_scope \<Rightarrow> policy_error + policy" where
  "policy_get s sc =
     (case validate_scope sc of Some e \<Rightarrow> Inl e
      | None \<Rightarrow>
          (case map_of (pst_policies s) sc of None \<Rightarrow> Inl ErrPolicyNotFound | Some p \<Rightarrow> Inr p))"

section \<open>Facts\<close>

text \<open>A policy may stand under a scope when both are valid and every rule is inside the scope.\<close>

definition scoped :: "policy_scope \<times> policy \<Rightarrow> bool" where
  "scoped sp \<longleftrightarrow> validate_scope (fst sp) = None \<and> (\<forall>r \<in> set (po_Rules (snd sp)). validate_rule r = None
     \<and> ru_Project r = sc_Project (fst sp) \<and> ru_ProviderID r = sc_ProviderID (fst sp))"

lemma scope_mismatch_None:
  "scope_mismatch sc i rs = None \<longleftrightarrow>
     (\<forall>r \<in> set rs. ru_Project r = sc_Project sc \<and> ru_ProviderID r = sc_ProviderID sc)"
  by (induction rs arbitrary: i) auto

lemma validate_stored_scoped: "validate_stored_policy sp = None \<longleftrightarrow> scoped sp"
  unfolding validate_stored_policy_def scoped_def
  using scope_mismatch_None [of "fst sp" 0 "po_Rules (snd sp)"] validate_policy_all [of "snd sp"]
  by (cases "validate_scope (fst sp)"; cases "validate_policy (snd sp)";
      cases "scope_mismatch (fst sp) 0 (po_Rules (snd sp))") auto

definition policies_ok :: "scoped_policies \<Rightarrow> bool" where
  "policies_ok ps \<longleftrightarrow> distinct (map fst ps) \<and> list_all scoped ps"

lemma load_entries_Inr:
  "load_entries acc sps = Inr ps \<longleftrightarrow> ps = acc @ sps \<and> list_all scoped sps \<and> distinct (map fst sps)
     \<and> fst ` set acc \<inter> fst ` set sps = {}"
proof (induction sps arbitrary: acc)
  case (Cons sp sps)
  show ?case
  proof (cases "scoped sp \<and> map_of acc (fst sp) = None")
    case True
    then have "fst sp \<notin> fst ` set acc" by (simp add: map_of_eq_None_iff)
    with True Cons.IH [of "acc @ [sp]"] show ?thesis
      by (auto simp: validate_stored_scoped update_absent)
  next
    case False
    then show ?thesis by (auto simp: validate_stored_scoped map_of_eq_None_iff)
  qed
qed auto

lemma load_ok: "load_policy_store io disk = Inr ps \<Longrightarrow> policies_ok ps"
  unfolding load_policy_store_def policies_ok_def
  by (auto simp: load_entries_Inr split: option.splits policy_disk.splits if_splits)

lemma load_utf8: "load_policy_store io disk = Inr ps \<Longrightarrow> list_all entry_utf8 ps"
  unfolding load_policy_store_def
  by (auto simp: load_entries_Inr list_all_iff json_entry_utf8 split: option.splits policy_disk.splits if_splits)

lemma update_utf8: "list_all entry_utf8 ps \<Longrightarrow> entry_utf8 (k, v) \<Longrightarrow> list_all entry_utf8 (AList.update k v ps)"
  by (induction ps) (auto split: if_splits)

lemma update_scoped: "list_all scoped ps \<Longrightarrow> scoped (k, v) \<Longrightarrow> list_all scoped (AList.update k v ps)"
  by (induction ps) (auto split: if_splits)

lemma update_ok: "policies_ok ps \<Longrightarrow> scoped (sc, p) \<Longrightarrow> policies_ok (AList.update sc p ps)"
  by (simp add: policies_ok_def update_scoped distinct_update)

lemma reload_snapshot:
  assumes "policies_ok ps" "list_all entry_utf8 ps" "io_open io = None"
  shows "\<exists>ps'. load_policy_store io (DiskSnapshot (json_snapshot ps)) = Inr ps' \<and> mset ps' = mset ps"
proof -
  let ?q = "sort_key (\<lambda>sp. (sc_Project (fst sp), sc_ProviderID (fst sp))) ps"
  have "mset (map fst ?q) = mset (map fst ps)" by simp
  then have d: "distinct (map fst ?q)" using assms(1) mset_eq_imp_distinct_iff policies_ok_def by blast
  have "list_all scoped ?q" using assms(1) by (simp add: policies_ok_def list_all_iff)
  with d have "load_entries [] ?q = Inr ?q" by (simp add: load_entries_Inr)
  moreover have "map json_entry ?q = ?q" using assms(2) by (intro map_idI json_entry_id) (simp add: list_all_iff)
  ultimately show ?thesis by (simp add: load_policy_store_def assms(3) policy_snapshot_def json_snapshot_def)
qed

section \<open>The store as a policy repository\<close>

text \<open>What the authorizer and the policy endpoints rely on: a repository of policies keyed by
  scope, whose content is only ever valid policies of the scope they are filed under.\<close>

locale policy_repository =
  fixes inv :: "'s \<Rightarrow> bool"
    and get :: "'s \<Rightarrow> policy_scope \<Rightarrow> policy_error + policy"
    and save :: "'s \<Rightarrow> policy_scope \<Rightarrow> policy \<Rightarrow> 's option"
  assumes save_inv: "inv s \<Longrightarrow> save s sc p = Some t \<Longrightarrow> inv t"
    and get_saved: "inv s \<Longrightarrow> save s sc p = Some t \<Longrightarrow> get t sc = Inr p"
    and get_other: "inv s \<Longrightarrow> save s sc p = Some t \<Longrightarrow> sc' \<noteq> sc \<Longrightarrow> get t sc' = get s sc'"
    and get_scoped: "inv s \<Longrightarrow> get s sc = Inr p \<Longrightarrow> scoped (sc, p)"
begin

fun save_all :: "'s \<Rightarrow> (policy_scope \<times> policy) list \<Rightarrow> 's option" where
  "save_all s [] = Some s"
| "save_all s ((sc, p) # sps) = (case save s sc p of None \<Rightarrow> None | Some t \<Rightarrow> save_all t sps)"

lemma save_all_inv: "inv s \<Longrightarrow> save_all s sps = Some t \<Longrightarrow> inv t"
  by (induction s sps rule: save_all.induct) (auto split: option.splits intro: save_inv)

text \<open>The last policy saved under a scope is the one in force, and rules of other scopes never
  show through.\<close>

lemma last_save_wins:
  assumes "inv s" "save_all s sps = Some t"
  shows "get t sc = (case map_of (rev sps) sc of Some p \<Rightarrow> Inr p | None \<Rightarrow> get s sc)"
  using assms
proof (induction s sps rule: save_all.induct)
  case (2 s sc' p sps)
  then obtain u where u: "save s sc' p = Some u" "save_all u sps = Some t"
    by (auto split: option.splits)
  then have "get t sc = (case map_of (rev sps) sc of Some p \<Rightarrow> Inr p | None \<Rightarrow> get u sc)"
    using 2(1,2) save_inv by blast
  then show ?case
    using get_saved [OF 2(2) u(1)] get_other [OF 2(2) u(1)]
    by (cases "sc = sc'") (auto simp: map_add_def split: option.splits)
qed simp

lemma matched_rule_in_scope:
  assumes "inv s" "get s \<lparr>sc_Project = rq_Project q, sc_ProviderID = rq_ProviderID q\<rparr> = Inr p"
    "match_validated p q = Some r"
  shows "validate_policy p = None \<and> validate_rule r = None \<and> matches_validated r q"
  using get_scoped [OF assms(1,2)] match_validated_Some [OF assms(3)]
  by (auto simp: scoped_def validate_policy_all)

end

definition no_faults :: policy_io where
  "no_faults = \<lparr>io_prepare = None, io_open = None, io_write = None\<rparr>"

definition memory_save :: "policy_store \<Rightarrow> policy_scope \<Rightarrow> policy \<Rightarrow> policy_store option" where
  "memory_save s sc p =
     (case policy_save (\<lambda>_. False) no_faults s DiskMissing sc p of
        (t, _, None) \<Rightarrow> Some t
      | (_, _, Some _) \<Rightarrow> None)"

definition memory_inv :: "policy_store \<Rightarrow> bool" where
  "memory_inv s \<longleftrightarrow> policies_ok (pst_policies s) \<and> pst_path s = []"

lemma policy_save_memory:
  "pst_path s = [] \<Longrightarrow> policy_save big io s disk sc p = (t, disk', None) \<longleftrightarrow>
     scoped (sc, p) \<and> t = s\<lparr>pst_policies := AList.update sc p (pst_policies s)\<rparr> \<and> disk' = disk"
  unfolding policy_save_def scoped_def
  using scope_mismatch_None [of sc 0 "po_Rules p"] validate_policy_all [of p]
  by (cases "validate_scope sc"; cases "validate_policy p"; cases "scope_mismatch sc 0 (po_Rules p)") auto

lemma memory_save_Some:
  "pst_path s = [] \<Longrightarrow> memory_save s sc p = Some t \<longleftrightarrow>
     scoped (sc, p) \<and> t = s\<lparr>pst_policies := AList.update sc p (pst_policies s)\<rparr>"
  unfolding memory_save_def
  using policy_save_memory [of s "\<lambda>_. False" no_faults DiskMissing sc p t DiskMissing]
    policy_save_memory [of s "\<lambda>_. False" no_faults DiskMissing sc p]
  by (cases "policy_save (\<lambda>_. False) no_faults s DiskMissing sc p") (auto split: option.splits)

lemma policy_get_cong:
  "map_of (pst_policies a) sc = map_of (pst_policies b) sc \<Longrightarrow> policy_get a sc = policy_get b sc"
  by (simp add: policy_get_def cong: option.case_cong)

text \<open>A save to a file.\<close>

lemma policy_save_persistent:
  assumes "policy_save big io s disk sc p = (t, disk', None)" "pst_path s \<noteq> []"
  shows "\<exists>ps. load_policy_store io disk = Inr ps \<and> scoped (sc, p)
    \<and> t = s\<lparr>pst_policies := AList.update sc p ps\<rparr>
    \<and> disk' = DiskSnapshot (json_snapshot (AList.update sc p ps))"
proof -
  have v: "validate_scope sc = None" "validate_policy p = None" "scope_mismatch sc 0 (po_Rules p) = None"
    using assms(1) by (auto simp: policy_save_def split: option.splits)
  then have "persist_policy_store_locked big io disk sc p = (disk', Inr (pst_policies t))
      \<and> t = s\<lparr>pst_policies := pst_policies t\<rparr>"
    using assms by (auto simp: policy_save_def split: prod.splits sum.splits)
  moreover have "scoped (sc, p)"
    using v by (auto simp: scoped_def scope_mismatch_None validate_policy_all)
  ultimately show ?thesis
    by (auto simp: persist_policy_store_locked_def persist_policy_store_def Let_def
        split: option.splits sum.splits if_splits)
qed

lemma policy_save_failed:
  "policy_save big io s disk sc p = (t, disk', Some e) \<Longrightarrow> t = s \<and> disk' = disk"
  by (auto simp: policy_save_def persist_policy_store_locked_def Let_def
      split: option.splits sum.splits prod.splits if_splits)

interpretation policy_memory: policy_repository memory_inv policy_get memory_save
proof
  fix s sc p
  assume i: "memory_inv s"
  then have path: "pst_path s = []" and ok: "policies_ok (pst_policies s)" by (simp_all add: memory_inv_def)
  show "policy_get s sc = Inr p \<Longrightarrow> scoped (sc, p)"
    using ok by (auto simp: policy_get_def policies_ok_def list_all_iff dest: map_of_SomeD
        split: option.splits)
  fix t
  assume "memory_save s sc p = Some t"
  then have sv: "scoped (sc, p)" "t = s\<lparr>pst_policies := AList.update sc p (pst_policies s)\<rparr>"
    by (simp_all add: memory_save_Some path)
  show "memory_inv t" using update_ok [OF ok sv(1)] path by (simp add: memory_inv_def sv(2))
  show "policy_get t sc = Inr p" using sv by (simp add: policy_get_def scoped_def update_conv')
  show "policy_get t sc' = policy_get s sc'" if "sc' \<noteq> sc" for sc'
    using sv that by (cases "validate_scope sc'") (simp_all add: policy_get_def update_conv')
qed

end
