(* ===== verification/Authorizer.thy ===== *)
theory Authorizer
  imports Routing_Decision Routing_Store Airlock_Facts
begin

text \<open>
  The authorizer of \<open>internal/agentrouting/authorizer.go\<close>: the policy in force for the
  request's scope, then the tool evaluator, whose answer is trusted only as far as it agrees
  with the request. The evaluator is an interface; its contract is the locale
  \<open>tool_evaluator\<close>, interpreted on the Airlock manager. A nil pointer is \<open>None\<close>.
\<close>

type_synonym 'e evaluator = "string \<Rightarrow> string \<Rightarrow> string \<Rightarrow> 'e + tool_entry"

record 'e authorizer =
  az_policy :: policy
  az_policies :: "policy_store option"
  az_evaluator :: "'e evaluator option"

datatype authorizer_error = ErrToolEvaluatorRequired | ErrPolicyStoreRequired | ErrAuthorizerPolicy policy_error

definition new_authorizer :: "policy \<Rightarrow> 'e evaluator option \<Rightarrow> authorizer_error + 'e authorizer" where
  "new_authorizer p ev =
     (if ev = None then Inl ErrToolEvaluatorRequired
      else case validate_policy p of
        Some e \<Rightarrow> Inl (ErrAuthorizerPolicy e)
      | None \<Rightarrow> Inr \<lparr>az_policy = p, az_policies = None, az_evaluator = ev\<rparr>)"

definition new_store_authorizer ::
  "policy_store option \<Rightarrow> 'e evaluator option \<Rightarrow> authorizer_error + 'e authorizer" where
  "new_store_authorizer ps ev =
     (if ps = None then Inl ErrPolicyStoreRequired
      else if ev = None then Inl ErrToolEvaluatorRequired
      else Inr \<lparr>az_policy = \<lparr>po_Rules = []\<rparr>, az_policies = ps, az_evaluator = ev\<rparr>)"

definition policy_in_force :: "'e authorizer \<Rightarrow> request \<Rightarrow> policy_error + policy" where
  "policy_in_force az q =
     (case az_policies az of
        None \<Rightarrow> Inr (az_policy az)
      | Some ps \<Rightarrow> policy_get ps \<lparr>sc_Project = rq_Project q, sc_ProviderID = rq_ProviderID q\<rparr>)"

definition authorize :: "'e authorizer option \<Rightarrow> request \<Rightarrow> decision" where
  "authorize a q =
     (case preflight q of
        Some d \<Rightarrow> d
      | None \<Rightarrow>
     (case a of
        None \<Rightarrow> denied ReasonAirlockUnavailable
      | Some az \<Rightarrow>
     (case az_evaluator az of
        None \<Rightarrow> denied ReasonAirlockUnavailable
      | Some ev \<Rightarrow>
     (case policy_in_force az q of
        Inl _ \<Rightarrow> denied ReasonPolicyUnavailable
      | Inr p \<Rightarrow>
          if validate_policy p \<noteq> None then denied ReasonInvalidPolicy
          else
     (case match_validated p q of
        None \<Rightarrow> denied ReasonNoMatchingRule
      | Some r \<Rightarrow>
          if ru_Effect r = EffectDeny then denied ReasonPolicyDenied
          else
     (case ev (rq_ServerID q) (rq_Project q) (rq_ToolName q) of
        Inl _ \<Rightarrow> denied ReasonAirlockUnavailable
      | Inr e \<Rightarrow>
          if te_ServerID e \<noteq> rq_ServerID q then denied ReasonAirlockServerMismatch
          else if te_Name e \<noteq> rq_ToolName q then denied ReasonAirlockToolMismatch
          else if te_Risk e \<noteq> td_Risk (te_Decision e) then denied ReasonInvalidAirlockDecision
          else evaluate_matched r q (te_Decision e)))))))"

section \<open>Facts\<close>

lemma preflight_valid: "preflight q = Some d \<Longrightarrow> validate_decision d = None"
  by (cases q rule: preflight_cases) auto

lemma authorize_valid: "validate_decision (authorize a q) = None"
  unfolding authorize_def
  by (simp add: preflight_valid evaluate_matched_valid split: option.splits sum.splits)

text \<open>An outcome that is not a denial went through every check.\<close>

lemma authorize_granted:
  assumes "de_Status (authorize a q) \<noteq> DecisionDenied"
  obtains az ev p r e where "a = Some az" "az_evaluator az = Some ev" "policy_in_force az q = Inr p"
    "preflight q = None" "validate_policy p = None" "match_validated p q = Some r" "ru_Effect r \<noteq> EffectDeny"
    "ev (rq_ServerID q) (rq_Project q) (rq_ToolName q) = Inr e" "te_ServerID e = rq_ServerID q"
    "te_Name e = rq_ToolName q" "te_Risk e = td_Risk (te_Decision e)"
    "authorize a q = evaluate_matched r q (te_Decision e)"
proof -
  from assms have pre: "preflight q = None"
    by (cases q rule: preflight_cases) (simp_all add: authorize_def)
  obtain az where az: "a = Some az" using assms pre by (cases a) (simp_all add: authorize_def)
  obtain ev where ev: "az_evaluator az = Some ev"
    using assms pre az by (cases "az_evaluator az") (simp_all add: authorize_def)
  obtain p where p: "policy_in_force az q = Inr p"
    using assms pre az ev by (cases "policy_in_force az q") (simp_all add: authorize_def)
  have vp: "validate_policy p = None"
    using assms pre az ev p by (cases "validate_policy p") (simp_all add: authorize_def)
  obtain r where r: "match_validated p q = Some r"
    using assms pre az ev p vp by (cases "match_validated p q") (simp_all add: authorize_def)
  have ef: "ru_Effect r \<noteq> EffectDeny" using assms pre az ev p vp r by (auto simp: authorize_def)
  obtain e where e: "ev (rq_ServerID q) (rq_Project q) (rq_ToolName q) = Inr e"
    using assms pre az ev p vp r ef
    by (cases "ev (rq_ServerID q) (rq_Project q) (rq_ToolName q)") (simp_all add: authorize_def)
  show ?thesis
    using that [OF az ev p pre vp r ef e] assms pre az ev p vp r ef e
    by (auto simp: authorize_def split: if_splits)
qed

lemma granted_rule:
  assumes "validate_policy p = None" "match_validated p q = Some r" "ru_Effect r \<noteq> EffectDeny"
  shows "r \<in> set (po_Rules p) \<and> ru_Effect r = EffectAllow \<and> matches_validated r q
    \<and> rq_Risk q \<noteq> RiskUnknown \<and> (rq_Risk q = RiskReadOnly \<or> ru_ApprovalRequired r)"
  using assms match_validated_Some [OF assms(2)] valid_rule_safe [of r]
  by (auto simp: validate_policy_all safe_rule_def matches_validated_iff)

section \<open>The evaluator's contract\<close>

text \<open>What the authorizer may rely on of an evaluator: the entry is about the tool asked for,
  its risk is the risk decided on, and the decision has one of the three shapes.\<close>

locale tool_evaluator =
  fixes eval :: "'e evaluator"
  assumes entry: "eval server project tool = Inr e \<Longrightarrow>
    te_ServerID e = server \<and> te_Name e = trim_space tool \<and> te_Risk e = td_Risk (te_Decision e)
    \<and> decision_shape (te_Decision e)"
begin

lemma no_contradictions:
  assumes "az_evaluator az = Some eval"
  shows "de_Reason (authorize (Some az) q) \<notin>
    {ReasonAirlockServerMismatch, ReasonAirlockToolMismatch, ReasonInvalidAirlockDecision}"
proof (cases q rule: preflight_cases)
  case pass
  have tool: "trim_space (rq_ToolName q) = rq_ToolName q"
    using pass(1) by (simp add: valid_request_iff clean_field_def)
  have em: "de_Reason (evaluate_matched r q (te_Decision e)) \<noteq> ReasonInvalidAirlockDecision
      \<and> de_Reason (evaluate_matched r q (te_Decision e)) \<noteq> ReasonAirlockServerMismatch
      \<and> de_Reason (evaluate_matched r q (te_Decision e)) \<noteq> ReasonAirlockToolMismatch"
    if "eval (rq_ServerID q) (rq_Project q) (rq_ToolName q) = Inr e" for r e
    using entry [OF that]
    by (auto simp: evaluate_matched_def decision_shape_def approval_required_def allowed_def)
  show ?thesis
    using em entry pass(3) assms tool unfolding authorize_def
    by (auto split: option.splits sum.splits)
qed (simp_all add: authorize_def)

lemma allowed_reads_only:
  assumes "az_evaluator az = Some eval" "de_Status (authorize (Some az) q) = DecisionAllowed"
  shows "rq_Risk q = RiskReadOnly"
proof -
  have "de_Status (authorize (Some az) q) \<noteq> DecisionDenied" using assms(2) by simp
  then obtain ev p r e where *: "az_evaluator az = Some ev"
    "ev (rq_ServerID q) (rq_Project q) (rq_ToolName q) = Inr e"
    "authorize (Some az) q = evaluate_matched r q (te_Decision e)"
    by (rule authorize_granted) auto
  then have "ev = eval" using assms(1) by simp
  then have "decision_shape (te_Decision e)" using entry *(2) by blast
  moreover have "td_Risk (te_Decision e) = rq_Risk q \<and> td_Status (te_Decision e) = ''allowed''"
    using evaluate_matched_allowed [of r q "te_Decision e"] *(3) assms(2) by simp
  ultimately show ?thesis by (auto simp: decision_shape_def)
qed

end

interpretation airlock: tool_evaluator "evaluate_tool m fault" for m fault
  using evaluate_tool_entry by unfold_locales blast

end
