(* ===== verification/Tool_Call.thy ===== *)
theory Tool_Call
  imports Airlock_Redact
begin

text \<open>
  The transport values of \<open>internal/mcpairlock/tool_call.go\<close>: an MCP tool call request and
  the sanitized result of a call. \<open>ToolCallArguments\<close> is the encoded object it holds, empty
  for the zero value.
\<close>

definition max_tool_call_output_bytes :: nat where "max_tool_call_output_bytes = 262144"
definition tool_call_redaction_lookahead_bytes :: nat where "tool_call_redaction_lookahead_bytes = 512"
definition max_tool_call_identifier_bytes :: nat where "max_tool_call_identifier_bytes = 128"

type_synonym tool_args = string

record tool_call_request =
  tc_ServerID :: string
  tc_ToolName :: string
  tc_Arguments :: tool_args

datatype tool_call_error =
    IdentifierRequired string
  | IdentifierUntrimmed string
  | IdentifierTooLong string
  | IdentifierCharacter string
  | ArgumentsRequired

section \<open>Requests\<close>

definition identifier_char :: "bool \<Rightarrow> char \<Rightarrow> bool" where
  "identifier_char allow_slash c \<longleftrightarrow>
     ascii_letter c \<or> byte_in c 48 57 \<or> c \<in> {CHR ''.'', CHR ''_'', CHR ''-''}
     \<or> (allow_slash \<and> c = CHR ''/'')"

definition validate_tool_call_identifier :: "string \<Rightarrow> string \<Rightarrow> bool \<Rightarrow> tool_call_error option" where
  "validate_tool_call_identifier name v allow_slash =
     (if trim_space v = [] then Some (IdentifierRequired name)
      else if trim_space v \<noteq> v then Some (IdentifierUntrimmed name)
      else if max_tool_call_identifier_bytes < length v then Some (IdentifierTooLong name)
      else if \<not> list_all (identifier_char allow_slash) v then Some (IdentifierCharacter name)
      else None)"

definition validate_tool_call_request :: "tool_call_request \<Rightarrow> tool_call_error option" where
  "validate_tool_call_request r =
     (case validate_tool_call_identifier ''server_id'' (tc_ServerID r) False of
        Some e \<Rightarrow> Some e
      | None \<Rightarrow>
          (case validate_tool_call_identifier ''tool_name'' (tc_ToolName r) True of
             Some e \<Rightarrow> Some e
           | None \<Rightarrow> if tc_Arguments r = [] then Some ArgumentsRequired else None))"

definition new_tool_call_request ::
  "string \<Rightarrow> string \<Rightarrow> tool_args \<Rightarrow> tool_call_error + tool_call_request" where
  "new_tool_call_request server tool args =
     (let r = \<lparr>tc_ServerID = server, tc_ToolName = tool, tc_Arguments = args\<rparr> in
      case validate_tool_call_request r of Some e \<Rightarrow> Inl e | None \<Rightarrow> Inr r)"

lemma new_tool_call_request_Inr:
  "new_tool_call_request server tool args = Inr r \<Longrightarrow>
     r = \<lparr>tc_ServerID = server, tc_ToolName = tool, tc_Arguments = args\<rparr> \<and> args \<noteq> []"
  by (auto simp: new_tool_call_request_def Let_def validate_tool_call_request_def
      split: option.splits if_splits)

section \<open>Results\<close>

record tool_call_result =
  tk_Output :: string
  tk_IsError :: bool
  tk_UntrustedOutput :: bool
  tk_Redacted :: bool
  tk_Truncated :: bool

datatype tool_result_error = ResultTrusted | ResultNotUtf8 | ResultTooLong | ResultCredential

text \<open>\<open>strings.ToValidUTF8\<close> with U+FFFD: each run of bytes that start no rune becomes one
  replacement; \<open>bad\<close> says that the previous byte was such a byte.\<close>

function to_valid_utf8 :: "bool \<Rightarrow> string \<Rightarrow> string" where
  "to_valid_utf8 bad s =
     (case s of
        [] \<Rightarrow> []
      | c # t \<Rightarrow>
          if valid_head s then take (rune_width s) s @ to_valid_utf8 False (drop (rune_width s) s)
          else (if bad then [] else [CHR 0xEF, CHR 0xBF, CHR 0xBD]) @ to_valid_utf8 True t)"
  by auto
termination by (relation "measure (length \<circ> snd)") (auto simp: rune_width_pos)

declare to_valid_utf8.simps [simp del]

fun truncate_end :: "string \<Rightarrow> nat \<Rightarrow> nat" where
  "truncate_end v 0 = 0"
| "truncate_end v (Suc n) = (if utf8_valid (take (Suc n) v) then Suc n else truncate_end v n)"

definition truncate_utf8 :: "string \<Rightarrow> nat \<Rightarrow> string \<times> bool" where
  "truncate_utf8 v limit =
     (if length v \<le> limit then (v, False) else (take (truncate_end v limit) v, True))"

definition redact_step :: "string \<times> bool \<Rightarrow> rx \<Rightarrow> string \<times> bool" where
  "redact_step acc r =
     (let replacement = redact_pattern r (fst acc)
      in (replacement, snd acc \<or> replacement \<noteq> fst acc))"

definition new_tool_call_result :: "string \<Rightarrow> bool \<Rightarrow> tool_call_result" where
  "new_tool_call_result output is_error =
     (let truncated = max_tool_call_output_bytes < length output;
          limit = max_tool_call_output_bytes + tool_call_redaction_lookahead_bytes;
          bounded = (if limit < length output then take limit output else output);
          (sanitized, redacted) =
            foldl redact_step (to_valid_utf8 False bounded, False) airlock_secret_patterns;
          (cut, encoding_truncated) = truncate_utf8 sanitized max_tool_call_output_bytes
      in \<lparr>tk_Output = trim_space cut, tk_IsError = is_error, tk_UntrustedOutput = True,
          tk_Redacted = redacted, tk_Truncated = truncated \<or> encoding_truncated\<rparr>)"

definition validate_tool_call_result :: "tool_call_result \<Rightarrow> tool_result_error option" where
  "validate_tool_call_result r =
     (if \<not> tk_UntrustedOutput r then Some ResultTrusted
      else if \<not> utf8_valid (tk_Output r) then Some ResultNotUtf8
      else if max_tool_call_output_bytes < length (tk_Output r) then Some ResultTooLong
      else if list_ex (\<lambda>p. rx_search p (tk_Output r)) airlock_secret_patterns then Some ResultCredential
      else None)"

end
