(* ===== verification/Approval_Binding.thy ===== *)
theory Approval_Binding
  imports Routing_Policy Tool_Call Crypto
begin

text \<open>
  The keyed fingerprint of one exact tool operation
  (\<open>internal/agentrouting/approval_binding.go\<close>): HMAC-SHA-256 over a version prefix and the
  framed fields of the operation. Shown: a fresh binding is well formed and fits an
  approval gate, it matches its own operation, and a binding that matches two different
  operations exhibits two different messages with the same HMAC.
\<close>

definition tool_approval_binding_prefix :: string where
  "tool_approval_binding_prefix = ''mcp-tool-approval-v1:''"

definition min_tool_approval_binding_key_bytes :: nat where
  "min_tool_approval_binding_key_bytes = 32"

datatype binding_error =
    BindingKeyTooShort
  | BindingRunID problem
  | BindingRequest policy_error
  | BindingToolCall tool_call_error
  | BindingMalformed
  | BindingNotLowercase
  | BindingDigest

text \<open>\<open>writeApprovalBindingField\<close>: the length as eight big-endian bytes, then the field
  (\<open>Crypto.framed\<close>).\<close>

definition binding_message :: "string \<Rightarrow> request \<Rightarrow> tool_call_request \<Rightarrow> string" where
  "binding_message rid q tool =
     tool_approval_binding_prefix @ concat (map framed
       [rid, rq_Project q, rq_ProviderID q, rq_ConnectionID q, tc_ServerID tool, tc_ToolName tool,
        rq_Mode q, rq_Risk q, tc_Arguments tool])"

definition new_tool_approval_binding ::
  "string \<Rightarrow> string \<Rightarrow> request \<Rightarrow> tool_args \<Rightarrow> binding_error + string" where
  "new_tool_approval_binding key rid q args =
     (if length key < min_tool_approval_binding_key_bytes then Inl BindingKeyTooShort
      else case validate_required_fields [(''run_id'', rid)] of
        Some p \<Rightarrow> Inl (BindingRunID p)
      | None \<Rightarrow>
          (case validate_request q of
             Some e \<Rightarrow> Inl (BindingRequest e)
           | None \<Rightarrow>
               (case new_tool_call_request (rq_ServerID q) (rq_ToolName q) args of
                  Inl e \<Rightarrow> Inl (BindingToolCall e)
                | Inr tool \<Rightarrow> Inr (tool_approval_binding_prefix @
                    hex_encode (hmac_sha256 key (binding_message rid q tool))))))"

definition validate_binding :: "string \<Rightarrow> binding_error option" where
  "validate_binding b =
     (if length b \<noteq> length tool_approval_binding_prefix + 32 * 2
        \<or> \<not> has_prefix b tool_approval_binding_prefix then Some BindingMalformed
      else
        let digest = drop (length tool_approval_binding_prefix) b in
        if digest \<noteq> to_lower digest then Some BindingNotLowercase
        else if \<not> hex_decodes digest then Some BindingDigest
        else None)"

definition binding_matches :: "string \<Rightarrow> string \<Rightarrow> string \<Rightarrow> request \<Rightarrow> tool_args \<Rightarrow> bool" where
  "binding_matches b key rid q args =
     (if validate_binding b \<noteq> None then False
      else case new_tool_approval_binding key rid q args of
        Inl _ \<Rightarrow> False
      | Inr expected \<Rightarrow> b = expected)"

section \<open>Facts\<close>

lemma binding_created:
  assumes "new_tool_approval_binding key rid q args = Inr b"
  shows "min_tool_approval_binding_key_bytes \<le> length key \<and> clean_field rid
    \<and> validate_request q = None \<and> args \<noteq> []
    \<and> b = tool_approval_binding_prefix @ hex_encode (hmac_sha256 key (binding_message rid q
         \<lparr>tc_ServerID = rq_ServerID q, tc_ToolName = rq_ToolName q, tc_Arguments = args\<rparr>))"
  using assms required_fields_ok [of "[(''run_id'', rid)]"]
  by (auto simp: new_tool_approval_binding_def dest!: new_tool_call_request_Inr
      split: if_splits option.splits sum.splits)

lemma binding_valid:
  assumes "new_tool_approval_binding key rid q args = Inr b"
  shows "validate_binding b = None"
proof -
  obtain m where b: "b = tool_approval_binding_prefix @ hex_encode (hmac_sha256 key m)"
    using binding_created [OF assms] by blast
  let ?d = "hex_encode (hmac_sha256 key m)"
  have "list_all lower_hex ?d" by (rule hex_encode_lower)
  then have "to_lower ?d = ?d" "hex_decodes ?d"
    by (auto simp: lower_hex_id hex_decodes_def list_all_iff dest: lower_hex_is)
  then show ?thesis by (simp add: validate_binding_def b has_prefix_def Let_def)
qed

lemma binding_storable:
  assumes "new_tool_approval_binding key rid q args = Inr b"
  shows "valid_approval_binding b"
proof -
  obtain m where b: "b = tool_approval_binding_prefix @ hex_encode (hmac_sha256 key m)"
    using binding_created [OF assms] by blast
  have "list_all graphic (hex_encode (hmac_sha256 key m))"
    using hex_encode_lower [of "hmac_sha256 key m"] by (auto simp: list_all_iff dest: lower_hex_is)
  then show ?thesis
    by (simp add: valid_approval_binding_def b tool_approval_binding_prefix_def
        max_approval_binding_len_def graphic_def)
qed

lemma binding_matches_iff:
  "binding_matches b key rid q args \<longleftrightarrow> new_tool_approval_binding key rid q args = Inr b"
  by (auto simp: binding_matches_def binding_valid split: sum.splits)

text \<open>The fields of the operation, all of them shorter than 2 to the 64.\<close>

definition operation_fields :: "string \<Rightarrow> request \<Rightarrow> tool_args \<Rightarrow> string list" where
  "operation_fields rid q args = [rid, rq_Project q, rq_ProviderID q, rq_ConnectionID q,
     rq_ServerID q, rq_ToolName q, rq_Mode q, rq_Risk q, args]"

definition operation_message :: "string \<Rightarrow> request \<Rightarrow> tool_args \<Rightarrow> string" where
  "operation_message rid q args = binding_message rid q
     \<lparr>tc_ServerID = rq_ServerID q, tc_ToolName = rq_ToolName q, tc_Arguments = args\<rparr>"

lemma operation_message_fields:
  "operation_message rid q args =
     tool_approval_binding_prefix @ concat (map framed (operation_fields rid q args))"
  by (simp add: operation_message_def binding_message_def operation_fields_def)

lemma operation_message_inj:
  assumes "\<forall>x \<in> set (operation_fields rid q args) \<union> set (operation_fields rid' q' args'). length x < 2 ^ 64"
    "operation_message rid q args = operation_message rid' q' args'"
  shows "rid = rid' \<and> q = q' \<and> args = args'"
proof -
  have "operation_fields rid q args = operation_fields rid' q' args'"
    by (rule concat_framed_inj)
      (use assms in \<open>simp_all add: operation_message_fields operation_fields_def\<close>)
  then show ?thesis by (simp add: operation_fields_def request.equality)
qed

lemma binding_collision:
  assumes "binding_matches b key rid q args" "binding_matches b key rid' q' args'"
    "(rid, q, args) \<noteq> (rid', q', args')"
    "\<forall>x \<in> set (operation_fields rid q args) \<union> set (operation_fields rid' q' args'). length x < 2 ^ 64"
  shows "operation_message rid q args \<noteq> operation_message rid' q' args'
    \<and> hmac_sha256 key (operation_message rid q args) = hmac_sha256 key (operation_message rid' q' args')"
proof
  show "operation_message rid q args \<noteq> operation_message rid' q' args'"
    using operation_message_inj [OF assms(4)] assms(3) by blast
  have "hex_encode (hmac_sha256 key (operation_message rid q args)) =
      hex_encode (hmac_sha256 key (operation_message rid' q' args'))"
    using assms(1,2) binding_created unfolding binding_matches_iff operation_message_def
    by (metis same_append_eq)
  then show "hmac_sha256 key (operation_message rid q args) = hmac_sha256 key (operation_message rid' q' args')"
    by (rule hex_encode_inj)
qed

end
