(* ===== verification/Go_Quote.thy ===== *)
theory Go_Quote
  imports Utf8 Go_Json
begin

text \<open>
  \<open>strconv.Quote\<close>, the verb \<open>%q\<close> of \<open>fmt\<close> on a string. Whether a rune outside ASCII is
  printable is a table of the package \<open>strconv\<close>; it is the parameter \<open>printable\<close>.
\<close>

definition hex_pad :: "nat \<Rightarrow> nat \<Rightarrow> string" where
  "hex_pad k n = map (\<lambda>i. lower_hex_digit (n div 16 ^ (k - 1 - i) mod 16)) [0..<k]"

fun rune_value :: "string \<Rightarrow> nat" where
  "rune_value [a] = of_char a"
| "rune_value [a, b] = (of_char a mod 32) * 64 + of_char b mod 64"
| "rune_value [a, b, c] = ((of_char a mod 16) * 64 + of_char b mod 64) * 64 + of_char c mod 64"
| "rune_value [a, b, c, d] =
     (((of_char a mod 8) * 64 + of_char b mod 64) * 64 + of_char c mod 64) * 64 + of_char d mod 64"
| "rune_value _ = 0"

definition quote_ascii :: "char \<Rightarrow> string" where
  "quote_ascii c =
     (if c = CHR 0x22 \<or> c = CHR 0x5C then [CHR 0x5C, c]
      else if byte_in c 32 126 then [c]
      else if c = CHR 0x07 then [CHR 0x5C, CHR ''a'']
      else if c = CHR 0x08 then [CHR 0x5C, CHR ''b'']
      else if c = CHR 0x0C then [CHR 0x5C, CHR ''f'']
      else if c = CHR 0x0A then [CHR 0x5C, CHR ''n'']
      else if c = CHR 0x0D then [CHR 0x5C, CHR ''r'']
      else if c = CHR 0x09 then [CHR 0x5C, CHR ''t'']
      else if c = CHR 0x0B then [CHR 0x5C, CHR ''v'']
      else [CHR 0x5C, CHR ''x''] @ hex_pad 2 (of_char c))"

function quote_body :: "(nat \<Rightarrow> bool) \<Rightarrow> string \<Rightarrow> string" where
  "quote_body printable s =
     (case s of
        [] \<Rightarrow> []
      | c # t \<Rightarrow>
          if is_ascii c then quote_ascii c @ quote_body printable t
          else if rune_width s \<le> 1 then [CHR 0x5C, CHR ''x''] @ hex_pad 2 (of_char c) @ quote_body printable t
          else
            let w = rune_width s; v = rune_value (take w s) in
            (if printable v then take w s
             else if v < 65536 then [CHR 0x5C, CHR ''u''] @ hex_pad 4 v
             else [CHR 0x5C, CHR ''U''] @ hex_pad 8 v) @ quote_body printable (drop w s))"
  by auto
termination by (relation "measure (length \<circ> snd)") (auto simp: rune_width_pos)

declare quote_body.simps [simp del]

definition go_quote :: "(nat \<Rightarrow> bool) \<Rightarrow> string \<Rightarrow> string" where
  "go_quote printable s = [CHR 0x22] @ quote_body printable s @ [CHR 0x22]"

end
