(* ===== verification/Recorder.thy ===== *)
theory Recorder
  imports Routing_Decision Approval_Binding AgentRuns_Facts Go_Quote
begin

text \<open>
  The run recorder of \<open>internal/agentrouting/run_recorder.go\<close>: it turns an authorization
  outcome into exactly one mutation of the agent run.

  The store is shared: between two accesses of the recorder other clients may do anything, so
  each definition takes an interference \<open>env\<close>, where \<open>env n\<close> is what happens to the store just
  before access number \<open>n\<close> of the call. \<open>now\<close> is the clock at the one mutation. A nil recorder
  or store, refused first by the source, has no counterpart: a value of type \<open>store\<close> exists.
\<close>

type_synonym interference = "nat \<Rightarrow> store \<Rightarrow> store"

datatype recorder_error =
    ErrRunIDRequired
  | ErrInvalidRunID
  | RecordRequest policy_error
  | RecordDecision decision_problem
  | ApprovalDecisionRequired
  | RecordBinding binding_error
  | RecordStoredBinding run_error
  | InvalidRequestReason
  | ModeCannotAuthorize
  | MismatchReasonRequired
  | MismatchReasonUnsafe
  | NonReadOnlyAllowed
  | ErrRunScopeMismatch
  | NoApprovalMapping
  | GatesPending
  | StoreError run_error

section \<open>Messages and kinds\<close>

definition validate_run_id :: "string \<Rightarrow> recorder_error option" where
  "validate_run_id rid =
     (let trimmed = trim_space rid in
      if trimmed = [] then Some ErrRunIDRequired
      else if trimmed \<noteq> rid then Some ErrInvalidRunID
      else None)"

definition approval_kind :: "string \<Rightarrow> string option" where
  "approval_kind risk =
     (if risk = RiskReadOnly \<or> risk = RiskGenerateCode then Some ApprovalMCPNetwork
      else if risk = RiskModifyWorkspace then Some ApprovalFileWrite
      else if risk = RiskCloudMutation then Some ApprovalCloudWrite
      else if risk = RiskSecretSensitive then Some ApprovalSecretRead
      else if risk = RiskDestructive then Some ApprovalIaCAction
      else None)"

definition route_audit_message :: "(nat \<Rightarrow> bool) \<Rightarrow> string \<Rightarrow> request \<Rightarrow> string" where
  "route_audit_message printable action q =
     action @ '' MCP tool '' @ go_quote printable (rq_ToolName q) @ '' on server '' @
     go_quote printable (rq_ServerID q) @ '' for connection '' @
     go_quote printable (rq_ConnectionID q) @ '' ('' @ rq_Risk q @ '' risk, '' @ rq_Mode q @ '' mode).''"

definition denial_message :: "(nat \<Rightarrow> bool) \<Rightarrow> request \<Rightarrow> decision \<Rightarrow> string" where
  "denial_message printable q d =
     ''MCP tool '' @ go_quote printable (rq_ToolName q) @ '' on server '' @
     go_quote printable (rq_ServerID q) @ '' for connection '' @
     go_quote printable (rq_ConnectionID q) @ '' authorization denied ('' @ rq_Risk q @ '' risk, '' @
     rq_Mode q @ '' mode): '' @ de_Reason d @ ''.''"

definition in_scope :: "run \<Rightarrow> request \<Rightarrow> bool" where
  "in_scope r q \<longleftrightarrow> run_Project r = rq_Project q \<and> run_ProviderID r = rq_ProviderID q
     \<and> run_Mode r = rq_Mode q"

definition from_store :: "store \<times> (run_error + run) \<Rightarrow> store \<times> (recorder_error + run)" where
  "from_store sr = (case sr of (s, Inl e) \<Rightarrow> (s, Inl (StoreError e)) | (s, Inr r) \<Rightarrow> (s, Inr r))"

definition guarded_store :: "store \<times> (run_error + run) \<Rightarrow> store \<times> (recorder_error + run)" where
  "guarded_store sr =
     (case sr of
        (s, Inl e) \<Rightarrow> (s, Inl (if e = ErrApprovalPending then GatesPending else StoreError e))
      | (s, Inr r) \<Rightarrow> (s, Inr r))"

section \<open>Recording\<close>

text \<open>The checks \<open>record\<close> makes before it looks at the run.\<close>

definition record_checks :: "string \<Rightarrow> request \<Rightarrow> decision \<Rightarrow> recorder_error option" where
  "record_checks rid q d =
     (case validate_run_id rid of Some e \<Rightarrow> Some e | None \<Rightarrow>
     (case validate_request q of Some e \<Rightarrow> Some (RecordRequest e) | None \<Rightarrow>
     (case validate_decision d of Some e \<Rightarrow> Some (RecordDecision e) | None \<Rightarrow>
        if de_Status d = DecisionDenied \<and> de_Reason d = ReasonInvalidRequest then Some InvalidRequestReason
        else if \<not> mode_allows_risk (rq_Mode q) (rq_Risk q) \<and> de_Status d \<noteq> DecisionDenied
          then Some ModeCannotAuthorize
        else if \<not> mode_allows_risk (rq_Mode q) (rq_Risk q) \<and> de_Reason d \<noteq> ReasonModeRiskMismatch
          then Some MismatchReasonRequired
        else if mode_allows_risk (rq_Mode q) (rq_Risk q) \<and> de_Status d = DecisionDenied
          \<and> de_Reason d = ReasonModeRiskMismatch then Some MismatchReasonUnsafe
        else if de_Status d = DecisionAllowed \<and> rq_Risk q \<noteq> RiskReadOnly then Some NonReadOnlyAllowed
        else None)))"

definition record_mutation ::
  "(nat \<Rightarrow> bool) \<Rightarrow> store \<Rightarrow> go_time \<Rightarrow> string \<Rightarrow> request \<Rightarrow> decision \<Rightarrow> string \<Rightarrow>
   store \<times> (recorder_error + run)" where
  "record_mutation printable s now rid q d binding =
     (if de_Status d = DecisionDenied then from_store (fail s rid (denial_message printable q d) now)
      else if de_Status d = DecisionApprovalRequired then
        (case approval_kind (rq_Risk q) of
           None \<Rightarrow> (s, Inl NoApprovalMapping)
         | Some kind \<Rightarrow> from_store (add_approval s rid
             \<lparr>ag_ID = [], ag_Kind = kind, ag_Status = [],
              ag_Summary = route_audit_message printable ''Authorize'' q, ag_CreatedAt = 0,
              ag_DecidedAt = None, ag_DecidedBy = [], ag_OperationBinding = binding\<rparr> now))
      else guarded_store (add_log_if_no_pending s rid LogAudit (route_audit_message printable ''Allowed'' q) now))"

definition record_route ::
  "(nat \<Rightarrow> bool) \<Rightarrow> interference \<Rightarrow> store \<Rightarrow> go_time \<Rightarrow> string \<Rightarrow> request \<Rightarrow> decision \<Rightarrow> string \<Rightarrow>
   store \<times> (recorder_error + run)" where
  "record_route printable env s now rid q d binding =
     (case record_checks rid q d of
        Some e \<Rightarrow> (s, Inl e)
      | None \<Rightarrow>
          let s1 = env 0 s in
          (case get_run s1 rid of
             None \<Rightarrow> (s1, Inl (StoreError ErrNotFound))
           | Some r \<Rightarrow>
               if \<not> in_scope r q then (s1, Inl ErrRunScopeMismatch)
               else record_mutation printable (env 1 s1) now rid q d binding))"

definition record_bound_approval ::
  "(nat \<Rightarrow> bool) \<Rightarrow> interference \<Rightarrow> store \<Rightarrow> go_time \<Rightarrow> string \<Rightarrow> string \<Rightarrow> request \<Rightarrow> tool_args \<Rightarrow> decision \<Rightarrow>
   store \<times> (recorder_error + run)" where
  "record_bound_approval printable env s now key rid q args d =
     (case validate_run_id rid of Some e \<Rightarrow> (s, Inl e) | None \<Rightarrow>
     (case validate_request q of Some e \<Rightarrow> (s, Inl (RecordRequest e)) | None \<Rightarrow>
     (case validate_decision d of Some e \<Rightarrow> (s, Inl (RecordDecision e)) | None \<Rightarrow>
        if de_Status d \<noteq> DecisionApprovalRequired then (s, Inl ApprovalDecisionRequired)
        else
     (case new_tool_approval_binding key rid q args of Inl e \<Rightarrow> (s, Inl (RecordBinding e)) | Inr b \<Rightarrow>
     (case new_approval_binding b of Inl e \<Rightarrow> (s, Inl (RecordStoredBinding e)) | Inr stored \<Rightarrow>
        record_route printable env s now rid q d stored)))))"

fun matching_gate :: "string \<Rightarrow> string \<Rightarrow> request \<Rightarrow> tool_args \<Rightarrow> approval_gate list \<Rightarrow> approval_gate option" where
  "matching_gate key rid q args [] = None"
| "matching_gate key rid q args (a # as) =
     (if ag_Status a \<noteq> ApprovalApproved then matching_gate key rid q args as
      else if \<not> binding_matches (ag_OperationBinding a) key rid q args then matching_gate key rid q args as
      else Some a)"

text \<open>\<open>RecordApprovedToolCall\<close>: \<open>Inr None\<close> when no gate matches; the boolean of the source is
  whether there is a run.\<close>

definition record_approved_tool_call ::
  "(nat \<Rightarrow> bool) \<Rightarrow> interference \<Rightarrow> store \<Rightarrow> go_time \<Rightarrow> string \<Rightarrow> string \<Rightarrow> request \<Rightarrow> tool_args \<Rightarrow>
   store \<times> (recorder_error + run option)" where
  "record_approved_tool_call printable env s now key rid q args =
     (case validate_run_id rid of Some e \<Rightarrow> (s, Inl e) | None \<Rightarrow>
     (case validate_request q of Some e \<Rightarrow> (s, Inl (RecordRequest e)) | None \<Rightarrow>
     (case new_tool_approval_binding key rid q args of Inl e \<Rightarrow> (s, Inl (RecordBinding e)) | Inr b \<Rightarrow>
        let s1 = env 0 s in
     (case get_run s1 rid of None \<Rightarrow> (s1, Inl (StoreError ErrNotFound)) | Some r \<Rightarrow>
        if \<not> in_scope r q then (s1, Inl ErrRunScopeMismatch)
        else
     (case matching_gate key rid q args (run_Approvals r) of
        None \<Rightarrow> (s1, Inr None)
      | Some a \<Rightarrow>
          (case guarded_store (consume_approval_binding (env 1 s1) rid (ag_ID a)
                  (route_audit_message printable ''Allowed'' q) now) of
             (t, Inl e) \<Rightarrow> (t, Inl e)
           | (t, Inr r') \<Rightarrow> (t, Inr (Some r'))))))))"

end
