(* ===== verification/Router.thy ===== *)
theory Router
  imports Authorizer Recorder
begin

text \<open>
  The router of \<open>internal/agentrouting/router.go\<close>: authorize, then record, then answer. The
  router holds an authorizer and a recorder; the recorder's store is the state the operations
  pass on. A call has at most four accesses of the store: \<open>env 0\<close> and \<open>env 1\<close> are before
  those of the approved call, \<open>env 2\<close> and \<open>env 3\<close> before those of the record that follows.
\<close>

record route_result =
  rr_Decision :: decision
  rr_Run :: run

datatype route_error =
    ErrAuthorizerRequired
  | ErrRunRecorderRequired
  | RouteRequest policy_error
  | RouteRunID recorder_error
  | RouteBinding binding_error
  | RouteRecord recorder_error
  | RouteDecision decision_problem

definition preview :: "'e authorizer option \<Rightarrow> request \<Rightarrow> route_error + decision" where
  "preview az q =
     (if az = None then Inl ErrAuthorizerRequired
      else case validate_request q of
        Some e \<Rightarrow> Inl (RouteRequest e)
      | None \<Rightarrow>
          let d = authorize az q in
          (case validate_decision d of Some e \<Rightarrow> Inl (RouteDecision e) | None \<Rightarrow> Inr d))"

definition route ::
  "'e authorizer option \<Rightarrow> (nat \<Rightarrow> bool) \<Rightarrow> interference \<Rightarrow> store \<Rightarrow> go_time \<Rightarrow> string \<Rightarrow> request \<Rightarrow>
   store \<times> (route_error + route_result)" where
  "route az printable env s now rid q =
     (if az = None then (s, Inl ErrAuthorizerRequired)
      else
        let d = authorize az q in
        (case record_route printable env s now rid q d [] of
           (t, Inl e) \<Rightarrow> (t, Inl (RouteRecord e))
         | (t, Inr r) \<Rightarrow> (t, Inr \<lparr>rr_Decision = d, rr_Run = r\<rparr>)))"

definition route_tool_call ::
  "'e authorizer option \<Rightarrow> (nat \<Rightarrow> bool) \<Rightarrow> interference \<Rightarrow> store \<Rightarrow> go_time \<Rightarrow> string \<Rightarrow> string \<Rightarrow>
   request \<Rightarrow> tool_args \<Rightarrow> store \<times> (route_error + route_result)" where
  "route_tool_call az printable env s now key rid q args =
     (if az = None then (s, Inl ErrAuthorizerRequired)
      else case validate_run_id rid of Some e \<Rightarrow> (s, Inl (RouteRunID e)) | None \<Rightarrow>
     (case validate_request q of Some e \<Rightarrow> (s, Inl (RouteRequest e)) | None \<Rightarrow>
     (case new_tool_approval_binding key rid q args of Inl e \<Rightarrow> (s, Inl (RouteBinding e)) | Inr _ \<Rightarrow>
        let d = authorize az q in
        if de_Status d = DecisionApprovalRequired then
          (case record_approved_tool_call printable env s now key rid q args of
             (t, Inl e) \<Rightarrow> (t, Inl (RouteRecord e))
           | (t, Inr (Some r)) \<Rightarrow> (t, Inr \<lparr>rr_Decision = allowed, rr_Run = r\<rparr>)
           | (t, Inr None) \<Rightarrow>
               (case record_bound_approval printable (\<lambda>n. env (n + 2)) t now key rid q args d of
                  (u, Inl e) \<Rightarrow> (u, Inl (RouteRecord e))
                | (u, Inr r) \<Rightarrow> (u, Inr \<lparr>rr_Decision = d, rr_Run = r\<rparr>)))
        else
          (case record_route printable (\<lambda>n. env (n + 2)) s now rid q d [] of
             (t, Inl e) \<Rightarrow> (t, Inl (RouteRecord e))
           | (t, Inr r) \<Rightarrow> (t, Inr \<lparr>rr_Decision = d, rr_Run = r\<rparr>)))))"

end
