(* ===== verification/Executor.thy ===== *)
theory Executor
  imports Router
begin

text \<open>
  The executor of \<open>internal/agentrouting/executor.go\<close>: it routes one tool call and invokes the
  transport only when the recorded decision allows it and the run still does.

  The context is the function \<open>ctx\<close>: \<open>ctx n\<close> is what the poll number \<open>n\<close> of \<open>ctx.Err\<close> returns. The
  transport is the parameter \<open>invoke\<close>. Beside the result, \<open>execute\<close> returns the requests it
  gave to the transport, in order. \<open>env 4\<close> is what happens before the run is looked up again.
\<close>

record execution_result =
  er_Route :: route_result
  er_Invoked :: bool
  er_Result :: "tool_call_result option"

datatype execution_error =
    ContextError string
  | ExecutionRequest policy_error
  | ExecutionToolCall tool_call_error
  | ExecutionRoute route_error
  | ErrInvalidToolExecution
  | ErrToolInvocationFailed

type_synonym context_polls = "nat \<Rightarrow> string option"
type_synonym invoker = "tool_call_request \<Rightarrow> string + tool_call_result"

definition validate_execution_route :: "route_result \<Rightarrow> string \<Rightarrow> request \<Rightarrow> execution_error option" where
  "validate_execution_route rr rid q =
     (let r = rr_Run rr; d = rr_Decision rr in
      if validate_decision d \<noteq> None then Some ErrInvalidToolExecution
      else if run_ID r \<noteq> rid \<or> run_Project r \<noteq> rq_Project q \<or> run_ProviderID r \<noteq> rq_ProviderID q
        \<or> run_Mode r \<noteq> rq_Mode q then Some ErrInvalidToolExecution
      else if de_Status d \<noteq> DecisionAllowed then None
      else if run_Canceled r \<or> (run_Status r \<noteq> StatusQueued \<and> run_Status r \<noteq> StatusRunning)
        then Some ErrInvalidToolExecution
      else if list_ex (\<lambda>a. ag_Status a = ApprovalPending) (run_Approvals r)
        then Some ErrInvalidToolExecution
      else None)"

text \<open>The part of \<open>Execute\<close> after the route is recorded and found allowed.\<close>

definition invoke_allowed ::
  "context_polls \<Rightarrow> invoker \<Rightarrow> store \<Rightarrow> route_result \<Rightarrow> string \<Rightarrow> request \<Rightarrow> tool_call_request \<Rightarrow>
   tool_call_request list \<times> (execution_error + execution_result)" where
  "invoke_allowed ctx invoke s rr rid q tool =
     (case get_run s rid of
        None \<Rightarrow> ([], Inl ErrInvalidToolExecution)
      | Some current \<Rightarrow>
          let rr' = rr\<lparr>rr_Run := current\<rparr> in
          (case validate_execution_route rr' rid q of
             Some e \<Rightarrow> ([], Inl e)
           | None \<Rightarrow>
          (case ctx 2 of
             Some e \<Rightarrow> ([], Inl (ContextError e))
           | None \<Rightarrow>
               ([tool],
                (case ctx 3 of
                   Some e \<Rightarrow> Inl (ContextError e)
                 | None \<Rightarrow>
                     (case invoke tool of
                        Inl _ \<Rightarrow> Inl ErrToolInvocationFailed
                      | Inr result \<Rightarrow>
                          if validate_tool_call_result result \<noteq> None then Inl ErrToolInvocationFailed
                          else Inr \<lparr>er_Route = rr', er_Invoked = True, er_Result = Some result\<rparr>))))))"

definition execute ::
  "'e authorizer option \<Rightarrow> (nat \<Rightarrow> bool) \<Rightarrow> string \<Rightarrow> invoker \<Rightarrow> context_polls \<Rightarrow> interference \<Rightarrow>
   store \<Rightarrow> go_time \<Rightarrow> string \<Rightarrow> request \<Rightarrow> tool_args \<Rightarrow>
   store \<times> tool_call_request list \<times> (execution_error + execution_result)" where
  "execute az printable key invoke ctx env s now rid q args =
     (case ctx 0 of Some e \<Rightarrow> (s, [], Inl (ContextError e)) | None \<Rightarrow>
     (case validate_request q of Some e \<Rightarrow> (s, [], Inl (ExecutionRequest e)) | None \<Rightarrow>
     (case new_tool_call_request (rq_ServerID q) (rq_ToolName q) args of
        Inl e \<Rightarrow> (s, [], Inl (ExecutionToolCall e))
      | Inr tool \<Rightarrow>
     (case route_tool_call az printable env s now key rid q args of
        (t, Inl e) \<Rightarrow> (t, [], Inl (ExecutionRoute e))
      | (t, Inr rr) \<Rightarrow>
     (case validate_execution_route rr rid q of
        Some e \<Rightarrow> (t, [], Inl e)
      | None \<Rightarrow>
          if de_Status (rr_Decision rr) \<noteq> DecisionAllowed
          then (t, [], Inr \<lparr>er_Route = rr, er_Invoked = False, er_Result = None\<rparr>)
          else
     (case ctx 1 of
        Some e \<Rightarrow> (t, [], Inl (ContextError e))
      | None \<Rightarrow>
          let u = env 4 t in (u, invoke_allowed ctx invoke u rr rid q tool)))))))"

end
