(* ===== verification/Executor_Facts.thy ===== *)
theory Executor_Facts
  imports Executor
begin

text \<open>
  What one call of the executor does to the store and when it reaches the transport. Every
  mutation is a step of the run store, so the facts of \<open>AgentRuns_Facts\<close> hold across a call,
  whatever other clients do in between.
\<close>

section \<open>A ledger of approvals\<close>

text \<open>What the executor relies on of the run store: consuming is a step, steps keep the
  invariant, and what was consumed once cannot be consumed again.\<close>

locale approval_ledger =
  fixes steps :: "'s \<Rightarrow> 's \<Rightarrow> bool"
    and inv :: "'s \<Rightarrow> bool"
    and consume :: "'s \<Rightarrow> string \<Rightarrow> string \<Rightarrow> string \<Rightarrow> go_time \<Rightarrow> 's \<times> ('e + 'r)"
  assumes inv_steps: "inv s \<Longrightarrow> steps s t \<Longrightarrow> inv t"
    and steps_refl: "steps s s"
    and steps_trans: "steps s t \<Longrightarrow> steps t u \<Longrightarrow> steps s u"
    and consume_step: "consume s i a m now = (t, Inr r) \<Longrightarrow> steps s t"
    and once: "inv s \<Longrightarrow> consume s i a m now = (t, Inr r) \<Longrightarrow> steps t u \<Longrightarrow>
      consume u i a m' now' \<noteq> (v, Inr r')"
begin

inductive history :: "'s \<Rightarrow> (string \<times> string) list \<Rightarrow> 's \<Rightarrow> bool" where
  rest: "steps s t \<Longrightarrow> history s [] t"
| spend: "steps s u \<Longrightarrow> consume u i a m now = (v, Inr r) \<Longrightarrow> history v es t \<Longrightarrow> history s ((i, a) # es) t"

lemma history_prefix: "history u es t \<Longrightarrow> steps s u \<Longrightarrow> history s es t"
  by (cases rule: history.cases) (auto intro: history.intros steps_trans)

lemma spent_before:
  assumes "history w es t" "inv u" "consume u i a m now = (v, Inr r)" "steps v w"
  shows "(i, a) \<notin> set es"
  using assms(1,4)
proof (induction rule: history.induct)
  case (spend s x j b m' now' y r' es t)
  have "steps v x" using steps_trans spend(1,5) by blast
  then have "(i, a) \<noteq> (j, b)" using once [OF assms(2,3)] spend(2) by blast
  moreover have "steps v y" using \<open>steps v x\<close> steps_trans consume_step spend(2) by blast
  then have "(i, a) \<notin> set es" by (rule spend.IH)
  ultimately show ?case by simp
qed simp

lemma spent_once: "history s es t \<Longrightarrow> inv s \<Longrightarrow> distinct es"
proof (induction rule: history.induct)
  case (spend s u i a m now v r es t)
  have "inv u" using inv_steps spend(1,5) by blast
  moreover have "inv v" using \<open>inv u\<close> inv_steps consume_step spend(2) by blast
  ultimately show ?case using spent_before [OF spend(3) _ spend(2) steps_refl] spend.IH by simp
qed simp

end

lemma step_of_op: "apply_op s p now = (t, res) \<Longrightarrow> counter_ok s p \<Longrightarrow> store_step\<^sup>*\<^sup>* s t"
  by (meson r_into_rtranclp store_step.op)

lemma consume_steps: "consume_approval_binding s i a m now = (t, res) \<Longrightarrow> store_step\<^sup>*\<^sup>* s t"
  using step_of_op [of s "OpConsume i a m" now t res] by simp

lemma steps_inv: "store_step\<^sup>*\<^sup>* s t \<Longrightarrow> store_inv s \<Longrightarrow> store_inv t"
  by (induction rule: rtranclp_induct) (auto intro: store_step_inv)

lemma consume_once:
  assumes "store_inv s" "consume_approval_binding s i a m now = (t, Inr r)" "store_step\<^sup>*\<^sup>* t u"
  shows "consume_approval_binding u i a m' now' \<noteq> (v, Inr r')"
proof
  assume v: "consume_approval_binding u i a m' now' = (v, Inr r')"
  have t: "store_inv t" using steps_inv [OF consume_steps [OF assms(2)] assms(1)] .
  from assms(2) show False
  proof (rule consumed)
    fix k
    assume k: "st_runs t i = Some r" "gate_index (run_Approvals r) a = Some k"
      "ag_OperationBinding (run_Approvals r ! k) = []"
      "ag_Status (run_Approvals r ! k) = ApprovalApproved" "k < length (run_Approvals r)"
    show False using consume_spent [OF t k(1,2,5,3,4) assms(3) v] by simp
  qed
qed

interpretation run_ledger: approval_ledger "store_step\<^sup>*\<^sup>*" store_inv consume_approval_binding
proof
  show "store_inv s \<Longrightarrow> store_step\<^sup>*\<^sup>* s t \<Longrightarrow> store_inv t" for s t by (rule steps_inv)
  show "store_step\<^sup>*\<^sup>* s u" if "store_step\<^sup>*\<^sup>* s t" "store_step\<^sup>*\<^sup>* t u" for s t u
    using that by (rule rtranclp_trans)
  show "consume_approval_binding s i a m now = (t, Inr r) \<Longrightarrow> store_step\<^sup>*\<^sup>* s t" for s i a m now t r
    by (rule consume_steps)
qed (auto dest: consume_once)

section \<open>One call is a sequence of steps\<close>

definition env_ok :: "interference \<Rightarrow> bool" where
  "env_ok env \<longleftrightarrow> (\<forall>n s. store_step\<^sup>*\<^sup>* s (env n s))"

lemma env_okD: "env_ok env \<Longrightarrow> store_step\<^sup>*\<^sup>* s (env n s)"
  by (simp add: env_ok_def)

lemma env_ok_shift: "env_ok env \<Longrightarrow> env_ok (\<lambda>n. env (n + k))"
  by (simp add: env_ok_def)

lemma from_store_fst [simp]: "fst (from_store x) = fst x" "fst (guarded_store x) = fst x"
  by (auto simp: from_store_def guarded_store_def split: prod.splits sum.splits)

lemma op_steps:
  "store_step\<^sup>*\<^sup>* s (fst (fail s i m now))" "store_step\<^sup>*\<^sup>* s (fst (add_approval s i g now))"
  "store_step\<^sup>*\<^sup>* s (fst (add_log_if_no_pending s i l m now))"
  "store_step\<^sup>*\<^sup>* s (fst (consume_approval_binding s i a m now))"
  using step_of_op [of s "OpFail i m" now] step_of_op [of s "OpAddApproval i g" now]
    step_of_op [of s "OpAddLogIfNoPending i l m" now] step_of_op [of s "OpConsume i a m" now]
  by (simp_all add: prod_eq_iff)

lemma record_mutation_steps: "store_step\<^sup>*\<^sup>* s (fst (record_mutation pr s now rid q d b))"
  by (simp add: record_mutation_def op_steps split: option.splits)

lemma record_route_steps:
  "env_ok env \<Longrightarrow> store_step\<^sup>*\<^sup>* s (fst (record_route pr env s now rid q d b))"
  unfolding record_route_def Let_def
  by (auto split: option.splits intro: env_okD rtranclp_trans [OF env_okD rtranclp_trans
        [OF env_okD record_mutation_steps]])

lemma record_bound_steps:
  "env_ok env \<Longrightarrow> store_step\<^sup>*\<^sup>* s (fst (record_bound_approval pr env s now key rid q args d))"
  unfolding record_bound_approval_def
  by (simp add: record_route_steps split: option.splits sum.splits)

lemma record_approved_steps:
  "env_ok env \<Longrightarrow> store_step\<^sup>*\<^sup>* s (fst (record_approved_tool_call pr env s now key rid q args))"
proof -
  assume e: "env_ok env"
  have "store_step\<^sup>*\<^sup>* s (fst (consume_approval_binding (env 1 (env 0 s)) i a m now))" for i a m
    using env_okD [OF e] op_steps(4) rtranclp_trans by metis
  moreover have "fst (case guarded_store x of (t, Inl e) \<Rightarrow> (t, Inl e) | (t, Inr r) \<Rightarrow> (t, Inr (Some r))) = fst x"
    for x :: "store \<times> (run_error + run)"
    by (auto simp: guarded_store_def split: prod.splits sum.splits)
  ultimately show ?thesis unfolding record_approved_tool_call_def Let_def
    using env_okD [OF e] by (simp split: option.splits sum.splits)
qed

lemma route_tool_call_steps:
  assumes "env_ok env"
  shows "store_step\<^sup>*\<^sup>* s (fst (route_tool_call az pr env s now key rid q args))"
proof -
  let ?a = "record_approved_tool_call pr env s now key rid q args"
  have 1: "store_step\<^sup>*\<^sup>* s (fst ?a)" using record_approved_steps [OF assms] .
  have 2: "store_step\<^sup>*\<^sup>* s (fst (record_bound_approval pr (\<lambda>n. env (n + 2)) (fst ?a) now key rid q args d))" for d
    using 1 record_bound_steps [OF env_ok_shift [OF assms]] rtranclp_trans by metis
  have 3: "store_step\<^sup>*\<^sup>* s (fst (record_route pr (\<lambda>n. env (n + 2)) s now rid q d b))" for d b
    using record_route_steps [OF env_ok_shift [OF assms]] .
  show ?thesis
    using 1 2 3 unfolding route_tool_call_def Let_def
    by (auto split: option.splits sum.splits prod.splits simp: prod_eq_iff)
qed

section \<open>Spending an approval\<close>

definition spends :: "store \<Rightarrow> store \<Rightarrow> string \<Rightarrow> string \<Rightarrow> string \<Rightarrow> bool" where
  "spends u v rid aid b \<longleftrightarrow> (\<exists>m now r r' k. consume_approval_binding u rid aid m now = (v, Inr r')
     \<and> st_runs u rid = Some r \<and> gate_index (run_Approvals r) aid = Some k
     \<and> ag_Status (run_Approvals r ! k) = ApprovalApproved
     \<and> ag_OperationBinding (run_Approvals r ! k) = b)"

lemma reach_steps: "store_step\<^sup>*\<^sup>* s t \<Longrightarrow> store_reach s \<Longrightarrow> store_reach t"
  by (induction rule: rtranclp_induct) (auto intro: store_reach.step)

lemma matching_gate_Some:
  "matching_gate key rid q args as = Some a \<Longrightarrow> a \<in> set as \<and> ag_Status a = ApprovalApproved
     \<and> binding_matches (ag_OperationBinding a) key rid q args"
  by (induction as) (auto split: if_splits)

lemma gate_index_of:
  "distinct (map ag_ID as) \<Longrightarrow> a \<in> set as \<Longrightarrow> \<exists>k. gate_index as (ag_ID a) = Some k \<and> as ! k = a \<and> k < length as"
  by (induction as) force+

lemma consume_succeeded:
  assumes "consume_approval_binding s i a m now = (t, Inr r')"
  shows "\<exists>r k. st_runs s i = Some r \<and> gate_index (run_Approvals r) a = Some k
    \<and> ag_Status (run_Approvals r ! k) = ApprovalApproved \<and> ag_OperationBinding (run_Approvals r ! k) \<noteq> []"
  using assms unfolding consume_approval_binding_def
proof (cases rule: update_cases)
  case (changed r r1)
  from changed(2) show ?thesis by (cases rule: consume_mut_cases) (use changed(1) in auto)
qed auto

text \<open>A recorded approved call has spent a gate of its run that was approved for exactly this
  operation: the gate it found is still the same gate when it is consumed.\<close>

lemma approved_call_spends:
  assumes "store_reach s" "env_ok env"
    "record_approved_tool_call pr env s now key rid q args = (t, Inr (Some r'))"
  shows "\<exists>u aid b. store_step\<^sup>*\<^sup>* s u \<and> spends u t rid aid b \<and> binding_matches b key rid q args"
proof -
  let ?s = "env 0 s" and ?m = "route_audit_message pr ''Allowed'' q"
  let ?u = "env 1 ?s"
  obtain r a where r: "st_runs ?s rid = Some r" "in_scope r q"
      "matching_gate key rid q args (run_Approvals r) = Some a"
      "guarded_store (consume_approval_binding ?u rid (ag_ID a) ?m now) = (t, Inr r')"
    using assms(3) unfolding record_approved_tool_call_def Let_def get_run_def
    by (auto split: option.splits sum.splits if_splits prod.splits)
  have c: "consume_approval_binding ?u rid (ag_ID a) ?m now = (t, Inr r')"
    using r(4) by (auto simp: guarded_store_def split: prod.splits sum.splits)
  note st = env_okD [OF assms(2), of s 0] env_okD [OF assms(2), of ?s 1]
  have reach: "store_reach ?s" by (rule reach_steps [OF st(1) assms(1)])
  have "distinct (map ag_ID (run_Approvals r))"
    using well_formed.reach [OF reach r(1)] numbered_distinct unfolding run_ok_def ids_ok_def by blast
  then obtain k where k: "gate_index (run_Approvals r) (ag_ID a) = Some k" "run_Approvals r ! k = a"
      "k < length (run_Approvals r)"
    using gate_index_of matching_gate_Some [OF r(3)] by blast
  obtain p j where p: "st_runs ?u rid = Some p" "gate_index (run_Approvals p) (ag_ID a) = Some j"
      "ag_Status (run_Approvals p ! j) = ApprovalApproved" "ag_OperationBinding (run_Approvals p ! j) \<noteq> []"
    using consume_succeeded [OF c] by blast
  have ev: "gates_evolve (run_Approvals r) (run_Approvals p)"
    using forward.evolves [OF st(2) store_reach_inv [OF reach] r(1) p(1)] by (simp add: run_evolves_def)
  then have "j = k" using gate_index_evolves [OF k(1)] p(2) by simp
  then have "ag_OperationBinding (run_Approvals p ! j) = ag_OperationBinding a"
    using ev k(2,3) p(4) by (auto simp: gates_evolve_def gate_evolves_def)
  then have "spends ?u t rid (ag_ID a) (ag_OperationBinding a)"
    using c p(1-3) unfolding spends_def by blast
  moreover have "store_step\<^sup>*\<^sup>* s ?u" using st by (rule rtranclp_trans)
  ultimately show ?thesis using matching_gate_Some [OF r(3)] by blast
qed

section \<open>Reaching the transport\<close>

definition run_live :: "run \<Rightarrow> bool" where
  "run_live r \<longleftrightarrow> \<not> run_Canceled r \<and> (run_Status r = StatusQueued \<or> run_Status r = StatusRunning)
     \<and> \<not> has_pending_approvals (run_Approvals r)"

lemma has_pending_iff: "has_pending_approvals as \<longleftrightarrow> list_ex (\<lambda>a. ag_Status a = ApprovalPending) as"
  by (induction as) auto

lemma execution_route_live:
  assumes "validate_execution_route rr rid q = None" "de_Status (rr_Decision rr) = DecisionAllowed"
  shows "run_ID (rr_Run rr) = rid \<and> in_scope (rr_Run rr) q \<and> run_live (rr_Run rr)"
  using assms
  by (auto simp: validate_execution_route_def Let_def in_scope_def run_live_def has_pending_iff
      split: if_splits)

lemma invoke_allowed_calls:
  assumes "invoke_allowed ctx invoke s rr rid q tool = (calls, res)" "calls \<noteq> []"
    "de_Status (rr_Decision rr) = DecisionAllowed"
  shows "calls = [tool] \<and> ctx 2 = None \<and> (\<exists>r. st_runs s rid = Some r \<and> in_scope r q \<and> run_live r)"
proof -
  obtain r where r: "st_runs s rid = Some r" "validate_execution_route (rr\<lparr>rr_Run := r\<rparr>) rid q = None"
    "ctx 2 = None" "calls = [tool]"
    using assms(1,2) unfolding invoke_allowed_def get_run_def Let_def
    by (auto split: option.splits)
  then show ?thesis using execution_route_live [OF r(2)] assms(3) by auto
qed

lemma record_allowed_read_only:
  "record_route pr env s now rid q d b = (t, Inr r) \<Longrightarrow> de_Status d = DecisionAllowed \<Longrightarrow>
     rq_Risk q = RiskReadOnly"
  by (auto simp: record_route_def record_checks_def split: option.splits if_splits)

lemma route_allowed_cases:
  assumes "route_tool_call az pr env s now key rid q args = (t, Inr rr)"
    "de_Status (rr_Decision rr) = DecisionAllowed"
  obtains (read_only) "de_Status (authorize az q) = DecisionAllowed" "rq_Risk q = RiskReadOnly"
  | (approved) "de_Status (authorize az q) = DecisionApprovalRequired"
      "\<exists>r. record_approved_tool_call pr env s now key rid q args = (t, Inr (Some r))"
proof (cases "de_Status (authorize az q) = DecisionApprovalRequired")
  case True
  then show ?thesis
    using assms that(2) unfolding route_tool_call_def Let_def
    by (auto split: option.splits sum.splits prod.splits if_splits)
next
  case False
  then obtain r where "record_route pr (\<lambda>n. env (n + 2)) s now rid q (authorize az q) [] = (t, Inr r)"
      "rr_Decision rr = authorize az q"
    using assms unfolding route_tool_call_def Let_def
    by (auto split: option.splits sum.splits prod.splits if_splits)
  then show ?thesis using assms(2) that(1) record_allowed_read_only by auto
qed

lemma execute_reached:
  assumes "execute az pr key invoke ctx env s now rid q args = (t, calls, res)" "calls \<noteq> []"
  obtains rr u where "validate_request q = None" "ctx 0 = None" "ctx 1 = None" "t = env 4 u"
    "route_tool_call az pr env s now key rid q args = (u, Inr rr)"
    "de_Status (rr_Decision rr) = DecisionAllowed"
    "invoke_allowed ctx invoke t rr rid q
       \<lparr>tc_ServerID = rq_ServerID q, tc_ToolName = rq_ToolName q, tc_Arguments = args\<rparr> = (calls, res)"
  using assms unfolding execute_def Let_def
  by (auto split: option.splits sum.splits prod.splits if_splits dest!: new_tool_call_request_Inr)

lemma execute_steps:
  assumes "env_ok env"
  shows "store_step\<^sup>*\<^sup>* s (fst (execute az pr key invoke ctx env s now rid q args))"
proof -
  let ?r = "route_tool_call az pr env s now key rid q args"
  have 1: "store_step\<^sup>*\<^sup>* s (fst ?r)" using route_tool_call_steps [OF assms] .
  have 2: "store_step\<^sup>*\<^sup>* s (env 4 (fst ?r))" using 1 env_okD [OF assms] by (rule rtranclp_trans)
  show ?thesis
    using 1 2 unfolding execute_def Let_def
    by (auto split: option.splits sum.splits prod.splits simp: prod_eq_iff)
qed

lemma execute_spends:
  assumes "store_reach s" "env_ok env"
    "execute az pr key invoke ctx env s now rid q args = (t, calls, res)" "calls \<noteq> []"
    "rq_Risk q \<noteq> RiskReadOnly"
  shows "\<exists>u v aid b. store_step\<^sup>*\<^sup>* s u \<and> spends u v rid aid b \<and> binding_matches b key rid q args
    \<and> store_step\<^sup>*\<^sup>* v t"
proof -
  obtain rr u where x: "t = env 4 u" "route_tool_call az pr env s now key rid q args = (u, Inr rr)"
    "de_Status (rr_Decision rr) = DecisionAllowed"
    by (rule execute_reached [OF assms(3,4)])
  from x(2,3) show ?thesis
  proof (cases rule: route_allowed_cases)
    case approved
    then obtain r where "record_approved_tool_call pr env s now key rid q args = (u, Inr (Some r))" by blast
    from approved_call_spends [OF assms(1,2) this] obtain w aid b where
      "store_step\<^sup>*\<^sup>* s w" "spends w u rid aid b" "binding_matches b key rid q args" by blast
    moreover have "store_step\<^sup>*\<^sup>* u t" using env_okD [OF assms(2)] x(1) by simp
    ultimately show ?thesis by blast
  qed (use assms(5) in simp)
qed

section \<open>Histories of executions\<close>

text \<open>Any number of calls of one executor, with anything else happening to the store before,
  between, during and after them. The list holds the calls that reached the transport with an
  operation that is not read-only, each with the store it began with and the store it left. The
  authorizer may differ from call to call: policies and the tool inventory change.\<close>

record paid_call =
  py_Run :: string
  py_Request :: request
  py_Args :: tool_args
  py_Before :: store
  py_After :: store

inductive exec_history ::
  "(nat \<Rightarrow> bool) \<Rightarrow> string \<Rightarrow> store \<Rightarrow> paid_call list \<Rightarrow> store \<Rightarrow> bool"
  for pr :: "nat \<Rightarrow> bool" and key :: string where
  idle: "store_step\<^sup>*\<^sup>* s t \<Longrightarrow> exec_history pr key s [] t"
| call: "store_step\<^sup>*\<^sup>* s u \<Longrightarrow> env_ok env \<Longrightarrow>
    execute (az :: airlock_error authorizer option) pr key invoke ctx env u now rid q args
      = (v, calls, res) \<Longrightarrow>
    exec_history pr key v es t \<Longrightarrow>
    exec_history pr key s
      (if calls \<noteq> [] \<and> rq_Risk q \<noteq> RiskReadOnly
       then \<lparr>py_Run = rid, py_Request = q, py_Args = args, py_Before = u, py_After = v\<rparr> # es else es) t"

text \<open>The gate was approved for the operation of the call and was spent while the call ran: between
  the store the call began with and the store it left.\<close>

definition paid_by :: "string \<Rightarrow> paid_call \<Rightarrow> string \<times> string \<Rightarrow> bool" where
  "paid_by key c gate \<longleftrightarrow> fst gate = py_Run c \<and>
     (\<exists>u v b. store_step\<^sup>*\<^sup>* (py_Before c) u \<and> spends u v (py_Run c) (snd gate) b
        \<and> binding_matches b key (py_Run c) (py_Request c) (py_Args c) \<and> store_step\<^sup>*\<^sup>* v (py_After c))"

lemma exec_history_ledger:
  assumes "exec_history pr key s es t" "store_reach s"
  shows "\<exists>gs. run_ledger.history s gs t \<and> list_all2 (paid_by key) es gs"
  using assms
proof (induction rule: exec_history.induct)
  case (idle s t)
  have "run_ledger.history s [] t" using idle(1) by (rule run_ledger.history.rest)
  then show ?case by (intro exI [of _ "[]"]) simp
next
  case (call s u env az invoke ctx now rid q args v calls res es t)
  have uv: "store_step\<^sup>*\<^sup>* u v"
    using execute_steps [OF call(2), of u az pr key invoke ctx now rid q args] call(3) by simp
  have reach: "store_reach u" "store_reach v"
    using reach_steps [OF call(1) call.prems] reach_steps [OF uv] by blast+
  from call.IH [OF reach(2)] obtain gs where gs: "run_ledger.history v gs t"
    "list_all2 (paid_by key) es gs" by blast
  let ?c = "\<lparr>py_Run = rid, py_Request = q, py_Args = args, py_Before = u, py_After = v\<rparr>"
  show ?case
  proof (cases "calls \<noteq> [] \<and> rq_Risk q \<noteq> RiskReadOnly")
    case True
    with execute_spends [OF reach(1) call(2,3)] obtain w x aid b where
      sp: "store_step\<^sup>*\<^sup>* u w" "spends w x rid aid b" "binding_matches b key rid q args"
        "store_step\<^sup>*\<^sup>* x v" by blast
    then obtain m n r where c: "consume_approval_binding w rid aid m n = (x, Inr r)"
      unfolding spends_def by blast
    have "run_ledger.history x gs t" using gs(1) sp(4) by (rule run_ledger.history_prefix)
    with rtranclp_trans [OF call(1) sp(1)] c have "run_ledger.history s ((rid, aid) # gs) t"
      by (rule run_ledger.history.spend)
    moreover have "paid_by key ?c (rid, aid)"
      using sp unfolding paid_by_def by auto
    ultimately show ?thesis using True gs(2) by (intro exI [of _ "(rid, aid) # gs"]) simp
  next
    case False
    have "run_ledger.history s gs t"
      using run_ledger.history_prefix [OF gs(1) rtranclp_trans [OF call(1) uv]] .
    then show ?thesis using False gs(2) by auto
  qed
qed

section \<open>What recording leaves behind\<close>

lemma from_store_Inr: "from_store x = (t, Inr r) \<Longrightarrow> x = (t, Inr r)" "guarded_store x = (t, Inr r) \<Longrightarrow> x = (t, Inr r)"
  by (auto simp: from_store_def guarded_store_def split: prod.splits sum.splits)

lemma update_Inr:
  assumes "update s i now f = (t, Inr r)"
  obtains r0 r' where "st_runs s i = Some r0" "f r0 now = (r', None)" "r = r'\<lparr>run_UpdatedAt := now\<rparr>"
    "st_runs t i = Some r"
  using assms by (cases rule: update_cases) auto

lemma failed_run:
  assumes "fail s i m now = (t, Inr r)"
  shows "st_runs t i = Some r \<and> run_Status r = StatusFailed"
  by (rule update_Inr [OF assms [unfolded fail_def]])
    (auto simp: fail_mut_def Let_def append_log_def set_completed_def split: if_splits)

lemma gated_run:
  assumes "add_approval s i g now = (t, Inr r)"
  shows "st_runs t i = Some r \<and> run_Status r = StatusWaitingApproval \<and> run_Approvals r \<noteq> []
    \<and> ag_Status (last (run_Approvals r)) = ApprovalPending \<and> ag_Kind (last (run_Approvals r)) = ag_Kind g
    \<and> ag_OperationBinding (last (run_Approvals r)) = ag_OperationBinding g"
proof -
  have "update s i now (add_approval_mut g) = (t, Inr r)"
    using assms by (auto simp: add_approval_def split: if_splits)
  then show ?thesis
    by (rule update_Inr) (auto simp: add_approval_mut_def split: if_splits)
qed

lemma logged_run:
  assumes "add_log_if_no_pending s i l m now = (t, Inr r)"
  shows "st_runs t i = Some r \<and> \<not> terminal_status (run_Status r) \<and> run_Status r \<noteq> StatusWaitingApproval
    \<and> \<not> has_pending_approvals (run_Approvals r)"
proof -
  have "update s i now (add_log_mut l m True) = (t, Inr r)"
    using assms by (auto simp: add_log_if_no_pending_def add_log_general_def split: if_splits)
  then show ?thesis
    by (rule update_Inr) (auto simp: add_log_mut_def append_log_def split: if_splits)
qed

lemma consumed_run:
  assumes "consume_approval_binding s i a m now = (t, Inr r)"
  shows "st_runs t i = Some r \<and> \<not> terminal_status (run_Status r) \<and> run_Status r \<noteq> StatusWaitingApproval"
proof (rule update_Inr [OF assms [unfolded consume_approval_binding_def]])
  fix r0 r'
  assume u: "consume_mut a m r0 now = (r', None)" "r = r'\<lparr>run_UpdatedAt := now\<rparr>" "st_runs t i = Some r"
  from u(1) show ?thesis by (cases rule: consume_mut_cases) (use u(2,3) in \<open>simp add: append_log_def\<close>)
qed

text \<open>How the run of a recorded outcome looks.\<close>

definition recorded :: "decision \<Rightarrow> request \<Rightarrow> string \<Rightarrow> run \<Rightarrow> bool" where
  "recorded d q b r \<longleftrightarrow>
     (de_Status d = DecisionDenied \<longrightarrow> run_Status r = StatusFailed)
   \<and> (de_Status d = DecisionApprovalRequired \<longrightarrow> run_Status r = StatusWaitingApproval \<and> run_Approvals r \<noteq> []
        \<and> ag_Status (last (run_Approvals r)) = ApprovalPending
        \<and> approval_kind (rq_Risk q) = Some (ag_Kind (last (run_Approvals r)))
        \<and> ag_OperationBinding (last (run_Approvals r)) = b)
   \<and> (de_Status d = DecisionAllowed \<longrightarrow> \<not> terminal_status (run_Status r) \<and> run_Status r \<noteq> StatusWaitingApproval)"

lemma record_route_recorded:
  assumes "record_route pr env s now rid q d b = (t, Inr r)"
  shows "st_runs t rid = Some r \<and> recorded d q b r"
proof -
  obtain u where u: "record_mutation pr u now rid q d b = (t, Inr r)"
    using assms by (auto simp: record_route_def Let_def split: option.splits if_splits)
  show ?thesis
  proof (cases "de_Status d = DecisionDenied")
    case True
    then have "from_store (fail u rid (denial_message pr q d) now) = (t, Inr r)"
      using u by (simp add: record_mutation_def)
    from failed_run [OF from_store_Inr(1) [OF this]] show ?thesis using True by (simp add: recorded_def)
  next
    case nd: False
    show ?thesis
    proof (cases "de_Status d = DecisionApprovalRequired")
      case True
      then obtain k where k: "approval_kind (rq_Risk q) = Some k"
        using u by (auto simp: record_mutation_def split: option.splits)
      let ?g = "\<lparr>ag_ID = [], ag_Kind = k, ag_Status = [], ag_Summary = route_audit_message pr ''Authorize'' q,
        ag_CreatedAt = 0, ag_DecidedAt = None, ag_DecidedBy = [], ag_OperationBinding = b\<rparr>"
      have "from_store (add_approval u rid ?g now) = (t, Inr r)"
        using u True k by (simp add: record_mutation_def)
      from gated_run [OF from_store_Inr(1) [OF this]] k True show ?thesis by (simp add: recorded_def)
    next
      case False
      then have "guarded_store (add_log_if_no_pending u rid LogAudit (route_audit_message pr ''Allowed'' q) now)
          = (t, Inr r)"
        using u nd by (simp add: record_mutation_def)
      from logged_run [OF from_store_Inr(2) [OF this]] nd False show ?thesis by (simp add: recorded_def)
    qed
  qed
qed

lemma record_bound_recorded:
  assumes "record_bound_approval pr env s now key rid q args d = (t, Inr r)"
  shows "\<exists>b. new_tool_approval_binding key rid q args = Inr b \<and> st_runs t rid = Some r \<and> recorded d q b r"
proof -
  obtain b stored where b: "new_tool_approval_binding key rid q args = Inr b"
    "new_approval_binding b = Inr stored" "record_route pr env s now rid q d stored = (t, Inr r)"
    using assms by (auto simp: record_bound_approval_def split: option.splits sum.splits if_splits)
  have "stored = b" using b(2) by (simp add: new_approval_binding_def split: if_splits)
  then show ?thesis using b(1) record_route_recorded [OF b(3)] by blast
qed

lemma record_approved_recorded:
  assumes "record_approved_tool_call pr env s now key rid q args = (t, Inr (Some r))"
  shows "st_runs t rid = Some r \<and> \<not> terminal_status (run_Status r) \<and> run_Status r \<noteq> StatusWaitingApproval"
proof -
  obtain u a m where "guarded_store (consume_approval_binding u rid a m now) = (t, Inr r)"
    using assms unfolding record_approved_tool_call_def Let_def
    by (auto split: option.splits sum.splits if_splits prod.splits)
  then show ?thesis using consumed_run from_store_Inr(2) by blast
qed

end
