(* ===== verification/Routing_Demo.thy ===== *)
theory Routing_Demo
  imports Executor_Facts AgentRuns_Props Airlock_Props
begin

text \<open>
  One concrete routing scenario, on which the properties of the routing theories are applied: a
  run in the mode approved execution, a policy that allows one cloud-mutating tool with an
  approval, an Airlock manager that lists the tool, and a gate approved for the exact call.
\<close>

definition demo_q :: request where
  "demo_q = \<lparr>rq_Project = ''p1'', rq_ProviderID = ''x'', rq_ConnectionID = ''c'', rq_ServerID = ''aws'',
     rq_ToolName = ''applyx'', rq_Mode = ModeApprovedExecute, rq_Risk = RiskCloudMutation\<rparr>"

definition demo_rule :: rule where
  "demo_rule = \<lparr>ru_Project = ''p1'', ru_ProviderID = ''x'', ru_ConnectionID = ''c'', ru_ServerID = ''aws'',
     ru_ToolName = ''applyx'', ru_Modes = [ModeApprovedExecute], ru_Risk = RiskCloudMutation,
     ru_Effect = EffectAllow, ru_ApprovalRequired = True\<rparr>"

definition demo_policy :: policy where "demo_policy = \<lparr>po_Rules = [demo_rule]\<rparr>"

definition demo_airlock :: manager where
  "demo_airlock = demo_manager\<lparr>
     mg_allowlist := \<lparr>al_ServerTools = [(''aws'', [''applyx''])], al_ProjectTools = []\<rparr>,
     mg_file := \<lparr>pi_Allowlist = empty_allowlist, pi_Servers =
     [(''aws'', \<lparr>ps_DiscoveredAt = ''t'', ps_Tools = [(''applyx'', \<lparr>tr_Description = [],
         tr_InputSchemaHash = schema_hash None, tr_LastSeenAt = ''t'', tr_SchemaState = ''known'',
         tr_Risk = RiskCloudMutation\<rparr>)]\<rparr>)]\<rparr>\<rparr>"

definition demo_az :: "airlock_error authorizer" where
  "demo_az = \<lparr>az_policy = demo_policy, az_policies = None,
     az_evaluator = Some (evaluate_tool demo_airlock None)\<rparr>"

definition demo_key :: string where "demo_key = replicate 32 (CHR ''k'')"
definition demo_args :: tool_args where "demo_args = ''{}''"
definition demo_rid :: string where "demo_rid = ''run_000001''"

definition demo_binding :: string where
  "demo_binding = (case new_tool_approval_binding demo_key demo_rid demo_q demo_args of
     Inr b \<Rightarrow> b | Inl _ \<Rightarrow> [])"

lemma demo_text:
  "trim_space ''p1'' = ''p1''" "trim_space ''x'' = ''x''" "trim_space ''c'' = ''c''"
  "trim_space ''aws'' = ''aws''" "trim_space ''applyx'' = ''applyx''"
  "trim_space ''run_000001'' = ''run_000001''" "trim_space ''plan'' = ''plan''"
  "trim_space ''known'' = ''known''" "trim_space ''/p/tools.json'' = ''/p/tools.json''"
  by (rule trim_space_all_graphic, simp add: graphic_def)+

lemma demo_request: "validate_request demo_q = None"
  by (simp add: valid_request_iff clean_field_def demo_q_def demo_text mode_valid_def valid_risk_def)

lemma demo_rule_ok: "validate_rule demo_rule = None"
  by (simp add: validate_rule_def demo_rule_def demo_text mode_valid_def valid_risk_def Let_def
      effect_ne)

lemma demo_authorized: "authorize (Some demo_az) demo_q = approval_required"
proof -
  have e: "evaluate_tool demo_airlock None ''aws'' ''p1'' ''applyx'' = Inr
      (stored_entry ''aws'' ''p1'' (merged_allowlist demo_airlock empty_allowlist)
        (''applyx'', \<lparr>tr_Description = [], tr_InputSchemaHash = schema_hash None, tr_LastSeenAt = ''t'',
           tr_SchemaState = ''known'', tr_Risk = RiskCloudMutation\<rparr>))"
    by (simp add: evaluate_tool_def lookup_server_def demo_airlock_def demo_manager_def demo_server_def
        demo_text load_inventory_def Let_def evaluate_tool_from_snapshot_def tools_of_def)
  have l: "is_tool_allowlisted (merged_allowlist demo_airlock empty_allowlist) ''aws'' ''p1'' ''applyx''"
    by (simp add: merged_allowlist_def merge_allowlist_def allowlist_entries_def empty_allowlist_def
        demo_airlock_def demo_manager_def is_tool_allowlisted_def demo_text list_at_def contains_string_def)
  show ?thesis
    using demo_rule_ok demo_request
    by (simp add: authorize_def preflight_def demo_az_def policy_in_force_def validate_policy_def
        match_validated_def matches_validated_def demo_policy_def demo_q_def e stored_entry_def
        mode_allows_risk_def Let_def evaluate_matched_def decide_tool_with_allowlist_def l
        schema_review_required_def normalized_schema_state_def demo_text record_risk_def
        approval_decision_def) (simp add: demo_rule_def demo_q_def)
qed

lemma demo_binding: "new_tool_approval_binding demo_key demo_rid demo_q demo_args = Inr demo_binding"
proof -
  have "new_tool_call_request ''aws'' ''applyx'' ''{}'' =
      Inr \<lparr>tc_ServerID = ''aws'', tc_ToolName = ''applyx'', tc_Arguments = ''{}''\<rparr>"
    by (simp add: new_tool_call_request_def validate_tool_call_request_def
        validate_tool_call_identifier_def demo_text identifier_char_def ascii_letter_def
        max_tool_call_identifier_bytes_def Let_def)
  then obtain b where "new_tool_approval_binding demo_key demo_rid demo_q demo_args = Inr b"
    using demo_request
    by (simp add: new_tool_approval_binding_def demo_key_def min_tool_approval_binding_key_bytes_def
        demo_rid_def demo_text demo_args_def Let_def) (simp add: demo_q_def)
  then show ?thesis by (simp add: demo_binding_def)
qed

section \<open>The run, its gate, and the approved call\<close>

definition demo_create_q :: create_request where
  "demo_create_q = \<lparr>cr_Project = ''p1'', cr_Prompt = ''plan'', cr_ProviderID = ''x'',
     cr_Mode = ModeApprovedExecute, cr_CreatedBy = ''me''\<rparr>"

definition demo_bound_gate :: approval_gate where
  "demo_bound_gate = \<lparr>ag_ID = [], ag_Kind = ApprovalCloudWrite, ag_Status = [], ag_Summary = ''apply'',
     ag_CreatedAt = 0, ag_DecidedAt = None, ag_DecidedBy = [], ag_OperationBinding = demo_binding\<rparr>"

definition route1 :: store where "route1 = fst (create (new_store ''key'' []) demo_create_q 1)"
definition route2 :: store where "route2 = fst (add_approval route1 demo_rid demo_bound_gate 2)"
definition route3 :: store where
  "route3 = fst (decide_approval route2 demo_rid ''approval_000001'' ApprovalApproved ''me'' 3)"

lemma demo_provider: "sanitize_metadata ''x'' = ''x''"
  by code_simp

lemma route1_run: "st_runs route1 demo_rid =
    Some (created_run ''key'' demo_create_q ''p1'' ModeApprovedExecute demo_rid 1)"
  by (simp add: route1_def create_def new_store_def default_max_runs_def demo_create_q_def demo_text
      demo_ids evict_locked_def Let_def mode_valid_def demo_rid_def)

lemma route0_counter: "counter_ok (new_store ''key'' []) (OpCreate demo_create_q)"
  by (simp add: new_store_def)

lemma route2_run: "\<exists>r. st_runs route2 demo_rid = Some r \<and> run_ID r = demo_rid \<and> run_Project r = ''p1''
    \<and> run_ProviderID r = ''x'' \<and> run_Mode r = ModeApprovedExecute \<and> run_Status r = StatusWaitingApproval
    \<and> \<not> run_Canceled r \<and> (\<exists>g. run_Approvals r = [g] \<and> ag_ID g = ''approval_000001''
        \<and> ag_Status g = ApprovalPending \<and> ag_OperationBinding g = demo_binding)"
  using binding_storable [OF demo_binding]
  by (simp add: route2_def add_approval_def demo_bound_gate_def valid_approval_kind_def update_def
      add_approval_mut_def route1_run created_run_def demo_create_q_def demo_provider demo_ids Let_def)

lemma route3_run: "\<exists>r. st_runs route3 demo_rid = Some r \<and> run_ID r = demo_rid \<and> run_Project r = ''p1''
    \<and> run_ProviderID r = ''x'' \<and> run_Mode r = ModeApprovedExecute \<and> run_Status r = StatusRunning
    \<and> \<not> run_Canceled r \<and> (\<exists>g. run_Approvals r = [g] \<and> ag_ID g = ''approval_000001''
        \<and> ag_Status g = ApprovalApproved \<and> ag_OperationBinding g = demo_binding)"
proof -
  obtain r g where r: "st_runs route2 demo_rid = Some r" "run_ID r = demo_rid" "run_Project r = ''p1''"
    "run_ProviderID r = ''x''" "run_Mode r = ModeApprovedExecute" "run_Status r = StatusWaitingApproval"
    "\<not> run_Canceled r" "run_Approvals r = [g]" "ag_ID g = ''approval_000001''"
    "ag_Status g = ApprovalPending" "ag_OperationBinding g = demo_binding"
    using route2_run by blast
  then show ?thesis
    by (simp add: route3_def decide_approval_def update_def decide_mut_def append_log_def
        set_started_def Let_def)
qed

lemma route3_reach: "store_reach route3"
proof -
  have "store_step (new_store ''key'' []) route1"
    by (rule store_step.op [where p = "OpCreate demo_create_q" and now = 1
          and res = "snd (create (new_store ''key'' []) demo_create_q 1)"])
      (simp_all add: route0_counter route1_def prod_eq_iff del: counter_ok.simps)
  moreover have "store_step route1 route2"
    by (rule store_step.op [where p = "OpAddApproval demo_rid demo_bound_gate" and now = 2
          and res = "snd (add_approval route1 demo_rid demo_bound_gate 2)"])
      (simp_all add: route2_def prod_eq_iff)
  moreover have "store_step route2 route3"
    by (rule store_step.op [where p = "OpDecide demo_rid ''approval_000001'' ApprovalApproved ''me''"
          and now = 3
          and res = "snd (decide_approval route2 demo_rid ''approval_000001'' ApprovalApproved ''me'' 3)"])
      (simp_all add: route3_def prod_eq_iff)
  ultimately show ?thesis by (meson store_reach.start store_reach.step)
qed

definition demo_invoke :: invoker where
  "demo_invoke tool = Inr \<lparr>tk_Output = ''ok'', tk_IsError = False, tk_UntrustedOutput = True,
     tk_Redacted = False, tk_Truncated = False\<rparr>"

definition demo_call :: tool_call_request where
  "demo_call = \<lparr>tc_ServerID = ''aws'', tc_ToolName = ''applyx'', tc_Arguments = ''{}''\<rparr>"

abbreviation quiet :: interference where "quiet \<equiv> \<lambda>n s. s"

lemma quiet_ok: "env_ok quiet"
  by (simp add: env_ok_def)

lemma demo_new_call: "new_tool_call_request (rq_ServerID demo_q) (rq_ToolName demo_q) demo_args = Inr demo_call"
  by (simp add: new_tool_call_request_def validate_tool_call_request_def demo_q_def demo_args_def demo_call_def
      validate_tool_call_identifier_def demo_text identifier_char_def ascii_letter_def
      max_tool_call_identifier_bytes_def Let_def)

lemma demo_approved_call:
  "\<exists>t r. record_approved_tool_call pr quiet route3 4 demo_key demo_rid demo_q demo_args = (t, Inr (Some r))
     \<and> st_runs t demo_rid = Some r \<and> run_ID r = demo_rid \<and> in_scope r demo_q \<and> run_live r"
proof -
  obtain r g where r: "st_runs route3 demo_rid = Some r" "run_ID r = demo_rid" "run_Project r = ''p1''"
    "run_ProviderID r = ''x''" "run_Mode r = ModeApprovedExecute" "run_Status r = StatusRunning"
    "\<not> run_Canceled r" "run_Approvals r = [g]" "ag_ID g = ''approval_000001''"
    "ag_Status g = ApprovalApproved" "ag_OperationBinding g = demo_binding"
    using route3_run by blast
  have m: "binding_matches demo_binding demo_key demo_rid demo_q demo_args"
    using demo_binding by (simp add: binding_matches_iff)
  have b: "demo_binding \<noteq> []"
    using binding_storable [OF demo_binding] by (simp add: valid_approval_binding_def)
  have s: "in_scope r demo_q" using r by (simp add: in_scope_def demo_q_def)
  have i: "validate_run_id demo_rid = None" by (simp add: validate_run_id_def demo_rid_def demo_text)
  show ?thesis
    using r s i m b demo_binding demo_request
    by (simp add: record_approved_tool_call_def get_run_def Let_def guarded_store_def
        consume_approval_binding_def update_def consume_mut_def append_log_def in_scope_def run_live_def)
qed

definition demo_result :: tool_call_result where
  "demo_result = \<lparr>tk_Output = ''ok'', tk_IsError = False, tk_UntrustedOutput = True,
     tk_Redacted = False, tk_Truncated = False\<rparr>"

lemma demo_result_valid: "validate_tool_call_result demo_result = None"
proof -
  have "\<forall>r \<in> set airlock_secret_patterns. 2 < min_len r" by code_simp
  then have "\<not> list_ex (\<lambda>r. rx_search r ''ok'') airlock_secret_patterns"
    using rx_search_short [of "''ok''"] by (auto simp: list_ex_iff)
  moreover have "utf8_valid ''ok''" by code_simp
  ultimately show ?thesis
    by (simp add: validate_tool_call_result_def demo_result_def max_tool_call_output_bytes_def)
qed

lemma demo_execute: "\<exists>t x. execute (Some demo_az) pr demo_key demo_invoke (\<lambda>_. None) quiet route3 4
    demo_rid demo_q demo_args = (t, [demo_call], Inr x) \<and> er_Result x = Some demo_result"
proof -
  obtain t r where a: "record_approved_tool_call pr quiet route3 4 demo_key demo_rid demo_q demo_args
      = (t, Inr (Some r))" "st_runs t demo_rid = Some r" "run_ID r = demo_rid" "in_scope r demo_q" "run_live r"
    using demo_approved_call by blast
  have i: "validate_run_id demo_rid = None" by (simp add: validate_run_id_def demo_rid_def demo_text)
  have v: "validate_execution_route \<lparr>rr_Decision = allowed, rr_Run = r\<rparr> demo_rid demo_q = None"
    using a(3-5) by (auto simp: validate_execution_route_def Let_def in_scope_def run_live_def has_pending_iff)
  have "route_tool_call (Some demo_az) pr quiet route3 4 demo_key demo_rid demo_q demo_args =
      (t, Inr \<lparr>rr_Decision = allowed, rr_Run = r\<rparr>)"
    using a(1) i demo_request demo_binding demo_authorized by (simp add: route_tool_call_def)
  moreover have "demo_invoke demo_call = Inr demo_result" by (simp add: demo_invoke_def demo_result_def)
  ultimately show ?thesis
    using v a(2) demo_request demo_new_call demo_result_valid
    by (simp add: execute_def invoke_allowed_def get_run_def Let_def)
qed

section \<open>A first call and a saved policy\<close>

lemma demo_gate_routed:
  "\<exists>t r. route_tool_call (Some demo_az) pr quiet route1 2 demo_key demo_rid demo_q demo_args
      = (t, Inr \<lparr>rr_Decision = approval_required, rr_Run = r\<rparr>)"
proof -
  let ?r = "created_run ''key'' demo_create_q ''p1'' ModeApprovedExecute demo_rid 1"
  have i: "validate_run_id demo_rid = None" by (simp add: validate_run_id_def demo_rid_def demo_text)
  have s: "in_scope ?r demo_q"
    by (simp add: in_scope_def created_run_def demo_create_q_def demo_q_def demo_provider)
  have a: "record_approved_tool_call pr quiet route1 2 demo_key demo_rid demo_q demo_args = (route1, Inr None)"
    using i demo_request demo_binding s route1_run
    by (simp add: record_approved_tool_call_def get_run_def Let_def created_run_def)
  have k: "approval_kind (rq_Risk demo_q) = Some ApprovalCloudWrite"
    by (simp add: approval_kind_def demo_q_def)
  have c: "record_checks demo_rid demo_q approval_required = None"
    using i demo_request by (simp add: record_checks_def demo_q_def mode_allows_risk_def)
  have "\<exists>t r. record_route pr quiet route1 2 demo_rid demo_q approval_required demo_binding = (t, Inr r)"
    using c s k route1_run binding_storable [OF demo_binding]
    by (simp add: record_route_def record_mutation_def get_run_def from_store_def add_approval_def
        valid_approval_kind_def update_def add_approval_mut_def created_run_def Let_def)
  then show ?thesis
    using a i demo_request demo_binding demo_authorized binding_storable [OF demo_binding]
    by (auto simp: route_tool_call_def record_bound_approval_def new_approval_binding_def)
qed

definition demo_scope :: policy_scope where
  "demo_scope = \<lparr>sc_Project = ''p1'', sc_ProviderID = ''x''\<rparr>"

lemma demo_scope_ok: "scoped (demo_scope, \<lparr>po_Rules = []\<rparr>)"
  by (simp add: scoped_def validate_scope_def demo_scope_def demo_text Let_def)

lemma demo_scoped: "scoped (demo_scope, demo_policy)"
  using demo_scope_ok demo_rule_ok
  by (simp add: scoped_def demo_policy_def) (simp add: demo_rule_def demo_scope_def)

lemma demo_memory_save: "scoped (sc, p) \<Longrightarrow> pst_path s = [] \<Longrightarrow>
    memory_save s sc p = Some (s\<lparr>pst_policies := AList.update sc p (pst_policies s)\<rparr>)"
  by (simp add: memory_save_Some)

lemma demo_save_file: "\<exists>t disk'. policy_save (\<lambda>_. False) no_faults \<lparr>pst_policies = [], pst_path = ''/p''\<rparr>
    DiskMissing demo_scope demo_policy = (t, disk', None)"
proof -
  have "validate_scope demo_scope = None" "validate_policy demo_policy = None"
    "scope_mismatch demo_scope 0 (po_Rules demo_policy) = None"
    using demo_scoped by (auto simp: scoped_def scope_mismatch_None validate_policy_all)
  then show ?thesis
    by (simp add: policy_save_def persist_policy_store_locked_def load_policy_store_def no_faults_def
        persist_policy_store_def Let_def)
qed

end
