(* ===== verification/Routing_Props.thy ===== *)
theory Routing_Props
  imports Routing_Demo
begin

text \<open>
  The properties of the agent routing layer (\<open>internal/agentrouting\<close>), over the run store, the
  Airlock firewall and the tool transport values.
\<close>

section \<open>Execution\<close>

text \<open>C2: The executor reaches the transport at most once per call, with the exact request
  it was given, and only if the request is valid, the mode admits its risk, and either the
  authorizer allows it outright and it is read-only, or the authorizer asks for approval and
  this call spent a gate of the run that was approved for exactly this operation; and the run
  it looked up last is in scope, not cancelled, queued or running, with nothing pending.
  Other clients may change the store at any point.\<close>

theorem invocation_authorized:
  assumes "store_reach s" "env_ok env"
    "execute az pr key invoke ctx env s now rid q args = (t, calls, res)" "calls \<noteq> []"
  shows "calls = [\<lparr>tc_ServerID = rq_ServerID q, tc_ToolName = rq_ToolName q, tc_Arguments = args\<rparr>]
    \<and> validate_request q = None \<and> mode_allows_risk (rq_Mode q) (rq_Risk q)
    \<and> ctx 0 = None \<and> ctx 1 = None \<and> ctx 2 = None
    \<and> (de_Status (authorize az q) = DecisionAllowed \<and> rq_Risk q = RiskReadOnly \<or>
       de_Status (authorize az q) = DecisionApprovalRequired \<and>
         (\<exists>u v aid b. store_step\<^sup>*\<^sup>* s u \<and> spends u v rid aid b \<and> binding_matches b key rid q args
            \<and> store_step\<^sup>*\<^sup>* v t))
    \<and> (\<exists>r. st_runs t rid = Some r \<and> in_scope r q \<and> run_live r)"
proof -
  obtain rr u where x: "validate_request q = None" "ctx 0 = None" "ctx 1 = None" "t = env 4 u"
    "route_tool_call az pr env s now key rid q args = (u, Inr rr)"
    "de_Status (rr_Decision rr) = DecisionAllowed"
    "invoke_allowed ctx invoke t rr rid q
       \<lparr>tc_ServerID = rq_ServerID q, tc_ToolName = rq_ToolName q, tc_Arguments = args\<rparr> = (calls, res)"
    by (rule execute_reached [OF assms(3,4)])
  have g: "de_Status (authorize az q) \<noteq> DecisionDenied"
    using x(5,6) by (cases rule: route_allowed_cases) simp_all
  then have "preflight q = None" by (rule authorize_granted)
  then have "mode_allows_risk (rq_Mode q) (rq_Risk q)" by (cases q rule: preflight_cases) simp_all
  moreover have "de_Status (authorize az q) = DecisionAllowed \<and> rq_Risk q = RiskReadOnly \<or>
     de_Status (authorize az q) = DecisionApprovalRequired \<and>
         (\<exists>u v aid b. store_step\<^sup>*\<^sup>* s u \<and> spends u v rid aid b \<and> binding_matches b key rid q args
            \<and> store_step\<^sup>*\<^sup>* v t)"
    using x(5,6)
  proof (cases rule: route_allowed_cases)
    case approved
    then obtain r where "record_approved_tool_call pr env s now key rid q args = (u, Inr (Some r))" by blast
    from approved_call_spends [OF assms(1,2) this] env_okD [OF assms(2), of u 4] x(4) approved(1)
    show ?thesis by blast
  qed simp
  ultimately show ?thesis using invoke_allowed_calls [OF x(7) assms(4) x(6)] x(1-3) by simp
qed

theorem invocation_authorized_witness:
  "\<exists>t calls res. execute (Some demo_az) (\<lambda>_. True) demo_key demo_invoke (\<lambda>_. None) quiet route3 4
      demo_rid demo_q demo_args = (t, calls, res) \<and> calls = [demo_call]
    \<and> (\<exists>u v aid b. spends u v demo_rid aid b \<and> binding_matches b demo_key demo_rid demo_q demo_args)"
proof -
  obtain t res where e: "execute (Some demo_az) (\<lambda>_. True) demo_key demo_invoke (\<lambda>_. None) quiet route3 4
      demo_rid demo_q demo_args = (t, [demo_call], res)"
    using demo_execute by blast
  have "rq_Risk demo_q \<noteq> RiskReadOnly" by (simp add: demo_q_def)
  with invocation_authorized [OF route3_reach quiet_ok e] e show ?thesis by blast
qed

text \<open>C3: Over any history of calls of one executor, interleaved with anything else that
  happens to the store, the calls that reached the transport with an operation that is not
  read-only are paid for by pairwise distinct gates, one each: the gate belongs to the run of its
  call, was approved and bound to exactly its operation, and its binding was consumed while that
  call ran, on the path of the store from where the call began to where it ended.\<close>

theorem invocations_paid_once:
  assumes "exec_history pr key s calls t" "store_reach s"
  shows "\<exists>gates. distinct gates \<and> list_all2 (paid_by key) calls gates"
proof -
  obtain gs where "run_ledger.history s gs t" "list_all2 (paid_by key) calls gs"
    using exec_history_ledger [OF assms] by blast
  then show ?thesis using run_ledger.spent_once store_reach_inv [OF assms(2)] by blast
qed

theorem invocations_paid_once_witness:
  "\<exists>t gate. paid_by demo_key
      \<lparr>py_Run = demo_rid, py_Request = demo_q, py_Args = demo_args, py_Before = route3, py_After = t\<rparr> gate"
proof -
  obtain t res where e: "execute (Some demo_az) (\<lambda>_. True) demo_key demo_invoke (\<lambda>_. None) quiet route3 4
      demo_rid demo_q demo_args = (t, [demo_call], res)"
    using demo_execute by blast
  have "rq_Risk demo_q \<noteq> RiskReadOnly" by (simp add: demo_q_def)
  with exec_history.call [OF rtranclp.rtrancl_refl quiet_ok e exec_history.idle [OF rtranclp.rtrancl_refl]]
  have "exec_history (\<lambda>_. True) demo_key route3
      [\<lparr>py_Run = demo_rid, py_Request = demo_q, py_Args = demo_args, py_Before = route3, py_After = t\<rparr>] t" by simp
  from invocations_paid_once [OF this route3_reach] show ?thesis
    unfolding list_all2_Cons1 by blast
qed

text \<open>A result handed out by the executor is the transport's result for the one request
  made, and it passed the validation of tool results: marked untrusted, valid UTF-8, within
  the size bound, and free of the known credential patterns.\<close>

theorem results_are_validated:
  assumes "execute az pr key invoke ctx env s now rid q args = (t, calls, Inr x)"
  shows "er_Invoked x = (calls \<noteq> []) \<and> (er_Result x = None \<longleftrightarrow> calls = []) \<and>
    (\<forall>r. er_Result x = Some r \<longrightarrow> (\<exists>call. calls = [call] \<and> invoke call = Inr r) \<and>
       tk_UntrustedOutput r \<and> utf8_valid (tk_Output r)
       \<and> length (tk_Output r) \<le> max_tool_call_output_bytes
       \<and> (\<forall>p \<in> set airlock_secret_patterns. \<not> rx_search p (tk_Output r)))"
proof -
  have v: "tk_UntrustedOutput r \<and> utf8_valid (tk_Output r)
       \<and> length (tk_Output r) \<le> max_tool_call_output_bytes
       \<and> (\<forall>p \<in> set airlock_secret_patterns. \<not> rx_search p (tk_Output r))"
    if "validate_tool_call_result r = None" for r
    using that by (auto simp: validate_tool_call_result_def list_ex_iff split: if_splits)
  have i: "er_Invoked x \<and> calls = [tool] \<and> (\<exists>r. er_Result x = Some r \<and> invoke tool = Inr r
      \<and> validate_tool_call_result r = None)"
    if "invoke_allowed ctx invoke u rr rid q tool = (calls, Inr x)" for u rr tool
    using that unfolding invoke_allowed_def Let_def
    by (auto split: option.splits sum.splits if_splits)
  from assms consider (quiet) "calls = []" "er_Invoked x = False" "er_Result x = None"
    | (invoked) u rr tool where "invoke_allowed ctx invoke u rr rid q tool = (calls, Inr x)"
    unfolding execute_def Let_def
    by (auto split: option.splits sum.splits prod.splits if_splits)
  then show ?thesis
  proof cases
    case invoked
    from i [OF this] v show ?thesis by auto
  qed simp
qed

theorem results_are_validated_witness:
  "\<exists>t x r. execute (Some demo_az) (\<lambda>_. True) demo_key demo_invoke (\<lambda>_. None) quiet route3 4
      demo_rid demo_q demo_args = (t, [demo_call], Inr x) \<and> er_Invoked x \<and> er_Result x = Some r
    \<and> utf8_valid (tk_Output r) \<and> length (tk_Output r) \<le> max_tool_call_output_bytes"
proof -
  obtain t x where e: "execute (Some demo_az) (\<lambda>_. True) demo_key demo_invoke (\<lambda>_. None) quiet route3 4
      demo_rid demo_q demo_args = (t, [demo_call], Inr x)" "er_Result x = Some demo_result"
    using demo_execute by blast
  from results_are_validated [OF e(1)] e show ?thesis by auto
qed

end
