(* ===== verification/Authorizer_Props.thy ===== *)
theory Authorizer_Props
  imports Routing_Demo
begin

text \<open>
  The properties of the authorization side of \<open>internal/agentrouting\<close>: decisions, bindings of
  approvals to operations, and the policy store.
\<close>

section \<open>Decisions\<close>

text \<open>C6: Whatever the authorizer does not deny is backed on both sides. The request is valid
  and its mode admits its risk; the policy in force is valid and an allow rule of it names
  exactly this project, provider, connection, server, tool, risk and mode, and asks for an
  approval unless the risk is read-only; and the firewall's inventory holds a record of the tool
  with the requested risk, on which the firewall does not block it. What is allowed outright is
  read-only, its record has a known schema, and the rule asks for no approval.\<close>

theorem grants_are_backed:
  assumes "az_evaluator az = Some (evaluate_tool m fault)"
    "de_Status (authorize (Some az) q) \<noteq> DecisionDenied"
  shows "validate_request q = None \<and> mode_allows_risk (rq_Mode q) (rq_Risk q) \<and> rq_Risk q \<noteq> RiskUnknown
    \<and> (\<exists>p r e snapshot tr. policy_in_force az q = Inr p \<and> validate_policy p = None \<and> r \<in> set (po_Rules p)
        \<and> ru_Effect r = EffectAllow \<and> rule_matches r q \<and> (rq_Risk q = RiskReadOnly \<or> ru_ApprovalRequired r)
        \<and> load_inventory m fault = Inr snapshot
        \<and> map_of (tools_of snapshot (rq_ServerID q)) (rq_ToolName q) = Some tr \<and> record_risk tr = rq_Risk q
        \<and> evaluate_tool m fault (rq_ServerID q) (rq_Project q) (rq_ToolName q) = Inr e
        \<and> td_Status (te_Decision e) \<noteq> ''blocked''
        \<and> (de_Status (authorize (Some az) q) = DecisionAllowed \<longrightarrow> rq_Risk q = RiskReadOnly
             \<and> \<not> ru_ApprovalRequired r \<and> normalized_schema_state (tr_SchemaState tr) = ''known''))"
proof -
  obtain ev p r e where g: "az_evaluator az = Some ev" "policy_in_force az q = Inr p"
    "preflight q = None" "validate_policy p = None" "match_validated p q = Some r" "ru_Effect r \<noteq> EffectDeny"
    "ev (rq_ServerID q) (rq_Project q) (rq_ToolName q) = Inr e"
    "authorize (Some az) q = evaluate_matched r q (te_Decision e)"
    by (rule authorize_granted [OF assms(2)]) auto
  have ev: "evaluate_tool m fault (rq_ServerID q) (rq_Project q) (rq_ToolName q) = Inr e"
    using g(1,7) assms(1) by simp
  have pre: "validate_request q = None \<and> mode_allows_risk (rq_Mode q) (rq_Risk q)"
    using g(3) by (cases q rule: preflight_cases) simp_all
  then have trim: "trim_space (rq_ToolName q) = rq_ToolName q"
    by (simp add: valid_request_iff clean_field_def)
  note rule = granted_rule [OF g(4-6)]
  have vr: "validate_rule r = None" using g(4) rule validate_policy_all by blast
  have rm: "rule_matches r q" using vr pre rule by (simp add: rule_matches_def)
  have d: "td_Risk (te_Decision e) = rq_Risk q" "td_Status (te_Decision e) \<noteq> ''blocked''"
    using granted_decision [of r q "te_Decision e"] assms(2) g(8) by simp_all
  obtain snapshot tr where tr: "load_inventory m fault = Inr snapshot"
      "map_of (tools_of snapshot (rq_ServerID q)) (rq_ToolName q) = Some tr" "record_risk tr = rq_Risk q"
    by (rule evaluate_tool_recorded [OF ev]) (use d(1) rule trim in auto)
  have "rq_Risk q = RiskReadOnly \<and> \<not> ru_ApprovalRequired r
      \<and> normalized_schema_state (tr_SchemaState tr) = ''known''"
    if "de_Status (authorize (Some az) q) = DecisionAllowed"
  proof -
    have a: "td_Allowed (te_Decision e)" "\<not> ru_ApprovalRequired r"
      using evaluate_matched_allowed [of r q "te_Decision e"] that g(8) by simp_all
    have "normalized_schema_state (tr_SchemaState tr) = ''known''"
      by (rule evaluate_tool_allowed [OF ev a(1)]) (use tr(1,2) trim in simp)
    then show ?thesis using a(2) airlock.allowed_reads_only [OF assms(1) that] by simp
  qed
  then show ?thesis using pre rule g(2,4) rm tr ev d(2) by blast
qed

theorem grants_are_backed_witness:
  "rq_Risk demo_q \<noteq> RiskReadOnly \<and> de_Status (authorize (Some demo_az) demo_q) = DecisionApprovalRequired
    \<and> (\<exists>p r. policy_in_force demo_az demo_q = Inr p \<and> r \<in> set (po_Rules p) \<and> ru_ApprovalRequired r)"
proof -
  have ev: "az_evaluator demo_az = Some (evaluate_tool demo_airlock None)" by (simp add: demo_az_def)
  have st: "de_Status (authorize (Some demo_az) demo_q) \<noteq> DecisionDenied" by (simp add: demo_authorized)
  have "rq_Risk demo_q \<noteq> RiskReadOnly" by (simp add: demo_q_def)
  with grants_are_backed [OF ev st] show ?thesis by (auto simp: demo_authorized)
qed

text \<open>C37: The authorizer is the pure evaluation of policy and firewall: with the firewall as the
  evaluator, its answer is what \<open>Policy.Evaluate\<close> says for the policy in force and the
  firewall's decision, except where the evaluation has nothing to look at: no policy, or no
  answer of the firewall to a request that the policy does not already refuse.\<close>

theorem authorize_equals_evaluate:
  assumes "az_evaluator az = Some (evaluate_tool m fault)" "policy_in_force az q = Inr p"
    "evaluate_tool m fault (rq_ServerID q) (rq_Project q) (rq_ToolName q) = Inr e"
  shows "authorize (Some az) q = evaluate p q (te_Decision e)"
proof (cases q rule: preflight_cases)
  case pass
  then have "trim_space (rq_ToolName q) = rq_ToolName q"
    by (simp add: valid_request_iff clean_field_def)
  then have "te_ServerID e = rq_ServerID q" "te_Name e = rq_ToolName q" "te_Risk e = td_Risk (te_Decision e)"
    using evaluate_tool_entry [OF assms(3)] by simp_all
  moreover have "ru_Effect r = EffectDeny \<Longrightarrow> evaluate_matched r q d = denied ReasonPolicyDenied" for r d
    by (simp add: evaluate_matched_def)
  ultimately show ?thesis using assms pass(3)
    by (simp add: authorize_def evaluate_def evaluate_validated_def split: option.splits)
qed (simp_all add: authorize_def evaluate_def)

theorem authorize_equals_evaluate_witness:
  "\<exists>e. evaluate_tool demo_airlock None ''aws'' ''p1'' ''applyx'' = Inr e
     \<and> evaluate demo_policy demo_q (te_Decision e) = approval_required"
proof -
  obtain e where e: "evaluate_tool demo_airlock None (rq_ServerID demo_q) (rq_Project demo_q)
      (rq_ToolName demo_q) = Inr e"
    by (simp add: evaluate_tool_def lookup_server_def demo_airlock_def demo_manager_def demo_server_def
        demo_text load_inventory_def Let_def demo_q_def)
  have "policy_in_force demo_az demo_q = Inr demo_policy" by (simp add: policy_in_force_def demo_az_def)
  from authorize_equals_evaluate [OF _ this e] demo_authorized e show ?thesis
    by (simp add: demo_az_def demo_q_def)
qed

text \<open>With the firewall as its evaluator, whatever the authorizer answers is a valid
  decision, and it never reports the firewall as contradicting itself or the request's server or
  tool.\<close>

theorem decisions_are_consistent:
  assumes "az_evaluator az = Some (evaluate_tool m fault)"
  shows "validate_decision (authorize (Some az) q) = None \<and> de_Reason (authorize (Some az) q) \<notin>
    {ReasonAirlockServerMismatch, ReasonAirlockToolMismatch, ReasonInvalidAirlockDecision}"
  using authorize_valid airlock.no_contradictions [OF assms] by blast

theorem decisions_are_consistent_witness:
  "de_Reason (authorize (Some demo_az) demo_q) \<noteq> ReasonInvalidAirlockDecision"
proof -
  have "az_evaluator demo_az = Some (evaluate_tool demo_airlock None)" by (simp add: demo_az_def)
  from decisions_are_consistent [OF this] show ?thesis by blast
qed

section \<open>Recorded outcomes\<close>

text \<open>C36: When a tool call is routed, the run is left in the state the decision calls for,
  whatever happens to the store in between: a denial fails the run; an approval requirement
  leaves the run waiting, its last gate pending, of the kind that fits the risk and bound to
  exactly this operation; an allowance leaves a live run that waits for nothing.\<close>

theorem routed_calls_are_recorded:
  assumes "route_tool_call az pr env s now key rid q args = (t, Inr rr)"
  shows "st_runs t rid = Some (rr_Run rr) \<and> validate_decision (rr_Decision rr) = None
    \<and> (\<exists>b. recorded (rr_Decision rr) q b (rr_Run rr)
         \<and> (de_Status (rr_Decision rr) = DecisionApprovalRequired \<longrightarrow>
              binding_matches b key rid q args))"
proof (cases "de_Status (authorize az q) = DecisionApprovalRequired")
  case False
  then obtain r where r: "record_route pr (\<lambda>n. env (n + 2)) s now rid q (authorize az q) [] = (t, Inr r)"
      "rr = \<lparr>rr_Decision = authorize az q, rr_Run = r\<rparr>"
    using assms unfolding route_tool_call_def Let_def
    by (auto split: option.splits sum.splits prod.splits if_splits)
  show ?thesis using record_route_recorded [OF r(1)] False authorize_valid [of az q] by (auto simp: r(2))
next
  case True
  then consider (spent) r where "record_approved_tool_call pr env s now key rid q args = (t, Inr (Some r))"
      "rr = \<lparr>rr_Decision = allowed, rr_Run = r\<rparr>"
    | (gated) u r where "record_bound_approval pr (\<lambda>n. env (n + 2)) u now key rid q args (authorize az q) = (t, Inr r)"
      "rr = \<lparr>rr_Decision = authorize az q, rr_Run = r\<rparr>"
    using assms unfolding route_tool_call_def Let_def
    by (auto split: option.splits sum.splits prod.splits if_splits)
  then show ?thesis
  proof cases
    case spent
    from record_approved_recorded [OF spent(1)] show ?thesis by (simp add: spent(2) recorded_def)
  next
    case gated
    from record_bound_recorded [OF gated(1)] show ?thesis
      using authorize_valid [of az q] by (auto simp: gated(2) binding_matches_iff)
  qed
qed

theorem routed_calls_are_recorded_witness:
  "\<exists>t r. route_tool_call (Some demo_az) (\<lambda>_. True) quiet route1 2 demo_key demo_rid demo_q demo_args
      = (t, Inr \<lparr>rr_Decision = approval_required, rr_Run = r\<rparr>)
    \<and> run_Status r = StatusWaitingApproval
    \<and> binding_matches (ag_OperationBinding (last (run_Approvals r))) demo_key demo_rid demo_q demo_args"
proof -
  obtain t r where e: "route_tool_call (Some demo_az) (\<lambda>_. True) quiet route1 2 demo_key demo_rid demo_q demo_args
      = (t, Inr \<lparr>rr_Decision = approval_required, rr_Run = r\<rparr>)"
    using demo_gate_routed by blast
  from routed_calls_are_recorded [OF e] e show ?thesis by (auto simp: recorded_def)
qed

section \<open>Approvals are bound to operations\<close>

text \<open>A fresh approval binding is well formed, fits an approval gate of the run store
  unchanged, and matches the operation it was made for.\<close>

theorem binding_roundtrip:
  assumes "new_tool_approval_binding key rid q args = Inr b"
  shows "validate_binding b = None \<and> new_approval_binding b = Inr b \<and> binding_matches b key rid q args"
  using binding_valid [OF assms] binding_storable [OF assms] assms
  by (simp add: new_approval_binding_def binding_matches_iff)

theorem binding_roundtrip_witness:
  "\<exists>b. new_approval_binding b = Inr b \<and> binding_matches b demo_key demo_rid demo_q demo_args"
  using binding_roundtrip [OF demo_binding] by blast

text \<open>One binding stands for one operation: if it matches two operations of fewer than
  2 to the 64 bytes per field under one key, they are the same run, request and arguments, or
  their messages are two different messages with one HMAC-SHA-256.\<close>

theorem binding_identifies_operation:
  assumes "binding_matches b key rid q args" "binding_matches b key rid' q' args'"
    "\<forall>x \<in> set (operation_fields rid q args) \<union> set (operation_fields rid' q' args'). length x < 2 ^ 64"
  shows "(rid, q, args) = (rid', q', args') \<or>
    operation_message rid q args \<noteq> operation_message rid' q' args'
    \<and> hmac_sha256 key (operation_message rid q args) = hmac_sha256 key (operation_message rid' q' args')"
  using binding_collision [OF assms(1,2) _ assms(3)] by blast

theorem binding_identifies_operation_witness:
  "(demo_rid, demo_q, demo_args) = (demo_rid, demo_q, demo_args) \<or>
    operation_message demo_rid demo_q demo_args \<noteq> operation_message demo_rid demo_q demo_args
    \<and> hmac_sha256 demo_key (operation_message demo_rid demo_q demo_args) =
        hmac_sha256 demo_key (operation_message demo_rid demo_q demo_args)"
proof -
  have m: "binding_matches demo_binding demo_key demo_rid demo_q demo_args"
    using demo_binding by (simp add: binding_matches_iff)
  have "\<forall>x \<in> set (operation_fields demo_rid demo_q demo_args) \<union> set (operation_fields demo_rid demo_q demo_args).
      length x < 2 ^ 64"
    by (simp add: operation_fields_def demo_rid_def demo_q_def demo_args_def go_consts)
  from binding_identifies_operation [OF m m this] show ?thesis .
qed

section \<open>The policy store\<close>

text \<open>A store in memory is a map from scopes to policies: after any sequence of saves,
  the policy in force under a scope is the last one saved under it, or the earlier one if none
  was; and it only holds valid rules of that scope.\<close>

theorem policy_store_is_a_map:
  assumes "memory_inv s" "policy_memory.save_all s sps = Some t"
  shows "policy_get t sc = (case map_of (rev sps) sc of Some p \<Rightarrow> Inr p | None \<Rightarrow> policy_get s sc)
    \<and> (policy_get t sc = Inr p \<longrightarrow> scoped (sc, p))"
  using policy_memory.last_save_wins [OF assms]
    policy_memory.get_scoped [OF policy_memory.save_all_inv [OF assms]] by blast

theorem policy_store_is_a_map_witness:
  "\<exists>t. policy_memory.save_all new_policy_store [(demo_scope, \<lparr>po_Rules = []\<rparr>), (demo_scope, demo_policy)] = Some t
     \<and> policy_get t demo_scope = Inr demo_policy"
proof -
  have i: "memory_inv new_policy_store"
    by (simp add: memory_inv_def new_policy_store_def policies_ok_def)
  have "\<exists>t. policy_memory.save_all new_policy_store
      [(demo_scope, \<lparr>po_Rules = []\<rparr>), (demo_scope, demo_policy)] = Some t"
    using demo_memory_save [OF demo_scope_ok, of new_policy_store] demo_memory_save [OF demo_scoped]
    by (simp add: new_policy_store_def)
  then obtain t where t: "policy_memory.save_all new_policy_store
      [(demo_scope, \<lparr>po_Rules = []\<rparr>), (demo_scope, demo_policy)] = Some t" by blast
  from policy_store_is_a_map [OF i t] t show ?thesis by simp
qed

text \<open>C38: Saving to a persistent store and opening the file again is a round trip for a scope and a
  policy whose texts are valid UTF-8: the new process sees the saved policy under its scope and under
  every other scope what the file held before, exactly as the process that saved it. A save that fails
  changes neither the store nor the file.\<close>

theorem policy_file_roundtrip:
  assumes "policy_save big io s disk sc p = (t, disk', err)" "pst_path s \<noteq> []"
  shows "(err \<noteq> None \<longrightarrow> t = s \<and> disk' = disk) \<and>
    (err = None \<and> entry_utf8 (sc, p) \<longrightarrow> (\<exists>ps u. load_policy_store io disk = Inr ps
       \<and> new_persistent_policy_store no_faults disk' (pst_path s) = Inr u
       \<and> policy_get u sc = Inr p
       \<and> (\<forall>sc'. policy_get u sc' = policy_get t sc')
       \<and> (\<forall>sc'. sc' \<noteq> sc \<longrightarrow> policy_get u sc' = policy_get (s\<lparr>pst_policies := ps\<rparr>) sc')))"
proof (cases "err = None \<and> entry_utf8 (sc, p)")
  case True
  then obtain ps where ps: "load_policy_store io disk = Inr ps" "scoped (sc, p)"
      "t = s\<lparr>pst_policies := AList.update sc p ps\<rparr>" "disk' = DiskSnapshot (json_snapshot (AList.update sc p ps))"
    using policy_save_persistent [OF _ assms(2)] assms(1) by blast
  have ok: "policies_ok (AList.update sc p ps)" using update_ok [OF load_ok [OF ps(1)] ps(2)] .
  obtain ps' where r: "load_policy_store no_faults disk' = Inr ps'" "mset ps' = mset (AList.update sc p ps)"
    using reload_snapshot [OF ok update_utf8 [OF load_utf8 [OF ps(1)]], of no_faults] True ps(4) by (auto simp: no_faults_def)
  have m: "map_of ps' = map_of (AList.update sc p ps)"
    using mset_map_of [of "AList.update sc p ps" ps'] ok r(2) by (simp add: policies_ok_def)
  let ?u = "\<lparr>pst_policies = ps', pst_path = pst_path s\<rparr>"
  have "new_persistent_policy_store no_faults disk' (pst_path s) = Inr ?u"
    using r(1) by (simp add: new_persistent_policy_store_def no_faults_def)
  moreover have "policy_get ?u sc = Inr p"
    using ps(2) m by (simp add: policy_get_def scoped_def update_conv')
  moreover have "policy_get ?u sc' = policy_get t sc'" for sc'
    by (rule policy_get_cong) (simp add: m ps(3))
  moreover have "policy_get ?u sc' = policy_get (s\<lparr>pst_policies := ps\<rparr>) sc'" if "sc' \<noteq> sc" for sc'
    by (rule policy_get_cong) (use that in \<open>simp add: m update_conv'\<close>)
  ultimately show ?thesis using ps(1) True by blast
next
  case False
  then show ?thesis using policy_save_failed [of big io s disk sc p t disk'] assms(1) by (cases err) auto
qed

theorem policy_file_roundtrip_witness:
  "\<exists>t disk' u. policy_save (\<lambda>_. False) no_faults \<lparr>pst_policies = [], pst_path = ''/p''\<rparr> DiskMissing demo_scope demo_policy
      = (t, disk', None)
    \<and> new_persistent_policy_store no_faults disk' ''/p'' = Inr u \<and> policy_get u demo_scope = Inr demo_policy"
proof -
  let ?s = "\<lparr>pst_policies = [], pst_path = ''/p''\<rparr>"
  obtain t disk' where e: "policy_save (\<lambda>_. False) no_faults ?s DiskMissing demo_scope demo_policy = (t, disk', None)"
    using demo_save_file by blast
  moreover have "entry_utf8 (demo_scope, demo_policy)" by code_simp
  ultimately show ?thesis using policy_file_roundtrip [OF e] by fastforce
qed

text \<open>A scope that is not valid UTF-8 is accepted, but the file has another scope.\<close>

lemma invalid_scope_renamed:
  "validate_scope \<lparr>sc_Project = [CHR 0xFF], sc_ProviderID = ''p''\<rparr> = None
   \<and> json_scope \<lparr>sc_Project = [CHR 0xFF], sc_ProviderID = ''p''\<rparr>
     = \<lparr>sc_Project = [CHR 0xEF, CHR 0xBF, CHR 0xBD], sc_ProviderID = ''p''\<rparr>"
  by code_simp

end
