(* ===== verification/Plan_Parse.thy ===== *)
theory Plan_Parse
  imports Go_Json
begin

text \<open>
  The plan parser of \<open>internal/plan/plan.go\<close>: Terraform's plan output as a list of resource
  changes with a summary. \<open>json.Unmarshal\<close> is the argument \<open>decode\<close> (a line) or the decoded
  document; \<open>None\<close> is its error. A nil map is \<open>None\<close>; a Go map is an association list with
  distinct keys in the order a \<open>range\<close> visits it. In a \<open>json\<close> value a number is the text
  \<open>fmt\<close> prints for the decoded \<open>float64\<close>. \<open>PlanSummary.String\<close> is not used by the sources.
\<close>

section \<open>Data\<close>

type_synonym attributes = "(string \<times> json) list"

record field_change =
  fc_Path :: string
  fc_OldValue :: "json option"
  fc_NewValue :: "json option"
  fc_Sensitive :: bool
  fc_Computed :: bool

record resource_change =
  rc_Address :: string
  rc_Type :: string
  rc_Name :: string
  rc_Provider :: string
  rc_Action :: string
  rc_ActionReason :: string
  rc_Before :: "attributes option"
  rc_After :: "attributes option"
  rc_FieldChanges :: "field_change list"

record plan_summary =
  su_Add :: nat
  su_Change :: nat
  su_Destroy :: nat
  su_Import :: nat
  su_NoOp :: nat
  su_Total :: nat

record plan_result =
  pr_Changes :: "resource_change list"
  pr_Summary :: plan_summary
  pr_Warnings :: "string list"
  pr_Errors :: "string list"
  pr_HasChanges :: bool
  pr_RequiresApproval :: bool

record tf_resource =
  tf_Addr :: string
  tf_Type :: string
  tf_Name :: string
  tf_Provider :: string

record tf_change =
  tf_Resource :: tf_resource
  tf_Action :: string
  tf_Reason :: string

record tf_diagnostic =
  tf_Severity :: string
  tf_Summary :: string
  tf_Detail :: string

record tf_plan_line =
  tl_Type :: string
  tl_Change :: "tf_change option"
  tl_Diagnostic :: "tf_diagnostic option"

record tf_full_change =
  tfc_Actions :: "string list"
  tfc_Before :: "attributes option"
  tfc_After :: "attributes option"

record tf_full_resource_change =
  tfr_Address :: string
  tfr_Type :: string
  tfr_Name :: string
  tfr_Provider :: string
  tfr_Change :: tf_full_change

definition empty_summary :: plan_summary where
  "empty_summary = \<lparr>su_Add = 0, su_Change = 0, su_Destroy = 0, su_Import = 0, su_NoOp = 0, su_Total = 0\<rparr>"

definition empty_result :: plan_result where
  "empty_result = \<lparr>pr_Changes = [], pr_Summary = empty_summary, pr_Warnings = [], pr_Errors = [],
     pr_HasChanges = False, pr_RequiresApproval = False\<rparr>"

section \<open>Text of values\<close>

text \<open>What \<open>fmt.Sprintf("%v", x)\<close> prints: strings as they are, map keys sorted.\<close>

fun format_v :: "json \<Rightarrow> string"
and format_items :: "json list \<Rightarrow> string list"
and format_fields :: "(string \<times> json) list \<Rightarrow> (string \<times> string) list" where
  "format_v JNull = ''<nil>''"
| "format_v (JBool b) = (if b then ''true'' else ''false'')"
| "format_v (JNum n) = n"
| "format_v (JStr s) = s"
| "format_v (JArr xs) = ''['' @ join '' '' (format_items xs) @ '']''"
| "format_v (JObj fs) =
     ''map['' @ join '' '' (map (\<lambda>(k, v). k @ '':'' @ v) (sort_key fst (format_fields fs))) @ '']''"
| "format_items [] = []"
| "format_items (x # xs) = format_v x # format_items xs"
| "format_fields [] = []"
| "format_fields ((k, v) # fs) = (k, format_v v) # format_fields fs"

section \<open>Actions and differences\<close>

definition normalize_action :: "string \<Rightarrow> string" where
  "normalize_action a =
     (if a = ''create'' then ''create'' else if a = ''update'' then ''update''
      else if a = ''delete'' then ''delete'' else if a = ''replace'' then ''replace''
      else if a = ''read'' then ''read'' else if a = ''noop'' \<or> a = ''no-op'' then ''no-op''
      else a)"

definition actions_to_action :: "string list \<Rightarrow> string" where
  "actions_to_action as =
     (if length as = 1 then normalize_action (hd as)
      else if length as = 2 then ''replace'' else ''unknown'')"

definition joined_path :: "string \<Rightarrow> string \<Rightarrow> string" where
  "joined_path pre k = (if pre \<noteq> [] then pre @ ''.'' @ k else k)"

definition diff_change :: "string \<Rightarrow> json option \<Rightarrow> json option \<Rightarrow> field_change" where
  "diff_change path old new = \<lparr>fc_Path = path, fc_OldValue = old, fc_NewValue = new,
     fc_Sensitive = False, fc_Computed = False\<rparr>"

definition diff_before :: "string \<Rightarrow> attributes \<Rightarrow> string \<times> json \<Rightarrow> field_change list" where
  "diff_before pre after kv =
     (case map_of after (fst kv) of
        None \<Rightarrow> [diff_change (joined_path pre (fst kv)) (Some (snd kv)) None]
      | Some new \<Rightarrow>
          if format_v (snd kv) \<noteq> format_v new
          then [diff_change (joined_path pre (fst kv)) (Some (snd kv)) (Some new)] else [])"

definition diff_after :: "string \<Rightarrow> attributes \<Rightarrow> string \<times> json \<Rightarrow> field_change list" where
  "diff_after pre before kv =
     (if fst kv \<in> set (map fst before) then []
      else [diff_change (joined_path pre (fst kv)) None (Some (snd kv))])"

definition diff_maps :: "string \<Rightarrow> attributes \<Rightarrow> attributes \<Rightarrow> field_change list" where
  "diff_maps pre before after =
     concat (map (diff_before pre after) before) @ concat (map (diff_after pre before) after)"

section \<open>Counting\<close>

text \<open>The summary loop of \<open>ParseStreamOutput\<close> for one action: the summary and whether approval
  is required.\<close>

definition count_stream :: "plan_summary \<times> bool \<Rightarrow> string \<Rightarrow> plan_summary \<times> bool" where
  "count_stream acc a =
     (let s = fst acc in
      if a = ''create'' then (s\<lparr>su_Add := su_Add s + 1\<rparr>, snd acc)
      else if a = ''update'' then (s\<lparr>su_Change := su_Change s + 1\<rparr>, snd acc)
      else if a = ''delete'' then (s\<lparr>su_Destroy := su_Destroy s + 1\<rparr>, True)
      else if a = ''replace'' then (s\<lparr>su_Destroy := su_Destroy s + 1, su_Add := su_Add s + 1\<rparr>, True)
      else if a = ''read'' then acc
      else (s\<lparr>su_NoOp := su_NoOp s + 1\<rparr>, snd acc))"

text \<open>The switch of \<open>ParseFullPlan\<close>, which has no default.\<close>

definition count_full :: "plan_summary \<times> bool \<Rightarrow> string \<Rightarrow> plan_summary \<times> bool" where
  "count_full acc a =
     (let s = fst acc in
      if a = ''create'' then (s\<lparr>su_Add := su_Add s + 1\<rparr>, snd acc)
      else if a = ''update'' then (s\<lparr>su_Change := su_Change s + 1\<rparr>, snd acc)
      else if a = ''delete'' then (s\<lparr>su_Destroy := su_Destroy s + 1\<rparr>, True)
      else if a = ''replace'' then (s\<lparr>su_Destroy := su_Destroy s + 1, su_Add := su_Add s + 1\<rparr>, True)
      else acc)"

definition summarized :: "plan_result \<Rightarrow> plan_summary \<times> bool \<Rightarrow> plan_result" where
  "summarized r acc =
     (let s = fst acc; total = su_Add s + su_Change s + su_Destroy s in
      r\<lparr>pr_Summary := s\<lparr>su_Total := total\<rparr>, pr_HasChanges := 0 < total, pr_RequiresApproval := snd acc\<rparr>)"

section \<open>The two parsers\<close>

definition stream_change :: "tf_change \<Rightarrow> resource_change" where
  "stream_change c = \<lparr>rc_Address = tf_Addr (tf_Resource c), rc_Type = tf_Type (tf_Resource c),
     rc_Name = tf_Name (tf_Resource c), rc_Provider = tf_Provider (tf_Resource c),
     rc_Action = normalize_action (tf_Action c), rc_ActionReason = tf_Reason c,
     rc_Before = None, rc_After = None, rc_FieldChanges = []\<rparr>"

definition diagnostic_message :: "tf_diagnostic \<Rightarrow> string" where
  "diagnostic_message d =
     (if tf_Detail d \<noteq> [] then tf_Summary d @ '': '' @ tf_Detail d else tf_Summary d)"

definition stream_entry :: "plan_result \<Rightarrow> tf_plan_line \<Rightarrow> plan_result" where
  "stream_entry r l =
     (case (if tl_Type l = ''planned_change'' then tl_Change l else None) of
        Some c \<Rightarrow> r\<lparr>pr_Changes := pr_Changes r @ [stream_change c]\<rparr>
      | None \<Rightarrow>
          (case tl_Diagnostic l of
             None \<Rightarrow> r
           | Some d \<Rightarrow>
               if tf_Severity d = ''error''
               then r\<lparr>pr_Errors := pr_Errors r @ [diagnostic_message d]\<rparr>
               else r\<lparr>pr_Warnings := pr_Warnings r @ [diagnostic_message d]\<rparr>))"

definition stream_line :: "(string \<Rightarrow> tf_plan_line option) \<Rightarrow> plan_result \<Rightarrow> string \<Rightarrow> plan_result" where
  "stream_line decode r line0 =
     (let line = trim_space line0 in
      if line = [] then r
      else case decode line of None \<Rightarrow> r | Some l \<Rightarrow> stream_entry r l)"

definition parse_stream_output :: "(string \<Rightarrow> tf_plan_line option) \<Rightarrow> string \<Rightarrow> plan_result" where
  "parse_stream_output decode text =
     (let r = foldl (stream_line decode) empty_result (split_on (CHR 0x0A) (trim_space text)) in
      summarized r (foldl count_stream (empty_summary, False) (map rc_Action (pr_Changes r))))"

definition full_change :: "tf_full_resource_change \<Rightarrow> resource_change" where
  "full_change c =
     (let ch = tfr_Change c in
      \<lparr>rc_Address = tfr_Address c, rc_Type = tfr_Type c, rc_Name = tfr_Name c,
       rc_Provider = tfr_Provider c, rc_Action = actions_to_action (tfc_Actions ch),
       rc_ActionReason = [], rc_Before = tfc_Before ch, rc_After = tfc_After ch,
       rc_FieldChanges =
         (case (tfc_Before ch, tfc_After ch) of
            (Some before, Some after) \<Rightarrow> diff_maps [] before after
          | (None, Some after) \<Rightarrow> map (\<lambda>kv. diff_change (fst kv) None (Some (snd kv))) after
          | (_, None) \<Rightarrow> [])\<rparr>)"

definition parse_full_plan :: "tf_full_resource_change list option \<Rightarrow> plan_result option" where
  "parse_full_plan doc =
     map_option (\<lambda>cs. let r = empty_result\<lparr>pr_Changes := map full_change cs\<rparr> in
       summarized r (foldl count_full (empty_summary, False) (map rc_Action (pr_Changes r)))) doc"

section \<open>Facts\<close>

text \<open>How many entries of a list of actions are one of the given ones.\<close>

definition tally :: "string list \<Rightarrow> string set \<Rightarrow> nat" where
  "tally as A = length (filter (\<lambda>a. a \<in> A) as)"

lemma tally_simps [simp]:
  "tally [] A = 0" "tally (a # as) A = (if a \<in> A then 1 else 0) + tally as A"
  by (simp_all add: tally_def)

lemma tally_pos: "0 < tally as A \<longleftrightarrow> (\<exists>a \<in> set as. a \<in> A)"
  by (induction as) auto

lemma count_full_foldl:
  "foldl count_full (s, b) as =
     (s\<lparr>su_Add := su_Add s + tally as {''create'', ''replace''}, su_Change := su_Change s + tally as {''update''},
        su_Destroy := su_Destroy s + tally as {''delete'', ''replace''}\<rparr>,
      b \<or> 0 < tally as {''delete'', ''replace''})"
  by (induction as arbitrary: s b) (simp_all add: count_full_def Let_def)

definition stream_noop :: "string list \<Rightarrow> nat" where
  "stream_noop as = length (filter (\<lambda>a. a \<notin> {''create'', ''update'', ''delete'', ''replace'', ''read''}) as)"

lemma count_stream_foldl:
  "foldl count_stream (s, b) as =
     (s\<lparr>su_Add := su_Add s + tally as {''create'', ''replace''}, su_Change := su_Change s + tally as {''update''},
        su_Destroy := su_Destroy s + tally as {''delete'', ''replace''}, su_NoOp := su_NoOp s + stream_noop as\<rparr>,
      b \<or> 0 < tally as {''delete'', ''replace''})"
  by (induction as arbitrary: s b) (simp_all add: count_stream_def stream_noop_def Let_def)

text \<open>The attributes named by a difference.\<close>

definition shows_change :: "attributes \<Rightarrow> string \<times> json \<Rightarrow> bool" where
  "shows_change after kv = (case map_of after (fst kv) of None \<Rightarrow> True
     | Some w \<Rightarrow> format_v (snd kv) \<noteq> format_v w)"

lemma diff_before_paths: "fc_Path ` set (diff_before pre after kv) =
    (if shows_change after kv then {joined_path pre (fst kv)} else {})"
  by (simp add: diff_before_def diff_change_def shows_change_def split: option.splits)

lemma diff_after_paths: "fc_Path ` set (diff_after pre before kv) =
    (if fst kv \<in> fst ` set before then {} else {joined_path pre (fst kv)})"
  by (simp add: diff_after_def diff_change_def)

lemma diff_maps_paths:
  "p \<in> fc_Path ` set (diff_maps pre before after) \<longleftrightarrow>
     (\<exists>kv \<in> set before. shows_change after kv \<and> p = joined_path pre (fst kv))
   \<or> (\<exists>kv \<in> set after. fst kv \<notin> fst ` set before \<and> p = joined_path pre (fst kv))"
proof -
  have "fc_Path ` set (diff_maps pre before after) =
      (\<Union>kv \<in> set before. fc_Path ` set (diff_before pre after kv))
    \<union> (\<Union>kv \<in> set after. fc_Path ` set (diff_after pre before kv))"
    by (simp add: diff_maps_def image_Un image_UN)
  then show ?thesis unfolding diff_before_paths diff_after_paths by (simp split: if_splits) blast
qed

lemma visible_difference:
  assumes "distinct (map fst before)" "k \<in> fst ` set before \<union> fst ` set after"
    "map_option format_v (map_of before k) \<noteq> map_option format_v (map_of after k)"
  shows "k \<in> fc_Path ` set (diff_maps [] before after)"
proof (cases "k \<in> fst ` set before")
  case True
  then obtain v where v: "(k, v) \<in> set before" by auto
  then have "map_of before k = Some v" using assms(1) by simp
  then have "shows_change after (k, v)"
    using assms(3) by (cases "map_of after k") (simp_all add: shows_change_def)
  then show ?thesis unfolding diff_maps_paths using v by (force simp: joined_path_def)
next
  case False
  then obtain v where "(k, v) \<in> set after" using assms(2) by auto
  then show ?thesis unfolding diff_maps_paths using False by (force simp: joined_path_def)
qed

end
