(* ===== verification/Plan_Classify.thy ===== *)
theory Plan_Classify
  imports Plan_Parse Go_Quote
begin

text \<open>
  The semantic plan classifier of \<open>internal/plan/classifier.go\<close>: every planned change gets a
  risk, the risks are counted, and a plan with any change that is not safe must be
  acknowledged. \<open>printable\<close> is \<open>unicode.IsPrint\<close>, which \<open>%q\<close> consults for runes outside ASCII.
\<close>

section \<open>Data\<close>

definition RiskSafe :: string where [go_consts]: "RiskSafe = ''safe''"
definition RiskRisky :: string where [go_consts]: "RiskRisky = ''risky''"
definition PlanDestructive :: string where [go_consts]: "PlanDestructive = ''destructive''"
definition PlanUnknown :: string where [go_consts]: "PlanUnknown = ''unknown''"

lemma plan_risk_ne [simp, go_enum]:
  "RiskSafe \<noteq> RiskRisky" "RiskSafe \<noteq> PlanDestructive" "RiskSafe \<noteq> PlanUnknown"
  "RiskRisky \<noteq> RiskSafe" "RiskRisky \<noteq> PlanDestructive" "RiskRisky \<noteq> PlanUnknown"
  "PlanDestructive \<noteq> RiskSafe" "PlanDestructive \<noteq> RiskRisky" "PlanDestructive \<noteq> PlanUnknown"
  "PlanUnknown \<noteq> RiskSafe" "PlanUnknown \<noteq> RiskRisky" "PlanUnknown \<noteq> PlanDestructive"
  by (simp_all add: go_consts)

record classified_change =
  cc_Address :: string
  cc_Type :: string
  cc_Name :: string
  cc_Provider :: string
  cc_Action :: string
  cc_Risk :: string
  cc_Categories :: "string list"
  cc_Reason :: string
  cc_ReviewerFocus :: "string list"
  cc_FieldChanges :: "field_change list"

record classification_summary =
  cs_Safe :: nat
  cs_Risky :: nat
  cs_Destructive :: nat
  cs_Unknown :: nat
  cs_Total :: nat
  cs_RequiresAcknowledgment :: bool
  cs_Text :: string

record classification_result =
  cl_Summary :: classification_summary
  cl_Changes :: "classified_change list"
  cl_Markdown :: string

section \<open>Kinds of resources\<close>

definition contains_needle :: "string \<Rightarrow> string list \<Rightarrow> bool" where
  "contains_needle t needles \<longleftrightarrow> list_ex (contains t) needles"

definition is_iam_resource :: "string \<Rightarrow> bool" where
  "is_iam_resource ty = contains_needle (to_lower ty)
     [''_iam_'', ''iam'', ''role_assignment'', ''role_binding'', ''service_account'']"

definition is_network_exposure_resource :: "string \<Rightarrow> bool" where
  "is_network_exposure_resource ty = contains_needle (to_lower ty)
     [''security_group'', ''firewall'', ''network_acl'', ''network_security_group'', ''route'', ''listener'',
      ''load_balancer'', ''target_group'', ''vpc_peering'', ''internet_gateway'']"

definition is_stateful_resource :: "string \<Rightarrow> bool" where
  "is_stateful_resource ty = contains_needle (to_lower ty)
     [''db_instance'', ''db_cluster'', ''rds'', ''dynamodb'', ''s3_bucket'', ''storage_bucket'', ''sql_database'',
      ''postgresql'', ''mysql'', ''disk'', ''volume'', ''snapshot'', ''redis'', ''elasticache'', ''backup'']"

fun contains_public_cidr :: "json \<Rightarrow> bool"
and public_cidr_items :: "json list \<Rightarrow> bool"
and public_cidr_fields :: "(string \<times> json) list \<Rightarrow> bool" where
  "contains_public_cidr (JStr s) = (s = ''0.0.0.0/0'' \<or> s = ''::/0'')"
| "contains_public_cidr (JArr xs) = public_cidr_items xs"
| "contains_public_cidr (JObj fs) = public_cidr_fields fs"
| "contains_public_cidr JNull = False"
| "contains_public_cidr (JBool b) = False"
| "contains_public_cidr (JNum n) = False"
| "public_cidr_items [] = False"
| "public_cidr_items (x # xs) = (contains_public_cidr x \<or> public_cidr_items xs)"
| "public_cidr_fields [] = False"
| "public_cidr_fields ((k, v) # fs) = (contains_public_cidr v \<or> public_cidr_fields fs)"

definition public_after :: "resource_change \<Rightarrow> bool" where
  "public_after c = (case rc_After c of None \<Rightarrow> False | Some m \<Rightarrow> contains_public_cidr (JObj m))"

definition metadata_roots :: "string set" where
  "metadata_roots = {''tags'', ''tags_all'', ''description'', ''labels'', ''annotations''}"

definition is_metadata_only_update :: "field_change list \<Rightarrow> bool" where
  "is_metadata_only_update cs =
     (if cs = [] then False
      else list_all (\<lambda>c. hd (split_on (CHR ''.'') (fc_Path c)) \<in> metadata_roots) cs)"

definition action_label :: "string \<Rightarrow> string" where
  "action_label a =
     (if a = ''replace'' then ''Replacing'' else if a = ''delete'' then ''Deleting''
      else if a = ''create'' then ''Creating'' else if a = ''update'' then ''Updating'' else ''Changing'')"

section \<open>Classification\<close>

definition verdict :: "resource_change \<Rightarrow> string \<Rightarrow> string list \<Rightarrow> string \<Rightarrow> string \<Rightarrow> classified_change" where
  "verdict c risk categories reason focus = \<lparr>cc_Address = rc_Address c, cc_Type = rc_Type c, cc_Name = rc_Name c,
     cc_Provider = rc_Provider c, cc_Action = rc_Action c, cc_Risk = risk, cc_Categories = categories,
     cc_Reason = reason, cc_ReviewerFocus = [focus], cc_FieldChanges = rc_FieldChanges c\<rparr>"

text \<open>The second switch of \<open>classifyChange\<close>, reached by creations and by updates of more than
  metadata.\<close>

definition classify_by_resource :: "resource_change \<Rightarrow> classified_change" where
  "classify_by_resource c =
     (if is_iam_resource (rc_Type c) then
        verdict c RiskRisky [''identity''] ''IAM changes can expand permissions or trust relationships.''
          ''Review newly granted actions, principals, conditions, and assume-role paths.''
      else if is_network_exposure_resource (rc_Type c) \<or> public_after c then
        (if public_after c then
           verdict c RiskRisky [''network_exposure''] ''The planned network configuration includes public CIDR exposure.''
             ''Check 0.0.0.0/0 or ::/0 rules, ports, protocols, and source restrictions.''
         else
           verdict c RiskRisky [''network_exposure''] ''Network boundary changes can alter service reachability.''
             ''Review ingress, egress, route, firewall, listener, and peering changes.'')
      else if is_stateful_resource (rc_Type c) then
        verdict c RiskRisky [''data'', ''cost_sensitive'']
          ''Stateful data resources can affect durability, availability, or spend.''
          ''Review storage class, deletion protection, encryption, retention, and size changes.''
      else
        verdict c PlanUnknown [''unknown''] ''This change does not match a known safe pattern.''
          ''Inspect provider defaults, cost impact, and dependency changes before applying.'')"

definition classify_change :: "(nat \<Rightarrow> bool) \<Rightarrow> resource_change \<Rightarrow> classified_change" where
  "classify_change printable c =
     (if rc_Action c = ''no-op'' \<or> rc_Action c = ''read'' then
        verdict c RiskSafe [''safe_noise''] ''No infrastructure mutation is planned.''
          ''Confirm the plan contains no create, update, replace, or delete action for this resource.''
      else if rc_Action c = ''delete'' \<or> rc_Action c = ''replace'' then
        (if is_stateful_resource (rc_Type c) then
           verdict c PlanDestructive [''destructive'', ''data'']
             (action_label (rc_Action c) @ '' '' @ rc_Type c @ '' can remove or recreate stateful data.'')
             ''Verify backups, snapshots, retention policy, and restore steps before approving.''
         else
           verdict c PlanDestructive [''destructive'']
             (action_label (rc_Action c) @ '' '' @ rc_Type c @ '' can remove existing infrastructure.'')
             ''Confirm the resource is intentionally removed and downstream dependencies are understood.'')
      else if rc_Action c = ''update'' then
        (if is_metadata_only_update (rc_FieldChanges c) then
           verdict c RiskSafe [''safe_noise''] ''Only metadata fields such as tags or description changed.''
             (''Confirm tag and description values match the owning team'' @ [CHR 0x27] @ ''s conventions.'')
         else classify_by_resource c)
      else if rc_Action c = ''create'' then classify_by_resource c
      else
        verdict c PlanUnknown [''unknown'']
          (''Action '' @ go_quote printable (rc_Action c) @ '' is not recognized by the semantic classifier.'')
          ''Inspect the raw plan and provider documentation before approving.'')"

definition count_risk :: "classification_summary \<Rightarrow> classified_change \<Rightarrow> classification_summary" where
  "count_risk s c =
     (if cc_Risk c = RiskSafe then s\<lparr>cs_Safe := cs_Safe s + 1\<rparr>
      else if cc_Risk c = RiskRisky then s\<lparr>cs_Risky := cs_Risky s + 1\<rparr>
      else if cc_Risk c = PlanDestructive then s\<lparr>cs_Destructive := cs_Destructive s + 1\<rparr>
      else s\<lparr>cs_Unknown := cs_Unknown s + 1\<rparr>)"

definition count_part :: "nat \<Rightarrow> string \<Rightarrow> string list" where
  "count_part n label = (if 0 < n then [dec n @ '' '' @ label] else [])"

text \<open>The parts are joined by U+00B7 between blanks.\<close>

definition format_summary_text :: "classification_summary \<Rightarrow> string" where
  "format_summary_text s =
     (if cs_Total s = 0 then ''Semantic plan: no infrastructure changes''
      else ''Semantic plan: '' @ join [CHR '' '', CHR 0xC2, CHR 0xB7, CHR '' '']
        (count_part (cs_Safe s) ''safe'' @ count_part (cs_Risky s) ''risky''
         @ count_part (cs_Destructive s) ''destructive'' @ count_part (cs_Unknown s) ''unknown''))"

definition risk_rank :: "string \<Rightarrow> int" where
  "risk_rank r =
     (if r = PlanDestructive then 4 else if r = RiskRisky then 3 else if r = PlanUnknown then 2
      else if r = RiskSafe then 1 else 0)"

definition sort_by_risk :: "classified_change list \<Rightarrow> classified_change list" where
  "sort_by_risk cs = sort_key (\<lambda>c. (- risk_rank (cc_Risk c), cc_Address c)) cs"

definition newline :: string where "newline = [CHR 0x0A]"

definition markdown_line :: "classified_change \<Rightarrow> string" where
  "markdown_line c =
     ''- ['' @ to_upper (cc_Risk c) @ ''] '' @ cc_Action c @ '' `'' @ cc_Address c @ ''`: '' @ cc_Reason c
     @ (if cc_ReviewerFocus c \<noteq> [] then '' Focus: '' @ join '' '' (cc_ReviewerFocus c) else [])
     @ newline"

definition markdown_limit :: nat where "markdown_limit = 8"

definition format_classification_markdown :: "classification_result \<Rightarrow> string" where
  "format_classification_markdown r =
     (let head = cs_Text (cl_Summary r)
            @ (if cs_RequiresAcknowledgment (cl_Summary r)
               then newline @ newline @ ''Acknowledgement required before apply.'' else []) in
      if cl_Changes r = [] then head
      else
        let changes = sort_by_risk (cl_Changes r) in
        trim_space (head @ newline @ newline
          @ concat (map markdown_line (take markdown_limit changes))
          @ (if markdown_limit < length changes
             then ''- ...and '' @ dec (length changes - markdown_limit) @ '' more change(s)'' @ newline else [])))"

definition unknown_classification :: "string \<Rightarrow> classification_result" where
  "unknown_classification reason0 =
     (let reason = (if trim_space reason0 = [] then ''plan could not be classified'' else reason0);
          r = \<lparr>cl_Summary = \<lparr>cs_Safe = 0, cs_Risky = 0, cs_Destructive = 0, cs_Unknown = 1, cs_Total = 1,
                 cs_RequiresAcknowledgment = True, cs_Text = ''Semantic plan: 1 unknown change''\<rparr>,
               cl_Changes = [\<lparr>cc_Address = ''(plan)'', cc_Type = [], cc_Name = [], cc_Provider = [],
                 cc_Action = ''unknown'', cc_Risk = PlanUnknown, cc_Categories = [''unknown''],
                 cc_Reason = reason,
                 cc_ReviewerFocus = [''Inspect the saved plan output before applying.''],
                 cc_FieldChanges = []\<rparr>],
               cl_Markdown = []\<rparr>
      in r\<lparr>cl_Markdown := format_classification_markdown r\<rparr>)"

definition classify_plan :: "(nat \<Rightarrow> bool) \<Rightarrow> plan_result option \<Rightarrow> classification_result" where
  "classify_plan printable result =
     (case result of
        None \<Rightarrow> unknown_classification ''no plan result was available''
      | Some p \<Rightarrow>
          let classified = map (classify_change printable) (pr_Changes p);
              s = foldl count_risk \<lparr>cs_Safe = 0, cs_Risky = 0, cs_Destructive = 0, cs_Unknown = 0,
                    cs_Total = length classified, cs_RequiresAcknowledgment = False, cs_Text = []\<rparr> classified;
              s1 = s\<lparr>cs_RequiresAcknowledgment := 0 < cs_Risky s \<or> 0 < cs_Destructive s \<or> 0 < cs_Unknown s\<rparr>;
              s2 = s1\<lparr>cs_Text := format_summary_text s1\<rparr>;
              r = \<lparr>cl_Summary = s2, cl_Changes = classified, cl_Markdown = []\<rparr>
          in r\<lparr>cl_Markdown := format_classification_markdown r\<rparr>)"

text \<open>\<open>None\<close>: the document does not decode.\<close>

definition classify_full_plan ::
  "(nat \<Rightarrow> bool) \<Rightarrow> tf_full_resource_change list option \<Rightarrow> classification_result option" where
  "classify_full_plan printable doc =
     (case parse_full_plan doc of None \<Rightarrow> None | Some p \<Rightarrow> Some (classify_plan printable (Some p)))"

section \<open>Facts\<close>

lemma verdict_simps [simp]:
  "cc_Risk (verdict c r cat reason f) = r" "cc_Address (verdict c r cat reason f) = rc_Address c"
  "cc_Action (verdict c r cat reason f) = rc_Action c"
  by (simp_all add: verdict_def)

lemma classify_by_resource_risk:
  "cc_Risk (classify_by_resource c) = (if is_iam_resource (rc_Type c) \<or> is_network_exposure_resource (rc_Type c)
     \<or> public_after c \<or> is_stateful_resource (rc_Type c) then RiskRisky else PlanUnknown)"
  by (simp add: classify_by_resource_def)

lemma classify_risks:
  "cc_Risk (classify_change pr c) \<in> {RiskSafe, RiskRisky, PlanDestructive, PlanUnknown}"
  by (simp add: classify_change_def classify_by_resource_risk)

lemma classify_safe_iff:
  "cc_Risk (classify_change pr c) = RiskSafe \<longleftrightarrow> rc_Action c \<in> {''no-op'', ''read''}
     \<or> rc_Action c = ''update'' \<and> is_metadata_only_update (rc_FieldChanges c)"
  by (auto simp: classify_change_def classify_by_resource_risk)

lemma classify_destructive_iff:
  "cc_Risk (classify_change pr c) = PlanDestructive \<longleftrightarrow> rc_Action c \<in> {''delete'', ''replace''}"
  by (auto simp: classify_change_def classify_by_resource_risk)

definition risk_count :: "string \<Rightarrow> classified_change list \<Rightarrow> nat" where
  "risk_count r cs = length (filter (\<lambda>c. cc_Risk c = r) cs)"

lemma risk_count_simps [simp]:
  "risk_count r [] = 0" "risk_count r (c # cs) = (if cc_Risk c = r then 1 else 0) + risk_count r cs"
  by (simp_all add: risk_count_def)

lemma count_risk_foldl:
  assumes "\<forall>c \<in> set cs. cc_Risk c \<in> {RiskSafe, RiskRisky, PlanDestructive, PlanUnknown}"
  shows "foldl count_risk s cs = s\<lparr>cs_Safe := cs_Safe s + risk_count RiskSafe cs,
    cs_Risky := cs_Risky s + risk_count RiskRisky cs,
    cs_Destructive := cs_Destructive s + risk_count PlanDestructive cs,
    cs_Unknown := cs_Unknown s + risk_count PlanUnknown cs\<rparr>"
  using assms by (induction cs arbitrary: s) (auto simp: count_risk_def)

lemma risk_count_total:
  assumes "\<forall>c \<in> set cs. cc_Risk c \<in> {RiskSafe, RiskRisky, PlanDestructive, PlanUnknown}"
  shows "risk_count RiskSafe cs + risk_count RiskRisky cs + risk_count PlanDestructive cs
    + risk_count PlanUnknown cs = length cs"
  using assms by (induction cs) auto

lemma risk_count_pos: "0 < risk_count r cs \<longleftrightarrow> (\<exists>c \<in> set cs. cc_Risk c = r)"
  by (induction cs) auto

text \<open>The acknowledgment is required exactly if some change is not safe.\<close>

lemma plan_ack:
  "cs_RequiresAcknowledgment (cl_Summary (classify_plan pr (Some p))) \<longleftrightarrow>
     (\<exists>c \<in> set (pr_Changes p). cc_Risk (classify_change pr c) \<noteq> RiskSafe)"
proof -
  let ?cs = "map (classify_change pr) (pr_Changes p)"
  have all: "\<forall>c \<in> set ?cs. cc_Risk c \<in> {RiskSafe, RiskRisky, PlanDestructive, PlanUnknown}"
    using classify_risks by auto
  have "(\<exists>c \<in> set ?cs. cc_Risk c \<noteq> RiskSafe) \<longleftrightarrow>
      0 < risk_count RiskRisky ?cs \<or> 0 < risk_count PlanDestructive ?cs \<or> 0 < risk_count PlanUnknown ?cs"
    unfolding risk_count_pos using all by force
  then show ?thesis by (simp add: classify_plan_def Let_def count_risk_foldl [OF all])
qed

lemma metadata_onlyD:
  "is_metadata_only_update cs \<Longrightarrow> c \<in> set cs \<Longrightarrow> hd (split_on (CHR ''.'') (fc_Path c)) \<in> metadata_roots"
  by (auto simp: is_metadata_only_update_def list_all_iff split: if_splits)

end
