(* ===== verification/Plan_Props.thy ===== *)
theory Plan_Props
  imports Plan_Classify
begin

text \<open>
  The properties of the plan parser and of the semantic classifier (\<open>internal/plan\<close>).
\<close>

section \<open>Parsing\<close>

text \<open>The summary of a full plan counts its actions: an addition for every creation and
  replacement, a destruction for every deletion and replacement; the total is their sum; the
  plan has changes exactly if one of the four mutating actions occurs, and requires approval
  exactly if something is deleted or replaced. The streamed form of the same actions yields the
  same counts and the same approval requirement.\<close>

theorem plan_summaries_agree:
  assumes "parse_full_plan (Some cs) = Some r"
    "map rc_Action (pr_Changes (parse_stream_output decode text)) = map rc_Action (pr_Changes r)"
  shows "let as = map (actions_to_action \<circ> tfc_Actions \<circ> tfr_Change) cs; s = pr_Summary r;
             u = parse_stream_output decode text in
    su_Add s = tally as {''create'', ''replace''} \<and> su_Change s = tally as {''update''}
    \<and> su_Destroy s = tally as {''delete'', ''replace''} \<and> su_Total s = su_Add s + su_Change s + su_Destroy s
    \<and> pr_HasChanges r = (\<exists>a \<in> set as. a \<in> {''create'', ''update'', ''delete'', ''replace''})
    \<and> pr_RequiresApproval r = (\<exists>a \<in> set as. a \<in> {''delete'', ''replace''})
    \<and> pr_Summary u = s\<lparr>su_NoOp := stream_noop as\<rparr>
    \<and> pr_HasChanges u = pr_HasChanges r \<and> pr_RequiresApproval u = pr_RequiresApproval r"
proof -
  let ?as = "map (actions_to_action \<circ> tfc_Actions \<circ> tfr_Change) cs"
  let ?u = "foldl (stream_line decode) empty_result (split_on (CHR 0x0A) (trim_space text))"
  have r: "r = summarized (empty_result\<lparr>pr_Changes := map full_change cs\<rparr>)
      (foldl count_full (empty_summary, False) ?as)"
    using assms(1) by (simp add: parse_full_plan_def Let_def comp_def full_change_def cong: map_cong)
  have a: "map rc_Action (pr_Changes ?u) = ?as"
    using assms(2) by (simp add: parse_stream_output_def r summarized_def Let_def comp_def full_change_def)
  have u: "parse_stream_output decode text = summarized ?u (foldl count_stream (empty_summary, False) ?as)"
    unfolding parse_stream_output_def Let_def a [symmetric] by simp
  have mut: "(\<exists>a \<in> set ?as. a \<in> {''create'', ''update'', ''delete'', ''replace''}) \<longleftrightarrow>
      0 < tally ?as {''create'', ''replace''} + tally ?as {''update''} + tally ?as {''delete'', ''replace''}"
    unfolding add_gr_0 tally_pos by blast
  have del: "(\<exists>a \<in> set ?as. a \<in> {''delete'', ''replace''}) \<longleftrightarrow> 0 < tally ?as {''delete'', ''replace''}"
    unfolding tally_pos by blast
  show ?thesis unfolding Let_def mut del unfolding u unfolding r
    by (simp add: summarized_def Let_def count_full_foldl count_stream_foldl empty_summary_def)
qed

definition demo_replace :: tf_full_resource_change where
  "demo_replace = \<lparr>tfr_Address = ''aws_vpc.main'', tfr_Type = ''aws_vpc'', tfr_Name = ''main'', tfr_Provider = ''aws'',
     tfr_Change = \<lparr>tfc_Actions = [''delete'', ''create''], tfc_Before = None, tfc_After = None\<rparr>\<rparr>"

definition demo_line :: tf_plan_line where
  "demo_line = \<lparr>tl_Type = ''planned_change'', tl_Change = Some \<lparr>tf_Resource = \<lparr>tf_Addr = ''aws_vpc.main'',
     tf_Type = ''aws_vpc'', tf_Name = ''main'', tf_Provider = ''aws''\<rparr>, tf_Action = ''replace'', tf_Reason = []\<rparr>,
     tl_Diagnostic = None\<rparr>"

theorem plan_summaries_agree_witness:
  "\<exists>r. parse_full_plan (Some [demo_replace]) = Some r \<and> su_Total (pr_Summary r) = 2 \<and> pr_RequiresApproval r
    \<and> pr_RequiresApproval (parse_stream_output (\<lambda>_. Some demo_line) ''x'')"
proof -
  let ?r = "the (parse_full_plan (Some [demo_replace]))"
  have r: "parse_full_plan (Some [demo_replace]) = Some ?r" by (simp add: parse_full_plan_def)
  have a: "map rc_Action (pr_Changes (parse_stream_output (\<lambda>_. Some demo_line) ''x'')) = map rc_Action (pr_Changes ?r)"
    by code_simp
  have "actions_to_action [''delete'', ''create''] = ''replace''" by (simp add: actions_to_action_def)
  then show ?thesis
    using plan_summaries_agree [OF r a] r by (auto simp: Let_def demo_replace_def)
qed

section \<open>Classification\<close>

text \<open>What decides the risk of a change, said apart from the code of the classifier: the words in its
  type, a public CIDR anywhere in the planned value, and the attributes that differ.\<close>

inductive occurs :: "string \<Rightarrow> json \<Rightarrow> bool" where
  here: "occurs s (JStr s)"
| item: "x \<in> set xs \<Longrightarrow> occurs s x \<Longrightarrow> occurs s (JArr xs)"
| field: "kv \<in> set kvs \<Longrightarrow> occurs s (snd kv) \<Longrightarrow> occurs s (JObj kvs)"

inductive_simps occurs_simps [simp]:
  "occurs s (JStr t)" "occurs s (JArr xs)" "occurs s (JObj kvs)" "occurs s JNull" "occurs s (JBool b)" "occurs s (JNum n)"

lemma public_cidr_occurs:
  "contains_public_cidr v \<longleftrightarrow> occurs ''0.0.0.0/0'' v \<or> occurs ''::/0'' v"
  "public_cidr_items vs \<longleftrightarrow> (\<exists>v \<in> set vs. occurs ''0.0.0.0/0'' v \<or> occurs ''::/0'' v)"
  "public_cidr_fields kvs \<longleftrightarrow> (\<exists>kv \<in> set kvs. occurs ''0.0.0.0/0'' (snd kv) \<or> occurs ''::/0'' (snd kv))"
  by (induction v and vs and kvs rule: contains_public_cidr_public_cidr_items_public_cidr_fields.induct) (auto, force+)

definition sensitive_words :: "string set" where
  "sensitive_words =
    {''iam'', ''role_assignment'', ''role_binding'', ''service_account''}
    \<union> {''security_group'', ''firewall'', ''network_acl'', ''route'', ''listener'', ''load_balancer'', ''target_group'',
       ''vpc_peering'', ''internet_gateway''}
    \<union> {''db_instance'', ''db_cluster'', ''rds'', ''dynamodb'', ''s3_bucket'', ''storage_bucket'', ''sql_database'',
       ''postgresql'', ''mysql'', ''disk'', ''volume'', ''snapshot'', ''redis'', ''elasticache'', ''backup''}"

definition sensitive_type :: "string \<Rightarrow> bool" where
  "sensitive_type ty \<longleftrightarrow> (\<exists>w \<in> sensitive_words. \<exists>l r. to_lower ty = l @ w @ r)"

definition metadata_path :: "string \<Rightarrow> bool" where
  "metadata_path p \<longleftrightarrow> (\<exists>root \<in> {''tags'', ''tags_all'', ''description'', ''labels'', ''annotations''}.
     p = root \<or> (\<exists>below. p = root @ ''.'' @ below))"

definition change_risk :: "resource_change \<Rightarrow> string" where
  "change_risk c =
     (if rc_Action c \<in> {''delete'', ''replace''} then ''destructive''
      else if rc_Action c \<in> {''no-op'', ''read''}
        \<or> rc_Action c = ''update'' \<and> rc_FieldChanges c \<noteq> [] \<and> (\<forall>f \<in> set (rc_FieldChanges c). metadata_path (fc_Path f))
      then ''safe''
      else if rc_Action c \<in> {''create'', ''update''}
        \<and> (sensitive_type (rc_Type c)
           \<or> (\<exists>after. rc_After c = Some after \<and> (occurs ''0.0.0.0/0'' (JObj after) \<or> occurs ''::/0'' (JObj after))))
      then ''risky''
      else ''unknown'')"

lemma contains_within: "contains s (a @ w @ b) \<Longrightarrow> contains s w"
  unfolding contains_iff by (metis append.assoc)

lemma sensitive_type_iff:
  "is_iam_resource ty \<or> is_network_exposure_resource ty \<or> is_stateful_resource ty \<longleftrightarrow> sensitive_type ty"
proof -
  have "contains (to_lower ty) ''_iam_'' \<Longrightarrow> contains (to_lower ty) ''iam''"
    using contains_within [of _ "''_''" "''iam''" "''_''"] by simp
  moreover have "contains (to_lower ty) ''network_security_group'' \<Longrightarrow> contains (to_lower ty) ''security_group''"
    using contains_within [of _ "''network_''" "''security_group''" "[]"] by simp
  ultimately show ?thesis
    unfolding is_iam_resource_def is_network_exposure_resource_def is_stateful_resource_def contains_needle_def
      sensitive_type_def sensitive_words_def contains_iff [symmetric] by auto
qed

lemma split_on_hd: "hd (split_on c s) = takeWhile (\<lambda>d. d \<noteq> c) s"
  by (induction c s rule: split_on.induct) (auto split: list.splits)

lemma metadata_path_iff: "hd (split_on (CHR ''.'') p) \<in> metadata_roots \<longleftrightarrow> metadata_path p"
proof -
  have "takeWhile (\<lambda>d. d \<noteq> CHR ''.'') p = root \<longleftrightarrow> p = root \<or> (\<exists>below. p = root @ ''.'' @ below)"
    if "CHR ''.'' \<notin> set root" for root
  proof
    assume t: "takeWhile (\<lambda>d. d \<noteq> CHR ''.'') p = root"
    show "p = root \<or> (\<exists>below. p = root @ ''.'' @ below)"
    proof (cases "dropWhile (\<lambda>d. d \<noteq> CHR ''.'') p")
      case Nil
      then show ?thesis using t takeWhile_dropWhile_id [of "\<lambda>d. d \<noteq> CHR ''.''" p] by (metis append_Nil2)
    next
      case (Cons d below)
      then have "d = CHR ''.''" using hd_dropWhile [of "\<lambda>d. d \<noteq> CHR ''.''" p] by simp
      then show ?thesis using t Cons takeWhile_dropWhile_id [of "\<lambda>d. d \<noteq> CHR ''.''" p] by (metis append_Cons append_Nil)
    qed
  next
    have n: "\<forall>d \<in> set root. d \<noteq> CHR ''.''" using that by blast
    then have n': "takeWhile (\<lambda>d. d \<noteq> CHR ''.'') root = root" by (rule takeWhile_eq_all_conv [THEN iffD2])
    assume "p = root \<or> (\<exists>below. p = root @ ''.'' @ below)"
    then show "takeWhile (\<lambda>d. d \<noteq> CHR ''.'') p = root"
      using n' takeWhile_append2 [of root "\<lambda>d. d \<noteq> CHR ''.''"] n by (elim disjE exE) simp_all
  qed
  then show ?thesis by (simp add: split_on_hd metadata_roots_def metadata_path_def)
qed

lemma classify_change_risk: "cc_Risk (classify_change printable c) = change_risk c"
proof -
  have m: "is_metadata_only_update fs \<longleftrightarrow> fs \<noteq> [] \<and> (\<forall>f \<in> set fs. metadata_path (fc_Path f))" for fs
    by (simp add: is_metadata_only_update_def metadata_path_iff list_all_iff)
  have p: "public_after c \<longleftrightarrow>
      (\<exists>after. rc_After c = Some after \<and> (occurs ''0.0.0.0/0'' (JObj after) \<or> occurs ''::/0'' (JObj after)))"
    by (cases "rc_After c") (simp_all only: public_after_def public_cidr_occurs option.case option.simps ex_simps simp_thms)
  show ?thesis
    unfolding classify_change_def change_risk_def p [symmetric] m [symmetric]
    using sensitive_type_iff [of "rc_Type c"] by (auto simp: classify_by_resource_risk go_consts)
qed

text \<open>C40: The classifier answers for every change, in order, and the risk of a change is determined by
  the change alone: a deletion or replacement is destructive; a no-op, a read and an update in which
  every differing attribute is a tag, label, annotation or description is safe; any other creation or
  update is risky exactly if a word for identity, network or stateful resources is in its type or a
  public CIDR occurs anywhere in the planned value, and unknown otherwise, like every other action. The
  summary counts these risks, they add up to the total, and an acknowledgment is required exactly if
  some change is not safe.\<close>

theorem classification_is_exact:
  "let r = classify_plan printable (Some p); s = cl_Summary r; risks = map change_risk (pr_Changes p);
       count = (\<lambda>risk. length (filter (\<lambda>x. x = risk) risks)) in
     map cc_Address (cl_Changes r) = map rc_Address (pr_Changes p) \<and> map cc_Risk (cl_Changes r) = risks
   \<and> cs_Safe s = count ''safe'' \<and> cs_Risky s = count ''risky'' \<and> cs_Destructive s = count ''destructive''
   \<and> cs_Unknown s = count ''unknown'' \<and> cs_Total s = length (pr_Changes p)
   \<and> cs_Safe s + cs_Risky s + cs_Destructive s + cs_Unknown s = cs_Total s
   \<and> cs_RequiresAcknowledgment s = (\<exists>c \<in> set (pr_Changes p). change_risk c \<noteq> ''safe'')"
proof -
  let ?cs = "map (classify_change printable) (pr_Changes p)"
  have all: "\<forall>c \<in> set ?cs. cc_Risk c \<in> {RiskSafe, RiskRisky, PlanDestructive, PlanUnknown}"
    using classify_risks by auto
  have n: "risk_count risk (map (classify_change printable) xs) = length (filter (\<lambda>x. x = risk) (map change_risk xs))" for risk xs
    by (induction xs) (simp_all add: classify_change_risk)
  have a: "cc_Address (classify_change printable c) = rc_Address c" for c
    by (simp add: classify_change_def classify_by_resource_def)
  have r: "RiskSafe = ''safe''" "RiskRisky = ''risky''" "PlanDestructive = ''destructive''" "PlanUnknown = ''unknown''"
    by (simp_all add: go_consts)
  note f = count_risk_foldl [OF all] risk_count_total [OF all]
  show ?thesis
    using plan_ack [of printable p] f(2)
    by (simp add: classify_plan_def Let_def f(1) n a classify_change_risk r comp_def del: filter_map)
qed

text \<open>C23: A full plan that needs no acknowledgment is noise: each of its changes either does
  nothing (no-op or read), or updates a resource in place and every attribute in which the
  printed old and new values differ, or which only one side has, is a tag, label, annotation or
  description. In particular nothing is created, deleted or replaced, and no approval is
  required; a plan that could not be read always needs an acknowledgment.\<close>

theorem safe_plans_are_noise:
  assumes "classify_full_plan printable (Some cs) = Some r" "\<not> cs_RequiresAcknowledgment (cl_Summary r)"
    "c \<in> set cs"
  shows "let a = actions_to_action (tfc_Actions (tfr_Change c)) in
    a \<in> {''no-op'', ''read''} \<or>
    a = ''update'' \<and> (\<forall>before after k. tfc_Before (tfr_Change c) = Some before \<and> tfc_After (tfr_Change c) = Some after \<and>
       (k \<in> fst ` set before \<union> fst ` set after) \<and>
       map_option format_v (map_of before k) \<noteq> map_option format_v (map_of after k) \<and> distinct (map fst before) \<longrightarrow>
       hd (split_on (CHR ''.'') k) \<in> metadata_roots)"
proof -
  let ?a = "actions_to_action (tfc_Actions (tfr_Change c))"
  obtain p where p: "parse_full_plan (Some cs) = Some p" "r = classify_plan printable (Some p)"
    using assms(1) by (auto simp: classify_full_plan_def split: option.splits)
  have ch: "pr_Changes p = map full_change cs"
    using p(1) by (auto simp: parse_full_plan_def summarized_def Let_def)
  have "cc_Risk (classify_change printable (full_change c)) = RiskSafe"
    using assms(2,3) plan_ack [of printable p] ch p(2) by auto
  then have s: "?a \<in> {''no-op'', ''read''} \<or> ?a = ''update'' \<and> is_metadata_only_update (rc_FieldChanges (full_change c))"
    unfolding classify_safe_iff by (simp add: full_change_def Let_def)
  have "hd (split_on (CHR ''.'') k) \<in> metadata_roots"
    if m: "is_metadata_only_update (rc_FieldChanges (full_change c))"
      and b: "tfc_Before (tfr_Change c) = Some before" "tfc_After (tfr_Change c) = Some after"
      and k: "k \<in> fst ` set before \<union> fst ` set after"
        "map_option format_v (map_of before k) \<noteq> map_option format_v (map_of after k)" "distinct (map fst before)"
    for before after k
  proof -
    have "k \<in> fc_Path ` set (diff_maps [] before after)"
      using visible_difference [OF k(3,1,2)] .
    then show ?thesis using metadata_onlyD [OF m] b by (auto simp: full_change_def Let_def)
  qed
  then show ?thesis using s unfolding Let_def by blast
qed

definition demo_tagging :: tf_full_resource_change where
  "demo_tagging = \<lparr>tfr_Address = ''aws_vpc.main'', tfr_Type = ''aws_vpc'', tfr_Name = ''main'', tfr_Provider = ''aws'',
     tfr_Change = \<lparr>tfc_Actions = [''update''],
       tfc_Before = Some [(''tags'', JObj []), (''cidr'', JStr ''10.0.0.0/8'')],
       tfc_After = Some [(''cidr'', JStr ''10.0.0.0/8''), (''tags'', JObj [(''env'', JStr ''dev'')])]\<rparr>\<rparr>"

theorem safe_plans_are_noise_witness:
  "\<exists>r. classify_full_plan (\<lambda>_. True) (Some [demo_tagging]) = Some r
    \<and> \<not> cs_RequiresAcknowledgment (cl_Summary r) \<and> hd (split_on (CHR ''.'') ''tags'') \<in> metadata_roots"
proof -
  let ?r = "classify_plan (\<lambda>_. True) (parse_full_plan (Some [demo_tagging]))"
  have r: "classify_full_plan (\<lambda>_. True) (Some [demo_tagging]) = Some ?r"
    by (simp add: classify_full_plan_def parse_full_plan_def)
  have a: "\<not> cs_RequiresAcknowledgment (cl_Summary ?r)" by code_simp
  let ?b = "[(''tags'', JObj []), (''cidr'', JStr ''10.0.0.0/8'')]"
  let ?c = "[(''cidr'', JStr ''10.0.0.0/8''), (''tags'', JObj [(''env'', JStr ''dev'')])]"
  have t: "tfc_Before (tfr_Change demo_tagging) = Some ?b" "tfc_After (tfr_Change demo_tagging) = Some ?c"
    "actions_to_action (tfc_Actions (tfr_Change demo_tagging)) = ''update''"
    by (simp_all add: demo_tagging_def actions_to_action_def normalize_action_def)
  have n: "''update'' \<notin> {''no-op'', ''read''}" "demo_tagging \<in> set [demo_tagging]" by simp_all
  have d: "map_option format_v (map_of ?b ''tags'') \<noteq> map_option format_v (map_of ?c ''tags'')"
    "''tags'' \<in> fst ` set ?b \<union> fst ` set ?c" "distinct (map fst ?b)"
    by (code_simp, simp_all)
  have "hd (split_on (CHR ''.'') ''tags'') \<in> metadata_roots"
  proof (rule disjE [OF safe_plans_are_noise [OF r a n(2), unfolded Let_def t(3)]], goal_cases)
    case 2
    then show ?case using t(1,2) d
      by (elim conjE allE [where x = ?b] allE [where x = ?c] allE [where x = "''tags''"]) blast
  qed (use n(1) in blast)
  then show ?thesis using r a by blast
qed

text \<open>A security group whose description changes and whose one rule string becomes two rules.\<close>

definition opened_group :: tf_full_resource_change where
  "opened_group = \<lparr>tfr_Address = ''aws_security_group.web'', tfr_Type = ''aws_security_group'', tfr_Name = ''web'',
     tfr_Provider = ''aws'',
     tfr_Change = \<lparr>tfc_Actions = [''update''],
       tfc_Before = Some [(''description'', JStr ''a''), (''cidr_blocks'', JArr [JStr ''10.0.0.0/8 0.0.0.0/0''])],
       tfc_After = Some [(''description'', JStr ''b''), (''cidr_blocks'', JArr [JStr ''10.0.0.0/8'', JStr ''0.0.0.0/0''])]\<rparr>\<rparr>"

text \<open>Values are compared by their printed form, which forgets where one element of a list
  ends: an update of a security group that adds a rule open to the world beside a change of its
  description is classified as safe and needs no acknowledgment, although the planned value
  contains a public CIDR and the old one does not.\<close>

theorem hidden_exposure_is_safe:
  "map_option (\<lambda>r. (cs_RequiresAcknowledgment (cl_Summary r), map cc_Risk (cl_Changes r)))
     (classify_full_plan (\<lambda>_. True) (Some [opened_group])) = Some (False, [RiskSafe])
   \<and> public_after (full_change opened_group)
   \<and> tfc_Before (tfr_Change opened_group) = Some [(''description'', JStr ''a''), (''cidr_blocks'', JArr [JStr ''10.0.0.0/8 0.0.0.0/0''])]
   \<and> \<not> contains_public_cidr (JArr [JStr ''10.0.0.0/8 0.0.0.0/0''])"
proof (intro conjI)
  show "map_option (\<lambda>r. (cs_RequiresAcknowledgment (cl_Summary r), map cc_Risk (cl_Changes r)))
     (classify_full_plan (\<lambda>_. True) (Some [opened_group])) = Some (False, [RiskSafe])"
    by code_simp
  show "public_after (full_change opened_group)" by code_simp
qed (simp_all add: opened_group_def)

end
