(* ===== verification/Go_Filepath.thy ===== *)
theory Go_Filepath
  imports PatchPath
begin

text \<open>
  The lexical functions of Go's package \<open>path/filepath\<close> on Unix that the sources use, over
  \<open>PatchPath.path_clean\<close>: \<open>Join\<close>, \<open>Abs\<close> (relative to the working directory, an argument) and
  \<open>Rel\<close>, whose error is \<open>None\<close>.
\<close>

definition path_join :: "string list \<Rightarrow> string" where
  "path_join es = (let ne = filter (\<lambda>e. e \<noteq> []) es in if ne = [] then [] else path_clean (join ''/'' ne))"

definition path_abs :: "string \<Rightarrow> string \<Rightarrow> string" where
  "path_abs cwd p = (if path_is_abs p then path_clean p else path_join [cwd, p])"

definition path_elements :: "string \<Rightarrow> string list" where
  "path_elements p = filter (\<lambda>e. e \<noteq> []) (split_on (CHR ''/'') p)"

fun strip_common :: "string list \<Rightarrow> string list \<Rightarrow> string list \<times> string list" where
  "strip_common (b # bs) (t # ts) = (if b = t then strip_common bs ts else (b # bs, t # ts))"
| "strip_common bs ts = (bs, ts)"

definition path_rel :: "string \<Rightarrow> string \<Rightarrow> string option" where
  "path_rel base0 target0 =
     (let base = path_clean base0; target = path_clean target0 in
      if target = base then Some ''.''
      else
        let base = (if base = ''.'' then [] else base) in
        if path_is_abs base \<noteq> path_is_abs target then None
        else case strip_common (path_elements base) (path_elements target) of
          (bs, ts) \<Rightarrow>
            if bs \<noteq> [] \<and> ts \<noteq> [] \<and> hd bs = ''..'' then None
            else Some (join ''/'' (replicate (length bs) ''..'' @ ts)))"

definition path_dir :: "string \<Rightarrow> string" where
  "path_dir p = path_clean (rev (dropWhile (\<lambda>c. c \<noteq> CHR ''/'') (rev p)))"

definition path_base :: "string \<Rightarrow> string" where
  "path_base p =
     (if p = [] then ''.''
      else let b = takeWhile (\<lambda>c. c \<noteq> CHR ''/'') (dropWhile (\<lambda>c. c = CHR ''/'') (rev p)) in
        if b = [] then ''/'' else rev b)"

definition path_ext :: "string \<Rightarrow> string" where
  "path_ext p =
     (let b = takeWhile (\<lambda>c. c \<noteq> CHR ''/'') (rev p) in
      if CHR ''.'' \<in> set b then CHR ''.'' # rev (takeWhile (\<lambda>c. c \<noteq> CHR ''.'') b) else [])"

section \<open>Clean absolute paths\<close>

definition abs_path :: "string list \<Rightarrow> string" where
  "abs_path es = ''/'' @ join ''/'' es"

lemma clean_plain: "list_all plain_element es \<Longrightarrow> clean_elements rooted out es = rev out @ es"
  by (induction es arbitrary: out) (auto simp: plain_element_def)

lemma abs_path_abs [simp]: "path_is_abs (abs_path es)"
  by (simp add: path_is_abs_def abs_path_def)

lemma split_abs_path:
  assumes "list_all plain_element es" "es \<noteq> []"
  shows "split_on (CHR ''/'') (abs_path es) = [] # es"
proof -
  have "\<forall>e \<in> set es. CHR ''/'' \<notin> set e" using assms by (auto simp: list_all_iff plain_element_def)
  then show ?thesis using assms split_on_join [of es "CHR ''/''"] by (simp add: abs_path_def)
qed

lemma clean_abs_path [simp]: "list_all plain_element es \<Longrightarrow> es \<noteq> [] \<Longrightarrow> path_clean (abs_path es) = abs_path es"
  unfolding path_clean_def Let_def abs_path_abs split_abs_path
  by (simp add: clean_plain) (simp add: abs_path_def)

lemma elements_abs_path [simp]: "list_all plain_element es \<Longrightarrow> es \<noteq> [] \<Longrightarrow> path_elements (abs_path es) = es"
proof -
  assume a: "list_all plain_element es" "es \<noteq> []"
  then have "filter (\<lambda>e. e \<noteq> []) es = es" by (auto simp: filter_id_conv list_all_iff plain_element_def)
  then show ?thesis using a by (simp add: path_elements_def split_abs_path)
qed

lemma abs_path_inj:
  "list_all plain_element es \<Longrightarrow> es \<noteq> [] \<Longrightarrow> list_all plain_element fs \<Longrightarrow> fs \<noteq> [] \<Longrightarrow>
   abs_path es = abs_path fs \<longleftrightarrow> es = fs"
  by (metis elements_abs_path)

lemma strip_common_append [simp]: "strip_common bs (bs @ ts) = ([], ts)"
  by (induction bs) (auto elim: strip_common.elims)

lemma abs_path_not_dot [simp]: "abs_path es \<noteq> ''.''"
  by (simp add: abs_path_def)

lemma rel_abs_path [simp]:
  assumes "list_all plain_element (ds @ es)" "ds \<noteq> []" "es \<noteq> []"
  shows "path_rel (abs_path ds) (abs_path (ds @ es)) = Some (join ''/'' es)"
proof -
  have c: "path_clean (abs_path ds) = abs_path ds" "path_clean (abs_path (ds @ es)) = abs_path (ds @ es)"
    "path_elements (abs_path ds) = ds" "path_elements (abs_path (ds @ es)) = ds @ es"
    using assms by (simp_all add: clean_abs_path elements_abs_path)
  have "abs_path (ds @ es) \<noteq> abs_path ds" using assms abs_path_inj [of "ds @ es" ds] by simp
  then show ?thesis by (simp add: path_rel_def c Let_def)
qed

lemma abs_abs_path [simp]: "list_all plain_element es \<Longrightarrow> es \<noteq> [] \<Longrightarrow> path_abs cwd (abs_path es) = abs_path es"
  by (simp add: path_abs_def)

lemma join_append: "xs \<noteq> [] \<Longrightarrow> ys \<noteq> [] \<Longrightarrow> join sep (xs @ ys) = join sep xs @ sep @ join sep ys"
  by (induction sep xs rule: join.induct) (auto simp: join_Cons)

lemma join_abs_path [simp]:
  assumes "list_all plain_element (ds @ es)" "ds \<noteq> []"
  shows "path_join (abs_path ds # es) = abs_path (ds @ es)"
proof -
  have "filter (\<lambda>e. e \<noteq> []) (abs_path ds # es) = abs_path ds # es"
    using assms by (auto simp: filter_id_conv list_all_iff plain_element_def abs_path_def)
  moreover have "join ''/'' (abs_path ds # es) = abs_path (ds @ es)"
    using assms by (cases es) (simp_all add: abs_path_def join_append)
  ultimately show ?thesis using assms clean_abs_path [of "ds @ es"] by (simp add: path_join_def)
qed

lemma elements_root [simp]: "path_elements (abs_path []) = []"
  by (simp add: path_elements_def abs_path_def)

lemma elements_abs [simp]: "list_all plain_element es \<Longrightarrow> path_elements (abs_path es) = es"
  by (cases "es = []") simp_all

lemma abs_path_snoc: "es \<noteq> [] \<Longrightarrow> abs_path (es @ [e]) = abs_path es @ CHR ''/'' # e"
  by (simp add: abs_path_def join_append)

lemma abs_path_last: "\<exists>d. abs_path (es @ [e]) = d @ CHR ''/'' # e"
  by (cases "es = []") (auto simp: abs_path_snoc, simp add: abs_path_def)

lemma clean_root [simp]: "path_clean (abs_path []) = abs_path []"
  by (simp add: path_clean_def path_is_abs_def abs_path_def)

lemma clean_root_slash [simp]: "path_clean ''/'' = abs_path []"
  by (simp add: path_clean_def path_is_abs_def abs_path_def)

lemma clean_trailing:
  assumes "list_all plain_element es" "es \<noteq> []"
  shows "path_clean (abs_path es @ ''/'') = abs_path es"
proof -
  have "\<forall>e \<in> set es. CHR ''/'' \<notin> set e" using assms by (auto simp: list_all_iff plain_element_def)
  then have "split_on (CHR ''/'') (join ''/'' (es @ [ [] ])) = es @ [ [] ]"
    by (intro split_on_join) auto
  moreover have "abs_path es @ ''/'' = CHR ''/'' # join ''/'' (es @ [ [] ])"
    using assms by (simp add: abs_path_def join_append)
  ultimately have "split_on (CHR ''/'') (abs_path es @ ''/'') = [] # es @ [ [] ]" by simp
  moreover have "clean_elements True [] (es @ [ [] ]) = es"
  proof -
    have "clean_elements True out (es @ [ [] ]) = rev out @ es" if "list_all plain_element es" for out es
      using that by (induction es arbitrary: out) (auto simp: plain_element_def)
    then show ?thesis using assms by simp
  qed
  moreover have "path_is_abs (abs_path es @ ''/'')" by (simp add: path_is_abs_def abs_path_def)
  ultimately show ?thesis by (simp add: path_clean_def Let_def) (simp add: abs_path_def)
qed

lemma dir_abs_path [simp]:
  assumes "list_all plain_element (es @ [e])"
  shows "path_dir (abs_path (es @ [e])) = abs_path es"
proof -
  have "CHR ''/'' \<notin> set e" using assms by (simp add: plain_element_def)
  then have d: "dropWhile (\<lambda>c. c \<noteq> CHR ''/'') (rev (d @ CHR ''/'' # e)) = CHR ''/'' # rev d" for d
    by (induction e rule: rev_induct) auto
  show ?thesis
  proof (cases "es = []")
    case True
    have "abs_path [e] = [] @ CHR ''/'' # e" by (simp add: abs_path_def)
    with True d [of "[]"] show ?thesis by (simp add: path_dir_def)
  next
    case False
    then have "path_dir (abs_path (es @ [e])) = path_clean (abs_path es @ ''/'')"
      using d [of "abs_path es"] by (simp add: path_dir_def abs_path_snoc)
    with False assms show ?thesis by (simp add: clean_trailing)
  qed
qed

lemma base_abs_path [simp]:
  assumes "plain_element e"
  shows "path_base (abs_path (es @ [e])) = e"
proof -
  obtain d where d: "abs_path (es @ [e]) = d @ CHR ''/'' # e" using abs_path_last by blast
  have e: "CHR ''/'' \<notin> set e" "e \<noteq> []" using assms by (simp_all add: plain_element_def)
  then have "dropWhile (\<lambda>c. c = CHR ''/'') (rev e @ x) = rev e @ x" for x
    by (cases "rev e") auto
  moreover have "takeWhile (\<lambda>c. c \<noteq> CHR ''/'') (rev e @ CHR ''/'' # x) = rev e" for x
    using e by (subst takeWhile_append2) auto
  ultimately show ?thesis using e by (simp add: path_base_def d)
qed

text \<open>A cleaned relative path climbs first and then descends through plain names.\<close>

lemma clean_elements_shape:
  "\<forall>e \<in> set es. CHR ''/'' \<notin> set e \<Longrightarrow> list_all plain_element ps \<Longrightarrow>
   \<exists>k' ps'. clean_elements False (rev (replicate k ''..'' @ ps)) es = replicate k' ''..'' @ ps' \<and> list_all plain_element ps'"
proof (induction es arbitrary: k ps)
  case (Cons e es)
  let ?out = "rev (replicate k ''..'' @ ps)"
  consider "e = [] \<or> e = ''.''" | "e = ''..''" "ps = []" | p qs where "e = ''..''" "ps = qs @ [p]" | "plain_element e"
    using Cons.prems(1) by (cases ps rule: rev_cases) (auto simp: plain_element_def)
  then show ?case
  proof cases
    case 1
    then have "clean_elements False ?out (e # es) = clean_elements False ?out es" by auto
    then show ?thesis using Cons.IH [of ps k] Cons.prems by simp
  next
    case 2
    have "clean_elements False ?out (e # es) = clean_elements False (rev (replicate (Suc k) ''..'' @ [])) es"
      using 2 by (cases k) (simp_all add: replicate_append_same)
    then show ?thesis using Cons.IH [of "[]" "Suc k"] Cons.prems by simp
  next
    case 3
    then have "plain_element p" using Cons.prems by simp
    then have "clean_elements False ?out (e # es) = clean_elements False (rev (replicate k ''..'' @ qs)) es"
      using 3 by (auto simp: plain_element_def)
    then show ?thesis using Cons.IH [of qs k] Cons.prems 3 by simp
  next
    case 4
    then have "clean_elements False ?out (e # es) = clean_elements False (rev (replicate k ''..'' @ (ps @ [e]))) es"
      by (auto simp: plain_element_def)
    then show ?thesis using Cons.IH [of "ps @ [e]" k] Cons.prems 4 by simp
  qed
qed auto

lemma clean_relative:
  assumes "\<not> path_is_abs p" "path_clean p \<noteq> ''.''" "path_clean p \<noteq> ''..''" "\<not> has_prefix (path_clean p) ''../''"
  shows "\<exists>es. es \<noteq> [] \<and> list_all plain_element es \<and> path_clean p = join ''/'' es"
proof -
  have pne: "p \<noteq> []" using assms(2) by (auto simp: path_clean_def)
  obtain k ps where s: "clean_elements False [] (split_on (CHR ''/'') p) = replicate k ''..'' @ ps" "list_all plain_element ps"
    using clean_elements_shape [of "split_on (CHR ''/'') p" "[]" 0] split_on_no_sep by fastforce
  then have c: "path_clean p = join ''/'' (replicate k ''..'' @ ps)" "replicate k ''..'' @ ps \<noteq> []"
    using assms(1,2) pne by (auto simp: path_clean_def Let_def split: if_splits)
  have "k = 0"
  proof (cases k)
    case (Suc k')
    have "join ''/'' (''..'' # xs) = ''..'' \<or> has_prefix (join ''/'' (''..'' # xs)) ''../''" for xs
      by (cases xs) simp_all
    then show ?thesis using c(1) Suc assms(3,4) by (metis append_Cons replicate_Suc)
  qed simp
  then show ?thesis using c s by auto
qed

lemma join_root_relative:
  assumes "list_all plain_element (ds @ es)" "ds \<noteq> []" "es \<noteq> []"
  shows "path_join [abs_path ds, join ''/'' es] = abs_path (ds @ es)"
proof -
  have "join ''/'' [abs_path ds, join ''/'' es] = join ''/'' (abs_path ds # es)"
    using assms by (simp add: join_Cons)
  moreover have "join ''/'' es \<noteq> []"
    using assms by (cases es; cases "tl es") (auto simp: plain_element_def)
  moreover have "filter (\<lambda>e. e \<noteq> []) (abs_path ds # es) = abs_path ds # es"
    using assms by (auto simp: filter_id_conv list_all_iff plain_element_def abs_path_def)
  moreover have "path_join (abs_path ds # es) = abs_path (ds @ es)" using assms by simp
  ultimately show ?thesis by (simp add: path_join_def abs_path_def)
qed

lemma suffix_last:
  assumes "has_suffix (abs_path (es @ [e])) x" "CHR ''/'' \<notin> set x"
  shows "has_suffix e x"
proof -
  obtain d where "abs_path (es @ [e]) = d @ CHR ''/'' # e" using abs_path_last by blast
  with assms(1) obtain l where l: "d @ CHR ''/'' # e = l @ x" by (auto simp: has_suffix_iff)
  then obtain us where "d @ [CHR ''/''] = l @ us \<and> us @ e = x \<or> (d @ [CHR ''/'']) @ us = l \<and> e = us @ x"
    by (metis append.assoc append_Cons append_Nil append_eq_append_conv2)
  then show ?thesis
  proof
    assume a: "d @ [CHR ''/''] = l @ us \<and> us @ e = x"
    then have "us = []" using assms(2) by (metis Un_iff append_is_Nil_conv last_appendR last_in_set last_snoc set_append)
    with a show ?thesis by (auto simp: has_suffix_iff)
  qed (auto simp: has_suffix_iff)
qed

lemma plain_join_not_up:
  "list_all plain_element es \<Longrightarrow> es \<noteq> [] \<Longrightarrow> join ''/'' es \<noteq> ''..'' \<and> \<not> has_prefix (join ''/'' es) ''../''"
proof -
  assume a: "list_all plain_element es" "es \<noteq> []"
  then have "split_on (CHR ''/'') (join ''/'' es) = es"
    by (intro split_on_join) (auto simp: list_all_iff plain_element_def)
  moreover have "split_on (CHR ''/'') ''..'' = [''..'']" "hd (split_on (CHR ''/'') (''../'' @ r)) = ''..''" for r
    by (simp_all add: split_on_append_sep [of "CHR ''/''" "''..''", simplified])
  moreover have "hd es \<noteq> ''..''" using a by (cases es) (auto simp: plain_element_def)
  ultimately show ?thesis unfolding has_prefix_iff by (metis list.sel(1))
qed

end
