(* ===== verification/Safe_Runner.thy ===== *)
theory Safe_Runner
  imports Prelude "HOL-Library.AList"
begin

text \<open>
  The command runner of \<open>internal/runner\<close> (\<open>runner.go\<close> and \<open>safe_runner.go\<close>): the argument
  vectors of the tools, approval and timeouts, the output limit, the environment of a
  subprocess, the result of a run, and the bookkeeping of running commands as a transition
  system. Starting a process, the clock and the context are outside: what they report is an
  argument. Durations are nanoseconds.
\<close>

section \<open>Argument vectors\<close>

definition terraform_args :: "string \<Rightarrow> string \<Rightarrow> string list" where
  "terraform_args command binary =
     (if command = ''init'' then [binary, ''init'']
      else if command = ''plan'' then [binary, ''plan'', ''-out=tfplan'', ''-no-color'']
      else if command = ''apply'' then [binary, ''apply'', ''-no-color'', ''tfplan'']
      else if command = ''destroy'' then [binary, ''destroy'', ''-auto-approve'', ''-no-color'']
      else if command = ''validate'' then [binary, ''validate'', ''-no-color'']
      else if command = ''fmt'' then [binary, ''fmt'']
      else [])"

definition with_stack :: "string \<Rightarrow> string list \<Rightarrow> string list" where
  "with_stack env args = (if env = [] then args else args @ [''--stack'', env])"

definition pulumi_args :: "string \<Rightarrow> string \<Rightarrow> string list" where
  "pulumi_args command env =
     (if command = ''init'' then [''npm'', ''install'']
      else if command = ''plan'' \<or> command = ''preview''
        then with_stack env [''pulumi'', ''preview'', ''--non-interactive'', ''--color=never'']
      else if command = ''apply'' \<or> command = ''up''
        then with_stack env [''pulumi'', ''up'', ''--yes'', ''--non-interactive'', ''--color=never'']
      else if command = ''destroy''
        then with_stack env [''pulumi'', ''destroy'', ''--yes'', ''--non-interactive'', ''--color=never'']
      else if command = ''refresh''
        then with_stack env [''pulumi'', ''refresh'', ''--yes'', ''--non-interactive'', ''--color=never'']
      else if command = ''validate'' then [''npx'', ''tsc'', ''--noEmit'']
      else [])"

definition ansible_args :: "string \<Rightarrow> string list" where
  "ansible_args command =
     (if command = ''check'' then [''ansible-playbook'', ''site.yml'', ''--check'', ''--diff'']
      else if command = ''playbook'' \<or> command = ''apply'' then [''ansible-playbook'', ''site.yml'']
      else if command = ''syntax'' then [''ansible-playbook'', ''site.yml'', ''--syntax-check'']
      else if command = ''inventory'' then [''ansible-inventory'', ''--list'']
      else [])"

text \<open>The empty list is the nil slice: no such tool or command.\<close>

definition build_args :: "string \<Rightarrow> string \<Rightarrow> string \<Rightarrow> string list" where
  "build_args tool command env =
     (if tool = ''terraform'' then terraform_args command ''terraform''
      else if tool = ''opentofu'' then terraform_args command ''tofu''
      else if tool = ''ansible'' then ansible_args command
      else if tool = ''pulumi'' then pulumi_args command env
      else [])"

section \<open>Approval, timeouts, summaries\<close>

record safety_config =
  sf_DefaultTimeout :: int
  sf_PlanTimeout :: int
  sf_ApplyTimeout :: int
  sf_InitTimeout :: int
  sf_RequireApproval :: bool
  sf_MaxOutputBytes :: int

definition minutes :: "int \<Rightarrow> int" where "minutes n = n * 60000000000"

definition default_safety_config :: safety_config where
  "default_safety_config = \<lparr>sf_DefaultTimeout = minutes 5, sf_PlanTimeout = minutes 10,
     sf_ApplyTimeout = minutes 30, sf_InitTimeout = minutes 5, sf_RequireApproval = True,
     sf_MaxOutputBytes = 10485760\<rparr>"

definition requires_approval :: "safety_config \<Rightarrow> string \<Rightarrow> bool" where
  "requires_approval cfg command =
     (if \<not> sf_RequireApproval cfg then False
      else command \<in> {''apply'', ''playbook'', ''up'', ''destroy'', ''refresh''})"

definition timeout_for :: "safety_config \<Rightarrow> string \<Rightarrow> int" where
  "timeout_for cfg command =
     (if command = ''init'' then sf_InitTimeout cfg
      else if command = ''plan'' \<or> command = ''preview'' then sf_PlanTimeout cfg
      else if command = ''apply'' \<or> command = ''up'' \<or> command = ''destroy'' \<or> command = ''refresh''
        then sf_ApplyTimeout cfg
      else sf_DefaultTimeout cfg)"

fun plan_summary_line :: "string list \<Rightarrow> string" where
  "plan_summary_line [] = ''Unable to parse plan summary''"
| "plan_summary_line (l # ls) =
     (if contains l ''to add'' \<and> contains l ''to change'' then trim_space l
      else if contains l ''No changes'' \<or> contains l ''no changes''
        then ''No changes. Infrastructure is up-to-date.''
      else plan_summary_line ls)"

definition parse_plan_summary :: "string \<Rightarrow> string" where
  "parse_plan_summary output = plan_summary_line (split_on (CHR 0x0A) output)"

section \<open>Limited output\<close>

record limited_writer =
  lw_buf :: string
  lw_limit :: int
  lw_truncated :: bool

definition lw_write :: "limited_writer \<Rightarrow> string \<Rightarrow> limited_writer" where
  "lw_write w p =
     (if lw_limit w < int (length (lw_buf w)) + int (length p) then
        (let remaining = lw_limit w - int (length (lw_buf w)) in
         w\<lparr>lw_buf := lw_buf w @ (if 0 < remaining then take (nat remaining) p else []), lw_truncated := True\<rparr>)
      else w\<lparr>lw_buf := lw_buf w @ p\<rparr>)"

definition new_writer :: "int \<Rightarrow> limited_writer" where
  "new_writer limit = \<lparr>lw_buf = [], lw_limit = limit, lw_truncated = False\<rparr>"

section \<open>The environment of a subprocess\<close>

text \<open>\<open>strings.Cut(entry, "=")\<close>.\<close>

fun cut_eq :: "string \<Rightarrow> (string \<times> string) option" where
  "cut_eq [] = None"
| "cut_eq (c # s) = (if c = CHR ''='' then Some ([], s)
     else map_option (\<lambda>(k, v). (c # k, v)) (cut_eq s))"

definition env_entry :: "string \<times> string \<Rightarrow> string" where
  "env_entry kv = fst kv @ ''='' @ snd kv"

definition command_env_allow :: "string list" where
  "command_env_allow = [''PATH'', ''Path'', ''PATHEXT'', ''HOME'', ''USERPROFILE'', ''HOMEDRIVE'', ''HOMEPATH'',
     ''APPDATA'', ''LOCALAPPDATA'', ''SystemRoot'', ''WINDIR'', ''TMPDIR'', ''TMP'', ''TEMP'', ''LANG'', ''LC_ALL'',
     ''SSL_CERT_FILE'', ''SSL_CERT_DIR'', ''REQUESTS_CA_BUNDLE'', ''CURL_CA_BUNDLE'', ''HTTP_PROXY'',
     ''HTTPS_PROXY'', ''NO_PROXY'', ''http_proxy'', ''https_proxy'', ''no_proxy'']"

definition cloud_credential_keys :: "string list" where
  "cloud_credential_keys = [''AWS_ACCESS_KEY_ID'', ''AWS_SECRET_ACCESS_KEY'', ''AWS_SESSION_TOKEN'',
     ''AWS_PROFILE'', ''AWS_DEFAULT_PROFILE'', ''AWS_SHARED_CREDENTIALS_FILE'', ''AWS_CONFIG_FILE'',
     ''AWS_SDK_LOAD_CONFIG'', ''AWS_ROLE_ARN'', ''AWS_WEB_IDENTITY_TOKEN_FILE'',
     ''AWS_CONTAINER_CREDENTIALS_FULL_URI'', ''AWS_CONTAINER_CREDENTIALS_RELATIVE_URI'',
     ''AWS_CONTAINER_AUTHORIZATION_TOKEN'', ''AWS_CONTAINER_AUTHORIZATION_TOKEN_FILE'',
     ''AWS_EC2_METADATA_DISABLED'', ''AWS_REGION'', ''AWS_DEFAULT_REGION'', ''ARM_CLIENT_ID'',
     ''ARM_CLIENT_SECRET'', ''ARM_CLIENT_CERTIFICATE_PATH'', ''ARM_CLIENT_CERTIFICATE_PASSWORD'',
     ''ARM_TENANT_ID'', ''ARM_SUBSCRIPTION_ID'', ''ARM_USE_MSI'', ''ARM_MSI_ENDPOINT'', ''ARM_OIDC_TOKEN'',
     ''ARM_USE_OIDC'', ''AZURE_CLIENT_ID'', ''AZURE_CLIENT_SECRET'', ''AZURE_TENANT_ID'',
     ''AZURE_SUBSCRIPTION_ID'', ''GOOGLE_APPLICATION_CREDENTIALS'', ''GOOGLE_CREDENTIALS'',
     ''GOOGLE_CLOUD_KEYFILE_JSON'', ''GOOGLE_OAUTH_ACCESS_TOKEN'', ''GOOGLE_PROJECT'', ''GOOGLE_CLOUD_PROJECT'',
     ''GOOGLE_REGION'', ''CLOUDSDK_AUTH_CREDENTIAL_FILE_OVERRIDE'', ''CLOUDSDK_CORE_PROJECT'',
     ''CLOUDSDK_COMPUTE_REGION'', ''TF_CLOUD_TOKEN'', ''TFE_TOKEN'']"

definition is_cloud_credential_env_key :: "string \<Rightarrow> bool" where
  "is_cloud_credential_env_key k =
     (if has_prefix k ''TF_TOKEN_'' then True else k \<in> set cloud_credential_keys)"

fun minimal_env :: "string list \<Rightarrow> string list \<Rightarrow> string list" where
  "minimal_env seen [] = []"
| "minimal_env seen (e # es) =
     (case cut_eq e of
        None \<Rightarrow> minimal_env seen es
      | Some (k, v) \<Rightarrow>
          if k = [] \<or> k \<in> set seen \<or> k \<notin> set command_env_allow \<or> is_cloud_credential_env_key k
          then minimal_env seen es
          else env_entry (k, v) # minimal_env (k # seen) es)"

definition minimal_command_env :: "string list \<Rightarrow> string list" where
  "minimal_command_env base = minimal_env [] base"

text \<open>\<open>mergeEnv\<close>: the values and the order of their first occurrence, as one association list.\<close>

definition merge_base :: "(string \<times> string) list \<Rightarrow> string \<Rightarrow> (string \<times> string) list" where
  "merge_base acc e =
     (case cut_eq e of None \<Rightarrow> acc | Some (k, v) \<Rightarrow> if k = [] then acc else AList.update k v acc)"

definition merge_override :: "(string \<times> string) list \<Rightarrow> string \<times> string \<Rightarrow> (string \<times> string) list" where
  "merge_override acc kv =
     (if trim_space (fst kv) = [] then acc else AList.update (fst kv) (snd kv) acc)"

definition merge_values :: "string list \<Rightarrow> (string \<times> string) list \<Rightarrow> (string \<times> string) list" where
  "merge_values base overrides = foldl merge_override (foldl merge_base [] base) overrides"

definition merge_env :: "string list \<Rightarrow> (string \<times> string) list \<Rightarrow> string list" where
  "merge_env base overrides = map env_entry (merge_values base overrides)"

fun env_value :: "string list \<Rightarrow> string \<Rightarrow> string option" where
  "env_value [] k = None"
| "env_value (e # es) k =
     (case cut_eq e of
        Some (k', v) \<Rightarrow> if k' = k then Some v else env_value es k
      | None \<Rightarrow> env_value es k)"

definition env_has_nonempty_value :: "string list \<Rightarrow> string \<Rightarrow> bool" where
  "env_has_nonempty_value env k =
     (case env_value env k of None \<Rightarrow> False | Some v \<Rightarrow> trim_space v \<noteq> [])"

definition has_aws_credential_source :: "string list \<Rightarrow> bool" where
  "has_aws_credential_source env \<longleftrightarrow>
     (env_has_nonempty_value env ''AWS_ACCESS_KEY_ID'' \<and> env_has_nonempty_value env ''AWS_SECRET_ACCESS_KEY'')
   \<or> (env_has_nonempty_value env ''AWS_ROLE_ARN'' \<and> env_has_nonempty_value env ''AWS_WEB_IDENTITY_TOKEN_FILE'')
   \<or> env_has_nonempty_value env ''AWS_PROFILE'' \<or> env_has_nonempty_value env ''AWS_DEFAULT_PROFILE''
   \<or> env_has_nonempty_value env ''AWS_SHARED_CREDENTIALS_FILE'' \<or> env_has_nonempty_value env ''AWS_CONFIG_FILE''
   \<or> env_has_nonempty_value env ''AWS_CONTAINER_CREDENTIALS_RELATIVE_URI''
   \<or> env_has_nonempty_value env ''AWS_CONTAINER_CREDENTIALS_FULL_URI''"

fun set_env_value :: "string list \<Rightarrow> string \<Rightarrow> string \<Rightarrow> string list" where
  "set_env_value [] k v = [env_entry (k, v)]"
| "set_env_value (e # es) k v =
     (case cut_eq e of
        Some (k', _) \<Rightarrow> if k' = k then env_entry (k, v) # es else e # set_env_value es k v
      | None \<Rightarrow> e # set_env_value es k v)"

definition dev_null :: string where "dev_null = ''/dev/null''"

definition scoped_command_env :: "string list \<Rightarrow> (string \<times> string) list \<Rightarrow> string list" where
  "scoped_command_env base overrides =
     (let env = merge_env (minimal_command_env base) overrides;
          env = (if \<not> has_aws_credential_source env
                 then set_env_value (set_env_value env ''AWS_SHARED_CREDENTIALS_FILE'' dev_null)
                        ''AWS_CONFIG_FILE'' dev_null
                 else env)
      in if \<not> env_has_nonempty_value env ''AWS_EC2_METADATA_DISABLED''
         then set_env_value env ''AWS_EC2_METADATA_DISABLED'' ''true'' else env)"

section \<open>The result of a run\<close>

datatype run_context = ContextAlive | DeadlineExceeded | ContextCanceled
datatype command_error = ExitError int | StartError

record run_result =
  rn_Output :: string
  rn_ExitCode :: int
  rn_Status :: string
  rn_Truncated :: bool

datatype run_failure = TimedOut | Cancelled | CommandFailed command_error

definition truncation_notice :: string where
  "truncation_notice = [CHR 0x0A, CHR 0x0A] @ ''--- OUTPUT TRUNCATED (exceeded limit) ---''"

definition run_output :: "limited_writer \<Rightarrow> limited_writer \<Rightarrow> string" where
  "run_output stdout stderr =
     lw_buf stdout @ (if lw_buf stderr \<noteq> [] then [CHR 0x0A] @ lw_buf stderr else [])
     @ (if lw_truncated stdout then truncation_notice else [])"

definition run_status ::
  "run_context \<Rightarrow> command_error option \<Rightarrow> limited_writer \<Rightarrow> limited_writer \<Rightarrow> run_result \<times> run_failure option" where
  "run_status ctx err stdout stderr =
     (let r = \<lparr>rn_Output = run_output stdout stderr, rn_ExitCode = 0, rn_Status = [],
            rn_Truncated = lw_truncated stdout\<rparr> in
      case ctx of
        DeadlineExceeded \<Rightarrow> (r\<lparr>rn_Status := ''timed_out''\<rparr>, Some TimedOut)
      | ContextCanceled \<Rightarrow> (r\<lparr>rn_Status := ''cancelled''\<rparr>, Some Cancelled)
      | ContextAlive \<Rightarrow>
          (case err of
             Some e \<Rightarrow> (r\<lparr>rn_Status := ''failed'',
                 rn_ExitCode := (case e of ExitError n \<Rightarrow> n | StartError \<Rightarrow> 0)\<rparr>, Some (CommandFailed e))
           | None \<Rightarrow> (r\<lparr>rn_Status := ''completed''\<rparr>, None)))"

section \<open>Running commands\<close>

text \<open>Each call of \<open>executeWithEnv\<close> is a thread. Its critical sections are transitions: the look
  at the table, the registration, and the removal when it returns; the command runs in
  between. \<open>Kill\<close> and \<open>ActiveExecutions\<close> take one critical section each.\<close>

record execution =
  ex_Thread :: nat
  ex_Tool :: string
  ex_Command :: string
  ex_Status :: string

datatype phase = Looked string string string | Executing string | Refused | Returned

record runner_state =
  rs_active :: "string \<Rightarrow> execution option"
  rs_threads :: "nat \<Rightarrow> phase option"

definition idle_runner :: runner_state where
  "idle_runner = \<lparr>rs_active = (\<lambda>_. None), rs_threads = (\<lambda>_. None)\<rparr>"

definition look :: "runner_state \<Rightarrow> nat \<Rightarrow> string \<Rightarrow> string \<Rightarrow> string \<Rightarrow> runner_state" where
  "look s t project tool command =
     s\<lparr>rs_threads := (rs_threads s)(t \<mapsto>
        (if rs_active s project \<noteq> None then Refused else Looked project tool command))\<rparr>"

definition register_run :: "runner_state \<Rightarrow> nat \<Rightarrow> string \<Rightarrow> string \<Rightarrow> string \<Rightarrow> runner_state" where
  "register_run s t project tool command =
     s\<lparr>rs_active := (rs_active s)(project \<mapsto>
          \<lparr>ex_Thread = t, ex_Tool = tool, ex_Command = command, ex_Status = ''running''\<rparr>),
       rs_threads := (rs_threads s)(t \<mapsto> Executing project)\<rparr>"

definition return_run :: "runner_state \<Rightarrow> nat \<Rightarrow> string \<Rightarrow> runner_state" where
  "return_run s t project =
     s\<lparr>rs_active := (rs_active s)(project := None), rs_threads := (rs_threads s)(t \<mapsto> Returned)\<rparr>"

text \<open>\<open>Kill\<close>: the thread whose context is cancelled, \<open>None\<close> for the error.\<close>

definition kill_run :: "runner_state \<Rightarrow> string \<Rightarrow> runner_state \<times> nat option" where
  "kill_run s project =
     (case rs_active s project of
        None \<Rightarrow> (s, None)
      | Some e \<Rightarrow> (s\<lparr>rs_active := (rs_active s)(project \<mapsto> e\<lparr>ex_Status := ''cancelled''\<rparr>)\<rparr>, Some (ex_Thread e)))"

inductive runner_step :: "runner_state \<Rightarrow> runner_state \<Rightarrow> bool" where
  call: "rs_threads s t = None \<Longrightarrow> runner_step s (look s t project tool command)"
| start: "rs_threads s t = Some (Looked project tool command) \<Longrightarrow>
    runner_step s (register_run s t project tool command)"
| finish: "rs_threads s t = Some (Executing project) \<Longrightarrow> runner_step s (return_run s t project)"
| kill: "runner_step s (fst (kill_run s project))"

definition runner_reach :: "runner_state \<Rightarrow> bool" where
  "runner_reach s = runner_step\<^sup>*\<^sup>* idle_runner s"

end
