(* ===== verification/Plan_Gate.thy ===== *)
theory Plan_Gate
  imports Plan_Classify Crypto Go_Filepath Safe_Runner
begin

text \<open>
  The apply gate of \<open>internal/api/plan_gate.go\<close>, \<open>plan_classification.go\<close> and the run handler of
  \<open>router.go\<close>: a mutating command runs only on the latest plan recorded for its directory, for
  an hour, once, and with the plan's exact hash.

  The gate's map is a partial function from directories to records; times are nanoseconds.
  Reading a file of the directory is the argument \<open>files\<close> (\<open>None\<close>: it cannot be opened), the
  text of a time the argument \<open>rfc3339\<close>, the decoding of JSON the arguments of \<open>Plan_Parse\<close>.
\<close>

section \<open>Data\<close>

definition plan_gate_ttl :: int where "plan_gate_ttl = 3600000000000"

definition saved_terraform_plan_file :: string where "saved_terraform_plan_file = ''tfplan''"
definition saved_plan_json_file :: string where "saved_plan_json_file = ''tfplan.json''"

record plan_reference =
  pl_Hash :: string
  pl_Tool :: string
  pl_Env :: string
  pl_ConnectionID :: string
  pl_PlanCommand :: string
  pl_CreatedAt :: string
  pl_ExpiresAt :: string

record plan_record =
  pd_reference :: plan_reference
  pd_createdAt :: int

record plan_gate_rejection =
  gr_Error :: string
  gr_Detail :: string

type_synonym plan_gate = "string \<Rightarrow> plan_record option"

section \<open>Commands\<close>

definition command_produces_plan :: "string \<Rightarrow> bool" where
  "command_produces_plan c \<longleftrightarrow> c = ''plan'' \<or> c = ''preview'' \<or> c = ''check''"

definition command_records_snapshot :: "string \<Rightarrow> bool" where
  "command_records_snapshot c \<longleftrightarrow> c = ''apply'' \<or> c = ''up'' \<or> c = ''playbook''"

definition plan_supports_semantic_classification :: "string \<Rightarrow> bool" where
  "plan_supports_semantic_classification tool \<longleftrightarrow> tool = ''terraform'' \<or> tool = ''opentofu''"

definition plan_command_allows_mutation :: "string \<Rightarrow> string \<Rightarrow> string \<Rightarrow> bool" where
  "plan_command_allows_mutation tool plan_command mutation \<longleftrightarrow>
     (if tool = ''ansible'' then plan_command = ''check'' \<and> (mutation = ''apply'' \<or> mutation = ''playbook'')
      else if tool = ''pulumi'' then
        (plan_command = ''plan'' \<or> plan_command = ''preview'') \<and>
        (mutation = ''apply'' \<or> mutation = ''up'' \<or> mutation = ''destroy'' \<or> mutation = ''refresh'')
      else if tool = ''terraform'' \<or> tool = ''opentofu'' then
        plan_command = ''plan'' \<and> (mutation = ''apply'' \<or> mutation = ''destroy'')
      else command_produces_plan plan_command)"

section \<open>The hash of a plan\<close>

definition hash_field :: "string \<Rightarrow> string" where
  "hash_field v = v @ [CHR 0x00]"

definition hashed_file :: "(string \<Rightarrow> string option) \<Rightarrow> string \<Rightarrow> string" where
  "hashed_file files name = (case files name of None \<Rightarrow> [] | Some content \<Rightarrow> hash_field name @ content)"

definition plan_message ::
  "(string \<Rightarrow> string option) \<Rightarrow> string \<Rightarrow> string \<Rightarrow> string \<Rightarrow> string \<Rightarrow> string \<Rightarrow> string" where
  "plan_message files tool env conn command output =
     hash_field ''iac-studio-plan-gate-v1'' @ hash_field tool @ hash_field env @ hash_field conn
     @ hash_field command @ hash_field output
     @ hashed_file files saved_terraform_plan_file @ hashed_file files saved_plan_json_file"

definition plan_hash ::
  "(string \<Rightarrow> string option) \<Rightarrow> string \<Rightarrow> string \<Rightarrow> string \<Rightarrow> string \<Rightarrow> string \<Rightarrow> string" where
  "plan_hash files tool env conn command output =
     hex_encode (sha256 (plan_message files tool env conn command output))"

section \<open>The gate\<close>

definition invalidate_plan :: "plan_gate \<Rightarrow> string list \<Rightarrow> plan_gate" where
  "invalidate_plan g paths = foldl (\<lambda>g p. g(p := None)) g paths"

text \<open>\<open>now\<close> is not the zero time.\<close>

definition record_command_plan_at ::
  "(int \<Rightarrow> string) \<Rightarrow> (string \<Rightarrow> string option) \<Rightarrow> plan_gate \<Rightarrow> string \<Rightarrow> string \<Rightarrow> string \<Rightarrow> string \<Rightarrow> string \<Rightarrow>
   string \<Rightarrow> int \<Rightarrow> plan_gate \<times> plan_reference" where
  "record_command_plan_at rfc3339 files g path tool env conn command output now =
     (let ref = \<lparr>pl_Hash = plan_hash files tool env conn command output, pl_Tool = tool, pl_Env = env,
            pl_ConnectionID = conn, pl_PlanCommand = command, pl_CreatedAt = rfc3339 now,
            pl_ExpiresAt = rfc3339 (now + plan_gate_ttl)\<rparr>
      in (g(path \<mapsto> \<lparr>pd_reference = ref, pd_createdAt = now\<rparr>), ref))"

definition has_plan :: "plan_gate \<Rightarrow> string \<Rightarrow> int \<Rightarrow> bool" where
  "has_plan g path now =
     (case g path of None \<Rightarrow> False | Some r \<Rightarrow> now - pd_createdAt r < plan_gate_ttl)"

definition mismatch_rejection :: "string \<Rightarrow> plan_gate_rejection" where
  "mismatch_rejection detail = \<lparr>gr_Error = ''plan_hash_mismatch'', gr_Detail = detail\<rparr>"

text \<open>The reference is returned even with most rejections, as the source returns its pointer.\<close>

definition validate_plan_for_command ::
  "plan_gate \<Rightarrow> int \<Rightarrow> string \<Rightarrow> string \<Rightarrow> string \<Rightarrow> string \<Rightarrow> string \<Rightarrow> string \<Rightarrow>
   plan_reference option \<times> plan_gate_rejection option" where
  "validate_plan_for_command g now path tool env conn command provided =
     (case g path of
        None \<Rightarrow> (None, Some \<lparr>gr_Error = ''plan_required'', gr_Detail =
          ''run plan first; no current saved plan exists for this project, environment, and connection''\<rparr>)
      | Some r \<Rightarrow>
          if plan_gate_ttl \<le> now - pd_createdAt r
          then (None, Some \<lparr>gr_Error = ''plan_required'', gr_Detail =
            ''run plan first; no current saved plan exists for this project, environment, and connection''\<rparr>)
          else
            let ref = pd_reference r in
            if pl_Tool ref \<noteq> tool \<or> pl_Env ref \<noteq> env \<or> pl_ConnectionID ref \<noteq> conn
              \<or> \<not> plan_command_allows_mutation tool (pl_PlanCommand ref) command
            then (Some ref, Some (mismatch_rejection
              ''saved plan does not match the requested tool, environment, connection, or command; rerun plan''))
            else if trim_space provided = []
            then (Some ref, Some \<lparr>gr_Error = ''plan_hash_required'', gr_Detail =
              ''saved plan exists, but apply requires the exact plan_hash returned by the latest plan run''\<rparr>)
            else if trim_space provided \<noteq> pl_Hash ref
            then (Some ref, Some (mismatch_rejection
              ''submitted plan_hash does not match the latest saved plan; rerun plan''))
            else (Some ref, None))"

definition consume_plan_for_command ::
  "plan_gate \<Rightarrow> int \<Rightarrow> string \<Rightarrow> string \<Rightarrow> string \<Rightarrow> string \<Rightarrow> string \<Rightarrow> string \<Rightarrow>
   plan_gate \<times> plan_reference option \<times> plan_gate_rejection option" where
  "consume_plan_for_command g now path tool env conn command provided =
     (case validate_plan_for_command g now path tool env conn command provided of
        (_, Some rejection) \<Rightarrow> (g, None, Some rejection)
      | (ref, None) \<Rightarrow> (g(path := None), ref, None))"

section \<open>Invalidation by a changed file\<close>

definition env_workdir_for_project_file :: "string \<Rightarrow> string \<Rightarrow> string option" where
  "env_workdir_for_project_file project target =
     (let abs_target = (if path_is_abs target then target else path_join [project, target]) in
      case path_rel project abs_target of
        None \<Rightarrow> None
      | Some rel \<Rightarrow>
          if rel = ''.'' \<or> has_prefix rel ''..'' then None
          else
            let parts = split_on (CHR ''/'') rel in
            if length parts < 3 \<or> parts ! 0 \<noteq> ''environments'' \<or> parts ! 1 = [] then None
            else Some (path_join [project, ''environments'', parts ! 1]))"

fun invalidation_paths :: "string \<Rightarrow> string list \<Rightarrow> string list \<Rightarrow> string list" where
  "invalidation_paths project paths [] = paths"
| "invalidation_paths project paths (t # ts) =
     (case env_workdir_for_project_file project t of
        None \<Rightarrow> invalidation_paths project paths ts
      | Some d \<Rightarrow> if d \<in> set paths then invalidation_paths project paths ts
                  else invalidation_paths project (paths @ [d]) ts)"

definition plan_invalidation_paths :: "string \<Rightarrow> string list \<Rightarrow> string list" where
  "plan_invalidation_paths project targets = invalidation_paths project [project] targets"

definition invalidate_plan_for_changed_file :: "string \<Rightarrow> plan_gate \<Rightarrow> string \<Rightarrow> string \<Rightarrow> plan_gate" where
  "invalidate_plan_for_changed_file cwd g projects_dir file =
     (let abs_projects = path_abs cwd projects_dir; abs_file = path_abs cwd file in
      case path_rel abs_projects abs_file of
        None \<Rightarrow> g
      | Some rel \<Rightarrow>
          if rel = ''.'' \<or> has_prefix rel ''..'' then g
          else
            let parts = split_on (CHR ''/'') rel in
            if length parts < 2 \<or> parts ! 0 = [] then g
            else invalidate_plan g (plan_invalidation_paths (path_join [abs_projects, parts ! 0]) [abs_file]))"

section \<open>Output\<close>

definition trim_newlines :: "string \<Rightarrow> string" where
  "trim_newlines s = rev (dropWhile (\<lambda>c. c = CHR 0x0A) (rev s))"

definition append_plan_reference_output :: "string \<Rightarrow> plan_reference \<Rightarrow> string" where
  "append_plan_reference_output output0 ref =
     (let output = trim_newlines output0;
          output = (if output \<noteq> [] then output @ newline @ newline else output)
      in output @ ''--- Plan Gate ---'' @ newline @ ''Plan hash: '' @ pl_Hash ref @ newline
           @ ''Expires: '' @ pl_ExpiresAt ref @ newline)"

definition append_plan_classification_output :: "string \<Rightarrow> classification_result option \<Rightarrow> string" where
  "append_plan_classification_output output0 classification =
     (case classification of
        None \<Rightarrow> output0
      | Some c \<Rightarrow>
          let output = trim_newlines output0;
              output = (if output \<noteq> [] then output @ newline @ newline else output)
          in output @ ''--- Semantic Plan Classifier ---'' @ newline @ cl_Markdown c @ newline)"

section \<open>Classification requests\<close>

text \<open>\<open>plan_json\<close> is the posted document: absent, or what it decodes to.\<close>

definition classify_saved_plan ::
  "(nat \<Rightarrow> bool) \<Rightarrow> (string \<Rightarrow> tf_full_resource_change list option) \<Rightarrow> (string \<Rightarrow> string option) \<Rightarrow> classification_result" where
  "classify_saved_plan printable decode files =
     (case files saved_plan_json_file of
        None \<Rightarrow> unknown_classification ''saved plan JSON is unavailable; run plan before applying''
      | Some content \<Rightarrow>
          (case classify_full_plan printable (decode content) of
             None \<Rightarrow> unknown_classification ''saved plan JSON could not be parsed; rerun plan before applying''
           | Some r \<Rightarrow> r))"

definition classify_plan_request ::
  "(nat \<Rightarrow> bool) \<Rightarrow> (string \<Rightarrow> tf_full_resource_change list option) \<Rightarrow> (string \<Rightarrow> tf_plan_line option) \<Rightarrow>
   (string \<Rightarrow> string option) \<Rightarrow> string \<Rightarrow> string \<Rightarrow> classification_result" where
  "classify_plan_request printable decode decode_line files plan_json plan_text =
     (if plan_json \<noteq> [] then
        (case classify_full_plan printable (decode plan_json) of
           None \<Rightarrow> unknown_classification ''posted plan JSON could not be parsed''
         | Some r \<Rightarrow> r)
      else if trim_space plan_text \<noteq> [] then
        let parsed = parse_stream_output decode_line plan_text in
        if pr_Changes parsed = [] \<and> contains plan_text ''to add''
        then unknown_classification ''posted plan text lacks machine-readable resource changes''
        else classify_plan printable (Some parsed)
      else classify_saved_plan printable decode files)"

section \<open>The run handler\<close>

text \<open>The part of a posted run that the gate reads. The working directory and the tool are
  resolved before; \<open>blocking\<close> says whether the policy engines report an error finding.\<close>

record run_request =
  ru_Command :: string
  ru_Approved :: bool
  ru_Acknowledged :: bool
  ru_RiskAcknowledged :: bool
  ru_PlanHash :: string
  ru_Env :: string
  ru_ConnectionID :: string

definition gate_classification ::
  "(nat \<Rightarrow> bool) \<Rightarrow> (string \<Rightarrow> tf_full_resource_change list option) \<Rightarrow> (string \<Rightarrow> string option) \<Rightarrow> string \<Rightarrow>
   classification_result" where
  "gate_classification printable decode files command =
     (if command = ''destroy'' then unknown_classification
        ''destroy does not consume the saved apply plan; review the destructive command separately''
      else classify_saved_plan printable decode files)"

text \<open>The answer of the handler before the command starts: the error of a 409, or \<open>None\<close>.\<close>

definition apply_gate ::
  "(nat \<Rightarrow> bool) \<Rightarrow> (string \<Rightarrow> tf_full_resource_change list option) \<Rightarrow> safety_config \<Rightarrow> plan_gate \<Rightarrow>
   (string \<Rightarrow> string option) \<Rightarrow> bool \<Rightarrow> int \<Rightarrow> string \<Rightarrow> string \<Rightarrow> run_request \<Rightarrow> string option" where
  "apply_gate printable decode cfg g files blocking now path tool req =
     (if \<not> requires_approval cfg (ru_Command req) then None
      else case snd (validate_plan_for_command g now path tool (ru_Env req) (ru_ConnectionID req)
                       (ru_Command req) (ru_PlanHash req)) of
        Some rejection \<Rightarrow> Some (gr_Error rejection)
      | None \<Rightarrow>
          if \<not> ru_Approved req then Some ''approval_required''
          else if plan_supports_semantic_classification tool
            \<and> cs_RequiresAcknowledgment (cl_Summary (gate_classification printable decode files (ru_Command req)))
            \<and> \<not> ru_RiskAcknowledged req
          then Some ''plan_risk_blocked''
          else if \<not> ru_Acknowledged req \<and> blocking then Some ''policy_blocked''
          else None)"

text \<open>\<open>os.Remove\<close> of the plan document, whose error is ignored: \<open>removed\<close> says whether it succeeds.\<close>

definition remove_plan_doc :: "bool \<Rightarrow> (string \<Rightarrow> string option) \<Rightarrow> string \<Rightarrow> string option" where
  "remove_plan_doc removed files = (if removed then files(saved_plan_json_file := None) else files)"

definition prepare_run ::
  "bool \<Rightarrow> plan_gate \<Rightarrow> (string \<Rightarrow> string option) \<Rightarrow> string \<Rightarrow> string \<Rightarrow> string \<Rightarrow>
   plan_gate \<times> (string \<Rightarrow> string option)" where
  "prepare_run removed g files path tool command =
     (if command_produces_plan command then
        (invalidate_plan g [path],
         if plan_supports_semantic_classification tool then remove_plan_doc removed files else files)
      else (g, files))"

text \<open>The start of the goroutine: the error it broadcasts instead of running, or \<open>None\<close>.\<close>

definition background_admit ::
  "safety_config \<Rightarrow> plan_gate \<Rightarrow> int \<Rightarrow> string \<Rightarrow> string \<Rightarrow> run_request \<Rightarrow> plan_gate \<times> string option" where
  "background_admit cfg g now path tool req =
     (if requires_approval cfg (ru_Command req) then
        (case consume_plan_for_command g now path tool (ru_Env req) (ru_ConnectionID req)
                (ru_Command req) (ru_PlanHash req) of
           (g', _, Some rejection) \<Rightarrow> (g', Some (''apply gate invalidated before execution: '' @ gr_Detail rejection))
         | (g', _, None) \<Rightarrow> (g', None))
      else (g, None))"

text \<open>After a plan command that succeeded: the exported document (\<open>None\<close>: the export failed), what
  becomes of writing it beside the plan, and whether removing it would succeed. A write that fails
  does not open the file, or leaves a part of the document in it.\<close>

datatype doc_write = DocWritten | DocUnopened | DocPartial string

record plan_export =
  px_Document :: "string option"
  px_Write :: doc_write
  px_Removed :: bool

definition write_plan_doc :: "doc_write \<Rightarrow> string \<Rightarrow> (string \<Rightarrow> string option) \<Rightarrow> string \<Rightarrow> string option" where
  "write_plan_doc w doc files =
     (case w of
        DocWritten \<Rightarrow> files(saved_plan_json_file \<mapsto> doc)
      | DocUnopened \<Rightarrow> files
      | DocPartial part \<Rightarrow> files(saved_plan_json_file \<mapsto> part))"

definition export_plan ::
  "(nat \<Rightarrow> bool) \<Rightarrow> (string \<Rightarrow> tf_full_resource_change list option) \<Rightarrow> plan_export \<Rightarrow>
   (string \<Rightarrow> string option) \<Rightarrow> classification_result \<times> (string \<Rightarrow> string option)" where
  "export_plan printable decode x files =
     (case px_Document x of
        None \<Rightarrow> (unknown_classification ''saved plan JSON export failed; rerun plan before applying'',
                 remove_plan_doc (px_Removed x) files)
      | Some doc \<Rightarrow>
          (case classify_full_plan printable (decode doc) of
             None \<Rightarrow> (unknown_classification ''saved plan JSON could not be classified; rerun plan before applying'',
                      remove_plan_doc (px_Removed x) files)
           | Some classified \<Rightarrow>
               let files' = write_plan_doc (px_Write x) doc files in
               if px_Write x \<noteq> DocWritten
               then (unknown_classification ''saved plan JSON could not be written; rerun plan before applying'',
                     remove_plan_doc (px_Removed x) files')
               else (classified, files')))"

record settled_plan =
  sp_Gate :: plan_gate
  sp_Files :: "string \<Rightarrow> string option"
  sp_Classification :: "classification_result option"
  sp_Reference :: plan_reference
  sp_Output :: string

definition settle_plan ::
  "(nat \<Rightarrow> bool) \<Rightarrow> (string \<Rightarrow> tf_full_resource_change list option) \<Rightarrow> (int \<Rightarrow> string) \<Rightarrow> plan_gate \<Rightarrow>
   (string \<Rightarrow> string option) \<Rightarrow> string \<Rightarrow> string \<Rightarrow> run_request \<Rightarrow> string \<Rightarrow> plan_export \<Rightarrow> int \<Rightarrow> settled_plan" where
  "settle_plan printable decode rfc3339 g files path tool req output0 x now =
     (let (classification, files') =
            (if plan_supports_semantic_classification tool
             then (case export_plan printable decode x files of (c, fs) \<Rightarrow> (Some c, fs))
             else (None, files));
          output = append_plan_classification_output output0 classification;
          (g', ref) = record_command_plan_at rfc3339 files' g path tool (ru_Env req) (ru_ConnectionID req)
            (ru_Command req) output now
      in \<lparr>sp_Gate = g', sp_Files = files', sp_Classification = classification, sp_Reference = ref,
           sp_Output = append_plan_reference_output output ref\<rparr>)"

end
