(* ===== verification/Gate_Props.thy ===== *)
theory Gate_Props
  imports Plan_Gate
begin

text \<open>
  The properties of the apply gate: what it admits, that a plan is used once, that a fresh plan
  is admitted, and that the reviewer and the gate see the same classification.
\<close>

section \<open>Facts\<close>

lemma plan_hash_text: "list_all graphic (plan_hash files tool env conn command output)"
  using hex_encode_lower lower_hex_is unfolding plan_hash_def by (metis (mono_tags, lifting) list_all_iff)

lemma plan_hash_nonempty: "plan_hash files tool env conn command output \<noteq> []"
proof -
  have "length (plan_hash files tool env conn command output) = 64" by (simp add: plan_hash_def)
  then show ?thesis by fastforce
qed

lemma trim_plan_hash [simp]:
  "trim_space (plan_hash files tool env conn command output) = plan_hash files tool env conn command output"
  using plan_hash_text by (rule trim_space_all_graphic)

lemma invalidate_plan_at: "invalidate_plan g ps p = (if p \<in> set ps then None else g p)"
  unfolding invalidate_plan_def by (induction ps arbitrary: g) auto

text \<open>A valid plan: the record, its age and its context.\<close>

definition current_plan :: "plan_gate \<Rightarrow> int \<Rightarrow> string \<Rightarrow> string \<Rightarrow> string \<Rightarrow> string \<Rightarrow> string \<Rightarrow> plan_reference \<Rightarrow> bool" where
  "current_plan g now path tool env conn command ref \<longleftrightarrow>
     (\<exists>t. g path = Some \<lparr>pd_reference = ref, pd_createdAt = t\<rparr> \<and> now < t + plan_gate_ttl)
     \<and> pl_Tool ref = tool \<and> pl_Env ref = env \<and> pl_ConnectionID ref = conn
     \<and> plan_command_allows_mutation tool (pl_PlanCommand ref) command"

lemma validate_plan_iff:
  "validate_plan_for_command g now path tool env conn command provided = (Some ref, None) \<longleftrightarrow>
     current_plan g now path tool env conn command ref \<and> trim_space provided = pl_Hash ref \<and> pl_Hash ref \<noteq> []"
proof (cases "g path")
  case None
  then show ?thesis by (simp add: validate_plan_for_command_def current_plan_def)
next
  case (Some r)
  then show ?thesis
    by (cases r) (auto simp: validate_plan_for_command_def current_plan_def Let_def)
qed

lemma validate_plan_none:
  "snd (validate_plan_for_command g now path tool env conn command provided) = None \<longleftrightarrow>
     (\<exists>ref. validate_plan_for_command g now path tool env conn command provided = (Some ref, None))"
  by (auto simp: validate_plan_for_command_def Let_def split: option.splits)

lemma consume_plan_some:
  "consume_plan_for_command g now path tool env conn command provided = (g', Some ref, None) \<longleftrightarrow>
     validate_plan_for_command g now path tool env conn command provided = (Some ref, None) \<and> g' = g(path := None)"
  by (auto simp: consume_plan_for_command_def validate_plan_for_command_def Let_def split: option.splits)

lemma consume_plan_gate:
  "fst (consume_plan_for_command g now path tool env conn command provided) =
     (if snd (validate_plan_for_command g now path tool env conn command provided) = None then g(path := None) else g)"
  by (auto simp: consume_plan_for_command_def split: prod.splits option.splits)

lemma unknown_needs_ack [simp]: "cs_RequiresAcknowledgment (cl_Summary (unknown_classification reason))"
  by (simp add: unknown_classification_def Let_def)

section \<open>What the gate admits\<close>

text \<open>C4: A command that needs approval passes the gate exactly if the caller approved it and
  submitted the hash of the plan recorded for the directory less than an hour ago in the same
  tool, environment and connection and by a plan command that covers it; no policy error
  stands unacknowledged; and, for Terraform and OpenTofu, unless the caller acknowledged the
  risk, it is not a destroy and the saved plan document decodes to changes that are all
  classified as safe.\<close>

theorem gate_admits_exactly:
  assumes "requires_approval cfg (ru_Command req)"
  shows "apply_gate printable decode cfg g files blocking now path tool req = None \<longleftrightarrow>
    ru_Approved req
    \<and> (\<exists>ref. current_plan g now path tool (ru_Env req) (ru_ConnectionID req) (ru_Command req) ref
         \<and> trim_space (ru_PlanHash req) = pl_Hash ref \<and> pl_Hash ref \<noteq> [])
    \<and> (blocking \<longrightarrow> ru_Acknowledged req)
    \<and> (tool = ''terraform'' \<or> tool = ''opentofu'' \<longrightarrow> ru_RiskAcknowledged req \<or>
        ru_Command req \<noteq> ''destroy'' \<and>
        (\<exists>doc p. files saved_plan_json_file = Some doc \<and> parse_full_plan (decode doc) = Some p
           \<and> (\<forall>c \<in> set (pr_Changes p). cc_Risk (classify_change printable c) = RiskSafe)))"
proof -
  have ack: "\<not> cs_RequiresAcknowledgment (cl_Summary (gate_classification printable decode files (ru_Command req)))
    \<longleftrightarrow> ru_Command req \<noteq> ''destroy'' \<and>
        (\<exists>doc p. files saved_plan_json_file = Some doc \<and> parse_full_plan (decode doc) = Some p
           \<and> (\<forall>c \<in> set (pr_Changes p). cc_Risk (classify_change printable c) = RiskSafe))"
    by (simp add: gate_classification_def classify_saved_plan_def classify_full_plan_def plan_ack
        split: option.split)
  have v: "snd (validate_plan_for_command g now path tool (ru_Env req) (ru_ConnectionID req)
        (ru_Command req) (ru_PlanHash req)) = None \<longleftrightarrow>
      (\<exists>ref. current_plan g now path tool (ru_Env req) (ru_ConnectionID req) (ru_Command req) ref
         \<and> trim_space (ru_PlanHash req) = pl_Hash ref \<and> pl_Hash ref \<noteq> [])"
    unfolding validate_plan_none validate_plan_iff ..
  show ?thesis
    using assms ack unfolding apply_gate_def plan_supports_semantic_classification_def v [symmetric]
    by (auto split: option.split)
qed

definition demo_reference :: plan_reference where
  "demo_reference = \<lparr>pl_Hash = ''h'', pl_Tool = ''terraform'', pl_Env = [], pl_ConnectionID = [],
     pl_PlanCommand = ''plan'', pl_CreatedAt = [], pl_ExpiresAt = []\<rparr>"

definition demo_request :: run_request where
  "demo_request = \<lparr>ru_Command = ''apply'', ru_Approved = True, ru_Acknowledged = False,
     ru_RiskAcknowledged = False, ru_PlanHash = '' h'', ru_Env = [], ru_ConnectionID = []\<rparr>"

lemma demo_requires: "requires_approval default_safety_config (ru_Command demo_request)"
  by (simp add: requires_approval_def default_safety_config_def demo_request_def)

theorem gate_admits_exactly_witness:
  "apply_gate (\<lambda>_. True) (\<lambda>_. Some []) default_safety_config
     [''/p'' \<mapsto> \<lparr>pd_reference = demo_reference, pd_createdAt = 5\<rparr>] [saved_plan_json_file \<mapsto> ''{}''] False 6 ''/p''
     ''terraform'' demo_request = None"
proof -
  have "trim_space '' h'' = ''h''" by code_simp
  then show ?thesis unfolding gate_admits_exactly [OF demo_requires]
    by (simp add: current_plan_def plan_gate_ttl_def demo_reference_def demo_request_def
        plan_command_allows_mutation_def parse_full_plan_def summarized_def empty_result_def Let_def)
qed

section \<open>Sequences of gate operations\<close>

datatype gate_event =
    RecordPlan "string \<Rightarrow> string option" string string string string string string int
  | ConsumePlan int string string string string string string
  | InvalidatePlans "string list"

fun gate_step :: "(int \<Rightarrow> string) \<Rightarrow> plan_gate \<Rightarrow> gate_event \<Rightarrow> plan_gate" where
  "gate_step rfc3339 g (RecordPlan files path tool env conn command output now) =
     fst (record_command_plan_at rfc3339 files g path tool env conn command output now)"
| "gate_step rfc3339 g (ConsumePlan now path tool env conn command provided) =
     fst (consume_plan_for_command g now path tool env conn command provided)"
| "gate_step rfc3339 g (InvalidatePlans paths) = invalidate_plan g paths"

fun records_at :: "string \<Rightarrow> gate_event \<Rightarrow> bool" where
  "records_at path (RecordPlan files p tool env conn command output now) = (p = path)"
| "records_at path _ = False"

text \<open>An operation that leaves the plan with hash \<open>h\<close> at \<open>path\<close> alone.\<close>

fun spares :: "string \<Rightarrow> string \<Rightarrow> gate_event \<Rightarrow> bool" where
  "spares path h (RecordPlan files p tool env conn command output now) = (p \<noteq> path)"
| "spares path h (ConsumePlan now p tool env conn command provided) = (p \<noteq> path \<or> trim_space provided \<noteq> h)"
| "spares path h (InvalidatePlans paths) = (path \<notin> set paths)"

lemma step_keeps_absent: "\<not> records_at path e \<Longrightarrow> g path = None \<Longrightarrow> gate_step rfc g e path = None"
  by (cases e) (auto simp: record_command_plan_at_def Let_def consume_plan_gate invalidate_plan_at)

lemma steps_keep_absent:
  "\<forall>e \<in> set evs. \<not> records_at path e \<Longrightarrow> g path = None \<Longrightarrow> foldl (gate_step rfc) g evs path = None"
  by (induction evs arbitrary: g) (auto simp: step_keeps_absent)

lemma step_spares:
  assumes "spares path (pl_Hash (pd_reference r)) e" "g path = Some r"
  shows "gate_step rfc g e path = Some r"
proof (cases e)
  case (ConsumePlan now p tool env conn command provided)
  have "\<not> (p = path \<and> snd (validate_plan_for_command g now p tool env conn command provided) = None)"
    using assms ConsumePlan unfolding validate_plan_none validate_plan_iff current_plan_def by auto
  then show ?thesis using assms ConsumePlan by (auto simp: consume_plan_gate)
qed (use assms in \<open>auto simp: record_command_plan_at_def Let_def invalidate_plan_at\<close>)

lemma steps_spare:
  "\<forall>e \<in> set evs. spares path (pl_Hash (pd_reference r)) e \<Longrightarrow> g path = Some r \<Longrightarrow>
   foldl (gate_step rfc) g evs path = Some r"
  by (induction evs arbitrary: g) (auto simp: step_spares)

text \<open>C5: A plan is spent by the first command that runs on it: after a successful consumption
  for a directory, whatever operations follow on the gate, no command is admitted there until
  a new plan is recorded for that directory.\<close>

theorem plans_consumed_once:
  assumes "consume_plan_for_command g now path tool env conn command provided = (g', Some ref, None)"
    "\<forall>e \<in> set evs. \<not> records_at path e"
  shows "consume_plan_for_command (foldl (gate_step rfc3339) g' evs) now2 path tool2 env2 conn2 command2 provided2
    = (foldl (gate_step rfc3339) g' evs, None, Some \<lparr>gr_Error = ''plan_required'', gr_Detail =
         ''run plan first; no current saved plan exists for this project, environment, and connection''\<rparr>)"
proof -
  have "g' path = None" using assms(1) unfolding consume_plan_some by simp
  then have "foldl (gate_step rfc3339) g' evs path = None" using steps_keep_absent assms(2) by blast
  then show ?thesis by (simp add: consume_plan_for_command_def validate_plan_for_command_def)
qed

theorem plans_consumed_once_witness:
  "snd (snd (consume_plan_for_command
     (gate_step (\<lambda>_. []) ([''/p'' \<mapsto> \<lparr>pd_reference = demo_reference, pd_createdAt = 5\<rparr>](''/p'' := None))
        (RecordPlan (\<lambda>_. None) ''/q'' ''terraform'' [] [] ''plan'' [] 6))
     7 ''/p'' ''terraform'' [] [] ''apply'' ''h'')) \<noteq> None"
proof -
  let ?g = "[''/p'' \<mapsto> \<lparr>pd_reference = demo_reference, pd_createdAt = 5\<rparr>]"
  let ?e = "RecordPlan (\<lambda>_. None) ''/q'' ''terraform'' [] [] ''plan'' [] 6"
  have t: "trim_space ''h'' = ''h''" by code_simp
  have c: "consume_plan_for_command ?g 6 ''/p'' ''terraform'' [] [] ''apply'' ''h''
      = (?g(''/p'' := None), Some demo_reference, None)"
    unfolding consume_plan_some validate_plan_iff t
    by (simp add: current_plan_def plan_gate_ttl_def demo_reference_def plan_command_allows_mutation_def)
  have e: "\<forall>e \<in> set [?e]. \<not> records_at ''/p'' e" by simp
  show ?thesis using plans_consumed_once [OF c e, of "\<lambda>_. []"] by simp
qed

section \<open>From plan to apply\<close>

lemma settled_record:
  "sp_Gate (settle_plan printable decode rfc g files path tool req out x now) path =
     Some \<lparr>pd_reference = sp_Reference (settle_plan printable decode rfc g files path tool req out x now),
       pd_createdAt = now\<rparr>"
  "pl_Tool (sp_Reference (settle_plan printable decode rfc g files path tool req out x now)) = tool"
  "pl_Env (sp_Reference (settle_plan printable decode rfc g files path tool req out x now)) = ru_Env req"
  "pl_ConnectionID (sp_Reference (settle_plan printable decode rfc g files path tool req out x now))
     = ru_ConnectionID req"
  "pl_PlanCommand (sp_Reference (settle_plan printable decode rfc g files path tool req out x now))
     = ru_Command req"
  "\<exists>fs c o'. pl_Hash (sp_Reference (settle_plan printable decode rfc g files path tool req out x now))
     = plan_hash fs tool (ru_Env req) (ru_ConnectionID req) (ru_Command req) o'"
  by (auto simp: settle_plan_def record_command_plan_at_def Let_def split: prod.split)

text \<open>The document that the gate classifies later gives the risk that was reported with the plan,
  if the document of a plan that could not be exported is really removed.\<close>

lemma settled_classification:
  "sp_Classification (settle_plan printable decode rfc g files path tool req out x now) =
     (if plan_supports_semantic_classification tool
      then Some (fst (export_plan printable decode x files)) else None)"
  "sp_Files (settle_plan printable decode rfc g files path tool req out x now) =
     (if plan_supports_semantic_classification tool then snd (export_plan printable decode x files) else files)"
  by (simp_all add: settle_plan_def record_command_plan_at_def Let_def split: prod.split)

lemma exported_risk:
  assumes "px_Removed x"
  shows "cs_RequiresAcknowledgment (cl_Summary (classify_saved_plan printable decode (snd (export_plan printable decode x files))))
    = cs_RequiresAcknowledgment (cl_Summary (fst (export_plan printable decode x files)))"
  using assms
  by (auto simp: export_plan_def classify_saved_plan_def remove_plan_doc_def write_plan_doc_def Let_def split: option.splits)

text \<open>C8: A plan command that succeeds can be applied: in the hour after it, when only operations
  that spare its record came between and the plan document is as the plan left it, a command that
  the plan covers, approved, with the hash the plan reported and not blocked by the policies,
  passes the gate; except that a Terraform or OpenTofu command is stopped, exactly if it is a
  destroy or the plan was reported as needing an acknowledgment, until its caller acknowledges the
  risk. It starts once, not twice. (The document of a plan that could not be exported or written
  has to be removed; \<open>os.Remove\<close> must succeed where the handler calls it.)\<close>

theorem plan_then_apply:
  assumes "s = settle_plan printable decode rfc3339 g files path tool planned output x t"
    "requires_approval cfg (ru_Command req)"
    "plan_command_allows_mutation tool (ru_Command planned) (ru_Command req)"
    "ru_Env req = ru_Env planned" "ru_ConnectionID req = ru_ConnectionID planned"
    "ru_PlanHash req = pl_Hash (sp_Reference s)" "ru_Approved req" "blocking \<longrightarrow> ru_Acknowledged req"
    "\<forall>e \<in> set evs. spares path (pl_Hash (sp_Reference s)) e" "now < t + plan_gate_ttl" "px_Removed x"
  shows "apply_gate printable decode cfg (foldl (gate_step rfc3339) (sp_Gate s) evs) (sp_Files s) blocking now
      path tool req =
      (if (tool = ''terraform'' \<or> tool = ''opentofu'') \<and> \<not> ru_RiskAcknowledged req
          \<and> (ru_Command req = ''destroy'' \<or>
             (\<exists>c. sp_Classification s = Some c \<and> cs_RequiresAcknowledgment (cl_Summary c)))
       then Some ''plan_risk_blocked'' else None)
    \<and> (\<exists>g'. background_admit cfg (foldl (gate_step rfc3339) (sp_Gate s) evs) now path tool req = (g', None)
        \<and> snd (background_admit cfg g' now2 path tool req) \<noteq> None)"
proof -
  let ?g = "foldl (gate_step rfc3339) (sp_Gate s) evs" and ?r = "sp_Reference s"
  note rec = settled_record [of printable decode rfc3339 g files path tool planned "output" x t,
      folded assms(1)]
  have at: "?g path = Some \<lparr>pd_reference = ?r, pd_createdAt = t\<rparr>"
    using steps_spare [of evs path "\<lparr>pd_reference = ?r, pd_createdAt = t\<rparr>" "sp_Gate s" rfc3339] rec(1) assms(9)
    by simp
  then have cur: "current_plan ?g now path tool (ru_Env req) (ru_ConnectionID req) (ru_Command req) ?r"
    using rec(2-5) assms(3-5,10) by (simp add: current_plan_def)
  have h: "trim_space (ru_PlanHash req) = pl_Hash ?r" "pl_Hash ?r \<noteq> []"
    using rec(6) assms(6) by (metis trim_plan_hash, metis plan_hash_nonempty)
  have valid: "validate_plan_for_command ?g now path tool (ru_Env req) (ru_ConnectionID req) (ru_Command req)
      (ru_PlanHash req) = (Some ?r, None)"
    unfolding validate_plan_iff using cur h by simp
  then have con: "consume_plan_for_command ?g now path tool (ru_Env req) (ru_ConnectionID req) (ru_Command req)
      (ru_PlanHash req) = (?g(path := None), Some ?r, None)"
    unfolding consume_plan_some by simp
  have risk: "cs_RequiresAcknowledgment (cl_Summary (gate_classification printable decode (sp_Files s) (ru_Command req)))
      \<longleftrightarrow> ru_Command req = ''destroy'' \<or> (\<exists>c. sp_Classification s = Some c \<and> cs_RequiresAcknowledgment (cl_Summary c))"
    if "plan_supports_semantic_classification tool"
    using that exported_risk [OF assms(11), of printable decode files]
    by (simp add: gate_classification_def assms(1) settled_classification)
  have "apply_gate printable decode cfg ?g (sp_Files s) blocking now path tool req =
      (if (tool = ''terraform'' \<or> tool = ''opentofu'') \<and> \<not> ru_RiskAcknowledged req
          \<and> (ru_Command req = ''destroy'' \<or>
             (\<exists>c. sp_Classification s = Some c \<and> cs_RequiresAcknowledgment (cl_Summary c)))
       then Some ''plan_risk_blocked'' else None)"
    using assms(2,7,8) risk valid by (auto simp: apply_gate_def plan_supports_semantic_classification_def)
  moreover have "background_admit cfg ?g now path tool req = (?g(path := None), None)"
    using con assms(2) by (simp add: background_admit_def)
  moreover have "snd (background_admit cfg (?g(path := None)) now2 path tool req) \<noteq> None"
    using assms(2) by (simp add: background_admit_def consume_plan_for_command_def validate_plan_for_command_def)
  ultimately show ?thesis by blast
qed

definition demo_export :: plan_export where
  "demo_export = \<lparr>px_Document = Some ''{}'', px_Write = DocWritten, px_Removed = True\<rparr>"

theorem plan_then_apply_witness:
  "\<exists>s. s = settle_plan (\<lambda>_. True) (\<lambda>_. Some []) (\<lambda>_. []) (\<lambda>_. None) (\<lambda>_. None) ''/p'' ''terraform''
        (demo_request\<lparr>ru_Command := ''plan''\<rparr>) [] demo_export 5
    \<and> apply_gate (\<lambda>_. True) (\<lambda>_. Some []) default_safety_config
        (foldl (gate_step (\<lambda>_. [])) (sp_Gate s) [InvalidatePlans [''/q''],
           ConsumePlan 6 ''/p'' ''terraform'' [] [] ''apply'' []])
        (sp_Files s) False 7 ''/p'' ''terraform'' (demo_request\<lparr>ru_PlanHash := pl_Hash (sp_Reference s)\<rparr>) = None"
proof -
  let ?s = "settle_plan (\<lambda>_. True) (\<lambda>_. Some []) (\<lambda>_. []) (\<lambda>_. None) (\<lambda>_. None) ''/p'' ''terraform''
        (demo_request\<lparr>ru_Command := ''plan''\<rparr>) [] demo_export 5"
  let ?q = "demo_request\<lparr>ru_PlanHash := pl_Hash (sp_Reference ?s)\<rparr>"
  let ?evs = "[InvalidatePlans [''/q''], ConsumePlan 6 ''/p'' ''terraform'' [] [] ''apply'' []]"
  have h: "pl_Hash (sp_Reference ?s) \<noteq> []"
    using settled_record(6) [of "\<lambda>_. True" "\<lambda>_. Some []" "\<lambda>_. []"] plan_hash_nonempty by metis
  have c: "\<forall>c. sp_Classification ?s = Some c \<longrightarrow> \<not> cs_RequiresAcknowledgment (cl_Summary c)"
    unfolding settled_classification
    by (simp add: plan_supports_semantic_classification_def export_plan_def classify_full_plan_def demo_export_def
        parse_full_plan_def plan_ack summarized_def empty_result_def Let_def)
  have r: "requires_approval default_safety_config (ru_Command ?q)" using demo_requires by simp
  have m: "plan_command_allows_mutation ''terraform'' (ru_Command (demo_request\<lparr>ru_Command := ''plan''\<rparr>)) (ru_Command ?q)"
    by (simp add: plan_command_allows_mutation_def demo_request_def)
  have e: "\<forall>e \<in> set ?evs. spares ''/p'' (pl_Hash (sp_Reference ?s)) e" using h by simp
  have x: "px_Removed demo_export" by (simp add: demo_export_def)
  show ?thesis
    using plan_then_apply [OF refl r m _ _ _ _ _ e _ x, where blocking = False and now = 7] c
    by (auto simp: demo_request_def plan_gate_ttl_def)
qed

text \<open>If removing fails, the document of an earlier plan answers for a plan that could not be
  exported: the plan is reported as needing an acknowledgment and the gate asks for none.\<close>

lemma stale_plan_document:
  assumes "files saved_plan_json_file = Some old" "classify_full_plan printable (decode old) = Some c"
    "\<not> cs_RequiresAcknowledgment (cl_Summary c)" "px_Document x = None" "\<not> px_Removed x"
  shows "cs_RequiresAcknowledgment (cl_Summary (fst (export_plan printable decode x files)))
    \<and> \<not> cs_RequiresAcknowledgment (cl_Summary (classify_saved_plan printable decode (snd (export_plan printable decode x files))))"
  using assms by (simp add: export_plan_def remove_plan_doc_def classify_saved_plan_def)

section \<open>Limits of the gate\<close>

lemma join_dots:
  "plain_element e \<Longrightarrow> \<not> has_prefix e ''..'' \<Longrightarrow>
   join ''/'' (e # es) \<noteq> ''.'' \<and> \<not> has_prefix (join ''/'' (e # es)) ''..''"
  by (cases es)
    (auto simp: plain_element_def join_Cons has_prefix_iff append_eq_Cons_conv Cons_eq_append_conv)

text \<open>The hash of a plan does not say where its parts end: a directory with one plan file that
  contains the name of the document and a zero byte hashes like a directory in which the
  document is a file of its own, and so does an output that contains the name of the plan file.\<close>

theorem plan_hash_not_injective:
  "plan_hash [saved_terraform_plan_file \<mapsto> x @ saved_plan_json_file @ [CHR 0x00] @ y] tool env conn command output
   = plan_hash [saved_terraform_plan_file \<mapsto> x, saved_plan_json_file \<mapsto> y] tool env conn command output
   \<and> plan_hash Map.empty tool env conn command (output @ [CHR 0x00] @ saved_terraform_plan_file @ [CHR 0x00] @ z)
   = plan_hash [saved_terraform_plan_file \<mapsto> z @ [CHR 0x00]] tool env conn command output"
  by (simp add: plan_hash_def plan_message_def hashed_file_def hash_field_def saved_terraform_plan_file_def
      saved_plan_json_file_def)

text \<open>A changed file of a project drops the plan of the project's root and, if it lies in the
  directory of an environment, the plan of that environment, and no other plan: a change of a
  module that the environments share leaves their plans in force.\<close>

theorem changed_file_drops_plans:
  assumes "list_all plain_element (root @ project # segs)" "root \<noteq> []" "segs \<noteq> []"
    "\<not> has_prefix project ''..''" "\<not> has_prefix (hd segs) ''..''"
  shows "invalidate_plan_for_changed_file cwd g (abs_path root) (abs_path (root @ project # segs)) =
    (let g' = g(abs_path (root @ [project]) := None) in
     if 2 < length segs \<and> hd segs = ''environments''
     then g'(abs_path (root @ [project, ''environments'', segs ! 1]) := None) else g')"
proof -
  obtain a as where f: "segs = a # as" using assms(3) by (cases segs) auto
  let ?p = "abs_path (root @ [project])" and ?f = "abs_path (root @ project # segs)"
  have el: "list_all plain_element root" "plain_element project" "list_all plain_element segs"
    using assms(1) by simp_all
  have nosep: "\<forall>e \<in> set (project # segs). CHR ''/'' \<notin> set e"
    using el by (auto simp: list_all_iff plain_element_def)
  have rel: "path_rel (abs_path root) ?f = Some (join ''/'' (project # segs))"
    using rel_abs_path [of root "project # segs"] assms(1,2) by simp
  have relp: "path_rel ?p ?f = Some (join ''/'' segs)"
    using rel_abs_path [of "root @ [project]" segs] assms by simp
  have parts: "split_on (CHR ''/'') (join ''/'' (project # segs)) = project # segs"
    "split_on (CHR ''/'') (join ''/'' segs) = segs"
    using nosep assms(3) split_on_join by (auto intro!: split_on_join)
  have dots: "join ''/'' (project # segs) \<noteq> ''.''" "\<not> has_prefix (join ''/'' (project # segs)) ''..''"
    "join ''/'' segs \<noteq> ''.''" "\<not> has_prefix (join ''/'' segs) ''..''"
    using el(2,3) assms(4,5) f join_dots [of project segs] join_dots [of a as] by simp_all
  have abs: "path_abs cwd (abs_path root) = abs_path root" "path_abs cwd ?f = ?f"
    using assms(1,2) el by simp_all
  have pj: "path_join [abs_path root, project] = ?p"
    using join_abs_path [of root "[project]"] assms(1,2) by simp
  have env: "env_workdir_for_project_file ?p ?f =
      (if 2 < length segs \<and> hd segs = ''environments''
       then Some (abs_path (root @ [project, ''environments'', segs ! 1])) else None)"
  proof -
    have "path_join [?p, ''environments'', segs ! 1] = abs_path (root @ [project, ''environments'', segs ! 1])"
      if "2 < length segs"
    proof -
      have "plain_element (segs ! 1)" using that el(3) by (simp add: list_all_length)
      then show ?thesis using join_abs_path [of "root @ [project]" "[''environments'', segs ! 1]"] el
        by (simp add: plain_element_def)
    qed
    moreover have "2 < length segs \<Longrightarrow> segs ! 1 \<noteq> []"
      using el(3) by (simp add: list_all_length plain_element_def)
    ultimately show ?thesis using relp parts(2) dots(3,4) f
      by (auto simp: env_workdir_for_project_file_def Let_def hd_conv_nth)
  qed
  have "invalidate_plan_for_changed_file cwd g (abs_path root) ?f = invalidate_plan g (plan_invalidation_paths ?p [?f])"
    using rel parts(1) dots(1,2) el(2) assms(3) abs pj
    by (cases segs) (simp_all add: invalidate_plan_for_changed_file_def Let_def plain_element_def)
  then show ?thesis using env
    by (auto simp: plan_invalidation_paths_def invalidate_plan_def Let_def)
qed

theorem changed_file_drops_plans_witness:
  "invalidate_plan_for_changed_file ''/'' (\<lambda>_. Some \<lparr>pd_reference = demo_reference, pd_createdAt = 5\<rparr>)
     ''/w'' ''/w/app/modules/vpc/main.tf'' ''/w/app/environments/dev''
   = Some \<lparr>pd_reference = demo_reference, pd_createdAt = 5\<rparr>"
proof -
  have p: "list_all plain_element [''w'', ''app'', ''modules'', ''vpc'', ''main.tf'']"
    by (simp add: plain_element_def)
  show ?thesis
    using changed_file_drops_plans [of "[''w'']" "''app''" "[''modules'', ''vpc'', ''main.tf'']" "''/''"
        "\<lambda>_. Some \<lparr>pd_reference = demo_reference, pd_createdAt = 5\<rparr>"] p
    by (simp add: abs_path_def)
qed

end
