(* ===== verification/Runner_Props.thy ===== *)
theory Runner_Props
  imports Safe_Runner
begin

text \<open>
  The properties of the command runner: what a subprocess scoped to a cloud connection sees,
  how much output is kept, and what the table of running commands promises.
\<close>

section \<open>Facts on environments\<close>

definition env_key :: "string \<Rightarrow> bool" where
  "env_key k \<longleftrightarrow> CHR ''='' \<notin> set k"

lemma cut_entry [simp]: "env_key k \<Longrightarrow> cut_eq (env_entry (k, v)) = Some (k, v)"
  by (induction k) (auto simp: env_key_def env_entry_def)

lemma cut_key: "cut_eq e = Some (k, v) \<Longrightarrow> env_key k"
  by (induction e arbitrary: k) (auto simp: env_key_def split: if_splits)

lemma env_value_entries: "\<forall>kv \<in> set kvs. env_key (fst kv) \<Longrightarrow> env_value (map env_entry kvs) k = map_of kvs k"
  by (induction kvs) auto

lemma env_value_no_key: "\<not> env_key k \<Longrightarrow> env_value env k = None"
  using cut_key by (induction env) (auto split: option.splits)

lemma env_value_set: "env_key k \<Longrightarrow> env_value (set_env_value env k v) j = (if j = k then Some v else env_value env j)"
  by (induction env) (auto split: option.splits)

abbreviation "keys kvs \<equiv> fst ` set kvs"

lemma merge_base_keys: "keys (merge_base acc e) \<subseteq> keys acc \<union> {k. \<exists>v. cut_eq e = Some (k, v)}"
  by (auto simp: merge_base_def dom_update split: option.splits)

lemma merge_bases_keys: "keys (foldl merge_base acc es) \<subseteq> keys acc \<union> {k. \<exists>e \<in> set es. \<exists>v. cut_eq e = Some (k, v)}"
proof (induction es arbitrary: acc)
  case (Cons e es)
  show ?case
  proof
    fix k assume "k \<in> keys (foldl merge_base acc (e # es))"
    then have "k \<in> keys (merge_base acc e) \<or> (\<exists>e \<in> set es. \<exists>v. cut_eq e = Some (k, v))"
      using Cons.IH [of "merge_base acc e"] by (simp add: subset_iff)
    then show "k \<in> keys acc \<union> {k. \<exists>e \<in> set (e # es). \<exists>v. cut_eq e = Some (k, v)}"
      using merge_base_keys [of acc e] by (simp add: subset_iff) blast
  qed
qed simp

lemma merge_override_keys: "keys (merge_override acc kv) \<subseteq> insert (fst kv) (keys acc)"
  by (auto simp: merge_override_def dom_update)

lemma merge_overrides_keys: "keys (foldl merge_override acc ov) \<subseteq> keys acc \<union> keys ov"
proof (induction ov arbitrary: acc)
  case (Cons kv ov)
  have "keys (foldl merge_override (merge_override acc kv) ov) \<subseteq> keys (merge_override acc kv) \<union> keys ov"
    by (rule Cons.IH)
  also have "\<dots> \<subseteq> keys acc \<union> keys (kv # ov)"
    using merge_override_keys [of acc kv] by auto
  finally show ?case by simp
qed simp

lemma merge_overrides_value:
  assumes "trim_space k \<noteq> []"
  shows "map_of (foldl merge_override acc ov) k = (map_of acc ++ map_of (rev ov)) k"
proof (induction ov arbitrary: acc)
  case (Cons kv ov)
  have "map_of (merge_override acc kv) k = (map_of acc ++ map_of [kv]) k"
    using assms by (auto simp: merge_override_def update_conv' map_add_def)
  then show ?case using Cons.IH [of "merge_override acc kv"] by (simp add: map_add_def split: option.splits)
qed simp

lemma minimal_env_keys:
  "e \<in> set (minimal_env seen base) \<Longrightarrow> \<exists>k v. e = env_entry (k, v) \<and> env_key k \<and> \<not> is_cloud_credential_env_key k"
proof (induction base arbitrary: seen)
  case (Cons b base)
  show ?case
  proof (cases "cut_eq b")
    case None
    then show ?thesis using Cons.prems Cons.IH [of seen] by simp
  next
    case (Some kv)
    then obtain k v where b: "cut_eq b = Some (k, v)" by (cases kv) auto
    then have k: "env_key k" by (rule cut_key)
    show ?thesis
    proof (cases "k = [] \<or> k \<in> set seen \<or> k \<notin> set command_env_allow \<or> is_cloud_credential_env_key k")
      case True
      then show ?thesis using Cons.prems Cons.IH [of seen] b by simp
    next
      case False
      then have "e = env_entry (k, v) \<or> e \<in> set (minimal_env (k # seen) base)"
        using Cons.prems b by simp
      then show ?thesis using Cons.IH [of "k # seen"] k False by blast
    qed
  qed
qed simp

lemma merge_env_value:
  assumes "\<forall>k \<in> keys ov. env_key k"
  shows "env_value (merge_env base ov) k = map_of (merge_values base ov) k"
proof -
  have "keys (merge_values base ov) \<subseteq> {k. env_key k}"
  proof
    fix k assume "k \<in> keys (merge_values base ov)"
    then have "k \<in> keys (foldl merge_base [] base) \<or> k \<in> keys ov"
      using merge_overrides_keys unfolding merge_values_def by blast
    then show "k \<in> {k. env_key k}"
      using merge_bases_keys [of "[]" base] assms cut_key by (auto simp del: set_map)
  qed
  then show ?thesis unfolding merge_env_def by (intro env_value_entries) auto
qed

lemma credential_keys_graphic: "\<forall>k \<in> set cloud_credential_keys. k \<noteq> [] \<and> list_all graphic k"
  by code_simp

lemma credential_key_nonblank: "is_cloud_credential_env_key k \<Longrightarrow> trim_space k \<noteq> []"
proof -
  assume "is_cloud_credential_env_key k"
  then consider "has_prefix k ''TF_TOKEN_''" | "k \<in> set cloud_credential_keys"
    by (auto simp: is_cloud_credential_env_key_def split: if_splits)
  then show ?thesis
  proof cases
    case 1
    then obtain t where "k = ''TF_TOKEN_'' @ t" using has_prefix_iff by metis
    then obtain r where k: "k = CHR ''T'' # r" by simp
    have g: "graphic (CHR ''T'')" by code_simp
    have "trim_left k = CHR ''T'' # r" unfolding k by (rule trim_left_graphic [OF g])
    then show ?thesis using g by (rule trim_space_nonblank)
  next
    case 2
    then have "k \<noteq> []" "list_all graphic k" using credential_keys_graphic by blast+
    then show ?thesis by (simp add: trim_space_all_graphic)
  qed
qed

text \<open>What a scoped environment says of a credential comes from the overrides alone.\<close>

lemma scoped_merge_credential:
  assumes "\<forall>k \<in> keys ov. env_key k" "is_cloud_credential_env_key k"
  shows "env_value (merge_env (minimal_command_env base) ov) k = map_of (rev ov) k"
proof -
  have "k \<notin> keys (foldl merge_base [] (minimal_command_env base))"
  proof
    assume "k \<in> keys (foldl merge_base [] (minimal_command_env base))"
    then obtain e v where e: "e \<in> set (minimal_command_env base)" "cut_eq e = Some (k, v)"
      using merge_bases_keys [of "[]" "minimal_command_env base"] by auto
    then obtain j w where "e = env_entry (j, w)" "env_key j" "\<not> is_cloud_credential_env_key j"
      using minimal_env_keys unfolding minimal_command_env_def by blast
    then show False using e(2) assms(2) by simp
  qed
  then have "map_of (foldl merge_base [] (minimal_command_env base)) k = None"
    by (simp add: map_of_eq_None_iff)
  then show ?thesis
    unfolding merge_env_value [OF assms(1)] merge_values_def
      merge_overrides_value [OF credential_key_nonblank [OF assms(2)]]
    by (simp add: map_add_def split: option.splits)
qed

definition agree :: "string list \<Rightarrow> string list \<Rightarrow> bool" where
  "agree a b \<longleftrightarrow> (\<forall>k. is_cloud_credential_env_key k \<longrightarrow> env_value a k = env_value b k)"

lemma agree_set: "env_key k \<Longrightarrow> agree a b \<Longrightarrow> agree (set_env_value a k v) (set_env_value b k v)"
  by (simp add: agree_def env_value_set)

lemma credential_names_are:
  "is_cloud_credential_env_key ''AWS_ACCESS_KEY_ID''" "is_cloud_credential_env_key ''AWS_SECRET_ACCESS_KEY''"
  "is_cloud_credential_env_key ''AWS_ROLE_ARN''" "is_cloud_credential_env_key ''AWS_WEB_IDENTITY_TOKEN_FILE''"
  "is_cloud_credential_env_key ''AWS_PROFILE''" "is_cloud_credential_env_key ''AWS_DEFAULT_PROFILE''"
  "is_cloud_credential_env_key ''AWS_SHARED_CREDENTIALS_FILE''" "is_cloud_credential_env_key ''AWS_CONFIG_FILE''"
  "is_cloud_credential_env_key ''AWS_CONTAINER_CREDENTIALS_RELATIVE_URI''"
  "is_cloud_credential_env_key ''AWS_CONTAINER_CREDENTIALS_FULL_URI''"
  "is_cloud_credential_env_key ''AWS_EC2_METADATA_DISABLED''"
  "env_key ''AWS_SHARED_CREDENTIALS_FILE''" "env_key ''AWS_CONFIG_FILE''" "env_key ''AWS_EC2_METADATA_DISABLED''"
  by (simp_all add: is_cloud_credential_env_key_def cloud_credential_keys_def env_key_def)

lemma agree_value: "agree a b \<Longrightarrow> is_cloud_credential_env_key k \<Longrightarrow> env_value a k = env_value b k"
  by (simp add: agree_def)

lemma agree_source: "agree a b \<Longrightarrow> has_aws_credential_source a = has_aws_credential_source b"
  "agree a b \<Longrightarrow> env_has_nonempty_value a ''AWS_EC2_METADATA_DISABLED'' = env_has_nonempty_value b ''AWS_EC2_METADATA_DISABLED''"
  using agree_value [of a b] by (simp_all add: has_aws_credential_source_def env_has_nonempty_value_def credential_names_are)

lemma agree_files:
  "agree a b \<Longrightarrow> agree
     (if \<not> has_aws_credential_source a
      then set_env_value (set_env_value a ''AWS_SHARED_CREDENTIALS_FILE'' v) ''AWS_CONFIG_FILE'' v else a)
     (if \<not> has_aws_credential_source b
      then set_env_value (set_env_value b ''AWS_SHARED_CREDENTIALS_FILE'' v) ''AWS_CONFIG_FILE'' v else b)"
  by (simp add: agree_source(1) agree_set credential_names_are)

lemma agree_metadata:
  "agree a b \<Longrightarrow> agree
     (if \<not> env_has_nonempty_value a ''AWS_EC2_METADATA_DISABLED''
      then set_env_value a ''AWS_EC2_METADATA_DISABLED'' v else a)
     (if \<not> env_has_nonempty_value b ''AWS_EC2_METADATA_DISABLED''
      then set_env_value b ''AWS_EC2_METADATA_DISABLED'' v else b)"
  by (simp add: agree_source(2) agree_set credential_names_are)

section \<open>Scoped environments\<close>

text \<open>C9: A subprocess scoped to a cloud connection sees no credential of the server. Its
  environment has the same value for every credential variable whatever the server's
  environment is; such a variable is the connection's own, or one of the three that the runner
  sets to keep the tools from looking elsewhere; any other variable is the connection's or on
  the short list of harmless ones.\<close>

theorem scoped_env_isolated:
  assumes "\<forall>k \<in> keys overrides. env_key k"
  shows "(is_cloud_credential_env_key k \<longrightarrow>
      env_value (scoped_command_env base overrides) k = env_value (scoped_command_env other overrides) k
      \<and> env_value (scoped_command_env base overrides) k \<in> {map_of (rev overrides) k}
          \<union> (if k \<in> {''AWS_SHARED_CREDENTIALS_FILE'', ''AWS_CONFIG_FILE''} then {Some dev_null} else {})
          \<union> (if k = ''AWS_EC2_METADATA_DISABLED'' then {Some ''true''} else {}))"
proof
  assume k: "is_cloud_credential_env_key k"
  let ?m = "\<lambda>b. merge_env (minimal_command_env b) overrides"
  have "agree (?m base) (?m other)"
    using scoped_merge_credential [OF assms] by (simp add: agree_def)
  then have "agree (scoped_command_env base overrides) (scoped_command_env other overrides)"
    unfolding scoped_command_env_def Let_def by (intro agree_metadata agree_files)
  moreover have "env_value (scoped_command_env base overrides) k \<in> {map_of (rev overrides) k}
          \<union> (if k \<in> {''AWS_SHARED_CREDENTIALS_FILE'', ''AWS_CONFIG_FILE''} then {Some dev_null} else {})
          \<union> (if k = ''AWS_EC2_METADATA_DISABLED'' then {Some ''true''} else {})"
    using scoped_merge_credential [OF assms k, of base]
    unfolding scoped_command_env_def Let_def
    by (simp only: env_value_set credential_names_are split: if_split) auto
  ultimately show "env_value (scoped_command_env base overrides) k = env_value (scoped_command_env other overrides) k
      \<and> env_value (scoped_command_env base overrides) k \<in> {map_of (rev overrides) k}
          \<union> (if k \<in> {''AWS_SHARED_CREDENTIALS_FILE'', ''AWS_CONFIG_FILE''} then {Some dev_null} else {})
          \<union> (if k = ''AWS_EC2_METADATA_DISABLED'' then {Some ''true''} else {})"
    using k by (simp add: agree_def)
qed

theorem scoped_env_isolated_witness:
  "env_value (scoped_command_env [''AWS_SECRET_ACCESS_KEY=s'', ''PATH=/bin''] [(''AWS_PROFILE'', ''dev'')])
     ''AWS_SECRET_ACCESS_KEY'' = None"
proof -
  have o: "\<forall>k \<in> keys [(''AWS_PROFILE'', ''dev'')]. env_key k" by (simp add: env_key_def)
  show ?thesis
    using scoped_env_isolated [OF o, of "''AWS_SECRET_ACCESS_KEY''" "[''AWS_SECRET_ACCESS_KEY=s'', ''PATH=/bin'']"]
      credential_names_are(2) by simp
qed

section \<open>Limited output\<close>

lemma lw_write_take:
  assumes "0 \<le> lw_limit w" "lw_buf w = take (nat (lw_limit w)) s" "lw_truncated w \<longleftrightarrow> lw_limit w < int (length s)"
  shows "lw_write w p = w\<lparr>lw_buf := take (nat (lw_limit w)) (s @ p),
    lw_truncated := (lw_limit w < int (length (s @ p)))\<rparr>"
proof (cases "lw_limit w < int (length s)")
  case True
  then have "int (length (lw_buf w)) = lw_limit w" using assms by simp
  then show ?thesis using True assms by (cases p) (simp_all add: lw_write_def)
next
  case False
  then have "lw_buf w = s" "nat (lw_limit w - int (length s)) = nat (lw_limit w) - length s"
    using assms by auto
  then show ?thesis using False assms by (simp add: lw_write_def)
qed

lemma lw_writes:
  assumes "0 \<le> limit"
  shows "foldl lw_write (new_writer limit) ps = \<lparr>lw_buf = take (nat limit) (concat ps), lw_limit = limit,
    lw_truncated = (limit < int (length (concat ps)))\<rparr>"
proof (induction ps rule: rev_induct)
  case Nil
  then show ?case using assms by (simp add: new_writer_def)
next
  case (snoc p ps)
  then show ?case using assms lw_write_take [of "foldl lw_write (new_writer limit) ps" "concat ps" p] by simp
qed

abbreviation written :: "int \<Rightarrow> string list \<Rightarrow> limited_writer" where
  "written limit ps \<equiv> foldl lw_write (new_writer limit) ps"

lemma run_status_output:
  "rn_Output (fst (run_status ctx err out errout)) = run_output out errout"
  "rn_Truncated (fst (run_status ctx err out errout)) = lw_truncated out"
  by (simp_all add: run_status_def Let_def split: run_context.splits option.splits)

text \<open>Whatever chunks a command writes to its two streams and however it ends, each stream
  is kept as the longest prefix within the limit, the output of the result is at most twice
  the limit and the separator and the notice long, and the result is marked as truncated
  exactly if standard output exceeded the limit: what was cut from standard error is not
  reported.\<close>

theorem output_is_bounded:
  assumes "0 \<le> limit"
  shows "lw_buf (written limit ps) = take (nat limit) (concat ps)
    \<and> int (length (rn_Output (fst (run_status ctx err (written limit ps) (written limit es)))))
        \<le> 2 * limit + 1 + int (length truncation_notice)
    \<and> (rn_Truncated (fst (run_status ctx err (written limit ps) (written limit es)))
        \<longleftrightarrow> limit < int (length (concat ps)))"
proof -
  have l: "int (length (take (nat limit) x)) \<le> limit" for x :: string using assms by simp
  have "int (length (run_output (written limit ps) (written limit es)))
    \<le> int (length (take (nat limit) (concat ps))) + 1 + int (length (take (nat limit) (concat es)))
       + int (length truncation_notice)"
    using assms by (simp add: lw_writes run_output_def del: length_take)
  then show ?thesis
    using assms l [of "concat ps"] l [of "concat es"] by (simp add: lw_writes run_status_output del: length_take)
qed

theorem output_is_bounded_witness:
  "\<not> rn_Truncated (fst (run_status ContextAlive None (written 3 [''a'']) (written 3 [''ab'', ''cd''])))"
  using output_is_bounded [of 3 "[''a'']" ContextAlive None "[''ab'', ''cd'']"] by simp

section \<open>Approval\<close>

text \<open>An argument vector that changes infrastructure.\<close>

definition mutating_args :: "string list \<Rightarrow> bool" where
  "mutating_args args \<longleftrightarrow>
     (case args of
        b # c # r \<Rightarrow> (b \<in> {''terraform'', ''tofu''} \<and> c \<in> {''apply'', ''destroy''})
          \<or> (b = ''pulumi'' \<and> c \<in> {''up'', ''destroy'', ''refresh''})
          \<or> (b = ''ansible-playbook'' \<and> ''--check'' \<notin> set r \<and> ''--syntax-check'' \<notin> set r)
      | _ \<Rightarrow> False)"

lemmas vector_defs = build_args_def terraform_args_def pulumi_args_def ansible_args_def with_stack_def

text \<open>Every argument vector that the runner can build and that changes infrastructure (the
  apply and destroy of Terraform and OpenTofu, the changing calls of Pulumi, a playbook run that
  is not a check) belongs to a command that requires approval, unless the configuration
  switches approval off; a command that requires approval and is known to the tool changes
  infrastructure.\<close>

theorem approval_covers_mutation:
  assumes "sf_RequireApproval cfg"
  shows "mutating_args (build_args tool command env) \<longleftrightarrow>
     requires_approval cfg command \<and> build_args tool command env \<noteq> []"
  using assms by (simp add: requires_approval_def vector_defs mutating_args_def)

theorem approval_covers_mutation_witness:
  "requires_approval default_safety_config ''up''"
proof -
  have "sf_RequireApproval default_safety_config" by (simp add: default_safety_config_def)
  moreover have "mutating_args (build_args ''pulumi'' ''up'' ''dev'')" by code_simp
  ultimately show ?thesis using approval_covers_mutation [of default_safety_config "''pulumi''" "''up''" "''dev''"] by simp
qed

section \<open>The table of running commands\<close>

lemmas runner_ops = look_def register_run_def return_run_def kill_run_def idle_runner_def

lemma runner_reach_idle: "runner_reach idle_runner"
  by (simp add: runner_reach_def)

lemma runner_reach_step: "runner_reach s \<Longrightarrow> runner_step s r \<Longrightarrow> runner_reach r"
  unfolding runner_reach_def by (rule rtranclp.rtrancl_into_rtrancl)

text \<open>The lock per project does not exclude a second command: from the idle runner there is a
  run of two calls on the same project after which both execute, and after one of them
  returns the other still executes while the table has no entry for the project, so that a
  third call is admitted and \<open>Kill\<close> reports that nothing runs.\<close>

theorem project_lock_races:
  "\<exists>s. runner_reach s \<and> rs_threads s 0 = Some (Executing p) \<and> rs_threads s 1 = Some (Executing p)
     \<and> (let r = return_run s 0 p in runner_reach r \<and> rs_threads r 1 = Some (Executing p)
          \<and> snd (kill_run r p) = None \<and> rs_threads (look r 2 p tool command) 2 = Some (Looked p tool command))"
proof -
  let ?a = "look idle_runner 0 p ''terraform'' ''apply''"
  let ?b = "look ?a 1 p ''terraform'' ''apply''"
  let ?c = "register_run ?b 0 p ''terraform'' ''apply''"
  let ?d = "register_run ?c 1 p ''terraform'' ''apply''"
  have a: "runner_reach ?a"
    by (rule runner_reach_step [OF runner_reach_idle runner_step.call]) (simp add: runner_ops)
  have b: "runner_reach ?b" by (rule runner_reach_step [OF a runner_step.call]) (simp add: runner_ops)
  have c: "runner_reach ?c" by (rule runner_reach_step [OF b runner_step.start]) (simp add: runner_ops)
  have d: "runner_reach ?d" by (rule runner_reach_step [OF c runner_step.start]) (simp add: runner_ops)
  have "runner_reach (return_run ?d 0 p)"
    by (rule runner_reach_step [OF d runner_step.finish]) (simp add: runner_ops)
  then show ?thesis using d by (intro exI [of _ ?d]) (simp add: runner_ops)
qed

end
