(* ===== verification/Blast.thy ===== *)
theory Blast
  imports Plan_Parse
begin

text \<open>
  The blast radius of \<open>internal/blast/blast.go\<close>: the dependency graph of a list of resources and
  what a change of one of them affects. A Go map from addresses to edges is a total function,
  empty where the key is absent. The properties of a resource are an association list in the
  order the \<open>range\<close> loop visits them, and the argument \<open>order\<close> is the order in which the loops
  visit the addresses; the properties hold for every order.
\<close>

section \<open>Data\<close>

record parser_resource =
  pr_ID :: string
  pr_Type :: string
  pr_Name :: string
  pr_Properties :: "(string \<times> json) list"
  pr_File :: string
  pr_Line :: int
  pr_BlockType :: string

record impacted_resource =
  ir_Address :: string
  ir_Type :: string
  ir_Name :: string
  ir_Reason :: string
  ir_Fields :: "string list"
  ir_Depth :: nat
  ir_WillBreak :: bool

record blast_result =
  br_Target :: string
  br_Action :: string
  br_DirectImpact :: "impacted_resource list"
  br_IndirectImpact :: "impacted_resource list"
  br_TotalAffected :: nat
  br_Severity :: string
  br_Warnings :: "string list"

record dependency =
  dp_From :: string
  dp_To :: string
  dp_Field :: string

record dependency_graph =
  dg_Dependencies :: "string \<Rightarrow> dependency list"
  dg_Dependents :: "string \<Rightarrow> dependency list"
  dg_Resources :: "string list"

section \<open>Building the graph\<close>

definition resource_address :: "parser_resource \<Rightarrow> string" where
  "resource_address r = pr_Type r @ ''.'' @ pr_Name r"

definition by_address :: "parser_resource list \<Rightarrow> string \<Rightarrow> parser_resource option" where
  "by_address rs = map_of (rev (map (\<lambda>r. (resource_address r, r)) rs))"

definition inferred_types :: "(string \<times> string) list" where
  "inferred_types = [(''vpc_id'', ''aws_vpc''), (''subnet_id'', ''aws_subnet''), (''subnet_ids'', ''aws_subnet''),
     (''security_group_id'', ''aws_security_group''), (''security_group_ids'', ''aws_security_group''),
     (''iam_role_arn'', ''aws_iam_role''), (''role_arn'', ''aws_iam_role''),
     (''target_group_arn'', ''aws_lb_target_group''), (''lb_arn'', ''aws_lb''),
     (''certificate_arn'', ''aws_acm_certificate''), (''kms_key_id'', ''aws_kms_key''),
     (''log_group_name'', ''aws_cloudwatch_log_group''), (''sns_topic_arn'', ''aws_sns_topic''),
     (''sqs_queue_arn'', ''aws_sqs_queue''), (''bucket'', ''aws_s3_bucket''),
     (''function_name'', ''aws_lambda_function''), (''cluster_id'', ''aws_ecs_cluster''),
     (''db_subnet_group_name'', ''aws_db_subnet_group''), (''route_table_id'', ''aws_route_table''),
     (''internet_gateway_id'', ''aws_internet_gateway''), (''nat_gateway_id'', ''aws_nat_gateway''),
     (''eip_id'', ''aws_eip'')]"

definition infer_resource_type :: "string \<Rightarrow> string" where
  "infer_resource_type field = (case map_of inferred_types field of Some t \<Rightarrow> t | None \<Rightarrow> [])"

definition has_dep :: "dependency list \<Rightarrow> string \<Rightarrow> string \<Rightarrow> bool" where
  "has_dep deps to_addr field = list_ex (\<lambda>d. dp_To d = to_addr \<and> dp_Field d = field) deps"

definition empty_graph :: dependency_graph where
  "empty_graph = \<lparr>dg_Dependencies = (\<lambda>_. []), dg_Dependents = (\<lambda>_. []), dg_Resources = []\<rparr>"

definition add_dep :: "dependency_graph \<Rightarrow> string \<Rightarrow> string \<Rightarrow> string \<Rightarrow> dependency_graph" where
  "add_dep g from_addr to_addr field =
     (let dep = \<lparr>dp_From = from_addr, dp_To = to_addr, dp_Field = field\<rparr> in
      g\<lparr>dg_Dependencies := (dg_Dependencies g)(from_addr := dg_Dependencies g from_addr @ [dep]),
        dg_Dependents := (dg_Dependents g)(to_addr := dg_Dependents g to_addr @ [dep])\<rparr>)"

definition scan_explicit :: "string \<Rightarrow> string \<Rightarrow> string \<Rightarrow> dependency_graph \<Rightarrow> string \<Rightarrow> dependency_graph" where
  "scan_explicit from_addr field val g to_addr =
     (if to_addr = from_addr then g
      else if contains val (to_addr @ ''.'') then add_dep g from_addr to_addr field else g)"

definition scan_inferred ::
  "(string \<Rightarrow> parser_resource option) \<Rightarrow> string \<Rightarrow> string \<Rightarrow> string \<Rightarrow> dependency_graph \<Rightarrow> string \<Rightarrow> dependency_graph" where
  "scan_inferred index from_addr field inferred g to_addr =
     (case index to_addr of
        None \<Rightarrow> g
      | Some r \<Rightarrow>
          if pr_Type r = inferred \<and> to_addr \<noteq> from_addr then
            (if \<not> has_dep (dg_Dependencies g from_addr) to_addr field then add_dep g from_addr to_addr field else g)
          else g)"

definition infers :: "string \<Rightarrow> bool" where
  "infers field \<longleftrightarrow> has_suffix field ''_id'' \<or> has_suffix field ''_ids'' \<or> has_suffix field ''_arn''"

definition scan_field ::
  "string list \<Rightarrow> (string \<Rightarrow> parser_resource option) \<Rightarrow> string \<Rightarrow> dependency_graph \<Rightarrow> string \<times> json \<Rightarrow> dependency_graph" where
  "scan_field order index from_addr g kv =
     (let g1 = foldl (scan_explicit from_addr (fst kv) (format_v (snd kv))) g order in
      if infers (fst kv) \<and> infer_resource_type (fst kv) \<noteq> []
      then foldl (scan_inferred index from_addr (fst kv) (infer_resource_type (fst kv))) g1 order
      else g1)"

definition scan_resource ::
  "string list \<Rightarrow> (string \<Rightarrow> parser_resource option) \<Rightarrow> dependency_graph \<Rightarrow> parser_resource \<Rightarrow> dependency_graph" where
  "scan_resource order index g r = foldl (scan_field order index (resource_address r)) g (pr_Properties r)"

definition build_graph :: "string list \<Rightarrow> parser_resource list \<Rightarrow> dependency_graph" where
  "build_graph order rs =
     foldl (scan_resource order (by_address rs)) (empty_graph\<lparr>dg_Resources := map resource_address rs\<rparr>) rs"

section \<open>The blast radius\<close>

text \<open>\<open>strings.SplitN(s, ".", 2)\<close>.\<close>

definition address_type :: "string \<Rightarrow> string" where
  "address_type a = takeWhile (\<lambda>c. c \<noteq> CHR ''.'') a"

definition address_name :: "string \<Rightarrow> string" where
  "address_name a = drop 1 (dropWhile (\<lambda>c. c \<noteq> CHR ''.'') a)"

definition impacted :: "dependency \<Rightarrow> string \<Rightarrow> nat \<Rightarrow> string \<Rightarrow> impacted_resource" where
  "impacted dep reason depth action = \<lparr>ir_Address = dp_From dep, ir_Type = address_type (dp_From dep),
     ir_Name = address_name (dp_From dep), ir_Reason = reason, ir_Fields = [dp_Field dep], ir_Depth = depth,
     ir_WillBreak = (action = ''delete'')\<rparr>"

text \<open>One loop over dependents: the visited addresses and the entries so far.\<close>

definition visit_dep ::
  "(dependency \<Rightarrow> impacted_resource) \<Rightarrow> string list \<times> impacted_resource list \<Rightarrow> dependency \<Rightarrow>
   string list \<times> impacted_resource list" where
  "visit_dep mk acc dep =
     (if dp_From dep \<in> set (fst acc) then acc else (dp_From dep # fst acc, snd acc @ [mk dep]))"

definition direct_impact :: "dependency_graph \<Rightarrow> string \<Rightarrow> string \<Rightarrow> string list \<times> impacted_resource list" where
  "direct_impact g target action =
     foldl (visit_dep (\<lambda>dep. impacted dep
         (''references '' @ target @ '' via field '' @ [CHR 0x27] @ dp_Field dep @ [CHR 0x27]) 1 action))
       ([target], []) (dg_Dependents g target)"

definition indirect_step ::
  "dependency_graph \<Rightarrow> string \<Rightarrow> string \<Rightarrow> string list \<times> impacted_resource list \<Rightarrow> impacted_resource \<Rightarrow>
   string list \<times> impacted_resource list" where
  "indirect_step g target action acc d =
     foldl (visit_dep (\<lambda>dep. impacted dep
         (''depends on '' @ ir_Address d @ '' which references '' @ target) 2 action))
       acc (dg_Dependents g (ir_Address d))"

definition classify_severity :: "nat \<Rightarrow> string" where
  "classify_severity n =
     (if n = 0 then ''low'' else if n \<le> 2 then ''medium'' else if n \<le> 5 then ''high'' else ''critical'')"

text \<open>U+2014 is the dash of the second warning.\<close>

definition blast_warnings :: "string \<Rightarrow> impacted_resource \<Rightarrow> string list" where
  "blast_warnings target r =
     (if contains (ir_Type r) ''vpc'' \<or> contains (ir_Type r) ''network''
      then [''Deleting '' @ target @ '' will cascade to networking resource '' @ ir_Address r] else [])
   @ (if contains (ir_Type r) ''db'' \<or> contains (ir_Type r) ''rds''
      then [''WARNING: Database resource '' @ ir_Address r @ '' depends on '' @ target
            @ [CHR '' '', CHR 0xE2, CHR 0x80, CHR 0x94] @ '' data loss risk!''] else [])"

definition analyze :: "dependency_graph \<Rightarrow> string \<Rightarrow> string \<Rightarrow> blast_result" where
  "analyze g target action =
     (let (visited, direct) = direct_impact g target action;
          (_, indirect) = foldl (indirect_step g target action) (visited, []) direct;
          total = length direct + length indirect
      in \<lparr>br_Target = target, br_Action = action, br_DirectImpact = direct, br_IndirectImpact = indirect,
           br_TotalAffected = total, br_Severity = classify_severity total,
           br_Warnings = (if action = ''delete'' then concat (map (blast_warnings target) direct) else [])\<rparr>)"

definition analyze_all :: "dependency_graph \<Rightarrow> string \<Rightarrow> blast_result option" where
  "analyze_all g = (\<lambda>a. if a \<in> set (dg_Resources g) then Some (analyze g a ''delete'') else None)"

section \<open>The edges of the graph\<close>

text \<open>What an edge stands for: a field of the resource names the target, or its name implies it.\<close>

definition value_refers :: "(string \<Rightarrow> parser_resource option) \<Rightarrow> string \<Rightarrow> string \<Rightarrow> string \<times> json \<Rightarrow> bool" where
  "value_refers index a b kv \<longleftrightarrow> b \<noteq> a \<and>
     (contains (format_v (snd kv)) (b @ ''.'')
      \<or> infers (fst kv) \<and> infer_resource_type (fst kv) \<noteq> []
         \<and> map_option pr_Type (index b) = Some (infer_resource_type (fst kv)))"

definition refers :: "parser_resource list \<Rightarrow> parser_resource \<Rightarrow> string \<Rightarrow> string \<Rightarrow> bool" where
  "refers rs r b field \<longleftrightarrow>
     (\<exists>kv \<in> set (pr_Properties r). fst kv = field \<and> value_refers (by_address rs) (resource_address r) b kv)"

definition edges :: "dependency_graph \<Rightarrow> dependency set" where
  "edges g = {d. d \<in> set (dg_Dependencies g (dp_From d))}"

definition mirrored :: "dependency_graph \<Rightarrow> bool" where
  "mirrored g \<longleftrightarrow> (\<forall>a d. d \<in> set (dg_Dependencies g a) \<longrightarrow> dp_From d = a)
     \<and> (\<forall>a d. d \<in> set (dg_Dependents g a) \<longleftrightarrow> dp_To d = a \<and> d \<in> edges g)"

abbreviation edge :: "string \<Rightarrow> string \<Rightarrow> string \<Rightarrow> dependency" where
  "edge a b f \<equiv> \<lparr>dp_From = a, dp_To = b, dp_Field = f\<rparr>"

lemma is_edge: "d = edge a b f \<longleftrightarrow> dp_From d = a \<and> dp_To d = b \<and> dp_Field d = f"
  by (cases d) auto

lemma add_dep_edges [simp]: "edges (add_dep g a b f) = insert (edge a b f) (edges g)"
  by (auto simp: edges_def add_dep_def Let_def)

lemma add_dep_mirrored: "mirrored g \<Longrightarrow> mirrored (add_dep g a b f)"
  by (auto simp: mirrored_def edges_def add_dep_def Let_def is_edge)

lemma has_dep_edges: "mirrored g \<Longrightarrow> has_dep (dg_Dependencies g a) b f \<longleftrightarrow> edge a b f \<in> edges g"
proof -
  assume m: "mirrored g"
  have the: "d = edge a b f" if "d \<in> set (dg_Dependencies g a)" "dp_To d = b" "dp_Field d = f" for d
    using m that by (auto simp: mirrored_def is_edge)
  have "edge a b f \<in> edges g" if h: "has_dep (dg_Dependencies g a) b f"
  proof -
    obtain d where "d \<in> set (dg_Dependencies g a)" "dp_To d = b" "dp_Field d = f"
      using h unfolding has_dep_def list_ex_iff by blast
    moreover from this have "d = edge a b f" by (rule the)
    ultimately show ?thesis by (simp add: edges_def)
  qed
  moreover have "edge a b f \<in> edges g \<Longrightarrow> has_dep (dg_Dependencies g a) b f"
    unfolding has_dep_def list_ex_iff edges_def by (rule bexI [of _ "edge a b f"]) simp_all
  ultimately show ?thesis by blast
qed

lemma scan_explicit_edges:
  "mirrored g \<Longrightarrow> mirrored (scan_explicit a f v g b) \<and> edges (scan_explicit a f v g b) =
     edges g \<union> (if b \<noteq> a \<and> contains v (b @ ''.'') then {edge a b f} else {})"
  by (simp add: scan_explicit_def add_dep_mirrored)

lemma scan_inferred_edges:
  "mirrored g \<Longrightarrow> mirrored (scan_inferred index a f ty g b) \<and> edges (scan_inferred index a f ty g b) =
     edges g \<union> (if b \<noteq> a \<and> (\<exists>t. index b = Some t \<and> pr_Type t = ty) then {edge a b f} else {})"
  by (auto simp: scan_inferred_def add_dep_mirrored has_dep_edges split: option.splits)

text \<open>A loop whose steps keep the mirror and add edges of their own adds their union.\<close>

lemma fold_edges:
  assumes "\<And>g x. x \<in> set xs \<Longrightarrow> mirrored g \<Longrightarrow> mirrored (step g x) \<and> edges (step g x) = edges g \<union> new x"
    "mirrored g"
  shows "mirrored (foldl step g xs) \<and> edges (foldl step g xs) = edges g \<union> (\<Union>x \<in> set xs. new x)"
  using assms
proof (induction xs arbitrary: g)
  case (Cons x xs)
  have "mirrored (step g x)" "edges (step g x) = edges g \<union> new x" using Cons.prems by simp_all
  then show ?case using Cons.IH [of "step g x"] Cons.prems(1) by (simp add: Un_assoc)
qed simp

lemma scan_field_edges:
  assumes "mirrored g"
  shows "mirrored (scan_field order index a g kv) \<and> edges (scan_field order index a g kv) = edges g \<union>
    {edge a b (fst kv) |b. b \<in> set order \<and> value_refers index a b kv}"
proof -
  let ?e = "scan_explicit a (fst kv) (format_v (snd kv))"
  have e: "mirrored (foldl ?e g order) \<and> edges (foldl ?e g order) = edges g \<union>
      (\<Union>b \<in> set order. if b \<noteq> a \<and> contains (format_v (snd kv)) (b @ ''.'') then {edge a b (fst kv)} else {})"
    by (rule fold_edges [OF scan_explicit_edges assms])
  let ?i = "scan_inferred index a (fst kv) (infer_resource_type (fst kv))"
  have i: "mirrored (foldl ?i h order) \<and> edges (foldl ?i h order) = edges h \<union>
      (\<Union>b \<in> set order. if b \<noteq> a \<and> (\<exists>t. index b = Some t \<and> pr_Type t = infer_resource_type (fst kv))
        then {edge a b (fst kv)} else {})" if "mirrored h" for h
    by (rule fold_edges [OF scan_inferred_edges that])
  show ?thesis using e i [of "foldl ?e g order"] by (auto simp: scan_field_def value_refers_def Let_def split: if_splits)
qed

lemma build_graph_edges:
  "mirrored (build_graph order rs) \<and> edges (build_graph order rs) =
     {edge (resource_address r) b f |r b f. r \<in> set rs \<and> b \<in> set order \<and> refers rs r b f}"
proof -
  let ?g = "empty_graph\<lparr>dg_Resources := map resource_address rs\<rparr>"
  let ?new = "\<lambda>r. {edge (resource_address r) b f |b f. b \<in> set order \<and> refers rs r b f}"
  have 0: "mirrored ?g \<and> edges ?g = {}" by (simp add: mirrored_def edges_def empty_graph_def)
  have r: "mirrored (scan_resource order (by_address rs) g r)
      \<and> edges (scan_resource order (by_address rs) g r) = edges g \<union> ?new r" if "mirrored g" for g r
  proof -
    let ?f = "scan_field order (by_address rs) (resource_address r)"
    have "mirrored (foldl ?f g (pr_Properties r)) \<and> edges (foldl ?f g (pr_Properties r)) =
        edges g \<union> (\<Union>kv \<in> set (pr_Properties r). {edge (resource_address r) b (fst kv) |b.
          b \<in> set order \<and> value_refers (by_address rs) (resource_address r) b kv})"
      by (rule fold_edges [OF scan_field_edges that])
    moreover have "(\<Union>kv \<in> set (pr_Properties r). {edge (resource_address r) b (fst kv) |b.
          b \<in> set order \<and> value_refers (by_address rs) (resource_address r) b kv}) = ?new r"
      unfolding refers_def by blast
    ultimately show ?thesis unfolding scan_resource_def by simp
  qed
  have "mirrored (foldl (scan_resource order (by_address rs)) ?g rs)
      \<and> edges (foldl (scan_resource order (by_address rs)) ?g rs) = edges ?g \<union> (\<Union>r \<in> set rs. ?new r)"
    by (rule fold_edges) (use r 0 in simp_all)
  then show ?thesis unfolding build_graph_def using 0 by auto
qed

section \<open>Visiting dependents\<close>

lemma visit_deps:
  assumes "\<And>d. ir_Address (mk d) = dp_From d"
  shows "set (fst (foldl (visit_dep mk) (vis, out) ds)) = set vis \<union> dp_From ` set ds
    \<and> (\<exists>new. snd (foldl (visit_dep mk) (vis, out) ds) = out @ new \<and> set new \<subseteq> mk ` set ds
        \<and> distinct (map ir_Address new) \<and> ir_Address ` set new = dp_From ` set ds - set vis)"
proof (induction ds arbitrary: vis out)
  case (Cons d ds)
  show ?case
  proof (cases "dp_From d \<in> set vis")
    case True
    then show ?thesis using Cons.IH [of vis out] by (auto simp: visit_dep_def)
  next
    case False
    have 1: "set (fst (foldl (visit_dep mk) (dp_From d # vis, out @ [mk d]) ds)) = set (dp_From d # vis) \<union> dp_From ` set ds"
      using Cons.IH [of "dp_From d # vis" "out @ [mk d]"] by blast
    obtain new where n: "snd (foldl (visit_dep mk) (dp_From d # vis, out @ [mk d]) ds) = (out @ [mk d]) @ new"
      "set new \<subseteq> mk ` set ds" "distinct (map ir_Address new)"
      "ir_Address ` set new = dp_From ` set ds - set (dp_From d # vis)"
      using Cons.IH [of "dp_From d # vis" "out @ [mk d]"] by blast
    have "snd (foldl (visit_dep mk) (vis, out) (d # ds)) = out @ (mk d # new)"
      using False n(1) by (simp add: visit_dep_def)
    moreover have "set (mk d # new) \<subseteq> mk ` set (d # ds)" using n(2) by auto
    moreover have "distinct (map ir_Address (mk d # new))" using n(3,4) assms by auto
    moreover have "ir_Address ` set (mk d # new) = dp_From ` set (d # ds) - set vis"
      using n(4) False assms by auto
    moreover have "set (fst (foldl (visit_dep mk) (vis, out) (d # ds))) = set vis \<union> dp_From ` set (d # ds)"
    proof -
      have "foldl (visit_dep mk) (vis, out) (d # ds) = foldl (visit_dep mk) (dp_From d # vis, out @ [mk d]) ds"
        using False by (simp add: visit_dep_def)
      then show ?thesis using 1 by simp
    qed
    ultimately show ?thesis by blast
  qed
qed simp

lemma impacted_address [simp]: "ir_Address (impacted d reason depth action) = dp_From d"
  "ir_Depth (impacted d reason depth action) = depth"
  "ir_WillBreak (impacted d reason depth action) \<longleftrightarrow> action = ''delete''"
  by (simp_all add: impacted_def)

lemma direct_visits:
  "set (fst (direct_impact g t action)) = insert t (dp_From ` set (dg_Dependents g t))
   \<and> distinct (map ir_Address (snd (direct_impact g t action)))
   \<and> ir_Address ` set (snd (direct_impact g t action)) = dp_From ` set (dg_Dependents g t) - {t}
   \<and> (\<forall>r \<in> set (snd (direct_impact g t action)). ir_Depth r = 1 \<and> (ir_WillBreak r \<longleftrightarrow> action = ''delete''))"
proof -
  let ?mk = "\<lambda>dep. impacted dep (''references '' @ t @ '' via field '' @ [CHR 0x27] @ dp_Field dep @ [CHR 0x27]) 1 action"
  have "\<And>d. ir_Address (?mk d) = dp_From d" by simp
  from visit_deps [OF this, of "[t]" "[]" "dg_Dependents g t"]
  show ?thesis unfolding direct_impact_def by auto
qed

lemma indirect_visits:
  "set (fst (foldl (indirect_step g t action) (vis, out) rs)) = set vis \<union> (\<Union>r \<in> set rs. dp_From ` set (dg_Dependents g (ir_Address r)))
   \<and> (\<exists>new. snd (foldl (indirect_step g t action) (vis, out) rs) = out @ new
       \<and> distinct (map ir_Address new)
       \<and> ir_Address ` set new = (\<Union>r \<in> set rs. dp_From ` set (dg_Dependents g (ir_Address r))) - set vis
       \<and> (\<forall>r \<in> set new. ir_Depth r = 2 \<and> (ir_WillBreak r \<longleftrightarrow> action = ''delete'')))"
proof (induction rs arbitrary: vis out)
  case (Cons r rs)
  let ?mk = "\<lambda>dep. impacted dep (''depends on '' @ ir_Address r @ '' which references '' @ t) 2 action"
  let ?s = "indirect_step g t action (vis, out) r"
  have mk: "\<And>d. ir_Address (?mk d) = dp_From d" by simp
  obtain a where a: "set (fst ?s) = set vis \<union> dp_From ` set (dg_Dependents g (ir_Address r))"
    "snd ?s = out @ a" "set a \<subseteq> ?mk ` set (dg_Dependents g (ir_Address r))" "distinct (map ir_Address a)"
    "ir_Address ` set a = dp_From ` set (dg_Dependents g (ir_Address r)) - set vis"
    using visit_deps [OF mk, of vis out "dg_Dependents g (ir_Address r)"] unfolding indirect_step_def by blast
  have ih: "set (fst (foldl (indirect_step g t action) ?s rs)) = set (fst ?s) \<union> (\<Union>r \<in> set rs. dp_From ` set (dg_Dependents g (ir_Address r)))"
    "\<exists>new. snd (foldl (indirect_step g t action) ?s rs) = snd ?s @ new
       \<and> distinct (map ir_Address new)
       \<and> ir_Address ` set new = (\<Union>r \<in> set rs. dp_From ` set (dg_Dependents g (ir_Address r))) - set (fst ?s)
       \<and> (\<forall>r \<in> set new. ir_Depth r = 2 \<and> (ir_WillBreak r \<longleftrightarrow> action = ''delete''))"
    using Cons.IH [of "fst ?s" "snd ?s"] by simp_all
  then obtain b where b: "snd (foldl (indirect_step g t action) ?s rs) = snd ?s @ b" "distinct (map ir_Address b)"
    "ir_Address ` set b = (\<Union>r \<in> set rs. dp_From ` set (dg_Dependents g (ir_Address r))) - set (fst ?s)"
    "\<forall>r \<in> set b. ir_Depth r = 2 \<and> (ir_WillBreak r \<longleftrightarrow> action = ''delete'')" by blast
  have "\<forall>r \<in> set (a @ b). ir_Depth r = 2 \<and> (ir_WillBreak r \<longleftrightarrow> action = ''delete'')" using a(3) b(4) by auto
  moreover have "distinct (map ir_Address (a @ b))" using a(1,4,5) b(2,3) by auto
  moreover have "ir_Address ` set (a @ b) =
      (\<Union>r \<in> set (r # rs). dp_From ` set (dg_Dependents g (ir_Address r))) - set vis"
    unfolding set_append image_Un a(5) b(3) a(1) by auto
  ultimately show ?case using ih(1) a(1,2) b(1)
    by (intro conjI exI [of _ "a @ b"]) auto
qed simp

end
