(* ===== verification/Blast_Props.thy ===== *)
theory Blast_Props
  imports Blast
begin

text \<open>
  The properties of the blast radius: which edges the graph has, which resources an analysis
  reports, and where it stops.
\<close>

text \<open>The graph has an edge exactly where a field of a resource names the address of another
  one followed by a dot, or has a name from which the type of another one is inferred; the map of
  dependents is the map of dependencies reversed; and neither depends on the order in which the
  addresses are visited.\<close>

theorem graph_edges_exact:
  assumes "set order = resource_address ` set rs" "set other = resource_address ` set rs"
  shows "(d \<in> set (dg_Dependents (build_graph order rs) b) \<longleftrightarrow> dp_To d = b \<and> b \<in> resource_address ` set rs
        \<and> (\<exists>r \<in> set rs. dp_From d = resource_address r \<and> refers rs r b (dp_Field d)))
    \<and> (d \<in> set (dg_Dependencies (build_graph order rs) a) \<longleftrightarrow>
        dp_From d = a \<and> d \<in> set (dg_Dependents (build_graph other rs) (dp_To d)))"
proof -
  have e: "d \<in> edges (build_graph o' rs) \<longleftrightarrow> dp_To d \<in> set o' \<and>
      (\<exists>r \<in> set rs. dp_From d = resource_address r \<and> refers rs r (dp_To d) (dp_Field d))" for o'
    unfolding conjunct2 [OF build_graph_edges] by (auto simp: is_edge)
  have m: "mirrored (build_graph o' rs)" for o' using build_graph_edges by blast
  have t: "d \<in> set (dg_Dependents (build_graph o' rs) c) \<longleftrightarrow> dp_To d = c \<and> d \<in> edges (build_graph o' rs)" for o' c
    using m [of o'] unfolding mirrored_def by blast
  have f: "d \<in> set (dg_Dependencies (build_graph order rs) a) \<longleftrightarrow> dp_From d = a \<and> d \<in> edges (build_graph order rs)"
    using m [of order] unfolding mirrored_def edges_def by blast
  show ?thesis unfolding t f e using assms by blast
qed

definition demo_vpc :: parser_resource where
  "demo_vpc = \<lparr>pr_ID = [], pr_Type = ''aws_vpc'', pr_Name = ''main'', pr_Properties = [],
     pr_File = [], pr_Line = 0, pr_BlockType = ''resource''\<rparr>"

definition demo_subnet :: parser_resource where
  "demo_subnet = \<lparr>pr_ID = [], pr_Type = ''aws_subnet'', pr_Name = ''a'', pr_Properties = [(''vpc_id'', JStr ''aws_vpc.main.id'')],
     pr_File = [], pr_Line = 0, pr_BlockType = ''resource''\<rparr>"

theorem graph_edges_exact_witness:
  "edge ''aws_subnet.a'' ''aws_vpc.main'' ''vpc_id''
     \<in> set (dg_Dependents (build_graph [''aws_subnet.a'', ''aws_vpc.main''] [demo_vpc, demo_subnet]) ''aws_vpc.main'')"
proof -
  have o: "set [''aws_subnet.a'', ''aws_vpc.main''] = resource_address ` set [demo_vpc, demo_subnet]"
    by (simp add: resource_address_def demo_vpc_def demo_subnet_def insert_commute)
  have "value_refers (by_address [demo_vpc, demo_subnet]) ''aws_subnet.a'' ''aws_vpc.main''
      (''vpc_id'', JStr ''aws_vpc.main.id'')" by code_simp
  then have "refers [demo_vpc, demo_subnet] demo_subnet ''aws_vpc.main'' ''vpc_id''"
    by (simp add: refers_def demo_subnet_def resource_address_def)
  then show ?thesis
    unfolding conjunct1 [OF graph_edges_exact [OF o o]] by (simp add: resource_address_def demo_vpc_def demo_subnet_def)
qed

section \<open>The radius\<close>

text \<open>An analysis reports as direct exactly the resources other than the target with an edge to
  it, and as indirect exactly those with an edge to a direct one that are neither direct nor the
  target, each once; the total and the severity count them, and an entry is marked as breaking
  exactly when the action is a deletion.\<close>

theorem blast_radius_exact:
  "let b = analyze g t action;
       direct = dp_From ` set (dg_Dependents g t) - {t};
       indirect = (\<Union>a \<in> direct. dp_From ` set (dg_Dependents g a)) - direct - {t} in
   ir_Address ` set (br_DirectImpact b) = direct \<and> ir_Address ` set (br_IndirectImpact b) = indirect
   \<and> br_TotalAffected b = card (direct \<union> indirect)
   \<and> br_Severity b = classify_severity (card (direct \<union> indirect))
   \<and> (\<forall>r \<in> set (br_DirectImpact b @ br_IndirectImpact b). ir_WillBreak r \<longleftrightarrow> action = ''delete'')
   \<and> (\<forall>r \<in> set (br_DirectImpact b). ir_Depth r = 1) \<and> (\<forall>r \<in> set (br_IndirectImpact b). ir_Depth r = 2)"
proof -
  let ?d = "direct_impact g t action"
  let ?direct = "dp_From ` set (dg_Dependents g t) - {t}"
  let ?ind = "(\<Union>a \<in> ?direct. dp_From ` set (dg_Dependents g a)) - ?direct - {t}"
  let ?i = "foldl (indirect_step g t action) (fst ?d, []) (snd ?d)"
  have d: "set (fst ?d) = insert t ?direct" "distinct (map ir_Address (snd ?d))" "ir_Address ` set (snd ?d) = ?direct"
    "\<forall>r \<in> set (snd ?d). ir_Depth r = 1 \<and> (ir_WillBreak r \<longleftrightarrow> action = ''delete'')"
    using direct_visits [of g t action] by auto
  obtain new where i: "snd ?i = new" "distinct (map ir_Address new)"
    "ir_Address ` set new = (\<Union>r \<in> set (snd ?d). dp_From ` set (dg_Dependents g (ir_Address r))) - set (fst ?d)"
    "\<forall>r \<in> set new. ir_Depth r = 2 \<and> (ir_WillBreak r \<longleftrightarrow> action = ''delete'')"
    using indirect_visits [of g t action "fst ?d" "[]" "snd ?d"] by auto
  have "(\<Union>r \<in> set (snd ?d). dp_From ` set (dg_Dependents g (ir_Address r)))
      = (\<Union>a \<in> ?direct. dp_From ` set (dg_Dependents g a))" unfolding d(3) [symmetric] by simp
  then have ind: "ir_Address ` set new = ?ind" unfolding i(3) d(1) by auto
  have len: "length (snd ?d) = card ?direct" "length new = card ?ind"
    using distinct_card [OF d(2)] distinct_card [OF i(2)] d(3) ind by simp_all
  have fin: "finite ?direct" "finite ?ind" by simp_all
  have tot: "length (snd ?d) + length new = card (?direct \<union> ?ind)"
    unfolding len by (rule card_Un_disjoint [OF fin, symmetric]) auto
  have a: "br_DirectImpact (analyze g t action) = snd ?d" "br_IndirectImpact (analyze g t action) = new"
    "br_TotalAffected (analyze g t action) = card (?direct \<union> ?ind)"
    "br_Severity (analyze g t action) = classify_severity (card (?direct \<union> ?ind))"
    using i(1) tot by (simp_all add: analyze_def Let_def case_prod_beta)
  have w: "\<forall>r \<in> set (snd ?d @ new). ir_WillBreak r \<longleftrightarrow> action = ''delete''"
    using d(4) i(4) unfolding set_append ball_Un by blast
  have dep: "\<forall>r \<in> set (snd ?d). ir_Depth r = 1" "\<forall>r \<in> set new. ir_Depth r = 2" using d(4) i(4) by blast+
  show ?thesis unfolding a Let_def by (intro conjI d(3) ind refl w dep)
qed

definition demo_chain :: "parser_resource list" where
  "demo_chain = [demo_vpc, demo_subnet,
     \<lparr>pr_ID = [], pr_Type = ''aws_instance'', pr_Name = ''web'', pr_Properties = [(''subnet'', JStr ''aws_subnet.a.id'')],
     pr_File = [], pr_Line = 0, pr_BlockType = ''resource''\<rparr>,
     \<lparr>pr_ID = [], pr_Type = ''aws_eip'', pr_Name = ''ip'', pr_Properties = [(''instance'', JStr ''aws_instance.web.id'')],
     pr_File = [], pr_Line = 0, pr_BlockType = ''resource''\<rparr>]"

theorem blast_radius_exact_witness:
  "ir_Address ` set (br_DirectImpact (analyze (build_graph (map resource_address demo_chain) demo_chain)
     ''aws_vpc.main'' ''delete'')) = {''aws_subnet.a''}"
proof -
  let ?g = "build_graph (map resource_address demo_chain) demo_chain"
  have "set (map dp_From (dg_Dependents ?g ''aws_vpc.main'')) = set [''aws_subnet.a'']" by code_simp
  then have d: "dp_From ` set (dg_Dependents ?g ''aws_vpc.main'') - {''aws_vpc.main''} = {''aws_subnet.a''}" by simp
  show ?thesis
    by (rule trans [OF conjunct1 [OF blast_radius_exact [of ?g "''aws_vpc.main''" "''delete''", unfolded Let_def]] d])
qed

section \<open>Where the analysis stops\<close>

text \<open>The radius stops after two levels: in a chain of a network, a subnet, an instance and an
  address, the deletion of the network is reported to affect two resources, with medium
  severity, and the address that depends on them is not among them. A field whose name has an
  inferred type without the suffixes of a reference infers nothing, and a reference to a data
  source counts as one to the resource of the same name.\<close>

theorem blast_stops_at_two:
  "(let b = analyze (build_graph (map resource_address demo_chain) demo_chain) ''aws_vpc.main'' ''delete'' in
     map ir_Address (br_DirectImpact b @ br_IndirectImpact b) = [''aws_subnet.a'', ''aws_instance.web'']
     \<and> br_TotalAffected b = 2 \<and> br_Severity b = ''medium'')
   \<and> filter (\<lambda>f. \<not> infers f) (map fst inferred_types) = [''log_group_name'', ''bucket'', ''function_name'', ''db_subnet_group_name'']
   \<and> value_refers (by_address [demo_vpc]) ''aws_subnet.b'' ''aws_vpc.main'' (''vpc'', JStr ''data.aws_vpc.main.id'')"
  by (intro conjI) (code_simp, code_simp, code_simp)

end
