(* ===== verification/Attempt_Store.thy ===== *)
theory Attempt_Store
  imports Executor
begin

text \<open>
  The idempotency stores of \<open>internal/api/agent_tool_execution_idempotency.go\<close> and
  \<open>agent_tool_route_idempotency.go\<close>: a retry of an operation joins the attempt that runs or
  replays the one that is kept.

  An attempt is an object that waiters share with the store, so the attempts are a heap, a
  list to which each new attempt is appended; its position is its identity. The maps of the
  stores are association lists with distinct keys. Each critical section is one operation:
  begin, finish, and the end of an attempt whose callback panics. The fingerprint, the outcome
  and the error of an attempt are type parameters of the core; the two stores instantiate them.
\<close>

section \<open>The core\<close>

record ('f, 'o, 'e) attempt =
  at_fingerprint :: 'f
  at_done :: bool
  at_released :: bool
  at_outcome :: "'o option"
  at_err :: "'e option"

record ('k, 'f, 'o, 'e) attempt_store =
  as_heap :: "('f, 'o, 'e) attempt list"
  as_entries :: "('k \<times> nat) list"
  as_completed :: "'k list"
  as_max :: nat

datatype begin_result = BeginConflict | BeginCapacity | BeginJoin nat | BeginOwn nat

definition max_agent_tool_execution_replay_entries :: int where
  "max_agent_tool_execution_replay_entries = 64"

definition max_agent_tool_route_attempts :: int where "max_agent_tool_route_attempts = 1024"

definition empty_store :: "int \<Rightarrow> ('k, 'f, 'o, 'e) attempt_store" where
  "empty_store n = \<lparr>as_heap = [], as_entries = [], as_completed = [], as_max = nat n\<rparr>"

definition new_agent_tool_execution_attempt_store :: "int \<Rightarrow> ('k, 'f, 'o, 'e) attempt_store" where
  "new_agent_tool_execution_attempt_store n =
     (let n1 = (if n \<le> 0 then 1 else n);
          n2 = (if max_agent_tool_execution_replay_entries < n1
                then max_agent_tool_execution_replay_entries else n1)
      in empty_store n2)"

definition new_agent_tool_route_attempt_store :: "int \<Rightarrow> ('k, 'f, 'o, 'e) attempt_store" where
  "new_agent_tool_route_attempt_store n = empty_store (if n \<le> 0 then 1 else n)"

text \<open>The loop of \<open>makeRoomLocked\<close>.\<close>

fun make_room :: "nat \<Rightarrow> ('k \<times> nat) list \<Rightarrow> 'k list \<Rightarrow> ('k \<times> nat) list \<times> 'k list" where
  "make_room m entries [] = (entries, [])"
| "make_room m entries (oldest # completed) =
     (if m \<le> length entries then make_room m (AList.delete oldest entries) completed
      else (entries, oldest # completed))"

definition remove_completed_key :: "'k list \<Rightarrow> 'k \<Rightarrow> 'k list" where
  "remove_completed_key completed k = filter (\<lambda>e. e \<noteq> k) completed"

definition fresh_attempt :: "'f \<Rightarrow> ('f, 'o, 'e) attempt" where
  "fresh_attempt fp = \<lparr>at_fingerprint = fp, at_done = False, at_released = False, at_outcome = None, at_err = None\<rparr>"

definition own_attempt ::
  "('k, 'f, 'o, 'e) attempt_store \<Rightarrow> 'k \<Rightarrow> 'f \<Rightarrow> ('k, 'f, 'o, 'e) attempt_store \<times> begin_result" where
  "own_attempt s k fp =
     (let i = length (as_heap s) in
      (s\<lparr>as_heap := as_heap s @ [fresh_attempt fp], as_entries := AList.update k i (as_entries s)\<rparr>, BeginOwn i))"

definition begin_new ::
  "('k, 'f, 'o, 'e) attempt_store \<Rightarrow> 'k \<Rightarrow> 'f \<Rightarrow> ('k, 'f, 'o, 'e) attempt_store \<times> begin_result" where
  "begin_new s k fp =
     (case make_room (as_max s) (as_entries s) (as_completed s) of
        (entries, completed) \<Rightarrow>
          let t = s\<lparr>as_entries := entries, as_completed := completed\<rparr> in
          if length entries < as_max s then own_attempt t k fp else (t, BeginCapacity))"

text \<open>The first critical section of \<open>execute\<close>.\<close>

definition begin_attempt ::
  "('k, 'f, 'o, 'e) attempt_store \<Rightarrow> 'k \<Rightarrow> 'f \<Rightarrow> ('k, 'f, 'o, 'e) attempt_store \<times> begin_result" where
  "begin_attempt s k fp =
     (case map_of (as_entries s) k of
        Some i \<Rightarrow>
          let a = as_heap s ! i in
          if at_fingerprint a \<noteq> fp then (s, BeginConflict)
          else if at_released a
          then own_attempt (s\<lparr>as_completed := remove_completed_key (as_completed s) k\<rparr>) k fp
          else (s, BeginJoin i)
      | None \<Rightarrow> begin_new s k fp)"

text \<open>The last critical section. \<open>released\<close> says whether the outcome asks for an approval.\<close>

definition finish_attempt ::
  "('o \<Rightarrow> bool) \<Rightarrow> ('k, 'f, 'o, 'e) attempt_store \<Rightarrow> 'k \<Rightarrow> nat \<Rightarrow> 'e + 'o \<Rightarrow> ('k, 'f, 'o, 'e) attempt_store" where
  "finish_attempt released s k i r =
     (let a = as_heap s ! i in
      case r of
        Inr out \<Rightarrow> s\<lparr>as_heap := (as_heap s)[i := a\<lparr>at_outcome := Some out, at_released := released out, at_done := True\<rparr>],
                    as_completed := as_completed s @ [k]\<rparr>
      | Inl e \<Rightarrow> s\<lparr>as_heap := (as_heap s)[i := a\<lparr>at_err := Some e, at_done := True\<rparr>],
                    as_entries := AList.delete k (as_entries s)\<rparr>)"

text \<open>What a waiter gets: \<open>None\<close> while the attempt is not done.\<close>

definition await_attempt :: "('k, 'f, 'o, 'e) attempt_store \<Rightarrow> nat \<Rightarrow> ('e + 'o) option" where
  "await_attempt s i =
     (let a = as_heap s ! i in
      if \<not> at_done a then None
      else case at_err a of Some e \<Rightarrow> Some (Inl e) | None \<Rightarrow> map_option Inr (at_outcome a))"

section \<open>The store of routes\<close>

text \<open>Its attempts are compared by the request itself and never released.\<close>

definition begin_route ::
  "('k, 'f, 'o, 'e) attempt_store \<Rightarrow> 'k \<Rightarrow> 'f \<Rightarrow> ('k, 'f, 'o, 'e) attempt_store \<times> begin_result" where
  "begin_route s k q =
     (case map_of (as_entries s) k of
        Some i \<Rightarrow> if at_fingerprint (as_heap s ! i) \<noteq> q then (s, BeginConflict) else (s, BeginJoin i)
      | None \<Rightarrow> begin_new s k q)"

definition finish_route ::
  "('k, 'f, 'o, 'e) attempt_store \<Rightarrow> 'k \<Rightarrow> nat \<Rightarrow> 'e + 'o \<Rightarrow> ('k, 'f, 'o, 'e) attempt_store" where
  "finish_route s k i r = finish_attempt (\<lambda>_. False) s k i r"

section \<open>Keys, fingerprints and results\<close>

definition valid_agent_tool_route_idempotency_key :: "string \<Rightarrow> bool" where
  "valid_agent_tool_route_idempotency_key key =
     (if key = [] \<or> 128 < length key \<or> trim_space key \<noteq> key then False
      else list_all (\<lambda>c. 0x21 \<le> (of_char c :: nat) \<and> (of_char c :: nat) \<le> 0x7e) key)"

text \<open>The header values of a request; \<open>None\<close> is the answer 400.\<close>

definition require_agent_tool_route_idempotency_key :: "string list \<Rightarrow> string option" where
  "require_agent_tool_route_idempotency_key vals =
     (if length vals \<noteq> 1 \<or> \<not> valid_agent_tool_route_idempotency_key (hd vals) then None else Some (hd vals))"

datatype attempt_error =
    AttemptContextNil
  | AttemptContext string
  | AttemptInvokerRequired
  | AttemptInvalidKey
  | AttemptRequest policy_error
  | AttemptArguments
  | AttemptInvalidExecution
  | AttemptConflict
  | AttemptCapacity
  | AttemptPanicked
  | AttemptFailed execution_error

definition fingerprint_fields :: "request \<Rightarrow> tool_args \<Rightarrow> string list" where
  "fingerprint_fields q args = [rq_Project q, rq_ProviderID q, rq_ConnectionID q, rq_ServerID q, rq_ToolName q,
     rq_Mode q, args]"

text \<open>Arguments that were never parsed do not marshal.\<close>

definition agent_tool_execution_fingerprint :: "request \<Rightarrow> tool_args \<Rightarrow> attempt_error + string" where
  "agent_tool_execution_fingerprint q args =
     (case validate_request q of
        Some e \<Rightarrow> Inl (AttemptRequest e)
      | None \<Rightarrow>
          if args = [] then Inl AttemptArguments
          else Inr (sha256 (concat (map framed (fingerprint_fields q args)))))"

definition validate_agent_tool_execution_result :: "execution_result \<Rightarrow> attempt_error option" where
  "validate_agent_tool_execution_result r =
     (if validate_decision (rr_Decision (er_Route r)) \<noteq> None then Some AttemptInvalidExecution
      else if de_Status (rr_Decision (er_Route r)) \<noteq> DecisionAllowed then
        (if er_Invoked r \<or> er_Result r \<noteq> None then Some AttemptInvalidExecution else None)
      else case er_Result r of
        None \<Rightarrow> Some AttemptInvalidExecution
      | Some t \<Rightarrow>
          if \<not> er_Invoked r then Some AttemptInvalidExecution
          else if validate_tool_call_result t \<noteq> None then Some AttemptInvalidExecution
          else None)"

text \<open>What the owner of an attempt reports, from what its callback returned.\<close>

definition settle_result :: "execution_error + execution_result \<Rightarrow> attempt_error + execution_result" where
  "settle_result r =
     (case r of
        Inl e \<Rightarrow> Inl (AttemptFailed e)
      | Inr x \<Rightarrow> (case validate_agent_tool_execution_result x of Some e \<Rightarrow> Inl e | None \<Rightarrow> Inr x))"

text \<open>What the store keeps of a result, and what a replay gives back: the decision without the run.\<close>

record attempt_outcome =
  ao_Decision :: decision
  ao_Invoked :: bool
  ao_Result :: "tool_call_result option"

definition kept_outcome :: "execution_result \<Rightarrow> attempt_outcome" where
  "kept_outcome r = \<lparr>ao_Decision = rr_Decision (er_Route r), ao_Invoked = er_Invoked r, ao_Result = er_Result r\<rparr>"

definition outcome_released :: "attempt_outcome \<Rightarrow> bool" where
  "outcome_released o1 \<longleftrightarrow> de_Status (ao_Decision o1) = DecisionApprovalRequired"

type_synonym execution_attempts = "(string \<times> string, string, attempt_outcome, attempt_error) attempt_store"

definition finish_execution ::
  "execution_attempts \<Rightarrow> string \<times> string \<Rightarrow> nat \<Rightarrow> execution_error + execution_result \<Rightarrow>
   execution_attempts \<times> (attempt_error + execution_result)" where
  "finish_execution s k i r =
     (let out = settle_result r in
      (finish_attempt outcome_released s k i (case out of Inl e \<Rightarrow> Inl e | Inr x \<Rightarrow> Inr (kept_outcome x)), out))"

text \<open>The deferred handler of a callback that panics.\<close>

definition panic_execution :: "execution_attempts \<Rightarrow> string \<times> string \<Rightarrow> nat \<Rightarrow> execution_attempts" where
  "panic_execution s k i =
     s\<lparr>as_heap := (as_heap s)[i := (as_heap s ! i)\<lparr>at_err := Some AttemptPanicked, at_done := True\<rparr>],
       as_entries := AList.delete k (as_entries s)\<rparr>"

text \<open>The guards of \<open>execute\<close> before the store is locked: the key and fingerprint it locks with.\<close>

definition execute_preflight ::
  "string option option \<Rightarrow> bool \<Rightarrow> string \<Rightarrow> string \<Rightarrow> request \<Rightarrow> tool_args \<Rightarrow>
   attempt_error + ((string \<times> string) \<times> string)" where
  "execute_preflight ctx callback rid key q args =
     (case ctx of
        None \<Rightarrow> Inl AttemptContextNil
      | Some (Some e) \<Rightarrow> Inl (AttemptContext e)
      | Some None \<Rightarrow>
          if \<not> callback then Inl AttemptInvokerRequired
          else if \<not> valid_agent_tool_route_idempotency_key key then Inl AttemptInvalidKey
          else case agent_tool_execution_fingerprint q args of
            Inl e \<Rightarrow> Inl e
          | Inr fp \<Rightarrow> Inr ((rid, key), fp))"

end
