(* ===== verification/Attempt_Facts.thy ===== *)
theory Attempt_Facts
  imports Attempt_Store
begin

text \<open>
  The contract of an idempotency store as a locale, proved of the two stores: what a key stands
  for (its view), that every critical section keeps the invariant, and, once for both, that a
  key starts no second attempt while one runs, nor after it, until the outcome is released or evicted.
\<close>

section \<open>The view of a key\<close>

datatype ('f, 'o) key_view = InFlight nat 'f | Kept nat 'f 'o | Open nat 'f

definition attempt_view :: "nat \<Rightarrow> ('f, 'o, 'e) attempt \<Rightarrow> ('f, 'o) key_view" where
  "attempt_view i a =
     (if \<not> at_done a then InFlight i (at_fingerprint a)
      else if at_released a then Open i (at_fingerprint a)
      else Kept i (at_fingerprint a) (the (at_outcome a)))"

definition view :: "('k, 'f, 'o, 'e) attempt_store \<Rightarrow> 'k \<Rightarrow> ('f, 'o) key_view option" where
  "view s k = map_option (\<lambda>i. attempt_view i (as_heap s ! i)) (map_of (as_entries s) k)"

definition settled_well :: "('f, 'o, 'e) attempt \<Rightarrow> bool" where
  "settled_well a \<longleftrightarrow> (if at_done a then at_err a = None \<and> at_outcome a \<noteq> None else \<not> at_released a \<and> at_err a = None)"

definition store_ok :: "('k, 'f, 'o, 'e) attempt_store \<Rightarrow> bool" where
  "store_ok s \<longleftrightarrow>
     distinct (map fst (as_entries s))
     \<and> (\<forall>k l i. map_of (as_entries s) k = Some i \<longrightarrow> map_of (as_entries s) l = Some i \<longrightarrow> k = l)
     \<and> (\<forall>k i. map_of (as_entries s) k = Some i \<longrightarrow> i < length (as_heap s) \<and> settled_well (as_heap s ! i))
     \<and> distinct (as_completed s)
     \<and> (\<forall>k. k \<in> set (as_completed s) \<longleftrightarrow> (\<exists>i. map_of (as_entries s) k = Some i \<and> at_done (as_heap s ! i)))
     \<and> length (as_entries s) \<le> as_max s"

lemma store_okD:
  assumes "store_ok s"
  shows "distinct (map fst (as_entries s))"
    "map_of (as_entries s) k = Some i \<Longrightarrow> map_of (as_entries s) l = Some i \<Longrightarrow> k = l"
    "map_of (as_entries s) k = Some i \<Longrightarrow> i < length (as_heap s)"
    "map_of (as_entries s) k = Some i \<Longrightarrow> settled_well (as_heap s ! i)"
    "distinct (as_completed s)"
    "k \<in> set (as_completed s) \<longleftrightarrow> (\<exists>i. map_of (as_entries s) k = Some i \<and> at_done (as_heap s ! i))"
    "length (as_entries s) \<le> as_max s"
  using assms unfolding store_ok_def by blast+

section \<open>Making room\<close>

definition without :: "'k set \<Rightarrow> ('k \<times> 'v) list \<Rightarrow> ('k \<times> 'v) list" where
  "without K es = filter (\<lambda>e. fst e \<notin> K) es"

lemma delete_without: "AList.delete k es = without {k} es"
  by (simp add: AList.delete_eq without_def split_def eq_commute)

lemma without_without [simp]: "without K (without L es) = without (L \<union> K) es"
  by (simp add: without_def conj_commute)

lemma without_empty [simp]: "without {} es = es"
  by (simp add: without_def)

lemma set_without: "set (without K es) = {e \<in> set es. fst e \<notin> K}"
  by (auto simp: without_def)

lemma map_of_without: "map_of (without K es) k = (if k \<in> K then None else map_of es k)"
  by (induction es) (auto simp: without_def)

lemma distinct_without: "distinct (map f es) \<Longrightarrow> distinct (map f (without K es))"
  unfolding without_def by (rule distinct_map_filter)

lemma make_room_spec:
  "\<exists>n \<le> length completed. make_room m es completed = (without (set (take n completed)) es, drop n completed)
     \<and> (m \<le> length (without (set (take n completed)) es) \<longrightarrow> n = length completed)"
proof (induction m es completed rule: make_room.induct)
  case (2 m es k ks)
  show ?case
  proof (cases "m \<le> length es")
    case True
    from "2.IH" [OF this] obtain n where n: "n \<le> length ks"
      "make_room m (AList.delete k es) ks = (without (set (take n ks)) (AList.delete k es), drop n ks)"
      "m \<le> length (without (set (take n ks)) (AList.delete k es)) \<longrightarrow> n = length ks" by blast
    have w: "without (set (take n ks)) (AList.delete k es) = without (set (take (Suc n) (k # ks))) es"
      by (simp add: delete_without)
    have "make_room m es (k # ks) = (without (set (take (Suc n) (k # ks))) es, drop (Suc n) (k # ks))"
      using True n(2) unfolding w by simp
    moreover have "m \<le> length (without (set (take (Suc n) (k # ks))) es) \<longrightarrow> Suc n = length (k # ks)"
      using n(3) unfolding w by simp
    moreover have "Suc n \<le> length (k # ks)" using n(1) by simp
    ultimately show ?thesis by blast
  next
    case False
    then show ?thesis by (intro exI [of _ 0]) simp
  qed
qed simp

section \<open>The critical sections keep the invariant\<close>

lemma set_drop_distinct: "distinct xs \<Longrightarrow> x \<in> set (drop n xs) \<longleftrightarrow> x \<in> set xs \<and> x \<notin> set (take n xs)"
proof -
  assume d: "distinct xs"
  have "set xs = set (take n xs) \<union> set (drop n xs)" by (metis append_take_drop_id set_append)
  moreover have "set (take n xs) \<inter> set (drop n xs) = {}" using d by (rule set_take_disj_set_drop_if_distinct) simp
  ultimately show ?thesis by blast
qed

lemma store_ok_evict:
  assumes "store_ok s"
  shows "store_ok (s\<lparr>as_entries := without (set (take n (as_completed s))) (as_entries s),
      as_completed := drop n (as_completed s)\<rparr>)"
proof -
  let ?es = "without (set (take n (as_completed s))) (as_entries s)"
  have m: "map_of ?es k = Some i \<longleftrightarrow> k \<notin> set (take n (as_completed s)) \<and> map_of (as_entries s) k = Some i" for k i
    by (simp add: map_of_without)
  have "length ?es \<le> as_max s"
    using store_okD(7) [OF assms] unfolding without_def by (meson length_filter_le order_trans)
  moreover have "distinct (map fst ?es)" using store_okD(1) [OF assms] by (rule distinct_without)
  moreover have "distinct (drop n (as_completed s))" using store_okD(5) [OF assms] by simp
  moreover have "k \<in> set (drop n (as_completed s)) \<longleftrightarrow> (\<exists>i. map_of ?es k = Some i \<and> at_done (as_heap s ! i))" for k
    unfolding m set_drop_distinct [OF store_okD(5) [OF assms]] store_okD(6) [OF assms] by blast
  ultimately show ?thesis
    using store_okD(2-4) [OF assms] unfolding store_ok_def by (simp add: m) blast
qed

lemma length_update_entry:
  "length (AList.update k v es) = (if map_of es k = None then Suc (length es) else length es)"
  by (induction es) auto

lemma remove_completed: "k \<notin> set c \<Longrightarrow> remove_completed_key c k = c"
  by (auto simp: remove_completed_key_def filter_id_conv)

definition owned :: "('k, 'f, 'o, 'e) attempt_store \<Rightarrow> 'k \<Rightarrow> 'f \<Rightarrow> ('k, 'f, 'o, 'e) attempt_store" where
  "owned s k fp = fst (own_attempt (s\<lparr>as_completed := remove_completed_key (as_completed s) k\<rparr>) k fp)"

lemma owned_fields:
  "as_heap (owned s k fp) = as_heap s @ [fresh_attempt fp]"
  "map_of (as_entries (owned s k fp)) = (map_of (as_entries s))(k \<mapsto> length (as_heap s))"
  "as_completed (owned s k fp) = remove_completed_key (as_completed s) k" "as_max (owned s k fp) = as_max s"
  by (simp_all add: owned_def own_attempt_def Let_def update_conv')

lemma owned_entries: "as_entries (owned s k fp) = AList.update k (length (as_heap s)) (as_entries s)"
  by (simp add: owned_def own_attempt_def Let_def)

lemma owned_view:
  assumes "store_ok s"
  shows "view (owned s k fp) = (view s)(k \<mapsto> InFlight (length (as_heap s)) fp)"
proof
  fix l
  show "view (owned s k fp) l = ((view s)(k \<mapsto> InFlight (length (as_heap s)) fp)) l"
  proof (cases "l = k \<or> map_of (as_entries s) l = None")
    case True
    then show ?thesis
      by (auto simp: view_def owned_fields attempt_view_def fresh_attempt_def)
  next
    case False
    then obtain i where "map_of (as_entries s) l = Some i" "l \<noteq> k" by auto
    then show ?thesis using store_okD(3) [OF assms] by (simp add: view_def owned_fields nth_append)
  qed
qed

lemma owned_ok:
  assumes "store_ok s" "map_of (as_entries s) k = None \<Longrightarrow> length (as_entries s) < as_max s"
  shows "store_ok (owned s k fp)"
proof -
  let ?n = "length (as_heap s)" and ?t = "owned s k fp"
  have m: "map_of (as_entries ?t) l = Some i \<longleftrightarrow> (if l = k then i = ?n else map_of (as_entries s) l = Some i)" for l i
    by (auto simp: owned_fields)
  have old: "map_of (as_entries s) l = Some i \<Longrightarrow> as_heap ?t ! i = as_heap s ! i \<and> i < ?n" for l i
    using store_okD(3) [OF assms(1)] by (simp add: owned_fields nth_append)
  have new: "as_heap ?t ! ?n = fresh_attempt fp" by (simp add: owned_fields)
  have "distinct (map fst (as_entries ?t))"
    using store_okD(1) [OF assms(1)] by (simp add: owned_entries distinct_update)
  moreover have "length (as_entries ?t) \<le> as_max ?t"
    using assms(2) store_okD(7) [OF assms(1)]
    unfolding owned_fields(4) owned_entries length_update_entry by (auto simp: Suc_le_eq)
  moreover have "l' = l" if "map_of (as_entries ?t) l = Some i" "map_of (as_entries ?t) l' = Some i" for l l' i
    using that store_okD(2,3) [OF assms(1)] unfolding m by (metis nat_neq_iff)
  moreover have "i < length (as_heap ?t) \<and> settled_well (as_heap ?t ! i)" if "map_of (as_entries ?t) l = Some i" for l i
    using that old [of l i] store_okD(4) [OF assms(1), of l i] new unfolding m
    by (auto simp: owned_fields(1) settled_well_def fresh_attempt_def split: if_splits)
  moreover have "distinct (as_completed ?t)"
    using store_okD(5) [OF assms(1)] by (simp add: owned_fields remove_completed_key_def)
  moreover have "l \<in> set (as_completed ?t) \<longleftrightarrow> (\<exists>i. map_of (as_entries ?t) l = Some i \<and> at_done (as_heap ?t ! i))" for l
  proof (cases "l = k")
    case True
    then show ?thesis using m new by (simp add: owned_fields(3) remove_completed_key_def fresh_attempt_def)
  next
    case False
    then show ?thesis using m [of l] old [of l] store_okD(6) [OF assms(1), of l]
      by (auto simp: owned_fields(3) remove_completed_key_def)
  qed
  ultimately show ?thesis unfolding store_ok_def by blast
qed

section \<open>The contract\<close>

text \<open>Keys that lose their entry and were not in flight.\<close>

definition evicts :: "('k \<Rightarrow> ('f, 'o) key_view option) \<Rightarrow> ('k \<Rightarrow> ('f, 'o) key_view option) \<Rightarrow> bool" where
  "evicts v w \<longleftrightarrow> (\<forall>l. w l = v l \<or> w l = None \<and> (\<forall>i f. v l \<noteq> Some (InFlight i f)))"

lemma evicts_refl [simp]: "evicts v v"
  by (simp add: evicts_def)

definition evicted :: "('k, 'f, 'o, 'e) attempt_store \<Rightarrow> ('k, 'f, 'o, 'e) attempt_store" where
  "evicted s = (case make_room (as_max s) (as_entries s) (as_completed s) of
     (entries, completed) \<Rightarrow> s\<lparr>as_entries := entries, as_completed := completed\<rparr>)"

lemma evicted_ok:
  assumes "store_ok s"
  shows "store_ok (evicted s) \<and> evicts (view s) (view (evicted s))
    \<and> as_max (evicted s) = as_max s \<and> as_heap (evicted s) = as_heap s
    \<and> (length (as_entries (evicted s)) < as_max s \<or> as_completed (evicted s) = [])
    \<and> (\<forall>k. map_of (as_entries s) k = None \<longrightarrow> map_of (as_entries (evicted s)) k = None)"
proof -
  obtain n where n: "n \<le> length (as_completed s)"
    "make_room (as_max s) (as_entries s) (as_completed s) =
       (without (set (take n (as_completed s))) (as_entries s), drop n (as_completed s))"
    "as_max s \<le> length (without (set (take n (as_completed s))) (as_entries s)) \<longrightarrow> n = length (as_completed s)"
    using make_room_spec [of "as_completed s" "as_max s" "as_entries s"] by blast
  have e: "evicted s = s\<lparr>as_entries := without (set (take n (as_completed s))) (as_entries s),
      as_completed := drop n (as_completed s)\<rparr>"
    by (simp add: evicted_def n(2))
  have "view s l \<noteq> Some (InFlight i f)" if "l \<in> set (take n (as_completed s))" for l i f
  proof -
    have "l \<in> set (as_completed s)" using that by (rule in_set_takeD)
    then obtain j where "map_of (as_entries s) l = Some j" "at_done (as_heap s ! j)"
      using store_okD(6) [OF assms] by blast
    then show ?thesis by (simp add: view_def attempt_view_def)
  qed
  then have "evicts (view s) (view (evicted s))"
    unfolding evicts_def e by (auto simp: view_def map_of_without)
  moreover have "store_ok (evicted s)" unfolding e using assms by (rule store_ok_evict)
  ultimately show ?thesis using n(3) by (auto simp: e map_of_without)
qed

lemma begin_new_cases:
  assumes "store_ok s" "map_of (as_entries s) k = None"
  shows "begin_new s k fp =
    (if length (as_entries (evicted s)) < as_max s then (owned (evicted s) k fp, BeginOwn (length (as_heap s)))
     else (evicted s, BeginCapacity))"
proof -
  have e: "store_ok (evicted s)" "map_of (as_entries (evicted s)) k = None" "as_heap (evicted s) = as_heap s"
    using evicted_ok [OF assms(1)] assms(2) by auto
  then have "k \<notin> set (as_completed (evicted s))" using store_okD(6) [OF e(1)] by simp
  then have "remove_completed_key (as_completed (evicted s)) k = as_completed (evicted s)" by (rule remove_completed)
  then have "own_attempt (evicted s) k fp = (owned (evicted s) k fp, BeginOwn (length (as_heap s)))"
    using e(3) by (simp add: owned_def own_attempt_def Let_def)
  then show ?thesis by (simp add: begin_new_def evicted_def Let_def case_prod_beta)
qed

lemma new_own_ok:
  assumes "store_ok s" "map_of (as_entries s) k = None" "length (as_entries (evicted s)) < as_max s"
  shows "store_ok (owned (evicted s) k fp)
    \<and> (\<exists>w. evicts (view s) w \<and> view (owned (evicted s) k fp) = w(k \<mapsto> InFlight (length (as_heap s)) fp))"
proof -
  have e: "store_ok (evicted s)" "evicts (view s) (view (evicted s))" "as_heap (evicted s) = as_heap s"
    "as_max (evicted s) = as_max s"
    using evicted_ok [OF assms(1)] by auto
  have "store_ok (owned (evicted s) k fp)" using e(1) by (rule owned_ok) (simp add: assms(3) e(4))
  then show ?thesis using owned_view [OF e(1), of k fp] e(2,3) by auto
qed

lemma view_none: "view s k = None \<longleftrightarrow> map_of (as_entries s) k = None"
  by (simp add: view_def)

lemma settle_map: "map_of (AList.delete k es) = (map_of es)(k := None)"
  by (auto simp: delete_without map_of_without)

lemma finish_ok:
  assumes "store_ok s" "view s k = Some (InFlight i f)"
  shows "store_ok (finish_attempt rel s k i r)
    \<and> view (finish_attempt rel s k i r) =
        (view s)(k := (case r of Inl _ \<Rightarrow> None | Inr out \<Rightarrow> Some (if rel out then Open i f else Kept i f out)))"
proof -
  obtain j where j: "map_of (as_entries s) k = Some j" "attempt_view j (as_heap s ! j) = InFlight i f"
    using assms(2) by (auto simp: view_def)
  then have i: "map_of (as_entries s) k = Some i" "\<not> at_done (as_heap s ! i)" "at_fingerprint (as_heap s ! i) = f"
    "i < length (as_heap s)" "at_err (as_heap s ! i) = None"
    using store_okD(3,4) [OF assms(1) j(1)] by (auto simp: attempt_view_def settled_well_def split: if_splits)
  have ne: "map_of (as_entries s) l = Some i \<Longrightarrow> l = k" for l using store_okD(2) [OF assms(1)] i(1) by blast
  have open_k: "k \<notin> set (as_completed s)" using store_okD(6) [OF assms(1), of k] i(1,2) by simp
  show ?thesis
  proof (cases r)
    case (Inl e)
    let ?t = "finish_attempt rel s k i r"
    have t: "as_entries ?t = AList.delete k (as_entries s)" "as_completed ?t = as_completed s" "as_max ?t = as_max s"
      "as_heap ?t = (as_heap s)[i := (as_heap s ! i)\<lparr>at_err := Some e, at_done := True\<rparr>]"
      using Inl by (simp_all add: finish_attempt_def Let_def)
    have m: "map_of (as_entries ?t) l = Some n \<longleftrightarrow> l \<noteq> k \<and> map_of (as_entries s) l = Some n" for l n
      by (simp add: t settle_map)
    have h: "as_heap ?t ! n = as_heap s ! n" if "map_of (as_entries s) l = Some n" "l \<noteq> k" for l n
    proof -
      have "n \<noteq> i" using that ne by blast
      then show ?thesis by (simp add: t)
    qed
    have len: "length (as_heap ?t) = length (as_heap s)" by (simp add: t)
    have "length (as_entries ?t) \<le> as_max ?t"
      using store_okD(7) [OF assms(1)] unfolding t delete_without without_def by (meson length_filter_le order_trans)
    moreover have "distinct (map fst (as_entries ?t))"
      using store_okD(1) [OF assms(1)] unfolding t delete_without by (rule distinct_without)
    moreover have "distinct (as_completed ?t)" using store_okD(5) [OF assms(1)] by (simp add: t)
    moreover have "l \<in> set (as_completed ?t) \<longleftrightarrow> (\<exists>n. map_of (as_entries ?t) l = Some n \<and> at_done (as_heap ?t ! n))" for l
      using store_okD(6) [OF assms(1), of l] open_k h unfolding m t(2) by metis
    moreover have "n < length (as_heap ?t) \<and> settled_well (as_heap ?t ! n)" if "map_of (as_entries ?t) l = Some n" for l n
      using that h [of l n] store_okD(3,4) [OF assms(1)] unfolding m len by metis
    moreover have "l = l'" if "map_of (as_entries ?t) l = Some n" "map_of (as_entries ?t) l' = Some n" for l l' n
      using that store_okD(2) [OF assms(1)] unfolding m by blast
    ultimately have "store_ok ?t" unfolding store_ok_def by blast
    moreover have "view ?t l = ((view s)(k := None)) l" for l
      using h [of l] by (cases "map_of (as_entries s) l") (auto simp: view_def t settle_map)
    ultimately show ?thesis using Inl by auto
  next
    case (Inr out)
    let ?t = "finish_attempt rel s k i r"
    let ?a = "(as_heap s ! i)\<lparr>at_outcome := Some out, at_released := rel out, at_done := True\<rparr>"
    have t: "as_entries ?t = as_entries s" "as_completed ?t = as_completed s @ [k]" "as_max ?t = as_max s"
      "as_heap ?t = (as_heap s)[i := ?a]"
      using Inr by (simp_all add: finish_attempt_def Let_def)
    have h: "as_heap ?t ! n = (if l = k then ?a else as_heap s ! n)" if "map_of (as_entries s) l = Some n" for l n
    proof (cases "l = k")
      case True
      then have "n = i" using that i(1) by simp
      then show ?thesis unfolding t(4) using i(4) True by simp
    next
      case False
      then have "n \<noteq> i" using that ne by blast
      then show ?thesis using False by (simp add: t(4))
    qed
    have "distinct (as_completed ?t)" using store_okD(5) [OF assms(1)] open_k by (simp add: t)
    moreover have "l \<in> set (as_completed ?t) \<longleftrightarrow> (\<exists>n. map_of (as_entries ?t) l = Some n \<and> at_done (as_heap ?t ! n))" for l
    proof (cases "l = k")
      case True
      then show ?thesis using h [OF i(1)] i(1) by (simp add: t(1,2))
    next
      case False
      have "(\<exists>n. map_of (as_entries s) l = Some n \<and> at_done (as_heap ?t ! n)) \<longleftrightarrow>
          (\<exists>n. map_of (as_entries s) l = Some n \<and> at_done (as_heap s ! n))"
        using h [of l] False by auto
      then show ?thesis using store_okD(6) [OF assms(1), of l] False by (simp add: t(1,2))
    qed
    moreover have "n < length (as_heap ?t) \<and> settled_well (as_heap ?t ! n)" if "map_of (as_entries ?t) l = Some n" for l n
    proof -
      have e: "map_of (as_entries s) l = Some n" using that by (simp add: t(1))
      have "n < length (as_heap ?t)" using store_okD(3) [OF assms(1) e] by (simp add: t(4))
      moreover have "settled_well ?a" using i(5) by (simp add: settled_well_def)
      ultimately show ?thesis using h [OF e] store_okD(4) [OF assms(1) e] by (cases "l = k") simp_all
    qed
    ultimately have "store_ok ?t" using store_okD(1,2,7) [OF assms(1)] unfolding store_ok_def t(1,3) by blast
    moreover have "view ?t l = ((view s)(k := Some (if rel out then Open i f else Kept i f out))) l" for l
      using h [of l] i(1,3) by (cases "map_of (as_entries s) l") (auto simp: view_def t(1) attempt_view_def)
    ultimately show ?thesis using Inr by auto
  qed
qed

section \<open>Sequences of critical sections\<close>

datatype ('k, 'f, 'o, 'e) attempt_event = Begin 'k 'f | Settle 'k nat "'e + 'o"

text \<open>Only the owner of an attempt in flight settles it.\<close>

definition attempt_event ::
  "('s \<Rightarrow> 'k \<Rightarrow> ('f, 'o) key_view option) \<Rightarrow> ('s \<Rightarrow> 'k \<Rightarrow> 'f \<Rightarrow> 's \<times> begin_result) \<Rightarrow>
   ('s \<Rightarrow> 'k \<Rightarrow> nat \<Rightarrow> 'e + 'o \<Rightarrow> 's) \<Rightarrow> 's \<Rightarrow> ('k, 'f, 'o, 'e) attempt_event \<Rightarrow> 's" where
  "attempt_event look start settle s e =
     (case e of
        Begin k fp \<Rightarrow> fst (start s k fp)
      | Settle k i r \<Rightarrow>
          (case look s k of
             Some (InFlight j f) \<Rightarrow> if j = i then settle s k i r else s
           | _ \<Rightarrow> s))"

locale idempotent_store =
  fixes okay :: "'s \<Rightarrow> bool"
    and look :: "'s \<Rightarrow> 'k \<Rightarrow> ('f, 'o) key_view option"
    and start :: "'s \<Rightarrow> 'k \<Rightarrow> 'f \<Rightarrow> 's \<times> begin_result"
    and settle :: "'s \<Rightarrow> 'k \<Rightarrow> nat \<Rightarrow> 'e + 'o \<Rightarrow> 's"
    and reopens :: "'o \<Rightarrow> bool"
    and room :: "'s \<Rightarrow> bool"
  assumes start_held: "\<lbrakk>okay s; look s k = Some v; v = InFlight i f \<or> v = Kept i f out\<rbrakk>
      \<Longrightarrow> start s k fp = (s, if f = fp then BeginJoin i else BeginConflict)"
    and start_looks: "okay s \<Longrightarrow> okay (fst (start s k fp))
      \<and> (\<exists>w. evicts (look s) w \<and> (look (fst (start s k fp)) = w \<or>
            (\<exists>i. look (fst (start s k fp)) = w(k \<mapsto> InFlight i fp)
               \<and> (look s k = None \<or> (\<exists>j. look s k = Some (Open j fp))))))"
    and settle_looks: "\<lbrakk>okay s; look s k = Some (InFlight i f)\<rbrakk> \<Longrightarrow> okay (settle s k i r)
      \<and> look (settle s k i r) =
          (look s)(k := (case r of Inl _ \<Rightarrow> None | Inr out \<Rightarrow> Some (if reopens out then Open i f else Kept i f out)))"
    and start_room: "\<lbrakk>okay s; room s; l \<noteq> k\<rbrakk> \<Longrightarrow> look (fst (start s l fp)) k = look s k"
begin

abbreviation drive :: "'s \<Rightarrow> ('k, 'f, 'o, 'e) attempt_event \<Rightarrow> 's" where
  "drive \<equiv> attempt_event look start settle"

lemma drive_okay: "okay s \<Longrightarrow> okay (drive s e)"
  using start_looks settle_looks
  by (auto simp: attempt_event_def split: attempt_event.split option.split key_view.split)

lemma drives_okay: "okay s \<Longrightarrow> okay (foldl drive s es)"
  by (induction es arbitrary: s) (simp_all add: drive_okay)

lemma begin_elsewhere:
  assumes "okay s" "l \<noteq> k"
  shows "look (fst (start s l fp)) k = look s k
    \<or> look (fst (start s l fp)) k = None \<and> (\<forall>i f. look s k \<noteq> Some (InFlight i f)) \<and> \<not> room s"
proof -
  obtain w where w: "evicts (look s) w" "look (fst (start s l fp)) = w \<or> (\<exists>j. look (fst (start s l fp)) = w(l \<mapsto> InFlight j fp))"
    using start_looks [OF assms(1), of l fp] by blast
  have "look (fst (start s l fp)) k = w k" using w(2) assms(2) by auto
  then show ?thesis using w(1) start_room [OF assms(1) _ assms(2)] unfolding evicts_def by metis
qed

lemma settle_elsewhere:
  assumes "okay s" "l \<noteq> k"
  shows "look (drive s (Settle l i r)) k = look s k"
  using assms settle_looks by (auto simp: attempt_event_def split: option.split key_view.split)

text \<open>A running attempt holds its key until its owner settles it, whatever else begins or ends.\<close>

lemma running_step:
  assumes "okay s" "look s k = Some (InFlight i f)" "\<forall>r. e \<noteq> Settle k i r"
  shows "look (drive s e) k = Some (InFlight i f)"
proof (cases e)
  case (Begin l fp)
  show ?thesis
  proof (cases "l = k")
    case True
    then show ?thesis using Begin start_held [OF assms(1,2)] assms(2) by (simp add: attempt_event_def)
  next
    case False
    then show ?thesis using Begin begin_elsewhere [OF assms(1) False, of fp] assms(2) by (auto simp: attempt_event_def)
  qed
next
  case (Settle l j r)
  then show ?thesis using assms settle_elsewhere by (cases "l = k") (auto simp: attempt_event_def)
qed

lemma running_steps:
  "okay s \<Longrightarrow> look s k = Some (InFlight i f) \<Longrightarrow> \<forall>r. Settle k i r \<notin> set es \<Longrightarrow>
    look (foldl drive s es) k = Some (InFlight i f)"
proof (induction es arbitrary: s)
  case (Cons e es)
  have "look (drive s e) k = Some (InFlight i f)"
    by (rule running_step [OF Cons.prems(1,2)]) (use Cons.prems(3) in auto)
  then show ?case using Cons.IH [OF drive_okay [OF Cons.prems(1)]] Cons.prems(3) by simp
qed simp

text \<open>A kept outcome holds its key until another key begins in a store without room.\<close>

lemma kept_step:
  assumes "okay s" "look s k = Some (Kept i f out)"
  shows "look (drive s e) k = Some (Kept i f out) \<or> (\<exists>l fp. e = Begin l fp \<and> l \<noteq> k \<and> \<not> room s)"
proof (cases e)
  case (Begin l fp)
  show ?thesis
  proof (cases "l = k")
    case True
    then show ?thesis using Begin start_held [OF assms(1,2)] assms(2) by (simp add: attempt_event_def)
  next
    case False
    then show ?thesis using Begin begin_elsewhere [OF assms(1) False, of fp] assms(2) by (auto simp: attempt_event_def)
  qed
next
  case (Settle l j r)
  then show ?thesis using assms settle_elsewhere by (cases "l = k") (auto simp: attempt_event_def)
qed

lemma kept_steps:
  "okay s \<Longrightarrow> look s k = Some (Kept i f out) \<Longrightarrow> look (foldl drive s es) k = Some (Kept i f out)
    \<or> (\<exists>a l fp b. es = a @ Begin l fp # b \<and> l \<noteq> k \<and> \<not> room (foldl drive s a))"
proof (induction es arbitrary: s)
  case (Cons e es)
  from kept_step [OF Cons.prems, of e] show ?case
  proof
    assume "look (drive s e) k = Some (Kept i f out)"
    from Cons.IH [OF drive_okay [OF Cons.prems(1)] this] show ?thesis
    proof
      assume "\<exists>a l fp b. es = a @ Begin l fp # b \<and> l \<noteq> k \<and> \<not> room (foldl drive (drive s e) a)"
      then obtain a l fp b where "es = a @ Begin l fp # b" "l \<noteq> k" "\<not> room (foldl drive (drive s e) a)" by blast
      then have "e # es = (e # a) @ Begin l fp # b \<and> l \<noteq> k \<and> \<not> room (foldl drive s (e # a))" by simp
      then show ?thesis by blast
    qed simp
  next
    assume "\<exists>l fp. e = Begin l fp \<and> l \<noteq> k \<and> \<not> room s"
    then obtain l fp where "e # es = [] @ Begin l fp # es \<and> l \<noteq> k \<and> \<not> room (foldl drive s [])" by auto
    then show ?thesis by blast
  qed
qed simp

lemma settled:
  "okay s \<Longrightarrow> look s k = Some (InFlight i f) \<Longrightarrow> look (drive s (Settle k i r)) k =
    (case r of Inl _ \<Rightarrow> None | Inr out \<Rightarrow> Some (if reopens out then Open i f else Kept i f out))"
  using settle_looks [of s k i f r] by (simp add: attempt_event_def)

end

section \<open>The two stores\<close>

lemma view_some: "view s k = Some v \<Longrightarrow> \<exists>i. map_of (as_entries s) k = Some i \<and> v = attempt_view i (as_heap s ! i)"
  by (auto simp: view_def)

lemma held_entry:
  assumes "store_ok s" "view s k = Some v" "v = InFlight i f \<or> v = Kept i f out"
  shows "map_of (as_entries s) k = Some i" "at_fingerprint (as_heap s ! i) = f" "\<not> at_released (as_heap s ! i)"
proof -
  obtain j where j: "map_of (as_entries s) k = Some j" "v = attempt_view j (as_heap s ! j)"
    using view_some [OF assms(2)] by blast
  have "settled_well (as_heap s ! j)" using store_okD(4) [OF assms(1) j(1)] .
  then have "i = j \<and> at_fingerprint (as_heap s ! j) = f \<and> \<not> at_released (as_heap s ! j)"
    using j(2) assms(3) by (auto simp: attempt_view_def settled_well_def split: if_splits)
  then show "map_of (as_entries s) k = Some i" "at_fingerprint (as_heap s ! i) = f" "\<not> at_released (as_heap s ! i)"
    using j(1) by auto
qed

lemma begin_attempt_held:
  "\<lbrakk>store_ok s; view s k = Some v; v = InFlight i f \<or> v = Kept i f out\<rbrakk>
   \<Longrightarrow> begin_attempt s k fp = (s, if f = fp then BeginJoin i else BeginConflict)"
  using held_entry [of s k v i f out] by (simp add: begin_attempt_def Let_def)

lemma begin_route_held:
  "\<lbrakk>store_ok s; view s k = Some v; v = InFlight i f \<or> v = Kept i f out\<rbrakk>
   \<Longrightarrow> begin_route s k fp = (s, if f = fp then BeginJoin i else BeginConflict)"
  using held_entry [of s k v i f out] by (simp add: begin_route_def)

lemma begin_new_looks:
  assumes "store_ok s" "map_of (as_entries s) k = None"
  shows "store_ok (fst (begin_new s k fp)) \<and> (\<exists>w. evicts (view s) w \<and> (view (fst (begin_new s k fp)) = w \<or>
     (\<exists>i. view (fst (begin_new s k fp)) = w(k \<mapsto> InFlight i fp) \<and> view s k = None)))"
proof (cases "length (as_entries (evicted s)) < as_max s")
  case True
  have n: "fst (begin_new s k fp) = owned (evicted s) k fp" using begin_new_cases [OF assms] True by simp
  show ?thesis unfolding n using new_own_ok [OF assms True, of fp] assms(2) by (auto simp: view_none)
next
  case False
  have n: "fst (begin_new s k fp) = evicted s" using begin_new_cases [OF assms] False by simp
  show ?thesis unfolding n using evicted_ok [OF assms(1)] by blast
qed

lemma begin_attempt_looks:
  assumes "store_ok s"
  shows "store_ok (fst (begin_attempt s k fp)) \<and> (\<exists>w. evicts (view s) w \<and> (view (fst (begin_attempt s k fp)) = w \<or>
     (\<exists>i. view (fst (begin_attempt s k fp)) = w(k \<mapsto> InFlight i fp)
        \<and> (view s k = None \<or> (\<exists>j. view s k = Some (Open j fp))))))"
proof (cases "map_of (as_entries s) k")
  case None
  then have n: "begin_attempt s k fp = begin_new s k fp" by (simp add: begin_attempt_def)
  show ?thesis unfolding n using begin_new_looks [OF assms None, of fp] by blast
next
  case (Some i)
  show ?thesis
  proof (cases "at_fingerprint (as_heap s ! i) = fp \<and> at_released (as_heap s ! i)")
    case True
    then have o: "view s k = Some (Open i fp)"
      using Some store_okD(4) [OF assms Some] by (auto simp: view_def attempt_view_def settled_well_def split: if_splits)
    have n: "fst (begin_attempt s k fp) = owned s k fp"
      using Some True by (simp add: begin_attempt_def Let_def owned_def)
    have "store_ok (owned s k fp)" using assms by (rule owned_ok) (simp add: Some)
    then show ?thesis unfolding n using owned_view [OF assms, of k fp] o evicts_refl by metis
  next
    case False
    then have n: "fst (begin_attempt s k fp) = s" using Some by (simp add: begin_attempt_def Let_def)
    show ?thesis unfolding n using assms evicts_refl by metis
  qed
qed

lemma begin_route_looks:
  assumes "store_ok s"
  shows "store_ok (fst (begin_route s k q)) \<and> (\<exists>w. evicts (view s) w \<and> (view (fst (begin_route s k q)) = w \<or>
     (\<exists>i. view (fst (begin_route s k q)) = w(k \<mapsto> InFlight i q)
        \<and> (view s k = None \<or> (\<exists>j. view s k = Some (Open j q))))))"
proof (cases "map_of (as_entries s) k")
  case None
  then have n: "begin_route s k q = begin_new s k q" by (simp add: begin_route_def)
  show ?thesis unfolding n using begin_new_looks [OF assms None, of q] by blast
next
  case (Some i)
  then have n: "fst (begin_route s k q) = s" by (simp add: begin_route_def)
  show ?thesis unfolding n using assms evicts_refl by metis
qed

lemma finish_route_ok:
  "\<lbrakk>store_ok s; view s k = Some (InFlight i f)\<rbrakk> \<Longrightarrow> store_ok (finish_route s k i r)
    \<and> view (finish_route s k i r) =
        (view s)(k := (case r of Inl _ \<Rightarrow> None | Inr out \<Rightarrow> Some (if False then Open i f else Kept i f out)))"
  unfolding finish_route_def by (rule finish_ok)

text \<open>There is room while fewer keys are kept than the store may keep: nothing is evicted then.\<close>

definition has_room :: "('k, 'f, 'o, 'e) attempt_store \<Rightarrow> bool" where
  "has_room s \<longleftrightarrow> length (as_entries s) < as_max s"

lemma evicted_room: "has_room s \<Longrightarrow> evicted s = s"
  by (cases "as_completed s") (simp_all add: evicted_def has_room_def)

lemma begin_new_room:
  assumes "store_ok s" "has_room s" "l \<noteq> k" "map_of (as_entries s) l = None"
  shows "view (fst (begin_new s l fp)) k = view s k"
  using begin_new_cases [OF assms(1,4), of fp] evicted_room [OF assms(2)] assms(2,3) owned_view [OF assms(1), of l fp]
  by (simp add: has_room_def)

lemma begin_attempt_room:
  assumes "store_ok s" "has_room s" "l \<noteq> k"
  shows "view (fst (begin_attempt s l fp)) k = view s k"
proof (cases "map_of (as_entries s) l")
  case None
  then show ?thesis using begin_new_room [OF assms None, of fp] by (simp add: begin_attempt_def)
next
  case (Some i)
  then have "fst (begin_attempt s l fp) = s \<or> fst (begin_attempt s l fp) = owned s l fp"
    by (simp add: begin_attempt_def Let_def owned_def)
  then show ?thesis using owned_view [OF assms(1), of l fp] assms(3) by auto
qed

lemma begin_route_room:
  assumes "store_ok s" "has_room s" "l \<noteq> k"
  shows "view (fst (begin_route s l fp)) k = view s k"
  using begin_new_room [OF assms] by (simp add: begin_route_def split: option.split)

interpretation executions: idempotent_store store_ok view begin_attempt "finish_attempt rel" rel has_room for rel
  by unfold_locales (fact begin_attempt_held begin_attempt_looks finish_ok begin_attempt_room)+

interpretation routes: idempotent_store store_ok view begin_route finish_route "\<lambda>_. False" has_room
  by unfold_locales (fact begin_route_held begin_route_looks finish_route_ok begin_route_room)+

text \<open>A settled attempt never changes again: whoever waits for it gets what its owner settled it with.\<close>

lemma begin_attempt_heap: "\<exists>h. as_heap (fst (begin_attempt s k fp)) = as_heap s @ h"
  by (auto simp: begin_attempt_def begin_new_def own_attempt_def Let_def split: option.split prod.split)

lemma finish_heap: "as_heap (finish_attempt rel s k i r) = (as_heap s)[i := as_heap (finish_attempt rel s k i r) ! i]"
proof (cases "i < length (as_heap s)")
  case False
  then have "(as_heap s)[i := a] = as_heap s" for a by (simp add: list_update_beyond)
  then show ?thesis by (simp add: finish_attempt_def Let_def split: sum.split)
qed (auto simp: finish_attempt_def Let_def split: sum.split)

lemma settled_stays:
  assumes "i < length (as_heap s)" "at_done (as_heap s ! i)"
  shows "i < length (as_heap (attempt_event view begin_attempt (finish_attempt rel) s e))
    \<and> as_heap (attempt_event view begin_attempt (finish_attempt rel) s e) ! i = as_heap s ! i"
proof (cases e)
  case (Begin k fp)
  then show ?thesis using begin_attempt_heap [of s k fp] assms(1) by (auto simp: attempt_event_def nth_append)
next
  case (Settle k j r)
  show ?thesis
  proof (cases "\<exists>f. view s k = Some (InFlight j f)")
    case True
    then obtain n where "attempt_view n (as_heap s ! n) = InFlight j (at_fingerprint (as_heap s ! n))" "\<not> at_done (as_heap s ! n)"
      by (auto dest!: view_some simp: attempt_view_def split: if_splits)
    then have "j \<noteq> i" using assms(2) by (auto simp: attempt_view_def)
    then show ?thesis using True Settle assms(1) finish_heap [of rel s k j r]
      by (auto simp: attempt_event_def) (metis length_list_update, metis nth_list_update_neq)
  next
    case False
    then have "attempt_event view begin_attempt (finish_attempt rel) s e = s"
      using Settle by (auto simp: attempt_event_def split: option.split key_view.split)
    then show ?thesis using assms(1) by simp
  qed
qed

lemma settled_stays_steps:
  "i < length (as_heap s) \<Longrightarrow> at_done (as_heap s ! i) \<Longrightarrow>
   as_heap (foldl (attempt_event view begin_attempt (finish_attempt rel)) s es) ! i = as_heap s ! i"
  by (induction es arbitrary: s) (auto simp: settled_stays)

lemma settle_awaited:
  assumes "store_ok s" "view s k = Some (InFlight i f)"
  shows "i < length (as_heap (finish_attempt rel s k i r)) \<and> at_done (as_heap (finish_attempt rel s k i r) ! i)
    \<and> await_attempt (finish_attempt rel s k i r) i = Some r"
proof -
  obtain j where j: "map_of (as_entries s) k = Some j" "attempt_view j (as_heap s ! j) = InFlight i f"
    using view_some [OF assms(2)] by auto
  then have "i = j" by (simp add: attempt_view_def split: if_splits)
  then have "i < length (as_heap s)" "at_err (as_heap s ! i) = None"
    using store_okD(3,4) [OF assms(1) j(1)] by (auto simp: settled_well_def split: if_splits)
  then show ?thesis by (cases r) (simp_all add: finish_attempt_def Let_def await_attempt_def)
qed

lemma empty_store_ok: "store_ok (empty_store n)" "view (empty_store n) = (\<lambda>_. None)"
  by (simp_all add: store_ok_def empty_store_def view_def fun_eq_iff)

end
