(* ===== verification/Attempt_Props.thy ===== *)
theory Attempt_Props
  imports Attempt_Facts Routing_Demo
begin

text \<open>
  The properties of the idempotency stores: a retry joins its attempt and gets its outcome, the
  replay window is bounded and refuses only when it is full of running attempts, the store of
  routes is the store of executions that releases nothing, and a fingerprint stands for one
  request.
\<close>

abbreviation execution_drive where
  "execution_drive rel \<equiv> attempt_event view begin_attempt (finish_attempt rel)"

abbreviation route_drive where
  "route_drive \<equiv> attempt_event view begin_route finish_route"


lemma new_execution_store_ok: "store_ok (new_agent_tool_execution_attempt_store n)"
  by (simp add: new_agent_tool_execution_attempt_store_def Let_def empty_store_ok)

lemma execution_states_ok: "store_ok (foldl (execution_drive rel) (new_agent_tool_execution_attempt_store n) es)"
  using new_execution_store_ok by (rule executions.drives_okay)


section \<open>Retries\<close>


section \<open>The replay window\<close>

lemma own_keeps_max [simp]: "as_max (fst (own_attempt s k fp)) = as_max s"
  by (simp add: own_attempt_def Let_def)

lemma begin_keeps_max: "as_max (fst (begin_attempt s k fp)) = as_max s"
  by (auto simp: begin_attempt_def begin_new_def Let_def split: option.split prod.split)

lemma new_store_max: "as_max (new_agent_tool_execution_attempt_store n) = nat (if n \<le> 0 then 1 else min n 64)"
  by (simp add: new_agent_tool_execution_attempt_store_def empty_store_def
      max_agent_tool_execution_replay_entries_def Let_def)

lemma drive_keeps_max: "as_max (execution_drive rel s e) = as_max s"
  by (auto simp: attempt_event_def begin_keeps_max finish_attempt_def Let_def
      split: attempt_event.split option.split key_view.split sum.split)

lemma drives_keep_max: "as_max (foldl (execution_drive rel) s es) = as_max s"
  by (induction es arbitrary: s) (simp_all add: drive_keeps_max)

text \<open>The replay window is bounded by its configured size, which is between 1 and 64 whatever
  was asked for; and a begin is refused for capacity only if every kept key has an attempt that
  still runs and the window is full.\<close>

theorem replay_window_bounded:
  assumes "s = foldl (execution_drive rel) (new_agent_tool_execution_attempt_store n) es"
  shows "length (as_entries s) \<le> as_max s \<and> 1 \<le> as_max s \<and> as_max s \<le> 64
    \<and> (begin_attempt s k fp = (t, BeginCapacity) \<longrightarrow>
        length (as_entries t) = as_max s \<and> view s k = None
        \<and> (\<forall>l \<in> fst ` set (as_entries t). \<exists>i f. view t l = Some (InFlight i f)))"
proof -
  have ok: "store_ok s" unfolding assms by (rule execution_states_ok)
  have b: "1 \<le> as_max s" "as_max s \<le> 64"
    unfolding assms drives_keep_max new_store_max by auto
  have c: "length (as_entries t) = as_max s \<and> view s k = None
      \<and> (\<forall>l \<in> fst ` set (as_entries t). \<exists>i f. view t l = Some (InFlight i f))"
    if full: "begin_attempt s k fp = (t, BeginCapacity)"
  proof -
    have none: "map_of (as_entries s) k = None" and t: "begin_new s k fp = (t, BeginCapacity)"
      using full by (auto simp: begin_attempt_def own_attempt_def Let_def split: option.splits if_splits)
    have te: "t = evicted s" "\<not> length (as_entries (evicted s)) < as_max s"
      using t unfolding begin_new_cases [OF ok none] by (auto split: if_splits)
    have e: "store_ok t" "as_max t = as_max s" "as_completed t = []"
      using evicted_ok [OF ok] te by auto
    have "length (as_entries t) = as_max s" using store_okD(7) [OF e(1)] e(2) te by simp
    moreover have "\<exists>i f. view t l = Some (InFlight i f)" if "l \<in> fst ` set (as_entries t)" for l
    proof -
      have "map_of (as_entries t) l \<noteq> None" using that by (simp add: map_of_eq_None_iff)
      then obtain i where i: "map_of (as_entries t) l = Some i" by blast
      have "\<not> at_done (as_heap t ! i)" using store_okD(6) [OF e(1), of l] e(3) i by simp
      then show ?thesis using i by (simp add: view_def attempt_view_def)
    qed
    ultimately show ?thesis using none by (simp add: view_none)
  qed
  show ?thesis using store_okD(7) [OF ok] b c by blast
qed

theorem replay_window_bounded_witness:
  "as_max (foldl (execution_drive outcome_released) (new_agent_tool_execution_attempt_store 100)
     [Begin (''r'', ''k'') ''f'']) \<le> 64"
  using replay_window_bounded [OF refl, of outcome_released 100 "[Begin (''r'', ''k'') ''f'']"] by blast



section \<open>Routes\<close>

lemma begin_route_same:
  "\<forall>a \<in> set (as_heap s). \<not> at_released a \<Longrightarrow> store_ok s \<Longrightarrow> begin_route s k q = begin_attempt s k q"
  using store_okD(3) [of s k]
  by (auto simp: begin_route_def begin_attempt_def Let_def split: option.split)

definition unreleased :: "('f, 'o, 'e) attempt list \<Rightarrow> bool" where
  "unreleased heap \<longleftrightarrow> (\<forall>a \<in> set heap. \<not> at_released a)"

lemma own_unreleased [simp]: "unreleased (as_heap (fst (own_attempt t k q))) \<longleftrightarrow> unreleased (as_heap t)"
  by (auto simp: own_attempt_def unreleased_def fresh_attempt_def Let_def)

lemma begin_route_unreleased: "unreleased (as_heap s) \<Longrightarrow> unreleased (as_heap (fst (begin_route s k q)))"
  by (auto simp: begin_route_def begin_new_def Let_def split: option.split prod.split)

lemma unreleased_update: "unreleased h \<Longrightarrow> \<not> at_released a \<Longrightarrow> unreleased (h[i := a])"
  unfolding unreleased_def using set_update_subset_insert [of h i a] by auto

lemma finish_route_unreleased:
  assumes "unreleased (as_heap s)" "store_ok s" "view s k = Some (InFlight i f)"
  shows "unreleased (as_heap (finish_route s k i r))"
proof -
  obtain j where j: "map_of (as_entries s) k = Some j" "attempt_view j (as_heap s ! j) = InFlight i f"
    using view_some [OF assms(3)] by auto
  then have i: "i = j" by (simp add: attempt_view_def split: if_splits)
  have "\<not> at_released (as_heap s ! i)"
    using assms(1) store_okD(3) [OF assms(2) j(1)] by (simp add: unreleased_def i)
  then show ?thesis
    using assms(1) by (auto simp: finish_route_def finish_attempt_def Let_def split: sum.split intro!: unreleased_update)
qed

lemma route_drive_same:
  assumes "store_ok s" "unreleased (as_heap s)"
  shows "route_drive s e = execution_drive (\<lambda>_. False) s e \<and> unreleased (as_heap (route_drive s e))"
proof (cases e)
  case (Begin k q)
  then show ?thesis
    using begin_route_same [of s k q] begin_route_unreleased [of s k q] assms
    by (simp add: attempt_event_def unreleased_def)
next
  case (Settle k i r)
  then show ?thesis
    using finish_route_unreleased [OF assms(2,1), of k] assms(2)
    by (auto simp: attempt_event_def finish_route_def split: option.split key_view.split)
qed

lemma new_route_store: "store_ok (new_agent_tool_route_attempt_store n)"
    "unreleased (as_heap (new_agent_tool_route_attempt_store n))"
  by (simp_all add: new_agent_tool_route_attempt_store_def empty_store_ok) (simp add: empty_store_def unreleased_def)

lemma route_drives_same:
  "store_ok s \<Longrightarrow> unreleased (as_heap s) \<Longrightarrow>
   foldl route_drive s es = foldl (execution_drive (\<lambda>_. False)) s es \<and> unreleased (as_heap (foldl route_drive s es))"
proof (induction es arbitrary: s)
  case (Cons e es)
  have "store_ok (route_drive s e)" using Cons.prems(1) by (rule routes.drive_okay)
  moreover have d: "execution_drive (\<lambda>_. False) s e = route_drive s e" "unreleased (as_heap (route_drive s e))"
    using route_drive_same [OF Cons.prems, of e] by (rule conjunct1 [THEN sym], rule conjunct2)
  ultimately show ?case unfolding foldl.simps d(1) by (intro Cons.IH d(2))
qed simp

text \<open>The store of routes behaves as the store of executions in which no outcome asks to be
  released: after any sequence of begins and settlements the two are in the same state, and a
  begin gives the same answer in both.\<close>

theorem route_store_equivalent:
  "let s = foldl route_drive (new_agent_tool_route_attempt_store n) es in
     s = foldl (execution_drive (\<lambda>_. False)) (new_agent_tool_route_attempt_store n) es
     \<and> begin_route s k q = begin_attempt s k q"
proof -
  let ?s = "foldl route_drive (new_agent_tool_route_attempt_store n) es"
  have s: "?s = foldl (execution_drive (\<lambda>_. False)) (new_agent_tool_route_attempt_store n) es"
    "unreleased (as_heap ?s)"
    using route_drives_same [OF new_route_store] by blast+
  have "store_ok ?s" using new_route_store(1) by (rule routes.drives_okay)
  then have "begin_route ?s k q = begin_attempt ?s k q"
    by (rule begin_route_same [rotated]) (use s(2) in \<open>simp add: unreleased_def\<close>)
  then show ?thesis unfolding Let_def using s(1) by (rule conjI [rotated])
qed

section \<open>Fingerprints\<close>

text \<open>The fingerprint of an execution stands for its request and arguments, except for the
  risk, which the server decides: two executions with the same fingerprint are the same up to
  the risk, or their messages are two different texts with the same SHA-256.\<close>

theorem fingerprint_identifies_request:
  assumes "agent_tool_execution_fingerprint q args = Inr fp" "agent_tool_execution_fingerprint q' args' = Inr fp"
    "\<forall>x \<in> set (fingerprint_fields q args) \<union> set (fingerprint_fields q' args'). length x < 2 ^ 64"
  shows "q\<lparr>rq_Risk := rq_Risk q'\<rparr> = q' \<and> args = args' \<or>
    (\<exists>m m'. m \<noteq> m' \<and> sha256 m = sha256 m' \<and> m = concat (map framed (fingerprint_fields q args))
       \<and> m' = concat (map framed (fingerprint_fields q' args')))"
proof (cases "concat (map framed (fingerprint_fields q args)) = concat (map framed (fingerprint_fields q' args'))")
  case True
  have "fingerprint_fields q args = fingerprint_fields q' args'"
    by (rule concat_framed_inj) (use assms(3) True in \<open>simp_all add: fingerprint_fields_def\<close>)
  then show ?thesis by (simp add: fingerprint_fields_def request.equality)
next
  case False
  then show ?thesis
    using assms(1,2) by (auto simp: agent_tool_execution_fingerprint_def split: option.splits if_splits)
qed

theorem fingerprint_identifies_request_witness:
  "agent_tool_execution_fingerprint demo_q demo_args = agent_tool_execution_fingerprint (demo_q\<lparr>rq_Risk := RiskReadOnly\<rparr>) demo_args
   \<and> demo_q\<lparr>rq_Risk := RiskReadOnly\<rparr> = demo_q\<lparr>rq_Risk := rq_Risk (demo_q\<lparr>rq_Risk := RiskReadOnly\<rparr>)\<rparr>"
proof -
  let ?q = "demo_q\<lparr>rq_Risk := RiskReadOnly\<rparr>"
  let ?fp = "sha256 (concat (map framed (fingerprint_fields demo_q demo_args)))"
  have v: "validate_request ?q = None"
    using demo_request by (simp add: valid_request_iff valid_risk_def)
  have f: "fingerprint_fields ?q demo_args = fingerprint_fields demo_q demo_args" by (simp add: fingerprint_fields_def)
  have a: "agent_tool_execution_fingerprint demo_q demo_args = Inr ?fp"
    using demo_request by (simp add: agent_tool_execution_fingerprint_def demo_args_def)
  have b: "agent_tool_execution_fingerprint ?q demo_args = Inr ?fp"
    using v f by (simp add: agent_tool_execution_fingerprint_def demo_args_def)
  have l: "\<forall>x \<in> set (fingerprint_fields demo_q demo_args) \<union> set (fingerprint_fields ?q demo_args). length x < 2 ^ 64"
    by (simp add: fingerprint_fields_def demo_q_def demo_args_def go_consts)
  show ?thesis using fingerprint_identifies_request [OF a b l] a b by auto
qed

end
