(* ===== verification/Agent_Tools.thy ===== *)
theory Agent_Tools
  imports Go_Json "HOL-Library.AList" "HOL-Library.Multiset"
begin

text \<open>
  The tool registry and runner of \<open>internal/ai/tools/tools.go\<close>.

  A handler acts on a world \<open>'w\<close> (files, programs, the network), so it is a function from the
  world and the raw arguments to a result and a new world. The value a handler returns is
  represented by what \<open>json.Marshal\<close> makes of it, its only use: an encoding or an error.
  The registry is an association list with distinct keys, in the order a \<open>range\<close> visits it.
\<close>

section \<open>Data\<close>

record tool_definition =
  td_Name :: string
  td_Description :: string
  td_Schema :: string

datatype handler_error = Aborted | Failed string

datatype tool_content = ErrorMap string | Value "string + string"

record 'w tool =
  tool_Def :: tool_definition
  tool_Handler :: "'w \<Rightarrow> string \<Rightarrow> (handler_error + (string + string)) \<times> 'w"

type_synonym 'w tool_registry = "(string \<times> 'w tool) list"

record tool_call =
  tc_ID :: string
  tc_Name :: string
  tc_Args :: string

record tool_result =
  tr_CallID :: string
  tr_Content :: tool_content
  tr_IsError :: bool

datatype runner_error = ErrRegistryNil | ErrAbort | ErrRunnerNotConfigured

definition new_tool ::
  "string \<Rightarrow> string \<Rightarrow> string \<Rightarrow> ('w \<Rightarrow> string \<Rightarrow> (handler_error + (string + string)) \<times> 'w) \<Rightarrow> 'w tool" where
  "new_tool name description schema handler =
     \<lparr>tool_Def = \<lparr>td_Name = name, td_Description = description, td_Schema = schema\<rparr>,
      tool_Handler = handler\<rparr>"

section \<open>Registry\<close>

definition new_registry :: "'w tool_registry" where
  "new_registry = []"

definition register_tool :: "'w tool_registry \<Rightarrow> 'w tool \<Rightarrow> 'w tool_registry" where
  "register_tool reg t = AList.update (td_Name (tool_Def t)) t reg"

definition lookup_tool :: "'w tool_registry \<Rightarrow> string \<Rightarrow> 'w tool option" where
  "lookup_tool reg name = map_of reg name"

definition tool_definitions :: "'w tool_registry \<Rightarrow> tool_definition list" where
  "tool_definitions reg = sort_key td_Name (map (\<lambda>(n, t). tool_Def t) reg)"

definition tool_names :: "'w tool_registry \<Rightarrow> string list" where
  "tool_names reg = sort (map fst reg)"

section \<open>Runner\<close>

record 'w tool_runner =
  rn_Registry :: "'w tool_registry option"
  rn_MaxIterations :: int

definition unknown_tool :: "string \<Rightarrow> string" where
  "unknown_tool name = ''unknown tool: '' @ name"

fun run_calls ::
  "'w tool_registry \<Rightarrow> tool_call list \<Rightarrow> tool_result list \<Rightarrow> 'w \<Rightarrow> (tool_result list \<times> runner_error option) \<times> 'w" where
  "run_calls reg [] rs w = ((rs, None), w)"
| "run_calls reg (c # cs) rs w =
     (case lookup_tool reg (tc_Name c) of
        None \<Rightarrow>
          run_calls reg cs (rs @ [\<lparr>tr_CallID = tc_ID c, tr_Content = ErrorMap (unknown_tool (tc_Name c)),
            tr_IsError = True\<rparr>]) w
      | Some t \<Rightarrow>
          (case tool_Handler t w (tc_Args c) of
             (Inl Aborted, w') \<Rightarrow> ((rs, Some ErrAbort), w')
           | (Inl (Failed e), w') \<Rightarrow>
               run_calls reg cs (rs @ [\<lparr>tr_CallID = tc_ID c, tr_Content = ErrorMap e, tr_IsError = True\<rparr>]) w'
           | (Inr v, w') \<Rightarrow>
               run_calls reg cs (rs @ [\<lparr>tr_CallID = tc_ID c, tr_Content = Value v, tr_IsError = False\<rparr>]) w'))"

definition limited_calls :: "int \<Rightarrow> tool_call list \<Rightarrow> tool_call list" where
  "limited_calls m cs = (if 0 < m \<and> m < int (length cs) then take (nat m) cs else cs)"

definition run_tools ::
  "'w tool_runner \<Rightarrow> tool_call list \<Rightarrow> 'w \<Rightarrow> (tool_result list \<times> runner_error option) \<times> 'w" where
  "run_tools r cs w =
     (case rn_Registry r of
        None \<Rightarrow> (([], Some ErrRegistryNil), w)
      | Some reg \<Rightarrow> run_calls reg (limited_calls (rn_MaxIterations r) cs) [] w)"

section \<open>Facts on the registry\<close>

definition registry_ok :: "'w tool_registry \<Rightarrow> bool" where
  "registry_ok reg \<longleftrightarrow> distinct (map fst reg) \<and> (\<forall>(n, t) \<in> set reg. td_Name (tool_Def t) = n)"

lemma new_registry_ok [simp]: "registry_ok new_registry"
  by (simp add: registry_ok_def new_registry_def)

lemma set_alist_update: "set (AList.update k v xs) \<subseteq> insert (k, v) (set xs)"
  by (induction xs) auto

lemma register_ok: "registry_ok reg \<Longrightarrow> registry_ok (register_tool reg t)"
  using set_alist_update [of "td_Name (tool_Def t)" t reg]
  by (auto simp: registry_ok_def register_tool_def distinct_update)

lemma lookup_register [simp]:
  "lookup_tool (register_tool reg t) n = (if n = td_Name (tool_Def t) then Some t else lookup_tool reg n)"
  by (simp add: lookup_tool_def register_tool_def update_conv)

lemma lookup_new [simp]: "lookup_tool new_registry n = None"
  by (simp add: lookup_tool_def new_registry_def)

lemma lookup_in: "lookup_tool reg n = Some t \<Longrightarrow> (n, t) \<in> set reg"
  by (simp add: lookup_tool_def map_of_SomeD)

lemma lookup_name: "registry_ok reg \<Longrightarrow> lookup_tool reg n = Some t \<Longrightarrow> td_Name (tool_Def t) = n"
  using lookup_in by (fastforce simp: registry_ok_def)

lemma set_definitions: "set (tool_definitions reg) = tool_Def ` snd ` set reg"
  by (auto simp: tool_definitions_def image_image case_prod_beta)

lemma lookup_iff: "registry_ok reg \<Longrightarrow> lookup_tool reg n = Some t \<longleftrightarrow> (n, t) \<in> set reg"
  by (simp add: lookup_tool_def registry_ok_def map_of_eq_Some_iff)

lemma in_definitions:
  assumes "registry_ok reg"
  shows "d \<in> set (tool_definitions reg) \<longleftrightarrow> (\<exists>t. lookup_tool reg (td_Name d) = Some t \<and> tool_Def t = d)"
proof -
  have "(\<exists>n t. (n, t) \<in> set reg \<and> tool_Def t = d) \<longleftrightarrow> (\<exists>t. (td_Name d, t) \<in> set reg \<and> tool_Def t = d)"
    using assms by (auto simp: registry_ok_def)
  moreover have "d \<in> set (tool_definitions reg) \<longleftrightarrow> (\<exists>n t. (n, t) \<in> set reg \<and> tool_Def t = d)"
    by (force simp: set_definitions)
  ultimately show ?thesis using assms by (simp add: lookup_iff)
qed

lemma names_of_definitions: "registry_ok reg \<Longrightarrow> map td_Name (tool_definitions reg) = tool_names reg"
proof -
  assume ok: "registry_ok reg"
  have "map td_Name (map (\<lambda>(n, t). tool_Def t) reg) = map fst reg"
    using ok by (auto simp: registry_ok_def)
  moreover have "map td_Name (sort_key td_Name xs) = sort (map td_Name xs)" for xs :: "tool_definition list"
    by (rule properties_for_sort [symmetric]) (simp_all add: mset_map)
  ultimately show ?thesis by (simp only: tool_definitions_def tool_names_def)
qed

lemma distinct_names: "registry_ok reg \<Longrightarrow> distinct (map td_Name (tool_definitions reg))"
  by (simp add: names_of_definitions) (simp add: tool_names_def registry_ok_def)

section \<open>Facts on the runner\<close>

lemma run_calls_acc:
  "run_calls reg cs rs w = (case run_calls reg cs [] w of ((qs, e), w') \<Rightarrow> ((rs @ qs, e), w'))"
proof (induction cs arbitrary: rs w)
  case (Cons c cs)
  show ?case
    by (subst (1 2) run_calls.simps, subst (1 2 3 4 5 6) Cons.IH)
      (auto split: option.splits sum.splits handler_error.splits prod.splits)
qed simp

text \<open>A finished batch answers every call, in order; a stopped one the calls before the stop.\<close>

lemma run_calls_ids:
  "run_calls reg cs [] w = ((rs, e), w') \<Longrightarrow>
     (if e = None then map tr_CallID rs = map tc_ID cs else prefix (map tr_CallID rs) (map tc_ID cs))"
proof (induction cs arbitrary: rs w)
  case (Cons c cs)
  from Cons.prems show ?case
    by (subst (asm) run_calls.simps, subst (asm) (1 2 3) run_calls_acc)
      (auto split: option.splits sum.splits handler_error.splits prod.splits if_splits dest!: Cons.IH)
qed simp

lemma run_calls_preserves:
  assumes "\<And>n t w args. lookup_tool reg n = Some t \<Longrightarrow> P w \<Longrightarrow> P (snd (tool_Handler t w args))" "P w"
  shows "P (snd (run_calls reg cs rs w))"
  using assms(2)
proof (induction cs arbitrary: rs w)
  case (Cons c cs)
  show ?case
  proof (cases "lookup_tool reg (tc_Name c)")
    case None
    then show ?thesis using Cons by simp
  next
    case (Some t)
    then have "P (snd (tool_Handler t w (tc_Args c)))" using assms(1) Cons.prems by blast
    then show ?thesis using Some Cons.IH
      by (auto split: sum.splits handler_error.splits prod.splits)
  qed
qed simp

lemma length_limited_calls: "0 < m \<Longrightarrow> int (length (limited_calls m cs)) \<le> m"
  by (auto simp: limited_calls_def)

lemma limited_calls_take: "limited_calls m cs = take (if 0 < m then nat m else length cs) cs"
  by (auto simp: limited_calls_def)

end
