(* ===== verification/Json_Valid.thy ===== *)
theory Json_Valid
  imports Go_Json
begin

text \<open>
  The check of \<open>encoding/json\<close> that a text is one JSON value: \<open>json.Marshal\<close> makes it of every
  \<open>json.RawMessage\<close> it copies. As in the scanner of the package the containers that are open are a
  stack, at most 10000 deep. The bytes of a string need not be valid UTF-8.
\<close>

section \<open>Numbers and strings\<close>

definition json_digit :: "char \<Rightarrow> bool" where
  "json_digit c \<longleftrightarrow> 48 \<le> (of_char c :: nat) \<and> (of_char c :: nat) \<le> 57"

definition json_hex :: "char \<Rightarrow> bool" where
  "json_hex c \<longleftrightarrow> json_digit c \<or> c \<in> set ''abcdefABCDEF''"

definition json_space :: "char \<Rightarrow> bool" where
  "json_space c \<longleftrightarrow> c = CHR '' '' \<or> c = CHR 0x09 \<or> c = CHR 0x0A \<or> c = CHR 0x0D"

definition scan_digits :: "string \<Rightarrow> string option" where
  "scan_digits s = (case s of [] \<Rightarrow> None | c # r \<Rightarrow> if json_digit c then Some (dropWhile json_digit r) else None)"

definition scan_fraction :: "string \<Rightarrow> string option" where
  "scan_fraction s = (case s of [] \<Rightarrow> Some [] | c # r \<Rightarrow> if c = CHR ''.'' then scan_digits r else Some s)"

definition scan_exponent :: "string \<Rightarrow> string option" where
  "scan_exponent s =
     (case s of
        [] \<Rightarrow> Some []
      | c # r \<Rightarrow>
          if c = CHR ''e'' \<or> c = CHR ''E'' then
            scan_digits (case r of [] \<Rightarrow> [] | d # r' \<Rightarrow> if d = CHR ''+'' \<or> d = CHR ''-'' then r' else r)
          else Some s)"

definition scan_number :: "string \<Rightarrow> string option" where
  "scan_number s0 =
     (let s = (case s0 of [] \<Rightarrow> [] | c # r \<Rightarrow> if c = CHR ''-'' then r else s0) in
      case s of
        [] \<Rightarrow> None
      | c # r \<Rightarrow>
          (case (if c = CHR ''0'' then Some r else scan_digits s) of
             None \<Rightarrow> None
           | Some r1 \<Rightarrow> (case scan_fraction r1 of None \<Rightarrow> None | Some r2 \<Rightarrow> scan_exponent r2)))"

text \<open>What follows the closing quote of a string.\<close>

fun scan_string :: "string \<Rightarrow> string option" where
  "scan_string [] = None"
| "scan_string (c # r) =
     (if c = CHR 0x22 then Some r
      else if (of_char c :: nat) < 32 then None
      else if c \<noteq> CHR 0x5C then scan_string r
      else case r of
        [] \<Rightarrow> None
      | e # r1 \<Rightarrow>
          if e = CHR ''u'' then
            (case r1 of
               h1 # h2 # h3 # h4 # r2 \<Rightarrow> if list_all json_hex [h1, h2, h3, h4] then scan_string r2 else None
             | _ \<Rightarrow> None)
          else if e \<in> set [CHR 0x22, CHR 0x5C, CHR ''/'', CHR ''b'', CHR ''f'', CHR ''n'', CHR ''r'', CHR ''t'']
          then scan_string r1 else None)"

section \<open>Values\<close>

datatype json_context = InArray | InObject

datatype json_state = BeginValue | BeginValueOrEnd | BeginKey | BeginKeyOrEnd | AfterValue

definition json_depth :: nat where "json_depth = 10000"

lemma dropWhile_shrinks [simp]: "length (dropWhile P s) \<le> length s"
  by (simp add: length_dropWhile_le)

lemma digits_shrink: "scan_digits s = Some r \<Longrightarrow> length r < length s"
  by (auto simp: scan_digits_def le_imp_less_Suc split: list.splits if_splits)

lemma fraction_shrinks: "scan_fraction s = Some r \<Longrightarrow> length r \<le> length s"
  by (auto simp: scan_fraction_def split: list.splits if_splits dest: digits_shrink)

lemma exponent_shrinks: "scan_exponent s = Some r \<Longrightarrow> length r \<le> length s"
  by (auto simp: scan_exponent_def split: list.splits if_splits dest!: digits_shrink)

lemma number_shrinks: "scan_number s = Some r \<Longrightarrow> length r < length s"
  by (auto simp: scan_number_def Let_def split: list.splits if_splits option.splits
      dest!: digits_shrink fraction_shrinks exponent_shrinks)

lemma string_shrinks: "scan_string s = Some r \<Longrightarrow> length r < length s"
  by (induction s rule: scan_string.induct) (auto split: list.splits if_splits, meson less_SucI)

lemma space_shrinks: "dropWhile json_space s = c # r \<Longrightarrow> length r < length s"
  using length_dropWhile_le [of json_space s] by simp

function json_scan :: "json_context list \<Rightarrow> json_state \<Rightarrow> string \<Rightarrow> bool" where
  "json_scan st m s =
     (case dropWhile json_space s of
        [] \<Rightarrow> m = AfterValue \<and> st = []
      | c # r \<Rightarrow>
          if m = AfterValue then
            (case st of
               [] \<Rightarrow> False
             | InArray # st' \<Rightarrow>
                 if c = CHR '','' then json_scan st BeginValue r
                 else c = CHR '']'' \<and> json_scan st' AfterValue r
             | InObject # st' \<Rightarrow>
                 if c = CHR '','' then json_scan st BeginKey r
                 else c = CHR ''}'' \<and> json_scan st' AfterValue r)
          else if m = BeginKeyOrEnd \<and> c = CHR ''}'' \<or> m = BeginValueOrEnd \<and> c = CHR '']'' then
            json_scan (drop 1 st) AfterValue r
          else if m = BeginKey \<or> m = BeginKeyOrEnd then
            c = CHR 0x22 \<and>
            (case scan_string r of
               None \<Rightarrow> False
             | Some r1 \<Rightarrow>
                 (case dropWhile json_space r1 of
                    [] \<Rightarrow> False
                  | d # r2 \<Rightarrow> d = CHR '':'' \<and> json_scan st BeginValue r2))
          else if c = CHR ''['' then length st < json_depth \<and> json_scan (InArray # st) BeginValueOrEnd r
          else if c = CHR ''{'' then length st < json_depth \<and> json_scan (InObject # st) BeginKeyOrEnd r
          else if c = CHR 0x22 then (case scan_string r of None \<Rightarrow> False | Some r1 \<Rightarrow> json_scan st AfterValue r1)
          else if c = CHR ''t'' then has_prefix r ''rue'' \<and> json_scan st AfterValue (drop 3 r)
          else if c = CHR ''f'' then has_prefix r ''alse'' \<and> json_scan st AfterValue (drop 4 r)
          else if c = CHR ''n'' then has_prefix r ''ull'' \<and> json_scan st AfterValue (drop 3 r)
          else (case scan_number (c # r) of None \<Rightarrow> False | Some r1 \<Rightarrow> json_scan st AfterValue r1))"
  by auto
termination
  by (relation "measure (\<lambda>(st, m, s). length s)")
    (auto dest!: space_shrinks string_shrinks number_shrinks)

declare json_scan.simps [simp del]

definition json_valid :: "string \<Rightarrow> bool" where
  "json_valid s \<longleftrightarrow> json_scan [] BeginValue s"

end
