(* ===== verification/Agent_Loop.thy ===== *)
theory Agent_Loop
  imports Agent_Tools Json_Valid
begin

text \<open>
  The tool-use loop of \<open>internal/ai/providers/anthropic_tooluse.go\<close> and the adapter of
  \<open>internal/ai/agent/agent.go\<close> that lets it run the tools of \<open>Agent_Tools\<close>.

  The field \<open>client\<close> stands for one round trip: building the HTTP request, \<open>Do\<close> and reading the
  body; it acts on the same world as the handlers. \<open>decode\<close> is \<open>json.Unmarshal\<close> into
  \<open>anthropicToolLoopResponse\<close>. The temperature is carried as text.
\<close>

section \<open>Data\<close>

record provider_definition =
  pd_Name :: string
  pd_Description :: string
  pd_InputSchema :: string

record provider_call =
  pc_ID :: string
  pc_Name :: string
  pc_Args :: string

record provider_result =
  pt_CallID :: string
  pt_Content :: tool_content
  pt_IsError :: bool

type_synonym 'w provider_runner =
  "provider_call list \<Rightarrow> 'w \<Rightarrow> (provider_result list \<times> runner_error option) \<times> 'w"

record 'w loop_request =
  lq_System :: string
  lq_User :: string
  lq_Temperature :: string
  lq_MaxTokens :: int
  lq_Tools :: "provider_definition list"
  lq_Runner :: "'w provider_runner option"
  lq_MaxTurns :: int

record wire_tool =
  wt_Name :: string
  wt_Description :: string
  wt_InputSchema :: string

record content_block =
  cb_Type :: string
  cb_Text :: string
  cb_ID :: string
  cb_Name :: string
  cb_Input :: string
  cb_ToolUseID :: string
  cb_Content :: string
  cb_IsError :: bool

record wire_turn =
  tu_Role :: string
  tu_Content :: "content_block list"

record wire_request =
  wr_Model :: string
  wr_System :: string
  wr_Messages :: "wire_turn list"
  wr_Tools :: "wire_tool list"
  wr_MaxTokens :: int
  wr_Temperature :: string

record wire_response =
  ws_Content :: "content_block list"
  ws_StopReason :: string
  ws_Error :: "string option"

record http_request =
  hr_Endpoint :: string
  hr_APIKey :: string
  hr_APIVersion :: string
  hr_Body :: "wire_request option"

datatype http_outcome =
    RequestInvalid string
  | TransportFailed string
  | ReadFailed string
  | Response nat string

record 'w anthropic =
  an_endpoint :: string
  an_model :: string
  an_apiKey :: string
  an_apiVersion :: string
  an_client :: "'w \<Rightarrow> http_request \<Rightarrow> http_outcome \<times> 'w"

datatype loop_error =
    LoopRunnerNil
  | LoopRequest string
  | LoopTransport string
  | LoopRead string
  | LoopStatus nat string
  | LoopDecode string
  | LoopAPI string
  | LoopRunner runner_error
  | LoopMaxTurns int

section \<open>The adapter\<close>

definition adapt :: "'w tool_runner option \<Rightarrow> 'w provider_runner" where
  "adapt inner calls w =
     (case inner of
        None \<Rightarrow> (([], Some ErrRunnerNotConfigured), w)
      | Some r \<Rightarrow>
          (case run_tools r (map (\<lambda>c. \<lparr>tc_ID = pc_ID c, tc_Name = pc_Name c, tc_Args = pc_Args c\<rparr>) calls) w of
             ((results, err), w') \<Rightarrow>
               ((map (\<lambda>x. \<lparr>pt_CallID = tr_CallID x, pt_Content = tr_Content x, pt_IsError = tr_IsError x\<rparr>) results,
                 err), w')))"

definition definitions_from_tools :: "tool_definition list \<Rightarrow> provider_definition list" where
  "definitions_from_tools ds =
     map (\<lambda>d. \<lparr>pd_Name = td_Name d, pd_Description = td_Description d, pd_InputSchema = td_Schema d\<rparr>) ds"

section \<open>One round trip\<close>

definition status_error :: "(string \<Rightarrow> string + wire_response) \<Rightarrow> nat \<Rightarrow> string \<Rightarrow> loop_error" where
  "status_error decode status body =
     (case decode body of
        Inr r \<Rightarrow> (case ws_Error r of Some m \<Rightarrow> LoopStatus status m | None \<Rightarrow> LoopStatus status [])
      | Inl _ \<Rightarrow> LoopStatus status [])"

definition read_response ::
  "(string \<Rightarrow> string + wire_response) \<Rightarrow> http_outcome \<Rightarrow> loop_error + wire_response" where
  "read_response decode x =
     (case x of
        RequestInvalid e \<Rightarrow> Inl (LoopRequest e)
      | TransportFailed e \<Rightarrow> Inl (LoopTransport e)
      | ReadFailed e \<Rightarrow> Inl (LoopRead e)
      | Response status body \<Rightarrow>
          if status < 200 \<or> 300 \<le> status then Inl (status_error decode status body)
          else case decode body of
            Inl e \<Rightarrow> Inl (LoopDecode e)
          | Inr r \<Rightarrow> (case ws_Error r of Some m \<Rightarrow> Inl (LoopAPI m) | None \<Rightarrow> Inr r))"

text \<open>The body is the request as JSON. The error of \<open>json.Marshal\<close> is ignored: when a schema or the input
  of a tool call is no JSON, or the temperature no number, the body is empty.\<close>

definition wire_valid :: "wire_request \<Rightarrow> bool" where
  "wire_valid r \<longleftrightarrow>
     list_all (\<lambda>t. json_valid (wt_InputSchema t)) (wr_Tools r)
     \<and> list_all (\<lambda>m. list_all (\<lambda>b. cb_Input b = [] \<or> json_valid (cb_Input b)) (tu_Content m)) (wr_Messages r)
     \<and> wr_Temperature r \<notin> set [''NaN'', ''+Inf'', ''-Inf'']"

definition wire_body :: "wire_request \<Rightarrow> wire_request option" where
  "wire_body r = (if wire_valid r then Some r else None)"

definition call_messages ::
  "(string \<Rightarrow> string + wire_response) \<Rightarrow> 'w anthropic \<Rightarrow> wire_turn list \<Rightarrow> wire_tool list \<Rightarrow> string \<Rightarrow> string \<Rightarrow> int
   \<Rightarrow> 'w \<Rightarrow> (loop_error + wire_response) \<times> 'w" where
  "call_messages decode p messages tools system temperature max_tokens w =
     (case an_client p w
        \<lparr>hr_Endpoint = an_endpoint p, hr_APIKey = an_apiKey p, hr_APIVersion = an_apiVersion p,
         hr_Body = wire_body \<lparr>wr_Model = an_model p, wr_System = system, wr_Messages = messages, wr_Tools = tools,
           wr_MaxTokens = max_tokens, wr_Temperature = temperature\<rparr>\<rparr> of
        (x, w') \<Rightarrow> (read_response decode x, w'))"

section \<open>The loop\<close>

definition concat_text :: "content_block list \<Rightarrow> string" where
  "concat_text bs = concat (map cb_Text (filter (\<lambda>b. cb_Type b = ''text'') bs))"

definition tool_uses :: "content_block list \<Rightarrow> provider_call list" where
  "tool_uses bs =
     map (\<lambda>b. \<lparr>pc_ID = cb_ID b, pc_Name = cb_Name b, pc_Args = cb_Input b\<rparr>) (filter (\<lambda>b. cb_Type b = ''tool_use'') bs)"

definition error_body :: "string \<Rightarrow> string" where
  "error_body m = encode_json (JObj [(''error'', JStr m)])"

definition marshal_content :: "tool_content \<Rightarrow> string + string" where
  "marshal_content c = (case c of ErrorMap m \<Rightarrow> Inr (error_body m) | Value v \<Rightarrow> v)"

definition empty_block :: content_block where
  "empty_block = \<lparr>cb_Type = [], cb_Text = [], cb_ID = [], cb_Name = [], cb_Input = [], cb_ToolUseID = [],
     cb_Content = [], cb_IsError = False\<rparr>"

definition result_block :: "provider_result \<Rightarrow> content_block" where
  "result_block r =
     empty_block\<lparr>cb_Type := ''tool_result'', cb_ToolUseID := pt_CallID r,
       cb_Content := (case marshal_content (pt_Content r) of
          Inr body \<Rightarrow> body
        | Inl e \<Rightarrow> error_body (''failed to marshal tool result: '' @ e)),
       cb_IsError := (case marshal_content (pt_Content r) of Inr _ \<Rightarrow> pt_IsError r | Inl _ \<Rightarrow> True)\<rparr>"

definition wire_tools :: "provider_definition list \<Rightarrow> wire_tool list" where
  "wire_tools ds =
     map (\<lambda>d. \<lparr>wt_Name = pd_Name d, wt_Description = pd_Description d,
       wt_InputSchema = (if pd_InputSchema d = [] then [CHR ''{'', CHR 0x22] @ ''type'' @ [CHR 0x22] @ '':'' @ [CHR 0x22] @ ''object'' @ [CHR 0x22, CHR ''}'']
         else pd_InputSchema d)\<rparr>) ds"

definition user_turn :: "string \<Rightarrow> wire_turn" where
  "user_turn prompt = \<lparr>tu_Role = ''user'', tu_Content = [empty_block\<lparr>cb_Type := ''text'', cb_Text := prompt\<rparr>]\<rparr>"

datatype turn_outcome = Stop string "loop_error option" | Continue "wire_turn list"

text \<open>The body of the loop: one turn of the model and the tools it asks for.\<close>

definition loop_turn ::
  "(wire_turn list \<Rightarrow> 'w \<Rightarrow> (loop_error + wire_response) \<times> 'w) \<Rightarrow> 'w provider_runner \<Rightarrow> wire_turn list \<Rightarrow> 'w
   \<Rightarrow> turn_outcome \<times> 'w" where
  "loop_turn call run messages w =
     (case call messages w of
        (Inl e, w1) \<Rightarrow> (Stop [] (Some e), w1)
      | (Inr resp, w1) \<Rightarrow>
          let messages1 = messages @ [\<lparr>tu_Role = ''assistant'', tu_Content = ws_Content resp\<rparr>];
              calls = tool_uses (ws_Content resp) in
          if ws_StopReason resp = ''end_turn'' \<or> ws_StopReason resp = [] then (Stop (concat_text (ws_Content resp)) None, w1)
          else if calls = [] then (Stop (concat_text (ws_Content resp)) None, w1)
          else case run calls w1 of
            ((results, Some e), w2) \<Rightarrow> (Stop (concat_text (ws_Content resp)) (Some (LoopRunner e)), w2)
          | ((results, None), w2) \<Rightarrow>
              (Continue (messages1 @ [\<lparr>tu_Role = ''user'', tu_Content = map result_block results\<rparr>]), w2))"

fun last_assistant :: "wire_turn list \<Rightarrow> string" where
  "last_assistant [] = []"
| "last_assistant (t # ts) = (if tu_Role t = ''assistant'' then concat_text (tu_Content t) else last_assistant ts)"

function tool_turns ::
  "(wire_turn list \<Rightarrow> 'w \<Rightarrow> turn_outcome \<times> 'w) \<Rightarrow> int \<Rightarrow> int \<Rightarrow> wire_turn list \<Rightarrow> 'w
   \<Rightarrow> (string \<times> loop_error option) \<times> 'w" where
  "tool_turns body max_turns turn messages w =
     (if turn < max_turns then
        (case body messages w of
           (Stop reply e, w') \<Rightarrow> ((reply, e), w')
         | (Continue messages', w') \<Rightarrow> tool_turns body max_turns (turn + 1) messages' w')
      else ((last_assistant (rev messages), Some (LoopMaxTurns max_turns)), w))"
  by pat_completeness auto
termination
  by (relation "measure (\<lambda>(body, max_turns, turn, messages, w). nat (max_turns - turn))") auto

declare tool_turns.simps [simp del]

definition loop_max_turns :: "int \<Rightarrow> int" where
  "loop_max_turns n = (if n \<le> 0 then 8 else n)"

definition loop_max_tokens :: "int \<Rightarrow> int" where
  "loop_max_tokens n = (if n \<le> 0 then 4096 else n)"

definition run_tool_loop ::
  "(string \<Rightarrow> string + wire_response) \<Rightarrow> 'w anthropic \<Rightarrow> 'w loop_request \<Rightarrow> 'w \<Rightarrow> (string \<times> loop_error option) \<times> 'w" where
  "run_tool_loop decode p req w =
     (case lq_Runner req of
        None \<Rightarrow> (([], Some LoopRunnerNil), w)
      | Some run \<Rightarrow>
          tool_turns
            (loop_turn
              (\<lambda>messages. call_messages decode p messages (wire_tools (lq_Tools req)) (lq_System req)
                 (lq_Temperature req) (loop_max_tokens (lq_MaxTokens req))) run)
            (loop_max_turns (lq_MaxTurns req)) 0 [user_turn (lq_User req)] w)"

section \<open>What a conversation looks like\<close>

text \<open>After the prompt, assistant turns alternate with user turns that hold the results of the
  first \<open>cap\<close> tool calls of the turn before, in the order of the calls.\<close>

definition call_ids :: "wire_turn \<Rightarrow> string list" where
  "call_ids t = map cb_ID (filter (\<lambda>b. cb_Type b = ''tool_use'') (tu_Content t))"

definition answers :: "nat \<Rightarrow> wire_turn \<Rightarrow> wire_turn \<Rightarrow> bool" where
  "answers cap a u \<longleftrightarrow>
     tu_Role a = ''assistant'' \<and> call_ids a \<noteq> [] \<and> tu_Role u = ''user''
     \<and> list_all (\<lambda>b. cb_Type b = ''tool_result'') (tu_Content u)
     \<and> map cb_ToolUseID (tu_Content u) = take cap (call_ids a)"

fun exchanges :: "nat \<Rightarrow> wire_turn list \<Rightarrow> bool" where
  "exchanges cap [] = True"
| "exchanges cap [a] = False"
| "exchanges cap (a # u # ts) = (answers cap a u \<and> exchanges cap ts)"

definition conversation :: "nat \<Rightarrow> string \<Rightarrow> wire_turn list \<Rightarrow> bool" where
  "conversation cap prompt ts \<longleftrightarrow> (\<exists>es. ts = user_turn prompt # es \<and> exchanges cap es)"

lemma exchanges_append: "exchanges cap es \<Longrightarrow> answers cap a u \<Longrightarrow> exchanges cap (es @ [a, u])"
  by (induction cap es rule: exchanges.induct) auto

lemma conversation_start [simp]: "conversation cap prompt [user_turn prompt]"
  by (simp add: conversation_def)

lemma conversation_append:
  "conversation cap prompt ts \<Longrightarrow> answers cap a u \<Longrightarrow> conversation cap prompt (ts @ [a, u])"
  by (auto simp: conversation_def exchanges_append)

lemma call_ids_tool_uses: "call_ids \<lparr>tu_Role = r, tu_Content = bs\<rparr> = map pc_ID (tool_uses bs)"
  by (simp add: call_ids_def tool_uses_def)

lemma result_block_id [simp]: "cb_ToolUseID (result_block r) = pt_CallID r" "cb_Type (result_block r) = ''tool_result''"
  by (simp_all add: result_block_def)

section \<open>The contract of a tool runner\<close>

text \<open>What the loop relies on: a batch that ends without an error has answered its first \<open>cap\<close>
  calls in order.\<close>

locale batch_runner =
  fixes run :: "'w provider_runner" and cap :: nat
  assumes in_order: "run calls w = ((rs, None), w') \<Longrightarrow> map pt_CallID rs = take cap (map pc_ID calls)"
begin

lemma turn_keeps:
  assumes call: "\<And>ts w. conversation cap prompt ts \<Longrightarrow> good w \<Longrightarrow> good (snd (call ts w))"
    and keeps: "\<And>calls w. good w \<Longrightarrow> good (snd (run calls w))"
    and "conversation cap prompt ts" "good w" "loop_turn call run ts w = (out, w')"
  shows "good w' \<and> (\<forall>ts'. out = Continue ts' \<longrightarrow> conversation cap prompt ts')"
proof -
  obtain x w1 where c: "call ts w = (x, w1)" by (cases "call ts w")
  with call assms(3,4) have g1: "good w1" by (metis snd_conv)
  show ?thesis
  proof (cases x)
    case (Inl e)
    then show ?thesis using assms(5) c g1 by (auto simp: loop_turn_def)
  next
    case (Inr resp)
    obtain rs e w2 where r: "run (tool_uses (ws_Content resp)) w1 = ((rs, e), w2)"
      by (metis prod.exhaust)
    with keeps g1 have g2: "good w2" by (metis snd_conv)
    let ?a = "\<lparr>tu_Role = ''assistant'', tu_Content = ws_Content resp\<rparr>"
    let ?u = "\<lparr>tu_Role = ''user'', tu_Content = map result_block rs\<rparr>"
    have "answers cap ?a ?u" if "e = None" "tool_uses (ws_Content resp) \<noteq> []"
      using that in_order r by (auto simp: answers_def call_ids_tool_uses list_all_iff comp_def)
    then have "conversation cap prompt (ts @ [?a, ?u])" if "e = None" "tool_uses (ws_Content resp) \<noteq> []"
      using that assms(3) conversation_append by blast
    then show ?thesis using assms(5) c r g1 g2 Inr
      by (auto simp: loop_turn_def Let_def split: if_splits option.splits)
  qed
qed

text \<open>A property of the world that the batches keep, and every round trip with a well-formed
  history, is kept by the loop.\<close>

lemma loop_keeps:
  assumes call: "\<And>ts w. conversation cap prompt ts \<Longrightarrow> good w \<Longrightarrow> good (snd (call ts w))"
    and keeps: "\<And>calls w. good w \<Longrightarrow> good (snd (run calls w))"
    and "conversation cap prompt ts" "good w"
  shows "good (snd (tool_turns (loop_turn call run) max_turns turn ts w))"
  using assms(3,4)
proof (induction "loop_turn call run" max_turns turn ts w rule: tool_turns.induct)
  case (1 max_turns turn ts w)
  obtain out w' where s: "loop_turn call run ts w = (out, w')" by (cases "loop_turn call run ts w")
  from turn_keeps [OF call keeps "1.prems" s]
  have "good w' \<and> (\<forall>ts'. out = Continue ts' \<longrightarrow> conversation cap prompt ts')" .
  with "1.hyps" s "1.prems" show ?case
    by (subst tool_turns.simps) (auto split: turn_outcome.splits)
qed

end

section \<open>The budget of the loop\<close>

lemma turn_cost:
  fixes cost :: "'w \<Rightarrow> nat"
  assumes "\<And>ts w. cost (snd (call ts w)) \<le> cost w + a" "\<And>calls w. cost (snd (run calls w)) \<le> cost w + b"
  shows "cost (snd (loop_turn call run ts w)) \<le> cost w + (a + b)"
proof -
  obtain x w1 where c: "call ts w = (x, w1)" by (cases "call ts w")
  with assms(1) have 1: "cost w1 \<le> cost w + a" by (metis snd_conv)
  show ?thesis
  proof (cases x)
    case (Inr resp)
    obtain rs e w2 where r: "run (tool_uses (ws_Content resp)) w1 = ((rs, e), w2)"
      by (metis prod.exhaust)
    with assms(2) have "cost w2 \<le> cost w1 + b" by (metis snd_conv)
    with 1 c r Inr show ?thesis by (auto simp: loop_turn_def Let_def split: option.splits)
  qed (use 1 c in \<open>auto simp: loop_turn_def\<close>)
qed

lemma loop_cost:
  fixes cost :: "'w \<Rightarrow> nat"
  assumes "\<And>ts w. cost (snd (body ts w)) \<le> cost w + k"
  shows "cost (snd (tool_turns body max_turns turn ts w)) \<le> cost w + k * nat (max_turns - turn)"
  using assms
proof (induction body max_turns turn ts w rule: tool_turns.induct)
  case (1 body max_turns turn ts w)
  show ?case
  proof (cases "turn < max_turns")
    case True
    then have n: "nat (max_turns - turn) = Suc (nat (max_turns - (turn + 1)))" by simp
    obtain out w' where s: "body ts w = (out, w')" by (cases "body ts w")
    have c: "cost w' \<le> cost w + k" using "1.prems" s by (metis snd_conv)
    show ?thesis
    proof (cases out)
      case (Stop r e)
      then show ?thesis using s c n True by (subst tool_turns.simps) simp
    next
      case (Continue ts')
      with "1.IH" "1.prems" s True have "cost (snd (tool_turns body max_turns (turn + 1) ts' w')) \<le> cost w' + k * nat (max_turns - (turn + 1))"
        by simp
      with Continue s c n True show ?thesis by (subst tool_turns.simps) simp
    qed
  qed (subst tool_turns.simps, simp)
qed

text \<open>The adapter is such a runner, for every property that the registered handlers keep.\<close>

lemma adapt_in_order:
  assumes "adapt (Some r) calls w = ((rs, None), w')"
  shows "map pt_CallID rs = take (if 0 < rn_MaxIterations r then nat (rn_MaxIterations r) else length calls) (map pc_ID calls)"
proof -
  let ?cs = "map (\<lambda>c. \<lparr>tc_ID = pc_ID c, tc_Name = pc_Name c, tc_Args = pc_Args c\<rparr>) calls"
  obtain qs where q: "run_tools r ?cs w = ((qs, None), w')"
      "rs = map (\<lambda>x. \<lparr>pt_CallID = tr_CallID x, pt_Content = tr_Content x, pt_IsError = tr_IsError x\<rparr>) qs"
    using assms by (auto simp: adapt_def split: prod.splits)
  then obtain reg where "run_calls reg (limited_calls (rn_MaxIterations r) ?cs) [] w = ((qs, None), w')"
    by (auto simp: run_tools_def split: option.splits)
  then have "map tr_CallID qs = map tc_ID (limited_calls (rn_MaxIterations r) ?cs)"
    using run_calls_ids by fastforce
  moreover have "map pt_CallID rs = map tr_CallID qs" using q(2) by simp
  moreover have "map tc_ID ?cs = map pc_ID calls" by simp
  ultimately show ?thesis by (simp only: limited_calls_take take_map [symmetric] length_map)
qed

lemma adapt_world:
  "snd (adapt (Some r) calls w) =
     snd (run_tools r (map (\<lambda>c. \<lparr>tc_ID = pc_ID c, tc_Name = pc_Name c, tc_Args = pc_Args c\<rparr>) calls) w)"
  by (simp add: adapt_def case_prod_beta)

lemma adapt_keeps:
  assumes "\<And>n t w args. lookup_tool reg n = Some t \<Longrightarrow> P w \<Longrightarrow> P (snd (tool_Handler t w args))" "P w"
  shows "P (snd (adapt (Some \<lparr>rn_Registry = Some reg, rn_MaxIterations = m\<rparr>) calls w))"
  using run_calls_preserves [of reg P, OF assms] by (simp add: adapt_world run_tools_def)

end
