(* ===== verification/Agent_Run.thy ===== *)
theory Agent_Run
  imports Agent_Loop Go_Quote
begin

text \<open>
  The orchestrator of \<open>internal/ai/agent/agent.go\<close> and its endpoint in \<open>internal/api/agent.go\<close>:
  a prompt is routed to a specialist by its keywords, the tools are narrowed to those the
  specialist may use, and the tool-use loop runs with them.
\<close>

section \<open>Specialists\<close>

record specialist =
  sp_Name :: string
  sp_System :: string
  sp_ToolAllowList :: "string list"

definition default_specialists :: "specialist list" where
  "default_specialists = [
     \<lparr>sp_Name = ''architect'',
      sp_System = join [CHR 0x0A]
        [''You are the Architect sub-agent. Your job is to turn a user's'',
         ''high-level infrastructure request into a concrete plan of resources and'',
         ''modules. Process: (1) list_resources to see what already exists,'',
         ''(2) search_registry to find an existing module before creating'',
         ''resources from scratch, (3) propose files via write_hcl. Never invent'',
         ''cloud resource types you aren't certain about.''],
      sp_ToolAllowList = [''list_resources'', ''get_resource'', ''search_registry'', ''write_hcl'']\<rparr>,
     \<lparr>sp_Name = ''coder'',
      sp_System = join [CHR 0x0A]
        [''You are the Coder sub-agent. You write or modify specific'',
         ''Terraform / HCL resources on request. Process: (1) get_resource first'',
         ''to read current state, (2) write_hcl with the full intended file'',
         ''content, (3) call run_policy before declaring done.''],
      sp_ToolAllowList = [''list_resources'', ''get_resource'', ''write_hcl'', ''run_policy'']\<rparr>,
     \<lparr>sp_Name = ''policy'',
      sp_System = join [CHR 0x0A]
        [''You are the Policy sub-agent. Your only job is to explain and fix'',
         ''policy violations. Call run_policy first, then for each blocking'',
         ''finding either propose a write_hcl change that fixes it or clearly'',
         ''state why it should be acknowledged as an accepted risk.''],
      sp_ToolAllowList = [''list_resources'', ''get_resource'', ''run_policy'', ''write_hcl'']\<rparr>,
     \<lparr>sp_Name = ''security'',
      sp_System = join [CHR 0x0A]
        [''You are the Security sub-agent. Call run_scan, then walk the'',
         ''findings by severity (critical first). For each actionable finding,'',
         ''either propose a write_hcl fix or flag it for human review. Don't'',
         ''touch resources unrelated to the findings.''],
      sp_ToolAllowList = [''list_resources'', ''get_resource'', ''run_scan'', ''write_hcl'']\<rparr>,
     \<lparr>sp_Name = ''reviewer'',
      sp_System = join [CHR 0x0A]
        [''You are the Reviewer sub-agent. Read current resources + the plan'',
         ''JSON and give a short critique: what's about to change, risky bits,'',
         ''and whether the plan matches what the user asked for. Do not modify'',
         ''files. Return a concise prose summary.''],
      sp_ToolAllowList = [''list_resources'', ''get_resource'', ''run_policy'', ''run_scan'', ''read_plan'']\<rparr>]"

definition keyword_matches :: "string \<Rightarrow> string list \<Rightarrow> nat" where
  "keyword_matches s ks = length (filter (contains s) ks)"

definition specialist_keywords :: "string \<Rightarrow> string list" where
  "specialist_keywords name =
     (if name = ''policy'' then [''policy'', ''compliance'', ''tag'', ''governance'', ''opa'', ''sentinel'']
      else if name = ''security'' then [''security'', ''vulnerab'', ''cve'', ''exposure'', ''encrypt'', ''iam'', ''public'']
      else if name = ''reviewer'' then [''review'', ''critique'', ''what will'', ''explain plan'', ''walk me through'']
      else if name = ''coder'' then [''change'', ''modify'', ''update'', ''fix'', ''edit'', ''set'']
      else if name = ''architect'' then [''add'', ''create'', ''build'', ''design'', ''new'', ''vpc'', ''cluster'']
      else [])"

definition specialist_weight :: "string \<Rightarrow> specialist \<Rightarrow> nat" where
  "specialist_weight p s = keyword_matches p (specialist_keywords (sp_Name s))"

fun best_specialist :: "(specialist \<times> nat) list \<Rightarrow> nat \<Rightarrow> specialist option \<Rightarrow> specialist option" where
  "best_specialist [] best winner = winner"
| "best_specialist ((s, n) # scores) best winner =
     (if best < n then best_specialist scores n (Some s) else best_specialist scores best winner)"

text \<open>\<open>None\<close> is the panic on an empty list.\<close>

definition route_prompt :: "string \<Rightarrow> specialist list \<Rightarrow> specialist option" where
  "route_prompt prompt specs =
     (let p = to_lower prompt in
      case best_specialist (map (\<lambda>s. (s, specialist_weight p s)) specs) 0 None of
        Some s \<Rightarrow> Some s
      | None \<Rightarrow>
          (case find (\<lambda>s. sp_Name s = ''architect'') specs of
             Some s \<Rightarrow> Some s
           | None \<Rightarrow> (case specs of [] \<Rightarrow> None | s # _ \<Rightarrow> Some s)))"

section \<open>The orchestrator\<close>

datatype 'w agent_provider = ToolUser string "'w anthropic" | PlainProvider string

record 'w agent_config =
  ac_Provider :: "'w agent_provider option"
  ac_ToolRegistry :: "'w tool_registry option"
  ac_Specialists :: "specialist list"
  ac_MaxTurns :: int

record agent_result =
  ar_Specialist :: string
  ar_Reply :: string
  ar_Turns :: int

datatype agent_error =
    AgentNoProvider
  | AgentNoRegistry
  | AgentNoToolUse string
  | AgentLoop loop_error
  | AgentPanic

text \<open>The tools a specialist sees, and the registry its calls are executed against.\<close>

fun narrow_loop ::
  "'w tool_registry \<Rightarrow> string list \<Rightarrow> tool_definition list \<Rightarrow> 'w tool_registry \<times> tool_definition list
   \<Rightarrow> 'w tool_registry \<times> tool_definition list" where
  "narrow_loop reg allow [] acc = acc"
| "narrow_loop reg allow (d # ds) (exec, defs) =
     (if td_Name d \<notin> set allow then narrow_loop reg allow ds (exec, defs)
      else case lookup_tool reg (td_Name d) of
        Some t \<Rightarrow> narrow_loop reg allow ds (register_tool exec t, defs @ [d])
      | None \<Rightarrow> narrow_loop reg allow ds (exec, defs))"

definition narrow_tools :: "'w tool_registry \<Rightarrow> string list \<Rightarrow> 'w tool_registry \<times> tool_definition list" where
  "narrow_tools reg allow =
     (if allow = [] then (reg, tool_definitions reg)
      else narrow_loop reg allow (tool_definitions reg) (new_registry, []))"

definition agent_runner :: "'w tool_registry \<Rightarrow> 'w tool_runner" where
  "agent_runner reg = \<lparr>rn_Registry = Some reg, rn_MaxIterations = 50\<rparr>"

definition agent_request :: "'w tool_registry \<Rightarrow> specialist \<Rightarrow> int \<Rightarrow> string \<Rightarrow> 'w loop_request" where
  "agent_request reg spec max_turns prompt =
     (case narrow_tools reg (sp_ToolAllowList spec) of
        (exec, defs) \<Rightarrow>
          \<lparr>lq_System = sp_System spec, lq_User = prompt, lq_Temperature = ''0'', lq_MaxTokens = 0,
           lq_Tools = definitions_from_tools defs, lq_Runner = Some (adapt (Some (agent_runner exec))),
           lq_MaxTurns = max_turns\<rparr>)"

definition agent_specialists :: "'w agent_config \<Rightarrow> specialist list" where
  "agent_specialists cfg = (if ac_Specialists cfg = [] then default_specialists else ac_Specialists cfg)"

definition run_agent ::
  "(string \<Rightarrow> string + wire_response) \<Rightarrow> 'w agent_config \<Rightarrow> string \<Rightarrow> 'w \<Rightarrow> (agent_error + agent_result) \<times> 'w" where
  "run_agent decode cfg prompt w =
     (case ac_Provider cfg of
        None \<Rightarrow> (Inl AgentNoProvider, w)
      | Some provider \<Rightarrow>
          (case ac_ToolRegistry cfg of
             None \<Rightarrow> (Inl AgentNoRegistry, w)
           | Some reg \<Rightarrow>
               (case route_prompt prompt (agent_specialists cfg) of
                  None \<Rightarrow> (Inl AgentPanic, w)
                | Some spec \<Rightarrow>
                    (case provider of
                       PlainProvider kind \<Rightarrow> (Inl (AgentNoToolUse kind), w)
                     | ToolUser kind p \<Rightarrow>
                         (case run_tool_loop decode p (agent_request reg spec (ac_MaxTurns cfg) prompt) w of
                            ((reply, Some e), w') \<Rightarrow> (Inl (AgentLoop e), w')
                          | ((reply, None), w') \<Rightarrow>
                              (Inr \<lparr>ar_Specialist = sp_Name spec, ar_Reply = reply, ar_Turns = 0\<rparr>, w'))))))"

section \<open>The endpoint\<close>

record audit_entry =
  au_Timestamp :: go_time
  au_Project :: string
  au_Prompt :: string
  au_Specialist :: string
  au_ReplyBytes :: nat
  au_Err :: string
  au_DurationMs :: int

record agent_audit =
  aa_entries :: "audit_entry list"
  aa_maxKeep :: int

definition new_agent_audit :: "int \<Rightarrow> agent_audit" where
  "new_agent_audit n = \<lparr>aa_entries = [], aa_maxKeep = (if n \<le> 0 then 100 else n)\<rparr>"

definition audit_record :: "agent_audit \<Rightarrow> audit_entry \<Rightarrow> agent_audit" where
  "audit_record a e =
     (let es = aa_entries a @ [e] in
      a\<lparr>aa_entries := (if aa_maxKeep a < int (length es) then drop (nat (int (length es) - aa_maxKeep a)) es else es)\<rparr>)"

definition client_error_needles :: "string list" where
  "client_error_needles =
     [''does not support tool use'', ''does not support vision'', ''no provider configured'',
      ''no tool registry configured'', ''provider requires an API key'', ''unknown provider kind'',
      ''no images provided'']"

definition is_client_error :: "string \<Rightarrow> bool" where
  "is_client_error msg = list_ex (contains msg) client_error_needles"

definition runner_error_text :: "runner_error \<Rightarrow> string" where
  "runner_error_text e =
     (case e of ErrRegistryNil \<Rightarrow> ''tools.Runner: Registry is nil'' | ErrAbort \<Rightarrow> ''tool loop aborted''
      | ErrRunnerNotConfigured \<Rightarrow> ''agent: runner is not configured'')"

definition loop_error_text :: "loop_error \<Rightarrow> string" where
  "loop_error_text e =
     (case e of
        LoopRunnerNil \<Rightarrow> ''tool loop: Runner is nil''
      | LoopRequest m \<Rightarrow> m
      | LoopTransport m \<Rightarrow> ''anthropic tool-loop: '' @ m
      | LoopRead m \<Rightarrow> ''read anthropic response: '' @ m
      | LoopStatus n m \<Rightarrow> ''anthropic tool-loop (status '' @ dec n @ '')'' @ (if m = [] then [] else '': '' @ m)
      | LoopDecode m \<Rightarrow> ''decode anthropic response: '' @ m
      | LoopAPI m \<Rightarrow> ''anthropic tool-loop error: '' @ m
      | LoopRunner r \<Rightarrow> runner_error_text r
      | LoopMaxTurns n \<Rightarrow> ''tool loop hit max turns ('' @ dec_int n @ '') without end_turn'')"

definition agent_error_text :: "(nat \<Rightarrow> bool) \<Rightarrow> agent_error \<Rightarrow> string" where
  "agent_error_text printable e =
     (case e of
        AgentNoProvider \<Rightarrow> ''agent: no provider configured''
      | AgentNoRegistry \<Rightarrow> ''agent: no tool registry configured''
      | AgentNoToolUse kind \<Rightarrow> ''agent: provider '' @ go_quote printable kind @ '' does not support tool use ''
          @ [CHR 0xE2, CHR 0x80, CHR 0x94] @ '' switch to Anthropic to enable the agent''
      | AgentLoop l \<Rightarrow> loop_error_text l
      | AgentPanic \<Rightarrow> [])"

datatype agent_reply = AgentHTTPError nat string | AgentHTTPReply string string int | AgentHTTPAborted

text \<open>
  The handler after its content type check. \<open>project\<close> is the outcome of \<open>safeProjectPath\<close>, the
  body is the decoded request or the decoder's error, \<open>reg\<close> the registry built for the project.
\<close>

definition post_agent ::
  "(nat \<Rightarrow> bool) \<Rightarrow> (string \<Rightarrow> string + wire_response) \<Rightarrow> 'w agent_provider option \<Rightarrow> 'w tool_registry
   \<Rightarrow> string \<Rightarrow> string + unit \<Rightarrow> string + (string \<times> int) \<Rightarrow> go_time \<Rightarrow> int \<Rightarrow> agent_audit \<Rightarrow> 'w
   \<Rightarrow> agent_reply \<times> agent_audit \<times> 'w" where
  "post_agent printable decode provider reg name project body now elapsed audit w =
     (case project of
        Inl e \<Rightarrow> (AgentHTTPError 400 e, audit, w)
      | Inr _ \<Rightarrow>
          (case body of
             Inl e \<Rightarrow> (AgentHTTPError 400 (''invalid request body: '' @ e), audit, w)
           | Inr (prompt, max_turns) \<Rightarrow>
               if prompt = [] then (AgentHTTPError 400 ''prompt is required'', audit, w)
               else
                 let entry = \<lparr>au_Timestamp = now, au_Project = name, au_Prompt = prompt, au_Specialist = [],
                       au_ReplyBytes = 0, au_Err = [], au_DurationMs = elapsed\<rparr> in
                 (case run_agent decode \<lparr>ac_Provider = provider, ac_ToolRegistry = Some reg,
                     ac_Specialists = [], ac_MaxTurns = max_turns\<rparr> prompt w of
                    (Inl e, w') \<Rightarrow>
                      let text = agent_error_text printable e in
                      if e = AgentPanic then (AgentHTTPAborted, audit, w')
                      else (AgentHTTPError (if is_client_error text then 400 else 502) text,
                            audit_record audit (entry\<lparr>au_Err := text\<rparr>), w')
                  | (Inr r, w') \<Rightarrow>
                      (AgentHTTPReply (ar_Specialist r) (ar_Reply r) elapsed,
                       audit_record audit (entry\<lparr>au_Specialist := ar_Specialist r,
                         au_ReplyBytes := length (ar_Reply r)\<rparr>), w'))))"

section \<open>Facts on routing\<close>

lemma best_specialist_in:
  "best_specialist scores best winner = Some s \<Longrightarrow> winner = Some s \<or> s \<in> fst ` set scores"
proof (induction scores best winner rule: best_specialist.induct)
  case (2 s' n scores best winner)
  then show ?case by (cases "best < n") auto
qed simp

lemma route_prompt_total:
  assumes "specs \<noteq> []"
  shows "\<exists>s. route_prompt prompt specs = Some s \<and> s \<in> set specs"
proof -
  let ?best = "best_specialist (map (\<lambda>s. (s, specialist_weight (to_lower prompt) s)) specs) 0 None"
  let ?arch = "find (\<lambda>s. sp_Name s = ''architect'') specs"
  obtain s0 ss where s0: "specs = s0 # ss" using assms by (cases specs) auto
  show ?thesis
  proof (cases ?best)
    case (Some s)
    then have "s \<in> set specs" using best_specialist_in by fastforce
    with Some show ?thesis by (simp add: route_prompt_def Let_def)
  next
    case None
    then have r: "route_prompt prompt specs = (case ?arch of Some s \<Rightarrow> Some s | None \<Rightarrow> Some s0)"
      using s0 by (simp only: route_prompt_def Let_def option.case list.case)
    show ?thesis
    proof (cases ?arch)
      case (Some s)
      then have "s \<in> set specs" by (simp add: find_Some_in)
      with Some r show ?thesis by simp
    qed (use r s0 in simp)
  qed
qed

section \<open>Facts on narrowing\<close>

lemma narrow_loop_lookup:
  "narrow_loop reg allow ds (exec, defs) = (exec', defs') \<Longrightarrow>
   lookup_tool exec' n = Some t \<Longrightarrow> lookup_tool exec n = Some t \<or>
     n = td_Name (tool_Def t) \<and> (\<exists>d \<in> set ds. td_Name d \<in> set allow \<and> lookup_tool reg (td_Name d) = Some t)"
proof (induction ds arbitrary: exec defs)
  case (Cons d ds)
  from Cons.prems show ?case
    by (auto split: if_splits option.splits dest!: Cons.IH)
qed simp

lemma narrow_lookup:
  assumes "registry_ok reg" "allow \<noteq> []" "lookup_tool (fst (narrow_tools reg allow)) n = Some t"
  shows "n \<in> set allow \<and> lookup_tool reg n = Some t"
  using narrow_loop_lookup [of reg allow "tool_definitions reg" new_registry "[]"
      "fst (narrow_tools reg allow)" "snd (narrow_tools reg allow)" n t] assms lookup_name [OF assms(1)]
  by (fastforce simp: narrow_tools_def)

lemma narrow_loop_defs:
  "\<forall>d \<in> set ds. lookup_tool reg (td_Name d) \<noteq> None \<Longrightarrow>
   snd (narrow_loop reg allow ds (exec, defs)) = defs @ filter (\<lambda>d. td_Name d \<in> set allow) ds"
  by (induction ds arbitrary: exec defs) (auto split: option.splits)

lemma narrow_defs:
  assumes "registry_ok reg" "allow \<noteq> []"
  shows "map td_Name (snd (narrow_tools reg allow)) = filter (\<lambda>n. n \<in> set allow) (tool_names reg)"
proof -
  have "\<forall>d \<in> set (tool_definitions reg). lookup_tool reg (td_Name d) \<noteq> None"
    using assms in_definitions by fastforce
  then show ?thesis using assms
    by (simp add: narrow_tools_def narrow_loop_defs filter_map comp_def flip: names_of_definitions)
qed

section \<open>The runner of an agent\<close>

interpretation agent_batch: batch_runner "adapt (Some (agent_runner reg))" 50 for reg
  by unfold_locales (use adapt_in_order in \<open>fastforce simp: agent_runner_def\<close>)

text \<open>What every round trip of an agent sends.\<close>

definition agent_body :: "'w tool_registry \<Rightarrow> specialist \<Rightarrow> string \<Rightarrow> wire_request \<Rightarrow> bool" where
  "agent_body reg spec prompt r \<longleftrightarrow>
     conversation 50 prompt (wr_Messages r) \<and> wr_System r = sp_System spec
     \<and> map wt_Name (wr_Tools r) = map td_Name (snd (narrow_tools reg (sp_ToolAllowList spec)))"

lemma wire_tool_names: "map wt_Name (wire_tools (definitions_from_tools ds)) = map td_Name ds"
  by (simp add: wire_tools_def definitions_from_tools_def)

end
