(* ===== verification/Agent_Props.thy ===== *)
theory Agent_Props
  imports Agent_Run
begin

text \<open>
  The properties of an agent run, for every language model and every tool: it stays within the
  tools of its specialist, it ends within its budget, and what it sends is a well-formed
  conversation. The world is arbitrary; its round trips and handlers are arbitrary functions.
\<close>

section \<open>From the loop to the run\<close>

text \<open>How a configured agent runs: one loop over the narrowed tools.\<close>

lemma run_agent_world:
  assumes "ac_Provider cfg = Some (ToolUser kind p)" "ac_ToolRegistry cfg = Some reg"
    "route_prompt prompt (agent_specialists cfg) = Some spec"
  shows "snd (run_agent decode cfg prompt w) =
    snd (run_tool_loop decode p (agent_request reg spec (ac_MaxTurns cfg) prompt) w)"
  using assms by (simp add: run_agent_def case_prod_beta split: option.splits)

lemma agent_handlers_keep:
  assumes "registry_ok reg" "sp_ToolAllowList spec \<noteq> []"
    and "\<And>n t w args. n \<in> set (sp_ToolAllowList spec) \<Longrightarrow> lookup_tool reg n = Some t \<Longrightarrow> P w \<Longrightarrow>
      P (snd (tool_Handler t w args))"
  shows "P w \<Longrightarrow> P (snd (adapt (Some (agent_runner (fst (narrow_tools reg (sp_ToolAllowList spec))))) calls w))"
  unfolding agent_runner_def
  by (rule adapt_keeps) (use narrow_lookup [OF assms(1,2)] assms(3) in blast)+

lemma agent_keeps:
  assumes cfg: "ac_Provider cfg = Some (ToolUser kind p)" "ac_ToolRegistry cfg = Some reg"
      "route_prompt prompt (agent_specialists cfg) = Some spec"
    and call: "\<And>w r q. hr_Body r = wire_body q \<Longrightarrow> agent_body reg spec prompt q \<Longrightarrow> P w \<Longrightarrow> P (snd (an_client p w r))"
    and keeps: "\<And>calls w. P w \<Longrightarrow>
      P (snd (adapt (Some (agent_runner (fst (narrow_tools reg (sp_ToolAllowList spec))))) calls w))"
    and "P w"
  shows "P (snd (run_agent decode cfg prompt w))"
proof -
  let ?req = "agent_request reg spec (ac_MaxTurns cfg) prompt"
  let ?call = "\<lambda>messages. call_messages decode p messages (wire_tools (lq_Tools ?req)) (lq_System ?req)
    (lq_Temperature ?req) (loop_max_tokens (lq_MaxTokens ?req))"
  have c: "P (snd (?call ts v))" if "conversation 50 prompt ts" "P v" for ts v
  proof -
    let ?q = "\<lparr>wr_Model = an_model p, wr_System = lq_System ?req, wr_Messages = ts, wr_Tools = wire_tools (lq_Tools ?req),
      wr_MaxTokens = loop_max_tokens (lq_MaxTokens ?req), wr_Temperature = lq_Temperature ?req\<rparr>"
    have "agent_body reg spec prompt ?q"
      using that(1) by (simp add: case_prod_beta agent_request_def agent_body_def wire_tool_names)
    then show ?thesis using call [of _ ?q] that(2) by (simp add: call_messages_def case_prod_beta)
  qed
  have "P (snd (tool_turns (loop_turn ?call (adapt (Some (agent_runner (fst (narrow_tools reg (sp_ToolAllowList spec)))))))
      (loop_max_turns (ac_MaxTurns cfg)) 0 [user_turn prompt] w))"
    by (rule agent_batch.loop_keeps [of prompt P]) (use c keeps \<open>P w\<close> in auto)
  then show ?thesis
    unfolding run_agent_world [OF cfg] by (simp add: run_tool_loop_def agent_request_def case_prod_beta)
qed

lemma run_calls_cost:
  fixes cost :: "'w \<Rightarrow> nat"
  assumes "\<And>n t w args. lookup_tool reg n = Some t \<Longrightarrow> cost (snd (tool_Handler t w args)) \<le> cost w + b"
  shows "cost (snd (run_calls reg cs rs w)) \<le> cost w + b * length cs"
proof (induction cs arbitrary: rs w)
  case (Cons c cs)
  show ?case
  proof (cases "lookup_tool reg (tc_Name c)")
    case None
    let ?rs = "rs @ [\<lparr>tr_CallID = tc_ID c, tr_Content = ErrorMap (unknown_tool (tc_Name c)), tr_IsError = True\<rparr>]"
    have "cost (snd (run_calls reg cs ?rs w)) \<le> cost w + b * length cs" by (rule Cons)
    with None show ?thesis by simp
  next
    case (Some t)
    obtain x w' where h: "tool_Handler t w (tc_Args c) = (x, w')" by (cases "tool_Handler t w (tc_Args c)")
    with assms Some have 1: "cost w' \<le> cost w + b" by (metis snd_conv)
    have 2: "cost (snd (run_calls reg cs rs' w')) \<le> cost w + b * length (c # cs)" for rs'
      using Cons [of rs' w'] 1 by simp
    have "cost w' \<le> cost w + b * length (c # cs)" using 1 by simp
    with 2 Some h show ?thesis
      by (auto simp del: list.size split: sum.split handler_error.split)
  qed
qed simp

lemma agent_batch_cost:
  fixes cost :: "'w \<Rightarrow> nat"
  assumes "\<And>n t w args. lookup_tool reg n = Some t \<Longrightarrow> cost (snd (tool_Handler t w args)) \<le> cost w + b"
  shows "cost (snd (adapt (Some (agent_runner reg)) calls w)) \<le> cost w + b * 50"
proof -
  let ?cs = "limited_calls 50 (map (\<lambda>c. \<lparr>tc_ID = pc_ID c, tc_Name = pc_Name c, tc_Args = pc_Args c\<rparr>) calls)"
  have "cost (snd (run_calls reg ?cs [] w)) \<le> cost w + b * length ?cs"
    using run_calls_cost [of reg cost b, OF assms] .
  moreover have "length ?cs \<le> 50" using length_limited_calls [of 50] by fastforce
  then have "b * length ?cs \<le> b * 50" by (rule mult_le_mono2)
  ultimately have "cost (snd (run_calls reg ?cs [] w)) \<le> cost w + b * 50" by linarith
  then show ?thesis by (simp add: adapt_world run_tools_def agent_runner_def)
qed

lemma agent_cost:
  fixes cost :: "'w \<Rightarrow> nat"
  assumes cfg: "ac_Provider cfg = Some (ToolUser kind p)" "ac_ToolRegistry cfg = Some reg"
      "route_prompt prompt (agent_specialists cfg) = Some spec"
    and call: "\<And>w r. cost (snd (an_client p w r)) \<le> cost w + a"
    and run: "\<And>n t w args. lookup_tool (fst (narrow_tools reg (sp_ToolAllowList spec))) n = Some t \<Longrightarrow>
      cost (snd (tool_Handler t w args)) \<le> cost w + b"
  shows "cost (snd (run_agent decode cfg prompt w)) \<le> cost w + (a + b * 50) * nat (loop_max_turns (ac_MaxTurns cfg))"
proof -
  let ?req = "agent_request reg spec (ac_MaxTurns cfg) prompt"
  let ?call = "\<lambda>messages. call_messages decode p messages (wire_tools (lq_Tools ?req)) (lq_System ?req)
    (lq_Temperature ?req) (loop_max_tokens (lq_MaxTokens ?req))"
  let ?run = "adapt (Some (agent_runner (fst (narrow_tools reg (sp_ToolAllowList spec)))))"
  have c: "cost (snd (?call ts v)) \<le> cost v + a" for ts v
    using call [of v] by (simp add: call_messages_def case_prod_beta)
  have r: "cost (snd (?run cs v)) \<le> cost v + b * 50" for cs v
    by (rule agent_batch_cost) (rule run)
  have "cost (snd (loop_turn ?call ?run ts v)) \<le> cost v + (a + b * 50)" for ts v
    by (rule turn_cost) (rule c, rule r)
  then have "cost (snd (tool_turns (loop_turn ?call ?run) (loop_max_turns (ac_MaxTurns cfg)) 0 [user_turn prompt] w))
      \<le> cost w + (a + b * 50) * nat (loop_max_turns (ac_MaxTurns cfg) - 0)"
    by (rule loop_cost)
  then show ?thesis
    unfolding run_agent_world [OF cfg] by (simp add: run_tool_loop_def agent_request_def case_prod_beta)
qed

lemma narrow_from:
  assumes "registry_ok reg" "lookup_tool (fst (narrow_tools reg allow)) n = Some t"
  shows "lookup_tool reg n = Some t \<and> (allow = [] \<or> n \<in> set allow)"
  using narrow_lookup [OF assms(1), of allow n t] assms(2) by (cases "allow = []") (auto simp: narrow_tools_def)

lemma narrow_names:
  "registry_ok reg \<Longrightarrow> map td_Name (snd (narrow_tools reg allow)) =
     (if allow = [] then tool_names reg else filter (\<lambda>n. n \<in> set allow) (tool_names reg))"
  using narrow_defs names_of_definitions by (auto simp: narrow_tools_def)

section \<open>A scripted agent\<close>

text \<open>
  A world that logs the requests sent and the files written, and a model that first calls
  \<open>write_hcl\<close>, which its specialist may not use, then \<open>read_plan\<close>, and then answers.
\<close>

type_synonym demo_world = "wire_request option list \<times> string list"

definition demo_reply :: "string \<Rightarrow> string + wire_response" where
  "demo_reply body =
     (if body = ''1'' then
        Inr \<lparr>ws_Content = [empty_block\<lparr>cb_Type := ''tool_use'', cb_ID := ''a'', cb_Name := ''write_hcl''\<rparr>,
               empty_block\<lparr>cb_Type := ''tool_use'', cb_ID := ''b'', cb_Name := ''read_plan''\<rparr>],
             ws_StopReason = ''tool_use'', ws_Error = None\<rparr>
      else Inr \<lparr>ws_Content = [empty_block\<lparr>cb_Type := ''text'', cb_Text := ''fine''\<rparr>],
             ws_StopReason = ''end_turn'', ws_Error = None\<rparr>)"

definition demo_anthropic :: "demo_world anthropic" where
  "demo_anthropic = \<lparr>an_endpoint = [], an_model = ''m'', an_apiKey = ''k'', an_apiVersion = ''v'',
     an_client = (\<lambda>(reqs, files) r. (Response 200 (if reqs = [] then ''1'' else ''2''), (reqs @ [hr_Body r], files)))\<rparr>"

definition demo_registry :: "demo_world tool_registry" where
  "demo_registry = register_tool (register_tool new_registry
     (new_tool ''write_hcl'' [] [] (\<lambda>(reqs, files) args. (Inr (Inr ''1''), (reqs, files @ [args])))))
     (new_tool ''read_plan'' [] [] (\<lambda>w args. (Inr (Inr ''{}''), w)))"

definition demo_agent :: "demo_world agent_config" where
  "demo_agent = \<lparr>ac_Provider = Some (ToolUser ''anthropic'' demo_anthropic), ac_ToolRegistry = Some demo_registry,
     ac_Specialists = [], ac_MaxTurns = 0\<rparr>"

definition demo_reviewer :: specialist where
  "demo_reviewer = last default_specialists"

lemma demo_registry_ok: "registry_ok demo_registry"
  by (simp add: demo_registry_def register_ok)

lemma demo_route: "route_prompt ''Review it'' (agent_specialists demo_agent) = Some demo_reviewer"
  by code_simp

lemma demo_lookup: "lookup_tool demo_registry n =
    (if n = ''read_plan'' then Some (new_tool ''read_plan'' [] [] (\<lambda>w args. (Inr (Inr ''{}''), w)))
     else if n = ''write_hcl'' then Some (new_tool ''write_hcl'' [] [] (\<lambda>(reqs, files) args. (Inr (Inr ''1''), (reqs, files @ [args]))))
     else None)"
  by (simp add: demo_registry_def new_tool_def)

lemma demo_handler: "lookup_tool demo_registry n = Some t \<Longrightarrow> fst (snd (tool_Handler t w args)) = fst w"
  by (auto simp: demo_lookup new_tool_def case_prod_beta split: if_splits)

lemma demo_allow: "sp_ToolAllowList demo_reviewer = [''list_resources'', ''get_resource'', ''run_policy'', ''run_scan'', ''read_plan'']"
  by code_simp

lemma demo_fields [simp]:
  "ac_Provider demo_agent = Some (ToolUser ''anthropic'' demo_anthropic)"
  "ac_ToolRegistry demo_agent = Some demo_registry" "ac_MaxTurns demo_agent = 0"
  by (simp_all add: demo_agent_def)

lemma demo_client [simp]: "snd (an_client demo_anthropic w r) = (fst w @ [hr_Body r], snd w)"
  by (simp add: demo_anthropic_def case_prod_beta)

section \<open>Properties\<close>

text \<open>C17: An agent stays within the tools of its specialist, whatever the model asks for. If the
  prompt is routed to a specialist with an allow-list, then every property of the world that the
  round trips to the model and the handlers of the allowed tools preserve is preserved by the
  whole run; no other registered handler is ever called.\<close>

theorem agents_stay_in_their_lane:
  assumes "ac_Provider cfg = Some (ToolUser kind p)" "ac_ToolRegistry cfg = Some reg" "registry_ok reg"
    and "route_prompt prompt (agent_specialists cfg) = Some spec" "sp_ToolAllowList spec \<noteq> []"
    and "\<And>w r. P w \<Longrightarrow> P (snd (an_client p w r))"
    and "\<And>n t w args. n \<in> set (sp_ToolAllowList spec) \<Longrightarrow> lookup_tool reg n = Some t \<Longrightarrow> P w \<Longrightarrow>
      P (snd (tool_Handler t w args))"
    and "P w"
  shows "P (snd (run_agent decode cfg prompt w))"
proof (rule agent_keeps [OF assms(1,2,4)])
  show "P w \<Longrightarrow> P (snd (adapt (Some (agent_runner (fst (narrow_tools reg (sp_ToolAllowList spec))))) calls w))" for calls w
    by (rule agent_handlers_keep [OF assms(3,5)]) (use assms(7) in blast)+
qed (use assms(6,8) in blast)+

theorem agents_stay_in_their_lane_witness:
  "snd (snd (run_agent demo_reply demo_agent ''Review it'' ([], [''main.tf'']))) = [''main.tf'']
   \<and> lookup_tool demo_registry ''write_hcl'' \<noteq> None"
proof
  show "snd (snd (run_agent demo_reply demo_agent ''Review it'' ([], [''main.tf'']))) = [''main.tf'']"
    by (rule agents_stay_in_their_lane [where P = "\<lambda>w. snd w = [''main.tf'']" and kind = "''anthropic''"
        and p = demo_anthropic and reg = demo_registry and spec = demo_reviewer])
      (auto simp: demo_route demo_registry_ok demo_allow demo_lookup new_tool_def)
qed (simp add: demo_lookup)

text \<open>C27: An agent run ends within its budget: with at most \<open>a\<close> units of cost per round trip and
  at most \<open>b\<close> per call of a tool it may use, the run costs at most \<open>a + 50 * b\<close> per turn, for
  at most \<open>MaxTurns\<close> turns, or 8 when the request sets none. With \<open>a = 1\<close> and \<open>b = 0\<close> this bounds
  the requests to the model, with \<open>a = 0\<close> and \<open>b = 1\<close> the tool calls.\<close>

theorem agent_within_budget:
  fixes cost :: "'w \<Rightarrow> nat"
  assumes "ac_Provider cfg = Some (ToolUser kind p)" "ac_ToolRegistry cfg = Some reg" "registry_ok reg"
    and "route_prompt prompt (agent_specialists cfg) = Some spec"
    and "\<And>w r. cost (snd (an_client p w r)) \<le> cost w + a"
    and "\<And>n t w args. lookup_tool reg n = Some t \<Longrightarrow> sp_ToolAllowList spec = [] \<or> n \<in> set (sp_ToolAllowList spec) \<Longrightarrow>
      cost (snd (tool_Handler t w args)) \<le> cost w + b"
  shows "cost (snd (run_agent decode cfg prompt w)) \<le>
    cost w + (a + 50 * b) * (if ac_MaxTurns cfg \<le> 0 then 8 else nat (ac_MaxTurns cfg))"
proof -
  have "cost (snd (run_agent decode cfg prompt w)) \<le> cost w + (a + b * 50) * nat (loop_max_turns (ac_MaxTurns cfg))"
    by (rule agent_cost [OF assms(1,2,4,5)]) (use narrow_from [OF assms(3)] assms(6) in blast)
  then show ?thesis by (simp add: loop_max_turns_def mult.commute split: if_splits)
qed

theorem agent_within_budget_witness:
  "length (fst (snd (run_agent demo_reply demo_agent ''Review it'' ([], [])))) \<le> 8"
proof -
  have "length (fst (snd (run_agent demo_reply demo_agent ''Review it'' ([], []))))
      \<le> length (fst (([], []) :: demo_world)) + (1 + 50 * 0) * (if ac_MaxTurns demo_agent \<le> 0 then 8 else nat (ac_MaxTurns demo_agent))"
    by (rule agent_within_budget [where cost = "\<lambda>w. length (fst w)" and kind = "''anthropic''"
        and p = demo_anthropic and reg = demo_registry and spec = demo_reviewer])
      (simp_all add: demo_route demo_registry_ok demo_handler)
  then show ?thesis by simp
qed

text \<open>C33: What an agent sends: the body of every request is the JSON of a request that starts with the
  prompt, in which assistant turns with tool calls alternate with user turns that answer, in order,
  the first 50 of these calls (calls beyond the fiftieth of a turn stay unanswered, which the protocol
  of the API forbids), that has the system prompt of the routed specialist, and that offers, in order,
  exactly the registered tools of its allow-list. The body is empty exactly if that request cannot be
  marshalled: a schema of a tool or an input of a call is not valid JSON.\<close>

theorem agent_conversations:
  fixes sent :: "'w \<Rightarrow> wire_request option list"
  assumes "ac_Provider cfg = Some (ToolUser kind p)" "ac_ToolRegistry cfg = Some reg" "registry_ok reg"
    and "route_prompt prompt (agent_specialists cfg) = Some spec"
    and "\<And>w r. sent (snd (an_client p w r)) = sent w @ [hr_Body r]"
    and "\<And>n t w args. lookup_tool reg n = Some t \<Longrightarrow> sent (snd (tool_Handler t w args)) = sent w"
  shows "\<exists>rs. sent (snd (run_agent decode cfg prompt w)) = sent w @ map wire_body rs
    \<and> (\<forall>r \<in> set rs. conversation 50 prompt (wr_Messages r) \<and> wr_System r = sp_System spec
        \<and> map wt_Name (wr_Tools r) = (if sp_ToolAllowList spec = [] then tool_names reg
            else filter (\<lambda>n. n \<in> set (sp_ToolAllowList spec)) (tool_names reg)))"
proof -
  let ?P = "\<lambda>v. \<exists>rs. sent v = sent w @ map wire_body rs \<and> (\<forall>r \<in> set rs. agent_body reg spec prompt r)"
  have "?P (snd (run_agent decode cfg prompt w))"
  proof (rule agent_keeps [OF assms(1,2,4), where P = ?P])
    show "?P (snd (an_client p v r))" if "hr_Body r = wire_body q" "agent_body reg spec prompt q" "?P v" for v r q
    proof -
      from that(3) obtain rs where "sent v = sent w @ map wire_body rs" "\<forall>r \<in> set rs. agent_body reg spec prompt r" by blast
      with that(1,2) show ?thesis by (intro exI [of _ "rs @ [q]"]) (auto simp: assms(5))
    qed
    show "?P (snd (adapt (Some (agent_runner (fst (narrow_tools reg (sp_ToolAllowList spec))))) calls v))"
      if "?P v" for calls v
      unfolding agent_runner_def
      by (rule adapt_keeps [where P = ?P]) (use narrow_from [OF assms(3)] assms(6) that in \<open>metis+\<close>)
  qed simp
  then show ?thesis by (simp only: agent_body_def narrow_names [OF assms(3)])
qed

text \<open>In the witness both requests are sent whole.\<close>

theorem agent_conversations_witness:
  "\<exists>r1 r2. fst (snd (run_agent demo_reply demo_agent ''Review it'' ([], []))) = [Some r1, Some r2]
     \<and> conversation 50 ''Review it'' (wr_Messages r2) \<and> map wt_Name (wr_Tools r2) = [''read_plan'']"
proof -
  have "map (\<lambda>b. b \<noteq> None) (fst (snd (run_agent demo_reply demo_agent ''Review it'' ([], [])))) = [True, True]"
    by code_simp
  then obtain r1 r2 where "fst (snd (run_agent demo_reply demo_agent ''Review it'' ([], []))) = [Some r1, Some r2]"
    by (auto simp: map_eq_Cons_conv)
  moreover
  have "filter (\<lambda>n. n \<in> set (sp_ToolAllowList demo_reviewer)) (tool_names demo_registry) = [''read_plan'']"
    by code_simp
  moreover have "sp_ToolAllowList demo_reviewer \<noteq> []" by (simp add: demo_allow)
  moreover have "\<exists>rs. fst (snd (run_agent demo_reply demo_agent ''Review it'' ([], []))) = fst (([], []) :: demo_world) @ map wire_body rs
    \<and> (\<forall>r \<in> set rs. conversation 50 ''Review it'' (wr_Messages r) \<and> wr_System r = sp_System demo_reviewer
        \<and> map wt_Name (wr_Tools r) = (if sp_ToolAllowList demo_reviewer = [] then tool_names demo_registry
            else filter (\<lambda>n. n \<in> set (sp_ToolAllowList demo_reviewer)) (tool_names demo_registry)))"
    by (rule agent_conversations [where sent = fst and kind = "''anthropic''" and p = demo_anthropic])
      (simp_all add: demo_route demo_registry_ok demo_handler)
  ultimately show ?thesis by (auto simp: wire_body_def split: if_splits)
qed

end
