(* ===== verification/File_System.thy ===== *)
theory File_System
  imports Go_Filepath
begin

text \<open>
  A Unix file system with symbolic links, and the calls of Go's package \<open>os\<close> and of
  \<open>path/filepath\<close> on it that the sources use.

  A file system maps a canonical absolute path, the list of its names, to a node. \<open>walk\<close> is the
  resolution of a path: at most 40 links in the kernel, 255 in \<open>filepath.EvalSymlinks\<close>. What a
  call does beside the file system, such as permissions or a full disk, is the argument
  \<open>deny\<close>: an error the call fails with, at a path. A write that fails with \<open>ESHORT n\<close> has opened
  the file and written \<open>n\<close> bytes; every other failing call changes nothing. \<open>os.Remove\<close> has such an
  argument of its own, since the code ignores its error.
\<close>

section \<open>Nodes and resolution\<close>

datatype fs_node = Dir | File string | Link string

type_synonym fs_path = "string list"
type_synonym file_system = "fs_path \<Rightarrow> fs_node option"

datatype fs_error = ENOENT | ENOTDIR | EISDIR | EEXIST | ELOOP | EDENIED string | ESHORT nat string

function walk :: "file_system \<Rightarrow> nat \<Rightarrow> bool \<Rightarrow> bool \<Rightarrow> fs_path \<Rightarrow> string list \<Rightarrow> fs_error + fs_path" where
  "walk fs n follow create cur [] = Inr cur"
| "walk fs n follow create cur (c # cs) =
     (if c = [] \<or> c = ''.'' then walk fs n follow create cur cs
      else if c = ''..'' then walk fs n follow create (butlast cur) cs
      else case fs (cur @ [c]) of
        None \<Rightarrow> if create \<and> cs = [] then Inr (cur @ [c]) else Inl ENOENT
      | Some Dir \<Rightarrow> walk fs n follow create (cur @ [c]) cs
      | Some (File _) \<Rightarrow> if cs = [] then Inr (cur @ [c]) else Inl ENOTDIR
      | Some (Link t) \<Rightarrow>
          if cs = [] \<and> \<not> follow then Inr (cur @ [c])
          else case n of
            0 \<Rightarrow> Inl ELOOP
          | Suc m \<Rightarrow> walk fs m follow create (if path_is_abs t then [] else cur) (path_elements t @ cs))"
  by pat_completeness auto
termination
  by (relation "inv_image (less_than <*lex*> less_than) (\<lambda>(fs, n, follow, create, cur, cs). (n, length cs))") auto

declare walk.simps(2) [simp del]

definition max_links :: nat where "max_links = 40"

definition max_eval_links :: nat where "max_eval_links = 255"

section \<open>Queries\<close>

definition fs_stat :: "file_system \<Rightarrow> string \<Rightarrow> fs_error + fs_node" where
  "fs_stat fs p =
     (case walk fs max_links True False [] (path_elements p) of
        Inl e \<Rightarrow> Inl e
      | Inr q \<Rightarrow> (case fs q of None \<Rightarrow> Inl ENOENT | Some x \<Rightarrow> Inr x))"

definition fs_lstat :: "file_system \<Rightarrow> string \<Rightarrow> fs_error + fs_node" where
  "fs_lstat fs p =
     (case walk fs max_links False False [] (path_elements p) of
        Inl e \<Rightarrow> Inl e
      | Inr q \<Rightarrow> (case fs q of None \<Rightarrow> Inl ENOENT | Some x \<Rightarrow> Inr x))"

definition eval_symlinks :: "file_system \<Rightarrow> string \<Rightarrow> fs_error + string" where
  "eval_symlinks fs p =
     (case walk fs max_eval_links True False [] (path_elements p) of Inl e \<Rightarrow> Inl e | Inr q \<Rightarrow> Inr (abs_path q))"

definition read_file :: "file_system \<Rightarrow> string \<Rightarrow> fs_error + string" where
  "read_file fs p =
     (case fs_stat fs p of Inl e \<Rightarrow> Inl e | Inr (File s) \<Rightarrow> Inr s | Inr _ \<Rightarrow> Inl EISDIR)"

section \<open>Updates\<close>

text \<open>\<open>os.Mkdir\<close>: a missing last element, in a directory that exists; a link is not followed.\<close>

definition fs_mkdir :: "(fs_path \<Rightarrow> fs_error option) \<Rightarrow> file_system \<Rightarrow> string \<Rightarrow> fs_error option \<times> file_system" where
  "fs_mkdir deny fs p =
     (case walk fs max_links False True [] (path_elements p) of
        Inl e \<Rightarrow> (Some e, fs)
      | Inr q \<Rightarrow>
          if fs q \<noteq> None then (Some EEXIST, fs)
          else case deny q of Some e \<Rightarrow> (Some e, fs) | None \<Rightarrow> (None, fs(q := Some Dir)))"

text \<open>\<open>os.MkdirAll\<close> on a clean absolute path, given by its elements.\<close>

function mkdir_all :: "(fs_path \<Rightarrow> fs_error option) \<Rightarrow> file_system \<Rightarrow> string list \<Rightarrow> fs_error option \<times> file_system" where
  "mkdir_all deny fs es =
     (case fs_stat fs (abs_path es) of
        Inr Dir \<Rightarrow> (None, fs)
      | Inr _ \<Rightarrow> (Some ENOTDIR, fs)
      | Inl _ \<Rightarrow>
          (case (if length es \<le> 1 then (None, fs) else mkdir_all deny fs (butlast es)) of
             (Some e, fs1) \<Rightarrow> (Some e, fs1)
           | (None, fs1) \<Rightarrow>
               (case fs_mkdir deny fs1 (abs_path es) of
                  (None, fs2) \<Rightarrow> (None, fs2)
                | (Some e, fs2) \<Rightarrow>
                    if fs_lstat fs2 (abs_path es) = Inr Dir then (None, fs2) else (Some e, fs2))))"
  by pat_completeness auto
termination by (relation "measure (\<lambda>(deny, fs, es). length es)") auto

declare mkdir_all.simps [simp del]

text \<open>\<open>os.WriteFile\<close>: creates or truncates; a link is followed, also one to a missing file.
  A short write leaves the bytes written.\<close>

definition write_file :: "(fs_path \<Rightarrow> fs_error option) \<Rightarrow> file_system \<Rightarrow> string \<Rightarrow> string \<Rightarrow> fs_error option \<times> file_system" where
  "write_file deny fs p s =
     (case walk fs max_links True True [] (path_elements p) of
        Inl e \<Rightarrow> (Some e, fs)
      | Inr q \<Rightarrow>
          if fs q = Some Dir then (Some EISDIR, fs)
          else case deny q of
            Some e \<Rightarrow> (Some e, case e of ESHORT n _ \<Rightarrow> fs(q := Some (File (take n s))) | _ \<Rightarrow> fs)
          | None \<Rightarrow> (None, fs(q := Some (File s))))"

text \<open>\<open>os.CreateTemp\<close>: the first of the names tried that is free; \<open>tries\<close> are the random parts.\<close>

fun create_temp ::
  "(fs_path \<Rightarrow> fs_error option) \<Rightarrow> file_system \<Rightarrow> string \<Rightarrow> string \<Rightarrow> string \<Rightarrow> string list
   \<Rightarrow> (fs_error + string) \<times> file_system" where
  "create_temp deny fs dir before after [] = (Inl EEXIST, fs)"
| "create_temp deny fs dir before after (r # rs) =
     (let p = path_join [dir, before @ r @ after] in
      case walk fs max_links False True [] (path_elements p) of
        Inl e \<Rightarrow> (Inl e, fs)
      | Inr q \<Rightarrow>
          if fs q \<noteq> None then create_temp deny fs dir before after rs
          else case deny q of Some e \<Rightarrow> (Inl e, fs) | None \<Rightarrow> (Inr p, fs(q := Some (File []))))"

text \<open>\<open>os.Rename\<close> of a file onto a path; a link at the target is replaced, not followed.\<close>

definition fs_rename :: "(fs_path \<Rightarrow> fs_error option) \<Rightarrow> file_system \<Rightarrow> string \<Rightarrow> string \<Rightarrow> fs_error option \<times> file_system" where
  "fs_rename deny fs old new =
     (case (walk fs max_links False False [] (path_elements old), walk fs max_links False True [] (path_elements new)) of
        (Inl e, _) \<Rightarrow> (Some e, fs)
      | (Inr _, Inl e) \<Rightarrow> (Some e, fs)
      | (Inr q, Inr r) \<Rightarrow>
          if fs r = Some Dir then (Some EEXIST, fs)
          else case deny r of Some e \<Rightarrow> (Some e, fs) | None \<Rightarrow> (None, (fs(q := None))(r := fs q)))"

text \<open>\<open>os.Remove\<close> of a file that has just been created, or of a free path; \<open>kept\<close> is its error.\<close>

definition fs_remove :: "(fs_path \<Rightarrow> fs_error option) \<Rightarrow> file_system \<Rightarrow> string \<Rightarrow> file_system" where
  "fs_remove kept fs p =
     (case walk fs max_links False False [] (path_elements p) of
        Inl _ \<Rightarrow> fs
      | Inr q \<Rightarrow> if kept q = None then fs(q := None) else fs)"

section \<open>Well-formed file systems\<close>

text \<open>The root is a directory, everything lies in a directory, and names are plain.\<close>

definition fs_ok :: "file_system \<Rightarrow> bool" where
  "fs_ok fs \<longleftrightarrow> fs [] = Some Dir \<and> (\<forall>p c. fs (p @ [c]) \<noteq> None \<longrightarrow> fs p = Some Dir \<and> plain_element c)"

lemma fs_ok_parent: "fs_ok fs \<Longrightarrow> fs (p @ [c]) \<noteq> None \<Longrightarrow> fs p = Some Dir"
  by (simp add: fs_ok_def)

lemma fs_ok_prefix: "fs_ok fs \<Longrightarrow> fs (p @ q) \<noteq> None \<Longrightarrow> q \<noteq> [] \<Longrightarrow> fs p = Some Dir"
proof (induction q rule: rev_induct)
  case (snoc c q)
  then have "fs (p @ q) = Some Dir" using fs_ok_parent [of fs "p @ q" c] by simp
  with snoc show ?case by (cases "q = []") auto
qed simp

lemma fs_ok_plain: "fs_ok fs \<Longrightarrow> fs p \<noteq> None \<Longrightarrow> list_all plain_element p"
proof (induction p rule: rev_induct)
  case (snoc c p)
  then have "fs p = Some Dir" "plain_element c" by (auto simp: fs_ok_def)
  with snoc show ?case by simp
qed simp

text \<open>A resolved path is canonical: it exists, or it is free in a directory that exists.\<close>

definition no_slash :: "string list \<Rightarrow> bool" where
  "no_slash cs \<longleftrightarrow> list_all (\<lambda>c. CHR ''/'' \<notin> set c) cs"

lemma no_slash_simps [simp]: "no_slash []" "no_slash (c # cs) \<longleftrightarrow> CHR ''/'' \<notin> set c \<and> no_slash cs"
  "no_slash (bs @ cs) \<longleftrightarrow> no_slash bs \<and> no_slash cs"
  by (simp_all add: no_slash_def)

lemma no_slash_elements [simp]: "no_slash (path_elements p)"
  using split_on_no_sep by (auto simp: no_slash_def list_all_iff path_elements_def)

lemma fs_ok_butlast: "fs_ok fs \<Longrightarrow> fs cur = Some Dir \<Longrightarrow> fs (butlast cur) = Some Dir"
  by (cases cur rule: rev_cases) (auto simp: fs_ok_def)

lemma fs_ok_root [simp]: "fs_ok fs \<Longrightarrow> fs [] = Some Dir"
  by (simp add: fs_ok_def)

definition fs_place :: "file_system \<Rightarrow> fs_path \<Rightarrow> bool" where
  "fs_place fs q \<longleftrightarrow> fs q \<noteq> None \<or> (\<exists>p c. q = p @ [c] \<and> fs p = Some Dir \<and> plain_element c)"

lemma walk_place:
  assumes "fs_ok fs" "fs cur = Some Dir" "no_slash cs" "walk fs n follow create cur cs = Inr q"
  shows "fs_place fs q \<and> (\<not> create \<longrightarrow> fs q \<noteq> None) \<and> (follow \<longrightarrow> (\<forall>t. fs q \<noteq> Some (Link t)))"
  using assms
proof (induction fs n follow create cur cs rule: walk.induct)
  case (2 fs n follow create cur c cs)
  note unf = walk.simps(2) [of fs n follow create cur c cs]
  consider "c = [] \<or> c = ''.''" | "c = ''..''" | "c \<noteq> []" "c \<noteq> ''.''" "c \<noteq> ''..''" by blast
  then show ?case
  proof cases
    case 1
    with 2 show ?thesis by (simp add: unf)
  next
    case 2: 2
    with "2.IH"(2) "2.prems" show ?thesis by (simp add: walk.simps(2) fs_ok_butlast)
  next
    case 3
    then have pc: "plain_element c" using "2.prems" by (simp add: plain_element_def)
    show ?thesis
    proof (cases "fs (cur @ [c])")
      case None
      with 3 pc "2.prems" show ?thesis by (auto simp: unf fs_place_def split: if_splits)
    next
      case (Some x)
      show ?thesis
      proof (cases x)
        case Dir
        with Some 3 "2.IH"(3) "2.prems" show ?thesis by (simp add: unf)
      next
        case (File f)
        with Some 3 "2.prems" show ?thesis by (auto simp: unf fs_place_def split: if_splits)
      next
        case (Link t)
        show ?thesis
        proof (cases "cs = [] \<and> \<not> follow")
          case True
          then have "walk fs n follow create cur (c # cs) = Inr (cur @ [c])" using Some Link 3 by (simp add: walk.simps(2))
          with "2.prems"(4) Some Link True show ?thesis by (auto simp: fs_place_def)
        next
          case False
          then obtain m where n: "n = Suc m" using Some Link 3 "2.prems" by (cases n) (auto simp: walk.simps(2))
          have "walk fs m follow create (if path_is_abs t then [] else cur) (path_elements t @ cs) = Inr q"
            using "2.prems"(4) Some Link 3 False n by (auto simp: walk.simps(2))
          with "2.IH"(4) [of x t m] Some Link 3 False n "2.prems" show ?thesis by simp
        qed
      qed
    qed
  qed
qed (auto simp: fs_place_def)

lemma walk_cons_plain:
  "plain_element c \<Longrightarrow> walk fs n follow create cur (c # cs) =
     (case fs (cur @ [c]) of
        None \<Rightarrow> if create \<and> cs = [] then Inr (cur @ [c]) else Inl ENOENT
      | Some Dir \<Rightarrow> walk fs n follow create (cur @ [c]) cs
      | Some (File _) \<Rightarrow> if cs = [] then Inr (cur @ [c]) else Inl ENOTDIR
      | Some (Link t) \<Rightarrow>
          if cs = [] \<and> \<not> follow then Inr (cur @ [c])
          else case n of
            0 \<Rightarrow> Inl ELOOP
          | Suc m \<Rightarrow> walk fs m follow create (if path_is_abs t then [] else cur) (path_elements t @ cs))"
  by (auto simp: walk.simps(2) plain_element_def)

text \<open>Walking down directories that are there changes nothing.\<close>

lemma walk_down:
  "fs_ok fs \<Longrightarrow> fs (cur @ ds) = Some Dir \<Longrightarrow> walk fs n follow create cur (ds @ cs) = walk fs n follow create (cur @ ds) cs"
proof (induction ds arbitrary: cur)
  case (Cons d ds)
  have "plain_element d" using Cons.prems fs_ok_plain [of fs "cur @ d # ds"] by simp
  moreover have "fs (cur @ [d]) = Some Dir"
    using Cons.prems fs_ok_prefix [of fs "cur @ [d]" ds] by (cases "ds = []") auto
  moreover have "walk fs n follow create (cur @ [d]) (ds @ cs) = walk fs n follow create (cur @ d # ds) cs"
    using Cons.IH [of "cur @ [d]"] Cons.prems by simp
  ultimately show ?case by (simp add: walk_cons_plain)
qed simp

lemma walk_dir [simp]: "fs_ok fs \<Longrightarrow> fs ds = Some Dir \<Longrightarrow> walk fs n follow create [] ds = Inr ds"
  using walk_down [of fs "[]" ds n follow create "[]"] by simp

lemma walk_last:
  assumes "fs_ok fs" "fs ds = Some Dir" "plain_element c"
  shows "walk fs n follow create [] (ds @ [c]) =
    (case fs (ds @ [c]) of None \<Rightarrow> if create then Inr (ds @ [c]) else Inl ENOENT
     | Some (Link t) \<Rightarrow> (if follow then
         case n of 0 \<Rightarrow> Inl ELOOP
         | Suc m \<Rightarrow> walk fs m follow create (if path_is_abs t then [] else ds) (path_elements t)
         else Inr (ds @ [c]))
     | Some _ \<Rightarrow> Inr (ds @ [c]))"
proof (cases "fs (ds @ [c])")
  case (Some x)
  with walk_down [of fs "[]" ds n follow create "[c]"] assms show ?thesis
    by (cases x; cases n) (auto simp: walk_cons_plain)
qed (use walk_down [of fs "[]" ds n follow create "[c]"] assms in \<open>simp add: walk_cons_plain\<close>)

lemma walk_entry:
  "fs_ok fs \<Longrightarrow> fs ds = Some Dir \<Longrightarrow> plain_element c \<Longrightarrow> walk fs n False True [] (ds @ [c]) = Inr (ds @ [c])"
  by (simp add: walk_last split: option.splits fs_node.splits)

lemma walk_file:
  "fs_ok fs \<Longrightarrow> fs ds = Some Dir \<Longrightarrow> plain_element c \<Longrightarrow> fs (ds @ [c]) = Some (File s) \<Longrightarrow>
   walk fs n follow create [] (ds @ [c]) = Inr (ds @ [c])"
  by (simp add: walk_last)

lemma walk_missing:
  "fs_ok fs \<Longrightarrow> fs ds = Some Dir \<Longrightarrow> plain_element c \<Longrightarrow> fs (ds @ [c]) = None \<Longrightarrow>
   walk fs n follow False [] (ds @ [c]) = Inl ENOENT"
  by (simp add: walk_last)

section \<open>What the updates keep\<close>

lemma fs_ok_children: "fs_ok fs \<Longrightarrow> fs q \<noteq> Some Dir \<Longrightarrow> fs (q @ [c]) = None"
  unfolding fs_ok_def by blast

lemma fs_ok_add:
  assumes "fs_ok fs" "fs_place fs q" "fs q = None"
  shows "fs_ok (fs(q := Some x))"
proof -
  obtain p c where q: "q = p @ [c]" "fs p = Some Dir" "plain_element c"
    using assms by (auto simp: fs_place_def)
  have "fs (q @ [d]) = None" for d using assms fs_ok_children by simp
  then show ?thesis using assms q unfolding fs_ok_def by auto
qed

lemma fs_ok_replace:
  assumes "fs_ok fs" "fs q \<noteq> None" "fs q \<noteq> Some Dir"
  shows "fs_ok (fs(q := Some x))"
proof -
  have "fs (q @ [d]) = None" for d using assms fs_ok_children by simp
  then show ?thesis using assms unfolding fs_ok_def by auto
qed

lemma fs_ok_delete:
  assumes "fs_ok fs" "fs q \<noteq> Some Dir"
  shows "fs_ok (fs(q := None))"
proof -
  have "fs (q @ [d]) = None" for d using assms fs_ok_children by simp
  then show ?thesis using assms unfolding fs_ok_def by auto
qed

text \<open>The later file system only has more directories.\<close>

definition dirs_added :: "file_system \<Rightarrow> file_system \<Rightarrow> bool" where
  "dirs_added fs fs' \<longleftrightarrow> (\<forall>p. fs' p = fs p \<or> fs p = None \<and> fs' p = Some Dir)"

lemma dirs_added_refl [simp]: "dirs_added fs fs"
  by (simp add: dirs_added_def)

lemma dirs_added_trans: "dirs_added fs fs1 \<Longrightarrow> dirs_added fs1 fs2 \<Longrightarrow> dirs_added fs fs2"
  unfolding dirs_added_def by metis

lemma mkdir_keeps:
  assumes "fs_ok fs" "fs_mkdir deny fs p = (e, fs')"
  shows "fs_ok fs' \<and> dirs_added fs fs'"
proof (cases "walk fs max_links False True [] (path_elements p)")
  case (Inr q)
  then have "fs_place fs q" using walk_place assms(1) by (metis fs_ok_root no_slash_elements)
  then show ?thesis using assms Inr
    by (auto simp: fs_mkdir_def fs_ok_add dirs_added_def split: if_splits option.splits)
qed (use assms in \<open>auto simp: fs_mkdir_def\<close>)

lemma mkdir_all_keeps:
  "fs_ok fs \<Longrightarrow> mkdir_all deny fs es = (e, fs') \<Longrightarrow> fs_ok fs' \<and> dirs_added fs fs'"
proof (induction deny fs es arbitrary: e fs' rule: mkdir_all.induct)
  case (1 deny fs es)
  obtain e1 fs1 where r: "(if length es \<le> 1 then (None, fs) else mkdir_all deny fs (butlast es)) = (e1, fs1)"
    by (metis prod.exhaust)
  obtain e2 fs2 where m: "fs_mkdir deny fs1 (abs_path es) = (e2, fs2)" by (metis prod.exhaust)
  have cases3: "fs' = fs \<or> (\<exists>x. fs_stat fs (abs_path es) = Inl x) \<and> (fs' = fs1 \<or> e1 = None \<and> fs' = fs2)"
    using "1.prems"(2) r m
    by (subst (asm) mkdir_all.simps) (auto split: sum.splits fs_node.splits option.splits if_splits)
  have 1: "fs_ok fs1 \<and> dirs_added fs fs1" if "fs_stat fs (abs_path es) = Inl x" for x
    using "1.IH" [OF that] "1.prems"(1) r by (auto split: if_splits)
  then have "fs_ok fs2 \<and> dirs_added fs fs2" if "fs_stat fs (abs_path es) = Inl x" for x
    using that mkdir_keeps [OF _ m] dirs_added_trans by blast
  with 1 cases3 "1.prems"(1) show ?case by auto
qed

text \<open>What exists keeps its resolution when directories are added.\<close>

lemma walk_mono:
  assumes "dirs_added fs fs'" "walk fs n follow False cur cs = Inr q"
  shows "walk fs' n follow False cur cs = Inr q"
proof -
  have d: "fs' p = Some x" if "fs p = Some x" for p x using assms(1) that unfolding dirs_added_def by (metis option.distinct(1))
  have "walk fs n follow create cur cs = Inr q \<Longrightarrow> \<not> create \<Longrightarrow> walk fs' n follow create cur cs = Inr q" for create
    using d
  proof (induction fs n follow create cur cs rule: walk.induct)
    case (2 fs n follow create cur c cs)
    consider "c = [] \<or> c = ''.'' \<or> c = ''..''" | "c \<noteq> []" "c \<noteq> ''.''" "c \<noteq> ''..''" by blast
    then show ?case
    proof cases
      case 1
      with 2 show ?thesis by (auto simp: walk.simps(2))
    next
      case 3: 2
      then obtain x where x: "fs (cur @ [c]) = Some x" "fs' (cur @ [c]) = Some x"
        using "2.prems" by (cases "fs (cur @ [c])") (auto simp: walk.simps(2))
      show ?thesis
      proof (cases x)
        case (Link t)
        then show ?thesis using "2.IH"(4) [of x t] "2.prems" x 3 by (cases n) (auto simp: walk.simps(2) split: if_splits)
      qed (use "2.IH"(3) [of x] "2.prems" x 3 in \<open>auto simp: walk.simps(2)\<close>)
    qed
  qed simp
  with assms(2) show ?thesis by blast
qed

lemma eval_mono: "dirs_added fs fs' \<Longrightarrow> eval_symlinks fs p = Inr q \<Longrightarrow> eval_symlinks fs' p = Inr q"
  by (auto simp: eval_symlinks_def split: sum.splits dest: walk_mono)

lemma dirs_added_Some: "dirs_added fs fs' \<Longrightarrow> fs p = Some x \<Longrightarrow> fs' p = Some x"
  unfolding dirs_added_def by (metis option.distinct(1))

end
