(* ===== verification/Write_Tool.thy ===== *)
theory Write_Tool
  imports File_System
begin

text \<open>
  The file access of the agent's tools in \<open>internal/ai/tools/iac_tools.go\<close>: the containment of
  paths, the refusal of links, the atomic write of \<open>write_hcl\<close>, and reading a regular file.

  \<open>cwd\<close> is the working directory, \<open>deny\<close> what the file system refuses, \<open>io\<close> the outcome of
  writing, changing the mode, closing and removing the temporary file, \<open>rnds\<close> the random numbers tried for
  its name. Between the calls of one write nothing else changes the file system.
\<close>

section \<open>Containment\<close>

datatype write_error =
    RelPathRequired
  | PathAbsolute string
  | PathEscapes string
  | RelFailed string string
  | NotTerraform
  | RefusedLink string
  | LstatFailed string fs_error
  | WriteOS fs_error

definition scope_path_within_project :: "string \<Rightarrow> file_system \<Rightarrow> string \<Rightarrow> string \<Rightarrow> write_error + string" where
  "scope_path_within_project cwd fs project_dir rel =
     (if path_is_abs rel then Inl (PathAbsolute rel)
      else let cleaned = path_clean rel in
        if cleaned = ''.'' \<or> cleaned = ''..'' \<or> has_prefix cleaned ''../'' then Inl (PathEscapes rel)
        else
          let abs_root0 = path_abs cwd project_dir;
              abs_root = (case eval_symlinks fs abs_root0 of Inr p \<Rightarrow> p | Inl _ \<Rightarrow> abs_root0);
              abs_full = path_join [abs_root, cleaned]
          in case path_rel abs_root abs_full of
            None \<Rightarrow> Inl (RelFailed abs_root abs_full)
          | Some rel2 \<Rightarrow>
              if rel2 = ''..'' \<or> has_prefix rel2 ''../'' then Inl (PathEscapes rel) else Inr abs_full)"

fun refuse_walk :: "file_system \<Rightarrow> string \<Rightarrow> string list \<Rightarrow> write_error option" where
  "refuse_walk fs cur [] = None"
| "refuse_walk fs cur (seg # segs) =
     (let cur1 = path_join [cur, seg] in
      case fs_lstat fs cur1 of
        Inl e \<Rightarrow> if e = ENOENT then None else Some (LstatFailed cur1 e)
      | Inr (Link _) \<Rightarrow> Some (RefusedLink cur1)
      | Inr _ \<Rightarrow> refuse_walk fs cur1 segs)"

definition refuse_symlink_on_path :: "file_system \<Rightarrow> string \<Rightarrow> string \<Rightarrow> write_error option" where
  "refuse_symlink_on_path fs project_dir full =
     (let canon = (case eval_symlinks fs project_dir of Inr p \<Rightarrow> p | Inl _ \<Rightarrow> project_dir) in
      case path_rel canon full of
        None \<Rightarrow> Some (RelFailed canon full)
      | Some rel \<Rightarrow> refuse_walk fs canon (butlast (split_on (CHR ''/'') rel)))"

section \<open>The write\<close>

datatype io_step = IoWrite | IoChmod | IoClose | IoRemove

definition atomic_write ::
  "(fs_path \<Rightarrow> fs_error option) \<Rightarrow> (io_step \<Rightarrow> fs_error option) \<Rightarrow> nat list \<Rightarrow> file_system \<Rightarrow> string \<Rightarrow> string
   \<Rightarrow> write_error option \<times> file_system" where
  "atomic_write deny io rnds fs full content =
     (case create_temp deny fs (path_dir full) (path_base full @ ''.'') ''.tmp'' (map dec rnds) of
        (Inl e, fs1) \<Rightarrow> (Some (WriteOS e), fs1)
      | (Inr tmp, fs1) \<Rightarrow>
          let remove = (\<lambda>fs'. fs_remove (\<lambda>_. io IoRemove) fs' tmp) in
          (case write_file (\<lambda>_. io IoWrite) fs1 tmp content of
             (Some e, fs2) \<Rightarrow> (Some (WriteOS e), remove fs2)
           | (None, fs2) \<Rightarrow>
               (case io IoChmod of
                  Some e \<Rightarrow> (Some (WriteOS e), remove fs2)
                | None \<Rightarrow>
                    (case io IoClose of
                       Some e \<Rightarrow> (Some (WriteOS e), remove fs2)
                     | None \<Rightarrow>
                         (case fs_rename deny fs2 tmp full of
                            (Some e, fs3) \<Rightarrow> (Some (WriteOS e), remove fs3)
                          | (None, fs3) \<Rightarrow> (None, remove fs3))))))"

record write_result =
  wx_Path :: string
  wx_Bytes :: nat
  wx_Message :: string

definition write_hcl ::
  "(fs_path \<Rightarrow> fs_error option) \<Rightarrow> (io_step \<Rightarrow> fs_error option) \<Rightarrow> nat list \<Rightarrow> string \<Rightarrow> string
   \<Rightarrow> string \<Rightarrow> string \<Rightarrow> file_system \<Rightarrow> (write_error + write_result) \<times> file_system" where
  "write_hcl deny io rnds cwd project_dir rel content fs =
     (if rel = [] then (Inl RelPathRequired, fs)
      else case scope_path_within_project cwd fs project_dir rel of
        Inl e \<Rightarrow> (Inl e, fs)
      | Inr full \<Rightarrow>
          if \<not> has_suffix full ''.tf'' then (Inl NotTerraform, fs)
          else case mkdir_all deny fs (path_elements (path_dir full)) of
            (Some e, fs1) \<Rightarrow> (Inl (WriteOS e), fs1)
          | (None, fs1) \<Rightarrow>
              (case refuse_symlink_on_path fs1 project_dir full of
                 Some e \<Rightarrow> (Inl e, fs1)
               | None \<Rightarrow>
                   (case atomic_write deny io rnds fs1 full content of
                      (Some e, fs2) \<Rightarrow> (Inl e, fs2)
                    | (None, fs2) \<Rightarrow>
                        (Inr \<lparr>wx_Path = rel, wx_Bytes = length content,
                           wx_Message = ''wrote '' @ dec (length content) @ '' bytes to '' @ rel\<rparr>, fs2))))"

section \<open>Reading\<close>

datatype read_error = ReadOS fs_error | ReadRefusedLink string | ReadNotRegular string

definition read_regular_file :: "file_system \<Rightarrow> string \<Rightarrow> read_error + string" where
  "read_regular_file fs path =
     (case fs_lstat fs path of
        Inl e \<Rightarrow> Inl (ReadOS e)
      | Inr (Link _) \<Rightarrow> Inl (ReadRefusedLink path)
      | Inr Dir \<Rightarrow> Inl (ReadNotRegular path)
      | Inr (File _) \<Rightarrow> (case read_file fs path of Inl e \<Rightarrow> Inl (ReadOS e) | Inr s \<Rightarrow> Inr s))"

section \<open>Facts on paths below a project\<close>

text \<open>What the containment check lets through, once the project directory has been resolved.\<close>

lemma scope_below:
  assumes "scope_path_within_project cwd fs project_dir rel = Inr full"
    "eval_symlinks fs (path_abs cwd project_dir) = Inr (abs_path root)" "list_all plain_element root" "root \<noteq> []"
  shows "\<exists>es. es \<noteq> [] \<and> list_all plain_element es \<and> full = abs_path (root @ es)"
proof -
  have c: "\<not> path_is_abs rel" "path_clean rel \<noteq> ''.''" "path_clean rel \<noteq> ''..''" "\<not> has_prefix (path_clean rel) ''../''"
    and full: "full = path_join [abs_path root, path_clean rel]"
    using assms(1,2) by (auto simp: scope_path_within_project_def Let_def split: if_splits option.splits)
  from clean_relative [OF c] obtain es where es: "es \<noteq> []" "list_all plain_element es" "path_clean rel = join ''/'' es"
    by blast
  then have "full = abs_path (root @ es)" using full assms(3,4) join_root_relative [of root es] by simp
  with es show ?thesis by blast
qed

text \<open>After the check every directory between the project and the file is a directory, unless
  the path does not resolve at all.\<close>

lemma refuse_walk_ok:
  assumes "fs_ok fs" "fs cur = Some Dir" "cur \<noteq> []" "list_all plain_element segs" "plain_element x"
    "refuse_walk fs (abs_path cur) segs = None" "walk fs n follow create cur (segs @ [x]) = Inr q"
  shows "fs (cur @ segs) = Some Dir"
  using assms(2-7)
proof (induction segs arbitrary: cur)
  case (Cons seg segs)
  have pc: "list_all plain_element (cur @ [seg])" using Cons.prems fs_ok_plain [OF assms(1), of cur] by simp
  then have j: "path_join [abs_path cur, seg] = abs_path (cur @ [seg])"
    using Cons.prems(2) join_abs_path [of cur "[seg]"] by simp
  have l: "fs_lstat fs (abs_path (cur @ [seg])) =
      (case fs (cur @ [seg]) of None \<Rightarrow> Inl ENOENT | Some y \<Rightarrow> Inr y)"
    using pc walk_last [OF assms(1) Cons.prems(1), of seg] by (simp add: fs_lstat_def split: option.splits fs_node.splits)
  show ?case
  proof (cases "fs (cur @ [seg])")
    case (Some y)
    then have "y = Dir \<and> walk fs n follow create (cur @ [seg]) (segs @ [x]) = Inr q"
      using Cons.prems l by (cases y) (auto simp: walk_cons_plain Let_def j)
    moreover have "refuse_walk fs (abs_path (cur @ [seg])) segs = None"
      using Cons.prems(5) l Some calculation by (simp add: Let_def j)
    ultimately show ?thesis using Cons.IH [of "cur @ [seg]"] Cons.prems(3,4) Some by simp
  qed (use Cons.prems in \<open>auto simp: walk_cons_plain\<close>)
qed simp

lemma refuse_ok:
  assumes "fs_ok fs" "fs root = Some Dir" "root \<noteq> []" "eval_symlinks fs project_dir = Inr (abs_path root)"
    "list_all plain_element (mids @ [e])" "refuse_symlink_on_path fs project_dir (abs_path (root @ mids @ [e])) = None"
    "plain_element x" "walk fs n follow create [] (root @ mids @ [x]) = Inr q"
  shows "fs (root @ mids) = Some Dir"
proof -
  have pr: "list_all plain_element root" using assms(1,2) fs_ok_plain by fastforce
  then have "path_rel (abs_path root) (abs_path (root @ mids @ [e])) = Some (join ''/'' (mids @ [e]))"
    using rel_abs_path [of root "mids @ [e]"] assms(3,5) by simp
  moreover have "split_on (CHR ''/'') (join ''/'' (mids @ [e])) = mids @ [e]"
    using assms(5) by (intro split_on_join) (auto simp: list_all_iff plain_element_def)
  ultimately have "refuse_walk fs (abs_path root) mids = None"
    using assms(4,6) by (simp add: refuse_symlink_on_path_def Let_def)
  moreover have "walk fs n follow create root (mids @ [x]) = Inr q"
    using assms(1,2,8) walk_down [of fs "[]" root n follow create "mids @ [x]"] by simp
  ultimately show ?thesis using refuse_walk_ok assms(1,2,3,5,7) by simp
qed

section \<open>What a write changes\<close>

lemma of_char_47: "(of_char (CHR ''/'') :: nat) = 47"
  by simp

lemma dec_no_slash: "CHR ''/'' \<notin> set (dec n)"
proof (induction n rule: dec.induct)
  case (1 n)
  have "CHR ''/'' \<noteq> digit_char d" if "d < 10" for d
  proof
    assume "CHR ''/'' = digit_char d"
    then have "(of_char (digit_char d) :: nat) = 47" by (metis of_char_47)
    with of_digit_char [OF that] show False by simp
  qed
  with 1 show ?case by (cases "n < 10") (auto simp: dec.simps [of n])
qed

lemma temp_name_plain: "plain_element e \<Longrightarrow> plain_element ((e @ ''.'') @ dec n @ ''.tmp'') \<and> (e @ ''.'') @ dec n @ ''.tmp'' \<noteq> e"
  using dec_no_slash by (auto simp: plain_element_def append_eq_Cons_conv)

lemma create_temp_spec:
  assumes "fs_ok fs" "list_all plain_element dir" "dir \<noteq> []" "\<forall>r \<in> set rs. plain_element (before @ r @ after)"
    "\<forall>x q. plain_element x \<longrightarrow> walk fs max_links False True [] (dir @ [x]) = Inr q \<longrightarrow> fs dir = Some Dir"
    "create_temp deny fs (abs_path dir) before after rs = (res, fs1)"
  shows "(case res of Inl _ \<Rightarrow> fs1 = fs
    | Inr p \<Rightarrow> \<exists>r \<in> set rs. p = abs_path (dir @ [before @ r @ after]) \<and> fs dir = Some Dir
        \<and> fs (dir @ [before @ r @ after]) = None \<and> fs1 = fs(dir @ [before @ r @ after] := Some (File [])))"
  using assms(4,6)
proof (induction rs)
  case (Cons r rs)
  let ?n = "before @ r @ after"
  have pl: "plain_element ?n" using Cons.prems by simp
  have j: "path_join [abs_path dir, ?n] = abs_path (dir @ [?n])"
    using assms(2,3) pl join_abs_path [of dir "[?n]"] by simp
  have el: "path_elements (abs_path (dir @ [?n])) = dir @ [?n]" using assms(2) pl by simp
  show ?case
  proof (cases "walk fs max_links False True [] (dir @ [?n])")
    case (Inl e)
    then show ?thesis using Cons.prems(2) by (auto simp: Let_def j el)
  next
    case (Inr q)
    then have d: "fs dir = Some Dir" using assms(5) pl by blast
    then have q: "q = dir @ [?n]"
      using Inr walk_last [OF assms(1) d pl, of max_links False True] by (auto split: option.splits fs_node.splits)
    show ?thesis
    proof (cases "fs q")
      case None
      then show ?thesis using Cons.prems(2) Inr q d by (auto simp: Let_def j el split: option.splits)
    next
      case (Some y)
      then have "create_temp deny fs (abs_path dir) before after rs = (res, fs1)"
        using Cons.prems(2) Inr by (simp add: Let_def j el)
      with Cons.IH Cons.prems(1) show ?thesis by (cases res) auto
    qed
  qed
qed auto

text \<open>A temporary file that could not be removed holds part of what was to be written.\<close>

definition temp_left :: "string \<Rightarrow> fs_path \<Rightarrow> file_system \<Rightarrow> file_system \<Rightarrow> bool" where
  "temp_left content dir fs fs' \<longleftrightarrow>
     (\<exists>x n. plain_element x \<and> has_suffix x ''.tmp'' \<and> fs dir = Some Dir \<and> fs (dir @ [x]) = None
        \<and> fs' = fs(dir @ [x] := Some (File (take n content))))"

text \<open>With a free name in an existing directory, a write replaces one file or nothing, unless the
  temporary file cannot be removed.\<close>

lemma atomic_write_spec:
  assumes "fs_ok fs" "list_all plain_element (dir @ [e])" "dir \<noteq> []"
    "\<forall>x q. plain_element x \<longrightarrow> walk fs max_links False True [] (dir @ [x]) = Inr q \<longrightarrow> fs dir = Some Dir"
    "atomic_write deny io rnds fs (abs_path (dir @ [e])) content = (res, fs')"
  shows "if res = None then fs dir = Some Dir \<and> fs (dir @ [e]) \<noteq> Some Dir \<and> fs' = fs(dir @ [e] := Some (File content))
    else fs' = fs \<or> io IoRemove \<noteq> None \<and> temp_left content dir fs fs'"
proof -
  have pl: "list_all plain_element dir" "plain_element e" using assms(2) by simp_all
  let ?full = "abs_path (dir @ [e])"
  obtain t fs1 where c: "create_temp deny fs (path_dir ?full) (path_base ?full @ ''.'') ''.tmp'' (map dec rnds) = (t, fs1)"
    by (metis prod.exhaust)
  have "create_temp deny fs (abs_path dir) (e @ ''.'') ''.tmp'' (map dec rnds) = (t, fs1)"
    using c pl assms(2) by simp
  moreover have "\<forall>r \<in> set (map dec rnds). plain_element ((e @ ''.'') @ r @ ''.tmp'')"
    using temp_name_plain [OF pl(2)] by auto
  ultimately have spec: "case t of Inl _ \<Rightarrow> fs1 = fs
    | Inr p \<Rightarrow> \<exists>r \<in> set (map dec rnds). p = abs_path (dir @ [(e @ ''.'') @ r @ ''.tmp'']) \<and> fs dir = Some Dir
        \<and> fs (dir @ [(e @ ''.'') @ r @ ''.tmp'']) = None \<and> fs1 = fs(dir @ [(e @ ''.'') @ r @ ''.tmp''] := Some (File []))"
    using create_temp_spec [OF assms(1) pl(1) assms(3) _ assms(4)] by blast
  show ?thesis
  proof (cases t)
    case (Inl x)
    then show ?thesis using spec assms(5) c by (auto simp: atomic_write_def)
  next
    case (Inr tmp)
    then obtain n where n: "tmp = abs_path (dir @ [(e @ ''.'') @ dec n @ ''.tmp''])" "fs dir = Some Dir"
        "fs (dir @ [(e @ ''.'') @ dec n @ ''.tmp'']) = None"
        "fs1 = fs(dir @ [(e @ ''.'') @ dec n @ ''.tmp''] := Some (File []))"
      using spec by (auto simp del: append_assoc append_Cons append_Nil)
    define nm where "nm = (e @ ''.'') @ dec n @ ''.tmp''"
    have nm: "plain_element nm" "nm \<noteq> e" using temp_name_plain [OF pl(2)] unfolding nm_def by auto
    have sf: "has_suffix nm ''.tmp''" unfolding nm_def has_suffix_iff by (metis append.assoc)
    have n': "tmp = abs_path (dir @ [nm])" "fs (dir @ [nm]) = None" "fs1 = fs(dir @ [nm] := Some (File []))"
      using n unfolding nm_def by auto
    have left: "temp_left content dir fs (fs(dir @ [nm] := Some (File (take k content))))" for k
      unfolding temp_left_def using nm(1) sf n(2) n'(2) by blast
    have plc: "fs_place fs (dir @ [nm])" using n(2) nm by (auto simp: fs_place_def)
    have ok: "fs_ok (fs(dir @ [nm] := Some (File s)))" for s using assms(1) plc n'(2) by (rule fs_ok_add)
    have d: "(fs(dir @ [nm] := Some (File s))) dir = Some Dir" for s using n(2) by simp
    have el: "path_elements tmp = dir @ [nm]" "path_elements ?full = dir @ [e]" using n'(1) nm pl assms(2) by simp_all
    have w: "walk (fs(dir @ [nm] := Some (File s))) max_links f cr [] (dir @ [nm]) = Inr (dir @ [nm])" for s f cr
      by (rule walk_file [OF ok d nm(1)]) simp
    have wf: "\<exists>k. write_file (\<lambda>_. io IoWrite) fs1 tmp content = (io IoWrite, fs(dir @ [nm] := Some (File (take k content))))
        \<and> (io IoWrite = None \<longrightarrow> take k content = content)"
    proof (cases "io IoWrite")
      case None
      then show ?thesis using w [of "[]" True True] by (intro exI [of _ "length content"]) (simp add: write_file_def el n'(3))
    next
      case (Some x)
      show ?thesis
      proof (cases x)
        case (ESHORT k m)
        then show ?thesis using Some w [of "[]" True True] by (intro exI [of _ k]) (simp add: write_file_def el n'(3))
      qed (use Some w [of "[]" True True] in \<open>intro exI [of _ 0], simp add: write_file_def el n'(3)\<close>)+
    qed
    then obtain k where wf: "write_file (\<lambda>_. io IoWrite) fs1 tmp content = (io IoWrite, fs(dir @ [nm] := Some (File (take k content))))"
      and full: "io IoWrite = None \<longrightarrow> take k content = content" using wf by (elim exE conjE)
    note full = full [rule_format]
    have rm: "fs_remove (\<lambda>_. io IoRemove) (fs(dir @ [nm] := Some (File s))) tmp =
        (if io IoRemove = None then fs else fs(dir @ [nm] := Some (File s)))" for s
    proof -
      have "(fs(dir @ [nm] := Some (File s)))(dir @ [nm] := None) = fs" using n'(2) by auto
      then show ?thesis unfolding fs_remove_def el w [of s False False] by simp
    qed
    have we: "walk (fs(dir @ [nm] := Some (File content))) max_links False True [] (dir @ [e]) = Inr (dir @ [e])"
      by (rule walk_entry [OF ok d pl(2)])
    have gone: "fs_remove kept (fs(dir @ [e] := Some (File content))) tmp = fs(dir @ [e] := Some (File content))"
      if "fs (dir @ [e]) \<noteq> Some Dir" for kept
    proof -
      have "fs_place fs (dir @ [e])" using n(2) pl by (auto simp: fs_place_def)
      then have "fs_ok (fs(dir @ [e] := Some (File content)))"
        using assms(1) that fs_ok_add fs_ok_replace by (cases "fs (dir @ [e])") auto
      moreover have "(fs(dir @ [e] := Some (File content))) dir = Some Dir" using n(2) by simp
      ultimately have "walk (fs(dir @ [e] := Some (File content))) max_links False False [] (dir @ [nm]) = Inl ENOENT"
        by (rule walk_missing [OF _ _ nm(1)]) (use nm n'(2) in simp)
      then show ?thesis by (simp add: fs_remove_def el)
    qed
    have ren: "fs_rename deny (fs(dir @ [nm] := Some (File content))) tmp ?full =
        (if fs (dir @ [e]) = Some Dir then (Some EEXIST, fs(dir @ [nm] := Some (File content)))
         else case deny (dir @ [e]) of Some x \<Rightarrow> (Some x, fs(dir @ [nm] := Some (File content)))
           | None \<Rightarrow> (None, fs(dir @ [e] := Some (File content))))"
      using w [of content False False] we nm n'(2)
      by (auto simp: fs_rename_def el fun_upd_twist fun_upd_idem split: option.splits)
    note aw = assms(5) [unfolded atomic_write_def c Inr prod.case sum.case Let_def wf]
    show ?thesis
    proof (cases "io IoWrite")
      case (Some x)
      then show ?thesis using aw rm left by auto
    next
      case None
      note f = full [OF None]
      have left': "temp_left content dir fs (fs(dir @ [nm] := Some (File content)))" using left [of k] f by simp
      show ?thesis
      proof (cases "io IoChmod = None \<and> io IoClose = None")
        case False
        then show ?thesis using aw None rm left' f by (auto split: option.splits)
      next
        case True
        then have ioc: "io IoChmod = None" "io IoClose = None" by simp_all
        note aw = aw [unfolded None f, unfolded option.case prod.case ioc, unfolded option.case ren]
        consider "fs (dir @ [e]) = Some Dir" | x where "fs (dir @ [e]) \<noteq> Some Dir" "deny (dir @ [e]) = Some x"
          | "fs (dir @ [e]) \<noteq> Some Dir" "deny (dir @ [e]) = None" by blast
        then show ?thesis
        proof cases
          case 1
          then show ?thesis using aw rm [of content] left' by (simp only: if_True prod.case option.case) (auto split: if_splits)
        next
          case 2
          then show ?thesis using aw rm [of content] left' by (simp only: if_False prod.case option.case) (auto split: if_splits)
        next
          case 3
          then show ?thesis using aw gone [of "\<lambda>_. io IoRemove"] n(2) by (simp only: if_False prod.case option.case) auto
        qed
      qed
    qed
  qed
qed

text \<open>
  The effect of \<open>write_hcl\<close> on a project directory that resolves to \<open>root\<close>: an error leaves at most
  new directories behind, and the temporary file when that cannot be removed; a success replaces or creates one Terraform file below \<open>root\<close>.
\<close>

definition terraform_written :: "fs_path \<Rightarrow> string \<Rightarrow> file_system \<Rightarrow> file_system \<Rightarrow> bool" where
  "terraform_written root content fs fs' \<longleftrightarrow>
     (\<exists>es e fs1. list_all plain_element (es @ [e]) \<and> has_suffix e ''.tf'' \<and> dirs_added fs fs1
        \<and> fs1 (root @ es) = Some Dir \<and> fs1 (root @ es @ [e]) \<noteq> Some Dir
        \<and> fs' = fs1(root @ es @ [e] := Some (File content)))"

definition temp_below :: "string \<Rightarrow> fs_path \<Rightarrow> file_system \<Rightarrow> file_system \<Rightarrow> bool" where
  "temp_below content root fs fs' \<longleftrightarrow> (\<exists>es fs1. dirs_added fs fs1 \<and> temp_left content (root @ es) fs1 fs')"

lemma temp_left_ok: "fs_ok fs \<Longrightarrow> temp_left content dir fs fs' \<Longrightarrow> fs_ok fs'"
  unfolding temp_left_def using fs_ok_add by (fastforce simp: fs_place_def)

lemma write_hcl_effect:
  assumes ok: "fs_ok fs" and proj: "project_dir = abs_path ds" "ds \<noteq> []" "list_all plain_element ds"
    and root: "eval_symlinks fs project_dir = Inr (abs_path root)" "fs root = Some Dir" "root \<noteq> []"
    and w: "write_hcl deny io rnds cwd project_dir rel content fs = (res, fs')"
  shows "fs_ok fs' \<and> (case res of
      Inl _ \<Rightarrow> dirs_added fs fs' \<or> io IoRemove \<noteq> None \<and> temp_below content root fs fs'
    | Inr _ \<Rightarrow> terraform_written root content fs fs')"
proof -
  have pr: "list_all plain_element root" using ok root(2) fs_ok_plain by fastforce
  show ?thesis
  proof (cases "rel = [] \<or> (\<exists>x. scope_path_within_project cwd fs project_dir rel = Inl x)")
    case True
    then show ?thesis using w ok by (auto simp: write_hcl_def split: if_splits)
  next
    case False
    then obtain full where full: "rel \<noteq> []" "scope_path_within_project cwd fs project_dir rel = Inr full"
      by (cases "scope_path_within_project cwd fs project_dir rel") auto
    moreover have "path_abs cwd project_dir = project_dir" using proj by simp
    ultimately obtain fes where "fes \<noteq> []" "list_all plain_element fes" "full = abs_path (root @ fes)"
      using scope_below [OF full(2) _ pr root(3)] root(1) by auto
    then obtain es e where es: "list_all plain_element (es @ [e])" "full = abs_path ((root @ es) @ [e])"
      by (cases fes rule: rev_cases) auto
    have pl: "list_all plain_element ((root @ es) @ [e])" using es pr by simp
    show ?thesis
    proof (cases "has_suffix full ''.tf''")
      case False
      then show ?thesis using w ok full by (auto simp: write_hcl_def)
    next
      case True
      then have tf: "has_suffix e ''.tf''" using suffix_last [of "root @ es" e] es(2) by simp
      obtain m fs1 where m: "mkdir_all deny fs (path_elements (path_dir full)) = (m, fs1)" by (metis prod.exhaust)
      then have 1: "fs_ok fs1" "dirs_added fs fs1" using mkdir_all_keeps ok by blast+
      have r1: "eval_symlinks fs1 project_dir = Inr (abs_path root)" "fs1 root = Some Dir"
        using eval_mono [OF 1(2) root(1)] dirs_added_Some [OF 1(2) root(2)] by simp_all
      show ?thesis
      proof (cases "m = None \<and> refuse_symlink_on_path fs1 project_dir full = None")
        case False
        then show ?thesis using w full True m 1 by (auto simp: write_hcl_def split: option.splits)
      next
        case m': True
        obtain a fs2 where a: "atomic_write deny io rnds fs1 full content = (a, fs2)" by (metis prod.exhaust)
        have below: "\<forall>x q. plain_element x \<longrightarrow> walk fs1 max_links False True [] ((root @ es) @ [x]) = Inr q \<longrightarrow>
            fs1 (root @ es) = Some Dir"
          using refuse_ok [OF 1(1) r1(2) root(3) r1(1) es(1)] m' es(2) by simp
        have "if a = None then fs1 (root @ es) = Some Dir \<and> fs1 ((root @ es) @ [e]) \<noteq> Some Dir
            \<and> fs2 = fs1((root @ es) @ [e] := Some (File content))
          else fs2 = fs1 \<or> io IoRemove \<noteq> None \<and> temp_left content (root @ es) fs1 fs2"
          using a es(2) root(3) by (intro atomic_write_spec [OF 1(1) pl _ below]) auto
        note spec = this
        show ?thesis
        proof (cases a)
          case None
          then have r: "fs' = fs1((root @ es) @ [e] := Some (File content))" "\<exists>r. res = Inr r"
            using w full True m m' a spec by (auto simp: write_hcl_def)
          have "fs_place fs1 ((root @ es) @ [e])" using None spec es(1) by (auto simp: fs_place_def)
          then have "fs_ok fs'"
            using r None spec 1(1) fs_ok_add fs_ok_replace by (cases "fs1 ((root @ es) @ [e])") auto
          moreover have "terraform_written root content fs fs'"
            unfolding terraform_written_def using r(1) None spec tf es(1) 1(2)
            by (intro exI [of _ es] exI [of _ e] exI [of _ fs1]) simp
          ultimately show ?thesis using r(2) by auto
        next
          case (Some x)
          then have "res = Inl x" "fs' = fs2" using w full True m m' a by (auto simp: write_hcl_def)
          moreover have "fs_ok fs2" "dirs_added fs fs2 \<or> io IoRemove \<noteq> None \<and> temp_below content root fs fs2"
            using Some spec 1 temp_left_ok unfolding temp_below_def by auto
          ultimately show ?thesis by simp
        qed
      qed
    qed
  qed
qed

end
