(* ===== verification/Findings.thy ===== *)
theory Findings
  imports Blast
begin

text \<open>
  Findings of policy engines and security scanners: \<open>internal/policy/engines/engines.go\<close> and
  \<open>internal/security/scanners/scanners.go\<close>. An engine or scanner is a name and a function of a
  world; it runs outside programs, so its function is arbitrary.

  The merged findings are sorted by a stable sort on a tuple of keys. The order of the sources is
  a strict weak order on findings whose severities are among their constants, which is the
  domain the model of the sort is exact on. The encodings are those of \<open>json.Marshal\<close>.
\<close>

definition json_struct :: "(string \<times> string) list \<Rightarrow> string" where
  "json_struct fs = ''{'' @ join '','' (map (\<lambda>(k, v). json_string k @ '':'' @ v) fs) @ ''}''"

definition json_list :: "('a \<Rightarrow> string) \<Rightarrow> 'a list \<Rightarrow> string" where
  "json_list f xs = ''['' @ join '','' (map f xs) @ '']''"

definition json_bool :: "bool \<Rightarrow> string" where
  "json_bool b = (if b then ''true'' else ''false'')"

definition omit_empty :: "string \<Rightarrow> string \<Rightarrow> (string \<times> string) list" where
  "omit_empty k v = (if v = [] then [] else [(k, json_string v)])"

text \<open>A slice that is nil prints as null; an appended slice is nil exactly when it is empty.\<close>

definition json_slice :: "('a \<Rightarrow> string) \<Rightarrow> 'a list \<Rightarrow> string" where
  "json_slice f xs = (if xs = [] then ''null'' else json_list f xs)"

section \<open>Policy engines\<close>

record policy_finding =
  pf_Engine :: string
  pf_PolicyID :: string
  pf_PolicyName :: string
  pf_Severity :: string
  pf_Category :: string
  pf_Resource :: string
  pf_Message :: string
  pf_Suggestion :: string
  pf_PolicyFile :: string

record policy_result =
  px_Engine :: string
  px_Available :: bool
  px_Findings :: "policy_finding list"
  px_Error :: string

record eval_input =
  ei_ProjectDir :: string
  ei_WorkDir :: string
  ei_Resources :: "parser_resource list"
  ei_PlanJSON :: string

record 'w policy_engine =
  pe_Name :: string
  pe_Evaluate :: "'w \<Rightarrow> eval_input \<Rightarrow> (policy_result \<times> string option) \<times> 'w"

definition policy_is_blocking :: "string \<Rightarrow> bool" where
  "policy_is_blocking s \<longleftrightarrow> s = ''error''"

definition policy_has_blocking :: "policy_result \<Rightarrow> bool" where
  "policy_has_blocking r = list_ex (\<lambda>f. policy_is_blocking (pf_Severity f)) (px_Findings r)"

fun run_all_engines :: "'w policy_engine list \<Rightarrow> eval_input \<Rightarrow> 'w \<Rightarrow> policy_result list \<times> 'w" where
  "run_all_engines [] inp w = ([], w)"
| "run_all_engines (e # es) inp w =
     (case pe_Evaluate e w inp of
        ((r, err), w1) \<Rightarrow>
          let r1 = (if px_Engine r = [] then r\<lparr>px_Engine := pe_Name e\<rparr> else r);
              r2 = (case err of Some m \<Rightarrow> if px_Error r1 = [] then r1\<lparr>px_Error := m\<rparr> else r1 | None \<Rightarrow> r1) in
          (case run_all_engines es inp w1 of (rs, w2) \<Rightarrow> (r2 # rs, w2)))"

definition policy_severity_rank :: "string \<Rightarrow> nat" where
  "policy_severity_rank s =
     (if s = ''error'' then 0 else if s = ''warning'' then 1 else if s = ''info'' then 2 else 3)"

definition policy_finding_key :: "policy_finding \<Rightarrow> nat \<times> string \<times> string \<times> string \<times> string \<times> string" where
  "policy_finding_key f = (policy_severity_rank (pf_Severity f), pf_Engine f, pf_PolicyID f, pf_PolicyFile f, pf_Resource f, pf_Message f)"

definition merge_policy_findings :: "policy_result list \<Rightarrow> policy_finding list" where
  "merge_policy_findings rs = sort_key policy_finding_key (concat (map px_Findings rs))"

definition encode_policy_finding :: "policy_finding \<Rightarrow> string" where
  "encode_policy_finding f = json_struct
     ([(''engine'', json_string (pf_Engine f)), (''policy_id'', json_string (pf_PolicyID f)),
       (''policy_name'', json_string (pf_PolicyName f)), (''severity'', json_string (pf_Severity f))]
      @ omit_empty ''category'' (pf_Category f) @ omit_empty ''resource'' (pf_Resource f)
      @ [(''message'', json_string (pf_Message f))]
      @ omit_empty ''suggestion'' (pf_Suggestion f) @ omit_empty ''policy_file'' (pf_PolicyFile f))"

definition encode_policy_result :: "policy_result \<Rightarrow> string" where
  "encode_policy_result r = json_struct
     ([(''engine'', json_string (px_Engine r)), (''available'', json_bool (px_Available r))]
      @ (if px_Findings r = [] then [] else [(''findings'', json_list encode_policy_finding (px_Findings r))])
      @ omit_empty ''error'' (px_Error r))"

section \<open>Security scanners\<close>

record auto_fix =
  af_ResourceType :: string
  af_ResourceName :: string
  af_Field :: string
  af_Value :: json

record scan_finding =
  sf_ID :: string
  sf_Severity :: string
  sf_Category :: string
  sf_Framework :: string
  sf_Title :: string
  sf_Description :: string
  sf_Resources :: "string list option"
  sf_Remediation :: string
  sf_AutoFixable :: bool
  sf_Fix :: "auto_fix option"

record scan_result =
  sx_Scanner :: string
  sx_Available :: bool
  sx_Findings :: "scan_finding list"
  sx_Error :: string

record scan_input =
  si_ProjectDir :: string
  si_Resources :: "parser_resource list"
  si_Tool :: string

record 'w scanner =
  sc_Name :: string
  sc_Scan :: "'w \<Rightarrow> scan_input \<Rightarrow> (scan_result \<times> string option) \<times> 'w"

definition scan_is_blocking :: "string \<Rightarrow> bool" where
  "scan_is_blocking s \<longleftrightarrow> s = ''critical'' \<or> s = ''high''"

definition scan_has_blocking :: "scan_result \<Rightarrow> bool" where
  "scan_has_blocking r = list_ex (\<lambda>f. scan_is_blocking (sf_Severity f)) (sx_Findings r)"

fun run_all_scanners :: "'w scanner list \<Rightarrow> scan_input \<Rightarrow> 'w \<Rightarrow> scan_result list \<times> 'w" where
  "run_all_scanners [] inp w = ([], w)"
| "run_all_scanners (s # ss) inp w =
     (case sc_Scan s w inp of
        ((r, err), w1) \<Rightarrow>
          let r1 = (if sx_Scanner r = [] then r\<lparr>sx_Scanner := sc_Name s\<rparr> else r);
              r2 = (case err of Some m \<Rightarrow> if sx_Error r1 = [] then r1\<lparr>sx_Error := m\<rparr> else r1 | None \<Rightarrow> r1) in
          (case run_all_scanners ss inp w1 of (rs, w2) \<Rightarrow> (r2 # rs, w2)))"

definition scan_severity_rank :: "string \<Rightarrow> nat" where
  "scan_severity_rank s =
     (if s = ''critical'' then 0 else if s = ''high'' then 1 else if s = ''medium'' then 2
      else if s = ''low'' then 3 else if s = ''info'' then 4 else 5)"

text \<open>U+FFFF for a finding without resources.\<close>

definition resource_key :: "scan_finding \<Rightarrow> string" where
  "resource_key f = (case sf_Resources f of Some (r # _) \<Rightarrow> r | _ \<Rightarrow> [CHR 0xEF, CHR 0xBF, CHR 0xBF])"

definition scan_finding_key :: "scan_finding \<Rightarrow> nat \<times> string \<times> string \<times> string \<times> string" where
  "scan_finding_key f = (scan_severity_rank (sf_Severity f), sf_Framework f, sf_ID f, sf_Title f, resource_key f)"

definition merge_scan_findings :: "scan_result list \<Rightarrow> scan_finding list" where
  "merge_scan_findings rs = sort_key scan_finding_key (concat (map sx_Findings rs))"

definition encode_auto_fix :: "auto_fix \<Rightarrow> string" where
  "encode_auto_fix a = json_struct
     [(''resource_type'', json_string (af_ResourceType a)), (''resource_name'', json_string (af_ResourceName a)),
      (''field'', json_string (af_Field a)), (''value'', encode_json (af_Value a))]"

definition encode_scan_finding :: "scan_finding \<Rightarrow> string" where
  "encode_scan_finding f = json_struct
     ([(''id'', json_string (sf_ID f)), (''severity'', json_string (sf_Severity f)),
       (''category'', json_string (sf_Category f)), (''framework'', json_string (sf_Framework f)),
       (''title'', json_string (sf_Title f)), (''description'', json_string (sf_Description f)),
       (''resources'', case sf_Resources f of None \<Rightarrow> ''null'' | Some rs \<Rightarrow> json_list json_string rs),
       (''remediation'', json_string (sf_Remediation f)), (''auto_fixable'', json_bool (sf_AutoFixable f))]
      @ (case sf_Fix f of None \<Rightarrow> [] | Some a \<Rightarrow> [(''fix'', encode_auto_fix a)]))"

definition encode_scan_result :: "scan_result \<Rightarrow> string" where
  "encode_scan_result r = json_struct
     ([(''scanner'', json_string (sx_Scanner r)), (''available'', json_bool (sx_Available r))]
      @ (if sx_Findings r = [] then [] else [(''findings'', json_list encode_scan_finding (sx_Findings r))])
      @ omit_empty ''error'' (sx_Error r))"

section \<open>Facts\<close>

lemma run_all_engines_keeps:
  assumes "\<And>e w inp. e \<in> set es \<Longrightarrow> P w \<Longrightarrow> P (snd (pe_Evaluate e w inp))" "P w"
  shows "P (snd (run_all_engines es inp w))"
  using assms
proof (induction es arbitrary: w)
  case (Cons e es)
  obtain r err w1 where r: "pe_Evaluate e w inp = ((r, err), w1)" by (metis prod.exhaust)
  with Cons.prems have "P w1" by (metis list.set_intros(1) snd_conv)
  with Cons.IH [of w1] Cons.prems(1) have "P (snd (run_all_engines es inp w1))" by simp
  with r show ?case by (simp add: Let_def case_prod_beta)
qed simp

lemma run_all_scanners_keeps:
  assumes "\<And>s w inp. s \<in> set ss \<Longrightarrow> P w \<Longrightarrow> P (snd (sc_Scan s w inp))" "P w"
  shows "P (snd (run_all_scanners ss inp w))"
  using assms
proof (induction ss arbitrary: w)
  case (Cons e es)
  obtain r err w1 where r: "sc_Scan e w inp = ((r, err), w1)" by (metis prod.exhaust)
  with Cons.prems have "P w1" by (metis list.set_intros(1) snd_conv)
  with Cons.IH [of w1] Cons.prems(1) have "P (snd (run_all_scanners es inp w1))" by simp
  with r show ?case by (simp add: Let_def case_prod_beta)
qed simp

lemma merge_policy_set: "set (merge_policy_findings rs) = \<Union> (set ` px_Findings ` set rs)"
  by (auto simp: merge_policy_findings_def)

lemma fst_mono: "x \<le> y \<Longrightarrow> fst x \<le> fst y" for x y :: "'a::linorder \<times> 'b::linorder"
  by (cases x; cases y) auto

lemma sorted_fst: "sorted xs \<Longrightarrow> sorted (map fst xs)" for xs :: "('a::linorder \<times> 'b::linorder) list"
  by (induction xs) (auto dest: fst_mono)

text \<open>Severities come out in descending order: blocking findings first.\<close>

lemma merge_policy_sorted: "sorted (map (\<lambda>f. policy_severity_rank (pf_Severity f)) (merge_policy_findings rs))"
proof -
  have "sorted (map policy_finding_key (merge_policy_findings rs))" by (simp add: merge_policy_findings_def)
  then have "sorted (map fst (map policy_finding_key (merge_policy_findings rs)))"
    by (rule sorted_fst)
  then show ?thesis by (simp add: policy_finding_key_def comp_def)
qed

end
