(* ===== verification/Iac_Tools.thy ===== *)
theory Iac_Tools
  imports Write_Tool Findings Agent_Run
begin

text \<open>
  The seven tools of \<open>internal/ai/tools/iac_tools.go\<close> as handlers on a world of a file system and
  an environment \<open>'x\<close>, and their registration.

  The record of dependencies has the fields of \<open>IaCToolDeps\<close>, followed by what is outside: the
  working directory, the HCL parser, the decoders of the argument structs, and what the
  environment decides in a write (refusals, failures of I/O, random numbers), with the step that
  a write makes it take.
\<close>

section \<open>The world and the dependencies\<close>

record 'x os_world =
  ow_fs :: file_system
  ow_env :: 'x

record 'x iac_deps =
  dp_ProjectDir :: string
  dp_PolicyEngines :: "'x os_world policy_engine list"
  dp_Scanners :: "'x os_world scanner list"
  dp_RegistryClient :: "('x os_world \<Rightarrow> string \<Rightarrow> int \<Rightarrow> (string + string) \<times> 'x os_world) option"
  dp_cwd :: string
  dp_parse :: "file_system \<Rightarrow> string \<Rightarrow> parser_resource list \<times> string option"
  dp_decode_list :: "string \<Rightarrow> string + string"
  dp_decode_get :: "string \<Rightarrow> string + string"
  dp_decode_write :: "string \<Rightarrow> string + (string \<times> string)"
  dp_decode_search :: "string \<Rightarrow> string + (string \<times> int)"
  dp_decode_any :: "string \<Rightarrow> string + json"
  dp_deny :: "'x \<Rightarrow> fs_path \<Rightarrow> fs_error option"
  dp_io :: "'x \<Rightarrow> io_step \<Rightarrow> fs_error option"
  dp_rnds :: "'x \<Rightarrow> nat list"
  dp_next :: "'x \<Rightarrow> 'x"
  dp_printable :: "nat \<Rightarrow> bool"
  dp_os_text :: "fs_error \<Rightarrow> string"

section \<open>Resources\<close>

definition scrub_resource :: "parser_resource \<Rightarrow> string \<Rightarrow> parser_resource" where
  "scrub_resource r project_dir =
     (if pr_File r = [] then r
      else case path_rel project_dir (pr_File r) of
        Some rel \<Rightarrow>
          if \<not> has_prefix rel ''..'' then r\<lparr>pr_File := rel\<rparr> else r\<lparr>pr_File := path_base (pr_File r)\<rparr>
      | None \<Rightarrow> r\<lparr>pr_File := path_base (pr_File r)\<rparr>)"

definition encode_resource :: "parser_resource \<Rightarrow> string" where
  "encode_resource r = json_struct
     ([(''id'', json_string (pr_ID r)), (''type'', json_string (pr_Type r)), (''name'', json_string (pr_Name r)),
       (''properties'', encode_json (JObj (pr_Properties r))), (''file'', json_string (pr_File r)),
       (''line'', dec_int (pr_Line r))] @ omit_empty ''block_type'' (pr_BlockType r))"

definition encode_listed :: "parser_resource \<Rightarrow> string" where
  "encode_listed r = json_struct
     [(''id'', json_string (pr_ID r)), (''type'', json_string (pr_Type r)), (''name'', json_string (pr_Name r)),
      (''file'', json_string (pr_File r))]"

definition listed_resources :: "string \<Rightarrow> string \<Rightarrow> parser_resource list \<Rightarrow> parser_resource list" where
  "listed_resources project_dir ty rs =
     map (\<lambda>r. r\<lparr>pr_File := pr_File (scrub_resource r project_dir)\<rparr>)
       (filter (\<lambda>r. pr_BlockType r = ''resource'' \<and> (ty = [] \<or> pr_Type r = ty)) rs)"

definition parse_resources :: "'x iac_deps \<Rightarrow> file_system \<Rightarrow> parser_resource list" where
  "parse_resources d fs = fst (dp_parse d fs (dp_ProjectDir d))"

section \<open>Error texts\<close>

definition write_error_text :: "'x iac_deps \<Rightarrow> write_error \<Rightarrow> string" where
  "write_error_text d e =
     (case e of
        RelPathRequired \<Rightarrow> ''write_hcl: rel_path is required''
      | PathAbsolute rel \<Rightarrow> ''path must be relative: '' @ go_quote (dp_printable d) rel
      | PathEscapes rel \<Rightarrow> ''path escapes project root: '' @ go_quote (dp_printable d) rel
      | RelFailed base target \<Rightarrow> ''Rel: can't make '' @ target @ '' relative to '' @ base
      | NotTerraform \<Rightarrow> ''write_hcl: rel_path must end in .tf''
      | RefusedLink p \<Rightarrow> ''refusing to follow symlink: '' @ p
      | LstatFailed p x \<Rightarrow> ''lstat '' @ p @ '': '' @ dp_os_text d x
      | WriteOS x \<Rightarrow> dp_os_text d x)"

definition read_error_text :: "'x iac_deps \<Rightarrow> read_error \<Rightarrow> string" where
  "read_error_text d e =
     (case e of ReadOS x \<Rightarrow> dp_os_text d x | ReadRefusedLink p \<Rightarrow> ''refusing to follow symlink: '' @ p
      | ReadNotRegular p \<Rightarrow> ''not a regular file: '' @ p)"

section \<open>Handlers\<close>

type_synonym 'x handler = "'x os_world \<Rightarrow> string \<Rightarrow> (handler_error + (string + string)) \<times> 'x os_world"

definition list_resources :: "'x iac_deps \<Rightarrow> 'x handler" where
  "list_resources d w raw =
     (case (if raw = [] then Inr [] else dp_decode_list d raw) of
        Inl e \<Rightarrow> (Inl (Failed (''list_resources: '' @ e)), w)
      | Inr ty \<Rightarrow>
          (case dp_parse d (ow_fs w) (dp_ProjectDir d) of
             (_, Some e) \<Rightarrow> (Inl (Failed e), w)
           | (all, None) \<Rightarrow>
               (Inr (Inr (json_struct [(''resources'',
                  json_list encode_listed (listed_resources (dp_ProjectDir d) ty all))])), w)))"

definition get_resource :: "'x iac_deps \<Rightarrow> 'x handler" where
  "get_resource d w raw =
     (case dp_decode_get d raw of
        Inl e \<Rightarrow> (Inl (Failed (''get_resource: '' @ e)), w)
      | Inr i \<Rightarrow>
          if i = [] then (Inl (Failed ''get_resource: id is required''), w)
          else case dp_parse d (ow_fs w) (dp_ProjectDir d) of
            (_, Some e) \<Rightarrow> (Inl (Failed e), w)
          | (all, None) \<Rightarrow>
              (case find (\<lambda>r. pr_ID r = i) all of
                 Some r \<Rightarrow> (Inr (Inr (encode_resource (scrub_resource r (dp_ProjectDir d)))), w)
               | None \<Rightarrow> (Inl (Failed (''resource not found: '' @ i)), w)))"

definition encode_write_result :: "write_result \<Rightarrow> string" where
  "encode_write_result r = json_struct
     [(''path'', json_string (wx_Path r)), (''bytes'', dec (wx_Bytes r)), (''message'', json_string (wx_Message r))]"

definition write_tool :: "'x iac_deps \<Rightarrow> 'x handler" where
  "write_tool d w raw =
     (case dp_decode_write d raw of
        Inl e \<Rightarrow> (Inl (Failed (''write_hcl: '' @ e)), w)
      | Inr (rel, content) \<Rightarrow>
          (case write_hcl (dp_deny d (ow_env w)) (dp_io d (ow_env w)) (dp_rnds d (ow_env w)) (dp_cwd d)
              (dp_ProjectDir d) rel content (ow_fs w) of
             (Inl e, fs) \<Rightarrow> (Inl (Failed (write_error_text d e)), w\<lparr>ow_fs := fs, ow_env := dp_next d (ow_env w)\<rparr>)
           | (Inr r, fs) \<Rightarrow> (Inr (Inr (encode_write_result r)), w\<lparr>ow_fs := fs, ow_env := dp_next d (ow_env w)\<rparr>)))"

definition plan_file :: "'x iac_deps \<Rightarrow> string" where
  "plan_file d = path_join [dp_ProjectDir d, ''tfplan.json'']"

definition run_policy :: "'x iac_deps \<Rightarrow> 'x handler" where
  "run_policy d w raw =
     (let resources = parse_resources d (ow_fs w) in
      case (case read_regular_file (ow_fs w) (plan_file d) of
          Inr s \<Rightarrow> Inr s | Inl (ReadOS ENOENT) \<Rightarrow> Inr [] | Inl e \<Rightarrow> Inl e) of
        Inl e \<Rightarrow> (Inl (Failed (read_error_text d e)), w)
      | Inr plan \<Rightarrow>
          (case run_all_engines (dp_PolicyEngines d)
              \<lparr>ei_ProjectDir = dp_ProjectDir d, ei_WorkDir = [], ei_Resources = resources, ei_PlanJSON = plan\<rparr> w of
             (results, w') \<Rightarrow>
               let findings = merge_policy_findings results;
                   blocking = list_ex (\<lambda>f. policy_is_blocking (pf_Severity f)) findings
               in (Inr (Inr (json_struct
                    [(''blocking'', json_bool blocking), (''findings'', json_slice encode_policy_finding findings),
                     (''results'', json_list encode_policy_result results)])), w')))"

definition run_scan :: "'x iac_deps \<Rightarrow> 'x handler" where
  "run_scan d w raw =
     (case run_all_scanners (dp_Scanners d)
         \<lparr>si_ProjectDir = dp_ProjectDir d, si_Resources = parse_resources d (ow_fs w), si_Tool = ''terraform''\<rparr> w of
        (results, w') \<Rightarrow>
          let findings = merge_scan_findings results;
              blocking = list_ex (\<lambda>f. scan_is_blocking (sf_Severity f)) findings
          in (Inr (Inr (json_struct
               [(''blocking'', json_bool blocking), (''findings'', json_slice encode_scan_finding findings),
                (''results'', json_list encode_scan_result results)])), w'))"

definition search_limit :: "int \<Rightarrow> int" where
  "search_limit n = (let n1 = (if n \<le> 0 then 10 else n) in if 100 < n1 then 100 else n1)"

definition search_registry :: "'x iac_deps \<Rightarrow> 'x handler" where
  "search_registry d w raw =
     (case dp_decode_search d raw of
        Inl e \<Rightarrow> (Inl (Failed (''search_registry: '' @ e)), w)
      | Inr (query, n) \<Rightarrow>
          if trim_space query = [] then (Inl (Failed ''search_registry: query is required''), w)
          else case dp_RegistryClient d of
            None \<Rightarrow> (Inl (Failed ''search_registry: no registry client configured''), w)
          | Some client \<Rightarrow>
              (case client w query (search_limit n) of
                 (Inl e, w') \<Rightarrow> (Inl (Failed e), w')
               | (Inr v, w') \<Rightarrow> (Inr (Inr v), w')))"

text \<open>The message for a missing plan has an em dash.\<close>

definition no_plan_text :: string where
  "no_plan_text = ''no tfplan.json '' @ [CHR 0xE2, CHR 0x80, CHR 0x94]
     @ '' run terraform plan + `terraform show -json tfplan > tfplan.json` first''"

definition read_plan :: "'x iac_deps \<Rightarrow> 'x handler" where
  "read_plan d w raw =
     (case read_regular_file (ow_fs w) (plan_file d) of
        Inl (ReadOS ENOENT) \<Rightarrow> (Inl (Failed no_plan_text), w)
      | Inl e \<Rightarrow> (Inl (Failed (read_error_text d e)), w)
      | Inr data \<Rightarrow>
          (case dp_decode_any d data of
             Inl e \<Rightarrow> (Inl (Failed (''tfplan.json is not valid JSON: '' @ e)), w)
           | Inr v \<Rightarrow> (Inr (Inr (encode_json v)), w)))"

section \<open>Registration\<close>

definition list_resources_description :: string where
  "list_resources_description = ''List every Terraform resource in the project, optionally filtered by type. Use this before calling write_hcl so you don't duplicate existing resources.''"

definition list_resources_schema :: string where
  "list_resources_schema = join [CHR 0x0A]
       [''{'',
        ''  \"type\": \"object\",'',
        ''  \"properties\": {'',
        ''    \"type\": {\"type\": \"string\", \"description\": \"Optional resource type filter, e.g. aws_s3_bucket\"}'',
        ''  }'',
        ''}'']"

definition get_resource_description :: string where
  "get_resource_description = ''Fetch the full definition of a single resource by ID (e.g. \"aws_s3_bucket.data\"). Use this to read current property values before proposing a change.''"

definition get_resource_schema :: string where
  "get_resource_schema = join [CHR 0x0A]
       [''{'',
        ''  \"type\": \"object\",'',
        ''  \"required\": [\"id\"],'',
        ''  \"properties\": {'',
        ''    \"id\": {\"type\": \"string\", \"description\": \"Resource ID, e.g. aws_s3_bucket.data\"}'',
        ''  }'',
        ''}'']"

definition write_hcl_description :: string where
  "write_hcl_description = ''Write a Terraform file under the project. rel_path must stay inside the project root (no absolute paths, no ../). Content replaces the file atomically; use list_resources first to read current state.''"

definition write_hcl_schema :: string where
  "write_hcl_schema = join [CHR 0x0A]
       [''{'',
        ''  \"type\": \"object\",'',
        ''  \"required\": [\"rel_path\", \"content\"],'',
        ''  \"properties\": {'',
        ''    \"rel_path\": {\"type\": \"string\", \"description\": \"Target .tf file relative to project root\"},'',
        ''    \"content\":  {\"type\": \"string\", \"description\": \"Full file contents\"}'',
        ''  }'',
        ''}'']"

definition run_policy_description :: string where
  "run_policy_description = ''Evaluate every configured policy engine (builtin, OPA, Conftest, Sentinel, CrossGuard) against the current project. Returns findings grouped by engine and a blocking flag when any error-severity finding exists.''"

definition run_policy_schema :: string where
  "run_policy_schema = ''{\"type\": \"object\", \"properties\": {}}''"

definition run_scan_description :: string where
  "run_scan_description = ''Run every configured security scanner (graph, Checkov, Trivy, Terrascan, KICS) against the current project. Returns a merged findings feed sorted severity-first.''"

definition run_scan_schema :: string where
  "run_scan_schema = ''{\"type\": \"object\", \"properties\": {}}''"

definition search_registry_description :: string where
  "search_registry_description = ''Search the public Terraform Registry for modules matching a free-text query. Returns up to `limit` modules (default 10, max 100). Use before proposing a new module block so you pin a known-good source.''"

definition search_registry_schema :: string where
  "search_registry_schema = join [CHR 0x0A]
       [''{'',
        ''  \"type\": \"object\",'',
        ''  \"required\": [\"query\"],'',
        ''  \"properties\": {'',
        ''    \"query\": {\"type\": \"string\"},'',
        ''    \"limit\": {\"type\": \"integer\", \"minimum\": 1, \"maximum\": 100}'',
        ''  }'',
        ''}'']"

definition read_plan_description :: string where
  "read_plan_description = ''Read the project's current tfplan.json (produced by `terraform show -json tfplan`). Returns the raw JSON so downstream tools or the model can reason about planned changes. Errors clearly when no plan has been run yet.''"

definition read_plan_schema :: string where
  "read_plan_schema = ''{\"type\": \"object\", \"properties\": {}}''"

definition iac_tools :: "'x iac_deps \<Rightarrow> 'x os_world tool list" where
  "iac_tools d =
     [new_tool ''list_resources'' list_resources_description list_resources_schema (list_resources d),
      new_tool ''get_resource'' get_resource_description get_resource_schema (get_resource d),
      new_tool ''write_hcl'' write_hcl_description write_hcl_schema (write_tool d),
      new_tool ''run_policy'' run_policy_description run_policy_schema (run_policy d),
      new_tool ''run_scan'' run_scan_description run_scan_schema (run_scan d),
      new_tool ''search_registry'' search_registry_description search_registry_schema (search_registry d),
      new_tool ''read_plan'' read_plan_description read_plan_schema (read_plan d)]"

definition register_iac_tools :: "'x os_world tool_registry \<Rightarrow> 'x iac_deps \<Rightarrow> 'x os_world tool_registry" where
  "register_iac_tools reg d = foldl register_tool reg (iac_tools d)"

section \<open>Facts on the registry\<close>

lemma lookup_foldl:
  "lookup_tool (foldl register_tool reg ts) n = Some t \<Longrightarrow>
   lookup_tool reg n = Some t \<or> t \<in> set ts \<and> n = td_Name (tool_Def t)"
  by (induction ts arbitrary: reg) (fastforce split: if_splits)+

lemma registry_foldl: "registry_ok reg \<Longrightarrow> registry_ok (foldl register_tool reg ts)"
  by (induction ts arbitrary: reg) (simp_all add: register_ok)

lemma iac_registry_ok [simp]: "registry_ok (register_iac_tools new_registry d)"
  by (simp add: register_iac_tools_def registry_foldl)

lemma lookup_iac:
  "lookup_tool (register_iac_tools new_registry d) n = Some t \<Longrightarrow> t \<in> set (iac_tools d) \<and> n = td_Name (tool_Def t)"
  using lookup_foldl [of new_registry "iac_tools d" n t] by (simp add: register_iac_tools_def)

section \<open>What the handlers change\<close>

text \<open>The programs and services behind the tools write where they please within a set \<open>T\<close> of places, such
  as the temporary directories of the Conftest and Sentinel engines and of the KICS scanner, and leave
  a well-formed file system.\<close>

definition outside_step :: "fs_path set \<Rightarrow> file_system \<Rightarrow> file_system \<Rightarrow> bool" where
  "outside_step T fs fs' \<longleftrightarrow> (\<forall>p. p \<notin> T \<longrightarrow> fs' p = fs p) \<and> (fs_ok fs \<longrightarrow> fs_ok fs')"

definition outside_within :: "fs_path set \<Rightarrow> 'x iac_deps \<Rightarrow> bool" where
  "outside_within T d \<longleftrightarrow>
     (\<forall>e \<in> set (dp_PolicyEngines d). \<forall>w inp. outside_step T (ow_fs w) (ow_fs (snd (pe_Evaluate e w inp))))
     \<and> (\<forall>s \<in> set (dp_Scanners d). \<forall>w inp. outside_step T (ow_fs w) (ow_fs (snd (sc_Scan s w inp))))
     \<and> (\<forall>c w q n. dp_RegistryClient d = Some c \<longrightarrow> outside_step T (ow_fs w) (ow_fs (snd (c w q n))))"

lemma outside_step_refl [simp]: "outside_step T fs fs"
  by (simp add: outside_step_def)

lemma outside_step_trans: "outside_step T a b \<Longrightarrow> outside_step T b c \<Longrightarrow> outside_step T a c"
  by (simp add: outside_step_def)

lemma handler_reads:
  assumes "outside_within T d" "t \<in> set (iac_tools d)" "td_Name (tool_Def t) \<noteq> ''write_hcl''"
  shows "outside_step T (ow_fs w) (ow_fs (snd (tool_Handler t w raw)))"
proof -
  have e: "outside_step T (ow_fs w) (ow_fs (snd (run_all_engines (dp_PolicyEngines d) inp w)))" for inp
    by (rule run_all_engines_keeps [where P = "\<lambda>v. outside_step T (ow_fs w) (ow_fs v)"])
      (use assms(1) outside_step_trans in \<open>auto simp: outside_within_def\<close>)
  have s: "outside_step T (ow_fs w) (ow_fs (snd (run_all_scanners (dp_Scanners d) inp w)))" for inp
    by (rule run_all_scanners_keeps [where P = "\<lambda>v. outside_step T (ow_fs w) (ow_fs v)"])
      (use assms(1) outside_step_trans in \<open>auto simp: outside_within_def\<close>)
  have p: "outside_step T (ow_fs w) (ow_fs (snd (run_policy d w raw)))"
    using e by (simp add: run_policy_def Let_def case_prod_beta split: sum.split)
  have sc: "outside_step T (ow_fs w) (ow_fs (snd (run_scan d w raw)))"
    using s by (simp add: run_scan_def Let_def case_prod_beta)
  have se: "outside_step T (ow_fs w) (ow_fs (snd (search_registry d w raw)))"
    using assms(1) unfolding outside_within_def search_registry_def
    by (auto simp: case_prod_beta split: sum.split option.split)
  have g: "snd (get_resource d w raw) = w" "snd (list_resources d w raw) = w" "snd (read_plan d w raw) = w"
    by (auto simp: get_resource_def list_resources_def read_plan_def
        split: sum.split option.split prod.split read_error.split fs_error.split)
  from assms(2,3) p sc se g show ?thesis by (auto simp: iac_tools_def new_tool_def)
qed

text \<open>Outside of \<open>T\<close>, every change is a new directory, or the content of a Terraform file below the project,
  or, where the removal of temporary files can fail (\<open>k\<close>), a new temporary file below the project.\<close>

definition terraform_place :: "fs_path \<Rightarrow> fs_path \<Rightarrow> bool" where
  "terraform_place ds p \<longleftrightarrow> (\<exists>es e. p = ds @ es @ [e] \<and> has_suffix e ''.tf'')"

definition temp_place :: "fs_path \<Rightarrow> fs_path \<Rightarrow> bool" where
  "temp_place ds p \<longleftrightarrow> (\<exists>es e. p = ds @ es @ [e] \<and> has_suffix e ''.tmp'')"

definition removal_fails :: "'x iac_deps \<Rightarrow> bool" where
  "removal_fails d \<longleftrightarrow> (\<exists>x. dp_io d x IoRemove \<noteq> None)"

definition only_terraform :: "fs_path set \<Rightarrow> bool \<Rightarrow> fs_path \<Rightarrow> file_system \<Rightarrow> file_system \<Rightarrow> bool" where
  "only_terraform T k ds fs fs' \<longleftrightarrow>
     (\<forall>p. p \<in> T \<or> fs' p = fs p \<or> fs p = None \<and> fs' p = Some Dir
        \<or> terraform_place ds p \<and> fs p \<noteq> Some Dir \<and> (\<exists>s. fs' p = Some (File s))
        \<or> k \<and> temp_place ds p \<and> fs p = None \<and> (\<exists>s. fs' p = Some (File s)))"

lemma only_terraform_refl [simp]: "only_terraform T k ds fs fs"
  by (simp add: only_terraform_def)

lemma only_terraform_trans:
  assumes "only_terraform T k ds fs fs1" "only_terraform T k ds fs1 fs2"
  shows "only_terraform T k ds fs fs2"
  unfolding only_terraform_def
proof
  fix p
  have 1: "p \<in> T \<or> fs1 p = fs p \<or> fs p = None \<and> fs1 p = Some Dir
      \<or> terraform_place ds p \<and> fs p \<noteq> Some Dir \<and> (\<exists>s. fs1 p = Some (File s))
      \<or> k \<and> temp_place ds p \<and> fs p = None \<and> (\<exists>s. fs1 p = Some (File s))"
    and 2: "p \<in> T \<or> fs2 p = fs1 p \<or> fs1 p = None \<and> fs2 p = Some Dir
      \<or> terraform_place ds p \<and> fs1 p \<noteq> Some Dir \<and> (\<exists>s. fs2 p = Some (File s))
      \<or> k \<and> temp_place ds p \<and> fs1 p = None \<and> (\<exists>s. fs2 p = Some (File s))"
    using assms unfolding only_terraform_def by blast+
  then show "p \<in> T \<or> fs2 p = fs p \<or> fs p = None \<and> fs2 p = Some Dir
      \<or> terraform_place ds p \<and> fs p \<noteq> Some Dir \<and> (\<exists>s. fs2 p = Some (File s))
      \<or> k \<and> temp_place ds p \<and> fs p = None \<and> (\<exists>s. fs2 p = Some (File s))"
    by auto
qed

lemma outside_only: "outside_step T fs fs' \<Longrightarrow> only_terraform T k ds fs fs'"
  by (auto simp: outside_step_def only_terraform_def)

lemma dirs_added_only: "dirs_added fs fs' \<Longrightarrow> only_terraform T k ds fs fs'"
  unfolding dirs_added_def only_terraform_def by metis

lemma written_only:
  assumes "terraform_written ds content fs fs'"
  shows "only_terraform T k ds fs fs'"
proof -
  obtain es e fs1 where e: "has_suffix e ''.tf''" "dirs_added fs fs1" "fs1 (ds @ es @ [e]) \<noteq> Some Dir"
      "fs' = fs1(ds @ es @ [e] := Some (File content))"
    using assms unfolding terraform_written_def by blast
  have "terraform_place ds (ds @ es @ [e])" using e(1) unfolding terraform_place_def by blast
  then have "only_terraform T k ds fs1 fs'" unfolding only_terraform_def e(4) using e(3) by auto
  then show ?thesis using only_terraform_trans dirs_added_only e(2) by blast
qed

lemma temp_only: "temp_below content ds fs fs' \<Longrightarrow> k \<Longrightarrow> only_terraform T k ds fs fs'"
proof -
  assume "temp_below content ds fs fs'" and k: k
  then obtain es fs1 x n where e: "dirs_added fs fs1" "has_suffix x ''.tmp''" "fs1 ((ds @ es) @ [x]) = None"
      "fs' = fs1((ds @ es) @ [x] := Some (File (take n content)))"
    unfolding temp_below_def temp_left_def by blast
  have "temp_place ds ((ds @ es) @ [x])" using e(2) unfolding temp_place_def by auto
  then have "only_terraform T k ds fs1 fs'" unfolding only_terraform_def e(4) using e(3) k by auto
  then show "only_terraform T k ds fs fs'" using only_terraform_trans dirs_added_only e(1) by blast
qed

text \<open>What holds of the file system while an agent works on the project at \<open>ds\<close>.\<close>

definition project_kept :: "fs_path set \<Rightarrow> bool \<Rightarrow> fs_path \<Rightarrow> file_system \<Rightarrow> file_system \<Rightarrow> bool" where
  "project_kept T k ds fs0 fs \<longleftrightarrow> fs_ok fs \<and> fs ds = Some Dir \<and> only_terraform T k ds fs0 fs"

lemma only_terraform_dir: "only_terraform {} k ds fs fs' \<Longrightarrow> fs p = Some Dir \<Longrightarrow> fs' p = Some Dir"
  unfolding only_terraform_def by (metis empty_iff option.distinct(1))

lemma only_terraform_mono: "only_terraform {} k ds fs fs' \<Longrightarrow> only_terraform T k ds fs fs'"
  by (auto simp: only_terraform_def)

lemma outside_kept:
  "project_kept T k ds fs0 fs \<Longrightarrow> outside_step T fs fs' \<Longrightarrow> ds \<notin> T \<Longrightarrow> project_kept T k ds fs0 fs'"
  using outside_only only_terraform_trans unfolding project_kept_def outside_step_def by metis

lemma write_tool_keeps:
  assumes "dp_ProjectDir d = abs_path ds" "ds \<noteq> []" "project_kept T k ds fs0 (ow_fs w)" "removal_fails d \<longrightarrow> k"
  shows "project_kept T k ds fs0 (ow_fs (snd (write_tool d w raw)))"
proof (cases "dp_decode_write d raw")
  case (Inr a)
  obtain rel content where a: "a = (rel, content)" by (cases a)
  obtain res fs' where r: "write_hcl (dp_deny d (ow_env w)) (dp_io d (ow_env w)) (dp_rnds d (ow_env w)) (dp_cwd d)
      (dp_ProjectDir d) rel content (ow_fs w) = (res, fs')" by (metis prod.exhaust)
  have ok: "fs_ok (ow_fs w)" "ow_fs w ds = Some Dir" "only_terraform T k ds fs0 (ow_fs w)"
    using assms(3) by (simp_all add: project_kept_def)
  have pl: "list_all plain_element ds" using fs_ok_plain ok(1,2) by fastforce
  have root: "eval_symlinks (ow_fs w) (dp_ProjectDir d) = Inr (abs_path ds)"
    using assms(1) pl ok by (simp add: eval_symlinks_def)
  note eff = write_hcl_effect [OF ok(1) assms(1,2) pl root ok(2) assms(2) r]
  moreover have "dp_io d (ow_env w) IoRemove \<noteq> None \<Longrightarrow> k" using assms(4) unfolding removal_fails_def by blast
  ultimately have k: "fs_ok fs'" "only_terraform {} k ds (ow_fs w) fs'"
    using dirs_added_only written_only temp_only by (auto split: sum.splits)
  have "project_kept T k ds fs0 fs'"
    unfolding project_kept_def
    using k(1) only_terraform_dir [OF k(2) ok(2)] only_terraform_trans [OF ok(3) only_terraform_mono [OF k(2)]] by blast
  moreover have "ow_fs (snd (write_tool d w raw)) = fs'"
    using Inr a r by (simp add: write_tool_def split: sum.split)
  ultimately show ?thesis by simp
qed (use assms in \<open>simp add: write_tool_def\<close>)

lemma handler_keeps:
  assumes "outside_within T d" "ds \<notin> T" "dp_ProjectDir d = abs_path ds" "ds \<noteq> []" "t \<in> set (iac_tools d)"
    "project_kept T k ds fs0 (ow_fs w)" "removal_fails d \<longrightarrow> k"
  shows "project_kept T k ds fs0 (ow_fs (snd (tool_Handler t w raw)))"
proof (cases "td_Name (tool_Def t) = ''write_hcl''")
  case True
  then have "tool_Handler t = write_tool d" using assms(5) by (auto simp: iac_tools_def new_tool_def)
  then show ?thesis using write_tool_keeps assms(3,4,6,7) by simp
next
  case False
  show ?thesis using outside_kept [OF assms(6) handler_reads [OF assms(1,5) False] assms(2)] .
qed

end
