(* ===== verification/Iac_Props.thy ===== *)
theory Iac_Props
  imports Iac_Tools Agent_Props
begin

text \<open>
  The properties of the agent's tools: what a write can change, and what a whole agent run can
  change, whatever the model asks for.
\<close>

section \<open>A project with a link that leads out of it\<close>

definition demo_fs :: file_system where
  "demo_fs = [[] \<mapsto> Dir, [''p''] \<mapsto> Dir, [''p'', ''out''] \<mapsto> Link ''/x'', [''x''] \<mapsto> Dir,
     [''x'', ''key''] \<mapsto> File ''secret'']"

lemma demo_fs_at:
  "demo_fs q = (if q = [] \<or> q = [''p''] \<or> q = [''x''] then Some Dir else if q = [''p'', ''out''] then Some (Link ''/x'')
     else if q = [''x'', ''key''] then Some (File ''secret'') else None)"
  by (simp add: demo_fs_def)

lemma snoc_short: "p @ [c] = [a] \<longleftrightarrow> p = [] \<and> c = a" "p @ [c] = [a, b] \<longleftrightarrow> p = [a] \<and> c = b"
  by (cases p; auto)+

lemma demo_fs_ok: "fs_ok demo_fs"
  unfolding fs_ok_def
proof (intro conjI allI impI)
  fix p c
  assume "demo_fs (p @ [c]) \<noteq> None"
  then have "p = [] \<and> (c = ''p'' \<or> c = ''x'') \<or> p = [''p''] \<and> c = ''out'' \<or> p = [''x''] \<and> c = ''key''"
    by (auto simp: demo_fs_at snoc_short split: if_splits)
  then show "demo_fs p = Some Dir" "plain_element c"
    by (elim disjE conjE, simp_all add: demo_fs_at plain_element_def)+
qed (simp add: demo_fs_at)

lemma demo_root: "eval_symlinks demo_fs (abs_path [''p'']) = Inr (abs_path [''p''])"
  by (simp add: eval_symlinks_def plain_element_def walk_dir [OF demo_fs_ok] demo_fs_at)

definition demo_deps :: "unit iac_deps" where
  "demo_deps = \<lparr>dp_ProjectDir = abs_path [''p''], dp_PolicyEngines = [], dp_Scanners = [], dp_RegistryClient = None,
     dp_cwd = ''/'', dp_parse = (\<lambda>fs p. ([], None)), dp_decode_list = Inr, dp_decode_get = Inr,
     dp_decode_write = (\<lambda>raw. Inr (''out/new/a.tf'', ''text'')), dp_decode_search = (\<lambda>raw. Inr (raw, 0)),
     dp_decode_any = (\<lambda>s. Inr JNull), dp_deny = (\<lambda>_ _. None), dp_io = (\<lambda>_ _. None), dp_rnds = (\<lambda>_. [7]),
     dp_next = id, dp_printable = (\<lambda>_. False), dp_os_text = (\<lambda>_. [])\<rparr>"

definition demo_silent :: "unit os_world anthropic" where
  "demo_silent = \<lparr>an_endpoint = [], an_model = [], an_apiKey = [], an_apiVersion = [],
     an_client = (\<lambda>w r. (Response 200 ''1'', w))\<rparr>"

definition demo_world :: "unit os_world" where
  "demo_world = \<lparr>ow_fs = demo_fs, ow_env = ()\<rparr>"

definition demo_coder :: "unit os_world agent_config" where
  "demo_coder = \<lparr>ac_Provider = Some (ToolUser ''anthropic'' demo_silent),
     ac_ToolRegistry = Some (register_iac_tools new_registry demo_deps), ac_Specialists = [], ac_MaxTurns = 3\<rparr>"

section \<open>Properties\<close>

text \<open>C32: What \<open>write_hcl\<close> does to the file system, for every path the model names and every
  failure: on success exactly one Terraform file below the resolved project is created or
  replaced, in a directory that is not reached through a link; on an error, and beside that file
  on success, nothing but new directories appears. No temporary file is left behind by a success;
  an error leaves one only when its removal fails too, whose error the code ignores: a new file
  below the project whose name ends in \<open>.tmp\<close>, with a part of the content.\<close>

theorem write_hcl_outcome:
  assumes "fs_ok fs" "project_dir = abs_path ds" "ds \<noteq> []" "list_all plain_element ds"
    and "eval_symlinks fs project_dir = Inr (abs_path root)" "fs root = Some Dir" "root \<noteq> []"
    and "write_hcl deny io rnds cwd project_dir rel content fs = (res, fs')"
  shows "case res of
      Inl _ \<Rightarrow> dirs_added fs fs' \<or> io IoRemove \<noteq> None \<and> temp_below content root fs fs'
    | Inr r \<Rightarrow> wx_Path r = rel \<and> (\<exists>es e fs1. list_all plain_element (es @ [e]) \<and> has_suffix e ''.tf''
        \<and> dirs_added fs fs1 \<and> fs1 (root @ es) = Some Dir \<and> fs1 (root @ es @ [e]) \<noteq> Some Dir
        \<and> fs' = fs1(root @ es @ [e] := Some (File content)))"
proof (cases res)
  case (Inl e)
  then show ?thesis using write_hcl_effect [OF assms] by simp
next
  case (Inr r)
  then have "wx_Path r = rel"
    using assms(8) by (auto simp: write_hcl_def split: if_splits sum.splits prod.splits option.splits)
  then show ?thesis using Inr write_hcl_effect [OF assms] unfolding terraform_written_def by simp
qed

text \<open>The witness is a refused write through a link: the file outside is safe, but the directory
  \<open>/x/new\<close> has been created before the link was noticed.\<close>

theorem write_hcl_outcome_witness:
  "dirs_added demo_fs (snd (write_hcl (\<lambda>_. None) (\<lambda>_. None) [7] ''/'' (abs_path [''p'']) ''out/new/a.tf'' ''text'' demo_fs))
   \<and> snd (write_hcl (\<lambda>_. None) (\<lambda>_. None) [7] ''/'' (abs_path [''p'']) ''out/new/a.tf'' ''text'' demo_fs) [''x'', ''new'']
     = Some Dir"
proof -
  let ?w = "write_hcl (\<lambda>_. None) (\<lambda>_. None) [7] ''/'' (abs_path [''p'']) ''out/new/a.tf'' ''text'' demo_fs"
  have f: "fst ?w = Inl (RefusedLink ''/p/out'') \<and> snd ?w [''x'', ''new''] = Some Dir" by code_simp
  obtain res fs' where w: "?w = (res, fs')" by (metis prod.exhaust)
  have "case res of
      Inl _ \<Rightarrow> dirs_added demo_fs fs' \<or> None \<noteq> (None :: fs_error option) \<and> temp_below ''text'' [''p''] demo_fs fs'
    | Inr r \<Rightarrow> wx_Path r = ''out/new/a.tf'' \<and> (\<exists>es e fs1. list_all plain_element (es @ [e]) \<and> has_suffix e ''.tf''
        \<and> dirs_added demo_fs fs1 \<and> fs1 ([''p''] @ es) = Some Dir \<and> fs1 ([''p''] @ es @ [e]) \<noteq> Some Dir
        \<and> fs' = fs1([''p''] @ es @ [e] := Some (File ''text'')))"
    by (rule write_hcl_outcome [OF demo_fs_ok refl _ _ demo_root _ _ w]) (simp_all add: plain_element_def demo_fs_at)
  with f w show ?thesis by simp
qed

text \<open>C18: Whatever the model asks for, an agent that works on a project changes the file system, outside
  of the places \<open>T\<close> where the policy engines, scanners and clients behind its tools write themselves,
  only by creating directories (in the project or where its links lead) and by writing Terraform files
  below the project directory: no other file is changed, created or removed, except that where the
  removal of a temporary file can fail, a new file whose name ends in \<open>.tmp\<close> may stay below the
  project. A specialist whose
  allow-list lacks \<open>write_hcl\<close> changes nothing outside of \<open>T\<close>. The programs and clients are assumed to
  stay in \<open>T\<close>, not to touch the project directory itself, and to leave a well-formed file system.\<close>

theorem agents_write_only_terraform:
  fixes w :: "'a os_world"
  assumes "ac_Provider cfg = Some (ToolUser kind p)" "ac_ToolRegistry cfg = Some (register_iac_tools new_registry d)"
    and "route_prompt prompt (agent_specialists cfg) = Some spec"
    and "outside_within T d" "\<And>w r. outside_step T (ow_fs w) (ow_fs (snd (an_client p w r)))" "ds \<notin> T"
    and "dp_ProjectDir d = abs_path ds" "ds \<noteq> []" "fs_ok (ow_fs w)" "ow_fs w ds = Some Dir"
  shows "only_terraform T (removal_fails d) ds (ow_fs w) (ow_fs (snd (run_agent decode cfg prompt w)))
    \<and> (sp_ToolAllowList spec \<noteq> [] \<and> ''write_hcl'' \<notin> set (sp_ToolAllowList spec) \<longrightarrow>
        (\<forall>q. q \<notin> T \<longrightarrow> ow_fs (snd (run_agent decode cfg prompt w)) q = ow_fs w q))"
proof (intro conjI impI)
  let ?reg = "register_iac_tools new_registry d"
  have t: "t \<in> set (iac_tools d) \<and> n = td_Name (tool_Def t) \<and> (sp_ToolAllowList spec = [] \<or> n \<in> set (sp_ToolAllowList spec))"
    if "lookup_tool (fst (narrow_tools ?reg (sp_ToolAllowList spec))) n = Some t" for n t
    using narrow_from [OF iac_registry_ok that] lookup_iac by blast
  have "project_kept T (removal_fails d) ds (ow_fs w) (ow_fs (snd (run_agent decode cfg prompt w)))"
  proof (rule agent_keeps [OF assms(1-3), where P = "\<lambda>v. project_kept T (removal_fails d) ds (ow_fs w) (ow_fs v)"])
    show "project_kept T (removal_fails d) ds (ow_fs w) (ow_fs (snd (adapt (Some (agent_runner
        (fst (narrow_tools ?reg (sp_ToolAllowList spec))))) calls v)))"
      if "project_kept T (removal_fails d) ds (ow_fs w) (ow_fs v)" for calls v
      unfolding agent_runner_def
      by (rule adapt_keeps [where P = "\<lambda>v. project_kept T (removal_fails d) ds (ow_fs w) (ow_fs v)"])
        (use t handler_keeps [OF assms(4,6-8)] that in blast)+
    show "project_kept T (removal_fails d) ds (ow_fs w) (ow_fs w)" using assms(9,10) by (simp add: project_kept_def)
    show "project_kept T (removal_fails d) ds (ow_fs w) (ow_fs (snd (an_client p v r)))" if "project_kept T (removal_fails d) ds (ow_fs w) (ow_fs v)" for v r
      by (rule outside_kept [OF that assms(5,6)])
  qed
  then show "only_terraform T (removal_fails d) ds (ow_fs w) (ow_fs (snd (run_agent decode cfg prompt w)))" by (simp add: project_kept_def)
  assume a: "sp_ToolAllowList spec \<noteq> [] \<and> ''write_hcl'' \<notin> set (sp_ToolAllowList spec)"
  have "outside_step T (ow_fs w) (ow_fs (snd (run_agent decode cfg prompt w)))"
  proof (rule agent_keeps [OF assms(1-3), where P = "\<lambda>v. outside_step T (ow_fs w) (ow_fs v)"])
    show "outside_step T (ow_fs w) (ow_fs (snd (adapt (Some (agent_runner (fst (narrow_tools ?reg (sp_ToolAllowList spec))))) calls v)))"
      if "outside_step T (ow_fs w) (ow_fs v)" for calls v
      unfolding agent_runner_def
    proof (rule adapt_keeps [where P = "\<lambda>v. outside_step T (ow_fs w) (ow_fs v)", OF _ that])
      fix n u args and v :: "'a os_world"
      assume u: "lookup_tool (fst (narrow_tools ?reg (sp_ToolAllowList spec))) n = Some u" "outside_step T (ow_fs w) (ow_fs v)"
      have "u \<in> set (iac_tools d)" "td_Name (tool_Def u) \<noteq> ''write_hcl''" using t [OF u(1)] a by auto
      then show "outside_step T (ow_fs w) (ow_fs (snd (tool_Handler u v args)))"
        using handler_reads [OF assms(4)] outside_step_trans [OF u(2)] by blast
    qed
    show "outside_step T (ow_fs w) (ow_fs w)" by simp
    show "outside_step T (ow_fs w) (ow_fs (snd (an_client p v r)))" if "outside_step T (ow_fs w) (ow_fs v)" for v r
      by (rule outside_step_trans [OF that assms(5)])
  qed
  then show "\<forall>q. q \<notin> T \<longrightarrow> ow_fs (snd (run_agent decode cfg prompt w)) q = ow_fs w q" by (simp add: outside_step_def)
qed

text \<open>The witness has a policy engine that leaves a file of its own beside the project.\<close>

definition demo_engine :: "unit os_world policy_engine" where
  "demo_engine = \<lparr>pe_Name = ''conftest'', pe_Evaluate = (\<lambda>w inp.
     ((\<lparr>px_Engine = ''conftest'', px_Available = True, px_Findings = [], px_Error = []\<rparr>, None),
      if ow_fs w [''x''] = Some Dir \<and> ow_fs w [''x'', ''plan.json''] = None
      then w\<lparr>ow_fs := (ow_fs w)([''x'', ''plan.json''] := Some (File ''{}''))\<rparr> else w))\<rparr>"

definition demo_policed :: "unit iac_deps" where
  "demo_policed = demo_deps\<lparr>dp_PolicyEngines := [demo_engine]\<rparr>"

lemma demo_engine_step: "outside_step {[''x'', ''plan.json'']} (ow_fs w) (ow_fs (snd (pe_Evaluate demo_engine w inp)))"
proof -
  have p: "fs_place (ow_fs w) [''x'', ''plan.json'']" if "ow_fs w [''x''] = Some Dir"
  proof -
    have "[''x'', ''plan.json''] = [''x''] @ [''plan.json'']" "plain_element ''plan.json''" by (simp_all add: plain_element_def)
    then show ?thesis using that unfolding fs_place_def by blast
  qed
  show ?thesis using fs_ok_add [OF _ p] by (auto simp: demo_engine_def outside_step_def)
qed

theorem agents_write_only_terraform_witness:
  "only_terraform {[''x'', ''plan.json'']} False [''p''] demo_fs (ow_fs (snd (run_agent demo_reply
     (demo_coder\<lparr>ac_ToolRegistry := Some (register_iac_tools new_registry demo_policed)\<rparr>) ''Fix it'' demo_world)))"
proof -
  let ?cfg = "demo_coder\<lparr>ac_ToolRegistry := Some (register_iac_tools new_registry demo_policed)\<rparr>"
  have "route_prompt ''Fix it'' (agent_specialists demo_coder) = Some (default_specialists ! 1)" by code_simp
  moreover have "agent_specialists ?cfg = agent_specialists demo_coder" by (simp add: agent_specialists_def)
  ultimately have r: "route_prompt ''Fix it'' (agent_specialists ?cfg) = Some (default_specialists ! 1)" by simp
  have d: "dp_ProjectDir demo_policed = abs_path [''p'']" "outside_within {[''x'', ''plan.json'']} demo_policed"
    using demo_engine_step by (simp_all add: demo_policed_def demo_deps_def outside_within_def)
  have c: "ac_Provider ?cfg = Some (ToolUser ''anthropic'' demo_silent)"
    "ac_ToolRegistry ?cfg = Some (register_iac_tools new_registry demo_policed)"
    by (simp_all add: demo_coder_def)
  have "only_terraform {[''x'', ''plan.json'']} (removal_fails demo_policed) [''p''] (ow_fs demo_world) (ow_fs (snd (run_agent demo_reply ?cfg ''Fix it'' demo_world)))"
    by (rule agents_write_only_terraform [OF c r d(2) _ _ d(1), THEN conjunct1])
      (simp_all add: demo_silent_def demo_world_def demo_fs_ok demo_fs_at)
  moreover have "\<not> removal_fails demo_policed" by (simp add: removal_fails_def demo_policed_def demo_deps_def)
  ultimately show ?thesis by (simp add: demo_world_def)
qed

end
