(* ===== verification/Safe_Paths.thy ===== *)
theory Safe_Paths
  imports File_System
begin

text \<open>
  The path checks of the HTTP handlers in \<open>internal/api/router.go\<close>: the directory of a project, a
  subdirectory of it, and a file to write in it. \<open>cwd\<close> is the working directory.
\<close>

section \<open>The checks\<close>

datatype path_refusal =
    InvalidName string
  | ResolveFailed fs_error
  | EscapesRoot
  | SubdirMissing
  | SubdirInaccessible
  | SubdirNotDir
  | FileRequired
  | UnsupportedExtension string
  | ParentMissing
  | ParentInaccessible
  | ParentEscapes
  | FileEscapes
  | ExistingEscapes

definition name_char :: "char \<Rightarrow> bool" where
  "name_char c \<longleftrightarrow> (let n = (of_char c :: nat) in
     97 \<le> n \<and> n \<le> 122 \<or> 65 \<le> n \<and> n \<le> 90 \<or> 48 \<le> n \<and> n \<le> 57 \<or> c = CHR ''-'' \<or> c = CHR ''_'')"

definition safe_path_segment :: "string \<Rightarrow> bool" where
  "safe_path_segment s \<longleftrightarrow>
     \<not> (s = [] \<or> s = ''.'' \<or> s = ''..'' \<or> CHR ''/'' \<in> set s \<or> CHR 0x5C \<in> set s \<or> contains s ''..'')
     \<and> list_all name_char s"

definition resolved_or :: "file_system \<Rightarrow> string \<Rightarrow> string" where
  "resolved_or fs p = (case eval_symlinks fs p of Inr q \<Rightarrow> q | Inl _ \<Rightarrow> p)"

text \<open>The loop to the deepest existing parent, on the reversed elements of the absolute path;
  \<open>None\<close> is the arrival at a root that does not exist.\<close>

fun existing_parent :: "file_system \<Rightarrow> string list \<Rightarrow> string list \<Rightarrow> fs_error + (string list \<times> string list) option" where
  "existing_parent fs rs missing =
     (case fs_lstat fs (abs_path (rev rs)) of
        Inr _ \<Rightarrow> Inr (Some (rev rs, missing))
      | Inl e \<Rightarrow>
          if e \<noteq> ENOENT then Inl e
          else case rs of [] \<Rightarrow> Inr None | x # xs \<Rightarrow> existing_parent fs xs (x # missing))"

definition resolve_existing_path :: "string \<Rightarrow> file_system \<Rightarrow> string \<Rightarrow> fs_error + string" where
  "resolve_existing_path cwd fs path =
     (let abs = path_abs cwd path in
      case eval_symlinks fs abs of
        Inr p \<Rightarrow> Inr (path_abs cwd p)
      | Inl _ \<Rightarrow>
          (case existing_parent fs (rev (path_elements abs)) [] of
             Inl e \<Rightarrow> Inl e
           | Inr None \<Rightarrow> Inr abs
           | Inr (Some (existing, missing)) \<Rightarrow>
               (case eval_symlinks fs (abs_path existing) of
                  Inl e \<Rightarrow> Inl e
                | Inr p \<Rightarrow> Inr (path_abs cwd (foldl (\<lambda>q part. path_join [q, part]) p missing)))))"

definition safe_project_path :: "string \<Rightarrow> file_system \<Rightarrow> string \<Rightarrow> string \<Rightarrow> path_refusal + string" where
  "safe_project_path cwd fs projects_dir name =
     (if \<not> safe_path_segment name then Inl (InvalidName name)
      else
        let resolved = path_join [projects_dir, name];
            abs_projects = resolved_or fs (path_abs cwd projects_dir)
        in case resolve_existing_path cwd fs resolved of
          Inl e \<Rightarrow> Inl (ResolveFailed e)
        | Inr abs_resolved \<Rightarrow>
            (case path_rel abs_projects abs_resolved of
               None \<Rightarrow> Inl EscapesRoot
             | Some rel \<Rightarrow>
                 if rel = ''.'' \<or> rel = ''..'' \<or> path_is_abs rel \<or> has_prefix rel ''../'' then Inl EscapesRoot
                 else Inr resolved))"

definition safe_subdir :: "string \<Rightarrow> file_system \<Rightarrow> string \<Rightarrow> string list \<Rightarrow> path_refusal + string" where
  "safe_subdir cwd fs project_path segments =
     (case find (\<lambda>s. \<not> safe_path_segment s) segments of
        Some s \<Rightarrow> Inl (InvalidName s)
      | None \<Rightarrow>
          let joined = path_join (project_path # segments);
              abs_project = resolved_or fs (path_abs cwd project_path);
              abs_joined = (case eval_symlinks fs (path_abs cwd joined) of
                 Inr q \<Rightarrow> path_abs cwd q | Inl _ \<Rightarrow> path_abs cwd joined)
          in if \<not> has_prefix abs_joined (abs_project @ ''/'') then Inl EscapesRoot
          else case fs_stat fs (path_abs cwd joined) of
            Inl e \<Rightarrow> if e = ENOENT then Inl SubdirMissing else Inl SubdirInaccessible
          | Inr x \<Rightarrow> if x \<noteq> Dir then Inl SubdirNotDir else Inr joined)"

definition rel_escapes :: "string option \<Rightarrow> bool" where
  "rel_escapes r = (case r of None \<Rightarrow> True | Some rel \<Rightarrow> has_prefix rel ''../'' \<or> rel = ''..'')"

definition safe_project_file :: "string \<Rightarrow> file_system \<Rightarrow> string \<Rightarrow> string \<Rightarrow> string list \<Rightarrow> path_refusal + string" where
  "safe_project_file cwd fs project_path requested allowed_exts =
     (if requested = [] then Inl FileRequired
      else
        let target = path_clean (if path_is_abs requested then requested else path_join [project_path, requested]);
            abs_project = resolved_or fs (path_abs cwd project_path);
            abs_target = path_abs cwd target
        in if allowed_exts \<noteq> [] \<and> path_ext abs_target \<notin> set allowed_exts then Inl (UnsupportedExtension (path_ext abs_target))
        else case eval_symlinks fs (path_dir abs_target) of
          Inl e \<Rightarrow> if e = ENOENT then Inl ParentMissing else Inl ParentInaccessible
        | Inr eval_parent0 \<Rightarrow>
            let eval_parent = path_abs cwd eval_parent0;
                eval_target_path = path_join [eval_parent, path_base abs_target]
            in if rel_escapes (path_rel abs_project eval_parent) then Inl ParentEscapes
            else if rel_escapes (path_rel abs_project eval_target_path)
                \<or> path_rel abs_project eval_target_path = Some ''.'' then Inl FileEscapes
            else case eval_symlinks fs abs_target of
              Inr q \<Rightarrow> if rel_escapes (path_rel abs_project (path_abs cwd q)) then Inl ExistingEscapes else Inr abs_target
            | Inl _ \<Rightarrow> Inr abs_target)"

section \<open>Writing review artifacts\<close>

datatype artifact_error =
    ArtifactPath string
  | ArtifactRequired
  | ArtifactEscapes string
  | ArtifactRel
  | ArtifactLinkDir string
  | ArtifactNotDir string
  | ArtifactLink string
  | ArtifactNotRegular string
  | ArtifactOS fs_error

definition safe_review_artifact_path :: "string \<Rightarrow> artifact_error + string" where
  "safe_review_artifact_path rel =
     (let c = path_clean rel in
      if has_prefix c ''.iac-studio/remediations/'' \<or> has_prefix c ''.iac-studio/rollbacks/'' then Inr c
      else Inl (ArtifactPath rel))"

definition safe_project_file_path :: "string \<Rightarrow> string \<Rightarrow> artifact_error + string" where
  "safe_project_file_path project_path rel =
     (if trim_space rel = [] then Inl ArtifactRequired
      else let c = path_clean rel in
        if path_is_abs c \<or> c = ''.'' \<or> c = ''..'' \<or> has_prefix c ''../'' then Inl (ArtifactPath rel)
        else
          let target = path_join [project_path, c]; r = path_rel project_path target in
          if rel_escapes r \<or> r = Some ''.'' then Inl (ArtifactEscapes rel) else Inr target)"

fun ensure_dirs ::
  "(fs_path \<Rightarrow> fs_error option) \<Rightarrow> file_system \<Rightarrow> string \<Rightarrow> string list \<Rightarrow> artifact_error option \<times> file_system" where
  "ensure_dirs deny fs cur [] = (None, fs)"
| "ensure_dirs deny fs cur (part # parts) =
     (if part = [] \<or> part = ''.'' then ensure_dirs deny fs cur parts
      else
        let cur1 = path_join [cur, part] in
        case fs_lstat fs cur1 of
          Inl e \<Rightarrow>
            if e = ENOENT then
              (case fs_mkdir deny fs cur1 of
                 (Some x, fs1) \<Rightarrow> if x = EEXIST then ensure_dirs deny fs1 cur1 parts else (Some (ArtifactOS x), fs1)
               | (None, fs1) \<Rightarrow> ensure_dirs deny fs1 cur1 parts)
            else (Some (ArtifactOS e), fs)
        | Inr (Link _) \<Rightarrow> (Some (ArtifactLinkDir part), fs)
        | Inr (File _) \<Rightarrow> (Some (ArtifactNotDir part), fs)
        | Inr Dir \<Rightarrow> ensure_dirs deny fs cur1 parts)"

definition ensure_no_symlink_dir ::
  "(fs_path \<Rightarrow> fs_error option) \<Rightarrow> file_system \<Rightarrow> string \<Rightarrow> string \<Rightarrow> artifact_error option \<times> file_system" where
  "ensure_no_symlink_dir deny fs project_path dir =
     (case path_rel project_path dir of
        None \<Rightarrow> (Some ArtifactRel, fs)
      | Some rel \<Rightarrow> if rel = ''.'' then (None, fs) else ensure_dirs deny fs project_path (split_on (CHR ''/'') rel))"

definition write_generated_artifact ::
  "(fs_path \<Rightarrow> fs_error option) \<Rightarrow> file_system \<Rightarrow> string \<Rightarrow> string \<Rightarrow> string \<Rightarrow> artifact_error option \<times> file_system" where
  "write_generated_artifact deny fs project_path rel content =
     (case safe_review_artifact_path rel of
        Inl e \<Rightarrow> (Some e, fs)
      | Inr artifact \<Rightarrow>
          (case safe_project_file_path project_path artifact of
             Inl e \<Rightarrow> (Some e, fs)
           | Inr target \<Rightarrow>
               (case ensure_no_symlink_dir deny fs project_path (path_dir target) of
                  (Some e, fs1) \<Rightarrow> (Some e, fs1)
                | (None, fs1) \<Rightarrow>
                    (let write = (case write_file deny fs1 target content of
                         (Some e, fs2) \<Rightarrow> (Some (ArtifactOS e), fs2) | (None, fs2) \<Rightarrow> (None, fs2)) in
                     case fs_lstat fs1 target of
                       Inl e \<Rightarrow> if e = ENOENT then write else (Some (ArtifactOS e), fs1)
                     | Inr (Link _) \<Rightarrow> (Some (ArtifactLink rel), fs1)
                     | Inr Dir \<Rightarrow> (Some (ArtifactNotRegular rel), fs1)
                     | Inr (File _) \<Rightarrow> write))))"

section \<open>Containment\<close>

lemma strip_common_split: "strip_common b t = (bs, ts) \<Longrightarrow> \<exists>c. b = c @ bs \<and> t = c @ ts"
proof (induction b t rule: strip_common.induct)
  case (1 b bs' t ts')
  then show ?case by (auto split: if_splits)
qed auto

text \<open>A relative path that does not climb leads below the base.\<close>

lemma clean_abs [simp]: "list_all plain_element es \<Longrightarrow> path_clean (abs_path es) = abs_path es"
  by (cases "es = []") simp_all

lemma rel_inside:
  assumes "list_all plain_element root" "list_all plain_element q" "\<not> rel_escapes (path_rel (abs_path root) (abs_path q))"
  shows "\<exists>es. q = root @ es \<and> (path_rel (abs_path root) (abs_path q) \<noteq> Some ''.'' \<longrightarrow> es \<noteq> [])"
proof (cases "q = root")
  case True
  then show ?thesis using assms by (simp add: path_rel_def)
next
  case False
  then have ne: "abs_path q \<noteq> abs_path root" using assms(1,2) elements_abs by metis
  obtain bs ts where s: "strip_common root q = (bs, ts)" by (metis prod.exhaust)
  then obtain c where c: "root = c @ bs" "q = c @ ts" using strip_common_split by blast
  have r: "path_rel (abs_path root) (abs_path q) = Some (join ''/'' (replicate (length bs) ''..'' @ ts))"
    using assms ne s by (auto simp: path_rel_def Let_def rel_escapes_def split: if_splits)
  have "bs = []"
  proof (rule ccontr)
    assume "bs \<noteq> []"
    then obtain k where "length bs = Suc k" by (cases bs) auto
    moreover have "join ''/'' (''..'' # xs) = ''..'' \<or> has_prefix (join ''/'' (''..'' # xs)) ''../''" for xs
      by (cases xs) simp_all
    ultimately show False using assms(3) r by (auto simp: rel_escapes_def)
  qed
  with c False show ?thesis by auto
qed

lemma elements_append: "path_elements (a @ CHR ''/'' # b) = path_elements a @ path_elements b"
proof -
  have "split_on (CHR ''/'') (a @ CHR ''/'' # b) = split_on (CHR ''/'') a @ split_on (CHR ''/'') b"
    by (induction a) (auto split: list.splits)
  then show ?thesis by (simp add: path_elements_def)
qed

lemma prefix_inside:
  assumes "list_all plain_element root" "list_all plain_element q" "has_prefix (abs_path q) (abs_path root @ ''/'')"
  shows "\<exists>es. q = root @ es"
proof -
  obtain r where "abs_path q = abs_path root @ CHR ''/'' # r" using assms(3) by (auto simp: has_prefix_iff)
  then have "path_elements (abs_path q) = root @ path_elements r" using assms(1) by (simp add: elements_append)
  with assms(2) show ?thesis by auto
qed

lemma eval_plain:
  assumes "fs_ok fs" "eval_symlinks fs p = Inr x"
  shows "\<exists>q. x = abs_path q \<and> list_all plain_element q \<and> fs q \<noteq> None"
proof -
  obtain q where q: "walk fs max_eval_links True False [] (path_elements p) = Inr q" "x = abs_path q"
    using assms(2) by (auto simp: eval_symlinks_def split: sum.splits)
  then have "fs q \<noteq> None" using walk_place [OF assms(1) _ _ q(1)] assms(1) by simp
  then show ?thesis using q(2) fs_ok_plain assms(1) by blast
qed

lemma abs_clean [simp]: "list_all plain_element q \<Longrightarrow> path_abs cwd (abs_path q) = abs_path q"
  by (simp add: path_abs_def)

lemma project_path_inside:
  assumes "fs_ok fs" "eval_symlinks fs (path_abs cwd base) = Inr (abs_path root)" "list_all plain_element root"
    "safe_project_path cwd fs base name = Inr p" "eval_symlinks fs (path_abs cwd p) = Inr (abs_path q)" "list_all plain_element q"
  shows "\<exists>es. es \<noteq> [] \<and> q = root @ es"
proof -
  have p: "p = path_join [base, name]" using assms(4)
    by (auto simp: safe_project_path_def Let_def split: if_splits sum.splits option.splits)
  have "resolve_existing_path cwd fs p = Inr (abs_path q)"
    using assms(5,6) by (simp add: resolve_existing_path_def)
  then have "\<not> rel_escapes (path_rel (abs_path root) (abs_path q)) \<and> path_rel (abs_path root) (abs_path q) \<noteq> Some ''.''"
    using assms(2,4) p by (auto simp: safe_project_path_def Let_def resolved_or_def rel_escapes_def split: if_splits option.splits)
  then show ?thesis using rel_inside [OF assms(3,6)] by blast
qed

lemma subdir_inside:
  assumes "fs_ok fs" "eval_symlinks fs (path_abs cwd base) = Inr (abs_path root)" "list_all plain_element root"
    "safe_subdir cwd fs base segments = Inr p" "eval_symlinks fs (path_abs cwd p) = Inr (abs_path q)" "list_all plain_element q"
  shows "\<exists>es. es \<noteq> [] \<and> q = root @ es"
proof -
  have p: "p = path_join (base # segments)" using assms(4)
    by (auto simp: safe_subdir_def Let_def split: if_splits sum.splits option.splits)
  then have h: "has_prefix (abs_path q) (abs_path root @ ''/'')"
    using assms(2,4,5,6) by (auto simp: safe_subdir_def Let_def resolved_or_def split: if_splits option.splits)
  then obtain es where es: "q = root @ es" using prefix_inside [OF assms(3,6)] by blast
  have "q \<noteq> root" using h by (auto simp: has_prefix_iff)
  with es show ?thesis by auto
qed

lemma project_file_inside:
  assumes "fs_ok fs" "eval_symlinks fs (path_abs cwd base) = Inr (abs_path root)" "list_all plain_element root"
    "safe_project_file cwd fs base requested exts = Inr p"
  shows "(exts = [] \<or> path_ext p \<in> set exts)
    \<and> (\<exists>es. eval_symlinks fs (path_dir p) = Inr (abs_path (root @ es)) \<and> list_all plain_element (root @ es))
    \<and> (\<forall>q. eval_symlinks fs p = Inr (abs_path q) \<longrightarrow> list_all plain_element q \<longrightarrow> (\<exists>es. q = root @ es))"
proof -
  have a: "exts = [] \<or> path_ext p \<in> set exts"
    using assms(4) by (auto simp: safe_project_file_def Let_def split: if_splits sum.splits)
  obtain x where x: "eval_symlinks fs (path_dir p) = Inr x" "\<not> rel_escapes (path_rel (abs_path root) (path_abs cwd x))"
    "\<forall>y. eval_symlinks fs p = Inr y \<longrightarrow> \<not> rel_escapes (path_rel (abs_path root) (path_abs cwd y))"
    using assms(2,4) by (auto simp: safe_project_file_def Let_def resolved_or_def split: if_splits sum.splits)
  obtain d where d: "x = abs_path d" "list_all plain_element d" using eval_plain [OF assms(1) x(1)] by blast
  then obtain es where "d = root @ es" using rel_inside [OF assms(3) d(2)] x(2) by auto
  moreover have "\<exists>es. q = root @ es" if "eval_symlinks fs p = Inr (abs_path q)" "list_all plain_element q" for q
    using that x(3) rel_inside [OF assms(3) that(2)] by fastforce
  ultimately show ?thesis using a x(1) d by blast
qed

section \<open>Artifacts stay in their directories\<close>

definition dirs_below :: "fs_path \<Rightarrow> file_system \<Rightarrow> file_system \<Rightarrow> bool" where
  "dirs_below root fs fs' \<longleftrightarrow>
     (\<forall>p. fs' p = fs p \<or> fs p = None \<and> fs' p = Some Dir \<and> (\<exists>es. es \<noteq> [] \<and> p = root @ es))"

lemma dirs_below_refl [simp]: "dirs_below root fs fs"
  by (simp add: dirs_below_def)

lemma dirs_below_trans:
  assumes "dirs_below root fs fs1" "dirs_below root fs1 fs2"
  shows "dirs_below root fs fs2"
  unfolding dirs_below_def
proof
  fix p
  have 1: "fs1 p = fs p \<or> fs p = None \<and> fs1 p = Some Dir \<and> (\<exists>es. es \<noteq> [] \<and> p = root @ es)"
    and 2: "fs2 p = fs1 p \<or> fs1 p = None \<and> fs2 p = Some Dir \<and> (\<exists>es. es \<noteq> [] \<and> p = root @ es)"
    using assms unfolding dirs_below_def by blast+
  then show "fs2 p = fs p \<or> fs p = None \<and> fs2 p = Some Dir \<and> (\<exists>es. es \<noteq> [] \<and> p = root @ es)" by auto
qed

lemma ensure_dirs_ok:
  assumes "fs_ok fs" "fs (root @ cs) = Some Dir" "root @ cs \<noteq> []" "list_all plain_element parts"
    "ensure_dirs deny fs (abs_path (root @ cs)) parts = (res, fs')" "\<forall>q. deny q \<noteq> Some EEXIST"
  shows "fs_ok fs' \<and> dirs_below root fs fs' \<and> (res = None \<longrightarrow> fs' (root @ cs @ parts) = Some Dir)"
  using assms
proof (induction parts arbitrary: cs fs)
  case (Cons part parts)
  let ?q = "(root @ cs) @ [part]"
  have pl: "list_all plain_element ?q" using Cons.prems fs_ok_plain [OF Cons.prems(1), of "root @ cs"] by simp
  have pp: "part \<noteq> []" "part \<noteq> ''.''" using Cons.prems(4) by (auto simp: plain_element_def)
  have j: "path_join [abs_path (root @ cs), part] = abs_path ?q"
    using pl Cons.prems(3) join_abs_path [of "root @ cs" "[part]"] by simp
  have l: "fs_lstat fs (abs_path ?q) = (case fs ?q of None \<Rightarrow> Inl ENOENT | Some y \<Rightarrow> Inr y)"
    using pl walk_last [OF Cons.prems(1,2), of part] by (simp add: fs_lstat_def split: option.splits fs_node.splits)
  have step: "ensure_dirs deny fs (abs_path (root @ cs)) (part # parts) =
      (case fs_lstat fs (abs_path ?q) of
          Inl e \<Rightarrow>
            if e = ENOENT then
              (case fs_mkdir deny fs (abs_path ?q) of
                 (Some x, fs1) \<Rightarrow> if x = EEXIST then ensure_dirs deny fs1 (abs_path ?q) parts else (Some (ArtifactOS x), fs1)
               | (None, fs1) \<Rightarrow> ensure_dirs deny fs1 (abs_path ?q) parts)
            else (Some (ArtifactOS e), fs)
        | Inr (Link _) \<Rightarrow> (Some (ArtifactLinkDir part), fs)
        | Inr (File _) \<Rightarrow> (Some (ArtifactNotDir part), fs)
        | Inr Dir \<Rightarrow> ensure_dirs deny fs (abs_path ?q) parts)"
    using pp j by (simp only: ensure_dirs.simps if_False Let_def simp_thms)
  show ?case
  proof (cases "fs ?q")
    case None
    have w: "walk fs max_links False True [] ?q = Inr ?q"
      using pl by (intro walk_entry [OF Cons.prems(1,2)]) simp
    have m: "fs_mkdir deny fs (abs_path ?q) =
        (case deny ?q of Some e \<Rightarrow> (Some e, fs) | None \<Rightarrow> (None, fs(?q := Some Dir)))"
      using w None pl elements_abs [of ?q] by (simp add: fs_mkdir_def split: option.split)
    show ?thesis
    proof (cases "deny ?q")
      case None': None
      let ?fs = "fs(?q := Some Dir)"
      have "fs_place fs ?q" using Cons.prems(2) pl by (auto simp: fs_place_def)
      then have 1: "fs_ok ?fs" using Cons.prems(1) None by (intro fs_ok_add)
      have 2: "dirs_below root fs ?fs" using None by (auto simp: dirs_below_def)
      have "ensure_dirs deny ?fs (abs_path (root @ (cs @ [part]))) parts = (res, fs')"
        using Cons.prems(5) step l None m None' by simp
      then have "fs_ok fs' \<and> dirs_below root ?fs fs' \<and> (res = None \<longrightarrow> fs' (root @ (cs @ [part]) @ parts) = Some Dir)"
        using Cons.IH [of ?fs "cs @ [part]"] 1 Cons.prems(4,6)
        by (simp del: fun_upd_apply add: fun_upd_same)
      with 2 show ?thesis using dirs_below_trans by auto
    next
      case (Some e)
      with Cons.prems(6) have "e \<noteq> EEXIST" by auto
      then have "ensure_dirs deny fs (abs_path (root @ cs)) (part # parts) = (Some (ArtifactOS e), fs)"
        by (simp only: step l None m Some option.case sum.case prod.case if_True if_False refl)
      then show ?thesis using Cons.prems(1,5) by (simp del: ensure_dirs.simps)
    qed
  next
    case (Some y)
    show ?thesis
    proof (cases y)
      case Dir
      then have "ensure_dirs deny fs (abs_path (root @ (cs @ [part]))) parts = (res, fs')"
        using Cons.prems(5) step l Some by simp
      then have "fs_ok fs' \<and> dirs_below root fs fs' \<and> (res = None \<longrightarrow> fs' (root @ (cs @ [part]) @ parts) = Some Dir)"
        using Cons.prems(1,4,6) Some Dir by (intro Cons.IH) simp_all
      then show ?thesis by simp
    qed (use Cons.prems(1,5) step l Some in auto)
  qed
qed auto

text \<open>The cleaned path of an artifact starts with one of the two artifact directories.\<close>

lemma artifact_elements:
  assumes "list_all plain_element es" "es \<noteq> []"
    "has_prefix (join ''/'' es) ''.iac-studio/remediations/'' \<or> has_prefix (join ''/'' es) ''.iac-studio/rollbacks/''"
  shows "\<exists>d fs. es = ''.iac-studio'' # d # fs \<and> (d = ''remediations'' \<or> d = ''rollbacks'') \<and> fs \<noteq> []"
proof -
  have sp: "split_on (CHR ''/'') (join ''/'' es) = es"
    using assms by (intro split_on_join) (auto simp: list_all_iff plain_element_def)
  have n: "split_on (CHR ''/'') (''.iac-studio/'' @ d @ ''/'' @ r) = ''.iac-studio'' # d # split_on (CHR ''/'') r"
    if "CHR ''/'' \<notin> set d" for d r
    using that split_on_append_sep [of "CHR ''/''" "''.iac-studio''" "d @ ''/'' @ r"]
      split_on_append_sep [of "CHR ''/''" d r] by simp
  obtain d r where "join ''/'' es = ''.iac-studio/'' @ d @ ''/'' @ r" "d = ''remediations'' \<or> d = ''rollbacks''"
  proof (cases "has_prefix (join ''/'' es) ''.iac-studio/remediations/''")
    case True
    then obtain r where "join ''/'' es = ''.iac-studio/remediations/'' @ r" by (auto simp: has_prefix_iff)
    then show ?thesis using that [of "''remediations''" r] by simp
  next
    case False
    then obtain r where "join ''/'' es = ''.iac-studio/rollbacks/'' @ r" using assms(3) by (auto simp: has_prefix_iff)
    then show ?thesis using that [of "''rollbacks''" r] by simp
  qed
  moreover from this have "CHR ''/'' \<notin> set d" by auto
  ultimately have "es = ''.iac-studio'' # d # split_on (CHR ''/'') r" using sp n by metis
  then show ?thesis using \<open>d = ''remediations'' \<or> d = ''rollbacks''\<close> by simp
qed

lemma write_entry:
  assumes "fs_ok fs" "fs dir = Some Dir" "list_all plain_element (dir @ [e])" "\<forall>t. fs (dir @ [e]) \<noteq> Some (Link t)"
  shows "write_file deny fs (abs_path (dir @ [e])) s =
    (if fs (dir @ [e]) = Some Dir then (Some EISDIR, fs)
     else case deny (dir @ [e]) of
       Some x \<Rightarrow> (Some x, case x of ESHORT n _ \<Rightarrow> fs(dir @ [e] := Some (File (take n s))) | _ \<Rightarrow> fs)
     | None \<Rightarrow> (None, fs(dir @ [e] := Some (File s))))"
proof -
  have "walk fs max_links True True [] (dir @ [e]) = Inr (dir @ [e])"
    using assms walk_last [OF assms(1,2), of e max_links True True] by (auto split: option.splits fs_node.splits)
  then show ?thesis using assms(3) elements_abs [of "dir @ [e]"] by (simp only: write_file_def) simp
qed

lemma clean_join_plain:
  assumes "list_all plain_element es" "es \<noteq> []"
  shows "path_clean (join ''/'' es) = join ''/'' es \<and> \<not> path_is_abs (join ''/'' es)"
proof -
  obtain e es' where e: "es = e # es'" using assms(2) by (cases es) auto
  then obtain c t where t: "e = c # t" "c \<noteq> CHR ''/''" using assms(1) by (cases e) (auto simp: plain_element_def)
  then have na: "\<not> path_is_abs (join ''/'' es)" "join ''/'' es \<noteq> []"
    using e by (cases es'; simp add: path_is_abs_def)+
  have "split_on (CHR ''/'') (join ''/'' es) = es"
    using assms by (intro split_on_join) (auto simp: list_all_iff plain_element_def)
  with na assms show ?thesis by (simp add: path_clean_def Let_def clean_plain)
qed

lemma clean_keeps_abs: "path_is_abs p \<Longrightarrow> path_is_abs (path_clean p)"
  by (auto simp: path_clean_def Let_def path_is_abs_def)

lemma artifact_target:
  assumes pl: "list_all plain_element ds" "ds \<noteq> []"
    and c: "safe_review_artifact_path rel = Inr c" "safe_project_file_path (abs_path ds) c = Inr target"
  shows "\<exists>d es e. (d = ''remediations'' \<or> d = ''rollbacks'') \<and> list_all plain_element ([''.iac-studio'', d] @ es @ [e])
    \<and> target = abs_path ((ds @ [''.iac-studio'', d] @ es) @ [e])
    \<and> ensure_no_symlink_dir deny fs (abs_path ds) (path_dir target) =
        ensure_dirs deny fs (abs_path ds) ([''.iac-studio'', d] @ es)"
proof -
  have c': "c = path_clean rel" "has_prefix c ''.iac-studio/remediations/'' \<or> has_prefix c ''.iac-studio/rollbacks/''"
    using c(1) by (auto simp: safe_review_artifact_path_def Let_def split: if_splits)
  have t: "target = path_join [abs_path ds, path_clean c]"
    using c(2) by (auto simp: safe_project_file_path_def Let_def split: if_splits)
  have "\<not> path_is_abs c" "c \<noteq> ''.''" "c \<noteq> ''..''" "\<not> has_prefix c ''../''"
    using c'(2) by (auto simp: has_prefix_iff path_is_abs_def)
  then obtain es0 where es0: "es0 \<noteq> []" "list_all plain_element es0" "c = join ''/'' es0"
    using clean_relative [of rel] clean_keeps_abs [of rel] c'(1) by blast
  then have cl: "path_clean c = c" using clean_join_plain by simp
  obtain d fs0 where d: "es0 = ''.iac-studio'' # d # fs0" "d = ''remediations'' \<or> d = ''rollbacks''" "fs0 \<noteq> []"
    using artifact_elements [OF es0(2,1)] c'(2) es0(3) by blast
  then obtain es e where ee: "fs0 = es @ [e]" by (cases fs0 rule: rev_cases) auto
  define dir where "dir = ds @ [''.iac-studio'', d] @ es"
  have plt: "list_all plain_element (dir @ [e])" using es0(2) d ee pl by (simp add: dir_def)
  have tt: "target = abs_path (dir @ [e])"
    using t cl es0 d ee pl join_root_relative [of ds es0] by (simp add: dir_def)
  have "path_rel (abs_path ds) (abs_path dir) = Some (join ''/'' ([''.iac-studio'', d] @ es))"
    unfolding dir_def using es0(2) d ee pl by (intro rel_abs_path) auto
  moreover have "split_on (CHR ''/'') (join ''/'' ([''.iac-studio'', d] @ es)) = [''.iac-studio'', d] @ es"
    using es0(2) d ee by (intro split_on_join) (auto simp: list_all_iff plain_element_def)
  moreover have "join ''/'' ([''.iac-studio'', d] @ es) \<noteq> ''.''" by simp
  ultimately have en: "ensure_no_symlink_dir deny fs (abs_path ds) (path_dir target) =
      ensure_dirs deny fs (abs_path ds) ([''.iac-studio'', d] @ es)"
    using tt plt by (simp only: ensure_no_symlink_dir_def dir_abs_path option.case if_False)
  have "list_all plain_element ([''.iac-studio'', d] @ es @ [e])" using es0(2) d ee by simp
  with d(2) tt en show ?thesis unfolding dir_def by blast
qed

section \<open>Properties\<close>

text \<open>A projects root with one project, and in it a link to a missing file outside.\<close>

definition demo_projects :: file_system where
  "demo_projects = [[] \<mapsto> Dir, [''r''] \<mapsto> Dir, [''r'', ''a''] \<mapsto> Dir, [''r'', ''a'', ''m.tf''] \<mapsto> Link ''/new.tf'']"

lemma demo_projects_ok: "fs_ok demo_projects"
  unfolding fs_ok_def
proof (intro conjI allI impI)
  fix p c
  assume "demo_projects (p @ [c]) \<noteq> None"
  moreover have "p @ [c] = [x] \<longleftrightarrow> p = [] \<and> c = x" "p @ [c] = [x, y] \<longleftrightarrow> p = [x] \<and> c = y"
    "p @ [c] = [x, y, z] \<longleftrightarrow> p = [x, y] \<and> c = z" for x y z
    by (cases p; cases "tl p"; auto)+
  ultimately have "p = [] \<and> c = ''r'' \<or> p = [''r''] \<and> c = ''a'' \<or> p = [''r'', ''a''] \<and> c = ''m.tf''"
    by (auto simp: demo_projects_def split: if_splits)
  then show "demo_projects p = Some Dir" "plain_element c"
    by (elim disjE conjE, simp_all add: demo_projects_def plain_element_def)+
qed (simp add: demo_projects_def)

text \<open>One file below the artifact directories has the content; beside it only directories are new.\<close>

definition artifact_written :: "fs_path \<Rightarrow> string \<Rightarrow> file_system \<Rightarrow> file_system \<Rightarrow> bool" where
  "artifact_written ds content fs fs' \<longleftrightarrow>
     (\<exists>d es e fs1. (d = ''remediations'' \<or> d = ''rollbacks'') \<and> dirs_below ds fs fs1
        \<and> fs1 (ds @ [''.iac-studio'', d] @ es) = Some Dir
        \<and> fs' = fs1(ds @ [''.iac-studio'', d] @ es @ [e] := Some (File content)))"

text \<open>C20: Writing a review artifact changes nothing outside of the two artifact directories of the
  project, whatever links lie in it: on success exactly one file below
  \<open>.iac-studio/remediations\<close> or \<open>.iac-studio/rollbacks\<close> has the content, on failure and beside it
  nothing but missing directories below the project are created. A write that breaks off leaves the
  part it has written in that one file.\<close>

theorem artifacts_stay_in_place:
  assumes ok: "fs_ok fs" "fs ds = Some Dir" "ds \<noteq> []" and deny: "\<forall>q. deny q \<noteq> Some EEXIST"
    and w: "write_generated_artifact deny fs (abs_path ds) rel content = (res, fs')"
  shows "case res of
      Some x \<Rightarrow> dirs_below ds fs fs' \<or> (\<exists>n m. x = ArtifactOS (ESHORT n m) \<and> artifact_written ds (take n content) fs fs')
    | None \<Rightarrow> artifact_written ds content fs fs'"
proof (cases "\<exists>c target. safe_review_artifact_path rel = Inr c \<and> safe_project_file_path (abs_path ds) c = Inr target")
  case False
  then show ?thesis using w by (auto simp: write_generated_artifact_def split: sum.splits)
next
  case True
  then obtain c target where ct: "safe_review_artifact_path rel = Inr c" "safe_project_file_path (abs_path ds) c = Inr target"
    by blast
  have pl: "list_all plain_element ds" using fs_ok_plain ok(1,2) by fastforce
  obtain d es e where d: "d = ''remediations'' \<or> d = ''rollbacks''" "list_all plain_element ([''.iac-studio'', d] @ es @ [e])"
    and tt: "target = abs_path ((ds @ [''.iac-studio'', d] @ es) @ [e])"
    and en: "ensure_no_symlink_dir deny fs (abs_path ds) (path_dir target) =
        ensure_dirs deny fs (abs_path ds) ([''.iac-studio'', d] @ es)"
    using artifact_target [OF pl ok(3) ct, of deny fs] by blast
  define dir where "dir = ds @ [''.iac-studio'', d] @ es"
  have plt: "list_all plain_element (dir @ [e])" using d pl by (simp add: dir_def)
  have tt: "target = abs_path (dir @ [e])" using tt by (simp only: dir_def)
  obtain r fs1 where r: "ensure_dirs deny fs (abs_path ds) ([''.iac-studio'', d] @ es) = (r, fs1)" by (metis prod.exhaust)
  have spec: "fs_ok fs1 \<and> dirs_below ds fs fs1 \<and> (r = None \<longrightarrow> fs1 dir = Some Dir)"
    using ensure_dirs_ok [of fs ds "[]" "[''.iac-studio'', d] @ es" deny r fs1] ok d r deny by (simp add: dir_def)
  show ?thesis
  proof (cases r)
    case (Some x)
    then show ?thesis using w ct en r spec by (auto simp: write_generated_artifact_def)
  next
    case None
    then have 1: "fs_ok fs1" "dirs_below ds fs fs1" "fs1 dir = Some Dir" using spec by auto
    have l: "fs_lstat fs1 target = (case fs1 (dir @ [e]) of None \<Rightarrow> Inl ENOENT | Some y \<Rightarrow> Inr y)"
      using plt tt elements_abs [of "dir @ [e]"] walk_last [OF 1(1,3), of e max_links False False]
      by (simp add: fs_lstat_def split: option.splits fs_node.splits)
    have wr: "write_file deny fs1 target content =
        (case deny (dir @ [e]) of
           Some x \<Rightarrow> (Some x, case x of ESHORT n _ \<Rightarrow> fs1(dir @ [e] := Some (File (take n content))) | _ \<Rightarrow> fs1)
         | None \<Rightarrow> (None, fs1(dir @ [e] := Some (File content))))"
      if "fs1 (dir @ [e]) \<noteq> Some Dir" "\<forall>t. fs1 (dir @ [e]) \<noteq> Some (Link t)"
      using write_entry [OF 1(1,3) plt that(2)] that(1) tt by simp
    have "case res of None \<Rightarrow> fs' = fs1(dir @ [e] := Some (File content))
      | Some x \<Rightarrow> fs' = fs1 \<or> (\<exists>n m. x = ArtifactOS (ESHORT n m) \<and> fs' = fs1(dir @ [e] := Some (File (take n content))))"
      using w ct en r None l wr
      by (cases "fs1 (dir @ [e])"; cases "the (fs1 (dir @ [e]))")
        (auto simp: write_generated_artifact_def Let_def split: option.splits fs_error.splits)
    moreover have "artifact_written ds c fs (fs1(dir @ [e] := Some (File c)))" for c
    proof -
      have "fs1 (ds @ [''.iac-studio'', d] @ es) = Some Dir"
        and "dir @ [e] = ds @ [''.iac-studio'', d] @ es @ [e]" using 1(3) by (simp_all add: dir_def)
      then show ?thesis using 1(2) d(1) unfolding artifact_written_def by metis
    qed
    ultimately show ?thesis using 1(2) by (cases res) auto
  qed
qed

text \<open>A path that climbs out is refused, one that does not is written below directories that are
  created for it, and with a link in the place of such a directory nothing is written.\<close>

theorem artifacts_stay_in_place_witness:
  "dirs_below [''r'', ''a''] demo_projects
     (snd (write_generated_artifact (\<lambda>_. None) demo_projects ''/r/a'' ''.iac-studio/rollbacks/../../m.tf'' ''x''))
   \<and> fst (write_generated_artifact (\<lambda>_. None) demo_projects ''/r/a'' ''.iac-studio/rollbacks/s/p.tf'' ''x'') = None
   \<and> snd (write_generated_artifact (\<lambda>_. None) demo_projects ''/r/a'' ''.iac-studio/rollbacks/s/p.tf'' ''x'')
       [''r'', ''a'', ''.iac-studio'', ''rollbacks'', ''s'', ''p.tf''] = Some (File ''x'')
   \<and> fst (write_generated_artifact (\<lambda>_. None) (demo_projects([''r'', ''a'', ''.iac-studio''] := Some (Link ''/'')))
       ''/r/a'' ''.iac-studio/rollbacks/p.tf'' ''x'') = Some (ArtifactLinkDir ''.iac-studio'')"
proof (intro conjI)
  let ?w = "write_generated_artifact (\<lambda>_. None) demo_projects ''/r/a'' ''.iac-studio/rollbacks/../../m.tf'' ''x''"
  let ?ds = "[''r'', ''a''] :: fs_path" and ?deny = "\<lambda>_ :: fs_path. None :: fs_error option"
  have a: "abs_path ?ds = ''/r/a''" by code_simp
  have f: "fst ?w = Some (ArtifactPath ''.iac-studio/rollbacks/../../m.tf'')" by code_simp
  have w: "?w = (Some (ArtifactPath ''.iac-studio/rollbacks/../../m.tf''), snd ?w)"
    by (rule prod_eqI) (simp_all only: f fst_conv snd_conv)
  have d: "demo_projects ?ds = Some Dir" by code_simp
  show "dirs_below ?ds demo_projects (snd ?w)"
    using artifacts_stay_in_place [OF demo_projects_ok d _ _ w [folded a], unfolded a] by simp
qed code_simp+

text \<open>C19: The path checks keep every existing path below its base. With the base resolving to
  \<open>root\<close>: a project directory or a subdirectory that is handed out and exists resolves strictly
  below \<open>root\<close>; a file path that is handed out has an allowed extension, the directory it lies in
  exists and resolves to \<open>root\<close> or below, and so does the file itself where it exists.\<close>

theorem safe_paths_contained:
  assumes "fs_ok fs" "eval_symlinks fs (path_abs cwd base) = Inr (abs_path root)" "list_all plain_element root"
    and "list_all plain_element q"
  shows "(safe_project_path cwd fs base name = Inr p \<and> eval_symlinks fs (path_abs cwd p) = Inr (abs_path q)
      \<longrightarrow> (\<exists>es. es \<noteq> [] \<and> q = root @ es))
    \<and> (safe_subdir cwd fs base segments = Inr p \<and> eval_symlinks fs (path_abs cwd p) = Inr (abs_path q)
      \<longrightarrow> (\<exists>es. es \<noteq> [] \<and> q = root @ es))
    \<and> (safe_project_file cwd fs base requested exts = Inr p
      \<longrightarrow> (exts = [] \<or> path_ext p \<in> set exts)
        \<and> (\<exists>es. eval_symlinks fs (path_dir p) = Inr (abs_path (root @ es)))
        \<and> (eval_symlinks fs p = Inr (abs_path q) \<longrightarrow> (\<exists>es. q = root @ es)))"
proof (intro conjI impI)
  assume f: "safe_project_file cwd fs base requested exts = Inr p"
  note f = project_file_inside [OF assms(1-3) f]
  from f show "exts = [] \<or> path_ext p \<in> set exts" by blast
  from f show "\<exists>es. eval_symlinks fs (path_dir p) = Inr (abs_path (root @ es))" by blast
  from f assms(4) show "\<exists>es. q = root @ es" if "eval_symlinks fs p = Inr (abs_path q)" using that by blast
qed (use project_path_inside [OF assms(1-3) _ _ assms(4)] subdir_inside [OF assms(1-3) _ _ assms(4)] in blast)+

text \<open>The witness has a project inside its root, and shows that a file that does not exist yet is
  another matter: a link to a missing file outside passes the check, and writing through it
  would create that file.\<close>

theorem safe_paths_contained_witness:
  "safe_project_path ''/'' demo_projects ''/r'' ''a'' = Inr ''/r/a'' \<and> (\<exists>es. es \<noteq> [] \<and> [''r'', ''a''] = [''r''] @ es)
   \<and> safe_project_file ''/'' demo_projects ''/r/a'' ''m.tf'' [''.tf''] = Inr ''/r/a/m.tf''
   \<and> snd (write_file (\<lambda>_. None) demo_projects ''/r/a/m.tf'' ''x'') [''new.tf''] = Some (File ''x'')"
proof (intro conjI)
  have e: "eval_symlinks demo_projects (path_abs ''/'' ''/r'') = Inr (abs_path [''r''])" by code_simp
  have p: "safe_project_path ''/'' demo_projects ''/r'' ''a'' = Inr ''/r/a''" by code_simp
  have q: "eval_symlinks demo_projects (path_abs ''/'' ''/r/a'') = Inr (abs_path [''r'', ''a''])" by code_simp
  show "safe_project_path ''/'' demo_projects ''/r'' ''a'' = Inr ''/r/a''" by (rule p)
  show "\<exists>es. es \<noteq> [] \<and> [''r'', ''a''] = [''r''] @ es"
    using safe_paths_contained [OF demo_projects_ok e, of "[''r'', ''a'']" "''a''" "''/r/a''"] p q
    by (simp add: plain_element_def)
  show "safe_project_file ''/'' demo_projects ''/r/a'' ''m.tf'' [''.tf''] = Inr ''/r/a/m.tf''" by code_simp
  show "snd (write_file (\<lambda>_. None) demo_projects ''/r/a/m.tf'' ''x'') [''new.tf''] = Some (File ''x'')" by code_simp
qed

end
