(* ===== verification/Policy_Rules.thy ===== *)
theory Policy_Rules
  imports Findings
begin

text \<open>
  The built-in policy engine of \<open>internal/policy/policy.go\<close> and its adapter
  \<open>internal/policy/engines/builtin.go\<close>: rules over the resources of a project, the report of an
  evaluation, and the fifteen default guardrails.

  A property of a resource is a JSON value. Go compares such a value with the constant 0 by its
  dynamic type: only a value of type \<open>int\<close> can be equal to it. The HCL and Pulumi parsers produce
  \<open>int64\<close> and \<open>float64\<close>, \<open>encoding/json\<close> produces \<open>float64\<close>, the YAML decoder produces \<open>int\<close>; the
  argument \<open>is_int\<close> tells which values have the type \<open>int\<close>.
\<close>

section \<open>Values of properties\<close>

definition ticked :: "string \<Rightarrow> string" where
  "ticked s = CHR 0x27 # s @ [CHR 0x27]"

definition dquoted :: "string \<Rightarrow> string" where
  "dquoted s = CHR 0x22 # s @ [CHR 0x22]"

definition em_dash :: string where
  "em_dash = [CHR 0xE2, CHR 0x80, CHR 0x94]"

definition property_of :: "parser_resource \<Rightarrow> string \<Rightarrow> json option" where
  "property_of r k = map_of (pr_Properties r) k"

definition is_true :: "json \<Rightarrow> bool" where
  "is_true v \<longleftrightarrow> v = JBool True \<or> v = JStr ''true''"

definition is_false :: "json \<Rightarrow> bool" where
  "is_false v \<longleftrightarrow> v = JBool False \<or> v = JStr ''false''"

definition is_zero :: "(json \<Rightarrow> bool) \<Rightarrow> json \<Rightarrow> bool" where
  "is_zero is_int v \<longleftrightarrow> v = JNum ''0'' \<and> is_int v \<or> v = JStr ''0''"

text \<open>\<open>fmt.Sprintf("%v", r.Properties[k])\<close>: an absent key prints as the nil interface.\<close>

definition printed :: "parser_resource \<Rightarrow> string \<Rightarrow> string" where
  "printed r k = (case property_of r k of None \<Rightarrow> format_v JNull | Some v \<Rightarrow> format_v v)"

section \<open>Rules and reports\<close>

record policy_violation =
  vi_RuleID :: string
  vi_RuleName :: string
  vi_Severity :: string
  vi_Category :: string
  vi_Resource :: string
  vi_Message :: string
  vi_Suggestion :: string
  vi_Field :: string

record policy_rule =
  rl_ID :: string
  rl_Name :: string
  rl_Description :: string
  rl_Severity :: string
  rl_Category :: string
  rl_Enabled :: bool
  rl_AppliesToTypes :: "string list"
  rl_check :: "parser_resource \<Rightarrow> policy_violation list"

record policy_report =
  po_Violations :: "policy_violation list"
  po_ByCategory :: "string \<Rightarrow> nat"
  po_BySeverity :: "string \<Rightarrow> nat"
  po_Passed :: int
  po_Failed :: int
  po_TotalChecks :: nat
  po_Compliant :: bool

definition empty_policy_report :: policy_report where
  "empty_policy_report = \<lparr>po_Violations = [], po_ByCategory = (\<lambda>_. 0), po_BySeverity = (\<lambda>_. 0),
     po_Passed = 0, po_Failed = 0, po_TotalChecks = 0, po_Compliant = False\<rparr>"

section \<open>Evaluation\<close>

definition contains_type :: "string list \<Rightarrow> string \<Rightarrow> bool" where
  "contains_type types t = list_ex (\<lambda>tt. tt = t) types"

definition rule_applies :: "policy_rule \<Rightarrow> parser_resource \<Rightarrow> bool" where
  "rule_applies rule r \<longleftrightarrow>
     rl_Enabled rule \<and> (rl_AppliesToTypes rule = [] \<or> contains_type (rl_AppliesToTypes rule) (pr_Type r))"

definition add_violation :: "string \<Rightarrow> policy_report \<times> bool \<Rightarrow> policy_violation \<Rightarrow> policy_report \<times> bool" where
  "add_violation addr s v =
     (case s of (report, failed) \<Rightarrow>
       (report\<lparr>po_Violations := po_Violations report @ [v\<lparr>vi_Resource := addr\<rparr>],
          po_ByCategory := (po_ByCategory report)(vi_Category v := po_ByCategory report (vi_Category v) + 1),
          po_BySeverity := (po_BySeverity report)(vi_Severity v := po_BySeverity report (vi_Severity v) + 1)\<rparr>,
        failed \<or> vi_Severity v = ''error''))"

definition apply_rule ::
  "parser_resource \<Rightarrow> policy_report \<times> bool \<Rightarrow> policy_rule \<Rightarrow> policy_report \<times> bool" where
  "apply_rule r s rule =
     (if \<not> rule_applies rule r then s
      else case s of (report, failed) \<Rightarrow>
        foldl (add_violation (resource_address r))
          (report\<lparr>po_TotalChecks := po_TotalChecks report + 1\<rparr>, failed) (rl_check rule r))"

definition check_resource ::
  "policy_rule list \<Rightarrow> policy_report \<times> string list \<Rightarrow> parser_resource \<Rightarrow> policy_report \<times> string list" where
  "check_resource rules s r =
     (case s of (report, failed_resources) \<Rightarrow>
       (case foldl (apply_rule r) (report, False) rules of
          (report1, failed) \<Rightarrow>
            (report1, if failed then List.insert (resource_address r) failed_resources else failed_resources)))"

definition policy_evaluate :: "policy_rule list \<Rightarrow> parser_resource list \<Rightarrow> policy_report" where
  "policy_evaluate rules rs =
     (case foldl (check_resource rules) (empty_policy_report, []) rs of
        (report, failed_resources) \<Rightarrow>
          report\<lparr>po_Failed := int (length failed_resources),
            po_Passed := int (length rs) - int (length failed_resources),
            po_Compliant := (po_BySeverity report ''error'' = 0)\<rparr>)"

definition enable_rule :: "policy_rule list \<Rightarrow> string \<Rightarrow> policy_rule list" where
  "enable_rule rules i = map (\<lambda>rule. if rl_ID rule = i then rule\<lparr>rl_Enabled := True\<rparr> else rule) rules"

definition disable_rule :: "policy_rule list \<Rightarrow> string \<Rightarrow> policy_rule list" where
  "disable_rule rules i = map (\<lambda>rule. if rl_ID rule = i then rule\<lparr>rl_Enabled := False\<rparr> else rule) rules"

section \<open>Helpers of the rules\<close>

definition taggable_prefixes :: "string list" where
  "taggable_prefixes = [''aws_instance'', ''aws_vpc'', ''aws_subnet'', ''aws_security_group'',
     ''aws_s3_bucket'', ''aws_db_instance'', ''aws_lb'', ''aws_ecs'', ''aws_lambda'',
     ''aws_rds'', ''aws_ebs'', ''aws_elasticache'', ''aws_iam_role'', ''aws_kms'']"

definition is_taggable :: "string \<Rightarrow> bool" where
  "is_taggable ty = list_ex (has_prefix ty) taggable_prefixes"

definition extract_tags :: "parser_resource \<Rightarrow> (string \<times> string) list" where
  "extract_tags r =
     (case property_of r ''tags'' of
        Some (JObj fs) \<Rightarrow> map (\<lambda>(k, v). (k, format_v v)) fs
      | _ \<Rightarrow> [])"

definition cidrs_of :: "parser_resource \<Rightarrow> string \<Rightarrow> string list" where
  "cidrs_of r field =
     (case property_of r field of
        Some (JArr xs) \<Rightarrow> map format_v xs
      | Some (JStr s) \<Rightarrow> [s]
      | _ \<Rightarrow> [])"

definition extract_cidrs :: "parser_resource \<Rightarrow> string list" where
  "extract_cidrs r = concat (map (cidrs_of r) [''cidr_blocks'', ''ipv6_cidr_blocks''])"

fun fields_of :: "(char \<Rightarrow> bool) \<Rightarrow> string \<Rightarrow> string \<Rightarrow> string list" where
  "fields_of sep acc [] = (if acc = [] then [] else [acc])"
| "fields_of sep acc (c # s) =
     (if sep c then (if acc = [] then [] else [acc]) @ fields_of sep [] s else fields_of sep (acc @ [c]) s)"

text \<open>The first byte alone is converted: one that starts a longer rune becomes the replacement
  character.\<close>

definition upper_first :: "string \<Rightarrow> string" where
  "upper_first p =
     (case p of [] \<Rightarrow> [] | c # s \<Rightarrow> (if is_ascii c then [upper_char c] else [CHR 0xEF, CHR 0xBF, CHR 0xBD]) @ s)"

definition to_pascal_case :: "string \<Rightarrow> string" where
  "to_pascal_case s =
     concat (map upper_first (fields_of (\<lambda>c. c = CHR ''_'' \<or> c = CHR ''-'' \<or> c = CHR '' '') [] s))"

definition replace_char :: "char \<Rightarrow> char \<Rightarrow> string \<Rightarrow> string" where
  "replace_char a b s = map (\<lambda>c. if c = a then b else c) s"

section \<open>The default rules\<close>

definition required_tags :: "string list" where
  "required_tags = [''Environment'', ''Team'', ''ManagedBy'']"

definition oversized_sizes :: "string list" where
  "oversized_sizes = [''x2xlarge'', ''4xlarge'', ''8xlarge'', ''12xlarge'', ''16xlarge'', ''24xlarge'', ''metal'']"

definition check_tag_required :: "parser_resource \<Rightarrow> policy_violation list" where
  "check_tag_required r =
     (if \<not> is_taggable (pr_Type r) then []
      else map (\<lambda>tag.
        \<lparr>vi_RuleID = ''tag-required'', vi_RuleName = ''Required Tags'', vi_Severity = ''error'', vi_Category = ''tagging'',
       vi_Resource = [], vi_Message = ''missing required tag '' @ ticked tag,
       vi_Suggestion = ''add tag: '' @ tag @ '' = '' @ dquoted ''<value>'', vi_Field = ''tags''\<rparr>) (filter (\<lambda>tag. map_of (extract_tags r) tag = None) required_tags))"

definition check_tag_naming :: "parser_resource \<Rightarrow> policy_violation list" where
  "check_tag_naming r =
     (map (\<lambda>key.
        \<lparr>vi_RuleID = ''tag-naming'', vi_RuleName = ''Tag Naming Convention'', vi_Severity = ''warning'', vi_Category = ''tagging'',
       vi_Resource = [], vi_Message = ''tag key '' @ ticked key @ '' should be PascalCase'',
       vi_Suggestion = ''rename to '' @ ticked (to_pascal_case key), vi_Field = ''tags.'' @ key\<rparr>) (filter (\<lambda>key. key \<noteq> [] \<and> (hd key < CHR ''A'' \<or> CHR ''Z'' < hd key)) (map fst (extract_tags r))))"

definition check_encrypt_s3 :: "parser_resource \<Rightarrow> policy_violation list" where
  "check_encrypt_s3 r =
     (if property_of r ''server_side_encryption_configuration'' = None then [
        \<lparr>vi_RuleID = ''encrypt-s3'', vi_RuleName = ''S3 Encryption'', vi_Severity = ''error'', vi_Category = ''encryption'',
       vi_Resource = [], vi_Message = ''S3 bucket has no server-side encryption configured'',
       vi_Suggestion = ''add aws_s3_bucket_server_side_encryption_configuration resource or inline block'', vi_Field = ''server_side_encryption_configuration''\<rparr>] else [])"

definition check_encrypt_rds :: "parser_resource \<Rightarrow> policy_violation list" where
  "check_encrypt_rds r =
     (let violation = \<lparr>vi_RuleID = ''encrypt-rds'', vi_RuleName = ''RDS Encryption'', vi_Severity = ''error'', vi_Category = ''encryption'',
       vi_Resource = [], vi_Message = ''RDS instance does not have storage encryption enabled'',
       vi_Suggestion = ''set storage_encrypted = true'', vi_Field = ''storage_encrypted''\<rparr> in
      case property_of r ''storage_encrypted'' of
        Some v \<Rightarrow> if is_true v then [] else [violation]
      | None \<Rightarrow> [violation])"

definition check_encrypt_ebs :: "parser_resource \<Rightarrow> policy_violation list" where
  "check_encrypt_ebs r =
     (let violation = \<lparr>vi_RuleID = ''encrypt-ebs'', vi_RuleName = ''EBS Encryption'', vi_Severity = ''warning'', vi_Category = ''encryption'',
       vi_Resource = [], vi_Message = ''EBS volume is not encrypted'',
       vi_Suggestion = ''set encrypted = true'', vi_Field = ''encrypted''\<rparr> in
      if pr_Type r = ''aws_ebs_volume'' then
        (case property_of r ''encrypted'' of
           Some v \<Rightarrow> if is_true v then [] else [violation]
         | None \<Rightarrow> [violation])
      else [])"

definition check_no_public_s3 :: "parser_resource \<Rightarrow> policy_violation list" where
  "check_no_public_s3 r =
     (if printed r ''acl'' = ''public-read'' \<or> printed r ''acl'' = ''public-read-write'' then [
        \<lparr>vi_RuleID = ''no-public-s3'', vi_RuleName = ''No Public S3'', vi_Severity = ''error'', vi_Category = ''access'',
       vi_Resource = [], vi_Message = ''S3 bucket has public ACL '' @ em_dash @ '' data exposure risk'',
       vi_Suggestion = ''set acl = '' @ dquoted ''private'' @ '' and use bucket policies for controlled access'', vi_Field = ''acl''\<rparr>] else [])"

definition check_no_open_sg :: "parser_resource \<Rightarrow> policy_violation list" where
  "check_no_open_sg r =
     (map (\<lambda>cidr.
        \<lparr>vi_RuleID = ''no-open-sg'', vi_RuleName = ''No Open Security Groups'', vi_Severity = ''error'', vi_Category = ''networking'',
       vi_Resource = [], vi_Message = ''security group allows 0.0.0.0/0 on port '' @ printed r ''from_port'',
       vi_Suggestion = ''restrict CIDR to specific IP ranges or use a VPN'', vi_Field = ''cidr_blocks''\<rparr>)
        (filter (\<lambda>cidr. (cidr = ''0.0.0.0/0'' \<or> cidr = ''::/0'')
           \<and> printed r ''from_port'' \<noteq> ''80'' \<and> printed r ''from_port'' \<noteq> ''443'') (extract_cidrs r)))"

definition check_no_default_vpc :: "parser_resource \<Rightarrow> policy_violation list" where
  "check_no_default_vpc r =
     (if pr_Type r = ''aws_default_vpc'' \<or> pr_Type r = ''aws_default_subnet'' then [
        \<lparr>vi_RuleID = ''no-default-vpc'', vi_RuleName = ''No Default VPC'', vi_Severity = ''warning'', vi_Category = ''networking'',
       vi_Resource = [], vi_Message = ''using default VPC resources is not recommended for production'',
       vi_Suggestion = ''create a dedicated VPC with proper CIDR allocation'', vi_Field = []\<rparr>] else [])"

definition check_private_subnet_nat :: "parser_resource \<Rightarrow> policy_violation list" where
  "check_private_subnet_nat r =
     (case property_of r ''map_public_ip_on_launch'' of
        Some v \<Rightarrow> if is_false v then [
        \<lparr>vi_RuleID = ''private-subnet-nat'', vi_RuleName = ''Private Subnets Need NAT'', vi_Severity = ''info'', vi_Category = ''networking'',
       vi_Resource = [], vi_Message = ''private subnet detected '' @ em_dash @ '' ensure a NAT gateway exists for outbound internet'',
       vi_Suggestion = ''add aws_nat_gateway in a public subnet and a route table pointing to it'', vi_Field = []\<rparr>] else []
      | None \<Rightarrow> [])"

definition check_naming_convention :: "parser_resource \<Rightarrow> policy_violation list" where
  "check_naming_convention r =
     (if length (pr_Name r) \<le> 2 then [
        \<lparr>vi_RuleID = ''naming-convention'', vi_RuleName = ''Resource Naming Convention'', vi_Severity = ''warning'', vi_Category = ''naming'',
       vi_Resource = [], vi_Message = ''resource name '' @ ticked (pr_Name r) @ '' is too short '' @ em_dash @ '' use descriptive names'',
       vi_Suggestion = ''use a descriptive name like '' @ ticked ''web_server'' @ '' or '' @ ticked ''api_subnet_public'', vi_Field = []\<rparr>]
      else if CHR ''-'' \<in> set (pr_Name r) then [\<lparr>vi_RuleID = ''naming-convention'', vi_RuleName = ''Resource Naming Convention'', vi_Severity = ''warning'', vi_Category = ''naming'',
       vi_Resource = [], vi_Message = ''resource name '' @ ticked (pr_Name r) @ '' uses hyphens '' @ em_dash @ '' Terraform convention is snake_case'',
       vi_Suggestion = ''rename to '' @ ticked (replace_char (CHR ''-'') (CHR ''_'') (pr_Name r)), vi_Field = []\<rparr>] else [])"

definition check_oversized_instance :: "parser_resource \<Rightarrow> policy_violation list" where
  "check_oversized_instance r =
     (if list_ex (has_suffix (printed r ''instance_type'')) oversized_sizes then [
        \<lparr>vi_RuleID = ''oversized-instance'', vi_RuleName = ''Oversized Instance Check'', vi_Severity = ''info'', vi_Category = ''cost'',
       vi_Resource = [], vi_Message = ''instance type '' @ ticked (printed r ''instance_type'') @ '' is large '' @ em_dash @ '' verify this is intentional'',
       vi_Suggestion = ''consider right-sizing or using auto-scaling'', vi_Field = []\<rparr>] else [])"

definition check_rds_backup :: "(json \<Rightarrow> bool) \<Rightarrow> parser_resource \<Rightarrow> policy_violation list" where
  "check_rds_backup is_int r =
     (case property_of r ''backup_retention_period'' of
        Some v \<Rightarrow> if is_zero is_int v then [
        \<lparr>vi_RuleID = ''rds-backup'', vi_RuleName = ''RDS Backup Retention'', vi_Severity = ''warning'', vi_Category = ''durability'',
       vi_Resource = [], vi_Message = ''RDS backup retention is 0 '' @ em_dash @ '' no automated backups'',
       vi_Suggestion = ''set backup_retention_period to at least 7 (days)'', vi_Field = ''backup_retention_period''\<rparr>] else []
      | None \<Rightarrow> [])"

definition check_rds_multi_az :: "parser_resource \<Rightarrow> policy_violation list" where
  "check_rds_multi_az r =
     (let violation = \<lparr>vi_RuleID = ''rds-multi-az'', vi_RuleName = ''RDS Multi-AZ'', vi_Severity = ''info'', vi_Category = ''durability'',
       vi_Resource = [], vi_Message = ''RDS instance is not Multi-AZ '' @ em_dash @ '' single point of failure'',
       vi_Suggestion = ''set multi_az = true for production workloads'', vi_Field = ''multi_az''\<rparr> in
      case property_of r ''multi_az'' of
        Some v \<Rightarrow> if is_true v then [] else [violation]
      | None \<Rightarrow> [violation])"

definition check_s3_logging :: "parser_resource \<Rightarrow> policy_violation list" where
  "check_s3_logging r =
     (if property_of r ''logging'' = None then [
        \<lparr>vi_RuleID = ''s3-logging'', vi_RuleName = ''S3 Access Logging'', vi_Severity = ''warning'', vi_Category = ''logging'',
       vi_Resource = [], vi_Message = ''S3 bucket does not have access logging enabled'',
       vi_Suggestion = ''add aws_s3_bucket_logging resource to track access'', vi_Field = []\<rparr>] else [])"

definition check_vpc_flow_logs :: "parser_resource \<Rightarrow> policy_violation list" where
  "check_vpc_flow_logs r =
     ([
        \<lparr>vi_RuleID = ''vpc-flow-logs'', vi_RuleName = ''VPC Flow Logs'', vi_Severity = ''warning'', vi_Category = ''logging'',
       vi_Resource = [], vi_Message = ''ensure aws_flow_log resource exists for this VPC'',
       vi_Suggestion = ''add an aws_flow_log resource pointing to this VPC for network audit trail'', vi_Field = []\<rparr>])"

definition default_rules :: "(json \<Rightarrow> bool) \<Rightarrow> policy_rule list" where
  "default_rules is_int =
    [\<lparr>rl_ID = ''tag-required'', rl_Name = ''Required Tags'',
      rl_Description = ''All taggable resources must have Environment, Team, and ManagedBy tags'',
      rl_Severity = ''error'', rl_Category = ''tagging'', rl_Enabled = True, rl_AppliesToTypes = [],
      rl_check = check_tag_required\<rparr>,
     \<lparr>rl_ID = ''tag-naming'', rl_Name = ''Tag Naming Convention'',
      rl_Description = ''Tag keys must use PascalCase'',
      rl_Severity = ''warning'', rl_Category = ''tagging'', rl_Enabled = True, rl_AppliesToTypes = [],
      rl_check = check_tag_naming\<rparr>,
     \<lparr>rl_ID = ''encrypt-s3'', rl_Name = ''S3 Encryption'',
      rl_Description = ''S3 buckets must have server-side encryption enabled'',
      rl_Severity = ''error'', rl_Category = ''encryption'', rl_Enabled = True, rl_AppliesToTypes = [''aws_s3_bucket''],
      rl_check = check_encrypt_s3\<rparr>,
     \<lparr>rl_ID = ''encrypt-rds'', rl_Name = ''RDS Encryption'',
      rl_Description = ''RDS instances must have storage encryption enabled'',
      rl_Severity = ''error'', rl_Category = ''encryption'', rl_Enabled = True, rl_AppliesToTypes = [''aws_db_instance'', ''aws_rds_instance''],
      rl_check = check_encrypt_rds\<rparr>,
     \<lparr>rl_ID = ''encrypt-ebs'', rl_Name = ''EBS Encryption'',
      rl_Description = ''EBS volumes should be encrypted'',
      rl_Severity = ''warning'', rl_Category = ''encryption'', rl_Enabled = True, rl_AppliesToTypes = [''aws_ebs_volume'', ''aws_instance''],
      rl_check = check_encrypt_ebs\<rparr>,
     \<lparr>rl_ID = ''no-public-s3'', rl_Name = ''No Public S3'',
      rl_Description = ''S3 buckets must not have public ACL'',
      rl_Severity = ''error'', rl_Category = ''access'', rl_Enabled = True, rl_AppliesToTypes = [''aws_s3_bucket'', ''aws_s3_bucket_acl''],
      rl_check = check_no_public_s3\<rparr>,
     \<lparr>rl_ID = ''no-open-sg'', rl_Name = ''No Open Security Groups'',
      rl_Description = ''Security groups must not allow 0.0.0.0/0 on non-standard ports'',
      rl_Severity = ''error'', rl_Category = ''networking'', rl_Enabled = True, rl_AppliesToTypes = [''aws_security_group'', ''aws_security_group_rule''],
      rl_check = check_no_open_sg\<rparr>,
     \<lparr>rl_ID = ''no-default-vpc'', rl_Name = ''No Default VPC'',
      rl_Description = ''Resources should not use the default VPC'',
      rl_Severity = ''warning'', rl_Category = ''networking'', rl_Enabled = True, rl_AppliesToTypes = [],
      rl_check = check_no_default_vpc\<rparr>,
     \<lparr>rl_ID = ''private-subnet-nat'', rl_Name = ''Private Subnets Need NAT'',
      rl_Description = ''Private subnets should have a NAT gateway for outbound access'',
      rl_Severity = ''info'', rl_Category = ''networking'', rl_Enabled = True, rl_AppliesToTypes = [''aws_subnet''],
      rl_check = check_private_subnet_nat\<rparr>,
     \<lparr>rl_ID = ''naming-convention'', rl_Name = ''Resource Naming Convention'',
      rl_Description = ''Resource names should use snake_case and be descriptive'',
      rl_Severity = ''warning'', rl_Category = ''naming'', rl_Enabled = True, rl_AppliesToTypes = [],
      rl_check = check_naming_convention\<rparr>,
     \<lparr>rl_ID = ''oversized-instance'', rl_Name = ''Oversized Instance Check'',
      rl_Description = ''Flags potentially oversized EC2 instances for cost review'',
      rl_Severity = ''info'', rl_Category = ''cost'', rl_Enabled = True, rl_AppliesToTypes = [''aws_instance''],
      rl_check = check_oversized_instance\<rparr>,
     \<lparr>rl_ID = ''rds-backup'', rl_Name = ''RDS Backup Retention'',
      rl_Description = ''RDS instances should have backup retention enabled'',
      rl_Severity = ''warning'', rl_Category = ''durability'', rl_Enabled = True, rl_AppliesToTypes = [''aws_db_instance'', ''aws_rds_instance''],
      rl_check = check_rds_backup is_int\<rparr>,
     \<lparr>rl_ID = ''rds-multi-az'', rl_Name = ''RDS Multi-AZ'',
      rl_Description = ''Production RDS instances should use Multi-AZ deployment'',
      rl_Severity = ''info'', rl_Category = ''durability'', rl_Enabled = True, rl_AppliesToTypes = [''aws_db_instance'', ''aws_rds_instance''],
      rl_check = check_rds_multi_az\<rparr>,
     \<lparr>rl_ID = ''s3-logging'', rl_Name = ''S3 Access Logging'',
      rl_Description = ''S3 buckets should have access logging enabled'',
      rl_Severity = ''warning'', rl_Category = ''logging'', rl_Enabled = True, rl_AppliesToTypes = [''aws_s3_bucket''],
      rl_check = check_s3_logging\<rparr>,
     \<lparr>rl_ID = ''vpc-flow-logs'', rl_Name = ''VPC Flow Logs'',
      rl_Description = ''VPCs should have flow logs for network visibility'',
      rl_Severity = ''warning'', rl_Category = ''logging'', rl_Enabled = True, rl_AppliesToTypes = [''aws_vpc''],
      rl_check = check_vpc_flow_logs\<rparr>]"

section \<open>The adapter of the built-in engine\<close>

definition builtin_finding :: "policy_violation \<Rightarrow> policy_finding" where
  "builtin_finding v = \<lparr>pf_Engine = ''builtin'', pf_PolicyID = vi_RuleID v, pf_PolicyName = vi_RuleName v,
     pf_Severity = vi_Severity v, pf_Category = vi_Category v, pf_Resource = vi_Resource v,
     pf_Message = vi_Message v, pf_Suggestion = vi_Suggestion v, pf_PolicyFile = []\<rparr>"

definition builtin_evaluate :: "policy_rule list \<Rightarrow> eval_input \<Rightarrow> policy_result" where
  "builtin_evaluate rules inp =
     (let res = \<lparr>px_Engine = ''builtin'', px_Available = True, px_Findings = [], px_Error = []\<rparr> in
      if ei_Resources inp = [] then res
      else res\<lparr>px_Findings := map builtin_finding (po_Violations (policy_evaluate rules (ei_Resources inp)))\<rparr>)"

definition builtin_engine :: "policy_rule list \<Rightarrow> 'w policy_engine" where
  "builtin_engine rules = \<lparr>pe_Name = ''builtin'', pe_Evaluate = (\<lambda>w inp. ((builtin_evaluate rules inp, None), w))\<rparr>"

end
