(* ===== verification/Policy_Props.thy ===== *)
theory Policy_Props
  imports Policy_Rules
begin

text \<open>
  What the built-in policy engine reports: the report adds up, the default rules block exactly the
  resources that miss a guardrail, and a disabled rule takes exactly its own violations away.
\<close>

section \<open>The report of an evaluation\<close>

definition located :: "parser_resource \<Rightarrow> policy_violation \<Rightarrow> policy_violation" where
  "located r v = v\<lparr>vi_Resource := resource_address r\<rparr>"

definition violations_of :: "policy_rule list \<Rightarrow> parser_resource \<Rightarrow> policy_violation list" where
  "violations_of rules r =
     concat (map (\<lambda>rule. map (located r) (rl_check rule r)) (filter (\<lambda>rule. rule_applies rule r) rules))"

definition is_error :: "policy_violation \<Rightarrow> bool" where
  "is_error v \<longleftrightarrow> vi_Severity v = ''error''"

definition count_by :: "('a \<Rightarrow> string) \<Rightarrow> 'a list \<Rightarrow> string \<Rightarrow> nat" where
  "count_by f xs k = length (filter (\<lambda>x. f x = k) xs)"

lemma count_by_simps [simp]: "count_by f [] = (\<lambda>_. 0)" "count_by f (xs @ ys) k = count_by f xs k + count_by f ys k"
  by (auto simp: count_by_def)

definition counted :: "policy_report \<Rightarrow> policy_violation list \<Rightarrow> policy_report" where
  "counted report vs = report\<lparr>po_Violations := po_Violations report @ vs,
     po_ByCategory := (\<lambda>k. po_ByCategory report k + count_by vi_Category vs k),
     po_BySeverity := (\<lambda>k. po_BySeverity report k + count_by vi_Severity vs k)\<rparr>"

lemma counted_counted [simp]: "counted (counted report vs) ws = counted report (vs @ ws)"
  by (simp add: counted_def add.assoc)

lemma counted_Nil [simp]: "counted report [] = report"
  by (simp add: counted_def)

lemma counted_checks [simp]:
  "(counted report vs)\<lparr>po_TotalChecks := n\<rparr> = counted (report\<lparr>po_TotalChecks := n\<rparr>) vs"
  "po_TotalChecks (counted report vs) = po_TotalChecks report"
  by (simp_all add: counted_def)

lemma add_violations:
  "foldl (add_violation (resource_address r)) (report, failed) vs
   = (counted report (map (located r) vs), failed \<or> list_ex is_error vs)"
proof (induction vs arbitrary: report failed)
  case (Cons v vs)
  have "add_violation (resource_address r) (report, failed) v = (counted report [located r v], failed \<or> is_error v)"
    by (auto simp: add_violation_def counted_def located_def is_error_def count_by_def fun_eq_iff
        intro!: policy_report.equality)
  then show ?case by (simp add: Cons.IH)
qed simp

lemma located_simps [simp]: "vi_Severity (located r v) = vi_Severity v" "vi_RuleID (located r v) = vi_RuleID v"
  "is_error (located r v) = is_error v"
  by (simp_all add: located_def is_error_def)

definition checks_of :: "policy_rule list \<Rightarrow> parser_resource \<Rightarrow> nat" where
  "checks_of rules r = length (filter (\<lambda>rule. rule_applies rule r) rules)"

lemma violations_of_simps [simp]:
  "violations_of [] r = []"
  "violations_of (rule # rules) r =
     (if rule_applies rule r then map (located r) (rl_check rule r) @ violations_of rules r else violations_of rules r)"
  by (simp_all add: violations_of_def)

lemma checks_of_simps [simp]:
  "checks_of [] r = 0"
  "checks_of (rule # rules) r = (if rule_applies rule r then Suc (checks_of rules r) else checks_of rules r)"
  by (simp_all add: checks_of_def)

lemma error_located [simp]: "list_ex is_error (map (located r) vs) = list_ex is_error vs"
  by (induction vs) simp_all

lemma apply_one_rule:
  "apply_rule r (report, failed) rule =
     (if rule_applies rule r
      then (counted (report\<lparr>po_TotalChecks := Suc (po_TotalChecks report)\<rparr>) (map (located r) (rl_check rule r)),
        failed \<or> list_ex is_error (rl_check rule r))
      else (report, failed))"
  by (simp add: apply_rule_def add_violations)

lemma apply_rules:
  "foldl (apply_rule r) (report, failed) rules
   = (counted (report\<lparr>po_TotalChecks := po_TotalChecks report + checks_of rules r\<rparr>) (violations_of rules r),
      failed \<or> list_ex is_error (violations_of rules r))"
  by (induction rules arbitrary: report failed) (simp_all add: apply_one_rule)

lemma check_resources:
  "foldl (check_resource rules) (report, failing) rs
   = (counted (report\<lparr>po_TotalChecks := po_TotalChecks report + sum_list (map (checks_of rules) rs)\<rparr>)
        (concat (map (violations_of rules) rs)),
      foldl (\<lambda>fs r. if list_ex is_error (violations_of rules r) then List.insert (resource_address r) fs else fs) failing rs)"
  by (induction rs arbitrary: report failing) (simp_all add: check_resource_def apply_rules add.assoc)

lemma insert_if_set:
  "distinct fs \<Longrightarrow> distinct (foldl (\<lambda>fs r. if P r then List.insert (f r) fs else fs) fs rs)
    \<and> set (foldl (\<lambda>fs r. if P r then List.insert (f r) fs else fs) fs rs) = set fs \<union> f ` {r \<in> set rs. P r}"
  by (induction rs arbitrary: fs) auto

lemma policy_evaluate_eq:
  "policy_evaluate rules rs = (let vs = concat (map (violations_of rules) rs);
      failing = resource_address ` {r \<in> set rs. list_ex is_error (violations_of rules r)} in
    \<lparr>po_Violations = vs, po_ByCategory = count_by vi_Category vs, po_BySeverity = count_by vi_Severity vs,
     po_Passed = int (length rs) - int (card failing), po_Failed = int (card failing),
     po_TotalChecks = sum_list (map (checks_of rules) rs), po_Compliant = list_all (\<lambda>v. \<not> is_error v) vs\<rparr>)"
proof -
  let ?fs = "foldl (\<lambda>fs r. if list_ex is_error (violations_of rules r)
    then List.insert (resource_address r) fs else fs) [] rs"
  have "length ?fs = card (resource_address ` {r \<in> set rs. list_ex is_error (violations_of rules r)})"
    using insert_if_set [of "[]" "\<lambda>r. list_ex is_error (violations_of rules r)" resource_address rs]
      distinct_card [of ?fs] by simp
  moreover have "count_by vi_Severity vs ''error'' = 0 \<longleftrightarrow> list_all (\<lambda>v. \<not> is_error v) vs" for vs
    by (auto simp: count_by_def is_error_def list_all_iff filter_empty_conv)
  ultimately show ?thesis
    by (simp add: policy_evaluate_def check_resources Let_def)
      (simp add: counted_def empty_policy_report_def)
qed

section \<open>The default rules\<close>

lemmas default_checks = check_tag_required_def check_tag_naming_def check_encrypt_s3_def check_encrypt_rds_def
  check_encrypt_ebs_def check_no_public_s3_def check_no_open_sg_def check_no_default_vpc_def
  check_private_subnet_nat_def check_naming_convention_def check_oversized_instance_def check_rds_backup_def
  check_rds_multi_az_def check_s3_logging_def check_vpc_flow_logs_def

text \<open>Every check reports violations of its own rule and severity.\<close>

definition own_violations :: "policy_rule \<Rightarrow> bool" where
  "own_violations rule \<longleftrightarrow>
     (\<forall>r. \<forall>v \<in> set (rl_check rule r). vi_RuleID v = rl_ID rule \<and> vi_Severity v = rl_Severity rule)"

lemma default_rules_own: "list_all own_violations (default_rules is_int)"
  by (simp only: default_rules_def list.pred_inject policy_rule.simps own_violations_def simp_thms)
    (intro conjI allI; force simp: default_checks Let_def split: option.splits if_splits)

lemma default_rules_enabled: "list_all rl_Enabled (default_rules is_int)"
  by (simp add: default_rules_def)

lemma errors_of_rules:
  "list_all own_violations rules \<Longrightarrow>
   list_ex is_error (violations_of rules r) =
     list_ex (\<lambda>rule. rl_Severity rule = ''error'' \<and> rule_applies rule r \<and> rl_check rule r \<noteq> []) rules"
proof (induction rules)
  case (Cons rule rules)
  have "list_ex is_error (rl_check rule r) \<longleftrightarrow> rl_Severity rule = ''error'' \<and> rl_check rule r \<noteq> []"
  proof -
    have "\<forall>v \<in> set (rl_check rule r). vi_Severity v = rl_Severity rule" using Cons.prems by (simp add: own_violations_def)
    then show ?thesis by (cases "rl_check rule r") (auto simp: is_error_def list_ex_iff)
  qed
  with Cons show ?case by simp
qed simp

text \<open>The guardrails that block, as a specification of one resource.\<close>

definition has_required_tags :: "parser_resource \<Rightarrow> bool" where
  "has_required_tags r \<longleftrightarrow> (\<exists>fs. property_of r ''tags'' = Some (JObj fs)
     \<and> {''Environment'', ''Team'', ''ManagedBy''} \<subseteq> fst ` set fs)"

definition storage_encrypted :: "parser_resource \<Rightarrow> bool" where
  "storage_encrypted r \<longleftrightarrow> (\<exists>v. property_of r ''storage_encrypted'' = Some v \<and> is_true v)"

definition public_acl :: "parser_resource \<Rightarrow> bool" where
  "public_acl r \<longleftrightarrow> printed r ''acl'' \<in> {''public-read'', ''public-read-write''}"

definition open_to_the_world :: "parser_resource \<Rightarrow> bool" where
  "open_to_the_world r \<longleftrightarrow>
     set (extract_cidrs r) \<inter> {''0.0.0.0/0'', ''::/0''} \<noteq> {} \<and> printed r ''from_port'' \<notin> {''80'', ''443''}"

definition meets_guardrails :: "parser_resource \<Rightarrow> bool" where
  "meets_guardrails r \<longleftrightarrow>
     (is_taggable (pr_Type r) \<longrightarrow> has_required_tags r)
   \<and> (pr_Type r = ''aws_s3_bucket'' \<longrightarrow> property_of r ''server_side_encryption_configuration'' \<noteq> None)
   \<and> (pr_Type r \<in> {''aws_db_instance'', ''aws_rds_instance''} \<longrightarrow> storage_encrypted r)
   \<and> (pr_Type r \<in> {''aws_s3_bucket'', ''aws_s3_bucket_acl''} \<longrightarrow> \<not> public_acl r)
   \<and> (pr_Type r \<in> {''aws_security_group'', ''aws_security_group_rule''} \<longrightarrow> \<not> open_to_the_world r)"

lemma tags_missing: "check_tag_required r = [] \<longleftrightarrow> (is_taggable (pr_Type r) \<longrightarrow> has_required_tags r)"
proof -
  have k: "map_of (map (\<lambda>(k, v). (k, format_v v)) fs) k = None \<longleftrightarrow> k \<notin> fst ` set fs" for fs k
    by (force simp: map_of_eq_None_iff)
  then have k': "(\<exists>y. map_of (map (\<lambda>(k, v). (k, format_v v)) fs) k = Some y) \<longleftrightarrow> k \<in> fst ` set fs" for fs k
    by (metis not_Some_eq)
  show ?thesis
    by (auto simp: check_tag_required_def has_required_tags_def extract_tags_def required_tags_def k k' filter_empty_conv
        split: option.splits json.splits)
qed

lemma rds_unencrypted: "check_encrypt_rds r = [] \<longleftrightarrow> storage_encrypted r"
  by (auto simp: check_encrypt_rds_def storage_encrypted_def Let_def split: option.split)

lemma sg_open: "check_no_open_sg r = [] \<longleftrightarrow> \<not> open_to_the_world r"
  by (auto simp: check_no_open_sg_def open_to_the_world_def filter_empty_conv)

lemma acl_public: "check_no_public_s3 r = [] \<longleftrightarrow> \<not> public_acl r"
  by (auto simp: check_no_public_s3_def public_acl_def)

lemma contains_type_iff [simp]: "contains_type ts t \<longleftrightarrow> t \<in> set ts"
  by (simp add: contains_type_def list_ex_iff)

lemma blocked_resource:
  "list_ex is_error (violations_of (default_rules is_int) r) \<longleftrightarrow> \<not> meets_guardrails r"
  unfolding errors_of_rules [OF default_rules_own]
  by (cases "property_of r ''server_side_encryption_configuration'' = None";
      simp add: default_rules_def rule_applies_def tags_missing rds_unencrypted sg_open acl_public
        meets_guardrails_def check_encrypt_s3_def; blast)

lemma compliant_guarded:
  "list_all (\<lambda>v. \<not> is_error v) (concat (map (violations_of (default_rules is_int)) rs)) = list_all meets_guardrails rs"
proof (induction rs)
  case (Cons r rs)
  then show ?case using blocked_resource [of is_int r] by (auto simp: list_all_iff list_ex_iff)
qed simp

lemma violations_of_disabled:
  "list_all own_violations rules \<Longrightarrow> list_all (\<lambda>rule. rl_ID rule = i \<longrightarrow> rl_Enabled rule) rules \<Longrightarrow>
   violations_of (disable_rule rules i) r = filter (\<lambda>v. vi_RuleID v \<noteq> i) (violations_of rules r)"
proof (induction rules)
  case (Cons rule rules)
  have "filter (\<lambda>v. vi_RuleID v \<noteq> i) (map (located r) (rl_check rule r)) = (if rl_ID rule = i then [] else map (located r) (rl_check rule r))"
    using Cons.prems by (auto simp: filter_map o_def own_violations_def filter_empty_conv)
  with Cons show ?case by (auto simp: disable_rule_def rule_applies_def)
qed (simp add: disable_rule_def)

section \<open>Properties\<close>

text \<open>A report adds up, for any rules: it has the violations of the enabled rules that apply, in
  order and each at the address of its resource; counts them by category and severity; fails
  the addresses that have an error and passes the rest of the resources, with warnings or not;
  and is compliant exactly if nothing failed. The built-in engine blocks exactly when the report
  is not compliant.\<close>

theorem policy_report_adds_up:
  "let report = policy_evaluate rules rs; vs = concat (map (violations_of rules) rs);
       failing = resource_address ` {r \<in> set rs. list_ex is_error (violations_of rules r)} in
   po_Violations report = vs \<and> po_ByCategory report = count_by vi_Category vs \<and> po_BySeverity report = count_by vi_Severity vs
   \<and> po_TotalChecks report = sum_list (map (checks_of rules) rs)
   \<and> po_Failed report = int (card failing) \<and> po_Passed report + po_Failed report = int (length rs)
   \<and> po_Compliant report = (po_Failed report = 0)
   \<and> policy_has_blocking (builtin_evaluate rules inp) = (\<not> po_Compliant (policy_evaluate rules (ei_Resources inp)))"
proof -
  have "list_all (\<lambda>v. \<not> is_error v) (concat (map (violations_of rules) rs))
      = ({r \<in> set rs. list_ex is_error (violations_of rules r)} = {})"
    by (auto simp: list_all_iff list_ex_iff)
  moreover have "policy_has_blocking (builtin_evaluate rules inp) = (\<not> po_Compliant (policy_evaluate rules (ei_Resources inp)))"
    by (simp add: builtin_evaluate_def policy_has_blocking_def policy_is_blocking_def builtin_finding_def Let_def
        policy_evaluate_eq list_ex_iff list_all_iff is_error_def)
  ultimately show ?thesis by (simp add: policy_evaluate_eq Let_def)
qed

text \<open>C24: The default rules block exactly the resources that miss a guardrail: a taggable resource has
  the three required tags, a bucket has inline encryption and no public ACL, a database has
  encrypted storage, and a security group is not open to the world unless its first port is 80
  or 443. Nothing else can make a project fail.\<close>

theorem guardrails_exact:
  "po_Compliant (policy_evaluate (default_rules is_int) rs) = list_all meets_guardrails rs"
  by (simp add: policy_evaluate_eq Let_def compliant_guarded)

text \<open>Disabling a rule takes exactly the violations of that rule out of the report, and enabling it
  again restores the report.\<close>

theorem disabled_rule_is_silent:
  "po_Violations (policy_evaluate (disable_rule (default_rules is_int) i) rs)
     = filter (\<lambda>v. vi_RuleID v \<noteq> i) (po_Violations (policy_evaluate (default_rules is_int) rs))
   \<and> enable_rule (disable_rule (default_rules is_int) i) i = default_rules is_int"
proof -
  have "list_all (\<lambda>rule. rl_ID rule = i \<longrightarrow> rl_Enabled rule) (default_rules is_int)"
    using default_rules_enabled [of is_int] by (simp add: list_all_iff)
  then have "violations_of (disable_rule (default_rules is_int) i)
      = (\<lambda>r. filter (\<lambda>v. vi_RuleID v \<noteq> i) (violations_of (default_rules is_int) r))"
    by (intro ext violations_of_disabled default_rules_own)
  moreover have "enable_rule (disable_rule rules i) i = rules" if "list_all rl_Enabled rules" for rules
    using that by (induction rules) (auto simp: enable_rule_def disable_rule_def)
  ultimately show ?thesis using default_rules_enabled by (simp add: policy_evaluate_eq Let_def filter_concat o_def)
qed

text \<open>A retention of zero days is noticed only as text or as an \<open>int\<close>, and the parsers of HCL and of
  JSON make no \<open>int\<close>.\<close>

lemma zero_retention_unnoticed:
  assumes "property_of r ''backup_retention_period'' = Some (JNum ''0'')" "\<not> is_int (JNum ''0'')"
  shows "check_rds_backup is_int r = []"
  using assms by (simp add: check_rds_backup_def is_zero_def)

text \<open>Only the first port of a range is looked at.\<close>

lemma wide_range_unnoticed:
  assumes "property_of r ''from_port'' = Some (JNum ''80'')"
  shows "check_no_open_sg r = []"
  using assms by (simp add: check_no_open_sg_def printed_def)

end
