(* ===== verification/Security_Scan.thy ===== *)
theory Security_Scan
  imports Policy_Rules
begin

text \<open>
  The security scanner of \<open>internal/security/scanner.go\<close> and its adapter
  \<open>internal/security/scanners/graph.go\<close>: checks of one resource, checks that look at other
  resources of the project, the counts and the score of a report.

  The map from types to resources is a function that keeps the order of the resources. A check of
  one resource is a function to a list of at most one finding. \<open>is_int\<close> is as in \<open>Policy_Rules\<close>.
\<close>

section \<open>Reports\<close>

record scan_summary =
  ss_Total :: nat
  ss_Critical :: nat
  ss_High :: nat
  ss_Medium :: nat
  ss_Low :: nat
  ss_Passed :: int

record scan_report =
  sn_Findings :: "scan_finding list"
  sn_Score :: int
  sn_Summary :: scan_summary
  sn_Frameworks :: "string \<Rightarrow> nat"
  sn_BySeverity :: "string \<Rightarrow> nat"
  sn_ByCategory :: "string \<Rightarrow> nat"
  sn_ByResource :: "string \<Rightarrow> nat"

section \<open>Helpers\<close>

definition str_of :: "json option \<Rightarrow> string" where
  "str_of v = (case v of None \<Rightarrow> [] | Some JNull \<Rightarrow> [] | Some x \<Rightarrow> format_v x)"

definition str_prop :: "parser_resource \<Rightarrow> string \<Rightarrow> string" where
  "str_prop r key = str_of (property_of r key)"

definition bool_prop :: "parser_resource \<Rightarrow> string \<Rightarrow> bool" where
  "bool_prop r key = (case property_of r key of None \<Rightarrow> False | Some v \<Rightarrow> is_true v)"

definition by_type :: "parser_resource list \<Rightarrow> string \<Rightarrow> parser_resource list" where
  "by_type rs ty = filter (\<lambda>r. pr_Type r = ty) rs"

definition databases :: "parser_resource list \<Rightarrow> parser_resource list" where
  "databases rs = by_type rs ''aws_db_instance'' @ by_type rs ''aws_rds_instance''"

text \<open>A finding about one resource, and the same with a fix of one of its properties.\<close>

definition issue ::
  "string \<Rightarrow> string \<Rightarrow> string \<Rightarrow> string \<Rightarrow> string \<Rightarrow> string \<Rightarrow> string \<Rightarrow> parser_resource \<Rightarrow> scan_finding" where
  "issue i severity category framework title description remediation r =
     \<lparr>sf_ID = i, sf_Severity = severity, sf_Category = category, sf_Framework = framework, sf_Title = title,
      sf_Description = resource_address r @ description, sf_Resources = Some [resource_address r],
      sf_Remediation = remediation, sf_AutoFixable = False, sf_Fix = None\<rparr>"

definition with_fix :: "parser_resource \<Rightarrow> string \<Rightarrow> json \<Rightarrow> scan_finding \<Rightarrow> scan_finding" where
  "with_fix r field v f = f\<lparr>sf_AutoFixable := True,
     sf_Fix := Some \<lparr>af_ResourceType = pr_Type r, af_ResourceName = pr_Name r, af_Field = field, af_Value = v\<rparr>\<rparr>"

section \<open>Exposure\<close>

definition exp_001 :: "parser_resource \<Rightarrow> scan_finding list" where
  "exp_001 r =
     (if str_prop r ''acl'' = ''public-read'' \<or> str_prop r ''acl'' = ''public-read-write''
      then [with_fix r ''acl'' (JStr ''private'')
        (issue ''EXP-001'' ''critical'' ''exposure'' ''CIS'' ''S3 bucket has public ACL''
          ('' is publicly accessible via ACL '' @ ticked (str_prop r ''acl''))
          (''Set acl to '' @ ticked ''private'' @ '' and use bucket policies for controlled access'') r)]
      else [])"

definition exp_002 :: "parser_resource \<Rightarrow> scan_finding list" where
  "exp_002 r =
     (if bool_prop r ''publicly_accessible''
      then [with_fix r ''publicly_accessible'' (JBool False)
        (issue ''EXP-002'' ''critical'' ''exposure'' ''CIS'' ''RDS instance is publicly accessible''
          ('' has publicly_accessible=true'')
          ''Set publicly_accessible = false and access via VPC'' r)]
      else [])"

definition exp_003 :: "parser_resource \<Rightarrow> scan_finding list" where
  "exp_003 r =
     (if property_of r ''access_config'' \<noteq> None
      then [issue ''EXP-003'' ''high'' ''exposure'' ''CIS'' ''GCP VM has external IP''
          ('' has access_config which assigns a public IP'')
          ''Remove access_config to make the instance private, use IAP or NAT for access'' r]
      else [])"

definition exp_004 :: "parser_resource \<Rightarrow> scan_finding list" where
  "exp_004 r =
     (if bool_prop r ''allow_blob_public_access''
      then [with_fix r ''allow_blob_public_access'' (JBool False)
        (issue ''EXP-004'' ''high'' ''exposure'' ''CIS'' ''Azure Storage allows public blob access''
          ('' has public blob access enabled'')
          ''Set allow_blob_public_access = false'' r)]
      else [])"

definition check_exposure :: "parser_resource list \<Rightarrow> scan_finding list" where
  "check_exposure rs =
     concat (map exp_001 (by_type rs ''aws_s3_bucket''))
     @ concat (map exp_002 (databases rs))
     @ concat (map exp_003 (by_type rs ''google_compute_instance''))
     @ concat (map exp_004 (by_type rs ''azurerm_storage_account''))"

section \<open>Encryption\<close>

definition enc_001 :: "parser_resource \<Rightarrow> scan_finding list" where
  "enc_001 r =
     (if \<not> bool_prop r ''storage_encrypted''
      then [with_fix r ''storage_encrypted'' (JBool True)
        (issue ''ENC-001'' ''high'' ''encryption'' ''SOC2'' ''RDS storage not encrypted''
          ('' does not have storage encryption enabled'')
          ''Set storage_encrypted = true'' r)]
      else [])"

definition enc_002 :: "parser_resource \<Rightarrow> scan_finding list" where
  "enc_002 r =
     (if \<not> bool_prop r ''encrypted''
      then [with_fix r ''encrypted'' (JBool True)
        (issue ''ENC-002'' ''medium'' ''encryption'' ''CIS'' ''EBS volume not encrypted''
          ('' is not encrypted at rest'')
          ''Set encrypted = true'' r)]
      else [])"

definition enc_003 :: "parser_resource \<Rightarrow> scan_finding list" where
  "enc_003 r =
     (if \<not> bool_prop r ''require_ssl''
      then [issue ''ENC-003'' ''high'' ''encryption'' ''SOC2'' ''Cloud SQL does not require SSL''
          ('' allows unencrypted connections'')
          ''Enable require_ssl in settings.ip_configuration'' r]
      else [])"

definition enc_004 :: "parser_resource \<Rightarrow> scan_finding list" where
  "enc_004 r =
     (if str_prop r ''minimum_tls_version'' \<noteq> [] \<and> str_prop r ''minimum_tls_version'' < ''1.2''
      then [with_fix r ''minimum_tls_version'' (JStr ''1.2'')
        (issue ''ENC-004'' ''high'' ''encryption'' ''SOC2'' ''Azure SQL allows TLS < 1.2''
          ('' allows TLS version '' @ str_prop r ''minimum_tls_version'')
          (''Set minimum_tls_version = '' @ ticked ''1.2'') r)]
      else [])"

definition check_encryption :: "parser_resource list \<Rightarrow> scan_finding list" where
  "check_encryption rs =
     concat (map enc_001 (databases rs))
     @ concat (map enc_002 (by_type rs ''aws_ebs_volume''))
     @ concat (map enc_003 (by_type rs ''google_sql_database_instance''))
     @ concat (map enc_004 (by_type rs ''azurerm_mssql_server''))"

section \<open>Access management\<close>

definition iam_001 :: "parser_resource \<Rightarrow> scan_finding list" where
  "iam_001 r =
     (if contains (str_prop r ''policy'') (dquoted ''*'') \<and> contains (str_prop r ''policy'') (dquoted ''Action'')
      then [issue ''IAM-001'' ''critical'' ''iam'' ''CIS'' ''IAM policy with wildcard actions''
          ('' contains Action: '' @ ticked ''*'' @ '' '' @ em_dash @ '' grants full admin access'')
          (''Follow least-privilege principle '' @ em_dash @ '' specify only required actions'') r]
      else [])"

definition iam_002 :: "parser_resource \<Rightarrow> scan_finding list" where
  "iam_002 r =
     (if str_prop r ''role'' = ''roles/owner'' \<or> str_prop r ''role'' = ''roles/editor''
      then [issue ''IAM-002'' ''high'' ''iam'' ''CIS'' ''GCP IAM binding with overly permissive role''
          ('' grants '' @ str_prop r ''role'' @ '' which is overly permissive'')
          ''Use specific roles instead of roles/owner or roles/editor'' r]
      else [])"

definition iam_003 :: "parser_resource \<Rightarrow> scan_finding list" where
  "iam_003 r =
     (if property_of r ''iam_instance_profile'' = None
      then [issue ''IAM-003'' ''medium'' ''iam'' ''CIS'' ''EC2 instance without IAM role''
          ('' has no IAM instance profile '' @ em_dash @ '' uses default permissions'')
          ''Create an IAM instance profile with least-privilege permissions'' r]
      else [])"

definition check_iam :: "parser_resource list \<Rightarrow> scan_finding list" where
  "check_iam rs =
     concat (map iam_001 (by_type rs ''aws_iam_policy''))
     @ concat (map iam_002 (by_type rs ''google_project_iam_member''))
     @ concat (map iam_003 (by_type rs ''aws_instance''))"

section \<open>Logging\<close>

definition log_001 :: "parser_resource \<Rightarrow> scan_finding list" where
  "log_001 r =
     (if property_of r ''logging'' = None
      then [issue ''LOG-001'' ''medium'' ''logging'' ''SOC2'' ''S3 bucket without access logging''
          ('' does not have access logging enabled'')
          ''Add aws_s3_bucket_logging resource'' r]
      else [])"

definition log_002 :: "parser_resource list \<Rightarrow> parser_resource \<Rightarrow> scan_finding list" where
  "log_002 rs r =
     (if \<not> list_ex (\<lambda>fl. contains (str_prop fl ''vpc_id'') (pr_Name r)) (by_type rs ''aws_flow_log'')
      then [issue ''LOG-002'' ''medium'' ''logging'' ''CIS'' ''VPC without flow logs''
          ('' has no flow logs for network audit trail'')
          ''Add aws_flow_log resource for this VPC'' r]
      else [])"

definition log_003 :: "parser_resource \<Rightarrow> scan_finding list" where
  "log_003 r =
     [issue ''LOG-003'' ''low'' ''logging'' ''SOC2'' ''Key Vault should have diagnostic settings''
          ('' should send audit logs to Log Analytics'')
          ''Add azurerm_monitor_diagnostic_setting for this Key Vault'' r]"

definition check_logging :: "parser_resource list \<Rightarrow> scan_finding list" where
  "check_logging rs =
     concat (map log_001 (by_type rs ''aws_s3_bucket''))
     @ concat (map (log_002 rs) (by_type rs ''aws_vpc''))
     @ concat (map log_003 (by_type rs ''azurerm_key_vault''))"

section \<open>Networking\<close>

definition net_001 :: "parser_resource \<Rightarrow> scan_finding list" where
  "net_001 r =
     (if str_prop r ''description'' = [] \<or> str_prop r ''description'' = ''Managed by Terraform''
      then [issue ''NET-001'' ''low'' ''networking'' ''CIS'' ''Security group without meaningful description''
          ('' has no description '' @ em_dash @ '' makes audit difficult'')
          ''Add a description explaining the purpose of this security group'' r]
      else [])"

definition net_002 :: "parser_resource \<Rightarrow> scan_finding list" where
  "net_002 r =
     (if contains (str_prop r ''source_ranges'') ''0.0.0.0/0''
      then [issue ''NET-002'' ''high'' ''networking'' ''CIS'' ''GCP firewall allows all source IPs''
          ('' allows traffic from 0.0.0.0/0'')
          ''Restrict source_ranges to specific CIDR blocks'' r]
      else [])"

definition net_003 :: "parser_resource \<Rightarrow> scan_finding list" where
  "net_003 r =
     (if pr_Type r = ''aws_default_vpc'' \<or> pr_Type r = ''aws_default_subnet''
      then [issue ''NET-003'' ''medium'' ''networking'' ''CIS'' ''Default VPC/subnet in use''
          ('' '' @ em_dash @ '' default VPCs have overly permissive defaults'')
          ''Create a custom VPC with proper CIDR allocation'' r]
      else [])"

definition check_networking :: "parser_resource list \<Rightarrow> scan_finding list" where
  "check_networking rs =
     concat (map net_001 (by_type rs ''aws_security_group''))
     @ concat (map net_002 (by_type rs ''google_compute_firewall''))
     @ concat (map net_003 rs)"

section \<open>Compliance\<close>

definition hipaa_001 :: "(json \<Rightarrow> bool) \<Rightarrow> parser_resource \<Rightarrow> scan_finding list" where
  "hipaa_001 is_int r =
     (if (case property_of r ''backup_retention_period'' of None \<Rightarrow> False | Some v \<Rightarrow> is_zero is_int v)
      then [with_fix r ''backup_retention_period'' (JNum ''7'')
        (issue ''HIPAA-001'' ''high'' ''compliance'' ''HIPAA'' ''RDS without backup retention (HIPAA)''
          ('' has zero backup retention '' @ em_dash @ '' violates HIPAA data durability requirements'')
          ''Set backup_retention_period to at least 7 days'' r)]
      else [])"

definition soc2_001 :: "parser_resource \<Rightarrow> scan_finding list" where
  "soc2_001 r =
     (if property_of r ''tags'' = None
      then [issue ''SOC2-001'' ''low'' ''compliance'' ''SOC2'' ''Resource missing tags''
          ('' has no tags '' @ em_dash @ '' needed for cost allocation and audit'')
          ''Add tags: Environment, Team, ManagedBy, Project'' r]
      else [])"

definition prod_001 :: "parser_resource \<Rightarrow> scan_finding list" where
  "prod_001 r =
     (if \<not> bool_prop r ''multi_az''
      then [with_fix r ''multi_az'' (JBool True)
        (issue ''PROD-001'' ''medium'' ''compliance'' ''CIS'' ''RDS not multi-AZ''
          ('' is single-AZ '' @ em_dash @ '' single point of failure'')
          ''Set multi_az = true for production workloads'' r)]
      else [])"

definition tagged_types :: "string list" where
  "tagged_types = [''aws_instance'', ''aws_vpc'', ''aws_subnet'', ''aws_s3_bucket'', ''aws_db_instance'',
     ''aws_rds_instance'', ''aws_lb'', ''aws_security_group'']"

definition check_compliance :: "(json \<Rightarrow> bool) \<Rightarrow> parser_resource list \<Rightarrow> scan_finding list" where
  "check_compliance is_int rs =
     concat (map (hipaa_001 is_int) (databases rs))
     @ concat (map (\<lambda>ty. concat (map soc2_001 (by_type rs ty))) tagged_types)
     @ concat (map prod_001 (databases rs))"

section \<open>Checks across resources\<close>

definition graph_001 :: "parser_resource list \<Rightarrow> parser_resource \<Rightarrow> scan_finding list" where
  "graph_001 rs r =
     (if bool_prop r ''associate_public_ip_address'' \<and> by_type rs ''aws_lb'' = [] \<and> by_type rs ''aws_wafv2_web_acl'' = []
      then [issue ''GRAPH-001'' ''high'' ''exposure'' ''OWASP'' ''EC2 directly exposed without WAF or ALB''
          ('' has a public IP but no ALB or WAF in front '' @ em_dash @ '' direct attack surface'')
          ''Place behind an ALB with WAF for DDoS protection and request filtering'' r]
      else [])"

definition graph_002 :: "parser_resource list \<Rightarrow> parser_resource \<Rightarrow> scan_finding list" where
  "graph_002 rs r =
     (if \<not> list_ex (\<lambda>enc. contains (str_prop enc ''bucket'') (pr_Name r))
         (by_type rs ''aws_s3_bucket_server_side_encryption_configuration'')
      then [issue ''GRAPH-002'' ''high'' ''encryption'' ''CIS'' ''S3 bucket without encryption configuration''
          ('' has no aws_s3_bucket_server_side_encryption_configuration'')
          ''Add aws_s3_bucket_server_side_encryption_configuration with AES256 or KMS'' r]
      else [])"

definition graph_003 :: "parser_resource list \<Rightarrow> parser_resource \<Rightarrow> scan_finding list" where
  "graph_003 rs r =
     (if \<not> list_ex (\<lambda>block. contains (str_prop block ''bucket'') (pr_Name r))
         (by_type rs ''aws_s3_bucket_public_access_block'')
      then [issue ''GRAPH-003'' ''high'' ''exposure'' ''CIS'' ''S3 bucket without public access block''
          ('' has no aws_s3_bucket_public_access_block '' @ em_dash @ '' could be made public accidentally'')
          ''Add aws_s3_bucket_public_access_block with all four settings enabled'' r]
      else [])"

definition graph_004 :: "parser_resource \<Rightarrow> scan_finding list" where
  "graph_004 r =
     (if str_prop r ''tracing_config'' = []
      then [issue ''GRAPH-004'' ''low'' ''logging'' ''SOC2'' ''Lambda without X-Ray tracing''
          ('' has no tracing enabled '' @ em_dash @ '' makes debugging production issues difficult'')
          (''Add tracing_config { mode = '' @ ticked ''Active'' @ '' }'') r]
      else [])"

definition graph_005 :: "parser_resource \<Rightarrow> scan_finding list" where
  "graph_005 r =
     [issue ''GRAPH-005'' ''medium'' ''networking'' ''CIS'' (''Kubernetes cluster '' @ em_dash @ '' verify network policies'')
          ('' should have network policies enabled to restrict pod-to-pod traffic'')
          ''Enable network policy enforcement (Calico for EKS/GKE, Azure CNI for AKS)'' r]"

definition availability_zones :: "parser_resource list \<Rightarrow> string list" where
  "availability_zones subnets = remdups (filter (\<lambda>az. az \<noteq> []) (map (\<lambda>s. str_prop s ''availability_zone'') subnets))"

definition graph_006 :: "parser_resource list \<Rightarrow> scan_finding list" where
  "graph_006 subnets =
     (if length (availability_zones subnets) < 2 \<and> 2 \<le> length subnets
      then [\<lparr>sf_ID = ''GRAPH-006'', sf_Severity = ''medium'', sf_Category = ''compliance'', sf_Framework = ''CIS'',
         sf_Title = ''All subnets in single availability zone'',
         sf_Description = ''All subnets are in the same AZ '' @ em_dash @ '' no high availability'',
         sf_Resources = Some (map resource_address subnets),
         sf_Remediation = ''Distribute subnets across at least 2 availability zones'',
         sf_AutoFixable = False, sf_Fix = None\<rparr>]
      else [])"

definition check_cross_resource :: "parser_resource list \<Rightarrow> scan_finding list" where
  "check_cross_resource rs =
     concat (map (graph_001 rs) (by_type rs ''aws_instance''))
     @ concat (map (graph_002 rs) (by_type rs ''aws_s3_bucket''))
     @ concat (map (graph_003 rs) (by_type rs ''aws_s3_bucket''))
     @ concat (map graph_004 (by_type rs ''aws_lambda_function''))
     @ concat (map graph_005 ((by_type rs ''aws_eks_cluster'' @ by_type rs ''google_container_cluster'')
          @ by_type rs ''azurerm_kubernetes_cluster''))
     @ graph_006 (by_type rs ''aws_subnet'')"

section \<open>The scan\<close>

definition scan_findings :: "(json \<Rightarrow> bool) \<Rightarrow> parser_resource list \<Rightarrow> scan_finding list" where
  "scan_findings is_int rs =
     check_exposure rs @ check_encryption rs @ check_iam rs @ check_logging rs @ check_networking rs
     @ check_compliance is_int rs @ check_cross_resource rs"

definition empty_scan_report :: scan_report where
  "empty_scan_report = \<lparr>sn_Findings = [], sn_Score = 0,
     sn_Summary = \<lparr>ss_Total = 0, ss_Critical = 0, ss_High = 0, ss_Medium = 0, ss_Low = 0, ss_Passed = 0\<rparr>,
     sn_Frameworks = (\<lambda>_. 0), sn_BySeverity = (\<lambda>_. 0), sn_ByCategory = (\<lambda>_. 0), sn_ByResource = (\<lambda>_. 0)\<rparr>"

definition bump :: "(string \<Rightarrow> nat) \<Rightarrow> string \<Rightarrow> string \<Rightarrow> nat" where
  "bump m k = m(k := m k + 1)"

definition bump_severity :: "string \<Rightarrow> scan_summary \<Rightarrow> scan_summary" where
  "bump_severity severity s =
     (if severity = ''critical'' then s\<lparr>ss_Critical := ss_Critical s + 1\<rparr>
      else if severity = ''high'' then s\<lparr>ss_High := ss_High s + 1\<rparr>
      else if severity = ''medium'' then s\<lparr>ss_Medium := ss_Medium s + 1\<rparr>
      else if severity = ''low'' then s\<lparr>ss_Low := ss_Low s + 1\<rparr>
      else s)"

definition count_finding :: "scan_report \<Rightarrow> scan_finding \<Rightarrow> scan_report" where
  "count_finding report f = report
     \<lparr>sn_BySeverity := bump (sn_BySeverity report) (sf_Severity f),
      sn_ByCategory := bump (sn_ByCategory report) (sf_Category f),
      sn_Frameworks := bump (sn_Frameworks report) (sf_Framework f),
      sn_ByResource := foldl bump (sn_ByResource report) (case sf_Resources f of None \<Rightarrow> [] | Some as \<Rightarrow> as),
      sn_Summary := bump_severity (sf_Severity f) (sn_Summary report)\<rparr>"

definition scan_resources :: "(json \<Rightarrow> bool) \<Rightarrow> parser_resource list \<Rightarrow> scan_report" where
  "scan_resources is_int rs =
     (let findings = scan_findings is_int rs;
          report = foldl count_finding (empty_scan_report\<lparr>sn_Findings := findings\<rparr>) findings;
          s = sn_Summary report;
          passed = int (length rs) * 8 - int (length findings);
          score = 100 - (int (ss_Critical s) * 20 + int (ss_High s) * 10 + int (ss_Medium s) * 5 + int (ss_Low s))
      in report\<lparr>sn_Summary := s\<lparr>ss_Total := length findings, ss_Passed := (if passed < 0 then 0 else passed)\<rparr>,
           sn_Score := (if score < 0 then 0 else score)\<rparr>)"

section \<open>The adapter of the scanner\<close>

definition graph_scan :: "(json \<Rightarrow> bool) \<Rightarrow> scan_input \<Rightarrow> scan_result" where
  "graph_scan is_int inp =
     (let res = \<lparr>sx_Scanner = ''graph'', sx_Available = True, sx_Findings = [], sx_Error = []\<rparr> in
      if si_Resources inp = [] then res
      else res\<lparr>sx_Findings := sx_Findings res @ sn_Findings (scan_resources is_int (si_Resources inp))\<rparr>)"

definition graph_scanner :: "(json \<Rightarrow> bool) \<Rightarrow> 'w scanner" where
  "graph_scanner is_int = \<lparr>sc_Name = ''graph'', sc_Scan = (\<lambda>w inp. ((graph_scan is_int inp, None), w))\<rparr>"

end
