(* ===== verification/Security_Props.thy ===== *)
theory Security_Props
  imports Security_Scan
begin

text \<open>
  What the security scanner reports: the counts and the score, that every finding is about
  resources of the project, and that the automatic fixes it offers do fix what it found.
\<close>

section \<open>The checks, one by one\<close>

text \<open>A check of a project: its identifier, the types it looks at, and its findings for one resource.\<close>

definition resource_checks :: "(json \<Rightarrow> bool) \<Rightarrow> parser_resource list \<Rightarrow> (string \<times> string list \<times> (parser_resource \<Rightarrow> scan_finding list)) list" where
  "resource_checks is_int rs =
    [(''EXP-001'', [''aws_s3_bucket''], exp_001),
     (''EXP-002'', [''aws_db_instance'', ''aws_rds_instance''], exp_002),
     (''EXP-003'', [''google_compute_instance''], exp_003),
     (''EXP-004'', [''azurerm_storage_account''], exp_004),
     (''ENC-001'', [''aws_db_instance'', ''aws_rds_instance''], enc_001),
     (''ENC-002'', [''aws_ebs_volume''], enc_002),
     (''ENC-003'', [''google_sql_database_instance''], enc_003),
     (''ENC-004'', [''azurerm_mssql_server''], enc_004),
     (''IAM-001'', [''aws_iam_policy''], iam_001),
     (''IAM-002'', [''google_project_iam_member''], iam_002),
     (''IAM-003'', [''aws_instance''], iam_003),
     (''LOG-001'', [''aws_s3_bucket''], log_001),
     (''LOG-002'', [''aws_vpc''], log_002 rs),
     (''LOG-003'', [''azurerm_key_vault''], log_003),
     (''NET-001'', [''aws_security_group''], net_001),
     (''NET-002'', [''google_compute_firewall''], net_002),
     (''NET-003'', [''aws_default_vpc'', ''aws_default_subnet''], net_003),
     (''HIPAA-001'', [''aws_db_instance'', ''aws_rds_instance''], hipaa_001 is_int),
     (''SOC2-001'', tagged_types, soc2_001),
     (''PROD-001'', [''aws_db_instance'', ''aws_rds_instance''], prod_001),
     (''GRAPH-001'', [''aws_instance''], graph_001 rs),
     (''GRAPH-002'', [''aws_s3_bucket''], graph_002 rs),
     (''GRAPH-003'', [''aws_s3_bucket''], graph_003 rs),
     (''GRAPH-004'', [''aws_lambda_function''], graph_004),
     (''GRAPH-005'', [''aws_eks_cluster'', ''google_container_cluster'', ''azurerm_kubernetes_cluster''], graph_005)]"

definition findings_of :: "parser_resource list \<Rightarrow> string list \<times> (parser_resource \<Rightarrow> scan_finding list) \<Rightarrow> scan_finding set" where
  "findings_of rs c = {f. \<exists>r \<in> set rs. pr_Type r \<in> set (fst c) \<and> f \<in> set (snd c r)}"

lemma set_by_type [simp]: "set (by_type rs ty) = {r \<in> set rs. pr_Type r = ty}"
  by (auto simp: by_type_def)

lemma set_databases: "set (databases rs) = {r \<in> set rs. pr_Type r \<in> {''aws_db_instance'', ''aws_rds_instance''}}"
  by (auto simp: databases_def)

lemma findings_of_concat:
  "set (concat (map c (by_type rs ty))) = findings_of rs ([ty], c)"
  "set (concat (map c (databases rs))) = findings_of rs ([''aws_db_instance'', ''aws_rds_instance''], c)"
  "set (concat (map (\<lambda>ty. concat (map c (by_type rs ty))) tys)) = findings_of rs (tys, c)"
  "set (concat (map c ((by_type rs a @ by_type rs b) @ by_type rs d))) = findings_of rs ([a, b, d], c)"
  "set (concat (map net_003 rs)) = findings_of rs ([''aws_default_vpc'', ''aws_default_subnet''], net_003)"
  by (auto simp: findings_of_def set_databases net_003_def)

lemma scan_findings_by_check:
  "set (scan_findings is_int rs)
   = (\<Union>c \<in> set (resource_checks is_int rs). findings_of rs (snd c)) \<union> set (graph_006 (by_type rs ''aws_subnet''))"
  by (simp only: scan_findings_def check_exposure_def check_encryption_def check_iam_def check_logging_def
      check_networking_def check_compliance_def check_cross_resource_def set_append findings_of_concat
      resource_checks_def list.set UN_insert UN_empty snd_conv Un_assoc Un_empty_right Un_empty_left)

lemmas scan_checks = exp_001_def exp_002_def exp_003_def exp_004_def enc_001_def enc_002_def enc_003_def enc_004_def
  iam_001_def iam_002_def iam_003_def log_001_def log_002_def log_003_def net_001_def net_002_def net_003_def
  hipaa_001_def soc2_001_def prod_001_def graph_001_def graph_002_def graph_003_def graph_004_def graph_005_def

section \<open>The shape of a finding\<close>

definition scan_severities :: "string set" where
  "scan_severities = {''critical'', ''high'', ''medium'', ''low''}"

definition finding_about :: "string \<Rightarrow> parser_resource \<Rightarrow> scan_finding \<Rightarrow> bool" where
  "finding_about i r f \<longleftrightarrow> sf_ID f = i \<and> sf_Severity f \<in> scan_severities \<and> sf_Resources f = Some [resource_address r]
     \<and> sf_AutoFixable f = (sf_Fix f \<noteq> None)
     \<and> (case sf_Fix f of None \<Rightarrow> True | Some x \<Rightarrow> af_ResourceType x = pr_Type r \<and> af_ResourceName x = pr_Name r)"

lemma finding_about_issue [simp]:
  "finding_about i r (issue j severity category framework title description remediation r) = (i = j \<and> severity \<in> scan_severities)"
  "finding_about i r (with_fix r field v f) = (sf_ID f = i \<and> sf_Severity f \<in> scan_severities \<and> sf_Resources f = Some [resource_address r])"
  by (auto simp: finding_about_def issue_def with_fix_def)

lemma issue_simps [simp]:
  "sf_ID (issue j severity category framework title description remediation r) = j"
  "sf_Severity (issue j severity category framework title description remediation r) = severity"
  "sf_Resources (issue j severity category framework title description remediation r) = Some [resource_address r]"
  "sf_Fix (issue j severity category framework title description remediation r) = None"
  "sf_Fix (with_fix r field v f) = Some \<lparr>af_ResourceType = pr_Type r, af_ResourceName = pr_Name r, af_Field = field, af_Value = v\<rparr>"
  by (simp_all add: issue_def with_fix_def)

lemma checks_about:
  "list_all (\<lambda>c. \<forall>r. list_all (finding_about (fst c) r) (snd (snd c) r)) (resource_checks is_int rs)"
  by (simp add: resource_checks_def scan_checks scan_severities_def)

lemma scan_finding_cases:
  assumes "f \<in> set (scan_findings is_int rs)"
  obtains i tys c r where "(i, tys, c) \<in> set (resource_checks is_int rs)" "r \<in> set rs" "pr_Type r \<in> set tys"
    "f \<in> set (c r)" "finding_about i r f"
  | "f \<in> set (graph_006 (by_type rs ''aws_subnet''))"
proof -
  consider (check) c where "c \<in> set (resource_checks is_int rs)" "f \<in> findings_of rs (snd c)"
    | (graph) "f \<in> set (graph_006 (by_type rs ''aws_subnet''))"
    using assms by (auto simp: scan_findings_by_check)
  then show thesis
  proof cases
    case check
    then obtain r where r: "r \<in> set rs" "pr_Type r \<in> set (fst (snd c))" "f \<in> set (snd (snd c) r)"
      by (auto simp: findings_of_def)
    moreover have "finding_about (fst c) r f"
      using checks_about [of is_int rs] check(1) r(3) by (simp add: list_all_iff)
    ultimately show thesis using that(1) [of "fst c" "fst (snd c)" "snd (snd c)" r] check(1) by simp
  qed (rule that(2))
qed

section \<open>Fixes\<close>

text \<open>No code of the repository applies a fix: this is what the fields of \<open>AutoFix\<close> say, its field of its
  resource set to its value, and it is no model of an operation.\<close>

definition apply_fix :: "auto_fix \<Rightarrow> parser_resource \<Rightarrow> parser_resource" where
  "apply_fix x r =
     (if pr_Type r = af_ResourceType x \<and> pr_Name r = af_ResourceName x
      then r\<lparr>pr_Properties := (af_Field x, af_Value x) # filter (\<lambda>kv. fst kv \<noteq> af_Field x) (pr_Properties r)\<rparr> else r)"

lemma apply_fix_simps [simp]:
  "pr_Type (apply_fix x r) = pr_Type r" "pr_Name (apply_fix x r) = pr_Name r"
  "resource_address (apply_fix x r) = resource_address r"
  "issue i severity category framework title description remediation (apply_fix x r)
     = issue i severity category framework title description remediation r"
  "with_fix (apply_fix x r) field v f = with_fix r field v f"
  by (simp_all add: apply_fix_def resource_address_def issue_def with_fix_def)

lemma map_of_filter_key: "map_of (filter (\<lambda>kv. fst kv \<noteq> k) xs) k' = (if k' = k then None else map_of xs k')"
  by (induction xs) auto

lemma property_of_fix:
  "property_of (apply_fix x r) k =
     (if k = af_Field x \<and> pr_Type r = af_ResourceType x \<and> pr_Name r = af_ResourceName x then Some (af_Value x)
      else property_of r k)"
  by (simp add: property_of_def apply_fix_def map_of_filter_key)

lemma other_property [simp]: "k \<noteq> af_Field x \<Longrightarrow> property_of (apply_fix x r) k = property_of r k"
  "k \<noteq> af_Field x \<Longrightarrow> str_prop (apply_fix x r) k = str_prop r k"
  "k \<noteq> af_Field x \<Longrightarrow> bool_prop (apply_fix x r) k = bool_prop r k"
  by (simp_all add: property_of_fix str_prop_def bool_prop_def)

lemma by_type_fix [simp]: "by_type (map (apply_fix x) rs) ty = map (apply_fix x) (by_type rs ty)"
  by (simp add: by_type_def filter_map o_def)

text \<open>The checks that offer a fix, with the property they fix.\<close>

definition fixable_checks :: "(json \<Rightarrow> bool) \<Rightarrow> (string \<times> string list \<times> (parser_resource \<Rightarrow> scan_finding list)) list" where
  "fixable_checks is_int =
    [(''EXP-001'', [''aws_s3_bucket''], exp_001),
     (''EXP-002'', [''aws_db_instance'', ''aws_rds_instance''], exp_002),
     (''EXP-004'', [''azurerm_storage_account''], exp_004),
     (''ENC-001'', [''aws_db_instance'', ''aws_rds_instance''], enc_001),
     (''ENC-002'', [''aws_ebs_volume''], enc_002),
     (''ENC-004'', [''azurerm_mssql_server''], enc_004),
     (''HIPAA-001'', [''aws_db_instance'', ''aws_rds_instance''], hipaa_001 is_int),
     (''PROD-001'', [''aws_db_instance'', ''aws_rds_instance''], prod_001)]"

lemma distinct_checks: "distinct (map fst (resource_checks is_int rs))"
  by (simp add: resource_checks_def)

lemma fixable_found: "list_all (\<lambda>c. map_of (resource_checks is_int rs) (fst c) = Some (snd c)) (fixable_checks is_int)"
  by (simp add: fixable_checks_def resource_checks_def)

lemma fixes_from_fixable:
  "list_all (\<lambda>c. c \<in> set (fixable_checks is_int) \<or> (\<forall>r. list_all (\<lambda>f. sf_Fix f = None) (snd (snd c) r))) (resource_checks is_int rs)"
  by (simp add: fixable_checks_def resource_checks_def scan_checks)

lemma fixed_property:
  "list_all (\<lambda>c. \<forall>r r'. list_all (\<lambda>f. case sf_Fix f of None \<Rightarrow> True
     | Some x \<Rightarrow> property_of r' (af_Field x) = Some (af_Value x) \<longrightarrow> snd (snd c) r' = []) (snd (snd c) r)) (fixable_checks is_int)"
  by (simp add: fixable_checks_def scan_checks bool_prop_def is_true_def is_zero_def str_prop_def str_of_def)

definition offered_fixes :: "(string \<times> json) set" where
  "offered_fixes = {(''acl'', JStr ''private''), (''publicly_accessible'', JBool False),
     (''allow_blob_public_access'', JBool False), (''storage_encrypted'', JBool True), (''encrypted'', JBool True),
     (''minimum_tls_version'', JStr ''1.2''), (''backup_retention_period'', JNum ''7''), (''multi_az'', JBool True)}"

lemma fixes_offered:
  "list_all (\<lambda>c. \<forall>r. list_all (\<lambda>f. case sf_Fix f of None \<Rightarrow> True | Some x \<Rightarrow> (af_Field x, af_Value x) \<in> offered_fixes) (snd (snd c) r))
     (resource_checks is_int rs)"
  by (simp add: resource_checks_def scan_checks offered_fixes_def)

text \<open>The property a check reads, by its identifier.\<close>

definition read_properties :: "(string \<times> string) list" where
  "read_properties = [(''EXP-001'', ''acl''), (''EXP-002'', ''publicly_accessible''), (''EXP-003'', ''access_config''),
     (''EXP-004'', ''allow_blob_public_access''), (''ENC-001'', ''storage_encrypted''), (''ENC-002'', ''encrypted''),
     (''ENC-003'', ''require_ssl''), (''ENC-004'', ''minimum_tls_version''), (''IAM-001'', ''policy''), (''IAM-002'', ''role''),
     (''IAM-003'', ''iam_instance_profile''), (''LOG-001'', ''logging''), (''LOG-002'', ''vpc_id''),
     (''NET-001'', ''description''), (''NET-002'', ''source_ranges''), (''HIPAA-001'', ''backup_retention_period''),
     (''SOC2-001'', ''tags''), (''PROD-001'', ''multi_az''), (''GRAPH-001'', ''associate_public_ip_address''),
     (''GRAPH-002'', ''bucket''), (''GRAPH-003'', ''bucket''), (''GRAPH-004'', ''tracing_config'')]"

lemma unread_property:
  "list_all2 (\<lambda>c c'. fst (snd c') = fst (snd c)
      \<and> (\<forall>r. map_of read_properties (fst c) \<noteq> Some (af_Field x) \<longrightarrow> snd (snd c') (apply_fix x r) = snd (snd c) r))
     (resource_checks is_int rs) (resource_checks is_int (map (apply_fix x) rs))"
  by (simp add: resource_checks_def read_properties_def scan_checks list_ex_iff)

lemma read_property:
  assumes "(k, v) \<in> offered_fixes"
  shows "list_all2 (\<lambda>c c'. map_of read_properties (fst c) = Some k \<longrightarrow>
      snd (snd c') = snd (snd c) \<and> (\<forall>r. property_of r k = Some v \<longrightarrow> snd (snd c) r = []))
     (resource_checks is_int rs) (resource_checks is_int rs')"
  using assms
  by (simp add: resource_checks_def read_properties_def scan_checks str_prop_def bool_prop_def str_of_def is_true_def is_zero_def)
    (auto simp: offered_fixes_def)

lemma fix_adds_nothing:
  assumes x: "(af_Field x, af_Value x) \<in> offered_fixes"
  shows "list_all2 (\<lambda>c c'. fst (snd c') = fst (snd c) \<and> (\<forall>r. set (snd (snd c') (apply_fix x r)) \<subseteq> set (snd (snd c) r)))
     (resource_checks is_int rs) (resource_checks is_int (map (apply_fix x) rs))"
proof -
  have "apply_fix x r = r \<or> property_of (apply_fix x r) (af_Field x) = Some (af_Value x)" for r
    by (simp add: property_of_fix) (simp add: apply_fix_def)
  then have sub: "set (c' (apply_fix x r)) \<subseteq> set (c r)"
    if "p \<longrightarrow> c' = c \<and> (\<forall>r. property_of r (af_Field x) = Some (af_Value x) \<longrightarrow> c r = [])"
      "\<not> p \<longrightarrow> c' (apply_fix x r) = c r" for c c' :: "parser_resource \<Rightarrow> scan_finding list" and p r
    using that by (metis empty_set empty_subsetI order_refl)
  note all = read_property [OF x, of is_int rs "map (apply_fix x) rs"] unread_property [of x is_int rs]
  show ?thesis
  proof (intro list_all2_all_nthI conjI allI)
    show "length (resource_checks is_int rs) = length (resource_checks is_int (map (apply_fix x) rs))"
      using all(1) by (rule list_all2_lengthD)
  next
    fix n r assume n: "n < length (resource_checks is_int rs)"
    show "fst (snd (resource_checks is_int (map (apply_fix x) rs) ! n)) = fst (snd (resource_checks is_int rs ! n))"
      using list_all2_nthD [OF all(2) n] by (rule conjunct1)
    show "set (snd (snd (resource_checks is_int (map (apply_fix x) rs) ! n)) (apply_fix x r))
        \<subseteq> set (snd (snd (resource_checks is_int rs ! n)) r)"
      using list_all2_nthD [OF all(1) n] list_all2_nthD [OF all(2) n]
      by (intro sub [of "map_of read_properties (fst (resource_checks is_int rs ! n)) = Some (af_Field x)"]) blast+
  qed
qed

lemma zones_unchanged:
  assumes "(af_Field x, af_Value x) \<in> offered_fixes"
  shows "graph_006 (by_type (map (apply_fix x) rs) ty) = graph_006 (by_type rs ty)"
proof -
  have "af_Field x \<noteq> ''availability_zone''" using assms by (auto simp: offered_fixes_def)
  then have "map (\<lambda>s. str_prop s ''availability_zone'') (map (apply_fix x) ss) = map (\<lambda>s. str_prop s ''availability_zone'') ss" for ss
    by simp
  moreover have "map resource_address (map (apply_fix x) ss) = map resource_address ss" for ss by simp
  ultimately show ?thesis by (simp only: graph_006_def availability_zones_def by_type_fix length_map)
qed

lemma list_all2_partner: "list_all2 P xs ys \<Longrightarrow> y \<in> set ys \<Longrightarrow> \<exists>x \<in> set xs. P x y"
  by (induction xs ys rule: list_all2_induct) auto

lemma fixed_scan_subset:
  assumes x: "(af_Field x, af_Value x) \<in> offered_fixes"
  shows "set (scan_findings is_int (map (apply_fix x) rs)) \<subseteq> set (scan_findings is_int rs)"
proof
  fix f assume "f \<in> set (scan_findings is_int (map (apply_fix x) rs))"
  then consider c' where "c' \<in> set (resource_checks is_int (map (apply_fix x) rs))" "f \<in> findings_of (map (apply_fix x) rs) (snd c')"
    | "f \<in> set (graph_006 (by_type rs ''aws_subnet''))"
    using zones_unchanged [OF x] by (auto simp: scan_findings_by_check)
  then show "f \<in> set (scan_findings is_int rs)"
  proof cases
    case 1
    then obtain c where c: "c \<in> set (resource_checks is_int rs)" "fst (snd c') = fst (snd c)"
      "\<forall>r. set (snd (snd c') (apply_fix x r)) \<subseteq> set (snd (snd c) r)"
      using list_all2_partner [OF fix_adds_nothing [OF x, of is_int rs] 1(1)] by blast
    obtain r where "r \<in> set rs" "pr_Type r \<in> set (fst (snd c'))" "f \<in> set (snd (snd c') (apply_fix x r))"
      using 1(2) by (auto simp: findings_of_def)
    with c have "f \<in> findings_of rs (snd c)" by (auto simp: findings_of_def)
    with c(1) show ?thesis by (auto simp: scan_findings_by_check)
  qed (simp add: scan_findings_by_check)
qed

lemma address_inj:
  assumes "CHR ''.'' \<notin> set (pr_Type r)" "CHR ''.'' \<notin> set (pr_Type r')" "resource_address r = resource_address r'"
  shows "pr_Type r = pr_Type r' \<and> pr_Name r = pr_Name r'"
proof -
  have t: "takeWhile (\<lambda>c. c \<noteq> CHR ''.'') (resource_address s) = pr_Type s"
    if "CHR ''.'' \<notin> set (pr_Type s)" for s
    using that by (auto simp: resource_address_def takeWhile_append intro!: takeWhile_eq_all_conv [THEN iffD2])
  then have "pr_Type r = pr_Type r'" using t [OF assms(1)] t [OF assms(2)] assms(3) by simp
  then show ?thesis using assms(3) by (simp add: resource_address_def)
qed

section \<open>Counts and score\<close>

lemma bumps: "foldl bump m ks k = m k + length (filter (\<lambda>x. x = k) ks)"
  by (induction ks arbitrary: m) (auto simp: bump_def)

definition resources_of :: "scan_finding \<Rightarrow> string list" where
  "resources_of f = (case sf_Resources f of None \<Rightarrow> [] | Some as \<Rightarrow> as)"

definition severity_count :: "scan_finding list \<Rightarrow> string \<Rightarrow> nat" where
  "severity_count fs s = length (filter (\<lambda>f. sf_Severity f = s) fs)"

lemma severity_count_simps [simp]: "severity_count [] s = 0"
  "severity_count (f # fs) s = (if sf_Severity f = s then Suc (severity_count fs s) else severity_count fs s)"
  by (simp_all add: severity_count_def)

lemma count_finding_simps [simp]:
  "sn_Findings (count_finding report f) = sn_Findings report"
  "sn_BySeverity (count_finding report f) = bump (sn_BySeverity report) (sf_Severity f)"
  "sn_ByCategory (count_finding report f) = bump (sn_ByCategory report) (sf_Category f)"
  "sn_Frameworks (count_finding report f) = bump (sn_Frameworks report) (sf_Framework f)"
  "sn_ByResource (count_finding report f) = foldl bump (sn_ByResource report) (resources_of f)"
  "sn_Summary (count_finding report f) = bump_severity (sf_Severity f) (sn_Summary report)"
  by (simp_all add: count_finding_def resources_of_def)

lemma bump_severity_simps [simp]:
  "ss_Critical (bump_severity v s) = ss_Critical s + (if v = ''critical'' then 1 else 0)"
  "ss_High (bump_severity v s) = ss_High s + (if v = ''high'' then 1 else 0)"
  "ss_Medium (bump_severity v s) = ss_Medium s + (if v = ''medium'' then 1 else 0)"
  "ss_Low (bump_severity v s) = ss_Low s + (if v = ''low'' then 1 else 0)"
  by (simp_all add: bump_severity_def)

lemma count_findings:
  "sn_Findings (foldl count_finding report fs) = sn_Findings report"
  "sn_BySeverity (foldl count_finding report fs) k = sn_BySeverity report k + severity_count fs k"
  "sn_ByCategory (foldl count_finding report fs) k = sn_ByCategory report k + length (filter (\<lambda>f. sf_Category f = k) fs)"
  "sn_Frameworks (foldl count_finding report fs) k = sn_Frameworks report k + length (filter (\<lambda>f. sf_Framework f = k) fs)"
  "sn_ByResource (foldl count_finding report fs) k
     = sn_ByResource report k + length (filter (\<lambda>a. a = k) (concat (map resources_of fs)))"
  "ss_Critical (sn_Summary (foldl count_finding report fs)) = ss_Critical (sn_Summary report) + severity_count fs ''critical''"
  "ss_High (sn_Summary (foldl count_finding report fs)) = ss_High (sn_Summary report) + severity_count fs ''high''"
  "ss_Medium (sn_Summary (foldl count_finding report fs)) = ss_Medium (sn_Summary report) + severity_count fs ''medium''"
  "ss_Low (sn_Summary (foldl count_finding report fs)) = ss_Low (sn_Summary report) + severity_count fs ''low''"
  by (induction fs arbitrary: report) (simp_all add: bumps, simp_all add: bump_def)

lemma severities_partition:
  assumes "list_all (\<lambda>f. sf_Severity f \<in> scan_severities) fs"
  shows "length fs = severity_count fs ''critical'' + severity_count fs ''high'' + severity_count fs ''medium'' + severity_count fs ''low''"
  using assms by (induction fs) (auto simp: scan_severities_def)

lemma scan_severities: "list_all (\<lambda>f. sf_Severity f \<in> scan_severities) (scan_findings is_int rs)"
  unfolding list_all_iff
proof
  fix f assume "f \<in> set (scan_findings is_int rs)"
  then show "sf_Severity f \<in> scan_severities"
    by (cases rule: scan_finding_cases) (auto simp: finding_about_def graph_006_def scan_severities_def split: if_splits)
qed

lemma scan_report_simps [simp]:
  "sn_Findings (scan_resources is_int rs) = scan_findings is_int rs"
  "sn_BySeverity (scan_resources is_int rs) = severity_count (scan_findings is_int rs)"
  "sn_ByCategory (scan_resources is_int rs) k = length (filter (\<lambda>f. sf_Category f = k) (scan_findings is_int rs))"
  "sn_Frameworks (scan_resources is_int rs) k = length (filter (\<lambda>f. sf_Framework f = k) (scan_findings is_int rs))"
  "sn_ByResource (scan_resources is_int rs) k
     = length (filter (\<lambda>a. a = k) (concat (map resources_of (scan_findings is_int rs))))"
  "ss_Total (sn_Summary (scan_resources is_int rs)) = length (scan_findings is_int rs)"
  "ss_Critical (sn_Summary (scan_resources is_int rs)) = severity_count (scan_findings is_int rs) ''critical''"
  "ss_High (sn_Summary (scan_resources is_int rs)) = severity_count (scan_findings is_int rs) ''high''"
  "ss_Medium (sn_Summary (scan_resources is_int rs)) = severity_count (scan_findings is_int rs) ''medium''"
  "ss_Low (sn_Summary (scan_resources is_int rs)) = severity_count (scan_findings is_int rs) ''low''"
  "ss_Passed (sn_Summary (scan_resources is_int rs)) = max 0 (8 * int (length rs) - int (length (scan_findings is_int rs)))"
  by (simp_all add: scan_resources_def Let_def count_findings empty_scan_report_def fun_eq_iff)

lemma scan_score:
  "sn_Score (scan_resources is_int rs) = (let fs = scan_findings is_int rs in
     max 0 (100 - int (20 * severity_count fs ''critical'' + 10 * severity_count fs ''high'' + 5 * severity_count fs ''medium''
       + severity_count fs ''low'')))"
  by (simp add: scan_resources_def Let_def count_findings empty_scan_report_def)

lemma fixable_types: "list_all (\<lambda>c. list_all (\<lambda>t. CHR ''.'' \<notin> set t) (fst (snd c))) (fixable_checks is_int)"
  by (simp add: fixable_checks_def)

lemma fixable_ids: "list_all (\<lambda>c. fst c \<noteq> ''GRAPH-006'') (fixable_checks is_int)"
  by (simp add: fixable_checks_def)

text \<open>A database that is open to the public and keeps no backups.\<close>

definition demo_database :: parser_resource where
  "demo_database = \<lparr>pr_ID = ''db'', pr_Type = ''aws_db_instance'', pr_Name = ''db'',
     pr_Properties = [(''publicly_accessible'', JBool True), (''backup_retention_period'', JNum ''0'')],
     pr_File = ''main.tf'', pr_Line = 1, pr_BlockType = ''resource''\<rparr>"

definition demo_finding :: scan_finding where
  "demo_finding = hd (exp_002 demo_database)"

lemma demo_found: "demo_finding \<in> set (sn_Findings (scan_resources (\<lambda>_. False) [demo_database]))"
proof -
  have "scan_findings (\<lambda>_. False) [demo_database] \<noteq> [] \<and> hd (scan_findings (\<lambda>_. False) [demo_database]) = demo_finding" by code_simp
  then show ?thesis by (metis hd_in_set scan_report_simps(1))
qed

section \<open>Properties\<close>

text \<open>C26: The report of a scan adds up: each of the four counters of the summary is the number of the
  findings of that severity, there is no other severity, so they make up the total; the maps count the
  findings by severity, category and framework and the resources the findings name; and the score is
  100 less 20, 10, 5 or 1 for each finding that is critical, high, medium or low, but never below 0, so
  it is 100 exactly if there is no finding at all.\<close>

theorem security_score_exact:
  "let report = scan_resources is_int rs; s = sn_Summary report; fs = scan_findings is_int rs;
       count = (\<lambda>P. length (filter P fs));
       critical = count (\<lambda>f. sf_Severity f = ''critical''); high = count (\<lambda>f. sf_Severity f = ''high'');
       medium = count (\<lambda>f. sf_Severity f = ''medium''); low = count (\<lambda>f. sf_Severity f = ''low'');
       penalty = 20 * critical + 10 * high + 5 * medium + low in
   sn_Findings report = fs \<and> ss_Total s = length fs
   \<and> ss_Critical s = critical \<and> ss_High s = high \<and> ss_Medium s = medium \<and> ss_Low s = low
   \<and> ss_Total s = ss_Critical s + ss_High s + ss_Medium s + ss_Low s
   \<and> sn_BySeverity report = (\<lambda>k. count (\<lambda>f. sf_Severity f = k))
   \<and> sn_ByCategory report = (\<lambda>k. count (\<lambda>f. sf_Category f = k))
   \<and> sn_Frameworks report = (\<lambda>k. count (\<lambda>f. sf_Framework f = k))
   \<and> sn_ByResource report = (\<lambda>k. length (filter (\<lambda>a. a = k) (concat (map resources_of fs))))
   \<and> sn_Score report = max 0 (100 - int penalty) \<and> sn_Score report \<in> {0..100}
   \<and> (sn_Score report = 100 \<longleftrightarrow> fs = []) \<and> ss_Passed s = max 0 (8 * int (length rs) - int (ss_Total s))"
proof -
  let ?fs = "scan_findings is_int rs"
  have n: "length ?fs = severity_count ?fs ''critical'' + severity_count ?fs ''high''
      + severity_count ?fs ''medium'' + severity_count ?fs ''low''"
    by (rule severities_partition [OF scan_severities])
  have e: "?fs = [] \<longleftrightarrow> length ?fs = 0" by simp
  show ?thesis unfolding Let_def scan_report_simps scan_score e n severity_count_def [symmetric]
    by (auto simp: fun_eq_iff)
qed

text \<open>Every finding is about resources of the scanned project and has a severity that is counted,
  and a fix it offers is one of eight and for the resource it is about.\<close>

theorem findings_are_grounded:
  assumes "f \<in> set (sn_Findings (scan_resources is_int rs))"
  shows "resources_of f \<noteq> [] \<and> set (resources_of f) \<subseteq> resource_address ` set rs
    \<and> sf_AutoFixable f = (sf_Fix f \<noteq> None)
    \<and> (case sf_Fix f of None \<Rightarrow> True | Some x \<Rightarrow> (af_Field x, af_Value x) \<in> offered_fixes
        \<and> resources_of f = [af_ResourceType x @ ''.'' @ af_ResourceName x])"
proof -
  have "f \<in> set (scan_findings is_int rs)"
    using assms by simp
  then show ?thesis
  proof (cases rule: scan_finding_cases)
    case (1 i tys c r)
    have "case sf_Fix f of None \<Rightarrow> True | Some x \<Rightarrow> (af_Field x, af_Value x) \<in> offered_fixes"
      using fixes_offered [of is_int rs] 1(1,4) by (fastforce simp: list_all_iff)
    with 1(2,5) show ?thesis
      by (auto simp: finding_about_def resources_of_def resource_address_def split: option.splits)
  next
    case 2
    then show ?thesis by (auto simp: graph_006_def resources_of_def split: if_splits)
  qed
qed

theorem findings_are_grounded_witness: "resources_of demo_finding = [''aws_db_instance.db'']"
proof -
  have "sf_Fix demo_finding = Some \<lparr>af_ResourceType = ''aws_db_instance'', af_ResourceName = ''db'',
      af_Field = ''publicly_accessible'', af_Value = JBool False\<rparr>" by code_simp
  then show ?thesis using findings_are_grounded [OF demo_found] by simp
qed

text \<open>C25: The fixes work: with the field of a fix set to its value in the resource the fix names, the scan of the project has no finding
  of this kind about this resource any more, and none that it did not have before.\<close>

theorem auto_fixes_work:
  assumes f: "f \<in> set (sn_Findings (scan_resources is_int rs))" "sf_Fix f = Some x"
  shows "let fixed = set (sn_Findings (scan_resources is_int (map (apply_fix x) rs))) in
    fixed \<subseteq> set (sn_Findings (scan_resources is_int rs)) \<and> {g \<in> fixed. sf_ID g = sf_ID f \<and> sf_Resources g = sf_Resources f} = {}"
proof -
  obtain i tys c r where c: "(i, tys, c) \<in> set (resource_checks is_int rs)" "r \<in> set rs" "pr_Type r \<in> set tys"
      "f \<in> set (c r)" "finding_about i r f"
    using f by (auto simp: graph_006_def split: if_splits elim!: scan_finding_cases)
  have x: "(af_Field x, af_Value x) \<in> offered_fixes"
    using fixes_offered [of is_int rs] c(1,4) f(2) by (fastforce simp: list_all_iff)
  have fixable: "(i, tys, c) \<in> set (fixable_checks is_int)"
    using fixes_from_fixable [of is_int rs] c(1,4) f(2) by (fastforce simp: list_all_iff)
  have False if g: "g \<in> set (scan_findings is_int (map (apply_fix x) rs))" "sf_ID g = sf_ID f" "sf_Resources g = sf_Resources f" for g
    using g(1)
  proof (cases rule: scan_finding_cases)
    case (1 j tys' c' r')
    have "j = i" using 1(5) c(5) g(2) by (simp add: finding_about_def)
    then have "tys' = tys" "c' = c"
      using map_of_is_SomeI [OF distinct_checks 1(1)] fixable fixable_found [of is_int "map (apply_fix x) rs"]
      by (auto simp: list_all_iff)
    have "CHR ''.'' \<notin> set (pr_Type r')" "CHR ''.'' \<notin> set (pr_Type r)"
      using fixable_types [of is_int] fixable c(3) 1(3) \<open>tys' = tys\<close> by (fastforce simp: list_all_iff)+
    moreover have "resource_address r' = resource_address r"
      using 1(5) c(5) g(3) by (simp add: finding_about_def)
    ultimately have "pr_Type r' = pr_Type r \<and> pr_Name r' = pr_Name r" by (rule address_inj)
    then have "pr_Type r' = af_ResourceType x" "pr_Name r' = af_ResourceName x"
      using c(5) f(2) by (simp_all add: finding_about_def)
    then have "property_of r' (af_Field x) = Some (af_Value x)" using 1(2) by (auto simp: property_of_fix)
    then have "c r' = []"
      using fixed_property [of is_int] fixable c(4) f(2) by (fastforce simp: list_all_iff)
    then show False using 1(4) \<open>c' = c\<close> by simp
  next
    case 2
    then have "sf_ID g = ''GRAPH-006''" by (auto simp: graph_006_def split: if_splits)
    then show False using fixable_ids [of is_int] fixable c(5) g(2) by (auto simp: list_all_iff finding_about_def)
  qed
  then show ?thesis using fixed_scan_subset [OF x] by (auto simp: Let_def)
qed

theorem auto_fixes_work_witness:
  "let fixed = sn_Findings (scan_resources (\<lambda>_. False) [apply_fix (the (sf_Fix demo_finding)) demo_database]) in
   \<not> list_ex (\<lambda>g. sf_ID g = ''EXP-002'') fixed \<and> list_ex (\<lambda>g. sf_ID g = ''ENC-001'') fixed"
proof -
  let ?x = "the (sf_Fix demo_finding)"
  have x: "sf_Fix demo_finding = Some ?x" by code_simp
  have "list_all (\<lambda>g. sf_ID g = ''EXP-002'' \<longrightarrow> sf_Resources g = Some [''aws_db_instance.db''])
      (sn_Findings (scan_resources (\<lambda>_. False) [apply_fix ?x demo_database]))" by code_simp
  moreover have "sf_ID demo_finding = ''EXP-002''" "sf_Resources demo_finding = Some [''aws_db_instance.db'']" by code_simp+
  moreover have "list_ex (\<lambda>g. sf_ID g = ''ENC-001'') (sn_Findings (scan_resources (\<lambda>_. False) [apply_fix ?x demo_database]))" by code_simp
  ultimately show ?thesis using auto_fixes_work [OF demo_found x] by (auto simp: Let_def list_all_iff list_ex_iff)
qed

text \<open>A database without backups is not reported when its retention is a number of the HCL parser, and
  a bucket passes as protected when its name occurs in the reference to another bucket.\<close>

lemma zero_retention_passes: "hipaa_001 (\<lambda>_. False) demo_database = []"
  by code_simp

lemma other_bucket_protects:
  assumes "contains (str_prop block ''bucket'') (pr_Name r)" "block \<in> set rs"
    "pr_Type block = ''aws_s3_bucket_public_access_block''"
  shows "graph_003 rs r = []"
  using assms by (auto simp: graph_003_def list_ex_iff)

end
