(* ===== verification/Sync_Code.thy ===== *)
theory Sync_Code
  imports Safe_Paths Plan_Gate Policy_Rules
begin

text \<open>
  The sync handlers of \<open>internal/api/router.go\<close>, which write code and generated code of a project
  to disk: the handler of \<open>POST /api/projects/{name}/sync\<close> and \<open>handlePulumiSync\<close>, with the
  resolution of the project's tool and the edges of the canvas.

  The state is the file system and the plans of the apply gate. Arguments stand for the body the
  decoder returns, the project descriptor it returns, the names \<open>os.ReadDir\<close> and \<open>filepath.Glob\<close>
  list, the generators and the HCL parser, which may be any functions, and the order of map
  iteration. A value of type \<open>[]string\<close> in the properties of a resource is the list of its strings.
\<close>

section \<open>Requests and replies\<close>

record sync_edge =
  se_From :: string
  se_To :: string
  se_Field :: string

record sync_request =
  sq_Resources :: "parser_resource list"
  sq_Code :: "string option"
  sq_File :: string
  sq_Edges :: "sync_edge list"

record suppression_rule =
  sp_Address :: string
  sp_Type :: string
  sp_Name :: string
  sp_Status :: string
  sp_Path :: string
  sp_Classification :: string
  sp_Env :: string
  sp_Reason :: string

record project_descriptor =
  pj_Layout :: string
  pj_Tool :: string
  pj_Environments :: "string list"
  pj_EnvironmentTools :: "(string \<times> string) list"
  pj_Suppressions :: "suppression_rule list"

datatype sync_reply =
    InvalidProject path_refusal
  | InvalidBody
  | HybridTool string
  | InvalidEnv path_refusal
  | EnvRequired
  | InvalidFile string path_refusal
  | GenerateFailed string
  | WriteFailed fs_error
  | Synced string string

record sync_state =
  sy_fs :: file_system
  sy_gate :: plan_gate

section \<open>Edges of the canvas\<close>

fun append_sync_edge_target :: "json \<Rightarrow> string \<Rightarrow> json" where
  "append_sync_edge_target (JStr v) target = (if v = target then JStr v else JArr [JStr v, JStr target])"
| "append_sync_edge_target (JArr vs) target = (if JStr target \<in> set vs then JArr vs else JArr (vs @ [JStr target]))"
| "append_sync_edge_target _ target = JArr [JStr target]"

definition set_property :: "string \<Rightarrow> json \<Rightarrow> (string \<times> json) list \<Rightarrow> (string \<times> json) list" where
  "set_property k v ps = AList.update k v ps"

definition id_index :: "parser_resource list \<Rightarrow> string \<Rightarrow> nat option" where
  "id_index rs = map_of (rev (zip (map pr_ID rs) [0..<length rs]))"

definition materialize_edge :: "(string \<Rightarrow> nat option) \<Rightarrow> parser_resource list \<Rightarrow> sync_edge \<Rightarrow> parser_resource list" where
  "materialize_edge index rs e =
     (case (index (se_From e), index (se_To e)) of
        (Some i, Some j) \<Rightarrow>
          let key = ''__edge_'' @ se_Field e;
              target = pr_Name (rs ! j);
              r = rs ! i;
              v = (case map_of (pr_Properties r) key of
                     Some existing \<Rightarrow> append_sync_edge_target existing target
                   | None \<Rightarrow> JStr target)
          in rs[i := r\<lparr>pr_Properties := set_property key v (pr_Properties r)\<rparr>]
      | _ \<Rightarrow> rs)"

definition materialize_sync_edges :: "parser_resource list \<Rightarrow> sync_edge list \<Rightarrow> parser_resource list" where
  "materialize_sync_edges rs es =
     (if es = [] then rs else foldl (materialize_edge (id_index rs)) rs es)"

section \<open>The tool of a project\<close>

definition concrete_tool :: "string \<Rightarrow> bool" where
  "concrete_tool tool \<longleftrightarrow> tool = ''terraform'' \<or> tool = ''opentofu'' \<or> tool = ''pulumi'' \<or> tool = ''ansible''"

definition descriptor_tool :: "string \<Rightarrow> bool" where
  "descriptor_tool tool \<longleftrightarrow> tool = ''multi'' \<or> concrete_tool tool"

definition read_project_descriptor ::
  "(string \<Rightarrow> project_descriptor option) \<Rightarrow> string \<Rightarrow> file_system \<Rightarrow> string \<Rightarrow> project_descriptor option" where
  "read_project_descriptor decode cwd fs project_path =
     (case read_file fs (path_abs cwd (path_join [project_path, ''.iac-studio.json''])) of
        Inl _ \<Rightarrow> None
      | Inr data \<Rightarrow> decode data)"

definition effective_project_tool ::
  "(string \<Rightarrow> project_descriptor option) \<Rightarrow> string \<Rightarrow> file_system \<Rightarrow> string \<Rightarrow> string \<Rightarrow> string \<Rightarrow> string" where
  "effective_project_tool decode cwd fs project_path requested0 env =
     (let defaulted = (requested0 = []);
          requested = (if defaulted then ''terraform'' else requested0)
      in case read_project_descriptor decode cwd fs project_path of
           None \<Rightarrow> requested
         | Some d \<Rightarrow>
             let env_tool = (case map_of (pj_EnvironmentTools d) env of None \<Rightarrow> [] | Some t \<Rightarrow> t) in
             if env \<noteq> [] \<and> concrete_tool env_tool then env_tool
             else if defaulted \<and> descriptor_tool (pj_Tool d) then pj_Tool d
             else if requested \<noteq> ''multi'' then requested
             else if concrete_tool (pj_Tool d) then pj_Tool d
             else requested)"

definition hybrid_tool_resolution_message :: "(nat \<Rightarrow> bool) \<Rightarrow> string \<Rightarrow> string \<Rightarrow> string" where
  "hybrid_tool_resolution_message printable missing env =
     (if env = [] then missing
      else ''unresolved hybrid tool for env '' @ go_quote printable env @ ''; check .iac-studio.json environment_tools'')"

text \<open>\<open>listing\<close> gives what \<open>os.ReadDir\<close> lists, sorted; an entry that is a link is not a directory.\<close>

definition pulumi_env_dir ::
  "(string \<Rightarrow> string list option) \<Rightarrow> string \<Rightarrow> file_system \<Rightarrow> string \<Rightarrow> string \<Rightarrow> sync_reply + string" where
  "pulumi_env_dir listing cwd fs project_path env =
     (let subdir = (\<lambda>e. case safe_subdir cwd fs project_path [''environments'', e] of
                          Inl x \<Rightarrow> Inl (InvalidEnv x) | Inr p \<Rightarrow> Inr p);
          envs_path = path_join [project_path, ''environments'']
      in if env \<noteq> [] then subdir env
         else if is_ok (fs_stat fs (path_abs cwd (path_join [project_path, ''Pulumi.yaml'']))) then Inr project_path
         else case listing envs_path of
                None \<Rightarrow> Inr project_path
              | Some entries \<Rightarrow>
                  let envs = filter (\<lambda>e. fs_lstat fs (path_abs cwd (path_join [envs_path, e])) = Inr Dir) entries in
                  if length envs = 1 then subdir (hd envs)
                  else if 1 < length envs then Inl EnvRequired
                  else Inr project_path)"

section \<open>Writing a file\<close>

text \<open>\<open>kept\<close> is the error of removing a temporary file, which the handlers ignore.\<close>

definition write_and_rename ::
  "(fs_path \<Rightarrow> fs_error option) \<Rightarrow> (fs_path \<Rightarrow> fs_error option) \<Rightarrow> file_system \<Rightarrow> string \<Rightarrow> string
   \<Rightarrow> fs_error option \<times> file_system" where
  "write_and_rename deny kept fs target code =
     (let tmp = target @ ''.tmp'' in
      case write_file deny fs tmp code of
        (Some e, fs1) \<Rightarrow> (Some e, fs1)
      | (None, fs1) \<Rightarrow>
          (case fs_rename deny fs1 tmp target of
             (Some e, fs2) \<Rightarrow> (Some e, fs_remove kept fs2 tmp)
           | (None, fs2) \<Rightarrow> (None, fs2)))"

definition response_file :: "string \<Rightarrow> string \<Rightarrow> string" where
  "response_file project_path target =
     (case path_rel project_path target of
        None \<Rightarrow> path_base target
      | Some rel \<Rightarrow> if rel = ''.'' \<or> has_prefix rel ''..'' then path_base target else rel)"

definition simple_relative_file_name :: "string \<Rightarrow> bool" where
  "simple_relative_file_name target \<longleftrightarrow>
     target \<noteq> [] \<and> \<not> path_is_abs target \<and> CHR ''/'' \<notin> set target \<and> CHR 0x5C \<notin> set target"

text \<open>The file a resource or the code of a request is written to, before the path check.\<close>

definition sync_target :: "string \<Rightarrow> string \<Rightarrow> string \<Rightarrow> string \<Rightarrow> string" where
  "sync_target sync_workdir env ext requested =
     (if requested = [] then path_join [sync_workdir, ''main'' @ ext]
      else if env \<noteq> [] \<and> simple_relative_file_name requested then path_join [sync_workdir, requested]
      else requested)"

section \<open>Generators and preserved blocks\<close>

record code_generator =
  gn_Extension :: string
  gn_Generate :: "parser_resource list \<Rightarrow> string + string"
  gn_ResourcesOnly :: "(parser_resource list \<Rightarrow> string + string) option"

record preserved_block =
  pb_File :: string
  pb_Content :: string
  pb_Type :: string
  pb_Line :: int

definition allowed_generated_extensions :: "string \<Rightarrow> string \<Rightarrow> string list" where
  "allowed_generated_extensions tool default_ext =
     (if tool = ''ansible'' then [''.yml'', ''.yaml''] else [default_ext])"

definition generate_for_sync :: "code_generator \<Rightarrow> parser_resource list \<Rightarrow> bool \<Rightarrow> string + string" where
  "generate_for_sync gen rs include_providers =
     (case gn_ResourcesOnly gen of
        Some only \<Rightarrow> if \<not> include_providers then only rs else gn_Generate gen rs
      | None \<Rightarrow> gn_Generate gen rs)"

record sync_env =
  sv_cwd :: string
  sv_deny :: "fs_path \<Rightarrow> fs_error option"
  sv_kept :: "fs_path \<Rightarrow> fs_error option"
  sv_printable :: "nat \<Rightarrow> bool"
  sv_decode :: "string \<Rightarrow> project_descriptor option"
  sv_listing :: "file_system \<Rightarrow> string \<Rightarrow> string list option"
  sv_glob :: "file_system \<Rightarrow> string \<Rightarrow> string list"
  sv_generator :: "string \<Rightarrow> code_generator"
  sv_parse :: "file_system \<Rightarrow> string \<Rightarrow> preserved_block list option"
  sv_order :: "string list \<Rightarrow> string list"
  sv_sync_program :: "string \<Rightarrow> string \<Rightarrow> parser_resource list \<Rightarrow> string + string"

definition check_file :: "sync_env \<Rightarrow> file_system \<Rightarrow> string \<Rightarrow> string \<Rightarrow> string list \<Rightarrow> path_refusal + string" where
  "check_file v fs base requested exts = safe_project_file (sv_cwd v) fs base requested exts"

section \<open>Writing code\<close>

definition write_reply ::
  "sync_env \<Rightarrow> sync_state \<Rightarrow> string list \<Rightarrow> string \<Rightarrow> string \<Rightarrow> string \<Rightarrow> sync_reply \<times> sync_state" where
  "write_reply v s paths project_path target code =
     (let gate = invalidate_plan (sy_gate s) paths in
      case write_and_rename (sv_deny v) (sv_kept v) (sy_fs s) target code of
        (Some e, fs1) \<Rightarrow> (WriteFailed e, \<lparr>sy_fs = fs1, sy_gate = gate\<rparr>)
      | (None, fs1) \<Rightarrow> (Synced (response_file project_path target) code, \<lparr>sy_fs = fs1, sy_gate = gate\<rparr>))"

definition sync_code ::
  "sync_env \<Rightarrow> sync_state \<Rightarrow> string \<Rightarrow> string \<Rightarrow> string \<Rightarrow> string \<Rightarrow> string list \<Rightarrow> string \<Rightarrow> string
   \<Rightarrow> sync_reply \<times> sync_state" where
  "sync_code v s project_path workdir env ext exts requested code =
     (case check_file v (sy_fs s) project_path (sync_target workdir env ext requested) exts of
        Inl e \<Rightarrow> (InvalidFile ''invalid code file'' e, s)
      | Inr target \<Rightarrow> write_reply v s (plan_invalidation_paths project_path [target]) project_path target code)"

definition handle_pulumi_sync ::
  "sync_env \<Rightarrow> sync_state \<Rightarrow> string \<Rightarrow> string \<Rightarrow> sync_request \<Rightarrow> sync_reply \<times> sync_state" where
  "handle_pulumi_sync v s project_path env body =
     (case pulumi_env_dir (sv_listing v (sy_fs s)) (sv_cwd v) (sy_fs s) project_path env of
        Inl e \<Rightarrow> (e, s)
      | Inr target_dir \<Rightarrow>
          (case check_file v (sy_fs s) target_dir ''index.ts'' [''.ts''] of
             Inl e \<Rightarrow> (InvalidFile ''invalid pulumi index file'' e, s)
           | Inr target_file \<Rightarrow>
               (case sq_Code body of
                  Some code \<Rightarrow>
                    (case check_file v (sy_fs s) target_dir (if sq_File body = [] then ''index.ts'' else sq_File body) [''.ts''] of
                       Inl e \<Rightarrow> (InvalidFile ''invalid code file'' e, s)
                     | Inr target \<Rightarrow> write_reply v s [project_path, target_dir] project_path target code)
                | None \<Rightarrow>
                    let resources = materialize_sync_edges (sq_Resources body) (sq_Edges body);
                        existing = (case read_file (sy_fs s) target_file of Inr d \<Rightarrow> d | Inl _ \<Rightarrow> [])
                    in case sv_sync_program v existing target_dir resources of
                         Inl e \<Rightarrow> (GenerateFailed e, s)
                       | Inr code \<Rightarrow> write_reply v s [project_path, target_dir] project_path target_file code)))"

section \<open>Writing resources\<close>

fun group_files ::
  "(string \<Rightarrow> path_refusal + string) \<Rightarrow> (string \<times> parser_resource list) list \<Rightarrow> parser_resource list
   \<Rightarrow> path_refusal + (string \<times> parser_resource list) list" where
  "group_files safe groups [] = Inr groups"
| "group_files safe groups (r # rs) =
     (case safe (pr_File r) of
        Inl e \<Rightarrow> Inl e
      | Inr target \<Rightarrow>
          group_files safe (AList.update target ((case map_of groups target of None \<Rightarrow> [] | Some g \<Rightarrow> g) @ [r]) groups) rs)"

fun scan_preserved ::
  "sync_env \<Rightarrow> file_system \<Rightarrow> string \<Rightarrow> string list \<Rightarrow> (string \<times> preserved_block list) list \<times> bool \<Rightarrow> string list
   \<Rightarrow> (string \<times> preserved_block list) list \<times> bool" where
  "scan_preserved v fs project_path exts acc [] = acc"
| "scan_preserved v fs project_path exts acc (f # fs') =
     (case sv_parse v fs f of
        None \<Rightarrow> scan_preserved v fs project_path exts acc fs'
      | Some blocks \<Rightarrow>
          (case check_file v fs project_path f exts of
             Inl _ \<Rightarrow> scan_preserved v fs project_path exts acc fs'
           | Inr abs_file \<Rightarrow>
               scan_preserved v fs project_path exts
                 (AList.update abs_file blocks (fst acc), snd acc \<or> list_ex (\<lambda>b. pb_Type b = ''provider'') blocks) fs'))"

definition preserved_text :: "preserved_block list \<Rightarrow> string" where
  "preserved_text blocks = concat (map (\<lambda>b. pb_Content b @ newline @ newline) blocks)"

fun write_groups ::
  "sync_env \<Rightarrow> code_generator \<Rightarrow> (string \<times> preserved_block list) list \<Rightarrow> bool \<Rightarrow> string
   \<Rightarrow> (string \<times> parser_resource list) list \<Rightarrow> file_system \<Rightarrow> string \<Rightarrow> fs_error option \<times> file_system \<times> string" where
  "write_groups v gen preserved has_provider root_main [] fs main_code = (None, fs, main_code)"
| "write_groups v gen preserved has_provider root_main ((f, rs) # gs) fs main_code =
     (case generate_for_sync gen rs (\<not> has_provider \<and> f = root_main) of
        Inl _ \<Rightarrow> write_groups v gen preserved has_provider root_main gs fs main_code
      | Inr code0 \<Rightarrow>
          let code = (case map_of preserved f of None \<Rightarrow> [] | Some blocks \<Rightarrow> preserved_text blocks) @ code0 in
          (case write_and_rename (sv_deny v) (sv_kept v) fs f code of
             (Some e, fs1) \<Rightarrow> (Some e, fs1, main_code)
           | (None, fs1) \<Rightarrow>
               write_groups v gen preserved has_provider root_main gs fs1 (if f = root_main then code else main_code)))"

text \<open>\<open>sv_order\<close> is the order in which a loop over the map of files visits its keys.\<close>

definition in_order :: "sync_env \<Rightarrow> (string \<times> parser_resource list) list \<Rightarrow> (string \<times> parser_resource list) list" where
  "in_order v groups = map (\<lambda>f. (f, case map_of groups f of None \<Rightarrow> [] | Some g \<Rightarrow> g)) (sv_order v (map fst groups))"

text \<open>The resources by the file they are written to; all of them go to the main file if there is none.\<close>

definition sync_groups ::
  "sync_env \<Rightarrow> file_system \<Rightarrow> string \<Rightarrow> string \<Rightarrow> string \<Rightarrow> string \<Rightarrow> string list \<Rightarrow> parser_resource list
   \<Rightarrow> sync_reply + (string \<times> parser_resource list) list" where
  "sync_groups v fs project_path workdir env ext exts resources =
     (case group_files (\<lambda>f. check_file v fs project_path (sync_target workdir env ext f) exts) [] resources of
        Inl e \<Rightarrow> Inl (InvalidFile ''invalid resource file'' e)
      | Inr groups \<Rightarrow>
          if groups \<noteq> [] then Inr groups
          else case check_file v fs project_path (path_join [workdir, ''main'' @ ext]) exts of
            Inl e \<Rightarrow> Inl (InvalidFile ''invalid main file'' e)
          | Inr f \<Rightarrow> Inr [(f, resources)])"

definition sync_resources ::
  "sync_env \<Rightarrow> sync_state \<Rightarrow> string \<Rightarrow> string \<Rightarrow> string \<Rightarrow> string \<Rightarrow> string list \<Rightarrow> sync_request \<Rightarrow> sync_reply \<times> sync_state" where
  "sync_resources v s project_path workdir env tool exts body =
     (let gen = sv_generator v tool; fs = sy_fs s; ext = gn_Extension gen;
          resources = materialize_sync_edges (sq_Resources body) (sq_Edges body)
      in case gn_Generate gen resources of
           Inl e \<Rightarrow> (GenerateFailed e, s)
         | Inr code \<Rightarrow>
             (case sync_groups v fs project_path workdir env ext exts resources of
                Inl e \<Rightarrow> (e, s)
              | Inr groups \<Rightarrow>
                  let gate = invalidate_plan (sy_gate s) (plan_invalidation_paths project_path (sv_order v (map fst groups)));
                      (preserved, has_provider) =
                        (if tool = ''ansible'' then ([], False)
                         else scan_preserved v fs project_path exts ([], False) (sv_glob v fs workdir))
                  in case check_file v fs project_path (path_join [workdir, ''main'' @ ext]) exts of
                       Inl e \<Rightarrow> (InvalidFile ''invalid main file'' e, s\<lparr>sy_gate := gate\<rparr>)
                     | Inr root_main \<Rightarrow>
                         (case write_groups v gen preserved has_provider root_main (in_order v groups) fs [] of
                            (Some e, fs1, _) \<Rightarrow> (WriteFailed e, \<lparr>sy_fs = fs1, sy_gate = gate\<rparr>)
                          | (None, fs1, main_code) \<Rightarrow>
                              (Synced (response_file project_path root_main) (if main_code = [] then code else main_code),
                               \<lparr>sy_fs = fs1, sy_gate = gate\<rparr>))))"

section \<open>The handler\<close>

text \<open>A body is absent if its content type or its text is rejected.\<close>

definition post_sync ::
  "sync_env \<Rightarrow> sync_state \<Rightarrow> string \<Rightarrow> string \<Rightarrow> string \<Rightarrow> string \<Rightarrow> sync_request option \<Rightarrow> sync_reply \<times> sync_state" where
  "post_sync v s projects_dir name requested_tool env request =
     (case safe_project_path (sv_cwd v) (sy_fs s) projects_dir name of
        Inl e \<Rightarrow> (InvalidProject e, s)
      | Inr project_path \<Rightarrow>
          (case request of
             None \<Rightarrow> (InvalidBody, s)
           | Some body \<Rightarrow>
               let tool = effective_project_tool (sv_decode v) (sv_cwd v) (sy_fs s) project_path requested_tool env in
               if tool = ''multi'' then
                 (HybridTool (hybrid_tool_resolution_message (sv_printable v)
                    ''env query parameter is required for hybrid project sync'' env), s)
               else if tool = ''pulumi'' then handle_pulumi_sync v s project_path env body
               else
                 let exts = allowed_generated_extensions tool (gn_Extension (sv_generator v tool)) in
                 case (if env = [] then Inr project_path
                       else safe_subdir (sv_cwd v) (sy_fs s) project_path [''environments'', env]) of
                   Inl e \<Rightarrow> (InvalidEnv e, s)
                 | Inr workdir \<Rightarrow>
                     (case sq_Code body of
                        Some code \<Rightarrow>
                          sync_code v s project_path workdir env (gn_Extension (sv_generator v tool)) exts (sq_File body) code
                      | None \<Rightarrow> sync_resources v s project_path workdir env tool exts body)))"

end
