(* ===== verification/Sync_Props.thy ===== *)
theory Sync_Props
  imports Sync_Code Gate_Props
begin

text \<open>
  What the sync handlers do: they write only files that the path check admitted, each to a
  temporary file that is then renamed, and no plan of the project survives a change.
\<close>

section \<open>Plans that a changed file drops\<close>

lemma invalidation_paths_spec:
  "set paths \<subseteq> set (invalidation_paths project paths ts)
   \<and> (\<forall>t \<in> set ts. \<forall>d. env_workdir_for_project_file project t = Some d \<longrightarrow> d \<in> set (invalidation_paths project paths ts))"
proof (induction ts arbitrary: paths)
  case (Cons t ts)
  then show ?case by (fastforce split: option.splits)
qed simp

lemma plan_invalidation_spec:
  "project \<in> set (plan_invalidation_paths project ts)"
  "t \<in> set ts \<Longrightarrow> env_workdir_for_project_file project t = Some d \<Longrightarrow> d \<in> set (plan_invalidation_paths project ts)"
  using invalidation_paths_spec [of "[project]" project ts] by (auto simp: plan_invalidation_paths_def)

section \<open>Writes\<close>

definition run_writes ::
  "(fs_path \<Rightarrow> fs_error option) \<Rightarrow> (fs_path \<Rightarrow> fs_error option) \<Rightarrow> file_system \<Rightarrow> (string \<times> string) list \<Rightarrow> file_system" where
  "run_writes deny kept fs ws = foldl (\<lambda>fs (t, c). snd (write_and_rename deny kept fs t c)) fs ws"

lemma run_writes_simps [simp]:
  "run_writes deny kept fs [] = fs"
  "run_writes deny kept fs ((t, c) # ws) = run_writes deny kept (snd (write_and_rename deny kept fs t c)) ws"
  by (simp_all add: run_writes_def)

lemma write_groups_effect:
  "write_groups v gen preserved has_provider root_main gs fs mc = (res, fs', mc') \<Longrightarrow>
   \<exists>ws. fs' = run_writes (sv_deny v) (sv_kept v) fs ws \<and> set (map fst ws) \<subseteq> set (map fst gs)"
proof (induction v gen preserved has_provider root_main gs fs mc rule: write_groups.induct)
  case (1 v gen preserved has_provider root_main fs mc)
  then show ?case by (intro exI [of _ "[]"]) simp
next
  case (2 v gen preserved has_provider root_main f rs gs fs mc)
  show ?case
  proof (cases "generate_for_sync gen rs (\<not> has_provider \<and> f = root_main)")
    case (Inl e)
    then have "write_groups v gen preserved has_provider root_main gs fs mc = (res, fs', mc')" using 2(3) by simp
    then obtain ws where "fs' = run_writes (sv_deny v) (sv_kept v) fs ws" "set (map fst ws) \<subseteq> set (map fst gs)"
      using 2(1) [OF Inl] by blast
    then show ?thesis by auto
  next
    case (Inr code0)
    define code where "code = (case map_of preserved f of None \<Rightarrow> [] | Some blocks \<Rightarrow> preserved_text blocks) @ code0"
    obtain r fs1 where w: "write_and_rename (sv_deny v) (sv_kept v) fs f code = (r, fs1)" by (metis prod.exhaust)
    show ?thesis
    proof (cases r)
      case (Some e)
      then show ?thesis using 2(3) Inr w unfolding code_def by (intro exI [of _ "[(f, code)]"]) (simp add: code_def)
    next
      case None
      then obtain ws where "fs' = run_writes (sv_deny v) (sv_kept v) fs1 ws" "set (map fst ws) \<subseteq> set (map fst gs)"
        using 2(2) [OF Inr code_def w [unfolded None, symmetric] refl] 2(3) Inr w by (simp add: Let_def flip: code_def) blast
      then show ?thesis using w by (intro exI [of _ "(f, code) # ws"]) auto
    qed
  qed
qed

lemma group_files_checked:
  assumes "group_files safe groups rs = Inr groups'" "\<forall>g \<in> set groups. \<exists>q. safe q = Inr (fst g)"
  shows "\<forall>g \<in> set groups'. \<exists>q. safe q = Inr (fst g)"
  using assms
proof (induction safe groups rs rule: group_files.induct)
  case (2 safe groups r rs)
  then obtain target where t: "safe (pr_File r) = Inr target" by (auto split: sum.splits)
  have "\<exists>q. safe q = Inr (fst g)" if "g \<in> set (AList.update target x groups)" for g x
  proof -
    have "fst g \<in> fst ` set (AList.update target x groups)" using that by (rule imageI)
    then have "fst g = target \<or> fst g \<in> fst ` set groups" by (simp add: dom_update)
    then show ?thesis using t 2(3) by fastforce
  qed
  then show ?case using 2 t by simp
qed simp

text \<open>The places a write can change: where the path of the temporary file leads, through a link if one
  stands there, and then the places of the temporary file and of the file themselves.\<close>

definition write_places :: "(fs_path \<Rightarrow> fs_error option) \<Rightarrow> file_system \<Rightarrow> string \<Rightarrow> string \<Rightarrow> fs_path set" where
  "write_places deny fs t c =
     {q. walk fs max_links True True [] (path_elements (t @ ''.tmp'')) = Inr q}
     \<union> {q. walk (snd (write_file deny fs (t @ ''.tmp'') c)) max_links False False [] (path_elements (t @ ''.tmp'')) = Inr q}
     \<union> {q. walk (snd (write_file deny fs (t @ ''.tmp'') c)) max_links False True [] (path_elements t) = Inr q}"

fun written_places ::
  "(fs_path \<Rightarrow> fs_error option) \<Rightarrow> (fs_path \<Rightarrow> fs_error option) \<Rightarrow> file_system \<Rightarrow> (string \<times> string) list \<Rightarrow> fs_path set" where
  "written_places deny kept fs [] = {}"
| "written_places deny kept fs ((t, c) # ws) =
     write_places deny fs t c \<union> written_places deny kept (snd (write_and_rename deny kept fs t c)) ws"

lemma write_file_elsewhere:
  "walk fs max_links True True [] (path_elements p) \<noteq> Inr q \<Longrightarrow> snd (write_file deny fs p s) q = fs q"
  by (auto simp: write_file_def split: sum.splits option.splits fs_error.splits)

lemma rename_elsewhere:
  "walk fs max_links False False [] (path_elements a) \<noteq> Inr q \<Longrightarrow> walk fs max_links False True [] (path_elements b) \<noteq> Inr q \<Longrightarrow>
   snd (fs_rename deny fs a b) q = fs q"
  by (auto simp: fs_rename_def split: sum.splits option.splits)

lemma failed_rename: "fs_rename deny fs a b = (Some e, fs') \<Longrightarrow> fs' = fs"
  by (auto simp: fs_rename_def split: sum.splits option.splits if_splits)

lemma remove_elsewhere:
  "walk fs max_links False False [] (path_elements p) \<noteq> Inr q \<Longrightarrow> fs_remove kept fs p q = fs q"
  by (auto simp: fs_remove_def split: sum.splits)

lemma write_elsewhere:
  assumes "q \<notin> write_places deny fs t c"
  shows "snd (write_and_rename deny kept fs t c) q = fs q"
proof -
  obtain r fs1 where w: "write_file deny fs (t @ ''.tmp'') c = (r, fs1)" by (metis prod.exhaust)
  then have q: "walk fs1 max_links False False [] (path_elements (t @ ''.tmp'')) \<noteq> Inr q"
      "walk fs1 max_links False True [] (path_elements t) \<noteq> Inr q" and 1: "fs1 q = fs q"
    using assms write_file_elsewhere [of fs "t @ ''.tmp''" q deny c] unfolding write_places_def by auto
  obtain r2 fs2 where n: "fs_rename deny fs1 (t @ ''.tmp'') t = (r2, fs2)" by (metis prod.exhaust)
  then have 2: "fs2 q = fs1 q" using rename_elsewhere [OF q, of deny] by simp
  show ?thesis using w n 1 2 remove_elsewhere [OF q(1), of kept] failed_rename [of deny fs1 "t @ ''.tmp''" t _ fs2]
    by (cases r; cases r2) (auto simp: write_and_rename_def Let_def)
qed

lemma writes_elsewhere:
  "q \<notin> written_places deny kept fs ws \<Longrightarrow> run_writes deny kept fs ws q = fs q"
  by (induction deny kept fs ws rule: written_places.induct) (simp_all add: write_elsewhere)

section \<open>The effect of a request\<close>

text \<open>Admitted files are written one after the other, after the plans of \<open>paths\<close> are dropped.\<close>

definition sync_effect :: "sync_env \<Rightarrow> string \<Rightarrow> string list \<Rightarrow> string list \<Rightarrow> (string \<times> string) list \<Rightarrow> sync_state \<Rightarrow> sync_state \<Rightarrow> bool" where
  "sync_effect v base exts paths ws s s' \<longleftrightarrow>
     (\<forall>w \<in> set ws. \<exists>q. safe_project_file (sv_cwd v) (sy_fs s) base q exts = Inr (fst w))
     \<and> sy_fs s' = run_writes (sv_deny v) (sv_kept v) (sy_fs s) ws \<and> sy_gate s' = invalidate_plan (sy_gate s) paths"

lemma effect_elsewhere:
  "sync_effect v base exts paths ws s s' \<Longrightarrow> q \<notin> written_places (sv_deny v) (sv_kept v) (sy_fs s) ws \<Longrightarrow> sy_fs s' q = sy_fs s q"
  by (simp add: sync_effect_def writes_elsewhere)

lemma write_reply_effect:
  assumes "write_reply v s paths project target code = (reply, s')" "safe_project_file (sv_cwd v) (sy_fs s) base q exts = Inr target"
  shows "sync_effect v base exts paths [(target, code)] s s'"
proof -
  obtain r fs1 where w: "write_and_rename (sv_deny v) (sv_kept v) (sy_fs s) target code = (r, fs1)" by (metis prod.exhaust)
  then show ?thesis using assms by (cases r) (auto simp: write_reply_def sync_effect_def Let_def)
qed

lemma pulumi_effect:
  assumes "handle_pulumi_sync v s project env body = (reply, s')"
  shows "s' = s \<or> (\<exists>base target code. sync_effect v base [''.ts''] [project, base] [(target, code)] s s')"
proof -
  have "s' = s \<or> (\<exists>base target code q. write_reply v s [project, base] project target code = (reply, s')
      \<and> safe_project_file (sv_cwd v) (sy_fs s) base q [''.ts''] = Inr target)"
    using assms by (simp add: handle_pulumi_sync_def check_file_def Let_def split: sum.splits option.splits if_splits) blast+
  then show ?thesis using write_reply_effect by blast
qed

lemma groups_checked:
  assumes "sync_groups v fs project workdir env ext exts resources = Inr groups"
  shows "\<forall>g \<in> set groups. \<exists>q. safe_project_file (sv_cwd v) fs project q exts = Inr (fst g)"
proof -
  let ?safe = "\<lambda>f. check_file v fs project (sync_target workdir env ext f) exts"
  obtain groups0 where g: "group_files ?safe [] resources = Inr groups0"
    using assms by (auto simp: sync_groups_def split: sum.splits)
  have "\<forall>g \<in> set groups0. \<exists>q. safe_project_file (sv_cwd v) fs project q exts = Inr (fst g)"
    using group_files_checked [OF g] by (fastforce simp: check_file_def)
  with assms g show ?thesis by (auto simp: sync_groups_def check_file_def split: sum.splits if_splits)
qed

lemma resources_effect:
  assumes order: "\<forall>fs. set (sv_order v fs) = set fs"
    and w: "sync_resources v s project workdir env tool exts body = (reply, s')"
  shows "s' = s \<or> (\<exists>ts ws. sync_effect v project exts (plan_invalidation_paths project ts) ws s s' \<and> set (map fst ws) \<subseteq> set ts)"
proof -
  define gen where "gen = sv_generator v tool"
  define resources where "resources = materialize_sync_edges (sq_Resources body) (sq_Edges body)"
  define grouped where "grouped = sync_groups v (sy_fs s) project workdir env (gn_Extension gen) exts resources"
  obtain preserved has_provider where p: "(if tool = ''ansible'' then ([], False)
      else scan_preserved v (sy_fs s) project exts ([], False) (sv_glob v (sy_fs s) workdir)) = (preserved, has_provider)"
    by (metis prod.exhaust)
  note w = w [unfolded sync_resources_def Let_def, folded gen_def resources_def, folded grouped_def, unfolded p]
  consider (stop) "s' = s" | (go) groups where "grouped = Inr groups"
    using w by (cases grouped) (auto split: sum.splits)
  then show ?thesis
  proof cases
    case go
    let ?ts = "sv_order v (map fst groups)"
    have checked: "\<forall>g \<in> set groups. \<exists>q. safe_project_file (sv_cwd v) (sy_fs s) project q exts = Inr (fst g)"
      using groups_checked [OF go [unfolded grouped_def]] .
    have keys: "map fst (in_order v groups) = ?ts" by (simp add: in_order_def o_def)
    consider "s' = s" | "s' = s\<lparr>sy_gate := invalidate_plan (sy_gate s) (plan_invalidation_paths project ?ts)\<rparr>"
      | root_main r fs1 mc where "write_groups v gen preserved has_provider root_main (in_order v groups) (sy_fs s) [] = (r, fs1, mc)"
        "s' = \<lparr>sy_fs = fs1, sy_gate = invalidate_plan (sy_gate s) (plan_invalidation_paths project ?ts)\<rparr>"
    proof (cases "gn_Generate gen resources")
      case (Inl e)
      then show thesis using w that(1) by simp
    next
      case (Inr code)
      show thesis
      proof (cases "check_file v (sy_fs s) project (path_join [workdir, ''main'' @ gn_Extension gen]) exts")
        case e: (Inl e)
        then show thesis using w Inr go that(2) by simp
      next
        case m: (Inr root_main)
        obtain r fs1 mc where "write_groups v gen preserved has_provider root_main (in_order v groups) (sy_fs s) [] = (r, fs1, mc)"
          by (metis prod.exhaust)
        with w Inr go m that(3) show thesis by (cases r) simp_all
      qed
    qed
    then show ?thesis
    proof cases
      case 2
      then have "sync_effect v project exts (plan_invalidation_paths project ?ts) [] s s'" by (simp add: sync_effect_def)
      then show ?thesis by fastforce
    next
      case 3
      then obtain ws where ws: "fs1 = run_writes (sv_deny v) (sv_kept v) (sy_fs s) ws" "set (map fst ws) \<subseteq> set ?ts"
        using write_groups_effect [OF 3(1)] keys by metis
      have "\<exists>q. safe_project_file (sv_cwd v) (sy_fs s) project q exts = Inr (fst w)" if "w \<in> set ws" for w
      proof -
        have "fst w \<in> set (map fst groups)" using that ws(2) order by auto
        then show ?thesis using checked by fastforce
      qed
      then have "sync_effect v project exts (plan_invalidation_paths project ?ts) ws s s'"
        using ws(1) 3(2) by (simp add: sync_effect_def)
      then show ?thesis using ws(2) by blast
    qed simp
  qed simp
qed

lemma checked_extension:
  "safe_project_file cwd fs base q exts = Inr t \<Longrightarrow> exts \<noteq> [] \<Longrightarrow> path_ext t \<in> set exts"
  by (auto simp: safe_project_file_def Let_def split: if_splits sum.splits)

lemma code_effect:
  assumes "sync_code v s project workdir env ext exts requested code = (reply, s')"
  shows "s' = s \<or> (\<exists>t. sync_effect v project exts (plan_invalidation_paths project [t]) [(t, code)] s s')"
proof (cases "check_file v (sy_fs s) project (sync_target workdir env ext requested) exts")
  case (Inl e)
  then show ?thesis using assms by (simp add: sync_code_def)
next
  case (Inr t)
  then have "write_reply v s (plan_invalidation_paths project [t]) project t code = (reply, s')"
    using assms by (simp add: sync_code_def)
  then show ?thesis using write_reply_effect Inr unfolding check_file_def by blast
qed

text \<open>The two kinds of effect: on the project, or on the directory of a Pulumi program.\<close>

lemma post_sync_cases:
  assumes "post_sync v s projects_dir name requested_tool env request = (reply, s')" "\<forall>fs. set (sv_order v fs) = set fs"
  obtains "s' = s"
  | project base target code where "safe_project_path (sv_cwd v) (sy_fs s) projects_dir name = Inr project"
      "effective_project_tool (sv_decode v) (sv_cwd v) (sy_fs s) project requested_tool env = ''pulumi''"
      "sync_effect v base [''.ts''] [project, base] [(target, code)] s s'"
  | project tool ts ws where "safe_project_path (sv_cwd v) (sy_fs s) projects_dir name = Inr project"
      "sync_effect v project (allowed_generated_extensions tool (gn_Extension (sv_generator v tool)))
         (plan_invalidation_paths project ts) ws s s'" "set (map fst ws) \<subseteq> set ts"
proof (cases "safe_project_path (sv_cwd v) (sy_fs s) projects_dir name")
  case (Inl e)
  then show ?thesis using assms(1) that(1) by (simp add: post_sync_def)
next
  case (Inr project)
  define tool where "tool = effective_project_tool (sv_decode v) (sv_cwd v) (sy_fs s) project requested_tool env"
  define exts where "exts = allowed_generated_extensions tool (gn_Extension (sv_generator v tool))"
  note pulumi = that(2) [OF Inr] and main = that(3) [OF Inr, of tool, folded exts_def]
  have code: thesis if "s' = s \<or> (\<exists>t c. sync_effect v project exts (plan_invalidation_paths project [t]) [(t, c)] s s')"
    using that \<open>s' = s \<Longrightarrow> thesis\<close> main by fastforce
  note post = assms(1) [unfolded post_sync_def Inr sum.case Let_def, folded tool_def, folded exts_def]
  show ?thesis
  proof (cases request)
    case None
    then show thesis using post \<open>s' = s \<Longrightarrow> thesis\<close> by simp
  next
    case (Some body)
    consider "tool = ''multi''" | "tool = ''pulumi''" | "tool \<noteq> ''multi''" "tool \<noteq> ''pulumi''" by blast
    then show thesis
    proof cases
      case 1
      then show thesis using post Some \<open>s' = s \<Longrightarrow> thesis\<close> by simp
    next
      case 2
      then show thesis using post Some pulumi_effect [of v s project env body reply s'] \<open>s' = s \<Longrightarrow> thesis\<close> pulumi
        unfolding tool_def by auto
    next
      case 3
      let ?w = "if env = [] then Inr project else safe_subdir (sv_cwd v) (sy_fs s) project [''environments'', env]"
      show thesis
      proof (cases ?w)
        case (Inl e)
        then show thesis using post Some 3 \<open>s' = s \<Longrightarrow> thesis\<close> by simp
      next
        case (Inr workdir)
        show thesis
        proof (cases "sq_Code body")
          case None
          then have "sync_resources v s project workdir env tool exts body = (reply, s')" using post Some 3 Inr by simp
          then show thesis using resources_effect [OF assms(2)] \<open>s' = s \<Longrightarrow> thesis\<close> main by blast
        next
          case c: (Some c)
          then have "sync_code v s project workdir env (gn_Extension (sv_generator v tool)) exts (sq_File body) c = (reply, s')"
            using post Some 3 Inr by simp
          then show thesis using code_effect code by blast
        qed
      qed
    qed
  qed
qed

section \<open>One file\<close>

lemma plain_tmp: "plain_element e \<Longrightarrow> plain_element (e @ ''.tmp'')"
  by (cases e) (auto simp: plain_element_def)

lemma abs_path_tmp: "abs_path (dir @ [e]) @ ''.tmp'' = abs_path (dir @ [e @ ''.tmp''])"
  by (cases "dir = []") (simp_all add: abs_path_snoc, simp add: abs_path_def)

lemma tmp_differs: "dir @ [e @ ''.tmp''] \<noteq> dir @ [e]"
  by simp

lemma rename_entry:
  assumes "fs_ok fs" "fs dir = Some Dir" "plain_element a" "plain_element b" "fs (dir @ [a]) = Some (File c)" "a \<noteq> b"
  shows "fs_rename deny fs (abs_path (dir @ [a])) (abs_path (dir @ [b])) =
    (if fs (dir @ [b]) = Some Dir then (Some EEXIST, fs)
     else case deny (dir @ [b]) of Some e \<Rightarrow> (Some e, fs)
       | None \<Rightarrow> (None, (fs(dir @ [a] := None))(dir @ [b] := Some (File c))))"
proof -
  have p: "list_all plain_element (dir @ [a])" "list_all plain_element (dir @ [b])"
    using fs_ok_plain [OF assms(1)] assms by fastforce+
  have "walk fs max_links False False [] (dir @ [a]) = Inr (dir @ [a])"
    using assms by (simp add: walk_last)
  moreover have "walk fs max_links False True [] (dir @ [b]) = Inr (dir @ [b])"
    using walk_entry [OF assms(1,2,4)] .
  ultimately show ?thesis using assms(5) elements_abs [OF p(1)] elements_abs [OF p(2)]
    by (simp only: fs_rename_def) (simp split: option.split)
qed

lemma write_and_rename_spec:
  assumes fs: "fs_ok fs" "fs dir = Some Dir" "plain_element e" and tmp: "\<forall>t. fs (dir @ [e @ ''.tmp'']) \<noteq> Some (Link t)"
  shows "write_and_rename deny kept fs (abs_path (dir @ [e])) code =
    (let tmp = dir @ [e @ ''.tmp'']; target = dir @ [e] in
     if fs tmp = Some Dir then (Some EISDIR, fs)
     else case deny tmp of
         Some x \<Rightarrow> (Some x, case x of ESHORT n _ \<Rightarrow> fs(tmp := Some (File (take n code))) | _ \<Rightarrow> fs)
       | None \<Rightarrow>
         let left = (if kept tmp = None then fs(tmp := None) else fs(tmp := Some (File code))) in
         if fs target = Some Dir then (Some EEXIST, left)
         else case deny target of Some x \<Rightarrow> (Some x, left)
           | None \<Rightarrow> (None, (fs(tmp := None))(target := Some (File code))))"
proof -
  let ?tmp = "dir @ [e @ ''.tmp'']" and ?fs = "fs(dir @ [e @ ''.tmp''] := Some (File code))"
  have pl: "plain_element (e @ ''.tmp'')" using plain_tmp fs(3) .
  have p: "list_all plain_element (dir @ [e @ ''.tmp''])" using fs_ok_plain [OF fs(1)] fs(2) pl by fastforce
  note w = write_entry [OF fs(1,2) p tmp, of deny code]
  show ?thesis
  proof (cases "fs ?tmp = Some Dir \<or> deny ?tmp \<noteq> None")
    case True
    then show ?thesis unfolding write_and_rename_def abs_path_tmp Let_def w by auto
  next
    case False
    then have w: "write_file deny fs (abs_path ?tmp) code = (None, ?fs)" using w by simp
    have ok: "fs_ok ?fs"
      using False fs pl fs_ok_add [OF fs(1), of ?tmp] fs_ok_replace [OF fs(1), of ?tmp] by (cases "fs ?tmp") (auto simp: fs_place_def)
    have d: "?fs dir = Some Dir" "?fs ?tmp = Some (File code)" using fs(2) by simp_all
    note r = rename_entry [OF ok d(1) pl fs(3) d(2), of deny]
    have rm: "fs_remove kept ?fs (abs_path ?tmp) = (if kept ?tmp = None then fs(?tmp := None) else ?fs)"
      using walk_last [OF ok d(1) pl, of max_links False False] d(2) elements_abs [OF p]
      by (simp only: fs_remove_def) simp
    show ?thesis using False w r rm unfolding write_and_rename_def abs_path_tmp Let_def w
      by (auto simp del: fun_upd_apply simp: fun_upd_other split: option.splits)
  qed
qed

section \<open>An example\<close>

definition demo_sync :: sync_env where
  "demo_sync = \<lparr>sv_cwd = ''/'', sv_deny = (\<lambda>_. None), sv_kept = (\<lambda>_. None), sv_printable = (\<lambda>_. True), sv_decode = (\<lambda>_. None),
     sv_listing = (\<lambda>_ _. None), sv_glob = (\<lambda>_ _. []),
     sv_generator = (\<lambda>_. \<lparr>gn_Extension = ''.tf'', gn_Generate = (\<lambda>_. Inr ''# generated''), gn_ResourcesOnly = None\<rparr>),
     sv_parse = (\<lambda>_ _. None), sv_order = (\<lambda>fs. fs), sv_sync_program = (\<lambda>_ _ _. Inr ''// generated'')\<rparr>"

definition demo_body :: "string \<Rightarrow> sync_request" where
  "demo_body f = \<lparr>sq_Resources = [], sq_Code = Some ''x'', sq_File = f, sq_Edges = []\<rparr>"

definition demo_state :: "file_system \<Rightarrow> sync_state" where
  "demo_state fs = \<lparr>sy_fs = fs, sy_gate = (\<lambda>_. Some \<lparr>pd_reference = demo_reference, pd_createdAt = 5\<rparr>)\<rparr>"

section \<open>Properties\<close>

text \<open>C21: A sync request either changes nothing, or it only writes files that the path check of its
  project or program directory admits, with an extension of a tool, each through the path with
  \<open>.tmp\<close> at its end: a place of the file system changes only where such a file or its temporary file
  lies, or, when a link stands in place of the temporary file, where that link leads, which the check
  has not admitted. The plan of the project is dropped before, and for every tool but Pulumi
  the plans of the environments the files lie in; for Pulumi only that of the directory of the
  program is, so an environment a file of it lies in may keep its plan. Other plans stay as they are.\<close>

theorem sync_closes_the_gate:
  assumes "post_sync v s projects_dir name requested_tool env request = (reply, s')" "\<forall>fs. set (sv_order v fs) = set fs"
  shows "s' = s \<or> (\<exists>project base exts paths ws. safe_project_path (sv_cwd v) (sy_fs s) projects_dir name = Inr project
    \<and> sync_effect v base exts paths ws s s'
    \<and> (\<forall>q. sy_fs s' q = sy_fs s q \<or> q \<in> written_places (sv_deny v) (sv_kept v) (sy_fs s) ws)
    \<and> (\<forall>w \<in> set ws. path_ext (fst w) \<in> {''.ts'', ''.yml'', ''.yaml''} \<union> range (\<lambda>tool. gn_Extension (sv_generator v tool)))
    \<and> sy_gate s' project = None \<and> sy_gate s' base = None
    \<and> (\<forall>p. sy_gate s' p = sy_gate s p \<or> sy_gate s' p = None)
    \<and> (effective_project_tool (sv_decode v) (sv_cwd v) (sy_fs s) project requested_tool env \<noteq> ''pulumi'' \<longrightarrow>
        (\<forall>w \<in> set ws. \<forall>d. env_workdir_for_project_file project (fst w) = Some d \<longrightarrow> sy_gate s' d = None)))"
  using assms
proof (cases rule: post_sync_cases)
  case (2 project base target code)
  have "sy_fs s' q = sy_fs s q \<or> q \<in> written_places (sv_deny v) (sv_kept v) (sy_fs s) [(target, code)]" for q
    using effect_elsewhere [OF 2(3)] by blast
  moreover
  have "path_ext target \<in> set [''.ts'']" using 2(3) checked_extension unfolding sync_effect_def by fastforce
  ultimately show ?thesis using 2 by (intro disjI2 exI [of _ project] exI [of _ base] exI [of _ "[''.ts'']"] exI [of _ "[project, base]"]
      exI [of _ "[(target, code)]"]) (simp add: sync_effect_def invalidate_plan_at)
next
  case (3 project tool ts ws)
  let ?exts = "allowed_generated_extensions tool (gn_Extension (sv_generator v tool))"
  have e: "?exts \<noteq> []" "set ?exts \<subseteq> {''.ts'', ''.yml'', ''.yaml''} \<union> range (\<lambda>tool. gn_Extension (sv_generator v tool))"
    by (auto simp: allowed_generated_extensions_def)
  have g: "sy_gate s' p = (if p \<in> set (plan_invalidation_paths project ts) then None else sy_gate s p)" for p
    using 3(2) by (simp add: sync_effect_def invalidate_plan_at)
  have "path_ext (fst w) \<in> {''.ts'', ''.yml'', ''.yaml''} \<union> range (\<lambda>tool. gn_Extension (sv_generator v tool))" if "w \<in> set ws" for w
    using that 3(2) e checked_extension unfolding sync_effect_def by blast
  moreover have "sy_fs s' q = sy_fs s q \<or> q \<in> written_places (sv_deny v) (sv_kept v) (sy_fs s) ws" for q
    using effect_elsewhere [OF 3(2)] by blast
  moreover have "sy_gate s' d = None" if "w \<in> set ws" "env_workdir_for_project_file project (fst w) = Some d" for w d
    using that 3(3) g plan_invalidation_spec(2) [of "fst w" ts project d] by auto
  ultimately show ?thesis using 3(1,2) g plan_invalidation_spec(1) [of project ts]
    by (intro disjI2 exI [of _ project] exI [of _ ?exts] exI [of _ "plan_invalidation_paths project ts"] exI [of _ ws]) auto
qed simp

theorem sync_closes_the_gate_witness:
  "sy_gate (snd (post_sync demo_sync (demo_state demo_projects) ''/r'' ''a'' ''terraform'' [] (Some (demo_body ''n.tf'')))) ''/r/a'' = None"
proof -
  let ?p = "post_sync demo_sync (demo_state demo_projects) ''/r'' ''a'' ''terraform'' [] (Some (demo_body ''n.tf''))"
  have p: "?p = (fst ?p, snd ?p)" by (simp only: prod.collapse)
  have o: "\<forall>fs. set (sv_order demo_sync fs) = set fs" by (simp add: demo_sync_def)
  have "sy_fs (snd ?p) [''r'', ''a'', ''n.tf''] = Some (File ''x'')" by code_simp
  moreover have "sy_fs (demo_state demo_projects) [''r'', ''a'', ''n.tf''] = None" by code_simp
  moreover have "safe_project_path (sv_cwd demo_sync) (sy_fs (demo_state demo_projects)) ''/r'' ''a'' = Inr ''/r/a''" by code_simp
  ultimately show ?thesis using sync_closes_the_gate [OF p o] by (metis option.distinct(1) sum.inject(2))
qed

text \<open>C22: Syncing code into a file that the path check admits as \<open>dir/e\<close>, provided no link stands in place
  of its temporary file: on success the file has the code, no temporary file is left and nothing else
  changed; on failure the file is as it was and at most the temporary file changed, which is gone or
  holds the code or a part of it. With a link in that place the code overwrites what the link points to.\<close>

theorem code_sync_exact:
  assumes "fs_ok (sy_fs s)" "sy_fs s dir = Some Dir" "plain_element e" "\<forall>t. sy_fs s (dir @ [e @ ''.tmp'']) \<noteq> Some (Link t)"
    and "check_file v (sy_fs s) project (sync_target workdir env ext requested) exts = Inr (abs_path (dir @ [e]))"
  shows "case sync_code v s project workdir env ext exts requested code of (reply, s') \<Rightarrow>
    (case reply of
       Synced f c \<Rightarrow> c = code \<and> sy_fs s' = (sy_fs s)(dir @ [e @ ''.tmp''] := None, dir @ [e] := Some (File code))
     | WriteFailed x \<Rightarrow> sy_fs s' = sy_fs s \<or> sy_fs s' = (sy_fs s)(dir @ [e @ ''.tmp''] := None)
         \<or> (\<exists>n. sy_fs s' = (sy_fs s)(dir @ [e @ ''.tmp''] := Some (File (take n code))))
     | _ \<Rightarrow> False)
    \<and> sy_gate s' project = None"
proof -
  let ?gate = "invalidate_plan (sy_gate s) (plan_invalidation_paths project [abs_path (dir @ [e])])"
  have g: "?gate project = None" using plan_invalidation_spec(1) [of project "[abs_path (dir @ [e])]"]
    by (simp add: invalidate_plan_at)
  note w = write_and_rename_spec [OF assms(1-4), of "sv_deny v" "sv_kept v" code]
  show ?thesis unfolding sync_code_def assms(5) sum.case write_reply_def w Let_def
    using g by (auto split: option.split fs_error.split intro: exI [of _ "length code"])
qed

text \<open>A link in place of the temporary file is followed: the file it points to is overwritten, also
  outside of the project.\<close>

theorem code_sync_exact_witness:
  "sy_fs (snd (sync_code demo_sync (demo_state demo_projects) ''/r/a'' ''/r/a'' [] ''.tf'' [''.tf''] ''n.tf'' ''x''))
     [''r'', ''a'', ''n.tf''] = Some (File ''x'')
   \<and> sy_fs (snd (sync_code demo_sync (demo_state (demo_projects([''r'', ''a'', ''n.tf.tmp''] := Some (Link ''/new.tf''))))
       ''/r/a'' ''/r/a'' [] ''.tf'' [''.tf''] ''n.tf'' ''x'')) [''new.tf''] = Some (File ''x'')"
proof (intro conjI)
  let ?s = "demo_state demo_projects" and ?dir = "[''r'', ''a''] :: fs_path"
  let ?p = "sync_code demo_sync ?s ''/r/a'' ''/r/a'' [] ''.tf'' [''.tf''] ''n.tf'' ''x''"
  have fs: "sy_fs ?s = demo_projects" by (simp add: demo_state_def)
  have d: "sy_fs ?s ?dir = Some Dir" by code_simp
  have c: "check_file demo_sync (sy_fs ?s) ''/r/a'' (sync_target ''/r/a'' [] ''.tf'' ''n.tf'') [''.tf''] = Inr (abs_path (?dir @ [''n.tf'']))"
    by code_simp
  have t: "sy_fs ?s (?dir @ [''n.tf'' @ ''.tmp'']) = None" by code_simp
  have r: "fst ?p = Synced ''n.tf'' ''x''" by code_simp
  have "sy_fs (snd ?p) = (sy_fs ?s)(?dir @ [''n.tf'' @ ''.tmp''] := None, ?dir @ [''n.tf''] := Some (File ''x''))"
    using code_sync_exact [OF _ d _ _ c, of "''x''"] demo_projects_ok fs t r
    by (cases ?p) (simp add: plain_element_def)
  then show "sy_fs (snd ?p) [''r'', ''a'', ''n.tf''] = Some (File ''x'')" by simp
qed code_simp

text \<open>The program at the root of a Pulumi project may write a file of an environment; the plan of that
  environment stays in force.\<close>

lemma pulumi_keeps_environment_plan:
  "sy_gate (snd (post_sync demo_sync (demo_state (demo_projects([''r'', ''a'', ''Pulumi.yaml''] := Some (File []),
       [''r'', ''a'', ''environments''] := Some Dir, [''r'', ''a'', ''environments'', ''dev''] := Some Dir)))
     ''/r'' ''a'' ''pulumi'' [] (Some (demo_body ''environments/dev/index.ts'')))) ''/r/a/environments/dev''
   = Some \<lparr>pd_reference = demo_reference, pd_createdAt = 5\<rparr>
   \<and> sy_fs (snd (post_sync demo_sync (demo_state (demo_projects([''r'', ''a'', ''Pulumi.yaml''] := Some (File []),
       [''r'', ''a'', ''environments''] := Some Dir, [''r'', ''a'', ''environments'', ''dev''] := Some Dir)))
     ''/r'' ''a'' ''pulumi'' [] (Some (demo_body ''environments/dev/index.ts'')))) [''r'', ''a'', ''environments'', ''dev'', ''index.ts'']
   = Some (File ''x'')"
  by (intro conjI) code_simp+

end
