(* ===== verification/Airlock_Version.thy ===== *)
theory Airlock_Version
  imports Airlock_Redact
begin

text \<open>
  Version policies of the Airlock (\<open>internal/mcpairlock/version.go\<close>): constraints, the one version
  in the output of a probe, and their comparison. The module \<open>golang.org/x/mod/semver\<close> is outside:
  the record \<open>semver\<close> has its validity test and its comparison.
\<close>

record semver =
  sm_IsValid :: "string \<Rightarrow> bool"
  sm_Compare :: "string \<Rightarrow> string \<Rightarrow> int"

definition max_probe_output_bytes :: nat where "max_probe_output_bytes = 4096"

section \<open>Versions\<close>

definition digit_rx :: rx where
  "digit_rx = Cls (\<lambda>c. byte_in c 48 57)"

definition version_part_char :: "char \<Rightarrow> bool" where
  "version_part_char c \<longleftrightarrow> byte_in c 48 57 \<or> byte_in c 65 90 \<or> byte_in c 97 122 \<or> c = CHR ''.'' \<or> c = CHR ''-''"

definition semver_candidate :: rx where
  "semver_candidate = Seq (opt (lit ''v'')) (Seq (plus digit_rx) (Seq (lit ''.'') (Seq (plus digit_rx) (Seq (lit ''.'')
     (Seq (plus digit_rx) (Seq (opt (Seq (lit ''-'') (plus (Cls version_part_char))))
       (opt (Seq (lit ''+'') (plus (Cls version_part_char))))))))))"

definition strict_semver :: "string \<Rightarrow> bool" where
  "strict_semver s \<longleftrightarrow> rmatch (Seq semver_candidate EndText) s \<noteq> []"

datatype version_error =
    VersionRequired
  | VersionOperator
  | VersionInvalid
  | VersionNotFound
  | VersionAmbiguous
  | VersionOutputTooLarge

definition normalize_semantic_version :: "semver \<Rightarrow> string \<Rightarrow> version_error + string" where
  "normalize_semantic_version sm value0 =
     (let v = trim_space value0 in
      if \<not> strict_semver v then Inl VersionInvalid
      else
        let w = (if has_prefix v ''v'' then drop 1 v else v) in
        if \<not> sm_IsValid sm (''v'' @ w) then Inl VersionInvalid else Inr w)"

section \<open>Constraints\<close>

record version_policy =
  vp_operator :: string
  vp_required :: string

record version_evaluation =
  ve_Observed :: string
  ve_Required :: string
  ve_Operator :: string
  ve_Satisfied :: bool

definition parse_version_constraint :: "semver \<Rightarrow> string \<Rightarrow> version_error + version_policy" where
  "parse_version_constraint sm value0 =
     (let v = trim_space value0 in
      if v = [] then Inl VersionRequired
      else if \<not> has_prefix v ''>='' \<and> \<not> has_prefix v ''='' \<and> hd v \<in> set ''<>!~^'' then Inl VersionOperator
      else
        let (operator, required) =
          (if has_prefix v ''>='' then (''>='', trim_space (drop 2 v))
           else if has_prefix v ''='' then (''='', trim_space (drop 1 v))
           else (''='', v))
        in case normalize_semantic_version sm required of
             Inl e \<Rightarrow> Inl e
           | Inr version \<Rightarrow> Inr \<lparr>vp_operator = operator, vp_required = version\<rparr>)"

section \<open>The version in an output\<close>

text \<open>\<open>FindAllStringIndex\<close> for a pattern that matches no empty text.\<close>

function find_all_index :: "rx \<Rightarrow> nat \<Rightarrow> string \<Rightarrow> (nat \<times> nat) list" where
  "find_all_index r pos s =
     (case s of
        [] \<Rightarrow> []
      | c # u \<Rightarrow>
          (case rmatch r s of
             t # _ \<Rightarrow>
               if length t < length s
               then (pos, pos + (length s - length t)) # find_all_index r (pos + (length s - length t)) t
               else find_all_index r (Suc pos) u
           | [] \<Rightarrow> find_all_index r (Suc pos) u))"
  by pat_completeness auto
termination
  by (relation "measure (\<lambda>(r, pos, s). length s)") auto

declare find_all_index.simps [simp del]

definition semantic_version_byte :: "char \<Rightarrow> bool" where
  "semantic_version_byte c \<longleftrightarrow> byte_in c 65 90 \<or> byte_in c 97 122 \<or> byte_in c 48 57 \<or> c \<in> set ''._-+''"

definition has_semantic_version_boundaries :: "string \<Rightarrow> nat \<Rightarrow> nat \<Rightarrow> bool" where
  "has_semantic_version_boundaries output0 start stop \<longleftrightarrow>
     \<not> (0 < start \<and> semantic_version_byte (output0 ! (start - 1)))
     \<and> (length output0 \<le> stop \<or> \<not> semantic_version_byte (output0 ! stop))"

fun extract_loop :: "semver \<Rightarrow> string \<Rightarrow> string \<Rightarrow> (nat \<times> nat) list \<Rightarrow> version_error + string" where
  "extract_loop sm output0 observed [] = (if observed \<noteq> [] then Inr observed else Inl VersionNotFound)"
| "extract_loop sm output0 observed ((i, j) # bounds) =
     (if \<not> has_semantic_version_boundaries output0 i j then extract_loop sm output0 observed bounds
      else case normalize_semantic_version sm (take (j - i) (drop i output0)) of
        Inl _ \<Rightarrow> extract_loop sm output0 observed bounds
      | Inr version \<Rightarrow>
          if observed = [] then extract_loop sm output0 version bounds
          else if version \<noteq> observed then Inl VersionAmbiguous
          else extract_loop sm output0 observed bounds)"

definition extract_semantic_version :: "semver \<Rightarrow> string \<Rightarrow> version_error + string" where
  "extract_semantic_version sm output0 =
     (if max_probe_output_bytes < length output0 then Inl VersionOutputTooLarge
      else extract_loop sm output0 [] (find_all_index semver_candidate 0 output0))"

definition evaluate_version_constraint :: "semver \<Rightarrow> string \<Rightarrow> string \<Rightarrow> version_error + version_evaluation" where
  "evaluate_version_constraint sm output0 constraint =
     (case parse_version_constraint sm constraint of
        Inl e \<Rightarrow> Inl e
      | Inr policy \<Rightarrow>
          (case extract_semantic_version sm output0 of
             Inl e \<Rightarrow> Inl e
           | Inr observed \<Rightarrow>
               let comparison = sm_Compare sm (''v'' @ observed) (''v'' @ vp_required policy);
                   satisfied =
                     (if vp_operator policy = ''='' \<and> contains (vp_required policy) ''+'' then observed = vp_required policy
                      else if vp_operator policy = ''>='' then 0 \<le> comparison
                      else comparison = 0)
               in Inr \<lparr>ve_Observed = observed, ve_Required = vp_required policy, ve_Operator = vp_operator policy,
                    ve_Satisfied = satisfied\<rparr>))"

end
