(* ===== verification/Airlock_Registry.thy ===== *)
theory Airlock_Registry
  imports Airlock_Version Airlock_Inventory Tool_Call Crypto Go_Quote Go_Filepath
begin

text \<open>
  The registry of the Airlock (\<open>internal/mcpairlock/registry.go\<close>): definitions of servers and the
  overrides of the environment, the passive status, and the health check.

  What the host gives at an instant is a record: the working directory, \<open>exec.LookPath\<close>, the regular
  file at a path if it can be read, and the probe of a command. Lengths are in bytes. The checks of a status are
  kept in order; the pointer to a fingerprint is an option.
\<close>

section \<open>Fingerprints and statuses\<close>

record executable_fingerprint =
  ef_Algorithm :: string
  ef_Digest :: string

record probe_result =
  pbr_Output :: string
  pbr_OutputOverflow :: bool
  pbr_Err :: "string option"
  pbr_TimedOut :: bool

record server_status =
  sst_Server :: server_definition
  sst_ExecutableFingerprint :: "executable_fingerprint option"
  sst_ExecutableAttestation :: string
  sst_Ready :: bool
  sst_Running :: bool
  sst_Configured :: bool
  sst_CommandAvailable :: bool
  sst_State :: string
  sst_Summary :: string
  sst_Checks :: "check list"
  sst_CheckedAt :: string
  sst_StartedAt :: string
  sst_LastExitAt :: string
  sst_LastExitReason :: string
  sst_ObservedVersion :: string

definition LaunchSourceRegistry :: string where "LaunchSourceRegistry = ''registry''"
definition LaunchSourceExplicitDefinition :: string where "LaunchSourceExplicitDefinition = ''explicit_definition''"
definition LaunchSourceEnvironmentOverride :: string where "LaunchSourceEnvironmentOverride = ''environment_override''"

definition mk_check :: "string \<Rightarrow> string \<Rightarrow> string \<Rightarrow> check" where
  "mk_check name status message = \<lparr>ck_Name = name, ck_Status = status, ck_Message = message\<rparr>"

definition add_check :: "check \<Rightarrow> server_status \<Rightarrow> server_status" where
  "add_check c s = s\<lparr>sst_Checks := sst_Checks s @ [c]\<rparr>"

definition set_state :: "string \<Rightarrow> string \<Rightarrow> server_status \<Rightarrow> server_status" where
  "set_state state summary s = s\<lparr>sst_State := state, sst_Summary := summary\<rparr>"

section \<open>Definitions\<close>

function go_fields :: "string \<Rightarrow> string \<Rightarrow> string list" where
  "go_fields acc s =
     (case s of
        [] \<Rightarrow> if acc = [] then [] else [acc]
      | c # t \<Rightarrow>
          if trim_left s \<noteq> s then (if acc = [] then [] else [acc]) @ go_fields [] (trim_left s)
          else go_fields (acc @ [c]) t)"
  by pat_completeness auto
termination
proof (relation "measure (\<lambda>(acc, s). length s)")
  fix acc s :: string and c t
  assume "s = c # t" "trim_left s \<noteq> s"
  moreover obtain zs where "s = zs @ trim_left s" using trim_left_suffix by (metis suffixE)
  ultimately have "length (trim_left s) < length s"
    by (metis append_self_conv2 length_append length_greater_0_conv less_add_same_cancel2)
  then show "(([], trim_left s), acc, s) \<in> measure (\<lambda>(acc, s). length s)" by simp
qed auto

declare go_fields.simps [simp del]

definition split_env_args :: "string \<Rightarrow> string list" where
  "split_env_args v0 = (let v = trim_space v0 in if v = [] then [] else go_fields [] v)"

definition env_prefix :: "string \<Rightarrow> string" where
  "env_prefix i = ''IAC_STUDIO_MCP_'' @ to_upper (map (\<lambda>c. if c = CHR ''-'' then CHR ''_'' else c) i)"

definition apply_env_overrides :: "(string \<Rightarrow> string) \<Rightarrow> server_definition \<Rightarrow> server_definition" where
  "apply_env_overrides getenv d =
     (let pre = env_prefix (sd_ID d);
          command = trim_space (getenv (pre @ ''_COMMAND''));
          args = split_env_args (getenv (pre @ ''_ARGS''));
          health = split_env_args (getenv (pre @ ''_HEALTH_ARGS''));
          d1 = (if command \<noteq> [] then d\<lparr>sd_Command := command\<rparr> else d);
          d2 = (if args \<noteq> [] then d1\<lparr>sd_Args := args\<rparr> else d1);
          d3 = (if health \<noteq> [] then d2\<lparr>sd_HealthCheckArgs := health\<rparr> else d2)
      in if command \<noteq> [] \<or> args \<noteq> [] \<or> health \<noteq> []
         then d3\<lparr>sd_LaunchSource := LaunchSourceEnvironmentOverride, sd_Trusted := False, sd_PackageSource := []\<rparr>
         else d3)"

definition normalize_definition :: "(string \<Rightarrow> string) \<Rightarrow> server_definition \<Rightarrow> server_definition" where
  "normalize_definition getenv d =
     (let d1 = apply_env_overrides getenv
                 (d\<lparr>sd_ID := trim_space (sd_ID d), sd_Command := trim_space (sd_Command d),
                    sd_PackageSource := trim_space (sd_PackageSource d),
                    sd_VersionConstraint := trim_space (sd_VersionConstraint d)\<rparr>);
          d2 = (if sd_LaunchSource d1 = [] then d1\<lparr>sd_LaunchSource := LaunchSourceExplicitDefinition\<rparr> else d1);
          d3 = (if sd_Transport d2 = [] then d2\<lparr>sd_Transport := ''stdio''\<rparr> else d2)
      in if sd_CredentialMode d3 = [] then d3\<lparr>sd_CredentialMode := ''none''\<rparr> else d3)"

definition normalize_definitions :: "(string \<Rightarrow> string) \<Rightarrow> server_definition list \<Rightarrow> server_definition list" where
  "normalize_definitions getenv ds = sort_key sd_ID (map (normalize_definition getenv) ds)"

definition builtin_definitions :: "server_definition list" where
  "builtin_definitions =
    [\<lparr>sd_ID = ''aws-official'', sd_Name = ''AWS MCP Server'', sd_Vendor = ''AWS'',
      sd_Description = ''Official AWS MCP entry point for cloud inventory and operational context.'',
      sd_SourceURL = ''https://github.com/awslabs/mcp'', sd_PackageSource = ''pkg:github/awslabs/mcp'',
      sd_DocsURL = ''https://github.com/awslabs/mcp'',
      sd_InstallHint = ''Install the official AWS MCP server locally. Environment command and argument overrides remain blocked until executable attestation is configured.'',
      sd_Transport = ''stdio'', sd_Command = [], sd_LaunchSource = LaunchSourceRegistry, sd_Args = [],
      sd_HealthCheckArgs = [], sd_VersionConstraint = [], sd_Trusted = True, sd_ReadOnlyDefault = True,
      sd_CredentialMode = ''none'',
      sd_Capabilities = [''aws inventory context'', ''documentation lookup'', ''read-only operational review'']\<rparr>,
     \<lparr>sd_ID = ''terraform-official'', sd_Name = ''Terraform MCP Server'', sd_Vendor = ''HashiCorp'',
      sd_Description = ''Official Terraform MCP server for registry, module, provider, and Terraform workflow context.'',
      sd_SourceURL = ''https://github.com/hashicorp/terraform-mcp-server'',
      sd_PackageSource = ''pkg:github/hashicorp/terraform-mcp-server'',
      sd_DocsURL = ''https://developer.hashicorp.com/terraform/mcp-server'',
      sd_InstallHint = ''Install terraform-mcp-server v1.0.0 or newer on PATH. Environment command and argument overrides remain blocked until executable attestation is configured.'',
      sd_Transport = ''stdio'', sd_Command = ''terraform-mcp-server'', sd_LaunchSource = LaunchSourceRegistry,
      sd_Args = [], sd_HealthCheckArgs = [''--version''], sd_VersionConstraint = ''>= 1.0.0'', sd_Trusted = True,
      sd_ReadOnlyDefault = True, sd_CredentialMode = ''none'',
      sd_Capabilities = [''terraform registry'', ''module discovery'', ''provider documentation'', ''read-only plan review'']\<rparr>]"

section \<open>Commands\<close>

definition is_absolute_command_path :: "string \<Rightarrow> bool" where
  "is_absolute_command_path command \<longleftrightarrow>
     path_is_abs command
     \<or> 3 \<le> length command \<and> (byte_in (command ! 0) 65 90 \<or> byte_in (command ! 0) 97 122) \<and> command ! 1 = CHR '':''
       \<and> (command ! 2 = CHR 0x5C \<or> command ! 2 = CHR ''/'')
     \<or> has_prefix command [CHR 0x5C, CHR 0x5C]"

definition command_metacharacters :: string where
  "command_metacharacters = [CHR 0x00, CHR 0x0D, CHR 0x0A, CHR 0x09] @ ''|&;<>'' @ [CHR 0x60, CHR ''$'']"

datatype launch_command_error = CommandRequired | CommandMetacharacters string | CommandSpaces string

definition validate_command :: "string \<Rightarrow> launch_command_error option" where
  "validate_command command =
     (if command = [] then Some CommandRequired
      else if list_ex (\<lambda>c. c \<in> set command_metacharacters) command then Some (CommandMetacharacters command)
      else if CHR '' '' \<in> set command \<and> \<not> is_absolute_command_path command then Some (CommandSpaces command)
      else None)"

definition launch_command_error_text :: "(nat \<Rightarrow> bool) \<Rightarrow> launch_command_error \<Rightarrow> string" where
  "launch_command_error_text printable e =
     (case e of
        CommandRequired \<Rightarrow> ''command is required''
      | CommandMetacharacters c \<Rightarrow> ''command '' @ go_quote printable c @ '' must not contain control characters or shell metacharacters''
      | CommandSpaces c \<Rightarrow> ''command '' @ go_quote printable c
          @ '' contains spaces; use an absolute executable path or put arguments in IAC_STUDIO_MCP_*_ARGS'')"

section \<open>The host\<close>

record host =
  ho_Cwd :: string
  ho_LookPath :: "string \<Rightarrow> string option"
  ho_File :: "string \<Rightarrow> string option"
  ho_Probe :: "string \<Rightarrow> string list \<Rightarrow> probe_result"

definition resolve_executable :: "host \<Rightarrow> string \<Rightarrow> string option" where
  "resolve_executable h command = map_option (path_abs (ho_Cwd h)) (ho_LookPath h command)"

definition max_executable_fingerprint_bytes :: nat where
  "max_executable_fingerprint_bytes = 536870912"

definition fingerprint_executable :: "(string \<Rightarrow> string option) \<Rightarrow> string \<Rightarrow> executable_fingerprint option" where
  "fingerprint_executable files path =
     (case files path of
        None \<Rightarrow> None
      | Some content \<Rightarrow>
          if max_executable_fingerprint_bytes < length content then None
          else Some \<lparr>ef_Algorithm = ''sha256'', ef_Digest = hex_encode (sha256 content)\<rparr>)"

text \<open>The bounded buffer behind a probe's standard output and error: \<open>Write\<close> on the kept bytes and the flag.\<close>

definition bounded_write :: "nat \<Rightarrow> string \<times> bool \<Rightarrow> string \<Rightarrow> string \<times> bool" where
  "bounded_write limit b value =
     (case b of (data, overflow) \<Rightarrow>
        let remaining = limit - length data in (data @ take remaining value, overflow \<or> remaining < length value))"

lemma bounded_writes:
  "foldl (bounded_write limit) ([], False) vs =
     (take limit (concat vs), limit < length (concat vs))"
proof (induction vs rule: rev_induct)
  case (snoc v us)
  then show ?case by (auto simp: bounded_write_def Let_def min_def)
qed simp

text \<open>\<open>minimalEnv\<close>: no variable of a cloud provider is passed on.\<close>

definition probe_env :: "bool \<Rightarrow> (string \<Rightarrow> string) \<Rightarrow> string list" where
  "probe_env windows getenv =
     (if getenv ''PATH'' \<noteq> [] then [''PATH='' @ getenv ''PATH''] else [])
     @ (if windows then map (\<lambda>k. k @ ''='' @ getenv k) (filter (\<lambda>k. getenv k \<noteq> []) [''SystemRoot'', ''WINDIR'']) else [])"

section \<open>The passive status\<close>

definition initial_status :: "server_definition \<Rightarrow> server_status" where
  "initial_status d =
     \<lparr>sst_Server = d, sst_ExecutableFingerprint = None, sst_ExecutableAttestation = [], sst_Ready = False, sst_Running = False,
      sst_Configured = False, sst_CommandAvailable = False, sst_State = ''available'',
      sst_Summary = ''Command is configured and available. Run a health check before routing an agent to it.'',
      sst_Checks = [mk_check ''credential_scope'' ''pass'' ''Airlock health checks do not forward cloud credentials'',
        (if sd_LaunchSource d = LaunchSourceEnvironmentOverride
         then mk_check ''launch_provenance'' ''error'' ''environment launch overrides do not inherit registry trust''
         else mk_check ''launch_provenance'' ''pass'' (''launch source is '' @ sd_LaunchSource d))],
      sst_CheckedAt = [], sst_StartedAt = [], sst_LastExitAt = [], sst_LastExitReason = [], sst_ObservedVersion = []\<rparr>"

definition passive_command :: "(nat \<Rightarrow> bool) \<Rightarrow> (string \<Rightarrow> string option) \<Rightarrow> server_definition \<Rightarrow> server_status \<Rightarrow> server_status" where
  "passive_command printable look_path d s =
     (let command = trim_space (sd_Command d) in
      if command = [] then
        add_check (mk_check ''command'' ''warn'' ''configure a command before launching this server'')
          (set_state ''not_configured'' ''No local command is configured for this MCP server.'' (s\<lparr>sst_Configured := False\<rparr>))
      else
        let s1 = s\<lparr>sst_Configured := True\<rparr> in
        case validate_command command of
          Some e \<Rightarrow> add_check (mk_check ''command'' ''error'' (launch_command_error_text printable e))
            (set_state ''invalid_config'' ''Configured command is invalid.'' s1)
        | None \<Rightarrow>
            if look_path command = None then
              add_check (mk_check ''command'' ''error'' ''command is not installed or not on PATH'')
                (set_state ''command_missing'' ''Configured command was not found on PATH.'' s1)
            else add_check (mk_check ''command'' ''pass'' ''command is available on PATH'') (s1\<lparr>sst_CommandAvailable := True\<rparr>))"

definition passive_status :: "semver \<Rightarrow> (nat \<Rightarrow> bool) \<Rightarrow> (string \<Rightarrow> string option) \<Rightarrow> server_definition \<Rightarrow> server_status" where
  "passive_status sm printable look_path d =
     (let s = initial_status d in
      if \<not> sd_Trusted d then
        add_check (mk_check ''trusted_registry'' ''error'' ''definition is not trusted'')
          (set_state ''blocked''
             (if sd_LaunchSource d = LaunchSourceEnvironmentOverride
              then ''Launch override is blocked until its executable and arguments are explicitly attested.''
              else ''Server is not marked trusted.'') s)
      else
        let s1 = add_check (mk_check ''trusted_registry'' ''pass'' (''server is in IaC Studio'' @ [CHR 0x27] @ ''s trusted MCP Airlock registry'')) s;
            s2 = add_check (if \<not> sd_ReadOnlyDefault d
                            then mk_check ''default_mode'' ''warn'' ''server is not read-only by default''
                            else mk_check ''default_mode'' ''pass'' ''server starts in read-only review mode'') s1
        in if sd_VersionConstraint d \<noteq> [] \<and> \<not> is_ok (parse_version_constraint sm (sd_VersionConstraint d)) then
             add_check (mk_check ''version_policy'' ''error'' ''version constraint must be an exact semantic version or a >= minimum'')
               (set_state ''invalid_config'' ''Configured MCP version policy is invalid.'' s2)
           else if sd_Transport d \<noteq> ''stdio'' then
             add_check (mk_check ''transport'' ''error'' (''unsupported transport: '' @ sd_Transport d))
               (set_state ''unsupported_transport'' ''Only stdio MCP servers are supported by this Airlock launcher.'' s2)
           else passive_command printable look_path d s2)"

end
