(* ===== verification/Airlock_Attest.thy ===== *)
theory Airlock_Attest
  imports Airlock_Registry Go_Map
begin

text \<open>
  The approvals of executables: the durable store of \<open>internal/mcpairlock/attestations.go\<close> and
  \<open>ApproveExecutable\<close> of \<open>approval.go\<close>.

  The disk is the state of the private directory and of the file, as \<open>Lstat\<close> and the JSON decoder
  find them: \<open>AttFault\<close> is a failing \<open>Lstat\<close>, \<open>AttIrregular\<close> a link or no regular file, \<open>AttUnreadable\<close>
  a regular file that cannot be opened or secured, \<open>AttUndecodable\<close> one over a mebibyte, no JSON of the
  snapshot's fields, or with trailing data. The \<open>attestations\<close> of a snapshot are \<open>None\<close> when they are
  absent or null. Whether an encoded snapshot exceeds the limit is the argument \<open>too_large\<close>.
  The zero time is 0. The wrapped error texts are kept as far as they select an answer.
\<close>

section \<open>Data\<close>

record attestation =
  at_ServerID :: string
  at_LaunchSource :: string
  at_Fingerprint :: executable_fingerprint
  at_ApprovedAt :: go_time

type_synonym attestation_key = "string \<times> string"
type_synonym attestations = "(attestation_key \<times> attestation) list"

datatype dir_state = DirMissing | DirPrivate | DirLink | DirNotDir | DirFault string
datatype attest_file =
    AttMissing
  | AttFault string
  | AttIrregular
  | AttUnreadable string
  | AttUndecodable
  | AttSnapshot int "attestation list option"

record attest_disk =
  ad_dir :: dir_state
  ad_file :: attest_file

datatype attest_error =
    ErrAttestationStorePathRequired
  | ErrInvalidAttestationStore string
  | ErrAttestIO string

record attest_store =
  ats_path :: string
  ats_attestations :: attestations

definition attestation_store_version :: int where "attestation_store_version = 1"
definition max_executable_attestations :: nat where "max_executable_attestations = 1024"
definition executable_digest_byte_length :: nat where "executable_digest_byte_length = 32"

definition AttestationApproved :: string where "AttestationApproved = ''approved''"
definition AttestationApprovalRequired :: string where "AttestationApprovalRequired = ''approval_required''"
definition AttestationChanged :: string where "AttestationChanged = ''executable_changed''"

lemma verdicts_distinct [simp]:
  "AttestationApproved \<noteq> AttestationApprovalRequired" "AttestationApproved \<noteq> AttestationChanged"
  "AttestationApprovalRequired \<noteq> AttestationApproved" "AttestationChanged \<noteq> AttestationApproved"
  "AttestationApprovalRequired \<noteq> AttestationChanged" "AttestationChanged \<noteq> AttestationApprovalRequired"
  by (simp_all add: AttestationApproved_def AttestationApprovalRequired_def AttestationChanged_def)

section \<open>Validation\<close>

datatype fingerprint_error = UnsupportedAlgorithm | MalformedDigest

definition validate_executable_fingerprint :: "executable_fingerprint \<Rightarrow> fingerprint_error option" where
  "validate_executable_fingerprint f =
     (if ef_Algorithm f \<noteq> ''sha256'' then Some UnsupportedAlgorithm
      else if length (ef_Digest f) \<noteq> 2 * executable_digest_byte_length \<or> ef_Digest f \<noteq> to_lower (ef_Digest f)
        then Some MalformedDigest
      else if \<not> hex_decodes (ef_Digest f) \<or> length (ef_Digest f) div 2 \<noteq> executable_digest_byte_length
        then Some MalformedDigest
      else None)"

definition validate_attestation :: "attestation \<Rightarrow> attest_error option" where
  "validate_attestation a =
     (if validate_tool_call_identifier ''server_id'' (at_ServerID a) False \<noteq> None
        then Some (ErrInvalidAttestationStore ''server_id'')
      else if at_LaunchSource a \<notin> {LaunchSourceRegistry, LaunchSourceExplicitDefinition, LaunchSourceEnvironmentOverride}
        then Some (ErrInvalidAttestationStore ''unsupported launch source'')
      else if validate_executable_fingerprint (at_Fingerprint a) \<noteq> None
        then Some (ErrInvalidAttestationStore ''fingerprint'')
      else if at_ApprovedAt a = 0 then Some (ErrInvalidAttestationStore ''approval timestamp is required'')
      else None)"

definition attestation_key_of :: "attestation \<Rightarrow> attestation_key" where
  "attestation_key_of a = (at_ServerID a, at_LaunchSource a)"

section \<open>Loading\<close>

definition secure_existing_dir :: "bool \<Rightarrow> dir_state \<Rightarrow> attest_error option" where
  "secure_existing_dir missing_ok d =
     (case d of
        DirMissing \<Rightarrow> if missing_ok then None else Some (ErrAttestIO ''inspect MCP attestation directory'')
      | DirPrivate \<Rightarrow> None
      | DirLink \<Rightarrow> Some (ErrInvalidAttestationStore [])
      | DirNotDir \<Rightarrow> Some (ErrInvalidAttestationStore [])
      | DirFault e \<Rightarrow> Some (ErrAttestIO e))"

fun load_attestation_entries :: "attestations \<Rightarrow> attestation list \<Rightarrow> attest_error + attestations" where
  "load_attestation_entries m [] = Inr m"
| "load_attestation_entries m (a # as) =
     (case validate_attestation a of
        Some _ \<Rightarrow> Inl (ErrInvalidAttestationStore ''attestation'')
      | None \<Rightarrow>
          if map_of m (attestation_key_of a) \<noteq> None
            then Inl (ErrInvalidAttestationStore ''duplicate server and launch source'')
          else load_attestation_entries (AList.update (attestation_key_of a) a m) as)"

definition load_attestations :: "attest_disk \<Rightarrow> attest_error + attestations" where
  "load_attestations disk =
     (case secure_existing_dir True (ad_dir disk) of
        Some e \<Rightarrow> Inl e
      | None \<Rightarrow>
          (case ad_file disk of
             AttMissing \<Rightarrow> Inr []
           | AttFault e \<Rightarrow> Inl (ErrAttestIO e)
           | AttIrregular \<Rightarrow> Inl (ErrInvalidAttestationStore [])
           | AttUnreadable e \<Rightarrow> Inl (ErrAttestIO e)
           | AttUndecodable \<Rightarrow> Inl (ErrInvalidAttestationStore ''decode snapshot'')
           | AttSnapshot version list \<Rightarrow>
               if version \<noteq> attestation_store_version then Inl (ErrInvalidAttestationStore ''unsupported version'')
               else (case list of
                   None \<Rightarrow> Inl (ErrInvalidAttestationStore ''attestations must be an array'')
                 | Some as \<Rightarrow>
                     if max_executable_attestations < length as
                       then Inl (ErrInvalidAttestationStore ''too many attestations'')
                     else load_attestation_entries [] as)))"

definition new_attestation_store :: "attest_disk \<Rightarrow> string \<Rightarrow> attest_error + attest_store" where
  "new_attestation_store disk projects_dir =
     (if trim_space projects_dir = [] then Inl ErrAttestationStorePathRequired
      else case load_attestations disk of
        Inl e \<Rightarrow> Inl e
      | Inr m \<Rightarrow> Inr \<lparr>ats_path = path_join [path_clean projects_dir, ''.iac-studio'', ''mcp-airlock-attestations.json''],
                      ats_attestations = m\<rparr>)"

section \<open>Saving\<close>

text \<open>What fails of the host's part of a save, if anything. The disk is the kind of the directory and the
  file in it; access modes and temporary files are not part of it.\<close>

datatype persist_fault = NoFault | MkdirFails string | ReplaceFails string

definition ensure_private_dir :: "persist_fault \<Rightarrow> dir_state \<Rightarrow> dir_state \<times> attest_error option" where
  "ensure_private_dir fault d =
     (if d = DirMissing then
        (case fault of MkdirFails e \<Rightarrow> (d, Some (ErrAttestIO e)) | _ \<Rightarrow> (DirPrivate, secure_existing_dir False DirPrivate))
      else if d = DirNotDir then (d, Some (ErrAttestIO ''create MCP attestation directory''))
      else (d, secure_existing_dir False d))"

definition attestation_snapshot :: "attestations \<Rightarrow> attest_file" where
  "attestation_snapshot m = AttSnapshot attestation_store_version
     (Some (map snd (sort_key (\<lambda>(k, a). (at_ServerID a, at_LaunchSource a)) m)))"

definition persist_attestations ::
  "(attest_file \<Rightarrow> bool) \<Rightarrow> persist_fault \<Rightarrow> attestations \<Rightarrow> attest_disk \<Rightarrow> attest_disk \<times> attest_error option" where
  "persist_attestations too_large fault m disk =
     (let snapshot = attestation_snapshot m in
      if too_large snapshot then (disk, Some (ErrInvalidAttestationStore ''snapshot exceeds size limit''))
      else case ensure_private_dir fault (ad_dir disk) of
        (dir, Some e) \<Rightarrow> (disk\<lparr>ad_dir := dir\<rparr>, Some e)
      | (dir, None) \<Rightarrow>
          let made = disk\<lparr>ad_dir := dir\<rparr> in
          (case ad_file disk of
             AttFault e \<Rightarrow> (made, Some (ErrAttestIO e))
           | AttIrregular \<Rightarrow> (made, Some (ErrInvalidAttestationStore []))
           | _ \<Rightarrow>
               (case fault of
                  ReplaceFails e \<Rightarrow> (made, Some (ErrAttestIO e))
                | _ \<Rightarrow> (made\<lparr>ad_file := snapshot\<rparr>, None))))"

text \<open>\<open>Save\<close> reads the file again (\<open>disk1\<close>) and later replaces it (\<open>disk2\<close>): the mutex is the store's,
  and every request opens a store of its own.\<close>

definition attestation_save ::
  "(attest_file \<Rightarrow> bool) \<Rightarrow> persist_fault \<Rightarrow> attest_store \<Rightarrow> attest_disk \<Rightarrow> attest_disk \<Rightarrow> attestation \<Rightarrow>
   attest_store \<times> attest_disk \<times> attest_error option" where
  "attestation_save too_large fault st disk1 disk2 a =
     (if trim_space (ats_path st) = [] then (st, disk2, Some ErrAttestationStorePathRequired)
      else case validate_attestation a of
        Some e \<Rightarrow> (st, disk2, Some e)
      | None \<Rightarrow>
          (case load_attestations disk1 of
             Inl e \<Rightarrow> (st, disk2, Some e)
           | Inr current \<Rightarrow>
               if \<not> maps_equal current (ats_attestations st)
                 then (st, disk2, Some (ErrInvalidAttestationStore ''store changed since it was loaded''))
               else if map_of current (attestation_key_of a) = None \<and> max_executable_attestations \<le> length current
                 then (st, disk2, Some (ErrInvalidAttestationStore ''too many attestations''))
               else
                 let next = AList.update (attestation_key_of a) a current in
                 (case persist_attestations too_large fault next disk2 of
                    (disk', Some e) \<Rightarrow> (st, disk', Some e)
                  | (disk', None) \<Rightarrow> (st\<lparr>ats_attestations := next\<rparr>, disk', None))))"

section \<open>Reading\<close>

definition attestation_get :: "attest_store \<Rightarrow> string \<Rightarrow> string \<Rightarrow> attestation option" where
  "attestation_get st server source = map_of (ats_attestations st) (server, source)"

definition attestation_verdict :: "attest_store \<Rightarrow> string \<Rightarrow> string \<Rightarrow> executable_fingerprint \<Rightarrow> string" where
  "attestation_verdict st server source f =
     (case attestation_get st server source of
        None \<Rightarrow> AttestationApprovalRequired
      | Some a \<Rightarrow> if at_Fingerprint a \<noteq> f then AttestationChanged else AttestationApproved)"

definition executable_attestation_status ::
  "string \<Rightarrow> attest_disk \<Rightarrow> server_definition \<Rightarrow> executable_fingerprint \<Rightarrow> string \<times> check" where
  "executable_attestation_status projects_dir disk d f =
     (let ck = mk_check ''executable_attestation'' in
      if trim_space projects_dir = [] then
        (AttestationApprovalRequired, ck ''warn'' ''executable approvals are unavailable without a projects directory'')
      else case new_attestation_store disk projects_dir of
        Inl _ \<Rightarrow> (AttestationApprovalRequired, ck ''error'' ''executable approval could not be verified'')
      | Inr st \<Rightarrow>
          let verdict = attestation_verdict st (sd_ID d) (sd_LaunchSource d) f in
          (verdict,
           (if verdict = AttestationApproved
            then ck ''pass'' ''executable matches the approved fingerprint for this launch source''
            else if verdict = AttestationChanged then ck ''error'' ''executable fingerprint changed after approval''
            else ck ''warn'' ''executable has not been approved for this launch source'')))"

section \<open>Approving\<close>

datatype approval_error =
    ApproveContext string
  | ApproveUnknownServer
  | ApproveInvalidFingerprint fingerprint_error
  | ApproveUnavailable string
  | ApproveMismatch

definition same_fingerprint :: "executable_fingerprint \<Rightarrow> executable_fingerprint \<Rightarrow> bool" where
  "same_fingerprint e f \<longleftrightarrow> ef_Algorithm e = ef_Algorithm f \<and> ef_Digest e = ef_Digest f"

lemma same_fingerprint_eq: "same_fingerprint e f \<longleftrightarrow> e = f"
  by (auto simp: same_fingerprint_def)

definition approval_persistence_error :: "attest_error \<Rightarrow> approval_error" where
  "approval_persistence_error e = ApproveUnavailable
     (case e of
        ErrAttestationStorePathRequired \<Rightarrow> ''approval storage is not configured''
      | ErrInvalidAttestationStore _ \<Rightarrow> ''approval store is invalid, changed, or full''
      | ErrAttestIO _ \<Rightarrow> ''approval storage write failed'')"

text \<open>The requests see the host and the disk at instants of their own: \<open>hs 0\<close> the passive status, \<open>hs 1\<close> the
  resolution, \<open>hs 2\<close> the hash; \<open>ds 0\<close> the opening of the store, \<open>ds 1\<close> and \<open>ds 2\<close> its \<open>Save\<close>.\<close>

definition approve_executable ::
  "semver \<Rightarrow> (nat \<Rightarrow> bool) \<Rightarrow> (attest_file \<Rightarrow> bool) \<Rightarrow> persist_fault \<Rightarrow> server_definition list \<Rightarrow> string \<Rightarrow>
   (nat \<Rightarrow> string option) \<Rightarrow> (nat \<Rightarrow> host) \<Rightarrow> (nat \<Rightarrow> attest_disk) \<Rightarrow> go_time \<Rightarrow> string \<Rightarrow> executable_fingerprint \<Rightarrow>
   attest_disk \<times> (approval_error + attestation)" where
  "approve_executable sm printable too_large fault definitions projects_dir ctx hs ds now i expected =
     (case ctx 0 of Some e \<Rightarrow> (ds 2, Inl (ApproveContext e)) | None \<Rightarrow>
      case find (\<lambda>d. sd_ID d = trim_space i) definitions of None \<Rightarrow> (ds 2, Inl ApproveUnknownServer) | Some d \<Rightarrow>
      case validate_executable_fingerprint expected of
        Some e \<Rightarrow> (ds 2, Inl (ApproveInvalidFingerprint e))
      | None \<Rightarrow>
      let s = passive_status sm printable (ho_LookPath (hs 0)) d in
      if sst_State s \<noteq> ''available'' then (ds 2, Inl (ApproveUnavailable (''server is '' @ sst_State s)))
      else case resolve_executable (hs 1) (sd_Command d) of
        None \<Rightarrow> (ds 2, Inl (ApproveUnavailable ''executable identity is unavailable''))
      | Some path \<Rightarrow>
      case fingerprint_executable (ho_File (hs 2)) path of
        None \<Rightarrow> (ds 2, Inl (ApproveUnavailable ''executable identity is unavailable''))
      | Some f \<Rightarrow>
      case ctx 1 of Some e \<Rightarrow> (ds 2, Inl (ApproveContext e)) | None \<Rightarrow>
      if \<not> same_fingerprint expected f then (ds 2, Inl ApproveMismatch)
      else case new_attestation_store (ds 0) projects_dir of
        Inl _ \<Rightarrow> (ds 2, Inl (ApproveUnavailable ''approval storage is unavailable''))
      | Inr st \<Rightarrow>
      let a = \<lparr>at_ServerID = sd_ID d, at_LaunchSource = sd_LaunchSource d, at_Fingerprint = f, at_ApprovedAt = now\<rparr> in
      case attestation_save too_large fault st (ds 1) (ds 2) a of
        (_, disk', Some e) \<Rightarrow> (disk', Inl (approval_persistence_error e))
      | (_, disk', None) \<Rightarrow> (disk', Inr a))"

section \<open>The store\<close>

text \<open>The texts of a valid attestation are ASCII, so that the file keeps them as they are.\<close>

lemma attestation_texts_utf8:
  assumes "validate_attestation a = None"
  shows "list_all utf8_valid [at_ServerID a, at_LaunchSource a, ef_Algorithm (at_Fingerprint a), ef_Digest (at_Fingerprint a)]"
proof -
  have i: "is_ascii c" if "identifier_char False c" for c
    using that by (auto simp: identifier_char_def is_ascii_def ascii_letter_def byte_in_def Let_def)
  have "list_all is_ascii (at_ServerID a)"
    using assms i by (auto simp: validate_attestation_def validate_tool_call_identifier_def list_all_iff split: if_splits)
  moreover have "list_all is_ascii (at_LaunchSource a)"
    using assms by (auto simp: validate_attestation_def LaunchSourceRegistry_def LaunchSourceExplicitDefinition_def
        LaunchSourceEnvironmentOverride_def is_ascii_def split: if_splits)
  moreover have "list_all is_ascii (ef_Algorithm (at_Fingerprint a))" "hex_decodes (ef_Digest (at_Fingerprint a))"
    using assms by (auto simp: validate_attestation_def validate_executable_fingerprint_def is_ascii_def split: if_splits)
  moreover from this(2) have "list_all is_ascii (ef_Digest (at_Fingerprint a))"
    by (auto simp: hex_decodes_def list_all_iff is_hex_def is_ascii_def Let_def)
  ultimately show ?thesis by (simp add: utf8_valid_ascii)
qed

definition attestations_ok :: "attestations \<Rightarrow> bool" where
  "attestations_ok m \<longleftrightarrow> distinct (map fst m) \<and> list_all (\<lambda>(k, a). k = attestation_key_of a \<and> validate_attestation a = None) m
     \<and> length m \<le> max_executable_attestations"

lemma load_attestation_entries_Inr:
  "load_attestation_entries m as = Inr m' \<longleftrightarrow>
     m' = m @ map (\<lambda>a. (attestation_key_of a, a)) as \<and> list_all (\<lambda>a. validate_attestation a = None) as
     \<and> distinct (map attestation_key_of as) \<and> fst ` set m \<inter> attestation_key_of ` set as = {}"
proof (induction as arbitrary: m)
  case (Cons a as)
  show ?case
  proof (cases "validate_attestation a = None \<and> map_of m (attestation_key_of a) = None")
    case True
    then have "attestation_key_of a \<notin> fst ` set m" by (simp add: map_of_eq_None_iff)
    with True Cons.IH [of "m @ [(attestation_key_of a, a)]"] show ?thesis
      by (auto simp: update_absent)
  next
    case False
    then show ?thesis by (auto simp: map_of_eq_None_iff split: option.splits)
  qed
qed auto

lemma load_attestations_ok: "load_attestations disk = Inr m \<Longrightarrow> attestations_ok m"
  unfolding load_attestations_def attestations_ok_def
  by (auto simp: load_attestation_entries_Inr list_all_iff comp_def max_executable_attestations_def
      split: option.splits attest_file.splits if_splits)

lemma update_attestations_ok:
  assumes "attestations_ok m" "validate_attestation a = None"
    and "map_of m (attestation_key_of a) \<noteq> None \<or> length m < max_executable_attestations"
  shows "attestations_ok (AList.update (attestation_key_of a) a m)"
  using assms unfolding attestations_ok_def
  by (auto simp: update_length intro: update_all)

lemma load_snapshot:
  assumes "attestations_ok m"
  obtains m' where "load_attestations \<lparr>ad_dir = DirPrivate, ad_file = attestation_snapshot m\<rparr> = Inr m'"
    "map_of m' = map_of m" "attestations_ok m'"
proof -
  let ?f = "\<lambda>(k, a). (at_ServerID a, at_LaunchSource a)"
  let ?q = "sort_key ?f m"
  have q: "list_all (\<lambda>(k, a). k = attestation_key_of a \<and> validate_attestation a = None) ?q"
    using assms by (simp add: attestations_ok_def list_all_iff)
  then have e: "map (\<lambda>a. (attestation_key_of a, a)) (map snd ?q) = ?q"
    by (fastforce simp: list_all_iff intro!: map_idI)
  have d: "distinct (map fst ?q)" "map_of ?q = map_of m"
    using assms distinct_sorted_map_of [of m ?f] by (auto simp: attestations_ok_def)
  have ek: "map attestation_key_of (map snd ?q) = map fst ?q"
    using q by (fastforce simp: list_all_iff)
  have dk: "distinct (map attestation_key_of (map snd ?q))" unfolding ek by (rule d(1))
  have va: "list_all (\<lambda>a. validate_attestation a = None) (map snd ?q)"
    using q by (auto simp: list_all_iff)
  have l: "length (map snd ?q) \<le> max_executable_attestations" using assms by (simp add: attestations_ok_def)
  have "load_attestation_entries [] (map snd ?q) = Inr ?q"
    unfolding load_attestation_entries_Inr using e dk va by simp
  then have "load_attestations \<lparr>ad_dir = DirPrivate, ad_file = attestation_snapshot m\<rparr> = Inr ?q"
    using l by (simp add: load_attestations_def attestation_snapshot_def secure_existing_dir_def)
  moreover from this have "attestations_ok ?q" by (rule load_attestations_ok)
  ultimately show ?thesis using that d(2) by blast
qed

lemma fingerprint_valid:
  "validate_executable_fingerprint \<lparr>ef_Algorithm = ''sha256'', ef_Digest = hex_encode (sha256 content)\<rparr> = None"
proof -
  let ?d = "hex_encode (sha256 content)"
  have "list_all lower_hex ?d" by (rule hex_encode_lower)
  then have "to_lower ?d = ?d" "hex_decodes ?d"
    by (auto simp: lower_hex_id hex_decodes_def list_all_iff dest: lower_hex_is)
  then show ?thesis by (simp add: validate_executable_fingerprint_def executable_digest_byte_length_def)
qed

text \<open>A save that fails leaves the file, and at most has created the directory.\<close>

definition dir_made :: "attest_disk \<Rightarrow> attest_disk \<Rightarrow> bool" where
  "dir_made disk disk' \<longleftrightarrow> ad_file disk' = ad_file disk
     \<and> (ad_dir disk' = ad_dir disk \<or> ad_dir disk = DirMissing \<and> ad_dir disk' = DirPrivate)"

lemma dir_made_refl [simp]: "dir_made disk disk"
  by (simp add: dir_made_def)

lemma ensure_private_fails: "ensure_private_dir fault d = (d', r) \<Longrightarrow> d' = d \<or> d = DirMissing \<and> d' = DirPrivate"
  by (auto simp: ensure_private_dir_def split: if_splits persist_fault.splits)

lemma ensure_private_ok: "ensure_private_dir fault d = (d', None) \<Longrightarrow> d' = DirPrivate"
  by (cases d) (auto simp: ensure_private_dir_def secure_existing_dir_def split: persist_fault.splits)

lemma persist_fails:
  assumes "persist_attestations too_large fault m disk = (disk', Some e)"
  shows "dir_made disk disk'"
proof -
  obtain d r where d: "ensure_private_dir fault (ad_dir disk) = (d, r)" by (metis prod.exhaust)
  have "disk' = disk \<or> disk' = disk\<lparr>ad_dir := d\<rparr>"
    using assms d by (auto simp: persist_attestations_def Let_def split: if_splits option.splits attest_file.splits persist_fault.splits)
  then show ?thesis using ensure_private_fails [OF d] by (auto simp: dir_made_def)
qed

lemma persist_ok:
  assumes "persist_attestations too_large fault m disk = (disk', None)"
  shows "disk' = \<lparr>ad_dir = DirPrivate, ad_file = attestation_snapshot m\<rparr>" "\<not> too_large (attestation_snapshot m)"
proof -
  obtain d r where d: "ensure_private_dir fault (ad_dir disk) = (d, r)" by (metis prod.exhaust)
  show "\<not> too_large (attestation_snapshot m)" using assms by (auto simp: persist_attestations_def)
  then have "r = None" "disk' = disk\<lparr>ad_dir := d, ad_file := attestation_snapshot m\<rparr>"
    using assms d by (auto simp: persist_attestations_def Let_def split: if_splits option.splits attest_file.splits persist_fault.splits)
  then show "disk' = \<lparr>ad_dir = DirPrivate, ad_file = attestation_snapshot m\<rparr>"
    using ensure_private_ok [of fault "ad_dir disk" d] d by simp
qed

end
