(* ===== verification/Airlock_Launch.thy ===== *)
theory Airlock_Launch
  imports Airlock_Attest
begin

text \<open>
  The health check of \<open>internal/mcpairlock/registry.go\<close> and the life of the server processes
  (\<open>lifecycle.go\<close>): what each critical section of \<open>Check\<close>, \<open>Start\<close>, \<open>Stop\<close>, \<open>StopAll\<close> and \<open>List\<close>
  does to the four maps and to the status it returns. Airlock_Steps runs the sections of many
  requests interleaved.

  A process is a number; \<open>Exited e\<close> is one whose end can be received from \<open>Done\<close>, \<open>e\<close> being what the
  next receive yields (a receive from the closed channel yields no error). \<open>time.Format\<close> is the
  argument \<open>cf_rfc3339\<close>.
\<close>

record launch_config =
  cf_definitions :: "server_definition list"
  cf_projectsDir :: string
  cf_semver :: semver
  cf_printable :: "nat \<Rightarrow> bool"
  cf_rfc3339 :: "go_time \<Rightarrow> string"

definition find_server :: "launch_config \<Rightarrow> string \<Rightarrow> server_definition option" where
  "find_server cf i = find (\<lambda>d. sd_ID d = trim_space i) (cf_definitions cf)"

section \<open>The health check\<close>

definition fail_fingerprint :: "server_status \<Rightarrow> server_status" where
  "fail_fingerprint s =
     add_check (mk_check ''executable_fingerprint'' ''error''
         ''resolved executable is unavailable, not a regular file, or exceeds the fingerprint size limit'')
       (set_state ''fingerprint_failed'' ''Airlock could not fingerprint the configured MCP executable.'' s)"

definition not_ready :: "string \<Rightarrow> string \<Rightarrow> check \<Rightarrow> server_status \<Rightarrow> server_status" where
  "not_ready state summary c s = add_check c (set_state state summary (s\<lparr>sst_Ready := False\<rparr>))"

definition version_verdict :: "semver \<Rightarrow> server_definition \<Rightarrow> string \<Rightarrow> server_status \<Rightarrow> bool \<times> server_status" where
  "version_verdict sm d out s =
     (if sd_VersionConstraint d = [] then (True, s)
      else case evaluate_version_constraint sm out (sd_VersionConstraint d) of
        Inl _ \<Rightarrow> (False, not_ready ''version_unknown'' ''Airlock could not verify the MCP server version.''
          (mk_check ''version_policy'' ''error'' ''probe output did not provide one unambiguous valid semantic version'') s)
      | Inr e \<Rightarrow>
          let s1 = s\<lparr>sst_ObservedVersion := ve_Observed e\<rparr> in
          if \<not> ve_Satisfied e then
            (False, not_ready (if ve_Operator e = ''>='' then ''outdated'' else ''version_mismatch'')
              ''MCP server version does not satisfy the configured Airlock policy.''
              (mk_check ''version_policy'' ''error'' (''observed version '' @ ve_Observed e @ '' does not satisfy ''
                @ ve_Operator e @ '' '' @ ve_Required e)) s1)
          else (True, add_check (mk_check ''version_policy'' ''pass'' (''observed version '' @ ve_Observed e @ '' satisfies ''
                @ ve_Operator e @ '' '' @ ve_Required e)) s1))"

definition probe_verdict :: "semver \<Rightarrow> server_definition \<Rightarrow> probe_result \<Rightarrow> server_status \<Rightarrow> server_status" where
  "probe_verdict sm d r s =
     (if pbr_TimedOut r then
        not_ready ''timeout'' ''Health check timed out before the MCP server responded.''
          (mk_check ''health_probe'' ''error'' ''probe timed out'') s
      else if pbr_OutputOverflow r then
        not_ready ''output_too_large'' ''Health check output exceeded the Airlock inspection limit.''
          (mk_check ''health_probe'' ''error'' (''probe output exceeded the '' @ dec max_probe_output_bytes @ ''-byte inspection limit'')) s
      else case pbr_Err r of
        Some e \<Rightarrow>
          let out = redact_output (pbr_Output r) in
          not_ready ''unhealthy'' ''Health check failed. Review the local command configuration before enabling this server.''
            (mk_check ''health_probe'' ''error'' (if out \<noteq> [] then e @ '': '' @ out else e)) s
      | None \<Rightarrow>
          let out = redact_output (pbr_Output r);
              s1 = add_check (mk_check ''health_probe'' ''pass'' (if out \<noteq> [] then out else ''probe succeeded'')) s
          in case version_verdict sm d (pbr_Output r) s1 of
               (False, s2) \<Rightarrow> s2
             | (True, s2) \<Rightarrow> set_state ''ready'' ''Health check completed without exposing cloud credentials.'' (s2\<lparr>sst_Ready := True\<rparr>))"

text \<open>\<open>Check\<close> up to its final \<open>withLifecycleStatus\<close>. Each look at the host or the disk has an instant of its
  own: \<open>hs 0\<close> the passive status, \<open>hs 1\<close> the resolution, \<open>hs 2\<close> the hash, \<open>hs 3\<close> the probe.\<close>

definition check_server ::
  "launch_config \<Rightarrow> (nat \<Rightarrow> host) \<Rightarrow> attest_disk \<Rightarrow> go_time \<Rightarrow> server_definition \<Rightarrow> server_status" where
  "check_server cf hs disk now d =
     (let s = (passive_status (cf_semver cf) (cf_printable cf) (ho_LookPath (hs 0)) d)\<lparr>sst_CheckedAt := cf_rfc3339 cf now\<rparr> in
      if sst_State s \<noteq> ''available'' then s
      else case resolve_executable (hs 1) (sd_Command d) of
        None \<Rightarrow> fail_fingerprint s
      | Some path \<Rightarrow>
      case fingerprint_executable (ho_File (hs 2)) path of
        None \<Rightarrow> fail_fingerprint s
      | Some f \<Rightarrow>
      let (verdict, c) = executable_attestation_status (cf_projectsDir cf) disk d f;
          s1 = add_check c (add_check (mk_check ''executable_fingerprint'' ''pass'' ''resolved executable fingerprinted with SHA-256'')
                 (s\<lparr>sst_ExecutableFingerprint := Some f\<rparr>))\<lparr>sst_ExecutableAttestation := verdict\<rparr>;
          args = sd_Args d @ sd_HealthCheckArgs d
      in if args = [] then
           (if sd_VersionConstraint d \<noteq> [] then
              not_ready ''version_unknown'' ''Airlock could not verify the MCP server version.''
                (mk_check ''version_policy'' ''error''
                  ''version constraint is configured but no health probe command is available to extract the server version'') s1
            else add_check (mk_check ''health_probe'' ''warn'' ''no version or health command is configured'')
                   (set_state ''ready'' ''Command is available. No active health probe is configured for this server.''
                     (s1\<lparr>sst_Ready := True\<rparr>)))
         else probe_verdict (cf_semver cf) d (ho_Probe (hs 3) path args) s1)"

section \<open>The lifecycle store\<close>

record process_record =
  pr_handle :: nat
  pr_startedAt :: go_time

record exit_record =
  xr_at :: go_time
  xr_reason :: string

record lifecycle =
  lc_starting :: "string \<Rightarrow> go_time option"
  lc_running :: "string \<Rightarrow> process_record option"
  lc_stopping :: "string \<Rightarrow> process_record option"
  lc_exits :: "string \<Rightarrow> exit_record option"

definition new_lifecycle :: lifecycle where
  "new_lifecycle = \<lparr>lc_starting = Map.empty, lc_running = Map.empty, lc_stopping = Map.empty, lc_exits = Map.empty\<rparr>"

datatype proc = Alive | Exited "string option"
type_synonym procs = "nat \<Rightarrow> proc option"

definition exit_reason :: "string option \<Rightarrow> string" where
  "exit_reason e = (case e of None \<Rightarrow> ''process exited'' | Some m \<Rightarrow> redact_output m)"

text \<open>\<open>reapLocked\<close>: the receive from \<open>Done\<close>, if it is ready, takes the error out of the channel.\<close>

definition reap :: "string \<Rightarrow> go_time \<Rightarrow> lifecycle \<times> procs \<Rightarrow> lifecycle \<times> procs" where
  "reap i now lp =
     (case lp of (l, p) \<Rightarrow>
        (case lc_running l i of
           None \<Rightarrow> (l, p)
         | Some r \<Rightarrow>
             (case p (pr_handle r) of
                Some (Exited e) \<Rightarrow>
                  (l\<lparr>lc_running := (lc_running l)(i := None),
                     lc_exits := (lc_exits l)(i \<mapsto> \<lparr>xr_at = now, xr_reason = exit_reason e\<rparr>)\<rparr>,
                   p(pr_handle r \<mapsto> Exited None))
              | _ \<Rightarrow> (l, p))))"

section \<open>Statuses\<close>

definition remove_check :: "check list \<Rightarrow> string \<Rightarrow> check list" where
  "remove_check cs name = filter (\<lambda>c. ck_Name c \<noteq> name) cs"

definition without_check :: "string \<Rightarrow> server_status \<Rightarrow> server_status" where
  "without_check name s = s\<lparr>sst_Checks := remove_check (sst_Checks s) name\<rparr>"

definition with_starting_status :: "launch_config \<Rightarrow> server_status \<Rightarrow> go_time \<Rightarrow> server_status" where
  "with_starting_status cf s at =
     add_check (mk_check ''lifecycle'' ''warn'' ''server process is starting'')
       (set_state ''starting'' ''MCP server process is starting with cloud credentials withheld.''
         (s\<lparr>sst_StartedAt := cf_rfc3339 cf at\<rparr>))"

definition with_stopping_status :: "launch_config \<Rightarrow> server_status \<Rightarrow> process_record \<Rightarrow> server_status" where
  "with_stopping_status cf s r =
     add_check (mk_check ''lifecycle'' ''warn'' ''server stop is in progress'')
       (set_state ''stopping'' ''MCP server process is stopping.'' (s\<lparr>sst_StartedAt := cf_rfc3339 cf (pr_startedAt r)\<rparr>))"

definition with_running_status :: "launch_config \<Rightarrow> server_status \<Rightarrow> process_record \<Rightarrow> server_status" where
  "with_running_status cf s r =
     (let s1 = s\<lparr>sst_Running := True, sst_StartedAt := cf_rfc3339 cf (pr_startedAt r)\<rparr> in
      if sst_State s1 = ''available'' \<or> sst_Ready s1 then
        add_check (mk_check ''lifecycle'' ''pass'' ''server process is running'')
          (set_state ''running'' ''MCP server process is running with cloud credentials withheld.'' (s1\<lparr>sst_Ready := True\<rparr>))
      else add_check (mk_check ''lifecycle'' ''warn''
             ''server process is running, but current checks do not consider it ready'') s1)"

definition with_lifecycle_status_locked ::
  "launch_config \<Rightarrow> lifecycle \<Rightarrow> server_status \<Rightarrow> process_record option \<Rightarrow> server_status" where
  "with_lifecycle_status_locked cf l s r0 =
     (let i = sd_ID (sst_Server s); r = (case r0 of None \<Rightarrow> lc_running l i | Some r \<Rightarrow> Some r) in
      case r of Some r \<Rightarrow> with_running_status cf s r | None \<Rightarrow>
      case lc_starting l i of Some at \<Rightarrow> with_starting_status cf s at | None \<Rightarrow>
      case lc_stopping l i of Some r \<Rightarrow> with_stopping_status cf s r | None \<Rightarrow>
      case lc_exits l i of None \<Rightarrow> s
      | Some x \<Rightarrow>
          let s1 = s\<lparr>sst_LastExitAt := cf_rfc3339 cf (xr_at x), sst_LastExitReason := xr_reason x\<rparr> in
          if sst_State s1 = ''available'' then
            add_check (mk_check ''lifecycle'' ''warn'' (xr_reason x))
              (set_state ''exited'' ''MCP server process is not running.'' s1)
          else s1)"

definition with_lifecycle_status ::
  "launch_config \<Rightarrow> go_time \<Rightarrow> server_status \<Rightarrow> lifecycle \<times> procs \<Rightarrow> (lifecycle \<times> procs) \<times> server_status" where
  "with_lifecycle_status cf now s lp =
     (let lp' = reap (sd_ID (sst_Server s)) now lp in (lp', with_lifecycle_status_locked cf (fst lp') s None))"

definition active_start_status ::
  "launch_config \<Rightarrow> lifecycle \<Rightarrow> string \<Rightarrow> server_status \<Rightarrow> server_status option" where
  "active_start_status cf l i s0 =
     (let s = without_check ''lifecycle'' s0 in
      case lc_starting l i of
        Some at \<Rightarrow> Some (add_check (mk_check ''start'' ''warn'' ''server launch is already in progress'') (with_starting_status cf s at))
      | None \<Rightarrow>
      case lc_running l i of
        Some r \<Rightarrow> Some (add_check (mk_check ''start'' ''pass'' ''server is already running'')
                           (with_lifecycle_status_locked cf l s (Some r)))
      | None \<Rightarrow>
      case lc_stopping l i of
        Some r \<Rightarrow> Some (add_check (mk_check ''start'' ''warn'' ''server stop is in progress'') (with_stopping_status cf s r))
      | None \<Rightarrow> None)"

section \<open>The sections of Start\<close>

definition start_first ::
  "launch_config \<Rightarrow> go_time \<Rightarrow> string \<Rightarrow> server_status \<Rightarrow> lifecycle \<times> procs \<Rightarrow> (lifecycle \<times> procs) \<times> server_status option" where
  "start_first cf now i s lp = (let lp' = reap i now lp in (lp', active_start_status cf (fst lp') i s))"

datatype admission = Refused server_status | Admitted server_status

definition start_admit ::
  "launch_config \<Rightarrow> go_time \<Rightarrow> string \<Rightarrow> server_status \<Rightarrow> lifecycle \<times> procs \<Rightarrow> (lifecycle \<times> procs) \<times> admission" where
  "start_admit cf now i s lp =
     (let (l, p) = reap i now lp in
      case active_start_status cf l i s of
           Some active \<Rightarrow> ((l, p), Refused active)
         | None \<Rightarrow>
             if \<not> sst_Ready s then
               ((l, p), Refused (add_check (mk_check ''start'' ''error'' ''launch blocked because Airlock readiness checks failed'') s))
             else if sst_ExecutableAttestation s \<noteq> AttestationApproved then
               ((l, p), Refused (not_ready ''blocked'' ''MCP server launch requires an approved executable fingerprint.''
                  (mk_check ''start'' ''error'' ''launch blocked until the observed executable fingerprint is approved'') s))
             else
               ((l\<lparr>lc_starting := (lc_starting l)(i \<mapsto> now)\<rparr>, p),
                Admitted (set_state ''ready'' ''Airlock launch preflight passed.''
                  (without_check ''lifecycle'' (s\<lparr>sst_Running := False, sst_StartedAt := []\<rparr>)))))"

text \<open>\<open>verifyLaunchExecutable\<close> in its two observations: the executable is resolved and hashed, then the
  approvals are read.\<close>

definition hash_launch ::
  "host \<Rightarrow> host \<Rightarrow> server_definition \<Rightarrow> executable_fingerprint option \<Rightarrow> (string \<times> executable_fingerprint) option" where
  "hash_launch h1 h2 d expected =
     (if expected = None then None
      else case resolve_executable h1 (sd_Command d) of
        None \<Rightarrow> None
      | Some path \<Rightarrow> map_option (Pair path) (fingerprint_executable (ho_File h2) path))"

definition attest_launch ::
  "launch_config \<Rightarrow> attest_disk \<Rightarrow> server_definition \<Rightarrow> executable_fingerprint option \<Rightarrow> executable_fingerprint \<Rightarrow>
   string \<times> check \<times> bool" where
  "attest_launch cf disk d expected f =
     (let (verdict, c) = executable_attestation_status (cf_projectsDir cf) disk d f
      in (verdict, c, (case expected of None \<Rightarrow> False | Some e \<Rightarrow> same_fingerprint e f) \<and> verdict = AttestationApproved))"

definition with_attestation :: "string \<Rightarrow> check option \<Rightarrow> server_status \<Rightarrow> server_status" where
  "with_attestation verdict c s =
     (case c of None \<Rightarrow> s | Some c \<Rightarrow> add_check c (without_check (ck_Name c) s))\<lparr>sst_ExecutableAttestation := verdict\<rparr>"

definition abort_status :: "executable_fingerprint option \<Rightarrow> bool \<Rightarrow> server_status \<Rightarrow> server_status" where
  "abort_status observed checked s =
     (let expected = sst_ExecutableFingerprint s;
          fp_matches = (case (expected, observed) of (Some e, Some f) \<Rightarrow> same_fingerprint e f | _ \<Rightarrow> False);
          s1 = without_check ''executable_fingerprint'' (s\<lparr>sst_Ready := False, sst_State := ''blocked''\<rparr>);
          s2 = (if fp_matches then
                  add_check (mk_check ''executable_fingerprint'' ''pass'' ''launch executable fingerprint matched the preflight'')
                    (s1\<lparr>sst_Summary := ''MCP server executable approval could not be revalidated after the launch preflight.'',
                        sst_ExecutableFingerprint := observed\<rparr>)
                else
                  add_check (mk_check ''executable_fingerprint'' ''error''
                      ''launch executable fingerprint changed or became unavailable after preflight'')
                    (s1\<lparr>sst_Summary := ''MCP server executable identity could not be revalidated after the launch preflight.'',
                        sst_ExecutableFingerprint := observed\<rparr>));
          s3 = (if checked then s2
                else add_check (mk_check ''executable_attestation'' ''error'' ''launch executable approval could not be revalidated'')
                       (without_check ''executable_attestation'' s2))
      in add_check (mk_check ''start'' ''error''
           (if fp_matches then ''launch blocked because executable approval changed or became unavailable after preflight''
            else ''launch blocked because executable identity could not be revalidated'')) s3)"

definition clear_starting :: "string \<Rightarrow> lifecycle \<Rightarrow> lifecycle" where
  "clear_starting i l = l\<lparr>lc_starting := (lc_starting l)(i := None)\<rparr>"

definition start_finish ::
  "launch_config \<Rightarrow> go_time \<Rightarrow> string \<Rightarrow> server_status \<Rightarrow> string + nat \<Rightarrow> lifecycle \<Rightarrow> lifecycle \<times> server_status" where
  "start_finish cf now i s launched l =
     (let l1 = clear_starting i l in
      case launched of
        Inl e \<Rightarrow> (l1, not_ready ''launch_failed'' ''Airlock could not start the MCP server process.''
                   (mk_check ''start'' ''error'' (redact_output e)) s)
      | Inr h \<Rightarrow>
          let r = \<lparr>pr_handle = h, pr_startedAt = now\<rparr>;
              l2 = l1\<lparr>lc_running := (lc_running l1)(i \<mapsto> r), lc_exits := (lc_exits l1)(i := None)\<rparr>
          in (l2, add_check (mk_check ''start'' ''pass'' ''server process started with a sanitized environment'')
                    (with_lifecycle_status_locked cf l2 s (Some r))))"

section \<open>The sections of Stop\<close>

datatype stop_decision = StopRefused server_status | StopProcess process_record

definition stop_first ::
  "launch_config \<Rightarrow> go_time \<Rightarrow> string \<Rightarrow> server_status \<Rightarrow> lifecycle \<times> procs \<Rightarrow> (lifecycle \<times> procs) \<times> stop_decision" where
  "stop_first cf now i s lp =
     (let (l, p) = reap i now lp in
      case lc_stopping l i of
        Some r \<Rightarrow> ((l, p), StopRefused (add_check (mk_check ''stop'' ''warn'' ''server stop is already in progress'')
                              (with_stopping_status cf s r)))
      | None \<Rightarrow>
      case lc_starting l i of
        Some at \<Rightarrow> ((l, p), StopRefused (add_check (mk_check ''stop'' ''warn'' ''server is still starting'')
                               (with_starting_status cf s at)))
      | None \<Rightarrow>
      case lc_running l i of
        None \<Rightarrow> ((l, p), StopRefused (add_check (mk_check ''stop'' ''warn'' ''server is not running'')
                             (with_lifecycle_status_locked cf l s None)))
      | Some r \<Rightarrow>
          ((l\<lparr>lc_running := (lc_running l)(i := None), lc_stopping := (lc_stopping l)(i \<mapsto> r)\<rparr>, p), StopProcess r))"

definition restore_after_stop_failure ::
  "launch_config \<Rightarrow> go_time \<Rightarrow> string \<Rightarrow> process_record \<Rightarrow> server_status \<Rightarrow> lifecycle \<times> procs \<Rightarrow>
   (lifecycle \<times> procs) \<times> server_status" where
  "restore_after_stop_failure cf now i r s lp =
     (case lp of (l, p) \<Rightarrow>
        (case p (pr_handle r) of
           Some (Exited e) \<Rightarrow>
             ((l\<lparr>lc_exits := (lc_exits l)(i \<mapsto> \<lparr>xr_at = now, xr_reason = exit_reason e\<rparr>)\<rparr>, p(pr_handle r \<mapsto> Exited None)),
              s\<lparr>sst_LastExitAt := cf_rfc3339 cf now, sst_LastExitReason := exit_reason e\<rparr>)
         | _ \<Rightarrow>
             let l' = l\<lparr>lc_running := (lc_running l)(i \<mapsto> r)\<rparr> in
             ((l', p), with_lifecycle_status_locked cf l' s (Some r))))"

definition stop_finish ::
  "launch_config \<Rightarrow> go_time \<Rightarrow> string \<Rightarrow> process_record \<Rightarrow> server_status \<Rightarrow> string option \<Rightarrow> lifecycle \<times> procs \<Rightarrow>
   (lifecycle \<times> procs) \<times> server_status" where
  "stop_finish cf now i r s failure lp =
     (case lp of (l, p) \<Rightarrow>
        let l1 = l\<lparr>lc_stopping := (lc_stopping l)(i := None)\<rparr> in
        (case failure of
           Some e \<Rightarrow>
             let (lp', s') = restore_after_stop_failure cf now i r s (l1, p) in
             (lp', add_check (mk_check ''stop'' ''error'' (redact_output e))
                (set_state ''stop_failed'' ''Airlock could not stop the MCP server process before the timeout.'' s'))
         | None \<Rightarrow>
             ((l1\<lparr>lc_exits := (lc_exits l1)(i \<mapsto> \<lparr>xr_at = now, xr_reason = ''stopped by user''\<rparr>)\<rparr>, p),
              add_check (mk_check ''stop'' ''pass'' ''server process stopped'')
                (set_state ''stopped'' ''MCP server process stopped.''
                  (s\<lparr>sst_LastExitAt := cf_rfc3339 cf now, sst_LastExitReason := ''stopped by user''\<rparr>)))))"

end
