(* ===== verification/Airlock_Steps.thy ===== *)
theory Airlock_Steps
  imports Airlock_Launch
begin

text \<open>
  Requests to the Airlock of \<open>internal/mcpairlock/lifecycle.go\<close>, interleaved. A request is a thread;
  its phase is where it stands between two critical sections or looks at the host, with the local
  variables it keeps. One step is one critical section, one look at the host, one result of the
  launcher or of \<open>ProcessHandle.Stop\<close>, or the end of a process. What the host, the disk and the clock
  answer is free in every step. \<open>ls_log\<close> is not state of the program: it records, newest first, what
  the requests saw and what \<open>Start\<close> started. The short-lived process of the health probe is no event
  of it: the check sees its result only. Tool discovery (\<open>tools.go\<close>) and tool calls
  (\<open>tool_invoker.go\<close>) start processes of their own, which are no part of this machine.
\<close>

section \<open>State\<close>

datatype stop_mode = StopOne | StopRest "string list" "string list"

datatype answer =
    UnknownServer
  | Status server_status
  | Statuses "server_status list"
  | Stopped "string list"

datatype launch_phase =
    Checking bool string server_definition
  | Merging bool string server_status
  | StartFirst string server_status
  | StartAdmit string server_status
  | StartHash string go_time server_status
  | StartAttest string go_time server_status string executable_fingerprint
  | StartAbort string server_status "executable_fingerprint option" bool
  | StartLaunch string go_time server_status server_definition
  | StartFinish string go_time server_status "string + nat"
  | StopCall stop_mode string
  | StopFirst stop_mode string server_status
  | StopHandle stop_mode string server_status process_record
  | StopFinish stop_mode string server_status process_record "string option"
  | Listing "server_definition list" "server_status list"
  | Answered answer

datatype launch_entry =
    LChecked nat string server_status
  | LHashed nat string string executable_fingerprint
  | LVerdict nat server_definition executable_fingerprint attest_disk string
  | LStarted nat string nat server_definition
  | LAbandoned nat

record launch_state =
  ls_life :: lifecycle
  ls_procs :: procs
  ls_threads :: "nat \<Rightarrow> launch_phase option"
  ls_log :: "launch_entry list"

definition init_state :: launch_state where
  "init_state = \<lparr>ls_life = new_lifecycle, ls_procs = Map.empty, ls_threads = Map.empty, ls_log = []\<rparr>"

definition goto :: "nat \<Rightarrow> launch_phase \<Rightarrow> launch_state \<Rightarrow> launch_state" where
  "goto t ph s = s\<lparr>ls_threads := (ls_threads s)(t \<mapsto> ph)\<rparr>"

definition section_goto :: "nat \<Rightarrow> (lifecycle \<times> procs) \<times> 'a \<Rightarrow> ('a \<Rightarrow> launch_phase) \<Rightarrow> launch_state \<Rightarrow> launch_state" where
  "section_goto t res next s =
     goto t (next (snd res)) (s\<lparr>ls_life := fst (fst res), ls_procs := snd (fst res)\<rparr>)"

definition record_log :: "launch_entry \<Rightarrow> launch_state \<Rightarrow> launch_state" where
  "record_log e s = s\<lparr>ls_log := e # ls_log s\<rparr>"

definition spawn :: "nat \<Rightarrow> proc \<Rightarrow> launch_state \<Rightarrow> launch_state" where
  "spawn h p s = s\<lparr>ls_procs := (ls_procs s)(h \<mapsto> p)\<rparr>"

abbreviation store_of :: "launch_state \<Rightarrow> lifecycle \<times> procs" where
  "store_of s \<equiv> (ls_life s, ls_procs s)"

section \<open>What follows a section\<close>

definition after_first :: "string \<Rightarrow> server_definition \<Rightarrow> server_status option \<Rightarrow> launch_phase" where
  "after_first i d r = (case r of Some active \<Rightarrow> Answered (Status active) | None \<Rightarrow> Checking True i d)"

definition after_merge :: "bool \<Rightarrow> string \<Rightarrow> server_status \<Rightarrow> launch_phase" where
  "after_merge starting i st = (if starting then StartAdmit i st else Answered (Status st))"

definition after_admit :: "string \<Rightarrow> go_time \<Rightarrow> admission \<Rightarrow> launch_phase" where
  "after_admit i now r = (case r of Refused st \<Rightarrow> Answered (Status st) | Admitted st \<Rightarrow> StartHash i now st)"

fun stop_answer :: "stop_mode \<Rightarrow> server_status \<Rightarrow> launch_phase" where
  "stop_answer StopOne st = Answered (Status st)"
| "stop_answer (StopRest [] errs) st = Answered (Stopped errs)"
| "stop_answer (StopRest (i # is) errs) st = StopCall (StopRest is errs) i"

fun stop_unknown :: "stop_mode \<Rightarrow> string \<Rightarrow> launch_phase" where
  "stop_unknown StopOne i = Answered UnknownServer"
| "stop_unknown (StopRest [] errs) i = Answered (Stopped (errs @ [i]))"
| "stop_unknown (StopRest (j # js) errs) i = StopCall (StopRest js (errs @ [i])) j"

definition after_stop_first :: "stop_mode \<Rightarrow> string \<Rightarrow> server_status \<Rightarrow> stop_decision \<Rightarrow> launch_phase" where
  "after_stop_first m i st r = (case r of StopRefused st' \<Rightarrow> stop_answer m st' | StopProcess p \<Rightarrow> StopHandle m i st p)"

definition passive_of :: "launch_config \<Rightarrow> host \<Rightarrow> server_definition \<Rightarrow> server_status" where
  "passive_of cf h d = passive_status (cf_semver cf) (cf_printable cf) (ho_LookPath h) d"

definition listed :: "server_status list \<Rightarrow> server_status list" where
  "listed sts = sort_key (\<lambda>s. sd_Name (sst_Server s)) sts"

section \<open>Steps\<close>

inductive launch_step :: "launch_config \<Rightarrow> launch_state \<Rightarrow> launch_state \<Rightarrow> bool" for cf where
  call_check: "ls_threads s t = None \<Longrightarrow>
     launch_step cf s (goto t (case find_server cf i of None \<Rightarrow> Answered UnknownServer | Some d \<Rightarrow> Checking False i d) s)"
| call_start: "ls_threads s t = None \<Longrightarrow>
     launch_step cf s (goto t (case find_server cf i of None \<Rightarrow> Answered UnknownServer
                                | Some d \<Rightarrow> StartFirst i (passive_of cf h d)) s)"
| call_stop: "ls_threads s t = None \<Longrightarrow> launch_step cf s (goto t (StopCall StopOne i) s)"
| call_stop_all: "ls_threads s t = None \<Longrightarrow> distinct is \<Longrightarrow> set is = dom (lc_running (ls_life s)) \<Longrightarrow>
     launch_step cf s (goto t (case is of [] \<Rightarrow> Answered (Stopped []) | i # is' \<Rightarrow> StopCall (StopRest is' []) i) s)"
| call_list: "ls_threads s t = None \<Longrightarrow> launch_step cf s (goto t (Listing (cf_definitions cf) []) s)"
| check_host: "ls_threads s t = Some (Checking starting i d) \<Longrightarrow>
     launch_step cf s (record_log (LChecked t i (check_server cf hs disk now d))
       (goto t (Merging starting i (check_server cf hs disk now d)) s))"
| check_merge: "ls_threads s t = Some (Merging starting i st) \<Longrightarrow>
     launch_step cf s (section_goto t (with_lifecycle_status cf now st (store_of s)) (after_merge starting i) s)"
| start_first: "ls_threads s t = Some (StartFirst i st) \<Longrightarrow>
     launch_step cf s (section_goto t (start_first cf now i st (store_of s)) (after_first i (sst_Server st)) s)"
| start_admit: "ls_threads s t = Some (StartAdmit i st) \<Longrightarrow>
     launch_step cf s (section_goto t (start_admit cf now i st (store_of s)) (after_admit i now) s)"
| hash_fails: "ls_threads s t = Some (StartHash i at st) \<Longrightarrow>
     hash_launch h1 h2 (sst_Server st) (sst_ExecutableFingerprint st) = None \<Longrightarrow>
     launch_step cf s (goto t (StartAbort i (with_attestation AttestationApprovalRequired None st) None False) s)"
| hash_done: "ls_threads s t = Some (StartHash i at st) \<Longrightarrow>
     hash_launch h1 h2 (sst_Server st) (sst_ExecutableFingerprint st) = Some (path, f) \<Longrightarrow>
     launch_step cf s (record_log (LHashed t path (the (ho_File h2 path)) f) (goto t (StartAttest i at st path f) s))"
| attest_done: "ls_threads s t = Some (StartAttest i at st path f) \<Longrightarrow>
     attest_launch cf disk (sst_Server st) (sst_ExecutableFingerprint st) f = (verdict, c, ok) \<Longrightarrow>
     launch_step cf s (record_log (LVerdict t (sst_Server st) f disk verdict)
       (goto t (if ok then StartLaunch i at (with_attestation verdict (Some c) st) ((sst_Server st)\<lparr>sd_Command := path\<rparr>)
                else StartAbort i (with_attestation verdict (Some c) st) (Some f) True) s))"
| start_abort: "ls_threads s t = Some (StartAbort i st observed checked) \<Longrightarrow>
     launch_step cf s (goto t (Answered (Status (abort_status observed checked st)))
       (s\<lparr>ls_life := clear_starting i (ls_life s)\<rparr>))"
| launch_error: "ls_threads s t = Some (StartLaunch i at st d) \<Longrightarrow>
     launch_step cf s (goto t (StartFinish i at st (Inl e)) s)"
| launch_exited: "ls_threads s t = Some (StartLaunch i at st d) \<Longrightarrow> ls_procs s h = None \<Longrightarrow>
     launch_step cf s (record_log (LStarted t i h d)
       (goto t (StartFinish i at st (Inl (case err of None \<Rightarrow> ''process exited during startup''
                                        | Some e \<Rightarrow> ''process exited during startup: '' @ e)))
         (spawn h (Exited None) s)))"
| launch_cancelled: "ls_threads s t = Some (StartLaunch i at st d) \<Longrightarrow> ls_procs s h = None \<Longrightarrow>
     launch_step cf s (record_log (LStarted t i h d)
       (goto t (StartFinish i at st (Inl e)) (spawn h (Exited None) s)))"
| launch_abandoned: "ls_threads s t = Some (StartLaunch i at st d) \<Longrightarrow> ls_procs s h = None \<Longrightarrow>
     launch_step cf s (record_log (LAbandoned h) (record_log (LStarted t i h d)
       (goto t (StartFinish i at st (Inl e)) (spawn h Alive s))))"
| launch_done: "ls_threads s t = Some (StartLaunch i at st d) \<Longrightarrow> ls_procs s h = None \<Longrightarrow>
     launch_step cf s (record_log (LStarted t i h d)
       (goto t (StartFinish i at st (Inr h)) (spawn h Alive s)))"
| start_finish: "ls_threads s t = Some (StartFinish i at st launched) \<Longrightarrow>
     launch_step cf s (goto t (Answered (Status (snd (start_finish cf at i st launched (ls_life s)))))
       (s\<lparr>ls_life := fst (start_finish cf at i st launched (ls_life s))\<rparr>))"
| stop_call: "ls_threads s t = Some (StopCall m i) \<Longrightarrow>
     launch_step cf s (goto t (case find_server cf i of None \<Rightarrow> stop_unknown m i
                                | Some d \<Rightarrow> StopFirst m i (passive_of cf h d)) s)"
| stop_first: "ls_threads s t = Some (StopFirst m i st) \<Longrightarrow>
     launch_step cf s (section_goto t (stop_first cf now i st (store_of s)) (after_stop_first m i st) s)"
| handle_stopped: "ls_threads s t = Some (StopHandle m i st r) \<Longrightarrow> ls_procs s (pr_handle r) = Some (Exited e) \<Longrightarrow>
     launch_step cf s (goto t (StopFinish m i st r None) (spawn (pr_handle r) (Exited None) s))"
| handle_failed: "ls_threads s t = Some (StopHandle m i st r) \<Longrightarrow>
     launch_step cf s (goto t (StopFinish m i st r (Some e)) s)"
| stop_finish: "ls_threads s t = Some (StopFinish m i st r failure) \<Longrightarrow>
     launch_step cf s (section_goto t (stop_finish cf now i r st failure (store_of s)) (stop_answer m) s)"
| list_next: "ls_threads s t = Some (Listing (d # ds) sts) \<Longrightarrow>
     launch_step cf s (section_goto t (with_lifecycle_status cf now (passive_of cf h d) (store_of s))
       (\<lambda>st. Listing ds (sts @ [st])) s)"
| list_done: "ls_threads s t = Some (Listing [] sts) \<Longrightarrow>
     launch_step cf s (goto t (Answered (Statuses (listed sts))) s)"
| process_ends: "ls_procs s h = Some Alive \<Longrightarrow> launch_step cf s (spawn h (Exited e) s)"

inductive launch_reach :: "launch_config \<Rightarrow> launch_state \<Rightarrow> bool" for cf where
  init: "launch_reach cf init_state"
| step: "launch_reach cf s \<Longrightarrow> launch_step cf s s' \<Longrightarrow> launch_reach cf s'"

end
