(* ===== verification/Airlock_Slots.thy ===== *)
theory Airlock_Slots
  imports Airlock_Steps
begin

text \<open>
  The abstract life of a server key (\<open>lifecycle.go\<close>): a key is free, being started by one request,
  running one process, or being stopped by one request. The interleaved requests of Airlock_Steps
  are related to this machine by a forward simulation, and what the machine keeps (a process has
  one key, a live process is in a slot or was abandoned by its launcher) follows for them.
\<close>

section \<open>The machine\<close>

datatype slot = Free | Starting nat "nat option" | Running nat | Stopping nat nat

record slots =
  so_slot :: "string \<Rightarrow> slot"
  so_procs :: "nat \<Rightarrow> bool option"
  so_abandoned :: "nat set"

definition slots_init :: slots where
  "slots_init = \<lparr>so_slot = (\<lambda>_. Free), so_procs = Map.empty, so_abandoned = {}\<rparr>"

definition put_slot :: "string \<Rightarrow> slot \<Rightarrow> slots \<Rightarrow> slots" where
  "put_slot i x c = c\<lparr>so_slot := (so_slot c)(i := x)\<rparr>"

definition put_proc :: "nat \<Rightarrow> bool \<Rightarrow> slots \<Rightarrow> slots" where
  "put_proc h b c = c\<lparr>so_procs := (so_procs c)(h \<mapsto> b)\<rparr>"

inductive slot_step :: "slots \<Rightarrow> slots \<Rightarrow> bool" where
  admit: "so_slot c i = Free \<Longrightarrow> slot_step c (put_slot i (Starting t None) c)"
| abort: "so_slot c i = Starting t None \<Longrightarrow> slot_step c (put_slot i Free c)"
| spawn_dead: "so_slot c i = Starting t None \<Longrightarrow> so_procs c h = None \<Longrightarrow> slot_step c (put_proc h False c)"
| spawn_abandoned: "so_slot c i = Starting t None \<Longrightarrow> so_procs c h = None \<Longrightarrow>
     slot_step c ((put_proc h True c)\<lparr>so_abandoned := insert h (so_abandoned c)\<rparr>)"
| spawn: "so_slot c i = Starting t None \<Longrightarrow> so_procs c h = None \<Longrightarrow>
     slot_step c (put_slot i (Starting t (Some h)) (put_proc h True c))"
| run: "so_slot c i = Starting t (Some h) \<Longrightarrow> slot_step c (put_slot i (Running h) c)"
| reap: "so_slot c i = Running h \<Longrightarrow> so_procs c h = Some False \<Longrightarrow> slot_step c (put_slot i Free c)"
| stop: "so_slot c i = Running h \<Longrightarrow> slot_step c (put_slot i (Stopping t h) c)"
| stopped: "so_slot c i = Stopping t h \<Longrightarrow> so_procs c h = Some False \<Longrightarrow> slot_step c (put_slot i Free c)"
| restore: "so_slot c i = Stopping t h \<Longrightarrow> slot_step c (put_slot i (Running h) c)"
| exit: "so_procs c h = Some True \<Longrightarrow> slot_step c (put_proc h False c)"

fun slot_handle :: "slot \<Rightarrow> nat option" where
  "slot_handle Free = None"
| "slot_handle (Starting t h) = h"
| "slot_handle (Running h) = Some h"
| "slot_handle (Stopping t h) = Some h"

definition slots_ok :: "slots \<Rightarrow> bool" where
  "slots_ok c \<longleftrightarrow>
     (\<forall>i j h. slot_handle (so_slot c i) = Some h \<longrightarrow> slot_handle (so_slot c j) = Some h \<longrightarrow> i = j)
     \<and> (\<forall>i h. slot_handle (so_slot c i) = Some h \<longrightarrow> so_procs c h \<noteq> None \<and> h \<notin> so_abandoned c)
     \<and> (\<forall>h. so_procs c h = Some True \<longrightarrow> h \<in> so_abandoned c \<or> (\<exists>i. slot_handle (so_slot c i) = Some h))
     \<and> (\<forall>h \<in> so_abandoned c. so_procs c h \<noteq> None)"

lemma slots_init_ok: "slots_ok slots_init"
  by (simp add: slots_ok_def slots_init_def)

lemma put_slot_sel [simp]:
  "so_slot (put_slot i x c) j = (if j = i then x else so_slot c j)"
  "so_procs (put_slot i x c) = so_procs c" "so_abandoned (put_slot i x c) = so_abandoned c"
  by (simp_all add: put_slot_def)

lemma put_proc_sel [simp]:
  "so_slot (put_proc h b c) = so_slot c" "so_abandoned (put_proc h b c) = so_abandoned c"
  "so_procs (put_proc h b c) k = (if k = h then Some b else so_procs c k)"
  by (simp_all add: put_proc_def)

lemma slots_okD:
  assumes "slots_ok c"
  shows "slot_handle (so_slot c i) = Some h \<Longrightarrow> slot_handle (so_slot c j) = Some h \<Longrightarrow> i = j"
    and "slot_handle (so_slot c i) = Some h \<Longrightarrow> so_procs c h \<noteq> None"
    and "slot_handle (so_slot c i) = Some h \<Longrightarrow> h \<notin> so_abandoned c"
    and "so_procs c h = Some True \<Longrightarrow> h \<in> so_abandoned c \<or> (\<exists>i. slot_handle (so_slot c i) = Some h)"
    and "h \<in> so_abandoned c \<Longrightarrow> so_procs c h \<noteq> None"
  using assms unfolding slots_ok_def by blast+

text \<open>A slot that keeps its process, or that gives up a process that has ended, keeps the invariant.\<close>

lemma put_slot_same:
  assumes "slots_ok c" "slot_handle x = slot_handle (so_slot c i)"
  shows "slots_ok (put_slot i x c)"
proof -
  have "slot_handle (so_slot (put_slot i x c) j) = slot_handle (so_slot c j)" for j
    using assms(2) by simp
  then show ?thesis using assms(1) unfolding slots_ok_def by simp
qed

lemma put_slot_free:
  assumes "slots_ok c" "\<And>h. slot_handle (so_slot c i) = Some h \<Longrightarrow> so_procs c h = Some False"
  shows "slots_ok (put_slot i Free c)"
  unfolding slots_ok_def
proof (intro conjI allI impI ballI)
  fix h assume "so_procs (put_slot i Free c) h = Some True"
  then have t: "so_procs c h = Some True" by simp
  then have "h \<in> so_abandoned c \<or> (\<exists>j. slot_handle (so_slot c j) = Some h)"
    using slots_okD(4) [OF assms(1)] by blast
  moreover have "slot_handle (so_slot c i) \<noteq> Some h" using assms(2) t by fastforce
  ultimately show "h \<in> so_abandoned (put_slot i Free c)
      \<or> (\<exists>j. slot_handle (so_slot (put_slot i Free c) j) = Some h)"
    by (metis put_slot_sel(1) put_slot_sel(3))
qed (use slots_okD [OF assms(1)] in \<open>auto split: if_splits\<close>)

lemma slot_step_ok: "slot_step c c' \<Longrightarrow> slots_ok c \<Longrightarrow> slots_ok c'"
proof (induction rule: slot_step.induct)
  case (spawn c i t h)
  have n: "slot_handle (so_slot c j) \<noteq> Some h" for j
    using slots_okD(2) [OF spawn.prems] spawn.hyps(2) by blast
  have na: "h \<notin> so_abandoned c" using slots_okD(5) [OF spawn.prems] spawn.hyps(2) by blast
  have "slot_handle (so_slot c i) = None" using spawn.hyps(1) by simp
  then have live: "so_procs c k = Some True \<Longrightarrow> k \<in> so_abandoned c \<or> (\<exists>j. j \<noteq> i \<and> slot_handle (so_slot c j) = Some k)" for k
    using slots_okD(4) [OF spawn.prems, of k] by (metis option.distinct(1))
  show ?case
    unfolding slots_ok_def
    using n na live slots_okD(1,2,3,5) [OF spawn.prems] spawn.hyps by (auto dest!: live)
next
  case (spawn_abandoned c i t h)
  have n: "slot_handle (so_slot c j) \<noteq> Some h" for j
    using slots_okD(2) [OF spawn_abandoned.prems] spawn_abandoned.hyps(2) by blast
  show ?case
    unfolding slots_ok_def using n slots_okD [OF spawn_abandoned.prems] spawn_abandoned.hyps by auto
next
  case (spawn_dead c i t h)
  have n: "slot_handle (so_slot c j) \<noteq> Some h" for j
    using slots_okD(2) [OF spawn_dead.prems] spawn_dead.hyps(2) by blast
  show ?case
    unfolding slots_ok_def using n slots_okD [OF spawn_dead.prems] by auto
next
  case (exit c h)
  then show ?case unfolding slots_ok_def by auto
qed (auto intro!: put_slot_same put_slot_free)

lemma slot_steps_ok: "slot_step\<^sup>*\<^sup>* c c' \<Longrightarrow> slots_ok c \<Longrightarrow> slots_ok c'"
  by (induction rule: rtranclp_induct) (auto intro: slot_step_ok)

end
