(* ===== verification/Airlock_Sim.thy ===== *)
theory Airlock_Sim
  imports Airlock_Slots
begin

text \<open>
  The forward simulation from the interleaved requests to the machine of Airlock_Slots: every step of
  a request is some steps of the machine.
\<close>

section \<open>Who owns a slot\<close>

fun starting_of :: "launch_phase \<Rightarrow> (string \<times> nat option) option" where
  "starting_of (StartHash i at st) = Some (i, None)"
| "starting_of (StartAttest i at st path f) = Some (i, None)"
| "starting_of (StartAbort i st ob ck) = Some (i, None)"
| "starting_of (StartLaunch i at st d) = Some (i, None)"
| "starting_of (StartFinish i at st launched) = Some (i, case launched of Inl _ \<Rightarrow> None | Inr h \<Rightarrow> Some h)"
| "starting_of _ = None"

fun stopping_of :: "launch_phase \<Rightarrow> (string \<times> nat) option" where
  "stopping_of (StopHandle m i st r) = Some (i, pr_handle r)"
| "stopping_of (StopFinish m i st r e) = Some (i, pr_handle r)"
| "stopping_of _ = None"

definition starting_at :: "launch_state \<Rightarrow> nat \<Rightarrow> (string \<times> nat option) option" where
  "starting_at s t = (case ls_threads s t of None \<Rightarrow> None | Some ph \<Rightarrow> starting_of ph)"

definition stopping_at :: "launch_state \<Rightarrow> nat \<Rightarrow> (string \<times> nat) option" where
  "stopping_at s t = (case ls_threads s t of None \<Rightarrow> None | Some ph \<Rightarrow> stopping_of ph)"

lemma goto_sel [simp]:
  "ls_life (goto t ph s) = ls_life s" "ls_procs (goto t ph s) = ls_procs s" "ls_log (goto t ph s) = ls_log s"
  "ls_threads (goto t ph s) = (ls_threads s)(t \<mapsto> ph)"
  "starting_at (goto t ph s) u = (if u = t then starting_of ph else starting_at s u)"
  "stopping_at (goto t ph s) u = (if u = t then stopping_of ph else stopping_at s u)"
  by (simp_all add: goto_def starting_at_def stopping_at_def)

lemma section_goto_sel [simp]:
  "ls_life (section_goto t res f s) = fst (fst res)" "ls_procs (section_goto t res f s) = snd (fst res)"
  "ls_log (section_goto t res f s) = ls_log s"
  "ls_threads (section_goto t res f s) = (ls_threads s)(t \<mapsto> f (snd res))"
  "starting_at (section_goto t res f s) u = (if u = t then starting_of (f (snd res)) else starting_at s u)"
  "stopping_at (section_goto t res f s) u = (if u = t then stopping_of (f (snd res)) else stopping_at s u)"
  by (simp_all add: section_goto_def goto_def starting_at_def stopping_at_def)

lemma record_log_sel [simp]:
  "ls_life (record_log e s) = ls_life s" "ls_procs (record_log e s) = ls_procs s"
  "ls_log (record_log e s) = e # ls_log s" "ls_threads (record_log e s) = ls_threads s"
  "starting_at (record_log e s) = starting_at s" "stopping_at (record_log e s) = stopping_at s"
  by (simp_all add: record_log_def starting_at_def stopping_at_def fun_eq_iff)

lemma spawn_sel [simp]:
  "ls_life (spawn h p s) = ls_life s" "ls_log (spawn h p s) = ls_log s" "ls_threads (spawn h p s) = ls_threads s"
  "ls_procs (spawn h p s) = (ls_procs s)(h \<mapsto> p)"
  "starting_at (spawn h p s) = starting_at s" "stopping_at (spawn h p s) = stopping_at s"
  by (simp_all add: spawn_def starting_at_def stopping_at_def fun_eq_iff)

lemma life_update_sel [simp]:
  "starting_at (s\<lparr>ls_life := l\<rparr>) = starting_at s" "stopping_at (s\<lparr>ls_life := l\<rparr>) = stopping_at s"
  "starting_at (s\<lparr>ls_life := l, ls_procs := p\<rparr>) = starting_at s"
  "stopping_at (s\<lparr>ls_life := l, ls_procs := p\<rparr>) = stopping_at s"
  by (simp_all add: starting_at_def stopping_at_def fun_eq_iff)

lemma at_phase:
  "ls_threads s t = Some ph \<Longrightarrow> starting_at s t = starting_of ph"
  "ls_threads s t = Some ph \<Longrightarrow> stopping_at s t = stopping_of ph"
  "ls_threads s t = None \<Longrightarrow> starting_at s t = None"
  "ls_threads s t = None \<Longrightarrow> stopping_at s t = None"
  by (simp_all add: starting_at_def stopping_at_def)

section \<open>The relation\<close>

definition slot_rel :: "lifecycle \<Rightarrow> slot \<Rightarrow> string \<Rightarrow> bool" where
  "slot_rel l x i \<longleftrightarrow>
     (case x of
        Free \<Rightarrow> lc_starting l i = None \<and> lc_running l i = None \<and> lc_stopping l i = None
      | Starting t n \<Rightarrow> lc_starting l i \<noteq> None \<and> lc_running l i = None \<and> lc_stopping l i = None
      | Running h \<Rightarrow> lc_starting l i = None \<and> map_option pr_handle (lc_running l i) = Some h \<and> lc_stopping l i = None
      | Stopping t h \<Rightarrow> lc_starting l i = None \<and> lc_running l i = None \<and> map_option pr_handle (lc_stopping l i) = Some h)"

definition sim :: "launch_state \<Rightarrow> slots \<Rightarrow> bool" where
  "sim s c \<longleftrightarrow>
     (\<forall>i. slot_rel (ls_life s) (so_slot c i) i)
     \<and> (\<forall>t i n. so_slot c i = Starting t n \<longleftrightarrow> starting_at s t = Some (i, n))
     \<and> (\<forall>t i h. so_slot c i = Stopping t h \<longleftrightarrow> stopping_at s t = Some (i, h))
     \<and> (\<forall>h. so_procs c h = map_option (\<lambda>p. p = Alive) (ls_procs s h))
     \<and> (\<forall>h. h \<in> so_abandoned c \<longleftrightarrow> LAbandoned h \<in> set (ls_log s))"

lemma simD:
  assumes "sim s c"
  shows "slot_rel (ls_life s) (so_slot c i) i"
    and "so_slot c i = Starting t n \<longleftrightarrow> starting_at s t = Some (i, n)"
    and "so_slot c i = Stopping t h \<longleftrightarrow> stopping_at s t = Some (i, h)"
    and "so_procs c h = map_option (\<lambda>p. p = Alive) (ls_procs s h)"
    and "h \<in> so_abandoned c \<longleftrightarrow> LAbandoned h \<in> set (ls_log s)"
  using assms unfolding sim_def by blast+

lemma sim_init: "sim init_state slots_init"
  by (simp add: sim_def slot_rel_def slots_init_def init_state_def new_lifecycle_def starting_at_def stopping_at_def)

text \<open>A step that changes no map and no ownership.\<close>

lemma sim_same:
  assumes "sim s c" "ls_life s' = ls_life s" "starting_at s' = starting_at s" "stopping_at s' = stopping_at s"
    and "ls_procs s' = ls_procs s" "\<And>h. LAbandoned h \<in> set (ls_log s') \<longleftrightarrow> LAbandoned h \<in> set (ls_log s)"
  shows "sim s' c"
  using assms unfolding sim_def by simp

text \<open>A step of thread \<open>t\<close> on the slot of \<open>i\<close>.\<close>

definition same_elsewhere :: "string \<Rightarrow> lifecycle \<Rightarrow> lifecycle \<Rightarrow> bool" where
  "same_elsewhere i l l' \<longleftrightarrow> (\<forall>j. j \<noteq> i \<longrightarrow> lc_starting l' j = lc_starting l j \<and> lc_running l' j = lc_running l j
     \<and> lc_stopping l' j = lc_stopping l j)"

lemma slot_rel_elsewhere: "same_elsewhere i l l' \<Longrightarrow> j \<noteq> i \<Longrightarrow> slot_rel l' x j = slot_rel l x j"
  by (simp add: same_elsewhere_def slot_rel_def split: slot.splits)

fun owner :: "slot \<Rightarrow> nat option" where
  "owner (Starting t n) = Some t"
| "owner (Stopping t h) = Some t"
| "owner _ = None"

definition slot_owned :: "nat \<Rightarrow> string \<Rightarrow> slot \<Rightarrow> (string \<times> nat option) option \<Rightarrow> (string \<times> nat) option \<Rightarrow> bool" where
  "slot_owned t i x a b \<longleftrightarrow> (\<forall>j n. a = Some (j, n) \<longleftrightarrow> j = i \<and> x = Starting t n) \<and> (\<forall>j h. b = Some (j, h) \<longleftrightarrow> j = i \<and> x = Stopping t h)"

lemma owned_None [simp]: "slot_owned t i x None None \<longleftrightarrow> owner x \<noteq> Some t"
  by (cases x) (auto simp: slot_owned_def)

lemma sim_owned:
  assumes "sim s c" "ls_threads s t = Some ph" "starting_of ph = Some (i, n) \<or> stopping_of ph = Some (i, h)"
  shows "slot_owned t i (so_slot c i) (starting_at s t) (stopping_at s t)"
proof -
  have a: "starting_at s t = starting_of ph" "stopping_at s t = stopping_of ph" using assms(2) by (simp_all add: at_phase)
  consider "starting_of ph = Some (i, n)" "stopping_of ph = None" | "stopping_of ph = Some (i, h)" "starting_of ph = None"
    using assms(3) by (cases ph) auto
  then show ?thesis
  proof cases
    case 1
    then have "so_slot c i = Starting t n" using simD(2) [OF assms(1)] a by simp
    then show ?thesis using 1 a by (auto simp: slot_owned_def)
  next
    case 2
    then have "so_slot c i = Stopping t h" using simD(3) [OF assms(1)] a by simp
    then show ?thesis using 2 a by (auto simp: slot_owned_def)
  qed
qed

lemma sim_put:
  assumes sim: "sim s c"
    and life: "same_elsewhere i (ls_life s) (ls_life s')" "slot_rel (ls_life s') x i"
    and threads: "\<And>u. u \<noteq> t \<Longrightarrow> starting_at s' u = starting_at s u" "\<And>u. u \<noteq> t \<Longrightarrow> stopping_at s' u = stopping_at s u"
    and old: "slot_owned t i (so_slot c i) (starting_at s t) (stopping_at s t)" "owner (so_slot c i) \<in> {None, Some t}"
    and new: "slot_owned t i x (starting_at s' t) (stopping_at s' t)" "owner x \<in> {None, Some t}"
    and rest: "\<And>h. so_procs c' h = map_option (\<lambda>p. p = Alive) (ls_procs s' h)"
      "\<And>h. h \<in> so_abandoned c' \<longleftrightarrow> LAbandoned h \<in> set (ls_log s')" "so_slot c' = (so_slot c)(i := x)"
  shows "sim s' c'"
  unfolding sim_def
proof (intro conjI allI)
  fix j show "slot_rel (ls_life s') (so_slot c' j) j"
    using life simD(1) [OF sim, of j] slot_rel_elsewhere [OF life(1)] by (cases "j = i") (simp_all add: rest(3))
next
  fix u j n show "so_slot c' j = Starting u n \<longleftrightarrow> starting_at s' u = Some (j, n)"
  proof (cases "u = t")
    case True
    have "so_slot c j = Starting t n \<Longrightarrow> j = i" using simD(2) [OF sim, of j t n] old(1) by (auto simp: slot_owned_def)
    then show ?thesis using new(1) True by (auto simp: slot_owned_def rest(3))
  next
    case False
    have "so_slot c i \<noteq> Starting u n" using old(2) False by auto
    moreover have "x \<noteq> Starting u n" using new(2) False by auto
    ultimately show ?thesis using simD(2) [OF sim, of j u n] threads(1) [OF False] by (auto simp: rest(3))
  qed
next
  fix u j h show "so_slot c' j = Stopping u h \<longleftrightarrow> stopping_at s' u = Some (j, h)"
  proof (cases "u = t")
    case True
    have "so_slot c j = Stopping t h \<Longrightarrow> j = i" using simD(3) [OF sim, of j t h] old(1) by (auto simp: slot_owned_def)
    then show ?thesis using new(1) True by (auto simp: slot_owned_def rest(3))
  next
    case False
    have "so_slot c i \<noteq> Stopping u h" using old(2) False by auto
    moreover have "x \<noteq> Stopping u h" using new(2) False by auto
    ultimately show ?thesis using simD(3) [OF sim, of j u h] threads(2) [OF False] by (auto simp: rest(3))
  qed
qed (use rest in auto)

section \<open>The sections\<close>

lemma goto_neutral:
  assumes "sim s c" "starting_at s t = None" "stopping_at s t = None" "starting_of ph = None" "stopping_of ph = None"
  shows "sim (goto t ph s) c"
  by (rule sim_same [OF assms(1)]) (use assms in \<open>auto simp: fun_eq_iff\<close>)

definition with_store :: "lifecycle \<times> procs \<Rightarrow> launch_state \<Rightarrow> launch_state" where
  "with_store lp s = s\<lparr>ls_life := fst lp, ls_procs := snd lp\<rparr>"

lemma with_store_sel [simp]:
  "ls_life (with_store lp s) = fst lp" "ls_procs (with_store lp s) = snd lp" "ls_log (with_store lp s) = ls_log s"
  "ls_threads (with_store lp s) = ls_threads s"
  "starting_at (with_store lp s) = starting_at s" "stopping_at (with_store lp s) = stopping_at s"
  by (simp_all add: with_store_def starting_at_def stopping_at_def fun_eq_iff)

lemma section_goto_eq: "section_goto t res f s = goto t (f (snd res)) (with_store (fst res) s)"
  by (simp add: section_goto_def with_store_def)

lemma reap_cases:
  obtains "reap i now (l, p) = (l, p)"
  | r e where "lc_running l i = Some r" "p (pr_handle r) = Some (Exited e)"
      "reap i now (l, p) = (l\<lparr>lc_running := (lc_running l)(i := None),
         lc_exits := (lc_exits l)(i \<mapsto> \<lparr>xr_at = now, xr_reason = exit_reason e\<rparr>)\<rparr>, p(pr_handle r \<mapsto> Exited None))"
proof (cases "\<exists>r e. lc_running l i = Some r \<and> p (pr_handle r) = Some (Exited e)")
  case True
  then show ?thesis using that(2) by (auto simp: reap_def)
next
  case False
  then have "reap i now (l, p) = (l, p)" by (auto simp: reap_def split: option.splits proc.splits)
  then show ?thesis by (rule that(1))
qed

lemma reap_sim:
  assumes "sim s c"
  shows "\<exists>c'. slot_step\<^sup>*\<^sup>* c c' \<and> sim (with_store (reap i now (store_of s)) s) c'"
proof (cases rule: reap_cases [of i now "ls_life s" "ls_procs s"])
  case 1
  have "sim (with_store (reap i now (store_of s)) s) c" by (rule sim_same [OF assms]) (simp_all add: 1)
  then show ?thesis by blast
next
  case (2 r e)
  have "slot_rel (ls_life s) (so_slot c i) i" using simD(1) [OF assms] .
  then have x: "so_slot c i = Running (pr_handle r)"
    using 2(1) by (cases "so_slot c i") (auto simp: slot_rel_def)
  have "so_procs c (pr_handle r) = Some False" using simD(4) [OF assms, of "pr_handle r"] 2(2) by simp
  then have st: "slot_step c (put_slot i Free c)" using x slot_step.reap by blast
  have n: "so_slot c i \<noteq> Starting u n" "so_slot c i \<noteq> Stopping u h" for u n h using x by auto
  have "sim (with_store (reap i now (store_of s)) s) (put_slot i Free c)"
    unfolding sim_def
  proof (intro conjI allI)
    fix j show "slot_rel (ls_life (with_store (reap i now (store_of s)) s)) (so_slot (put_slot i Free c) j) j"
      using simD(1) [OF assms, of j] x by (auto simp: 2(3) slot_rel_def split: slot.splits)
  next
    fix u j m
    show "so_slot (put_slot i Free c) j = Starting u m \<longleftrightarrow>
        starting_at (with_store (reap i now (store_of s)) s) u = Some (j, m)"
      using simD(2) [OF assms, of j u m] n by auto
  next
    fix u j h
    show "so_slot (put_slot i Free c) j = Stopping u h \<longleftrightarrow>
        stopping_at (with_store (reap i now (store_of s)) s) u = Some (j, h)"
      using simD(3) [OF assms, of j u h] n by auto
  qed (use simD(4,5) [OF assms] 2 in auto)
  with st show ?thesis by blast
qed

lemma reap_keeps:
  "lc_starting (fst (reap i now lp)) = lc_starting (fst lp)" "lc_stopping (fst (reap i now lp)) = lc_stopping (fst lp)"
  by (cases lp; simp add: reap_def split: option.splits proc.splits)+

lemma section_stores [simp]:
  "fst (with_lifecycle_status cf now st lp) = reap (sd_ID (sst_Server st)) now lp"
  "fst (start_first cf now i st lp) = reap i now lp"
  by (simp_all add: with_lifecycle_status_def start_first_def Let_def)

lemma active_None: "active_start_status cf l i s = None \<longleftrightarrow> lc_starting l i = None \<and> lc_running l i = None \<and> lc_stopping l i = None"
  by (auto simp: active_start_status_def Let_def split: option.splits)

lemma start_admit_cases:
  obtains st' where "start_admit cf now i st lp = (reap i now lp, Refused st')"
  | l p where "reap i now lp = (l, p)" "lc_starting l i = None" "lc_running l i = None" "lc_stopping l i = None"
      "sst_Ready st" "sst_ExecutableAttestation st = AttestationApproved"
      "start_admit cf now i st lp = ((l\<lparr>lc_starting := (lc_starting l)(i \<mapsto> now)\<rparr>, p),
        Admitted (set_state ''ready'' ''Airlock launch preflight passed.''
                  (without_check ''lifecycle'' (st\<lparr>sst_Running := False, sst_StartedAt := []\<rparr>))))"
proof -
  obtain l p where lp: "reap i now lp = (l, p)" by (metis prod.exhaust)
  show ?thesis
  proof (cases "active_start_status cf l i st = None \<and> sst_Ready st \<and> sst_ExecutableAttestation st = AttestationApproved")
    case True
    then have "lc_starting l i = None" "lc_running l i = None" "lc_stopping l i = None" by (simp_all add: active_None)
    moreover have "start_admit cf now i st lp = ((l\<lparr>lc_starting := (lc_starting l)(i \<mapsto> now)\<rparr>, p),
        Admitted (set_state ''ready'' ''Airlock launch preflight passed.''
                  (without_check ''lifecycle'' (st\<lparr>sst_Running := False, sst_StartedAt := []\<rparr>))))"
      using True by (simp add: start_admit_def lp)
    ultimately show ?thesis using that(2) lp True by blast
  next
    case False
    then have "\<exists>st'. start_admit cf now i st lp = (reap i now lp, Refused st')"
      by (auto simp: start_admit_def lp split: option.split)
    then show ?thesis using that(1) by blast
  qed
qed

lemma stop_first_cases:
  obtains st' where "stop_first cf now i st lp = (reap i now lp, StopRefused st')"
  | l p r where "reap i now lp = (l, p)" "lc_starting l i = None" "lc_running l i = Some r" "lc_stopping l i = None"
      "stop_first cf now i st lp =
        ((l\<lparr>lc_running := (lc_running l)(i := None), lc_stopping := (lc_stopping l)(i \<mapsto> r)\<rparr>, p), StopProcess r)"
proof -
  obtain l p where lp: "reap i now lp = (l, p)" by (metis prod.exhaust)
  show ?thesis
  proof (cases "\<exists>r. lc_starting l i = None \<and> lc_running l i = Some r \<and> lc_stopping l i = None")
    case True
    then obtain r where r: "lc_starting l i = None" "lc_running l i = Some r" "lc_stopping l i = None" by blast
    then have "stop_first cf now i st lp =
        ((l\<lparr>lc_running := (lc_running l)(i := None), lc_stopping := (lc_stopping l)(i \<mapsto> r)\<rparr>, p), StopProcess r)"
      by (simp add: stop_first_def lp)
    then show ?thesis using that(2) lp r by blast
  next
    case False
    then have "\<exists>st'. stop_first cf now i st lp = (reap i now lp, StopRefused st')"
      by (auto simp: stop_first_def lp split: option.split)
    then show ?thesis using that(1) by blast
  qed
qed

lemma stop_finish_cases:
  obtains "failure = None" "fst (stop_finish cf now i r st failure (l, p)) =
      (l\<lparr>lc_stopping := (lc_stopping l)(i := None), lc_exits := (lc_exits l)(i \<mapsto> \<lparr>xr_at = now, xr_reason = ''stopped by user''\<rparr>)\<rparr>, p)"
  | e where "failure \<noteq> None" "p (pr_handle r) = Some (Exited e)" "fst (stop_finish cf now i r st failure (l, p)) =
      (l\<lparr>lc_stopping := (lc_stopping l)(i := None), lc_exits := (lc_exits l)(i \<mapsto> \<lparr>xr_at = now, xr_reason = exit_reason e\<rparr>)\<rparr>,
       p(pr_handle r \<mapsto> Exited None))"
  | "failure \<noteq> None" "fst (stop_finish cf now i r st failure (l, p)) =
      (l\<lparr>lc_running := (lc_running l)(i \<mapsto> r), lc_stopping := (lc_stopping l)(i := None)\<rparr>, p)"
proof (cases failure)
  case None
  then show ?thesis using that(1) by (simp add: stop_finish_def)
next
  case (Some f)
  show ?thesis
  proof (cases "\<exists>e. p (pr_handle r) = Some (Exited e)")
    case True
    then show ?thesis using that(2) Some by (auto simp: stop_finish_def restore_after_stop_failure_def)
  next
    case False
    then have "fst (stop_finish cf now i r st failure (l, p)) =
      (l\<lparr>lc_running := (lc_running l)(i \<mapsto> r), lc_stopping := (lc_stopping l)(i := None)\<rparr>, p)"
      using Some by (auto simp: stop_finish_def restore_after_stop_failure_def Let_def split: option.splits proc.splits)
    then show ?thesis using that(3) Some by blast
  qed
qed

section \<open>A process that has ended stays ended\<close>

definition ended :: "procs \<Rightarrow> nat \<Rightarrow> bool" where
  "ended p h \<longleftrightarrow> (\<exists>e. p h = Some (Exited e))"

lemma ended_upd [simp]: "ended (p(k \<mapsto> Exited e)) h \<longleftrightarrow> h = k \<or> ended p h"
  by (auto simp: ended_def)

lemma ended_fresh: "p k = None \<Longrightarrow> ended p h \<Longrightarrow> ended (p(k \<mapsto> x)) h"
  by (auto simp: ended_def)

lemma ended_reap: "ended p h \<Longrightarrow> ended (snd (reap i now (l, p))) h"
  by (cases rule: reap_cases [of i now l p]) auto

lemma ended_stop_finish: "ended p h \<Longrightarrow> ended (snd (fst (stop_finish cf now i r st failure (l, p)))) h"
  by (cases rule: stop_finish_cases [of failure cf now i r st l p]) auto

lemma ended_start_admit: "ended p h \<Longrightarrow> ended (snd (fst (start_admit cf now i st (l, p)))) h"
  using ended_reap [of p h i now l] by (cases rule: start_admit_cases [of cf now i st "(l, p)"]) auto

lemma ended_stop_first: "ended p h \<Longrightarrow> ended (snd (fst (stop_first cf now i st (l, p)))) h"
  using ended_reap [of p h i now l] by (cases rule: stop_first_cases [of cf now i st "(l, p)"]) auto

lemma step_ended: "launch_step cf s s' \<Longrightarrow> ended (ls_procs s) h \<Longrightarrow> ended (ls_procs s') h"
  by (induction rule: launch_step.induct)
    (auto intro: ended_reap ended_stop_finish ended_start_admit ended_stop_first ended_fresh)

definition stops_ended :: "launch_state \<Rightarrow> bool" where
  "stops_ended s \<longleftrightarrow> (\<forall>t m i st r. ls_threads s t = Some (StopFinish m i st r None) \<longrightarrow> ended (ls_procs s) (pr_handle r))"

lemma stop_answer_not_finish [simp]:
  "stop_answer m st \<noteq> StopFinish m' i st' r e" "stop_unknown m j \<noteq> StopFinish m' i st' r e"
  by (cases "(m, st)" rule: stop_answer.cases; simp) (cases "(m, j)" rule: stop_unknown.cases; simp)

lemma step_stops_ended:
  assumes "launch_step cf s s'" "stops_ended s"
  shows "stops_ended s'"
proof -
  have keep: "stops_ended s'"
    if "\<And>t m i st r. ls_threads s' t = Some (StopFinish m i st r None) \<Longrightarrow>
          ls_threads s t = Some (StopFinish m i st r None) \<or> ended (ls_procs s') (pr_handle r)"
    using that assms(2) step_ended [OF assms(1)] unfolding stops_ended_def by blast
  from assms(1) show ?thesis
    by (cases rule: launch_step.cases; intro keep)
      (auto simp: after_first_def after_merge_def after_admit_def after_stop_first_def
        split: if_splits option.splits admission.splits stop_decision.splits list.splits)
qed

end
