(* ===== verification/Airlock_Life.thy ===== *)
theory Airlock_Life
  imports Airlock_Sim
begin

text \<open>
  Every step of the requests is simulated by the machine of slots, and what follows for the maps of
  the lifecycle store and the processes in every reachable state.
\<close>

section \<open>Steps on one slot\<close>

text \<open>Thread \<open>t\<close> in a phase that owns the slot of \<open>i\<close>.\<close>

lemma starting_slot:
  assumes "sim s c" "ls_threads s t = Some ph" "starting_of ph = Some (i, n)"
  shows "so_slot c i = Starting t n" "slot_owned t i (so_slot c i) (starting_at s t) (stopping_at s t)"
  using simD(2) [OF assms(1), of i t n] sim_owned [OF assms(1,2), of i n 0] assms(2,3) by (simp_all add: at_phase)

lemma stopping_slot:
  assumes "sim s c" "ls_threads s t = Some ph" "stopping_of ph = Some (i, h)"
  shows "so_slot c i = Stopping t h" "slot_owned t i (so_slot c i) (starting_at s t) (stopping_at s t)"
  using simD(3) [OF assms(1), of i t h] sim_owned [OF assms(1,2), of i None h] assms(2,3) by (simp_all add: at_phase)

lemma stop_answer_no_owner [simp]: "starting_of (stop_answer m x) = None" "stopping_of (stop_answer m x) = None"
  by (cases "(m, x)" rule: stop_answer.cases; simp)+

lemma stop_unknown_no_owner [simp]: "starting_of (stop_unknown m j) = None" "stopping_of (stop_unknown m j) = None"
  by (cases "(m, j)" rule: stop_unknown.cases; simp)+

lemma owned_start [simp]: "slot_owned t i (Starting t n) (Some (i, n)) None"
  by (auto simp: slot_owned_def)

lemma owned_stop [simp]: "slot_owned t i (Stopping t h) None (Some (i, h))"
  by (auto simp: slot_owned_def)

lemma free_slot:
  assumes "sim s c" "lc_starting (ls_life s) i = None" "lc_running (ls_life s) i = None" "lc_stopping (ls_life s) i = None"
  shows "so_slot c i = Free"
  using simD(1) [OF assms(1), of i] assms(2-) by (cases "so_slot c i") (auto simp: slot_rel_def)

lemma running_slot:
  assumes "sim s c" "lc_running (ls_life s) i = Some r"
  shows "so_slot c i = Running (pr_handle r)"
  using simD(1) [OF assms(1), of i] assms(2) by (cases "so_slot c i") (auto simp: slot_rel_def)

lemma starting_life:
  assumes "sim s c" "so_slot c i = Starting t n"
  shows "lc_starting (ls_life s) i \<noteq> None" "lc_running (ls_life s) i = None" "lc_stopping (ls_life s) i = None"
  using simD(1) [OF assms(1), of i] assms(2) by (auto simp: slot_rel_def)

lemma stopping_life:
  assumes "sim s c" "so_slot c i = Stopping t h"
  shows "lc_starting (ls_life s) i = None" "lc_running (ls_life s) i = None"
  using simD(1) [OF assms(1), of i] assms(2) by (auto simp: slot_rel_def)

lemma admit_sim:
  assumes sim: "sim s c" and ph: "ls_threads s t = Some (StartAdmit i st)"
  shows "\<exists>c'. slot_step\<^sup>*\<^sup>* c c' \<and> sim (section_goto t (start_admit cf now i st (store_of s)) (after_admit i now) s) c'"
proof -
  obtain c1 where c1: "slot_step\<^sup>*\<^sup>* c c1" "sim (with_store (reap i now (store_of s)) s) c1"
    using reap_sim [OF sim] by blast
  let ?s1 = "with_store (reap i now (store_of s)) s"
  have none: "starting_at s t = None" "stopping_at s t = None" using ph by (simp_all add: at_phase)
  show ?thesis
  proof (cases rule: start_admit_cases [of cf now i st "store_of s"])
    case (1 st')
    have "sim (goto t (Answered (Status st')) ?s1) c1" using c1(2) none by (intro goto_neutral) simp_all
    then show ?thesis using c1(1) by (auto simp: 1 section_goto_eq after_admit_def)
  next
    case (2 l p)
    have free: "so_slot c1 i = Free" using free_slot [OF c1(2), of i] 2(1-4) by simp
    have "sim (section_goto t (start_admit cf now i st (store_of s)) (after_admit i now) s) (put_slot i (Starting t None) c1)"
      by (rule sim_put [OF c1(2), of i _ "Starting t None" t])
        (use 2 none free simD(4,5) [OF c1(2)] in \<open>simp_all add: after_admit_def same_elsewhere_def slot_rel_def fun_eq_iff\<close>)
    moreover have "slot_step c1 (put_slot i (Starting t None) c1)" using free by (rule slot_step.admit)
    ultimately show ?thesis using c1(1) by (meson rtranclp.rtrancl_into_rtrancl)
  qed
qed

lemma stop_first_sim:
  assumes sim: "sim s c" and ph: "ls_threads s t = Some (StopFirst m i st)"
  shows "\<exists>c'. slot_step\<^sup>*\<^sup>* c c' \<and> sim (section_goto t (stop_first cf now i st (store_of s)) (after_stop_first m i st) s) c'"
proof -
  obtain c1 where c1: "slot_step\<^sup>*\<^sup>* c c1" "sim (with_store (reap i now (store_of s)) s) c1"
    using reap_sim [OF sim] by blast
  let ?s1 = "with_store (reap i now (store_of s)) s"
  have none: "starting_at s t = None" "stopping_at s t = None" using ph by (simp_all add: at_phase)
  show ?thesis
  proof (cases rule: stop_first_cases [of cf now i st "store_of s"])
    case (1 st')
    have "sim (goto t (stop_answer m st') ?s1) c1" using c1(2) none by (intro goto_neutral) simp_all
    then show ?thesis using c1(1) by (auto simp: 1 section_goto_eq after_stop_first_def)
  next
    case (2 l p r)
    have run: "so_slot c1 i = Running (pr_handle r)" using running_slot [OF c1(2), of i r] 2(1,3) by simp
    have "sim (section_goto t (stop_first cf now i st (store_of s)) (after_stop_first m i st) s)
        (put_slot i (Stopping t (pr_handle r)) c1)"
      by (rule sim_put [OF c1(2), of i _ "Stopping t (pr_handle r)" t])
        (use 2 none run simD(4,5) [OF c1(2)] in \<open>simp_all add: after_stop_first_def same_elsewhere_def slot_rel_def fun_eq_iff\<close>)
    moreover have "slot_step c1 (put_slot i (Stopping t (pr_handle r)) c1)" using run by (rule slot_step.stop)
    ultimately show ?thesis using c1(1) by (meson rtranclp.rtrancl_into_rtrancl)
  qed
qed

lemma stop_finish_sim:
  assumes sim: "sim s c" and ended: "stops_ended s" and ph: "ls_threads s t = Some (StopFinish m i st r failure)"
  shows "\<exists>c'. slot_step c c' \<and> sim (section_goto t (stop_finish cf now i r st failure (store_of s)) (stop_answer m) s) c'"
proof -
  have slot: "so_slot c i = Stopping t (pr_handle r)" "slot_owned t i (so_slot c i) (starting_at s t) (stopping_at s t)"
    using stopping_slot [OF sim ph] by simp_all
  have lc: "lc_starting (ls_life s) i = None" "lc_running (ls_life s) i = None"
    using stopping_life [OF sim slot(1)] by simp_all
  let ?s' = "section_goto t (stop_finish cf now i r st failure (store_of s)) (stop_answer m) s"
  have dead: "so_procs c (pr_handle r) = Some False" if "ended (ls_procs s) (pr_handle r)"
    using simD(4) [OF sim, of "pr_handle r"] that by (auto simp: ended_def)
  show ?thesis
  proof (cases rule: stop_finish_cases [of failure cf now i r st "ls_life s" "ls_procs s"])
    case 1
    have "ended (ls_procs s) (pr_handle r)" using ended ph 1(1) unfolding stops_ended_def by blast
    then have "slot_step c (put_slot i Free c)" using slot(1) dead by (blast intro: slot_step.stopped)
    moreover have "sim ?s' (put_slot i Free c)"
      by (rule sim_put [OF sim, of i _ Free t])
        (use 1 slot lc simD(4,5) [OF sim] in \<open>simp_all add: same_elsewhere_def slot_rel_def fun_eq_iff\<close>)
    ultimately show ?thesis by blast
  next
    case (2 e)
    then have "ended (ls_procs s) (pr_handle r)" by (simp add: ended_def)
    then have "slot_step c (put_slot i Free c)" using slot(1) dead by (blast intro: slot_step.stopped)
    moreover have "sim ?s' (put_slot i Free c)"
      by (rule sim_put [OF sim, of i _ Free t])
        (use 2 slot lc simD(4,5) [OF sim] in \<open>simp_all add: same_elsewhere_def slot_rel_def fun_eq_iff\<close>)
    ultimately show ?thesis by blast
  next
    case 3
    have "slot_step c (put_slot i (Running (pr_handle r)) c)" using slot(1) by (rule slot_step.restore)
    moreover have "sim ?s' (put_slot i (Running (pr_handle r)) c)"
      by (rule sim_put [OF sim, of i _ "Running (pr_handle r)" t])
        (use 3 slot lc simD(4,5) [OF sim] in \<open>simp_all add: same_elsewhere_def slot_rel_def fun_eq_iff\<close>)
    ultimately show ?thesis by blast
  qed
qed

lemma same_owner:
  assumes "sim s c" "ls_threads s t = Some ph" "starting_of ph' = starting_of ph" "stopping_of ph' = stopping_of ph"
  shows "sim (goto t ph' s) c"
  by (rule sim_same [OF assms(1)]) (use assms(2-4) in \<open>auto simp: fun_eq_iff at_phase\<close>)

lemma log_sim: "sim s c \<Longrightarrow> (\<And>h. e \<noteq> LAbandoned h) \<Longrightarrow> sim (record_log e s) c"
  by (rule sim_same [of s c]) auto

lemma reap_goto:
  assumes "sim s c" "fst res = reap i now (store_of s)" "starting_at s t = None" "stopping_at s t = None"
    and "starting_of (f (snd res)) = None" "stopping_of (f (snd res)) = None"
  shows "\<exists>c'. slot_step\<^sup>*\<^sup>* c c' \<and> sim (section_goto t res f s) c'"
proof -
  obtain c1 where c1: "slot_step\<^sup>*\<^sup>* c c1" "sim (with_store (reap i now (store_of s)) s) c1"
    using reap_sim [OF assms(1)] by blast
  have "sim (section_goto t res f s) c1"
    unfolding section_goto_eq assms(2) by (rule goto_neutral [OF c1(2)]) (use assms in simp_all)
  then show ?thesis using c1(1) by blast
qed

lemma spawn_dead_sim:
  assumes "sim s c" "ls_procs s h = None" "so_slot c i = Starting t None"
  shows "slot_step c (put_proc h False c)" "sim (spawn h (Exited e) s) (put_proc h False c)"
proof -
  have "so_procs c h = None" using simD(4) [OF assms(1), of h] assms(2) by simp
  then show "slot_step c (put_proc h False c)" using assms(3) by (blast intro: slot_step.spawn_dead)
  show "sim (spawn h (Exited e) s) (put_proc h False c)"
    using assms(1) unfolding sim_def by simp
qed

lemma abort_sim:
  assumes sim: "sim s c" and ph: "ls_threads s t = Some (StartAbort i st ob ck)"
  shows "\<exists>c'. slot_step c c' \<and> sim (goto t (Answered a) (s\<lparr>ls_life := clear_starting i (ls_life s)\<rparr>)) c'"
proof -
  have slot: "so_slot c i = Starting t None" "slot_owned t i (so_slot c i) (starting_at s t) (stopping_at s t)"
    using starting_slot [OF sim ph] by simp_all
  have "sim (goto t (Answered a) (s\<lparr>ls_life := clear_starting i (ls_life s)\<rparr>)) (put_slot i Free c)"
    by (rule sim_put [OF sim, of i _ Free t])
      (use slot starting_life [OF sim slot(1)] simD(4,5) [OF sim]
        in \<open>simp_all add: clear_starting_def same_elsewhere_def slot_rel_def fun_eq_iff\<close>)
  then show ?thesis using slot_step.abort [of c i t] slot(1) by blast
qed

lemma finish_sim:
  assumes sim: "sim s c" and ph: "ls_threads s t = Some (StartFinish i at st launched)"
  shows "\<exists>c'. slot_step c c' \<and> sim (goto t (Answered a) (s\<lparr>ls_life := fst (start_finish cf at i st launched (ls_life s))\<rparr>)) c'"
proof (cases launched)
  case (Inl e)
  have slot: "so_slot c i = Starting t None" "slot_owned t i (so_slot c i) (starting_at s t) (stopping_at s t)"
    using starting_slot [OF sim ph] by (simp_all add: Inl)
  have "sim (goto t (Answered a) (s\<lparr>ls_life := fst (start_finish cf at i st launched (ls_life s))\<rparr>)) (put_slot i Free c)"
    by (rule sim_put [OF sim, of i _ Free t])
      (use slot starting_life [OF sim slot(1)] simD(4,5) [OF sim]
        in \<open>simp_all add: Inl start_finish_def clear_starting_def same_elsewhere_def slot_rel_def fun_eq_iff\<close>)
  then show ?thesis using slot_step.abort [of c i t] slot(1) by blast
next
  case (Inr h)
  have slot: "so_slot c i = Starting t (Some h)" "slot_owned t i (so_slot c i) (starting_at s t) (stopping_at s t)"
    using starting_slot [OF sim ph] by (simp_all add: Inr)
  have "sim (goto t (Answered a) (s\<lparr>ls_life := fst (start_finish cf at i st launched (ls_life s))\<rparr>)) (put_slot i (Running h) c)"
    by (rule sim_put [OF sim, of i _ "Running h" t])
      (use slot starting_life [OF sim slot(1)] simD(4,5) [OF sim]
        in \<open>simp_all add: Inr start_finish_def Let_def clear_starting_def same_elsewhere_def slot_rel_def fun_eq_iff\<close>)
  then show ?thesis using slot_step.run [of c i t h] slot(1) by blast
qed

lemma launch_done_sim:
  assumes sim: "sim s c" and ph: "ls_threads s t = Some (StartLaunch i at st d)" and new: "ls_procs s h = None"
  shows "\<exists>c'. slot_step c c' \<and> sim (goto t (StartFinish i at st (Inr h)) (spawn h Alive s)) c'"
proof -
  have slot: "so_slot c i = Starting t None" "slot_owned t i (so_slot c i) (starting_at s t) (stopping_at s t)"
    using starting_slot [OF sim ph] by simp_all
  have "so_procs c h = None" using simD(4) [OF sim, of h] new by simp
  then have "slot_step c (put_slot i (Starting t (Some h)) (put_proc h True c))" using slot(1) by (rule slot_step.spawn [rotated])
  moreover have "sim (goto t (StartFinish i at st (Inr h)) (spawn h Alive s)) (put_slot i (Starting t (Some h)) (put_proc h True c))"
    by (rule sim_put [OF sim, of i _ "Starting t (Some h)" t])
      (use slot starting_life [OF sim slot(1)] simD(4,5) [OF sim]
        in \<open>simp_all add: same_elsewhere_def slot_rel_def fun_eq_iff stopping_at_def ph\<close>)
  ultimately show ?thesis by blast
qed

lemma launch_abandoned_sim:
  assumes sim: "sim s c" and ph: "ls_threads s t = Some (StartLaunch i at st d)" and new: "ls_procs s h = None"
  shows "\<exists>c'. slot_step c c' \<and> sim (record_log (LAbandoned h) (goto t (StartFinish i at st (Inl e)) (spawn h Alive s))) c'"
proof -
  have slot: "so_slot c i = Starting t None" using starting_slot [OF sim ph] by simp
  have "so_procs c h = None" using simD(4) [OF sim, of h] new by simp
  then have "slot_step c ((put_proc h True c)\<lparr>so_abandoned := insert h (so_abandoned c)\<rparr>)"
    using slot by (rule slot_step.spawn_abandoned [rotated])
  moreover have "sim (goto t (StartFinish i at st (Inl e)) s) c" using sim ph by (rule same_owner) simp_all
  then have "sim (record_log (LAbandoned h) (goto t (StartFinish i at st (Inl e)) (spawn h Alive s)))
      ((put_proc h True c)\<lparr>so_abandoned := insert h (so_abandoned c)\<rparr>)"
    unfolding sim_def by auto
  ultimately show ?thesis by blast
qed

section \<open>The simulation\<close>

lemma after_no_owner [simp]:
  "starting_of (after_first i d r) = None" "stopping_of (after_first i d r) = None"
  "starting_of (after_merge b i st) = None" "stopping_of (after_merge b i st) = None"
  by (simp_all add: after_first_def after_merge_def split: option.split)

text \<open>A request that owns no slot, before and after: only the log may change.\<close>

lemma idle_sim:
  assumes "sim s c" "case ls_threads s t of None \<Rightarrow> True | Some ph \<Rightarrow> starting_of ph = None \<and> stopping_of ph = None"
    and "starting_of ph' = None" "stopping_of ph' = None"
  shows "sim (goto t ph' s) c"
  using assms by (intro goto_neutral) (auto simp: at_phase split: option.splits)

lemma rtranclp1: "(\<exists>c'. slot_step c c' \<and> P c') \<Longrightarrow> \<exists>c'. slot_step\<^sup>*\<^sup>* c c' \<and> P c'"
  by blast

lemma rtranclp0: "P c \<Longrightarrow> \<exists>c'. slot_step\<^sup>*\<^sup>* c c' \<and> P c'"
  by blast

lemma launch_failed_sim:
  assumes sim: "sim s c" and ph: "ls_threads s t = Some (StartLaunch i at st d)" and new: "ls_procs s h = None"
  shows "\<exists>c'. slot_step c c'
    \<and> sim (record_log (LStarted t i h d) (goto t (StartFinish i at st (Inl e)) (spawn h (Exited None) s))) c'"
proof -
  have "so_slot c i = Starting t None" using starting_slot(1) [OF sim ph] by simp
  note x = spawn_dead_sim [OF sim new this]
  have "sim (goto t (StartFinish i at st (Inl e)) (spawn h (Exited None) s)) (put_proc h False c)"
    by (rule same_owner [OF x(2), where ph = "StartLaunch i at st d"]) (simp_all add: ph)
  then show ?thesis using x(1) log_sim by blast
qed

lemma step_sim:
  assumes "launch_step cf s s'" "sim s c" "stops_ended s"
  shows "\<exists>c'. slot_step\<^sup>*\<^sup>* c c' \<and> sim s' c'"
  using assms
proof (induction rule: launch_step.induct)
  case (call_check s t i)
  then show ?case by (intro rtranclp0 idle_sim) (auto split: option.split)
next
  case (call_start s t i h)
  then show ?case by (intro rtranclp0 idle_sim) (auto split: option.split)
next
  case (call_stop s t i)
  then show ?case by (intro rtranclp0 idle_sim) (auto split: option.split)
next
  case (call_stop_all s t ids)
  then show ?case by (intro rtranclp0 idle_sim) (auto split: list.split)
next
  case (call_list s t)
  then show ?case by (intro rtranclp0 idle_sim) auto
next
  case (check_host s t starting i d hs disk now)
  then show ?case by (intro rtranclp0 log_sim idle_sim) auto
next
  case (check_merge s t starting i st now)
  then show ?case by (intro reap_goto) (auto simp: at_phase)
next
  case (start_first s t i st now)
  then show ?case by (intro reap_goto) (auto simp: at_phase)
next
  case (start_admit s t i st now)
  then show ?case using admit_sim by blast
next
  case (hash_fails s t i at st h1 h2)
  show ?case using hash_fails by (intro rtranclp0 same_owner [where ph = "StartHash i at st"]) simp_all
next
  case (hash_done s t i at st h1 h2 path f)
  show ?case using hash_done by (intro rtranclp0 log_sim same_owner [where ph = "StartHash i at st"]) simp_all
next
  case (attest_done s t i at st path f disk verdict c' ok)
  show ?case using attest_done by (intro rtranclp0 log_sim same_owner [where ph = "StartAttest i at st path f"]) simp_all
next
  case (start_abort s t i st observed checked)
  show ?case by (rule rtranclp1 [OF abort_sim [OF start_abort.prems(1) start_abort.hyps]])
next
  case (launch_error s t i at st d e)
  show ?case using launch_error by (intro rtranclp0 same_owner [where ph = "StartLaunch i at st d"]) simp_all
next
  case (launch_exited s t i at st d h err)
  from launch_failed_sim [OF launch_exited.prems(1) launch_exited.hyps] show ?case by (rule rtranclp1)
next
  case (launch_cancelled s t i at st d h e)
  from launch_failed_sim [OF launch_cancelled.prems(1) launch_cancelled.hyps] show ?case by (rule rtranclp1)
next
  case (launch_abandoned s t i at st d h e)
  have "sim (record_log (LStarted t i h d) s) c" using launch_abandoned.prems(1) by (rule log_sim) simp
  from launch_abandoned_sim [OF this, of t i at st d h e] show ?case
    using launch_abandoned.hyps by (intro rtranclp1) (simp add: goto_def spawn_def record_log_def)
next
  case (launch_done s t i at st d h)
  from launch_done_sim [OF launch_done.prems(1) launch_done.hyps] obtain c' where
    "slot_step c c'" "sim (goto t (StartFinish i at st (Inr h)) (spawn h Alive s)) c'" by blast
  then show ?case by (intro rtranclp1 exI [of _ c']) (simp add: log_sim)
next
  case (start_finish s t i at st launched)
  show ?case by (rule rtranclp1 [OF finish_sim [OF start_finish.prems(1) start_finish.hyps]])
next
  case (stop_call s t m i h)
  then show ?case by (intro rtranclp0 idle_sim) (auto split: option.split)
next
  case (stop_first s t m i st now)
  then show ?case using stop_first_sim by blast
next
  case (handle_stopped s t m i st r e)
  have "so_procs c (pr_handle r) = Some False"
    using simD(4) [OF handle_stopped.prems(1), of "pr_handle r"] handle_stopped.hyps(2) by simp
  then have "sim (spawn (pr_handle r) (Exited None) s) c"
    using handle_stopped.prems(1) unfolding sim_def by simp
  then show ?case
    by (intro rtranclp0 same_owner [where ph = "StopHandle m i st r"]) (use handle_stopped.hyps in simp_all)
next
  case (handle_failed s t m i st r e)
  show ?case using handle_failed by (intro rtranclp0 same_owner [where ph = "StopHandle m i st r"]) simp_all
next
  case (stop_finish s t m i r st failure now)
  show ?case by (rule rtranclp1) (rule stop_finish_sim; use stop_finish in simp)
next
  case (list_next s t d ds sts now h)
  then show ?case by (intro reap_goto) (auto simp: at_phase)
next
  case (list_done s t sts)
  then show ?case by (intro rtranclp0 idle_sim) auto
next
  case (process_ends s h e)
  have "so_procs c h = Some True" using simD(4) [OF process_ends.prems(1), of h] process_ends.hyps by simp
  then have "slot_step c (put_proc h False c)" by (rule slot_step.exit)
  moreover have "sim (spawn h (Exited e) s) (put_proc h False c)"
    using process_ends.prems(1) unfolding sim_def by simp
  ultimately show ?case by blast
qed

lemma reach_ended: "launch_reach cf s \<Longrightarrow> stops_ended s"
proof (induction rule: launch_reach.induct)
  case init
  show ?case by (simp add: stops_ended_def init_state_def)
qed (rule step_stops_ended)

lemma reach_sim: "launch_reach cf s \<Longrightarrow> \<exists>c. slot_step\<^sup>*\<^sup>* slots_init c \<and> sim s c"
proof (induction rule: launch_reach.induct)
  case init
  show ?case using sim_init by blast
next
  case (step s s')
  then obtain c where c: "slot_step\<^sup>*\<^sup>* slots_init c" "sim s c" by blast
  from step_sim [OF step.hyps(2) c(2) reach_ended [OF step.hyps(1)]] show ?case
    using c(1) by (meson rtranclp_trans)
qed

lemma reach_slots:
  assumes "launch_reach cf s"
  obtains c where "sim s c" "slots_ok c"
  using reach_sim [OF assms] slot_steps_ok slots_init_ok by blast

end
