(* ===== verification/Airlock_Trace.thy ===== *)
theory Airlock_Trace
  imports Airlock_Sim
begin

text \<open>
  What a request has seen when it launches a process: an invariant of the phases and of the log over
  the steps of Airlock_Steps.
\<close>

section \<open>What a check says\<close>

lemma status_updates [simp]:
  "sst_Server (add_check c s) = sst_Server s" "sst_Ready (add_check c s) = sst_Ready s"
  "sst_State (add_check c s) = sst_State s" "sst_ExecutableFingerprint (add_check c s) = sst_ExecutableFingerprint s"
  "sst_ExecutableAttestation (add_check c s) = sst_ExecutableAttestation s"
  "sst_Server (set_state a b s) = sst_Server s" "sst_Ready (set_state a b s) = sst_Ready s"
  "sst_State (set_state a b s) = a" "sst_ExecutableFingerprint (set_state a b s) = sst_ExecutableFingerprint s"
  "sst_ExecutableAttestation (set_state a b s) = sst_ExecutableAttestation s"
  "sst_Server (without_check n s) = sst_Server s" "sst_Ready (without_check n s) = sst_Ready s"
  "sst_State (without_check n s) = sst_State s" "sst_ExecutableFingerprint (without_check n s) = sst_ExecutableFingerprint s"
  "sst_ExecutableAttestation (without_check n s) = sst_ExecutableAttestation s"
  by (simp_all add: add_check_def set_state_def without_check_def)

lemma not_ready_sel [simp]:
  "sst_Server (not_ready a b c s) = sst_Server s" "\<not> sst_Ready (not_ready a b c s)" "sst_State (not_ready a b c s) = a"
  "sst_ExecutableFingerprint (not_ready a b c s) = sst_ExecutableFingerprint s"
  "sst_ExecutableAttestation (not_ready a b c s) = sst_ExecutableAttestation s"
  by (simp_all add: not_ready_def)

lemma fail_fingerprint_sel [simp]:
  "sst_Server (fail_fingerprint s) = sst_Server s" "sst_Ready (fail_fingerprint s) = sst_Ready s"
  "sst_State (fail_fingerprint s) = ''fingerprint_failed''"
  by (simp_all add: fail_fingerprint_def)

lemma passive_command_sel:
  "sst_Server (passive_command pr lp d s) = sst_Server s" "sst_Ready (passive_command pr lp d s) = sst_Ready s"
  "sst_ExecutableFingerprint (passive_command pr lp d s) = sst_ExecutableFingerprint s"
  by (simp_all add: passive_command_def Let_def split: option.split)

lemma passive_status_sel [simp]:
  "sst_Server (passive_status sm pr lp d) = d" "\<not> sst_Ready (passive_status sm pr lp d)"
  "sst_ExecutableFingerprint (passive_status sm pr lp d) = None"
  by (simp_all add: passive_status_def Let_def passive_command_sel initial_status_def)

lemma passive_available:
  assumes "sst_State (passive_status sm pr lp d) = ''available''"
  shows "sd_Trusted d" "sd_Transport d = ''stdio''" "trim_space (sd_Command d) \<noteq> []"
    "validate_command (trim_space (sd_Command d)) = None"
  using assms by (auto simp: passive_status_def passive_command_def Let_def split: if_splits option.splits)

lemma version_verdict_sel [simp]:
  "sst_Server (snd (version_verdict sm d out s)) = sst_Server s"
  "sst_ExecutableFingerprint (snd (version_verdict sm d out s)) = sst_ExecutableFingerprint s"
  "\<not> fst (version_verdict sm d out s) \<Longrightarrow> \<not> sst_Ready (snd (version_verdict sm d out s))"
  "\<not> fst (version_verdict sm d out s) \<Longrightarrow> sst_State (snd (version_verdict sm d out s)) \<noteq> ''available''"
  by (cases "evaluate_version_constraint sm out (sd_VersionConstraint d)";
      auto simp: version_verdict_def Let_def split: if_splits)+

lemma probe_verdict_sel [simp]:
  "sst_Server (probe_verdict sm d r s) = sst_Server s"
  "sst_ExecutableFingerprint (probe_verdict sm d r s) = sst_ExecutableFingerprint s"
  "sst_State (probe_verdict sm d r s) \<noteq> ''available''"
proof -
  obtain b s2 where v: "version_verdict sm d (pbr_Output r)
      (add_check (mk_check ''health_probe'' ''pass''
         (if redact_output (pbr_Output r) \<noteq> [] then redact_output (pbr_Output r) else ''probe succeeded'')) s) = (b, s2)"
    by (metis prod.exhaust)
  note f = version_verdict_sel [of sm d "pbr_Output r" "add_check (mk_check ''health_probe'' ''pass''
         (if redact_output (pbr_Output r) \<noteq> [] then redact_output (pbr_Output r) else ''probe succeeded'')) s", unfolded v]
  show "sst_Server (probe_verdict sm d r s) = sst_Server s"
    "sst_ExecutableFingerprint (probe_verdict sm d r s) = sst_ExecutableFingerprint s"
    "sst_State (probe_verdict sm d r s) \<noteq> ''available''"
    using f by (auto simp: probe_verdict_def v Let_def split: option.split bool.split)
qed

lemma check_server_sel:
  "sst_Server (check_server cf hs disk now d) = d" "sst_State (check_server cf hs disk now d) \<noteq> ''available''"
  by (auto simp: check_server_def Let_def split: option.split prod.split)

lemma check_server_ready:
  assumes "sst_Ready (check_server cf hs disk now d)"
  shows "sd_Trusted d \<and> sd_Transport d = ''stdio'' \<and> trim_space (sd_Command d) \<noteq> []"
proof -
  have "sst_State (passive_status (cf_semver cf) (cf_printable cf) (ho_LookPath (hs 0)) d) = ''available''"
    using assms by (auto simp: check_server_def Let_def split: if_splits)
  then show ?thesis using passive_available by blast
qed

section \<open>Statuses under the lifecycle\<close>

lemma with_starting_core [simp]:
  "sst_Server (with_starting_status cf s at) = sst_Server s"
  "sst_ExecutableFingerprint (with_starting_status cf s at) = sst_ExecutableFingerprint s"
  "sst_ExecutableAttestation (with_starting_status cf s at) = sst_ExecutableAttestation s"
  "sst_Ready (with_starting_status cf s at) = sst_Ready s"
  by (simp_all add: with_starting_status_def)

lemma with_stopping_core [simp]:
  "sst_Server (with_stopping_status cf s r) = sst_Server s"
  "sst_ExecutableFingerprint (with_stopping_status cf s r) = sst_ExecutableFingerprint s"
  "sst_ExecutableAttestation (with_stopping_status cf s r) = sst_ExecutableAttestation s"
  "sst_Ready (with_stopping_status cf s r) = sst_Ready s"
  by (simp_all add: with_stopping_status_def)

lemma with_running_core [simp]:
  "sst_Server (with_running_status cf s r) = sst_Server s"
  "sst_ExecutableFingerprint (with_running_status cf s r) = sst_ExecutableFingerprint s"
  "sst_ExecutableAttestation (with_running_status cf s r) = sst_ExecutableAttestation s"
  "sst_State s \<noteq> ''available'' \<Longrightarrow> sst_Ready (with_running_status cf s r) = sst_Ready s"
  by (simp_all add: with_running_status_def Let_def)

lemma with_lifecycle_locked_core [simp]:
  "sst_Server (with_lifecycle_status_locked cf l s r0) = sst_Server s"
  "sst_ExecutableFingerprint (with_lifecycle_status_locked cf l s r0) = sst_ExecutableFingerprint s"
  "sst_ExecutableAttestation (with_lifecycle_status_locked cf l s r0) = sst_ExecutableAttestation s"
  "sst_State s \<noteq> ''available'' \<Longrightarrow> sst_Ready (with_lifecycle_status_locked cf l s r0) = sst_Ready s"
  by (simp_all add: with_lifecycle_status_locked_def Let_def split: option.split)

lemma with_lifecycle_core [simp]:
  "sst_Server (snd (with_lifecycle_status cf now s lp)) = sst_Server s"
  "sst_ExecutableFingerprint (snd (with_lifecycle_status cf now s lp)) = sst_ExecutableFingerprint s"
  "sst_ExecutableAttestation (snd (with_lifecycle_status cf now s lp)) = sst_ExecutableAttestation s"
  "sst_State s \<noteq> ''available'' \<Longrightarrow> sst_Ready (snd (with_lifecycle_status cf now s lp)) = sst_Ready s"
  by (simp_all add: with_lifecycle_status_def Let_def)

section \<open>Phases and log\<close>

definition approved_by :: "attest_disk \<Rightarrow> server_definition \<Rightarrow> executable_fingerprint \<Rightarrow> bool" where
  "approved_by disk d f \<longleftrightarrow> (\<exists>m a. load_attestations disk = Inr m \<and> map_of m (sd_ID d, sd_LaunchSource d) = Some a
     \<and> at_Fingerprint a = f)"

lemma status_approved:
  assumes "executable_attestation_status pd disk d f = (AttestationApproved, c)"
  shows "approved_by disk d f"
  using assms
  by (auto simp: executable_attestation_status_def new_attestation_store_def Let_def attestation_verdict_def
      attestation_get_def approved_by_def split: if_splits sum.splits option.splits)

text \<open>The check of the request, passed, and what it says of the server.\<close>

definition passed :: "launch_config \<Rightarrow> launch_entry list \<Rightarrow> nat \<Rightarrow> string \<Rightarrow> server_status \<Rightarrow> bool" where
  "passed cf log t i st \<longleftrightarrow> LChecked t i st \<in> set log \<and> find_server cf i = Some (sst_Server st) \<and> sst_Ready st
     \<and> sst_ExecutableAttestation st = AttestationApproved \<and> sd_Trusted (sst_Server st) \<and> sd_Transport (sst_Server st) = ''stdio''
     \<and> trim_space (sd_Command (sst_Server st)) \<noteq> []"

definition cleared :: "launch_config \<Rightarrow> launch_entry list \<Rightarrow> nat \<Rightarrow> string \<Rightarrow> server_status \<Rightarrow> bool" where
  "cleared cf log t i st \<longleftrightarrow> (\<exists>st0. passed cf log t i st0 \<and> sst_Server st = sst_Server st0
     \<and> sst_ExecutableFingerprint st = sst_ExecutableFingerprint st0)"

definition preflight_ok :: "launch_config \<Rightarrow> launch_entry list \<Rightarrow> nat \<Rightarrow> string \<Rightarrow> server_status \<Rightarrow> bool" where
  "preflight_ok cf log t i st \<longleftrightarrow> find_server cf i = Some (sst_Server st) \<and>
     (sst_Ready st \<longrightarrow> sst_ExecutableAttestation st = AttestationApproved \<longrightarrow> cleared cf log t i st)"

definition evidence ::
  "launch_config \<Rightarrow> launch_entry list \<Rightarrow> nat \<Rightarrow> string \<Rightarrow> server_definition \<Rightarrow> launch_entry list \<Rightarrow> bool" where
  "evidence cf log t i d' entries \<longleftrightarrow> (\<exists>st0 path content f disk.
     passed cf log t i st0 \<and> d' = (sst_Server st0)\<lparr>sd_Command := path\<rparr> \<and> sst_ExecutableFingerprint st0 = Some f
     \<and> f = \<lparr>ef_Algorithm = ''sha256'', ef_Digest = hex_encode (sha256 content)\<rparr> \<and> approved_by disk (sst_Server st0) f
     \<and> subseq (entries @ [LVerdict t (sst_Server st0) f disk AttestationApproved, LHashed t path content f, LChecked t i st0]) log)"

fun phase_ok :: "launch_config \<Rightarrow> launch_entry list \<Rightarrow> nat \<Rightarrow> launch_phase \<Rightarrow> bool" where
  "phase_ok cf log t (Checking b i d) \<longleftrightarrow> find_server cf i = Some d"
| "phase_ok cf log t (Merging b i st) \<longleftrightarrow> preflight_ok cf log t i st \<and> sst_State st \<noteq> ''available''"
| "phase_ok cf log t (StartFirst i st) \<longleftrightarrow> find_server cf i = Some (sst_Server st)"
| "phase_ok cf log t (StartAdmit i st) \<longleftrightarrow> preflight_ok cf log t i st"
| "phase_ok cf log t (StartHash i at st) \<longleftrightarrow> cleared cf log t i st"
| "phase_ok cf log t (StartAttest i at st path f) \<longleftrightarrow> (\<exists>st0 content. passed cf log t i st0
     \<and> sst_Server st = sst_Server st0 \<and> sst_ExecutableFingerprint st = sst_ExecutableFingerprint st0
     \<and> f = \<lparr>ef_Algorithm = ''sha256'', ef_Digest = hex_encode (sha256 content)\<rparr>
     \<and> subseq [LHashed t path content f, LChecked t i st0] log)"
| "phase_ok cf log t (StartLaunch i at st d) \<longleftrightarrow> evidence cf log t i d []"
| "phase_ok cf log t _ \<longleftrightarrow> True"

lemma passed_mono: "passed cf log t i st \<Longrightarrow> passed cf (es @ log) t i st"
  by (auto simp: passed_def)

lemma cleared_mono: "cleared cf log t i st \<Longrightarrow> cleared cf (es @ log) t i st"
  unfolding cleared_def using passed_mono by blast

lemma preflight_ok_mono: "preflight_ok cf log t i st \<Longrightarrow> preflight_ok cf (es @ log) t i st"
  unfolding preflight_ok_def using cleared_mono by blast

lemma evidence_mono: "evidence cf log t i d xs \<Longrightarrow> evidence cf (es @ log) t i d xs"
  unfolding evidence_def using passed_mono subseq_drop_many by blast

lemma phase_ok_mono: "phase_ok cf log t ph \<Longrightarrow> phase_ok cf (es @ log) t ph"
  by (cases ph) (auto intro: cleared_mono preflight_ok_mono evidence_mono dest: passed_mono subseq_drop_many)

definition launch_log_ok :: "launch_config \<Rightarrow> launch_entry list \<Rightarrow> bool" where
  "launch_log_ok cf log \<longleftrightarrow> (\<forall>t i h d. LStarted t i h d \<in> set log \<longrightarrow> evidence cf log t i d [LStarted t i h d])"

definition trace_inv :: "launch_config \<Rightarrow> launch_state \<Rightarrow> bool" where
  "trace_inv cf s \<longleftrightarrow> (\<forall>t ph. ls_threads s t = Some ph \<longrightarrow> phase_ok cf (ls_log s) t ph) \<and> launch_log_ok cf (ls_log s)"

lemma trace_step:
  assumes "trace_inv cf s" "ls_threads s' = (ls_threads s)(t \<mapsto> ph)" "ls_log s' = es @ ls_log s"
    and "phase_ok cf (ls_log s') t ph"
    and "\<And>u i h d. LStarted u i h d \<in> set es \<Longrightarrow> evidence cf (ls_log s') u i d [LStarted u i h d]"
  shows "trace_inv cf s'"
  using assms unfolding trace_inv_def launch_log_ok_def by (auto intro: phase_ok_mono evidence_mono)

lemma trace_quiet:
  assumes "trace_inv cf s" "ls_threads s' = (ls_threads s)(t \<mapsto> ph)" "ls_log s' = ls_log s" "phase_ok cf (ls_log s) t ph"
  shows "trace_inv cf s'"
  using trace_step [of cf s s' t ph "[]"] assms by simp

lemma trace_phase: "trace_inv cf s \<Longrightarrow> ls_threads s t = Some ph \<Longrightarrow> phase_ok cf (ls_log s) t ph"
  by (simp add: trace_inv_def)

lemma stop_answer_ok [simp]: "phase_ok cf log t (stop_answer m st)"
  by (cases "(m, st)" rule: stop_answer.cases) simp_all

lemma stop_unknown_ok [simp]: "phase_ok cf log t (stop_unknown m j)"
  by (cases "(m, j)" rule: stop_unknown.cases) simp_all

lemma after_stop_first_ok [simp]: "phase_ok cf log t (after_stop_first m i st r)"
  by (cases r) (simp_all add: after_stop_first_def)

lemma hash_launch_Some:
  assumes "hash_launch h1 h2 d expected = Some (path, f)"
  shows "f = \<lparr>ef_Algorithm = ''sha256'', ef_Digest = hex_encode (sha256 (the (ho_File h2 path)))\<rparr>"
  using assms by (auto simp: hash_launch_def fingerprint_executable_def split: if_splits option.splits)

lemma attest_launch_ok:
  assumes "attest_launch cf disk d expected f = (verdict, c, True)"
  shows "expected = Some f" "verdict = AttestationApproved" "approved_by disk d f"
  using assms status_approved [of "cf_projectsDir cf" disk d f c]
  by (auto simp: attest_launch_def same_fingerprint_eq split: prod.splits option.splits)

section \<open>Every step keeps it\<close>

lemma find_server_ready:
  "sst_Ready (check_server cf hs disk now d) \<Longrightarrow> find_server cf i = Some d \<Longrightarrow>
   sst_ExecutableAttestation (check_server cf hs disk now d) = AttestationApproved \<Longrightarrow>
   LChecked t i (check_server cf hs disk now d) \<in> set log \<Longrightarrow>
   passed cf log t i (check_server cf hs disk now d)"
  using check_server_ready [of cf hs disk now d] by (simp add: passed_def check_server_sel)

lemma start_admit_ok:
  assumes "preflight_ok cf log t i st"
  shows "phase_ok cf log t (after_admit i now (snd (start_admit cf now i st lp)))"
proof (cases rule: start_admit_cases [of cf now i st lp])
  case (1 st')
  then show ?thesis by (simp add: after_admit_def)
next
  case (2 l p)
  then have "cleared cf log t i st" using assms by (simp add: preflight_ok_def)
  then show ?thesis by (simp add: 2 after_admit_def cleared_def)
qed

lemma attest_done_ok:
  assumes "phase_ok cf log t (StartAttest i at st path f)"
    and "attest_launch cf disk (sst_Server st) (sst_ExecutableFingerprint st) f = (verdict, c, True)"
  shows "evidence cf (LVerdict t (sst_Server st) f disk verdict # log) t i ((sst_Server st)\<lparr>sd_Command := path\<rparr>) []"
proof -
  obtain st0 content where st0: "passed cf log t i st0" "sst_Server st = sst_Server st0"
      "sst_ExecutableFingerprint st = sst_ExecutableFingerprint st0"
      "f = \<lparr>ef_Algorithm = ''sha256'', ef_Digest = hex_encode (sha256 content)\<rparr>"
      "subseq [LHashed t path content f, LChecked t i st0] log"
    using assms(1) by auto
  note a = attest_launch_ok [OF assms(2)]
  show ?thesis
    unfolding evidence_def
  proof (intro exI conjI)
    show "passed cf (LVerdict t (sst_Server st) f disk verdict # log) t i st0"
      using passed_mono [OF st0(1), of "[_]"] by simp
    show "sst_ExecutableFingerprint st0 = Some f" using a(1) st0(3) by simp
    show "approved_by disk (sst_Server st0) f" using a(3) st0(2) by simp
    show "subseq ([] @ [LVerdict t (sst_Server st0) f disk AttestationApproved, LHashed t path content f, LChecked t i st0])
        (LVerdict t (sst_Server st) f disk verdict # log)"
      using st0(2,5) a(2) by (simp only: append_Nil) (rule subseq_Cons2)
    show "(sst_Server st)\<lparr>sd_Command := path\<rparr> = (sst_Server st0)\<lparr>sd_Command := path\<rparr>" using st0(2) by simp
    show "f = \<lparr>ef_Algorithm = ''sha256'', ef_Digest = hex_encode (sha256 content)\<rparr>" by (rule st0(4))
  qed
qed

lemma evidence_started:
  assumes "evidence cf log t i d []"
  shows "evidence cf (LStarted t i h d # log) t i d [LStarted t i h d]"
  using assms passed_mono [of cf log t i _ "[LStarted t i h d]"] unfolding evidence_def by auto

lemma step_trace:
  assumes "launch_step cf s s'" "trace_inv cf s"
  shows "trace_inv cf s'"
  using assms
proof (induction rule: launch_step.induct)
  case (call_check s t i)
  show ?case by (rule trace_quiet [OF call_check.prems]) (auto split: option.split)
next
  case (call_start s t i h)
  show ?case by (rule trace_quiet [OF call_start.prems]) (auto simp: passive_of_def find_server_def dest: find_Some_in split: option.split)
next
  case (call_stop s t i)
  show ?case by (rule trace_quiet [OF call_stop.prems]) auto
next
  case (call_stop_all s t ids)
  show ?case by (rule trace_quiet [OF call_stop_all.prems]) (auto split: list.split)
next
  case (call_list s t)
  show ?case by (rule trace_quiet [OF call_list.prems]) auto
next
  case (check_host s t starting i d hs disk now)
  have f: "find_server cf i = Some d" using trace_phase [OF check_host.prems check_host.hyps] by simp
  let ?st = "check_server cf hs disk now d"
  have "cleared cf (LChecked t i ?st # ls_log s) t i ?st"
    if "sst_Ready ?st" "sst_ExecutableAttestation ?st = AttestationApproved"
    using find_server_ready [OF that(1) f that(2), of t "LChecked t i ?st # ls_log s"] by (auto simp: cleared_def)
  then have "phase_ok cf (LChecked t i ?st # ls_log s) t (Merging starting i ?st)"
    using f by (auto simp: preflight_ok_def check_server_sel)
  then show ?case by (intro trace_step [OF check_host.prems, of _ t _ "[LChecked t i ?st]"]) auto
next
  case (check_merge s t starting i st now)
  have "preflight_ok cf (ls_log s) t i st" "sst_State st \<noteq> ''available''"
    using trace_phase [OF check_merge.prems check_merge.hyps] by simp_all
  then show ?case
    by (intro trace_quiet [OF check_merge.prems]) (auto simp: after_merge_def preflight_ok_def cleared_def)
next
  case (start_first s t i st now)
  have "find_server cf i = Some (sst_Server st)" using trace_phase [OF start_first.prems start_first.hyps] by simp
  then show ?case
    by (intro trace_quiet [OF start_first.prems]) (auto simp: after_first_def split: option.split)
next
  case (start_admit s t i st now)
  have "preflight_ok cf (ls_log s) t i st" using trace_phase [OF start_admit.prems start_admit.hyps] by simp
  then show ?case by (intro trace_quiet [OF start_admit.prems]) (auto intro: start_admit_ok)
next
  case (hash_fails s t i at st h1 h2)
  show ?case by (rule trace_quiet [OF hash_fails.prems]) auto
next
  case (hash_done s t i at st h1 h2 path f)
  have "cleared cf (ls_log s) t i st" using trace_phase [OF hash_done.prems hash_done.hyps(1)] by simp
  then obtain st0 where st0: "passed cf (ls_log s) t i st0" "sst_Server st = sst_Server st0"
    "sst_ExecutableFingerprint st = sst_ExecutableFingerprint st0" by (auto simp: cleared_def)
  let ?e = "LHashed t path (the (ho_File h2 path)) f"
  have "subseq [LChecked t i st0] (ls_log s)" using st0(1) by (simp add: passed_def subseq_singleton_left)
  then have "subseq [?e, LChecked t i st0] (?e # ls_log s)" by simp
  then have "phase_ok cf (?e # ls_log s) t (StartAttest i at st path f)"
    using passed_mono [OF st0(1), of "[?e]"] st0(2,3) hash_launch_Some [OF hash_done.hyps(2)] by auto
  then show ?case
    by (intro trace_step [OF hash_done.prems, of _ t "StartAttest i at st path f" "[?e]"]) (simp_all del: phase_ok.simps)
next
  case (attest_done s t i at st path f disk verdict c ok)
  have "phase_ok cf (ls_log s) t (StartAttest i at st path f)" by (rule trace_phase [OF attest_done.prems attest_done.hyps(1)])
  then have "ok \<Longrightarrow> evidence cf (LVerdict t (sst_Server st) f disk verdict # ls_log s) t i ((sst_Server st)\<lparr>sd_Command := path\<rparr>) []"
    using attest_done_ok [of cf "ls_log s" t i at st path f disk verdict c] attest_done.hyps(2) by simp
  then show ?case
    by (intro trace_step [OF attest_done.prems, of _ t _ "[LVerdict t (sst_Server st) f disk verdict]"]) auto
next
  case (start_abort s t i st observed checked)
  show ?case by (rule trace_quiet [OF start_abort.prems]) auto
next
  case (launch_error s t i at st d e)
  show ?case by (rule trace_quiet [OF launch_error.prems]) auto
next
  case (launch_exited s t i at st d h err)
  have "evidence cf (ls_log s) t i d []" using trace_phase [OF launch_exited.prems launch_exited.hyps(1)] by simp
  then show ?case
    by (intro trace_step [OF launch_exited.prems, of _ t _ "[LStarted t i h d]"]) (auto intro: evidence_started)
next
  case (launch_cancelled s t i at st d h e)
  have "evidence cf (ls_log s) t i d []" using trace_phase [OF launch_cancelled.prems launch_cancelled.hyps(1)] by simp
  then show ?case
    by (intro trace_step [OF launch_cancelled.prems, of _ t _ "[LStarted t i h d]"]) (auto intro: evidence_started)
next
  case (launch_abandoned s t i at st d h e)
  have "evidence cf (ls_log s) t i d []" using trace_phase [OF launch_abandoned.prems launch_abandoned.hyps(1)] by simp
  then have "evidence cf (LAbandoned h # LStarted t i h d # ls_log s) t i d [LStarted t i h d]"
    using evidence_mono [OF evidence_started, where es = "[LAbandoned h]"] by simp
  then show ?case
    by (intro trace_step [OF launch_abandoned.prems, of _ t _ "[LAbandoned h, LStarted t i h d]"]) auto
next
  case (launch_done s t i at st d h)
  have "evidence cf (ls_log s) t i d []" using trace_phase [OF launch_done.prems launch_done.hyps(1)] by simp
  then show ?case
    by (intro trace_step [OF launch_done.prems, of _ t _ "[LStarted t i h d]"]) (auto intro: evidence_started)
next
  case (start_finish s t i at st launched)
  show ?case by (rule trace_quiet [OF start_finish.prems]) auto
next
  case (stop_call s t m i h)
  show ?case by (rule trace_quiet [OF stop_call.prems]) (auto split: option.split)
next
  case (stop_first s t m i st now)
  show ?case by (rule trace_quiet [OF stop_first.prems]) auto
next
  case (handle_stopped s t m i st r e)
  show ?case by (rule trace_quiet [OF handle_stopped.prems]) auto
next
  case (handle_failed s t m i st r e)
  show ?case by (rule trace_quiet [OF handle_failed.prems]) auto
next
  case (stop_finish s t m i r st failure now)
  show ?case by (rule trace_quiet [OF stop_finish.prems]) auto
next
  case (list_next s t d ds sts now h)
  show ?case by (rule trace_quiet [OF list_next.prems]) auto
next
  case (list_done s t sts)
  show ?case by (rule trace_quiet [OF list_done.prems]) auto
next
  case (process_ends s h e)
  then show ?case by (simp add: trace_inv_def)
qed

lemma reach_trace: "launch_reach cf s \<Longrightarrow> trace_inv cf s"
proof (induction rule: launch_reach.induct)
  case init
  show ?case by (simp add: trace_inv_def init_state_def launch_log_ok_def)
qed (rule step_trace)

end
