(* ===== verification/Airlock_Run.thy ===== *)
theory Airlock_Run
  imports Airlock_Life Airlock_Trace
begin

text \<open>
  A launch from the call to the answer, when nothing interferes: the run of one \<open>Start\<close> of an approved
  server on a host that does not change. Used to show that the gate of \<open>lifecycle.go\<close> opens, and for
  the runs of the examples.
\<close>

lemma version_verdict_attestation [simp]:
  "sst_ExecutableAttestation (snd (version_verdict sm d out s)) = sst_ExecutableAttestation s"
  by (cases "evaluate_version_constraint sm out (sd_VersionConstraint d)";
      auto simp: version_verdict_def Let_def split: if_splits)

lemma probe_verdict_attestation [simp]:
  "sst_ExecutableAttestation (probe_verdict sm d r s) = sst_ExecutableAttestation s"
proof -
  obtain b s2 where v: "version_verdict sm d (pbr_Output r)
      (add_check (mk_check ''health_probe'' ''pass''
         (if redact_output (pbr_Output r) \<noteq> [] then redact_output (pbr_Output r) else ''probe succeeded'')) s) = (b, s2)"
    by (metis prod.exhaust)
  note f = version_verdict_attestation [of sm d "pbr_Output r" "add_check (mk_check ''health_probe'' ''pass''
         (if redact_output (pbr_Output r) \<noteq> [] then redact_output (pbr_Output r) else ''probe succeeded'')) s", unfolded v]
  show ?thesis using f by (auto simp: probe_verdict_def v Let_def split: option.split bool.split)
qed

text \<open>What a passed check has seen of the executable.\<close>

lemma check_server_seen:
  assumes "sst_Ready (check_server cf hs disk now d)"
  obtains path f where "resolve_executable (hs 1) (sd_Command d) = Some path"
    "fingerprint_executable (ho_File (hs 2)) path = Some f"
    "sst_ExecutableFingerprint (check_server cf hs disk now d) = Some f"
    "sst_ExecutableAttestation (check_server cf hs disk now d) = fst (executable_attestation_status (cf_projectsDir cf) disk d f)"
proof -
  let ?s = "(passive_status (cf_semver cf) (cf_printable cf) (ho_LookPath (hs 0)) d)\<lparr>sst_CheckedAt := cf_rfc3339 cf now\<rparr>"
  have av: "sst_State ?s = ''available''" using assms by (auto simp: check_server_def Let_def split: if_splits)
  obtain path where p: "resolve_executable (hs 1) (sd_Command d) = Some path"
    using assms av by (auto simp: check_server_def Let_def split: option.splits)
  obtain f where f: "fingerprint_executable (ho_File (hs 2)) path = Some f"
    using assms av p by (auto simp: check_server_def Let_def split: option.splits)
  obtain v c where vc: "executable_attestation_status (cf_projectsDir cf) disk d f = (v, c)" by (metis prod.exhaust)
  have "sst_ExecutableFingerprint (check_server cf hs disk now d) = Some f"
    "sst_ExecutableAttestation (check_server cf hs disk now d) = v"
    using av p f vc by (simp_all add: check_server_def Let_def)
  then show ?thesis using that p f vc by simp
qed

text \<open>The state after a launch by thread \<open>t\<close>.\<close>

definition launched_state :: "nat \<Rightarrow> string \<Rightarrow> nat \<Rightarrow> go_time \<Rightarrow> launch_state \<Rightarrow> launch_state \<Rightarrow> bool" where
  "launched_state t i k now s s' \<longleftrightarrow>
     ls_procs s' = (ls_procs s)(k \<mapsto> Alive) \<and> (\<forall>u. u \<noteq> t \<longrightarrow> ls_threads s' u = ls_threads s u)
     \<and> (\<exists>st. ls_threads s' t = Some (Answered (Status st)) \<and> sst_Running st)
     \<and> lc_starting (ls_life s') = lc_starting (ls_life s) \<and> lc_stopping (ls_life s') = lc_stopping (ls_life s)
     \<and> lc_running (ls_life s') = (lc_running (ls_life s))(i \<mapsto> \<lparr>pr_handle = k, pr_startedAt = now\<rparr>)
     \<and> LAbandoned ` {h. LAbandoned h \<in> set (ls_log s')} = LAbandoned ` {h. LAbandoned h \<in> set (ls_log s)}"

definition quiet_key :: "string \<Rightarrow> launch_state \<Rightarrow> bool" where
  "quiet_key i s \<longleftrightarrow> (\<forall>r. lc_running (ls_life s) i = Some r \<longrightarrow> ls_procs s (pr_handle r) = Some Alive)"

lemma quiet_reap: "quiet_key i s \<Longrightarrow> reap i now (store_of s) = store_of s"
  by (auto simp: quiet_key_def reap_def split: option.splits)

lemma reap_free: "lc_running l i = None \<Longrightarrow> reap i now (l, p) = (l, p)"
  by (simp add: reap_def)

lemma with_running_locked: "sst_Running (with_lifecycle_status_locked cf l s (Some r))"
  by (simp add: with_lifecycle_status_locked_def with_running_status_def add_check_def set_state_def Let_def)

lemma update_order:
  "(s::launch_state)\<lparr>ls_log := x, ls_threads := y\<rparr> = s\<lparr>ls_threads := y, ls_log := x\<rparr>"
  "s\<lparr>ls_log := x, ls_procs := p\<rparr> = s\<lparr>ls_procs := p, ls_log := x\<rparr>"
  "s\<lparr>ls_log := x, ls_life := l\<rparr> = s\<lparr>ls_life := l, ls_log := x\<rparr>"
  "s\<lparr>ls_threads := y, ls_procs := p\<rparr> = s\<lparr>ls_procs := p, ls_threads := y\<rparr>"
  "s\<lparr>ls_threads := y, ls_life := l\<rparr> = s\<lparr>ls_life := l, ls_threads := y\<rparr>"
  "s\<lparr>ls_procs := p, ls_life := l\<rparr> = s\<lparr>ls_life := l, ls_procs := p\<rparr>"
  by simp_all

lemma launch_ready:
  assumes reach: "launch_reach cf s" and new: "ls_threads s t = None"
    and d: "find_server cf i = Some d" and quiet: "quiet_key (sd_ID d) s"
    and free: "lc_starting (ls_life s) i = None" "lc_running (ls_life s) i = None" "lc_stopping (ls_life s) i = None"
    and ready: "sst_Ready (check_server cf (\<lambda>_. h) disk now d)"
    and app: "sst_ExecutableAttestation (check_server cf (\<lambda>_. h) disk now d) = AttestationApproved"
  shows "\<exists>s' path b. launch_reach cf s' \<and> resolve_executable h (sd_Command d) = Some path
    \<and> ls_threads s' = (ls_threads s)(t \<mapsto> StartLaunch i now b (d\<lparr>sd_Command := path\<rparr>)) \<and> ls_procs s' = ls_procs s
    \<and> ls_life s' = (ls_life s)\<lparr>lc_starting := (lc_starting (ls_life s))(i \<mapsto> now)\<rparr>
    \<and> (\<forall>x. LAbandoned x \<in> set (ls_log s') \<longleftrightarrow> LAbandoned x \<in> set (ls_log s))"
proof -
  obtain path f where seen: "resolve_executable h (sd_Command d) = Some path"
    "fingerprint_executable (ho_File h) path = Some f"
    "sst_ExecutableFingerprint (check_server cf (\<lambda>_. h) disk now d) = Some f"
    "sst_ExecutableAttestation (check_server cf (\<lambda>_. h) disk now d) = fst (executable_attestation_status (cf_projectsDir cf) disk d f)"
    using check_server_seen [OF ready] by metis
  let ?l = "ls_life s" and ?p = "ls_procs s"
  let ?st = "check_server cf (\<lambda>_. h) disk now d"
  let ?m = "with_lifecycle_status_locked cf ?l ?st None"
  have st: "sst_Server ?st = d" "sst_State ?st \<noteq> ''available''" by (rule check_server_sel)+
  have m: "sst_Server ?m = d" "sst_Ready ?m" "sst_ExecutableFingerprint ?m = Some f" "sst_ExecutableAttestation ?m = AttestationApproved"
    using st ready app seen(3) by simp_all
  define a where "a = set_state ''ready'' ''Airlock launch preflight passed.''
      (without_check ''lifecycle'' (?m\<lparr>sst_Running := False, sst_StartedAt := []\<rparr>))"
  have a: "sst_Server a = d" "sst_ExecutableFingerprint a = Some f" using m by (simp_all add: a_def)
  obtain c where c: "executable_attestation_status (cf_projectsDir cf) disk d f = (AttestationApproved, c)"
    using seen(4) app by (cases "executable_attestation_status (cf_projectsDir cf) disk d f") auto
  define b where "b = with_attestation AttestationApproved (Some c) a"
  let ?l1 = "?l\<lparr>lc_starting := (lc_starting ?l)(i \<mapsto> now)\<rparr>"
  define s1 where "s1 = goto t (StartFirst i (passive_of cf h d)) s"
  define s2 where "s2 = goto t (Checking True i d) s"
  define s3 where "s3 = record_log (LChecked t i ?st) (goto t (Merging True i ?st) s)"
  define s4 where "s4 = record_log (LChecked t i ?st) (goto t (StartAdmit i ?m) s)"
  define s5 where "s5 = (goto t (StartHash i now a) s4)\<lparr>ls_life := ?l1\<rparr>"
  define s6 where "s6 = record_log (LHashed t path (the (ho_File h path)) f) (goto t (StartAttest i now a path f) s5)"
  define s7 where "s7 = record_log (LVerdict t d f disk AttestationApproved) (goto t (StartLaunch i now b (d\<lparr>sd_Command := path\<rparr>)) s6)"
  have act: "active_start_status cf ?l i x = None" for x using free by (simp add: active_None)
  note g = goto_def record_log_def spawn_def section_goto_def update_order
  have "launch_reach cf s1"
    using launch_reach.step [OF reach launch_step.call_start [OF new, of cf i h]] by (simp add: d s1_def)
  moreover have "launch_step cf s1 s2"
    using launch_step.start_first [of s1 t i "passive_of cf h d" cf now]
    by (simp add: s1_def s2_def g start_first_def reap_free free act after_first_def passive_of_def)
  moreover have "launch_step cf s2 s3"
    using launch_step.check_host [of s2 t True i d cf "\<lambda>_. h" disk now] by (simp add: s2_def s3_def g)
  moreover have "launch_step cf s3 s4"
    using launch_step.check_merge [of s3 t True i ?st cf now]
    by (simp add: s3_def s4_def g with_lifecycle_status_def st quiet_reap [OF quiet] after_merge_def Let_def)
  moreover have "launch_step cf s4 s5"
    using launch_step.start_admit [of s4 t i ?m cf now]
    by (simp add: s4_def s5_def g start_admit_def reap_free free act ready app st after_admit_def a_def Let_def)
  moreover have "launch_step cf s5 s6"
    using launch_step.hash_done [of s5 t i now a h h path f cf] a seen(1,2)
    by (simp add: s5_def s6_def g hash_launch_def)
  moreover have "launch_step cf s6 s7"
    using launch_step.attest_done [of s6 t i now a path f cf disk AttestationApproved c True] a c
    by (simp add: s6_def s7_def g attest_launch_def same_fingerprint_def b_def)
  ultimately have "launch_reach cf s7" by (meson launch_reach.step)
  then show ?thesis
    using seen(1)
    by (intro exI [of _ s7] exI [of _ path] exI [of _ b] conjI) (simp_all add: s7_def s6_def s5_def s4_def g)
qed

lemma launch_run:
  assumes reach: "launch_reach cf s" and new: "ls_threads s t = None" "ls_procs s k = None"
    and d: "find_server cf i = Some d" and quiet: "quiet_key (sd_ID d) s"
    and free: "lc_starting (ls_life s) i = None" "lc_running (ls_life s) i = None" "lc_stopping (ls_life s) i = None"
    and ready: "sst_Ready (check_server cf (\<lambda>_. h) disk now d)"
    and app: "sst_ExecutableAttestation (check_server cf (\<lambda>_. h) disk now d) = AttestationApproved"
  shows "\<exists>s' path. launch_reach cf s' \<and> launched_state t i k now s s'
    \<and> resolve_executable h (sd_Command d) = Some path \<and> LStarted t i k (d\<lparr>sd_Command := path\<rparr>) \<in> set (ls_log s')"
proof -
  obtain s7 path b where s7: "launch_reach cf s7" "resolve_executable h (sd_Command d) = Some path"
    "ls_threads s7 = (ls_threads s)(t \<mapsto> StartLaunch i now b (d\<lparr>sd_Command := path\<rparr>))" "ls_procs s7 = ls_procs s"
    "ls_life s7 = (ls_life s)\<lparr>lc_starting := (lc_starting (ls_life s))(i \<mapsto> now)\<rparr>"
    "\<forall>x. LAbandoned x \<in> set (ls_log s7) \<longleftrightarrow> LAbandoned x \<in> set (ls_log s)"
    using launch_ready [OF reach new(1) d quiet free ready app] by blast
  define s8 where "s8 = record_log (LStarted t i k (d\<lparr>sd_Command := path\<rparr>)) (goto t (StartFinish i now b (Inr k)) (spawn k Alive s7))"
  define fin where "fin = start_finish cf now i b (Inr k) (ls_life s8)"
  define s9 where "s9 = goto t (Answered (Status (snd fin))) (s8\<lparr>ls_life := fst fin\<rparr>)"
  have "launch_step cf s7 s8"
    unfolding s8_def by (rule launch_step.launch_done) (simp_all add: s7 new(2))
  moreover have "launch_step cf s8 s9"
    unfolding s9_def fin_def by (rule launch_step.start_finish) (simp add: s8_def)
  ultimately have r: "launch_reach cf s9" using s7(1) by (meson launch_reach.step)
  have "sst_Running (snd fin)"
    by (simp add: fin_def start_finish_def Let_def add_check_def with_running_locked)
  then have "launched_state t i k now s s9"
    using free(1) s7
    by (auto simp: launched_state_def s9_def s8_def fin_def start_finish_def clear_starting_def Let_def fun_upd_idem)
  moreover have "LStarted t i k (d\<lparr>sd_Command := path\<rparr>) \<in> set (ls_log s9)"
    by (simp add: s9_def s8_def)
  ultimately show ?thesis using r s7(2) by blast
qed

text \<open>The launch whose request is cancelled during the startup grace, when the process does not stop in time.\<close>

lemma abandoned_run:
  assumes reach: "launch_reach cf s" and new: "ls_threads s t = None" "ls_procs s k = None"
    and d: "find_server cf i = Some d" and quiet: "quiet_key (sd_ID d) s"
    and free: "lc_starting (ls_life s) i = None" "lc_running (ls_life s) i = None" "lc_stopping (ls_life s) i = None"
    and ready: "sst_Ready (check_server cf (\<lambda>_. h) disk now d)"
    and app: "sst_ExecutableAttestation (check_server cf (\<lambda>_. h) disk now d) = AttestationApproved"
  shows "\<exists>s'. launch_reach cf s' \<and> ls_procs s' k = Some Alive \<and> ls_life s' = ls_life s
    \<and> (\<exists>st. ls_threads s' t = Some (Answered (Status st)) \<and> sst_State st = ''launch_failed'')
    \<and> (\<forall>u. u \<noteq> t \<longrightarrow> ls_threads s' u = ls_threads s u)"
proof -
  obtain s7 path b where s7: "launch_reach cf s7"
    "ls_threads s7 = (ls_threads s)(t \<mapsto> StartLaunch i now b (d\<lparr>sd_Command := path\<rparr>))" "ls_procs s7 = ls_procs s"
    "ls_life s7 = (ls_life s)\<lparr>lc_starting := (lc_starting (ls_life s))(i \<mapsto> now)\<rparr>"
    using launch_ready [OF reach new(1) d quiet free ready app] by blast
  define s8 where "s8 = record_log (LAbandoned k) (record_log (LStarted t i k (d\<lparr>sd_Command := path\<rparr>))
      (goto t (StartFinish i now b (Inl ''context canceled'')) (spawn k Alive s7)))"
  define fin where "fin = start_finish cf now i b (Inl ''context canceled'') (ls_life s8)"
  define s9 where "s9 = goto t (Answered (Status (snd fin))) (s8\<lparr>ls_life := fst fin\<rparr>)"
  have "launch_step cf s7 s8"
    unfolding s8_def by (rule launch_step.launch_abandoned) (simp_all add: s7 new(2))
  moreover have "launch_step cf s8 s9"
    unfolding s9_def fin_def by (rule launch_step.start_finish) (simp add: s8_def)
  ultimately have "launch_reach cf s9" using s7(1) by (meson launch_reach.step)
  moreover have "ls_life s9 = ls_life s"
    using free(1) by (simp add: s9_def s8_def s7 fin_def start_finish_def clear_starting_def Let_def fun_upd_idem)
  moreover have "sst_State (snd fin) = ''launch_failed''"
    by (simp add: fin_def start_finish_def Let_def)
  ultimately show ?thesis
    by (intro exI [of _ s9]) (simp add: s9_def s8_def s7)
qed

end
