(* ===== verification/Airlock_Launch_Props.thy ===== *)
theory Airlock_Launch_Props
  imports Airlock_Run
begin

text \<open>
  The properties of the Airlock's approvals and processes (\<open>internal/mcpairlock/attestations.go\<close>,
  \<open>approval.go\<close>, \<open>registry.go\<close> and \<open>lifecycle.go\<close>), with their witnesses.
\<close>

section \<open>A host for the examples\<close>

definition demo_semver :: semver where
  "demo_semver = \<lparr>sm_IsValid = (\<lambda>_. True), sm_Compare = (\<lambda>_ _. 0)\<rparr>"

definition launch_demo :: launch_config where
  "launch_demo = \<lparr>cf_definitions = normalize_definitions (\<lambda>_. []) builtin_definitions, cf_projectsDir = ''/p'',
     cf_semver = demo_semver, cf_printable = (\<lambda>_. True), cf_rfc3339 = (\<lambda>_. ''now'')\<rparr>"

definition demo_host :: host where
  "demo_host = \<lparr>ho_Cwd = ''/'', ho_LookPath = (\<lambda>_. Some ''/bin/t''), ho_File = (\<lambda>_. Some ''binary''),
     ho_Probe = (\<lambda>_ _. \<lparr>pbr_Output = ''v1.0.0'', pbr_OutputOverflow = False, pbr_Err = None, pbr_TimedOut = False\<rparr>)\<rparr>"

definition demo_fingerprint :: executable_fingerprint where
  "demo_fingerprint = \<lparr>ef_Algorithm = ''sha256'', ef_Digest = hex_encode (sha256 ''binary'')\<rparr>"

definition demo_attestation :: attestation where
  "demo_attestation = \<lparr>at_ServerID = ''terraform-official'', at_LaunchSource = ''registry'', at_Fingerprint = demo_fingerprint,
     at_ApprovedAt = 1\<rparr>"

definition demo_disk :: attest_disk where
  "demo_disk = \<lparr>ad_dir = DirPrivate, ad_file = AttSnapshot 1 (Some [demo_attestation])\<rparr>"

definition demo_terraform :: server_definition where
  "demo_terraform = builtin_definitions ! 1"

lemma normalize_builtins: "normalize_definitions (\<lambda>_. []) builtin_definitions = builtin_definitions"
  by code_simp

lemma demo_version: "evaluate_version_constraint demo_semver ''v1.0.0'' ''>= 1.0.0'' =
    Inr \<lparr>ve_Observed = ''1.0.0'', ve_Required = ''1.0.0'', ve_Operator = ''>='', ve_Satisfied = True\<rparr>"
  by code_simp

lemma demo_id: "validate_tool_call_identifier ''server_id'' ''terraform-official'' False = None"
  by code_simp

lemma demo_command: "trim_space ''terraform-mcp-server'' = ''terraform-mcp-server''"
    "validate_command ''terraform-mcp-server'' = None" "path_abs ''/'' ''/bin/t'' = ''/bin/t''"
  by code_simp+

lemma demo_constraint: "is_ok (parse_version_constraint demo_semver ''>= 1.0.0'')"
  by code_simp

lemma demo_find: "find_server launch_demo ''terraform-official'' = Some demo_terraform"
  "find_server launch_demo '' terraform-official'' = Some demo_terraform"
  unfolding launch_demo_def find_server_def normalize_builtins launch_config.simps by code_simp+

lemma demo_attestation_valid: "validate_attestation demo_attestation = None"
  by (simp add: validate_attestation_def demo_attestation_def demo_id demo_fingerprint_def fingerprint_valid LaunchSourceRegistry_def)

lemma demo_load: "load_attestations demo_disk = Inr [((''terraform-official'', ''registry''), demo_attestation)]"
  by (simp add: load_attestations_def demo_disk_def secure_existing_dir_def attestation_store_version_def
      max_executable_attestations_def demo_attestation_valid)
    (simp add: attestation_key_of_def demo_attestation_def)

lemma demo_terraform_sel [simp]:
  "sd_ID demo_terraform = ''terraform-official''" "sd_LaunchSource demo_terraform = ''registry''"
  "sd_Command demo_terraform = ''terraform-mcp-server''" "sd_VersionConstraint demo_terraform = ''>= 1.0.0''"
  "sd_Transport demo_terraform = ''stdio''" "sd_Trusted demo_terraform" "sd_ReadOnlyDefault demo_terraform"
  "sd_Args demo_terraform = []" "sd_HealthCheckArgs demo_terraform = [''--version'']"
  by (simp_all add: demo_terraform_def builtin_definitions_def LaunchSourceRegistry_def)

lemma demo_available:
  "sst_State (passive_status demo_semver pr (\<lambda>_. Some ''/bin/t'') demo_terraform) = ''available''"
  by (simp add: passive_status_def passive_command_def Let_def demo_command demo_constraint)
    (simp add: initial_status_def add_check_def)

lemma demo_attested:
  "fst (executable_attestation_status ''/p'' demo_disk demo_terraform demo_fingerprint) = AttestationApproved"
proof -
  have "trim_space ''/p'' \<noteq> []" by code_simp
  then show ?thesis
    by (simp add: executable_attestation_status_def new_attestation_store_def demo_load Let_def attestation_verdict_def
        attestation_get_def) (simp add: demo_attestation_def)
qed

lemma demo_checked:
  "sst_Ready (check_server launch_demo (\<lambda>_. demo_host) demo_disk now demo_terraform)"
  "sst_ExecutableAttestation (check_server launch_demo (\<lambda>_. demo_host) demo_disk now demo_terraform) = AttestationApproved"
proof -
  have f: "fingerprint_executable (\<lambda>_. Some ''binary'') ''/bin/t'' = Some demo_fingerprint"
    by (simp add: fingerprint_executable_def max_executable_fingerprint_bytes_def demo_fingerprint_def)
  obtain c where c: "executable_attestation_status ''/p'' demo_disk demo_terraform demo_fingerprint = (AttestationApproved, c)"
    using demo_attested by (metis prod.collapse)
  show "sst_Ready (check_server launch_demo (\<lambda>_. demo_host) demo_disk now demo_terraform)"
    "sst_ExecutableAttestation (check_server launch_demo (\<lambda>_. demo_host) demo_disk now demo_terraform) = AttestationApproved"
    by (simp_all add: check_server_def launch_demo_def demo_host_def demo_available resolve_executable_def demo_command f c
        probe_verdict_def version_verdict_def demo_version Let_def)
qed

lemma launch_demo_run:
  "\<exists>s path. launch_reach launch_demo s \<and> LStarted 0 ''terraform-official'' 7 (demo_terraform\<lparr>sd_Command := path\<rparr>) \<in> set (ls_log s)
     \<and> lc_running (ls_life s) = [''terraform-official'' \<mapsto> \<lparr>pr_handle = 7, pr_startedAt = 3\<rparr>] \<and> ls_procs s = [7 \<mapsto> Alive]
     \<and> lc_starting (ls_life s) = Map.empty \<and> lc_stopping (ls_life s) = Map.empty \<and> (\<forall>u. u \<noteq> 0 \<longrightarrow> ls_threads s u = None)
     \<and> LAbandoned 7 \<notin> set (ls_log s)"
proof -
  have "\<exists>s path. launch_reach launch_demo s \<and> launched_state 0 ''terraform-official'' 7 3 init_state s
    \<and> resolve_executable demo_host (sd_Command demo_terraform) = Some path
    \<and> LStarted 0 ''terraform-official'' 7 (demo_terraform\<lparr>sd_Command := path\<rparr>) \<in> set (ls_log s)"
    by (rule launch_run [OF launch_reach.init _ _ demo_find(1) _ _ _ _ demo_checked [of 3]])
      (simp_all add: init_state_def new_lifecycle_def quiet_key_def)
  then show ?thesis
    by (auto simp: launched_state_def init_state_def new_lifecycle_def fun_eq_iff)
qed

lemma not_overridden:
  assumes "sd_Trusted (apply_env_overrides getenv d)"
  shows "apply_env_overrides getenv d = d" "trim_space (getenv (env_prefix (sd_ID d) @ ''_COMMAND'')) = []"
    "split_env_args (getenv (env_prefix (sd_ID d) @ ''_ARGS'')) = []"
    "split_env_args (getenv (env_prefix (sd_ID d) @ ''_HEALTH_ARGS'')) = []"
  using assms by (auto simp: apply_env_overrides_def Let_def split: if_splits)

definition trimmed :: "server_definition \<Rightarrow> server_definition" where
  "trimmed d = d\<lparr>sd_ID := trim_space (sd_ID d), sd_Command := trim_space (sd_Command d),
     sd_PackageSource := trim_space (sd_PackageSource d), sd_VersionConstraint := trim_space (sd_VersionConstraint d)\<rparr>"

lemma builtin_trims:
  "trim_space [] = []" "trim_space ''aws-official'' = ''aws-official''"
  "trim_space ''terraform-official'' = ''terraform-official''" "trim_space ''pkg:github/awslabs/mcp'' = ''pkg:github/awslabs/mcp''"
  "trim_space ''pkg:github/hashicorp/terraform-mcp-server'' = ''pkg:github/hashicorp/terraform-mcp-server''"
  "trim_space ''>= 1.0.0'' = ''>= 1.0.0''"
  by code_simp+

lemma builtin_cases:
  assumes "b \<in> set builtin_definitions"
  shows "b = builtin_definitions ! 0 \<or> b = demo_terraform"
proof -
  have "length builtin_definitions = 2" by (simp add: builtin_definitions_def)
  then have "builtin_definitions = [builtin_definitions ! 0, builtin_definitions ! 1]"
    by (intro nth_equalityI) (auto simp: less_Suc_eq numeral_2_eq_2)
  then have "set builtin_definitions = {builtin_definitions ! 0, builtin_definitions ! 1}"
    by (metis list.set(1,2))
  then show ?thesis using assms by (auto simp: demo_terraform_def)
qed

lemma builtin_aws_sel [simp]:
  "sd_ID (builtin_definitions ! 0) = ''aws-official''" "sd_Command (builtin_definitions ! 0) = []"
  "sd_PackageSource (builtin_definitions ! 0) = ''pkg:github/awslabs/mcp''" "sd_VersionConstraint (builtin_definitions ! 0) = []"
  "sd_Transport (builtin_definitions ! 0) = ''stdio''" "sd_LaunchSource (builtin_definitions ! 0) = ''registry''"
  "sd_CredentialMode (builtin_definitions ! 0) = ''none''"
  by (simp_all add: builtin_definitions_def LaunchSourceRegistry_def)

lemma terraform_more_sel [simp]:
  "sd_PackageSource demo_terraform = ''pkg:github/hashicorp/terraform-mcp-server''" "sd_CredentialMode demo_terraform = ''none''"
  by (simp_all add: demo_terraform_def builtin_definitions_def)

lemma trimmed_same:
  "trim_space (sd_ID d) = sd_ID d \<Longrightarrow> trim_space (sd_Command d) = sd_Command d \<Longrightarrow>
   trim_space (sd_PackageSource d) = sd_PackageSource d \<Longrightarrow> trim_space (sd_VersionConstraint d) = sd_VersionConstraint d \<Longrightarrow>
   trimmed d = d"
  by (simp add: trimmed_def)

lemma builtin_trimmed: "b \<in> set builtin_definitions \<Longrightarrow> trimmed b = b"
  using builtin_cases [of b] by (auto intro!: trimmed_same simp: builtin_trims demo_command)

lemma builtin_defaults:
  "b \<in> set builtin_definitions \<Longrightarrow>
     sd_LaunchSource b \<noteq> [] \<and> sd_Transport b \<noteq> [] \<and> sd_CredentialMode b \<noteq> [] \<and> (sd_Command b \<noteq> [] \<longrightarrow> b = demo_terraform)"
  using builtin_cases [of b] by auto

lemma terraform_prefix: "env_prefix ''terraform-official'' = ''IAC_STUDIO_MCP_TERRAFORM_OFFICIAL''"
  by code_simp

lemma builtin_launch:
  assumes "b \<in> set builtin_definitions" "sd_Trusted (normalize_definition getenv b)"
    "trim_space (sd_Command (normalize_definition getenv b)) \<noteq> []"
  shows "normalize_definition getenv b = demo_terraform"
    "trim_space (getenv ''IAC_STUDIO_MCP_TERRAFORM_OFFICIAL_COMMAND'') = []"
    "split_env_args (getenv ''IAC_STUDIO_MCP_TERRAFORM_OFFICIAL_ARGS'') = []"
    "split_env_args (getenv ''IAC_STUDIO_MCP_TERRAFORM_OFFICIAL_HEALTH_ARGS'') = []"
proof -
  have tr: "trimmed b = b" using builtin_trimmed assms(1) by blast
  have tru: "sd_Trusted (apply_env_overrides getenv (trimmed b))"
    using assms(2) by (auto simp: normalize_definition_def trimmed_def Let_def split: if_splits)
  note no = not_overridden [OF tru, unfolded tr]
  have n: "normalize_definition getenv b = b"
    using no(1) tr builtin_defaults [OF assms(1)] by (simp add: normalize_definition_def Let_def flip: trimmed_def)
  have "sd_Command b \<noteq> []" using assms(3) n builtin_trims(1) by auto
  then have b: "b = demo_terraform" using builtin_defaults [OF assms(1)] by blast
  show "normalize_definition getenv b = demo_terraform" using n b by simp
  show "trim_space (getenv ''IAC_STUDIO_MCP_TERRAFORM_OFFICIAL_COMMAND'') = []"
    "split_env_args (getenv ''IAC_STUDIO_MCP_TERRAFORM_OFFICIAL_ARGS'') = []"
    "split_env_args (getenv ''IAC_STUDIO_MCP_TERRAFORM_OFFICIAL_HEALTH_ARGS'') = []"
    using no(2-4) by (simp_all add: b terraform_prefix)
qed

section \<open>Launches\<close>

text \<open>C10: \<open>Start\<close> launches a server process only for a request that, in this order, passed the health
  check of a trusted stdio server with an approved executable, hashed the executable it resolved, and read a valid approval
  store that holds exactly this hash for the server and its launch source. The hash is the one the check
  saw, and the command is the resolved path. (The version probe of the health check, tool discovery and
  tool calls run the executable too, without an approval; they are not launches of \<open>Start\<close> and not
  events of this log.)\<close>

theorem launch_is_attested:
  assumes "launch_reach cf s" "LStarted t i h d \<in> set (ls_log s)"
  shows "\<exists>d0 st path content f disk. find_server cf i = Some d0 \<and> d = d0\<lparr>sd_Command := path\<rparr>
    \<and> sd_Trusted d0 \<and> sd_Transport d0 = ''stdio'' \<and> sst_Server st = d0 \<and> sst_Ready st
    \<and> sst_ExecutableAttestation st = AttestationApproved \<and> sst_ExecutableFingerprint st = Some f
    \<and> f = \<lparr>ef_Algorithm = ''sha256'', ef_Digest = hex_encode (sha256 content)\<rparr> \<and> approved_by disk d0 f
    \<and> subseq [LStarted t i h d, LVerdict t d0 f disk AttestationApproved, LHashed t path content f, LChecked t i st] (ls_log s)"
proof -
  have "evidence cf (ls_log s) t i d [LStarted t i h d]"
    using reach_trace [OF assms(1)] assms(2) by (auto simp: trace_inv_def launch_log_ok_def)
  then show ?thesis unfolding evidence_def passed_def by fastforce
qed

theorem launch_is_attested_witness:
  "\<exists>s d t. launch_reach launch_demo s \<and> LStarted t ''terraform-official'' 7 d \<in> set (ls_log s) \<and>
    (\<exists>d0 st path content f disk. find_server launch_demo ''terraform-official'' = Some d0 \<and> d = d0\<lparr>sd_Command := path\<rparr>
    \<and> sd_Trusted d0 \<and> sd_Transport d0 = ''stdio'' \<and> sst_Server st = d0 \<and> sst_Ready st
    \<and> sst_ExecutableAttestation st = AttestationApproved \<and> sst_ExecutableFingerprint st = Some f
    \<and> f = \<lparr>ef_Algorithm = ''sha256'', ef_Digest = hex_encode (sha256 content)\<rparr> \<and> approved_by disk d0 f
    \<and> subseq [LStarted t ''terraform-official'' 7 d, LVerdict t d0 f disk AttestationApproved, LHashed t path content f,
        LChecked t ''terraform-official'' st] (ls_log s))"
proof -
  obtain s path where s: "launch_reach launch_demo s"
    "LStarted 0 ''terraform-official'' 7 (demo_terraform\<lparr>sd_Command := path\<rparr>) \<in> set (ls_log s)"
    using launch_demo_run by blast
  with launch_is_attested [OF s] show ?thesis by blast
qed

text \<open>C12: With the built-in registry the only process that is ever started is the HashiCorp server, with the
  resolved path as its command, no arguments, and no environment override of command, arguments or health
  arguments in force.\<close>

theorem only_builtins_run:
  assumes "launch_reach cf s" "LStarted t i h d \<in> set (ls_log s)"
    and "cf_definitions cf = normalize_definitions getenv builtin_definitions"
  shows "(\<exists>path. d = demo_terraform\<lparr>sd_Command := path\<rparr>) \<and> trim_space i = ''terraform-official''
    \<and> trim_space (getenv ''IAC_STUDIO_MCP_TERRAFORM_OFFICIAL_COMMAND'') = []
    \<and> split_env_args (getenv ''IAC_STUDIO_MCP_TERRAFORM_OFFICIAL_ARGS'') = []
    \<and> split_env_args (getenv ''IAC_STUDIO_MCP_TERRAFORM_OFFICIAL_HEALTH_ARGS'') = []"
proof -
  have "evidence cf (ls_log s) t i d [LStarted t i h d]"
    using reach_trace [OF assms(1)] assms(2) by (auto simp: trace_inv_def launch_log_ok_def)
  then obtain d0 path where d0: "find_server cf i = Some d0" "d = d0\<lparr>sd_Command := path\<rparr>" "sd_Trusted d0"
    "trim_space (sd_Command d0) \<noteq> []" unfolding evidence_def passed_def by blast
  have "d0 \<in> set (cf_definitions cf)" "sd_ID d0 = trim_space i"
    using find_Some_in d0(1) unfolding find_server_def by fastforce+
  then obtain b where b: "b \<in> set builtin_definitions" "d0 = normalize_definition getenv b" "sd_ID d0 = trim_space i"
    by (auto simp: assms(3) normalize_definitions_def)
  have n: "sd_Trusted (normalize_definition getenv b)" "trim_space (sd_Command (normalize_definition getenv b)) \<noteq> []"
    using d0(3,4) b(2) by simp_all
  note l = builtin_launch [OF b(1) n]
  have "d0 = demo_terraform" using l(1) b(2) by simp
  then show ?thesis using d0(2) b(3) l(2-4) by auto
qed

theorem only_builtins_run_witness:
  "\<exists>s d. launch_reach launch_demo s \<and> LStarted 0 ''terraform-official'' 7 d \<in> set (ls_log s)
    \<and> (\<exists>path. d = demo_terraform\<lparr>sd_Command := path\<rparr>)"
proof -
  obtain s path where s: "launch_reach launch_demo s"
    "LStarted 0 ''terraform-official'' 7 (demo_terraform\<lparr>sd_Command := path\<rparr>) \<in> set (ls_log s)"
    using launch_demo_run by blast
  have "cf_definitions launch_demo = normalize_definitions (\<lambda>_. []) builtin_definitions" by (simp add: launch_demo_def)
  from only_builtins_run [OF s this] s show ?thesis by blast
qed

section \<open>Processes\<close>

lemma pending_phase:
  assumes "starting_at s t = Some (k, Some h)"
  shows "\<exists>at st. ls_threads s t = Some (StartFinish k at st (Inr h))"
proof -
  obtain ph where ph: "ls_threads s t = Some ph" "starting_of ph = Some (k, Some h)"
    using assms by (auto simp: starting_at_def split: option.splits)
  then show ?thesis by (cases ph) (auto split: sum.splits)
qed

text \<open>C11: In every reachable state a key is at most one of starting, running and stopping; a process is held
  under one key; and every live process is running, being stopped, or about to be recorded, unless its
  launcher gave it up when its request was cancelled.\<close>

theorem processes_are_tracked:
  assumes "launch_reach cf s"
  shows "\<not> (lc_starting (ls_life s) i \<noteq> None \<and> lc_running (ls_life s) i \<noteq> None)
    \<and> \<not> (lc_starting (ls_life s) i \<noteq> None \<and> lc_stopping (ls_life s) i \<noteq> None)
    \<and> \<not> (lc_running (ls_life s) i \<noteq> None \<and> lc_stopping (ls_life s) i \<noteq> None)
    \<and> (lc_running (ls_life s) i = Some r \<and> lc_running (ls_life s) j = Some q \<and> pr_handle r = pr_handle q \<longrightarrow> i = j)
    \<and> (ls_procs s h = Some Alive \<longrightarrow> LAbandoned h \<in> set (ls_log s)
       \<or> (\<exists>k r. lc_running (ls_life s) k = Some r \<and> pr_handle r = h)
       \<or> (\<exists>k r. lc_stopping (ls_life s) k = Some r \<and> pr_handle r = h)
       \<or> (\<exists>t k at st. ls_threads s t = Some (StartFinish k at st (Inr h))))"
proof (intro conjI impI)
  obtain c where c: "sim s c" "slots_ok c" using reach_slots [OF assms] by blast
  have rel: "slot_rel (ls_life s) (so_slot c k) k" for k using simD(1) [OF c(1)] .
  show "\<not> (lc_starting (ls_life s) i \<noteq> None \<and> lc_running (ls_life s) i \<noteq> None)"
    "\<not> (lc_starting (ls_life s) i \<noteq> None \<and> lc_stopping (ls_life s) i \<noteq> None)"
    "\<not> (lc_running (ls_life s) i \<noteq> None \<and> lc_stopping (ls_life s) i \<noteq> None)"
    using rel [of i] by (auto simp: slot_rel_def split: slot.splits)
  show "i = j" if a: "lc_running (ls_life s) i = Some r \<and> lc_running (ls_life s) j = Some q \<and> pr_handle r = pr_handle q"
  proof -
    have "so_slot c i = Running (pr_handle r)" "so_slot c j = Running (pr_handle r)"
      using running_slot [OF c(1)] a by auto
    then show ?thesis using slots_okD(1) [OF c(2), of i "pr_handle r" j] by simp
  qed
  assume "ls_procs s h = Some Alive"
  then have "so_procs c h = Some True" using simD(4) [OF c(1), of h] by simp
  then consider "h \<in> so_abandoned c" | k where "slot_handle (so_slot c k) = Some h" using slots_okD(4) [OF c(2)] by blast
  then show "LAbandoned h \<in> set (ls_log s) \<or> (\<exists>k r. lc_running (ls_life s) k = Some r \<and> pr_handle r = h)
       \<or> (\<exists>k r. lc_stopping (ls_life s) k = Some r \<and> pr_handle r = h)
       \<or> (\<exists>t k at st. ls_threads s t = Some (StartFinish k at st (Inr h)))"
  proof cases
    case 1
    then show ?thesis using simD(5) [OF c(1)] by blast
  next
    case (2 k)
    show ?thesis
    proof (cases "so_slot c k")
      case (Starting t n)
      then have "starting_at s t = Some (k, Some h)" using 2 simD(2) [OF c(1), of k t n] by simp
      then have "\<exists>at st. ls_threads s t = Some (StartFinish k at st (Inr h))" by (rule pending_phase)
      then show ?thesis by blast
    next
      case (Running g)
      then show ?thesis using 2 rel [of k] by (auto simp: slot_rel_def)
    next
      case (Stopping t g)
      then show ?thesis using 2 rel [of k] by (auto simp: slot_rel_def)
    qed (use 2 in simp)
  qed
qed

theorem processes_are_tracked_witness:
  "\<exists>s. launch_reach launch_demo s \<and> ls_procs s 7 = Some Alive \<and> LAbandoned 7 \<notin> set (ls_log s)
    \<and> ((\<exists>k r. lc_running (ls_life s) k = Some r \<and> pr_handle r = 7)
       \<or> (\<exists>k r. lc_stopping (ls_life s) k = Some r \<and> pr_handle r = 7)
       \<or> (\<exists>t k at st. ls_threads s t = Some (StartFinish k at st (Inr 7))))"
proof -
  obtain s where s: "launch_reach launch_demo s" "ls_procs s = [7 \<mapsto> Alive]" "LAbandoned 7 \<notin> set (ls_log s)"
    using launch_demo_run by blast
  from processes_are_tracked [OF s(1), of "[]" undefined "[]" undefined 7] s show ?thesis by (intro exI [of _ s]) simp
qed

text \<open>C13: The interleaved requests refine the machine in which a key is free, starting for one request, running
  one process or stopping for one request: whatever step a request makes in a reachable state related to a
  state of the machine, the machine has steps to a related state.\<close>

theorem requests_refine_slots:
  assumes "launch_reach cf s" "launch_step cf s s'" "sim s c"
  shows "\<exists>c'. slot_step\<^sup>*\<^sup>* c c' \<and> sim s' c'"
  by (rule step_sim [OF assms(2,3) reach_ended [OF assms(1)]])

theorem requests_refine_slots_witness:
  "\<exists>c'. slot_step\<^sup>*\<^sup>* slots_init c' \<and> sim (goto 0 (StopCall StopOne ''a'') init_state) c'"
proof -
  have "launch_step launch_demo init_state (goto 0 (StopCall StopOne ''a'') init_state)"
    by (rule launch_step.call_stop) (simp add: init_state_def)
  from requests_refine_slots [OF launch_reach.init this sim_init] show ?thesis .
qed

text \<open>C15: The gate opens: in any reachable state, if the key of a server is free and the host and the approvals
  make its check pass with an approved executable, a new request can run to the state in which its process is
  alive and recorded under the key, and the answer says that the server is running.\<close>

theorem approved_server_starts:
  assumes "launch_reach cf s" "ls_threads s t = None" "ls_procs s k = None" "find_server cf i = Some d"
    and "quiet_key (sd_ID d) s"
    and "lc_starting (ls_life s) i = None" "lc_running (ls_life s) i = None" "lc_stopping (ls_life s) i = None"
    and "sst_Ready (check_server cf (\<lambda>_. h) disk now d)"
    and "sst_ExecutableAttestation (check_server cf (\<lambda>_. h) disk now d) = AttestationApproved"
  shows "\<exists>s' path st. launch_reach cf s' \<and> resolve_executable h (sd_Command d) = Some path
    \<and> LStarted t i k (d\<lparr>sd_Command := path\<rparr>) \<in> set (ls_log s') \<and> ls_procs s' k = Some Alive
    \<and> lc_running (ls_life s') i = Some \<lparr>pr_handle = k, pr_startedAt = now\<rparr>
    \<and> ls_threads s' t = Some (Answered (Status st)) \<and> sst_Running st"
  using launch_run [OF assms] unfolding launched_state_def by fastforce

theorem approved_server_starts_witness:
  "\<exists>s' st. launch_reach launch_demo s' \<and> ls_procs s' 7 = Some Alive
    \<and> ls_threads s' 0 = Some (Answered (Status st)) \<and> sst_Running st"
proof -
  have "\<exists>s' path st. launch_reach launch_demo s' \<and> resolve_executable demo_host (sd_Command demo_terraform) = Some path
    \<and> LStarted 0 ''terraform-official'' 7 (demo_terraform\<lparr>sd_Command := path\<rparr>) \<in> set (ls_log s') \<and> ls_procs s' 7 = Some Alive
    \<and> lc_running (ls_life s') ''terraform-official'' = Some \<lparr>pr_handle = 7, pr_startedAt = 3\<rparr>
    \<and> ls_threads s' 0 = Some (Answered (Status st)) \<and> sst_Running st"
    by (rule approved_server_starts [OF launch_reach.init _ _ demo_find(1) _ _ _ _ demo_checked [of 3]])
      (simp_all add: init_state_def new_lifecycle_def quiet_key_def)
  then show ?thesis by blast
qed

text \<open>The maps are keyed by the id as it is spelled in the request, but the server is looked up by the
  trimmed id: a blank in front starts a second process of the same server.\<close>

lemma blank_id_second_process:
  "\<exists>s r q. launch_reach launch_demo s \<and> find_server launch_demo '' terraform-official'' = find_server launch_demo ''terraform-official''
    \<and> lc_running (ls_life s) ''terraform-official'' = Some r \<and> lc_running (ls_life s) '' terraform-official'' = Some q
    \<and> pr_handle r \<noteq> pr_handle q \<and> ls_procs s (pr_handle r) = Some Alive \<and> ls_procs s (pr_handle q) = Some Alive"
proof -
  obtain s where s: "launch_reach launch_demo s"
    "lc_running (ls_life s) = [''terraform-official'' \<mapsto> \<lparr>pr_handle = 7, pr_startedAt = 3\<rparr>]"
    "ls_procs s = [7 \<mapsto> Alive]" "lc_starting (ls_life s) = Map.empty" "lc_stopping (ls_life s) = Map.empty"
    "\<forall>u. u \<noteq> 0 \<longrightarrow> ls_threads s u = None"
    using launch_demo_run by blast
  have "\<exists>s' path. launch_reach launch_demo s' \<and> launched_state 1 '' terraform-official'' 8 4 s s'
    \<and> resolve_executable demo_host (sd_Command demo_terraform) = Some path
    \<and> LStarted 1 '' terraform-official'' 8 (demo_terraform\<lparr>sd_Command := path\<rparr>) \<in> set (ls_log s')"
    by (rule launch_run [OF s(1) _ _ demo_find(2) _ _ _ _ demo_checked [of 4]]) (simp_all add: s quiet_key_def)
  then obtain s' where s': "launch_reach launch_demo s'" "launched_state 1 '' terraform-official'' 8 4 s s'" by blast
  then have r: "lc_running (ls_life s') ''terraform-official'' = Some \<lparr>pr_handle = 7, pr_startedAt = 3\<rparr>"
    "lc_running (ls_life s') '' terraform-official'' = Some \<lparr>pr_handle = 8, pr_startedAt = 4\<rparr>"
    "ls_procs s' 7 = Some Alive" "ls_procs s' 8 = Some Alive"
    using s by (simp_all add: launched_state_def)
  show ?thesis
  proof (intro exI conjI)
    show "find_server launch_demo '' terraform-official'' = find_server launch_demo ''terraform-official''"
      by (simp add: demo_find)
  qed (use s' r in auto)
qed

section \<open>Approvals\<close>

lemma save_Some:
  assumes "attestation_save too_large fault st disk1 disk2 a = (st', disk', Some e)"
  shows "st' = st \<and> dir_made disk2 disk'"
proof -
  have p: "dir_made disk2 d" if "persist_attestations too_large fault m disk2 = (d, Some x)" for m d x
    by (rule persist_fails [OF that])
  show ?thesis
    using assms p unfolding attestation_save_def Let_def by (auto split: if_splits option.splits sum.splits prod.splits)
qed

lemma save_None:
  assumes "attestation_save too_large fault st disk1 disk2 a = (st', disk', None)"
  shows "\<exists>current. load_attestations disk1 = Inr current \<and> maps_equal current (ats_attestations st)
    \<and> validate_attestation a = None
    \<and> (map_of current (attestation_key_of a) \<noteq> None \<or> length current < max_executable_attestations)
    \<and> st' = st\<lparr>ats_attestations := AList.update (attestation_key_of a) a current\<rparr>
    \<and> persist_attestations too_large fault (AList.update (attestation_key_of a) a current) disk2 = (disk', None)"
  using assms unfolding attestation_save_def Let_def by (auto split: if_splits option.splits sum.splits prod.splits)

lemma approval_saved:
  assumes "new_attestation_store disk0 pd = Inr st" "attestation_save too_large fault st disk1 disk2 a = (st', disk', None)"
  shows "ats_path st' = ats_path st" "map_of (ats_attestations st') = (map_of (ats_attestations st))(attestation_key_of a \<mapsto> a)"
    "\<not> too_large (ad_file disk')"
    "\<exists>m. load_attestations disk' = Inr m \<and> map_of m = map_of (ats_attestations st') \<and> map_of m (attestation_key_of a) = Some a
       \<and> attestations_ok m"
proof -
  have ok: "attestations_ok (ats_attestations st)"
    using assms(1) load_attestations_ok by (auto simp: new_attestation_store_def split: if_splits sum.splits)
  from save_None [OF assms(2)] obtain current where c: "load_attestations disk1 = Inr current"
    "maps_equal current (ats_attestations st)" "validate_attestation a = None"
    "map_of current (attestation_key_of a) \<noteq> None \<or> length current < max_executable_attestations"
    "st' = st\<lparr>ats_attestations := AList.update (attestation_key_of a) a current\<rparr>"
    "persist_attestations too_large fault (AList.update (attestation_key_of a) a current) disk2 = (disk', None)"
    by blast
  have co: "attestations_ok current" using c(1) by (rule load_attestations_ok)
  then have same: "map_of current = map_of (ats_attestations st)"
    using c(2) ok maps_equal_map_of by (auto simp: attestations_ok_def)
  have up: "attestations_ok (AList.update (attestation_key_of a) a current)"
    using update_attestations_ok [OF co c(3,4)] .
  show "ats_path st' = ats_path st" "map_of (ats_attestations st') = (map_of (ats_attestations st))(attestation_key_of a \<mapsto> a)"
    "\<not> too_large (ad_file disk')"
    using persist_ok [OF c(6)] by (simp_all add: c(5) same update_conv')
  obtain m where m: "load_attestations disk' = Inr m" "attestations_ok m"
    "map_of m = map_of (AList.update (attestation_key_of a) a current)"
    using load_snapshot [OF up] persist_ok(1) [OF c(6)] by metis
  show "\<exists>m. load_attestations disk' = Inr m \<and> map_of m = map_of (ats_attestations st') \<and> map_of m (attestation_key_of a) = Some a
       \<and> attestations_ok m"
  proof (intro exI conjI)
    show "map_of m = map_of (ats_attestations st')" using m(3) c(5) by simp
    show "map_of m (attestation_key_of a) = Some a" unfolding m(3) by (simp add: update_conv')
  qed (use m in blast)+
qed

text \<open>C16: A save either fails, keeps the store and the file, and at most has created the missing
  directory, or leaves a file that loads as the approvals of the store with exactly the saved one replaced, every one valid and at most 1024.\<close>

theorem approvals_roundtrip:
  assumes "new_attestation_store disk0 pd = Inr st" "attestation_save too_large fault st disk1 disk2 a = (st', disk', r)"
  shows "case r of
      Some e \<Rightarrow> st' = st \<and> dir_made disk2 disk'
    | None \<Rightarrow> ats_path st' = ats_path st \<and> map_of (ats_attestations st') = (map_of (ats_attestations st))(attestation_key_of a \<mapsto> a)
        \<and> \<not> too_large (ad_file disk')
        \<and> (\<exists>m. load_attestations disk' = Inr m \<and> map_of m = map_of (ats_attestations st') \<and> attestations_ok m)"
proof (cases r)
  case None
  then show ?thesis using approval_saved [OF assms(1) assms(2) [unfolded None]] by auto
next
  case (Some e)
  then show ?thesis using save_Some assms(2) by auto
qed

definition empty_disk :: attest_disk where
  "empty_disk = \<lparr>ad_dir = DirMissing, ad_file = AttMissing\<rparr>"

definition demo_store :: attest_store where
  "demo_store = \<lparr>ats_path = path_join [path_clean ''/p'', ''.iac-studio'', ''mcp-airlock-attestations.json''],
     ats_attestations = []\<rparr>"

lemma empty_load: "load_attestations empty_disk = Inr []"
  by (simp add: load_attestations_def empty_disk_def secure_existing_dir_def)

lemma graphic_not_blank: "graphic c \<Longrightarrow> trim_space (c # r) \<noteq> []"
  by (rule trim_space_nonblank [OF trim_left_graphic])

lemma rooted_not_blank: "trim_space (path_clean (CHR ''/'' # p)) \<noteq> []"
proof -
  have "\<exists>r. path_clean (CHR ''/'' # p) = CHR ''/'' # r"
    by (simp add: path_clean_def path_is_abs_def has_prefix_def Let_def)
  moreover have "graphic (CHR ''/'')" by code_simp
  ultimately show ?thesis using graphic_not_blank by auto
qed

lemma demo_paths: "trim_space ''/p'' \<noteq> []" "trim_space (ats_path demo_store) \<noteq> []"
proof -
  show "trim_space ''/p'' \<noteq> []" by (rule graphic_not_blank) code_simp
  have "path_clean ''/p'' = ''/p''" by code_simp
  then show "trim_space (ats_path demo_store) \<noteq> []"
    by (simp add: demo_store_def path_join_def Let_def rooted_not_blank del: trim_left.simps)
qed

lemma demo_store_open: "new_attestation_store empty_disk ''/p'' = Inr demo_store"
  by (simp add: new_attestation_store_def empty_load demo_paths(1) demo_store_def)

lemma demo_store_empty: "ats_attestations demo_store = []"
  by (simp add: demo_store_def)

text \<open>A save into the empty store, whatever is on the disk when it is written.\<close>

lemma demo_save:
  assumes "validate_attestation a = None" "ad_dir disk \<in> {DirMissing, DirPrivate}" "ad_file disk \<in> {AttMissing, AttSnapshot v l}"
  shows "attestation_save (\<lambda>_. False) NoFault demo_store empty_disk disk a =
    (demo_store\<lparr>ats_attestations := [(attestation_key_of a, a)]\<rparr>,
     \<lparr>ad_dir = DirPrivate, ad_file = AttSnapshot 1 (Some [a])\<rparr>, None)"
  using assms
  by (auto simp: attestation_save_def demo_paths(2) demo_store_empty empty_load maps_equal_def max_executable_attestations_def
      persist_attestations_def ensure_private_dir_def secure_existing_dir_def attestation_snapshot_def
      attestation_store_version_def)

theorem approvals_roundtrip_witness:
  "\<exists>m. load_attestations \<lparr>ad_dir = DirPrivate, ad_file = AttSnapshot 1 (Some [demo_attestation])\<rparr> = Inr m
    \<and> map_of m = [attestation_key_of demo_attestation \<mapsto> demo_attestation] \<and> attestations_ok m"
proof -
  have "attestation_save (\<lambda>_. False) NoFault demo_store empty_disk empty_disk demo_attestation =
    (demo_store\<lparr>ats_attestations := [(attestation_key_of demo_attestation, demo_attestation)]\<rparr>,
     \<lparr>ad_dir = DirPrivate, ad_file = AttSnapshot 1 (Some [demo_attestation])\<rparr>, None)"
    by (rule demo_save [of _ _ 0 None]) (simp_all add: demo_attestation_valid empty_disk_def)
  from approvals_roundtrip [OF demo_store_open this] show ?thesis by (simp add: demo_store_empty)
qed

text \<open>The reading again before a write is not atomic with the write, and every request has a store and a
  mutex of its own: the second of two approvals can drop the first one.\<close>

lemma concurrent_approval_lost:
  "\<exists>a b stA diskA stB diskB m.
     attestation_save (\<lambda>_. False) NoFault demo_store empty_disk empty_disk a = (stA, diskA, None)
     \<and> attestation_save (\<lambda>_. False) NoFault demo_store empty_disk diskA b = (stB, diskB, None)
     \<and> load_attestations diskB = Inr m \<and> map_of m (attestation_key_of a) = None"
proof -
  let ?b = "demo_attestation\<lparr>at_LaunchSource := ''explicit_definition''\<rparr>"
  let ?disk = "\<lambda>x. \<lparr>ad_dir = DirPrivate, ad_file = AttSnapshot 1 (Some [x])\<rparr>"
  have vb: "validate_attestation ?b = None"
    using demo_attestation_valid
    by (simp add: validate_attestation_def demo_attestation_def demo_id LaunchSourceExplicitDefinition_def split: if_splits)
  have "attestation_save (\<lambda>_. False) NoFault demo_store empty_disk empty_disk demo_attestation =
      (demo_store\<lparr>ats_attestations := [(attestation_key_of demo_attestation, demo_attestation)]\<rparr>, ?disk demo_attestation, None)"
    by (rule demo_save [of _ _ 0 None]) (simp_all add: demo_attestation_valid empty_disk_def)
  moreover have "attestation_save (\<lambda>_. False) NoFault demo_store empty_disk (?disk demo_attestation) ?b =
      (demo_store\<lparr>ats_attestations := [(attestation_key_of ?b, ?b)]\<rparr>, ?disk ?b, None)"
    by (rule demo_save [of _ _ 1 "Some [demo_attestation]"]) (simp_all add: vb)
  moreover have "load_attestations (?disk ?b) = Inr [(attestation_key_of ?b, ?b)]"
    by (simp add: load_attestations_def secure_existing_dir_def attestation_store_version_def max_executable_attestations_def vb)
  moreover have "map_of [(attestation_key_of ?b, ?b)] (attestation_key_of demo_attestation) = None"
    by (simp add: attestation_key_of_def demo_attestation_def)
  ultimately show ?thesis by blast
qed

text \<open>C14: An approval either fails and leaves the approvals file as it was (at most it has created the
  missing directory for it), or records exactly the fingerprint the caller
  expected, which is the hash of the file the command of a trusted available server resolved to; from then on
  this fingerprint is approved for the server and its launch source, and any other is reported as changed.\<close>

theorem approval_is_exact:
  assumes "approve_executable sm pr too_large fault definitions pd ctx hs ds now i expected = (disk', r)"
  shows "case r of
      Inl e \<Rightarrow> dir_made (ds 2) disk'
    | Inr a \<Rightarrow> \<exists>d path content. d \<in> set definitions \<and> sd_ID d = trim_space i \<and> sd_Trusted d \<and> sd_Transport d = ''stdio''
        \<and> resolve_executable (hs 1) (sd_Command d) = Some path \<and> ho_File (hs 2) path = Some content
        \<and> expected = \<lparr>ef_Algorithm = ''sha256'', ef_Digest = hex_encode (sha256 content)\<rparr>
        \<and> a = \<lparr>at_ServerID = sd_ID d, at_LaunchSource = sd_LaunchSource d, at_Fingerprint = expected, at_ApprovedAt = now\<rparr>
        \<and> (\<forall>f. fst (executable_attestation_status pd disk' d f) = (if f = expected then AttestationApproved else AttestationChanged))"
proof (cases r)
  case (Inl e)
  then show ?thesis using assms save_Some
    by (auto simp: approve_executable_def Let_def split: option.splits if_splits sum.splits prod.splits)
next
  case (Inr a)
  from assms obtain d path st st' where d: "find (\<lambda>d. sd_ID d = trim_space i) definitions = Some d"
    "sst_State (passive_status sm pr (ho_LookPath (hs 0)) d) = ''available''"
    "resolve_executable (hs 1) (sd_Command d) = Some path" "fingerprint_executable (ho_File (hs 2)) path = Some expected"
    "new_attestation_store (ds 0) pd = Inr st"
    "attestation_save too_large fault st (ds 1) (ds 2) a = (st', disk', None)"
    "a = \<lparr>at_ServerID = sd_ID d, at_LaunchSource = sd_LaunchSource d, at_Fingerprint = expected, at_ApprovedAt = now\<rparr>"
    unfolding Inr approve_executable_def Let_def same_fingerprint_eq
    by (auto split: option.splits if_splits sum.splits prod.splits)
  have in_defs: "d \<in> set definitions" "sd_ID d = trim_space i" using find_Some_in [OF d(1)] by simp_all
  obtain content where c: "ho_File (hs 2) path = Some content"
    "expected = \<lparr>ef_Algorithm = ''sha256'', ef_Digest = hex_encode (sha256 content)\<rparr>"
    using d(4) by (auto simp: fingerprint_executable_def split: option.splits if_splits)
  from approval_saved [OF d(5,6)] obtain m where m: "load_attestations disk' = Inr m"
    "map_of m (attestation_key_of a) = Some a" by blast
  have pd: "trim_space pd \<noteq> []" using d(5) by (auto simp: new_attestation_store_def split: if_splits)
  have "fst (executable_attestation_status pd disk' d f) = (if f = expected then AttestationApproved else AttestationChanged)" for f
    using m(2) by (simp add: executable_attestation_status_def new_attestation_store_def m(1) pd Let_def
        attestation_verdict_def attestation_get_def attestation_key_of_def d(7))
  then show ?thesis using Inr in_defs passive_available [OF d(2)] d(3,7) c by auto
qed

theorem approval_is_exact_witness:
  "\<exists>disk'. approve_executable demo_semver (\<lambda>_. True) (\<lambda>_. False) NoFault (cf_definitions launch_demo) ''/p'' (\<lambda>_. None)
      (\<lambda>_. demo_host) (\<lambda>_. empty_disk) 1 ''terraform-official'' demo_fingerprint = (disk', Inr demo_attestation)
    \<and> (\<exists>d. sd_ID d = trim_space ''terraform-official'' \<and> sd_Trusted d
         \<and> fst (executable_attestation_status ''/p'' disk' d demo_fingerprint) = AttestationApproved)"
proof -
  let ?disk = "\<lparr>ad_dir = DirPrivate, ad_file = AttSnapshot 1 (Some [demo_attestation])\<rparr>"
  have f: "fingerprint_executable (\<lambda>_. Some ''binary'') ''/bin/t'' = Some demo_fingerprint"
    by (simp add: fingerprint_executable_def max_executable_fingerprint_bytes_def demo_fingerprint_def)
  have a: "\<lparr>at_ServerID = ''terraform-official'', at_LaunchSource = ''registry'', at_Fingerprint = demo_fingerprint,
     at_ApprovedAt = 1\<rparr> = demo_attestation" by (simp add: demo_attestation_def)
  have v: "validate_executable_fingerprint demo_fingerprint = None"
    unfolding demo_fingerprint_def by (rule fingerprint_valid)
  have s: "attestation_save (\<lambda>_. False) NoFault demo_store empty_disk empty_disk demo_attestation =
      (demo_store\<lparr>ats_attestations := [(attestation_key_of demo_attestation, demo_attestation)]\<rparr>, ?disk, None)"
    by (rule demo_save [of _ _ 0 None]) (simp_all add: demo_attestation_valid empty_disk_def)
  have "find (\<lambda>d. sd_ID d = trim_space ''terraform-official'') (cf_definitions launch_demo) = Some demo_terraform"
    using demo_find(1) unfolding find_server_def .
  then have r: "approve_executable demo_semver (\<lambda>_. True) (\<lambda>_. False) NoFault (cf_definitions launch_demo) ''/p'' (\<lambda>_. None)
      (\<lambda>_. demo_host) (\<lambda>_. empty_disk) 1 ''terraform-official'' demo_fingerprint = (?disk, Inr demo_attestation)"
    by (simp add: approve_executable_def v demo_host_def demo_available resolve_executable_def demo_command f
        same_fingerprint_eq demo_store_open a s Let_def)
  from approval_is_exact [OF r] have "\<exists>d. sd_ID d = trim_space ''terraform-official'' \<and> sd_Trusted d
      \<and> fst (executable_attestation_status ''/p'' ?disk d demo_fingerprint) = AttestationApproved"
    by auto
  with r show ?thesis by blast
qed

text \<open>The default launcher drops the error of \<open>handle.Stop\<close> when the request is cancelled: a process that did
  not stop in time lives on, and no request can see or stop it.\<close>

lemma cancelled_launch_leaks:
  "\<exists>s. launch_reach launch_demo s \<and> ls_procs s 7 = Some Alive \<and> ls_life s = new_lifecycle
    \<and> (\<exists>st. ls_threads s 0 = Some (Answered (Status st)) \<and> sst_State st = ''launch_failed'')
    \<and> (\<forall>u. u \<noteq> 0 \<longrightarrow> ls_threads s u = None)"
proof -
  have "\<exists>s'. launch_reach launch_demo s' \<and> ls_procs s' 7 = Some Alive \<and> ls_life s' = ls_life init_state
    \<and> (\<exists>st. ls_threads s' 0 = Some (Answered (Status st)) \<and> sst_State st = ''launch_failed'')
    \<and> (\<forall>u. u \<noteq> 0 \<longrightarrow> ls_threads s' u = ls_threads init_state u)"
    by (rule abandoned_run [OF launch_reach.init _ _ demo_find(1) _ _ _ _ demo_checked [of 3]])
      (simp_all add: init_state_def new_lifecycle_def quiet_key_def)
  then show ?thesis by (simp add: init_state_def)
qed

end
