(* ===== verification/Spec2Isabelle.thy ===== *)
theory Spec2Isabelle
  imports AgentRuns_Props Airlock_Props Routing_Props Authorizer_Props Plan_Props Gate_Props
    Runner_Props Blast_Props Attempt_Props Agent_Props Iac_Props Safe_Paths Policy_Props
    Security_Props Sync_Props Airlock_Launch_Props
begin

text \<open>
  IaC Studio edits, plans and applies infrastructure as code, by hand and by agents. This
  development models the parts of its server that decide whether something may happen: which
  agent may call which tool, which approval pays for it, which plan may be applied, what a
  subprocess sees, and what a retry does.

  The parts and their theories (sources under \<open>src/internal/\<close>):

  \<^item> \<^bold>\<open>Agent runs\<close> (\<open>agentruns/store.go\<close>): \<open>AgentRuns\<close> has the run store with every operation as a
    function from a store to a store and an error; \<open>AgentRuns_Inv\<close> the step relation of its
    operations and the invariant of reachable stores, with the locales \<open>run_property\<close> and
    \<open>run_relation\<close> for what one mutation must keep; \<open>AgentRuns_Facts\<close> and \<open>AgentRuns_Props\<close> the
    lifecycle, approvals and bindings. \<open>Redact\<close>, \<open>Regexp\<close>, \<open>Utf8\<close> and \<open>PatchPath\<close> are its text and
    path functions.
  \<^item> \<^bold>\<open>Airlock\<close> (\<open>mcpairlock/tools.go\<close>, parts of \<open>registry.go\<close> and \<open>tool_call.go\<close>), the firewall of
    external tools: \<open>Airlock_Tools\<close> decides a tool, \<open>Airlock_Redact\<close> redacts, \<open>Airlock_Inventory\<close>
    keeps the inventory and the allowlist, \<open>Tool_Call\<close> has the request and result values, and
    \<open>Airlock_Facts\<close> and \<open>Airlock_Props\<close> show that decisions fail closed and that only confirmed
    schemas are free. \<open>Go_Json\<close> and \<open>Go_Quote\<close> are the encodings used.
  \<^item> \<^bold>\<open>Airlock processes\<close> (\<open>mcpairlock/registry.go\<close>, \<open>version.go\<close>, \<open>attestations.go\<close>, \<open>approval.go\<close>,
    \<open>lifecycle.go\<close>): \<open>Airlock_Version\<close> and \<open>Airlock_Registry\<close> have the definitions of servers, the
    environment overrides, version policies and the passive status, \<open>Airlock_Attest\<close> the durable
    approvals of executables, \<open>Airlock_Launch\<close> the health check and the critical sections of a
    launch and a stop, \<open>Airlock_Steps\<close> their interleaving by many requests as a step relation.
    \<open>Airlock_Slots\<close> is the abstract machine of one key, \<open>Airlock_Sim\<close> and \<open>Airlock_Life\<close> the forward
    simulation into it, \<open>Airlock_Trace\<close> the invariant of what a request has seen, \<open>Airlock_Run\<close> an
    undisturbed launch, and \<open>Airlock_Launch_Props\<close> the properties: every process that \<open>Start\<close> launches
    was approved, every live one is tracked, and the gate opens for an approved server. The version
    probe, tool discovery and tool calls run the same executable without an approval; the processes
    of the latter two are outside of the model and the probe is an argument.
  \<^item> \<^bold>\<open>Agent routing\<close> (\<open>agentrouting/\<close>): \<open>Routing_Policy\<close>, \<open>Routing_Decision\<close>, \<open>Routing_Store\<close> (the
    policy store in memory and on disk, locale \<open>policy_repository\<close>), \<open>Authorizer\<close> (locale
    \<open>tool_evaluator\<close>, interpreted on the Airlock), \<open>Approval_Binding\<close> over \<open>Crypto\<close> (SHA-256 and
    HMAC written out), \<open>Recorder\<close>, \<open>Router\<close> and \<open>Executor\<close>. An execution is a sequence of accesses
    to the run store; between two of them other operations may happen, which are an argument
    of the model. \<open>Executor_Facts\<close>, \<open>Routing_Props\<close> and \<open>Authorizer_Props\<close> show that an invocation
    was authorized, was paid by an approval for exactly this operation, and was recorded.
  \<^item> \<^bold>\<open>Idempotency\<close> (\<open>api/agent_tool_execution_idempotency.go\<close>, \<open>agent_tool_route_idempotency.go\<close>):
    \<open>Attempt_Store\<close> has the critical sections over a heap of attempts, \<open>Attempt_Facts\<close> the locale
    \<open>idempotent_store\<close> with both stores as its interpretations, \<open>Attempt_Props\<close> the properties.
  \<^item> \<^bold>\<open>Plans\<close> (\<open>plan/plan.go\<close>, \<open>plan/classifier.go\<close>): \<open>Plan_Parse\<close>, \<open>Plan_Classify\<close>, \<open>Plan_Props\<close>.
  \<^item> \<^bold>\<open>The apply gate\<close> (\<open>api/plan_gate.go\<close>, \<open>api/plan_classification.go\<close>, the run handler of
    \<open>api/router.go\<close>): \<open>Plan_Gate\<close> over \<open>Go_Filepath\<close>, and \<open>Gate_Props\<close>, from the gate of one request
    to the way from a plan to its apply.
  \<^item> \<^bold>\<open>The runner\<close> (\<open>runner/runner.go\<close>, \<open>runner/safe_runner.go\<close>): \<open>Safe_Runner\<close>, \<open>Runner_Props\<close>.
  \<^item> \<^bold>\<open>The blast radius\<close> (\<open>blast/blast.go\<close>): \<open>Blast\<close>, \<open>Blast_Props\<close>.
  \<^item> \<^bold>\<open>AI agents\<close> (\<open>ai/tools/tools.go\<close>, \<open>ai/providers/anthropic_tooluse.go\<close>, \<open>ai/agent/agent.go\<close>,
    \<open>api/agent.go\<close>): \<open>Agent_Tools\<close> has the registry and the runner of a batch of calls,
    \<open>Agent_Loop\<close> the tool-use loop (locale \<open>batch_runner\<close>), \<open>Agent_Run\<close> the specialists and a run,
    which interprets that locale, and \<open>Agent_Props\<close> that a run stays within its budget, its
    protocol and its tools, whatever the model answers. \<open>Json_Valid\<close> is the check of
    \<open>encoding/json\<close> that decides whether a request can be sent.
  \<^item> \<^bold>\<open>The tools of an agent\<close> (\<open>ai/tools/iac_tools.go\<close>): \<open>File_System\<close> models a Unix file system
    with symbolic links and the calls on it, which may be denied, break off a write or fail to remove
    a temporary file, \<open>Write_Tool\<close> the tool that writes Terraform,
    \<open>Findings\<close> the merging of findings (\<open>policy/engines/engines.go\<close>,
    \<open>security/scanners/scanners.go\<close>), \<open>Iac_Tools\<close> the seven tools and \<open>Iac_Props\<close> what a run can
    change with them.
  \<^item> \<^bold>\<open>Path checks\<close> and \<^bold>\<open>sync\<close> (\<open>api/router.go\<close>): \<open>Safe_Paths\<close> has the checks, over the same
    file system, \<open>Sync_Code\<close> the handlers that write code and generated code, \<open>Sync_Props\<close> that they
    write admitted files through their temporary paths only and close the gate of their project.
  \<^item> \<^bold>\<open>Guardrails\<close> (\<open>policy/policy.go\<close>, \<open>security/scanner.go\<close>): \<open>Policy_Rules\<close> has the built-in
    policy engine and its fifteen rules, \<open>Policy_Props\<close> what exactly makes a project fail them;
    \<open>Security_Scan\<close> has the checks and the score of the scanner, \<open>Security_Props\<close> that the report
    adds up and that the offered fixes remove what they are offered for; no code of the repository
    applies a fix, so that function is a reading of its fields.

  \<open>Go_Map\<close> has Go maps as association lists. \<open>Prelude\<close> has what they share: Go's string functions over bytes (a Go string is a list of
  characters that stand for bytes), numbers as text, and the collections of simplification rules
  for the string constants of the sources.

  Conventions. A Go struct is a record with its field names behind a prefix, a string
  enumeration stays a string, an error is a constructor of a datatype or \<open>None\<close>. A Go map is a
  partial function, or an association list in the order a loop visits it; where a result could
  depend on that order the properties hold for every order. A mutex is a critical section and a
  critical section one function; operations that take several are sequences of functions.
  Times are integers in nanoseconds and durations likewise; Go's \<open>int\<close> counters are numbers
  that the sources bound far below their width. No function of the model needs fuel: loops are
  structural recursions or folds, and the few that are not have a termination proof. The number
  of links a path resolution follows is a limit of the code's own: 40 in the kernel, 255 in Go.

  Texts that go through a JSON file are kept only if they are valid UTF-8: the model of the policy
  file replaces other bytes as \<open>encoding/json\<close> does, and the approvals of executables admit ASCII only.

  Arguments stand for what is outside: the clock, files as the bytes read or an error, what
  \<open>encoding/json\<close> decodes from a text, the printable runes of \<open>strconv\<close>, the transport of a tool
  call, the verdict of the policy engines, the order of map iteration, and cancellation.

  Not modelled: HTTP framing, WebSockets, the providers of language models other than the
  tool-use loop, prompts, retrieval, cloud connections, external processes, the generators and
  parsers of Terraform and Pulumi code, catalogs, scaffolds, the external scanners and policy
  engines, drift, recovery, cost, and the operating system's part of atomic file replacement.
  The manifest lists them one by one.
\<close>

end
